(* ===== verification/Prelude.thy ===== *)
theory Prelude
  imports Main "HOL-Library.Char_ord" "HOL-Library.List_Lexorder"
begin

text \<open>
  Vocabulary shared by every component: Go errors as values, the early-return
  composition of fallible steps, nilable slices, decimal printing, and the anchored
  regular expressions that the packages use to recognise digests, names and grant
  identifiers. Go strings and byte slices are both HOL strings, one \<open>char\<close> per byte.
\<close>

section \<open>Errors\<close>

text \<open>
  \<open>New m\<close> is \<open>errors.New(m)\<close>, \<open>Errf f args\<close> is \<open>fmt.Errorf(f, args)\<close> with the format
  kept apart from its operands, \<open>Wrap m e\<close> is \<open>fmt.Errorf("m: %w", e)\<close> and \<open>Sentinel n\<close>
  is a package level error variable that callers compare with \<open>errors.Is\<close>.
\<close>

datatype goerror =
    New string
  | Errf string "string list"
  | Wrap string goerror
  | Sentinel string

fun errors_is :: "goerror \<Rightarrow> goerror \<Rightarrow> bool" where
  "errors_is (Wrap m e) t = (Wrap m e = t \<or> errors_is e t)"
| "errors_is e t = (e = t)"

type_synonym 'a result = "goerror + 'a"

text \<open>\<open>if err != nil { return err }\<close> between two calls.\<close>

definition bindE :: "'e + 'a \<Rightarrow> ('a \<Rightarrow> 'e + 'b) \<Rightarrow> 'e + 'b" where
  "bindE m f = (case m of Inl e \<Rightarrow> Inl e | Inr x \<Rightarrow> f x)"

lemma bindE_Inl [simp]: "bindE (Inl e) f = Inl e"
  by (simp add: bindE_def)

lemma bindE_Inr [simp]: "bindE (Inr x) f = f x"
  by (simp add: bindE_def)

lemma bindE_eq_Inr: "bindE m f = Inr y \<longleftrightarrow> (\<exists>x. m = Inr x \<and> f x = Inr y)"
  by (cases m) simp_all

lemma bindE_cong [fundef_cong]:
  assumes "m = m'" and "\<And>x. m' = Inr x \<Longrightarrow> f x = f' x"
  shows "bindE m f = bindE m' f'"
  using assms by (cases m') simp_all

text \<open>Wrapping the error of a callee: \<open>fmt.Errorf("m: %w", err)\<close>.\<close>

definition wrapE :: "string \<Rightarrow> 'a result \<Rightarrow> 'a result" where
  "wrapE m r = (case r of Inl e \<Rightarrow> Inl (Wrap m e) | Inr x \<Rightarrow> Inr x)"

lemma wrapE_eq_Inr [simp]: "wrapE m r = Inr x \<longleftrightarrow> r = Inr x"
  by (cases r) (simp_all add: wrapE_def)

lemma wrapE_Inr [simp]: "wrapE m (Inr x) = Inr x"
  by (simp add: wrapE_def)

text \<open>Replacing the error of a callee by a fixed one.\<close>

definition orE :: "'e \<Rightarrow> 'd + 'a \<Rightarrow> 'e + 'a" where
  "orE e r = (case r of Inl _ \<Rightarrow> Inl e | Inr x \<Rightarrow> Inr x)"

lemma orE_eq_Inr [simp]: "orE e r = Inr x \<longleftrightarrow> r = Inr x"
  by (cases r) (simp_all add: orE_def)

lemma orE_Inr [simp]: "orE e (Inr x) = Inr x"
  by (simp add: orE_def)

definition of_option :: "'e \<Rightarrow> 'a option \<Rightarrow> 'e + 'a" where
  "of_option e x = (case x of None \<Rightarrow> Inl e | Some y \<Rightarrow> Inr y)"

lemma of_option_eq_Inr [simp]: "of_option e x = Inr y \<longleftrightarrow> x = Some y"
  by (cases x) (simp_all add: of_option_def)

lemma of_option_Some [simp]: "of_option e (Some y) = Inr y"
  by (simp add: of_option_def)

lemma if_Inl_eq_Inr [simp]: "(if b then Inl e else r) = Inr y \<longleftrightarrow> \<not> b \<and> r = Inr y"
  by simp

text \<open>
  Reading a successful run backwards: each rule turns one construct of the early-return style into
  the facts that hold when the whole returns a value.
\<close>

lemma case_option_eq_Inr:
  "(case x of None \<Rightarrow> Inl e | Some y \<Rightarrow> f y) = Inr z \<longleftrightarrow> (\<exists>y. x = Some y \<and> f y = Inr z)"
  by (cases x) simp_all

lemma case_sum_eq_Inr:
  "(case m of Inl a \<Rightarrow> Inl (g a) | Inr y \<Rightarrow> f y) = Inr z \<longleftrightarrow> (\<exists>y. m = Inr y \<and> f y = Inr z)"
  by (cases m) simp_all

lemmas Inr_conv = bindE_eq_Inr if_Inl_eq_Inr case_option_eq_Inr case_sum_eq_Inr wrapE_eq_Inr
  orE_eq_Inr of_option_eq_Inr split_paired_Ex prod.case sum.inject Let_def
  de_Morgan_disj de_Morgan_conj not_not

text \<open>A loop that stops at the first error.\<close>

fun mapE :: "('a \<Rightarrow> 'e + 'b) \<Rightarrow> 'a list \<Rightarrow> 'e + 'b list" where
  "mapE f [] = Inr []"
| "mapE f (x # xs) = bindE (f x) (\<lambda>y. bindE (mapE f xs) (\<lambda>ys. Inr (y # ys)))"

lemma mapE_cong [fundef_cong]:
  assumes "xs = ys" and "\<And>x. x \<in> set ys \<Longrightarrow> f x = g x"
  shows "mapE f xs = mapE g ys"
  using assms by (induction xs arbitrary: ys) auto

lemma mapE_Inr_map: "(\<And>x. x \<in> set xs \<Longrightarrow> f x = Inr (g x)) \<Longrightarrow> mapE f xs = Inr (map g xs)"
  by (induction xs) auto

lemma mapE_eq_Inr_iff: "mapE f xs = Inr ys \<longleftrightarrow> list_all2 (\<lambda>x y. f x = Inr y) xs ys"
  by (induction xs arbitrary: ys) (auto simp: bindE_eq_Inr list_all2_Cons1)

section \<open>Nilable slices\<close>

text \<open>
  A Go slice is \<open>nil\<close> or holds elements; the difference matters to \<open>encoding/json\<close>
  (\<open>null\<close> against \<open>[]\<close>) and to the explicit \<open>== nil\<close> checks of the packages.
\<close>

type_synonym 'a slice = "'a list option"

definition elems :: "'a slice \<Rightarrow> 'a list" where
  "elems s = (case s of None \<Rightarrow> [] | Some xs \<Rightarrow> xs)"

lemma elems_simps [simp]: "elems None = []" "elems (Some xs) = xs"
  by (simp_all add: elems_def)

section \<open>Decimal numbers\<close>

definition digit :: "nat \<Rightarrow> char" where
  "digit n = char_of (48 + n)"

definition is_digit :: "char \<Rightarrow> bool" where
  "is_digit c \<longleftrightarrow> CHR ''0'' \<le> c \<and> c \<le> CHR ''9''"

definition digit_val :: "char \<Rightarrow> nat" where
  "digit_val c = of_char c - 48"

lemma of_char_digit: "n < 10 \<Longrightarrow> of_char (digit n) = 48 + n"
  by (simp add: digit_def)

lemma is_digit_iff: "is_digit c \<longleftrightarrow> 48 \<le> (of_char c :: nat) \<and> (of_char c :: nat) \<le> 57"
  by (simp add: is_digit_def less_eq_char_def)

lemma is_digit_digit [simp]: "n < 10 \<Longrightarrow> is_digit (digit n)"
  by (simp add: is_digit_iff of_char_digit)

lemma digit_val_digit [simp]: "n < 10 \<Longrightarrow> digit_val (digit n) = n"
  by (simp add: digit_val_def of_char_digit)

lemma digit_eq_iff: "n < 10 \<Longrightarrow> m < 10 \<Longrightarrow> digit n = digit m \<longleftrightarrow> n = m"
  by (metis digit_val_digit)

fun show_nat :: "nat \<Rightarrow> string" where
  "show_nat n = (if n < 10 then [digit n] else show_nat (n div 10) @ [digit (n mod 10)])"

declare show_nat.simps [simp del]

definition parse_digits :: "string \<Rightarrow> nat" where
  "parse_digits s = foldl (\<lambda>a c. 10 * a + digit_val c) 0 s"

lemma parse_digits_snoc [simp]: "parse_digits (s @ [c]) = 10 * parse_digits s + digit_val c"
  by (simp add: parse_digits_def)

lemma parse_digits_show_nat [simp]: "parse_digits (show_nat n) = n"
proof (induction n rule: show_nat.induct)
  case (1 n)
  show ?case
  proof (cases "n < 10")
    case True
    then show ?thesis by (simp add: show_nat.simps [of n] parse_digits_def)
  next
    case False
    with 1 show ?thesis by (simp add: show_nat.simps [of n])
  qed
qed

lemma show_nat_digits: "list_all is_digit (show_nat n)"
proof (induction n rule: show_nat.induct)
  case (1 n)
  then show ?case by (cases "n < 10") (simp_all add: show_nat.simps [of n])
qed

lemma show_nat_nonempty [simp]: "show_nat n \<noteq> []"
  by (simp add: show_nat.simps [of n])

lemma hd_show_nat: "hd (show_nat n) = CHR ''0'' \<longleftrightarrow> n = 0"
proof (induction n rule: show_nat.induct)
  case (1 n)
  have z: "CHR ''0'' = digit 0" by (simp add: digit_def char_of_def bit_simps)
  show ?case
  proof (cases "n < 10")
    case True
    then show ?thesis by (simp add: show_nat.simps [of n] z digit_eq_iff)
  next
    case False
    with 1 have "hd (show_nat (n div 10)) = CHR ''0'' \<longleftrightarrow> n div 10 = 0" by simp
    with False show ?thesis by (simp add: show_nat.simps [of n] div_eq_0_iff)
  qed
qed

definition show_int :: "int \<Rightarrow> string" where
  "show_int i = (if i < 0 then CHR ''-'' # show_nat (nat (- i)) else show_nat (nat i))"

section \<open>Anchored patterns\<close>

definition is_lower_hex :: "char \<Rightarrow> bool" where
  "is_lower_hex c \<longleftrightarrow> is_digit c \<or> (CHR ''a'' \<le> c \<and> c \<le> CHR ''f'')"

definition hex_digit :: "nat \<Rightarrow> char" where
  "hex_digit n = (if n < 10 then digit n else char_of (87 + n))"

lemma is_lower_hex_hex_digit: "n < 16 \<Longrightarrow> is_lower_hex (hex_digit n)"
  by (auto simp: hex_digit_def is_lower_hex_def is_digit_iff of_char_digit less_eq_char_def)

definition is_lower_alnum :: "char \<Rightarrow> bool" where
  "is_lower_alnum c \<longleftrightarrow> is_digit c \<or> (CHR ''a'' \<le> c \<and> c \<le> CHR ''z'')"

definition is_alnum :: "char \<Rightarrow> bool" where
  "is_alnum c \<longleftrightarrow> is_lower_alnum c \<or> (CHR ''A'' \<le> c \<and> c \<le> CHR ''Z'')"

definition is_ascii :: "char \<Rightarrow> bool" where
  "is_ascii c \<longleftrightarrow> c < CHR 0x80"

text \<open>\<open>^[0-9a-f]{64}$\<close>\<close>

definition hex64 :: "string \<Rightarrow> bool" where
  "hex64 s \<longleftrightarrow> length s = 64 \<and> list_all is_lower_hex s"

text \<open>\<open>^sha256:[0-9a-f]{64}$\<close>\<close>

definition digest_pattern :: "string \<Rightarrow> bool" where
  "digest_pattern s \<longleftrightarrow> take 7 s = ''sha256:'' \<and> hex64 (drop 7 s)"

text \<open>\<open>^[a-z0-9][a-z0-9.-]{lo,hi}$\<close>\<close>

definition lower_name :: "nat \<Rightarrow> nat \<Rightarrow> string \<Rightarrow> bool" where
  "lower_name lo hi s \<longleftrightarrow> (case s of [] \<Rightarrow> False
     | c # cs \<Rightarrow> is_lower_alnum c \<and> lo \<le> length cs \<and> length cs \<le> hi
         \<and> list_all (\<lambda>d. is_lower_alnum d \<or> d = CHR ''.'' \<or> d = CHR ''-'') cs)"

lemma lower_alnum_ascii: "is_lower_alnum c \<Longrightarrow> is_ascii c"
  by (auto simp: is_lower_alnum_def is_digit_iff is_ascii_def less_char_def less_eq_char_def)

lemma lower_hex_ascii: "is_lower_hex c \<Longrightarrow> is_ascii c"
  by (auto simp: is_lower_hex_def is_digit_iff is_ascii_def less_char_def less_eq_char_def)

lemma digest_pattern_nonempty: "digest_pattern s \<Longrightarrow> s \<noteq> []"
  by (auto simp: digest_pattern_def)

lemma digest_pattern_empty [simp]: "\<not> digest_pattern []"
  by (simp add: digest_pattern_def)

lemma digest_pattern_ascii: "digest_pattern s \<Longrightarrow> list_all is_ascii s"
proof -
  assume d: "digest_pattern s"
  have "list_all is_ascii (take 7 s @ drop 7 s)"
    unfolding list_all_append
  proof
    show "list_all is_ascii (take 7 s)"
      using d by (simp add: digest_pattern_def is_ascii_def)
    show "list_all is_ascii (drop 7 s)"
      using d by (auto simp: digest_pattern_def hex64_def intro: list.pred_mono_strong lower_hex_ascii)
  qed
  then show ?thesis by simp
qed

lemma lower_name_ascii: "lower_name lo hi s \<Longrightarrow> list_all is_ascii s"
proof -
  assume n: "lower_name lo hi s"
  then obtain c cs where s: "s = c # cs" by (cases s) (auto simp: lower_name_def)
  have "list_all is_ascii cs"
    using n by (auto simp: s lower_name_def is_ascii_def list.pred_set intro: lower_alnum_ascii [unfolded is_ascii_def])
  with n show ?thesis by (simp add: s lower_name_def lower_alnum_ascii)
qed

lemma lower_name_empty [simp]: "\<not> lower_name lo hi []"
  by (simp add: lower_name_def)

text \<open>Go's \<open>allowed\<close> and \<open>oneOf\<close>: equality with one of the listed choices.\<close>

definition allowed :: "string \<Rightarrow> string list \<Rightarrow> bool" where
  "allowed v choices \<longleftrightarrow> v \<in> set choices"

lemma allowed_simps [simp]:
  "allowed v [] = False" "allowed v (c # cs) = (v = c \<or> allowed v cs)"
  by (auto simp: allowed_def)

end
