(* ===== verification/Json.thy ===== *)
theory Json
  imports Prelude
begin

text \<open>
  The JSON text layer of Go's \<open>encoding/json\<close> as the executor uses it: UTF-8 runes, the
  string quoting of \<open>Marshal\<close> and \<open>Encoder\<close> (with and without HTML escaping), a scanner with
  Go's nesting limit, and \<open>Decode\<close> into untyped values with \<open>UseNumber\<close>. The main theorem
  says that decoding printed text gives the printed value back, with invalid UTF-8 replaced.
\<close>

section \<open>Values\<close>

text \<open>
  Untyped values. A number keeps its literal (\<open>json.Number\<close>), an object its members in the
  order of the text, repeated keys included.
\<close>

datatype json =
    JNull
  | JBool bool
  | JNum string
  | JStr string
  | JArr "json list"
  | JObj "(string \<times> json) list"

section \<open>UTF-8\<close>

abbreviation byte :: "char \<Rightarrow> nat" where
  "byte c \<equiv> of_char c"

text \<open>U+FFFD, which replaces every invalid byte.\<close>

definition rune_error :: string where
  "rune_error = [CHR 0xEF, CHR 0xBF, CHR 0xBD]"

definition in_byte_range :: "nat \<Rightarrow> nat \<Rightarrow> char \<Rightarrow> bool" where
  "in_byte_range lo hi c \<longleftrightarrow> lo \<le> byte c \<and> byte c \<le> hi"

text \<open>\<open>utf8.DecodeRune\<close>: the rune and its width, \<open>None\<close> where Go returns \<open>(RuneError, 1)\<close>.\<close>

fun decode_rune :: "string \<Rightarrow> (nat \<times> nat) option" where
  "decode_rune [] = None"
| "decode_rune (c0 # r) =
     (let b0 = byte c0 in
      if b0 < 128 then Some (b0, 1)
      else if b0 < 194 then None
      else if b0 < 224 then (case r of
          c1 # _ \<Rightarrow> if in_byte_range 128 191 c1 then Some ((b0 - 192) * 64 + (byte c1 - 128), 2) else None
        | [] \<Rightarrow> None)
      else if b0 < 240 then (case r of
          c1 # c2 # _ \<Rightarrow>
            if in_byte_range (if b0 = 224 then 160 else 128) (if b0 = 237 then 159 else 191) c1
               \<and> in_byte_range 128 191 c2
            then Some (((b0 - 224) * 64 + (byte c1 - 128)) * 64 + (byte c2 - 128), 3) else None
        | _ \<Rightarrow> None)
      else if b0 < 245 then (case r of
          c1 # c2 # c3 # _ \<Rightarrow>
            if in_byte_range (if b0 = 240 then 144 else 128) (if b0 = 244 then 143 else 191) c1
               \<and> in_byte_range 128 191 c2 \<and> in_byte_range 128 191 c3
            then Some ((((b0 - 240) * 64 + (byte c1 - 128)) * 64 + (byte c2 - 128)) * 64
                + (byte c3 - 128), 4) else None
        | _ \<Rightarrow> None)
      else None)"

definition is_surrogate :: "nat \<Rightarrow> bool" where
  "is_surrogate r \<longleftrightarrow> 0xD800 \<le> r \<and> r \<le> 0xDFFF"

text \<open>\<open>utf8.EncodeRune\<close>\<close>

definition encode_rune :: "nat \<Rightarrow> string" where
  "encode_rune r =
     (if r < 128 then [char_of r]
      else if r < 2048 then [char_of (192 + r div 64), char_of (128 + r mod 64)]
      else if is_surrogate r \<or> 0x10FFFF < r then rune_error
      else if r < 65536
        then [char_of (224 + r div 4096), char_of (128 + r div 64 mod 64), char_of (128 + r mod 64)]
      else [char_of (240 + r div 262144), char_of (128 + r div 4096 mod 64),
            char_of (128 + r div 64 mod 64), char_of (128 + r mod 64)])"

lemma decode_rune_width: "decode_rune s = Some (r, n) \<Longrightarrow> 1 \<le> n \<and> n \<le> length s"
  by (cases s) (auto simp: Let_def split: if_splits list.splits)

lemma decode_rune_ascii: "byte c < 128 \<Longrightarrow> decode_rune (c # s) = Some (byte c, 1)"
  by simp

lemma decode_rune_narrow: "decode_rune (c # s) = Some (r, Suc 0) \<Longrightarrow> byte c < 128 \<and> r = byte c"
  by (auto simp: Let_def split: if_splits list.splits)

lemma decode_rune_wide: "decode_rune (c # s) = Some (r, n) \<Longrightarrow> n \<noteq> 1 \<Longrightarrow> 128 \<le> byte c \<and> 128 \<le> r"
  by (auto simp: Let_def in_byte_range_def split: if_splits list.splits)

lemma char_of_byte_eq: "n = byte c \<Longrightarrow> char_of n = c"
  by simp

lemma split64: "x < 64 \<Longrightarrow> (k * 64 + x) div 64 = k" "x < 64 \<Longrightarrow> (k * 64 + x) mod 64 = (x::nat)"
  by simp_all

lemma encode_decode_rune:
  assumes "decode_rune s = Some (r, n)"
  shows "encode_rune r = take n s"
proof (cases s)
  case Nil
  with assms show ?thesis by simp
next
  case (Cons c0 t)
  define b0 where "b0 = byte c0"
  consider "b0 < 128" "r = b0" "n = 1"
    | c1 u where "t = c1 # u" "194 \<le> b0" "b0 < 224" "128 \<le> byte c1" "byte c1 \<le> 191" "n = 2"
        "r = (b0 - 192) * 64 + (byte c1 - 128)"
    | c1 c2 u where "t = c1 # c2 # u" "224 \<le> b0" "b0 < 240" "128 \<le> byte c1" "byte c1 \<le> 191"
        "b0 = 224 \<Longrightarrow> 160 \<le> byte c1" "b0 = 237 \<Longrightarrow> byte c1 \<le> 159" "128 \<le> byte c2" "byte c2 \<le> 191" "n = 3"
        "r = ((b0 - 224) * 64 + (byte c1 - 128)) * 64 + (byte c2 - 128)"
    | c1 c2 c3 u where "t = c1 # c2 # c3 # u" "240 \<le> b0" "b0 < 245" "128 \<le> byte c1" "byte c1 \<le> 191"
        "b0 = 240 \<Longrightarrow> 144 \<le> byte c1" "b0 = 244 \<Longrightarrow> byte c1 \<le> 143" "128 \<le> byte c2" "byte c2 \<le> 191"
        "128 \<le> byte c3" "byte c3 \<le> 191" "n = 4"
        "r = (((b0 - 240) * 64 + (byte c1 - 128)) * 64 + (byte c2 - 128)) * 64 + (byte c3 - 128)"
    using assms unfolding Cons b0_def
    by (auto simp: Let_def in_byte_range_def split: if_splits list.splits)
  then show ?thesis
  proof cases
    case 1
    then show ?thesis by (simp add: Cons encode_rune_def b0_def)
  next
    case (2 c1 u)
    define x1 where "x1 = byte c1 - 128"
    have "x1 < 64" "byte c1 = 128 + x1" using 2 by (simp_all add: x1_def)
    moreover have "128 \<le> r" "r < 2048" "r div 64 = b0 - 192" "r mod 64 = x1"
      using 2 \<open>x1 < 64\<close> by (simp_all add: x1_def [symmetric])
    ultimately show ?thesis using 2
      by (simp add: Cons encode_rune_def b0_def char_of_byte_eq)
  next
    case (3 c1 c2 u)
    define x0 x1 x2 where "x0 = b0 - 224" and "x1 = byte c1 - 128" and "x2 = byte c2 - 128"
    have x: "x0 < 16" "x1 < 64" "x2 < 64" "b0 = 224 + x0" "byte c1 = 128 + x1" "byte c2 = 128 + x2"
      using 3 by (simp_all add: x0_def x1_def x2_def)
    have r: "r = (x0 * 64 + x1) * 64 + x2" using 3 by (simp add: x0_def x1_def x2_def)
    have d: "r div 64 = x0 * 64 + x1" "r mod 64 = x2"
      unfolding r using x(3) by (simp_all only: split64)
    have "r div 4096 = r div 64 div 64" by (simp add: div_mult2_eq [symmetric])
    then have "r div 4096 = x0" "r div 64 mod 64 = x1" using x d by simp_all
    moreover have "2048 \<le> r" "r < 65536" "\<not> 0x10FFFF < r"
      using x r 3(6) by (cases "x0 = 0"; simp)+
    moreover have "\<not> is_surrogate r"
    proof
      assume "is_surrogate r"
      then have "13 \<le> x0" "x0 \<le> 13" using x r by (simp_all add: is_surrogate_def)
      with 3(7) x r \<open>is_surrogate r\<close> show False by (simp add: is_surrogate_def)
    qed
    ultimately show ?thesis using x d 3
      by (simp add: Cons encode_rune_def b0_def char_of_byte_eq)
  next
    case (4 c1 c2 c3 u)
    define x0 x1 x2 x3 where "x0 = b0 - 240" and "x1 = byte c1 - 128" and "x2 = byte c2 - 128"
      and "x3 = byte c3 - 128"
    have x: "x0 < 5" "x1 < 64" "x2 < 64" "x3 < 64" "b0 = 240 + x0" "byte c1 = 128 + x1"
      "byte c2 = 128 + x2" "byte c3 = 128 + x3"
      using 4 by (simp_all add: x0_def x1_def x2_def x3_def)
    have r: "r = ((x0 * 64 + x1) * 64 + x2) * 64 + x3" using 4 by (simp add: x0_def x1_def x2_def x3_def)
    have d: "r div 64 = (x0 * 64 + x1) * 64 + x2" "r mod 64 = x3"
      unfolding r using x(4) by (simp_all only: split64)
    have "r div 4096 = r div 64 div 64" "r div 262144 = r div 64 div 64 div 64"
      by (simp_all add: div_mult2_eq [symmetric])
    then have "r div 262144 = x0" "r div 4096 mod 64 = x1" "r div 64 mod 64 = x2"
      by (simp_all only: d split64 [OF x(3)] split64 [OF x(2)])
    moreover have "65536 \<le> r" using x r 4(6) by (cases "x0 = 0") simp_all
    moreover from this have "\<not> is_surrogate r" by (simp add: is_surrogate_def)
    moreover have "\<not> 0x10FFFF < r" using x r 4(7) by (cases "x0 = 4") simp_all
    ultimately show ?thesis
      by (simp add: Cons encode_rune_def d 4(1,12) x(5-8) [symmetric], simp add: b0_def)
  qed
qed

declare decode_rune.simps(2) [simp del]
declare decode_rune_ascii [simp]

section \<open>Valid UTF-8 and its repair\<close>

text \<open>Every invalid byte becomes U+FFFD, as the encoder and the decoder both do.\<close>

function sanitize :: "string \<Rightarrow> string" where
  "sanitize s = (case s of [] \<Rightarrow> []
     | c # cs \<Rightarrow> (case decode_rune s of
           None \<Rightarrow> rune_error @ sanitize cs
         | Some (r, n) \<Rightarrow> take n s @ sanitize (drop n s)))"
  by pat_completeness auto
termination
  by (relation "measure length") (auto dest: decode_rune_width)

declare sanitize.simps [simp del]

definition valid_utf8 :: "string \<Rightarrow> bool" where
  "valid_utf8 s \<longleftrightarrow> sanitize s = s"

lemma sanitize_Nil [simp]: "sanitize [] = []"
  by (simp add: sanitize.simps)

lemma sanitize_ascii_Cons: "byte c < 128 \<Longrightarrow> sanitize (c # s) = c # sanitize s"
  by (simp add: sanitize.simps [of "c # s"])

lemma sanitize_ascii: "list_all is_ascii s \<Longrightarrow> sanitize s = s"
  by (induction s) (simp_all add: sanitize_ascii_Cons is_ascii_def less_char_def)

lemma valid_utf8_ascii: "list_all is_ascii s \<Longrightarrow> valid_utf8 s"
  by (simp add: valid_utf8_def sanitize_ascii)

lemma valid_utf8_Nil [simp]: "valid_utf8 []"
  by (simp add: valid_utf8_def)

lemma valid_utf8_digest: "digest_pattern s \<Longrightarrow> valid_utf8 s"
  by (rule valid_utf8_ascii) (rule digest_pattern_ascii)

lemma valid_utf8_name: "lower_name lo hi s \<Longrightarrow> valid_utf8 s"
  by (rule valid_utf8_ascii) (rule lower_name_ascii)

section \<open>Quoting\<close>

abbreviation bslash :: char where "bslash \<equiv> CHR 0x5C"
abbreviation dquote :: char where "dquote \<equiv> CHR 0x22"

definition u_escape :: "nat \<Rightarrow> string" where
  "u_escape r = [bslash, CHR ''u'', hex_digit (r div 4096 mod 16), hex_digit (r div 256 mod 16),
     hex_digit (r div 16 mod 16), hex_digit (r mod 16)]"

definition quote_ascii :: "bool \<Rightarrow> char \<Rightarrow> string" where
  "quote_ascii html c =
     (if c = bslash \<or> c = dquote then [bslash, c]
      else if c = CHR 0x08 then [bslash, CHR ''b'']
      else if c = CHR 0x0C then [bslash, CHR ''f'']
      else if c = CHR 0x0A then [bslash, CHR ''n'']
      else if c = CHR 0x0D then [bslash, CHR ''r'']
      else if c = CHR 0x09 then [bslash, CHR ''t'']
      else if byte c < 32 then u_escape (byte c)
      else if html \<and> (c = CHR ''<'' \<or> c = CHR ''>'' \<or> c = CHR ''&'') then u_escape (byte c)
      else [c])"

text \<open>\<open>appendString\<close>, rune by rune; \<open>html\<close> is \<open>SetEscapeHTML\<close>.\<close>

function quote_body :: "bool \<Rightarrow> string \<Rightarrow> string" where
  "quote_body html s = (case s of [] \<Rightarrow> []
     | c # cs \<Rightarrow> (case decode_rune s of
           None \<Rightarrow> u_escape 0xFFFD @ quote_body html cs
         | Some (r, n) \<Rightarrow>
             (if n = 1 then quote_ascii html c
              else if r = 0x2028 \<or> r = 0x2029 then u_escape r
              else take n s) @ quote_body html (drop n s)))"
  by pat_completeness auto
termination
  by (relation "measure (\<lambda>(h, s). length s)") (auto dest: decode_rune_width)

declare quote_body.simps [simp del]

definition quote :: "bool \<Rightarrow> string \<Rightarrow> string" where
  "quote html s = [dquote] @ quote_body html s @ [dquote]"

section \<open>Unquoting\<close>

definition hex_val :: "char \<Rightarrow> nat option" where
  "hex_val c =
     (if is_digit c then Some (byte c - 48)
      else if CHR ''a'' \<le> c \<and> c \<le> CHR ''f'' then Some (byte c - 87)
      else if CHR ''A'' \<le> c \<and> c \<le> CHR ''F'' then Some (byte c - 55)
      else None)"

fun hex4 :: "string \<Rightarrow> (nat \<times> string) option" where
  "hex4 (a # b # c # d # r) =
     (case (hex_val a, hex_val b, hex_val c, hex_val d) of
        (Some w, Some x, Some y, Some z) \<Rightarrow> Some (((w * 16 + x) * 16 + y) * 16 + z, r)
      | _ \<Rightarrow> None)"
| "hex4 _ = None"

text \<open>\<open>utf16.DecodeRune\<close>: the rune of a surrogate pair.\<close>

definition decode_pair :: "nat \<Rightarrow> nat \<Rightarrow> nat option" where
  "decode_pair hi lo =
     (if 0xD800 \<le> hi \<and> hi < 0xDC00 \<and> 0xDC00 \<le> lo \<and> lo < 0xE000
      then Some ((hi - 0xD800) * 1024 + (lo - 0xDC00) + 0x10000) else None)"

definition simple_escape :: "char \<Rightarrow> char option" where
  "simple_escape e =
     (if e = dquote \<or> e = bslash \<or> e = CHR ''/'' then Some e
      else if e = CHR ''b'' then Some (CHR 0x08)
      else if e = CHR ''f'' then Some (CHR 0x0C)
      else if e = CHR ''n'' then Some (CHR 0x0A)
      else if e = CHR ''r'' then Some (CHR 0x0D)
      else if e = CHR ''t'' then Some (CHR 0x09)
      else None)"

definition surrogate_tail :: "nat \<Rightarrow> string \<Rightarrow> string \<times> string" where
  "surrogate_tail v r =
     (case r of
        b # u # r' \<Rightarrow>
          if b = bslash \<and> u = CHR ''u'' then
            (case hex4 r' of
               Some (v2, r2) \<Rightarrow> (case decode_pair v v2 of
                   Some x \<Rightarrow> (encode_rune x, r2)
                 | None \<Rightarrow> (rune_error, r))
             | None \<Rightarrow> (rune_error, r))
          else (rune_error, r)
      | _ \<Rightarrow> (rune_error, r))"

text \<open>One character of a string literal: the bytes it stands for and the rest of the input.\<close>

fun unquote_step :: "string \<Rightarrow> (string \<times> string) option" where
  "unquote_step [] = None"
| "unquote_step (c # r) =
     (if c = bslash then
        (case r of [] \<Rightarrow> None
         | e # r' \<Rightarrow>
             if e = CHR ''u'' then
               (case hex4 r' of None \<Rightarrow> None
                | Some (v, r2) \<Rightarrow>
                    if is_surrogate v then Some (surrogate_tail v r2) else Some (encode_rune v, r2))
             else (case simple_escape e of None \<Rightarrow> None | Some d \<Rightarrow> Some ([d], r')))
      else if byte c < 32 then None
      else (case decode_rune (c # r) of
          None \<Rightarrow> Some (rune_error, r)
        | Some (x, n) \<Rightarrow> Some (encode_rune x, drop n (c # r))))"

lemma hex4_length: "hex4 s = Some (v, r) \<Longrightarrow> length r < length s"
  by (cases s rule: hex4.cases) (auto split: option.splits)

lemma surrogate_tail_length: "length (snd (surrogate_tail v r)) \<le> length r"
  by (auto simp: surrogate_tail_def split: list.splits option.splits dest: hex4_length)

lemma unquote_step_length: "unquote_step s = Some (d, r) \<Longrightarrow> length r < length s"
proof (induction s rule: unquote_step.induct)
  case (2 c t)
  have st: "surrogate_tail v u = (d, r) \<Longrightarrow> length r \<le> length u" for v u
    using surrogate_tail_length [of v u] by simp
  show ?case
    using 2 by (auto dest!: hex4_length st decode_rune_width split: if_splits option.splits list.splits)
qed simp

declare unquote_step.simps(2) [simp del]

text \<open>The rest of a string literal after its opening quote.\<close>

function lex_string :: "string \<Rightarrow> (string \<times> string) option" where
  "lex_string s = (case s of [] \<Rightarrow> None
     | c # r \<Rightarrow> if c = dquote then Some ([], r)
         else (case unquote_step s of None \<Rightarrow> None
           | Some (d, r') \<Rightarrow> map_option (\<lambda>(x, y). (d @ x, y)) (lex_string r')))"
  by pat_completeness auto
termination
  by (relation "measure length") (auto dest!: unquote_step_length)

declare lex_string.simps [simp del]

lemma hex_val_hex_digit [simp]: "n < 16 \<Longrightarrow> hex_val (hex_digit n) = Some n"
  by (auto simp: hex_val_def hex_digit_def is_digit_iff of_char_digit less_eq_char_def)

lemma hex4_u_escape:
  assumes "n < 65536"
  shows "hex4 (drop 2 (u_escape n) @ X) = Some (n, X)"
proof -
  have "n div 256 = n div 16 div 16" "n div 4096 = n div 16 div 16 div 16"
    by (simp_all add: div_mult2_eq [symmetric])
  then have "((n div 4096 * 16 + n div 256 mod 16) * 16 + n div 16 mod 16) * 16 + n mod 16 = n"
    by (metis div_mult_mod_eq)
  moreover have "n div 4096 < 16" using assms by (simp add: less_mult_imp_div_less)
  ultimately show ?thesis by (simp add: u_escape_def)
qed

lemma unquote_step_u_escape:
  assumes "n < 65536" and "\<not> is_surrogate n"
  shows "unquote_step (u_escape n @ X) = Some (encode_rune n, X)"
proof -
  have u: "u_escape n @ X = bslash # CHR ''u'' # (drop 2 (u_escape n) @ X)" by (simp add: u_escape_def)
  show ?thesis by (subst u) (simp add: unquote_step.simps(2) hex4_u_escape assms)
qed

lemma encode_rune_ascii: "byte c < 128 \<Longrightarrow> encode_rune (byte c) = [c]"
  by (simp add: encode_rune_def)

lemma unquote_step_quote_ascii:
  assumes "byte c < 128"
  shows "unquote_step (quote_ascii html c @ X) = Some ([c], X)"
proof -
  have u: "unquote_step (u_escape (byte c) @ X) = Some ([c], X)"
    using unquote_step_u_escape [of "byte c" X] assms by (simp add: is_surrogate_def encode_rune_ascii)
  have p: "c \<noteq> bslash \<Longrightarrow> \<not> byte c < 32 \<Longrightarrow> unquote_step (c # X) = Some ([c], X)"
    using assms by (simp add: unquote_step.simps(2) encode_rune_ascii)
  show ?thesis
    using u p by (auto simp: quote_ascii_def unquote_step.simps(2) simple_escape_def)
qed

lemma decode_rune_prefix:
  assumes "decode_rune s = Some (r, n)"
  shows "decode_rune (take n s @ X) = Some (r, n)"
proof (cases s)
  case Nil
  with assms show ?thesis by simp
next
  case (Cons c t)
  with assms show ?thesis
    by (auto simp: decode_rune.simps(2) Let_def split: if_splits list.splits)
qed

lemma unquote_step_wide:
  assumes "decode_rune s = Some (r, n)" and "n \<noteq> 1"
  shows "unquote_step (take n s @ X) = Some (take n s, X)"
proof (cases s)
  case Nil
  with assms show ?thesis by simp
next
  case (Cons c t)
  have w: "1 \<le> n" "n \<le> length s" using decode_rune_width [OF assms(1)] by auto
  then obtain u where u: "take n s @ X = c # u" by (cases n) (simp_all add: Cons)
  have c: "128 \<le> byte c" using decode_rune_wide assms by (simp add: Cons)
  then have "c \<noteq> bslash" by auto
  with c decode_rune_prefix [OF assms(1), of X] encode_decode_rune [OF assms(1)]
  have "unquote_step (c # u) = Some (take n s, drop n (c # u))"
    by (simp add: unquote_step.simps(2) u)
  then show ?thesis using w by (simp flip: u)
qed

lemma lex_string_step:
  "unquote_step (p @ X) = Some (d, X) \<Longrightarrow> p \<noteq> [] \<Longrightarrow> hd p \<noteq> dquote \<Longrightarrow>
    lex_string (p @ X) = map_option (\<lambda>(x, y). (d @ x, y)) (lex_string X)"
  by (cases p) (simp_all add: lex_string.simps [of "_ # _"])

lemma u_escape_props: "u_escape n \<noteq> []" "hd (u_escape n) \<noteq> dquote"
  by (simp_all add: u_escape_def)

lemma quote_ascii_props: "quote_ascii h c \<noteq> []" "hd (quote_ascii h c) \<noteq> dquote"
  by (auto simp: quote_ascii_def u_escape_def)

theorem lex_string_quote: "lex_string (quote_body html s @ dquote # X) = Some (sanitize s, X)"
proof (induction html s rule: quote_body.induct)
  case (1 html s)
  show ?case
  proof (cases s)
    case Nil
    then show ?thesis by (simp add: quote_body.simps lex_string.simps)
  next
    case (Cons c cs)
    show ?thesis
    proof (cases "decode_rune s")
      case None
      have "lex_string (u_escape 0xFFFD @ (quote_body html cs @ dquote # X))
          = map_option (\<lambda>(x, y). (rune_error @ x, y)) (lex_string (quote_body html cs @ dquote # X))"
        by (rule lex_string_step)
          (simp_all add: unquote_step_u_escape u_escape_props is_surrogate_def,
           simp add: encode_rune_def is_surrogate_def rune_error_def char_of_def bit_simps)
      with 1(1) [OF Cons None] None show ?thesis
        by (simp add: quote_body.simps [of html "c # cs"] sanitize.simps [of "c # cs"] Cons)
    next
      case (Some rn)
      obtain r n where rn: "rn = (r, n)" by (cases rn)
      define p where "p = (if n = 1 then quote_ascii html c
          else if r = 0x2028 \<or> r = 0x2029 then u_escape r else take n s)"
      have w: "1 \<le> n" "n \<le> length s" using decode_rune_width Some rn by auto
      have "unquote_step (p @ Y) = Some (take n s, Y)" for Y
      proof (cases "n = 1")
        case True
        then show ?thesis using Some rn
          by (auto simp: p_def Cons unquote_step_quote_ascii dest: decode_rune_narrow)
      next
        case False
        then show ?thesis
          using Some rn encode_decode_rune [of s r n]
          by (auto simp: p_def unquote_step_u_escape is_surrogate_def unquote_step_wide)
      qed
      moreover have "p \<noteq> []" using w Cons by (auto simp: p_def quote_ascii_props u_escape_props)
      moreover have "hd p \<noteq> dquote"
        using w Some rn by (cases n) (auto simp: p_def Cons quote_ascii_props u_escape_props
            dest: decode_rune_wide)
      ultimately have "lex_string (p @ (quote_body html (drop n s) @ dquote # X))
          = map_option (\<lambda>(x, y). (take n s @ x, y)) (lex_string (quote_body html (drop n s) @ dquote # X))"
        by (intro lex_string_step) auto
      moreover have "quote_body html s = p @ quote_body html (drop n s)"
        using Some rn by (subst quote_body.simps) (simp add: Cons p_def)
      moreover have "sanitize s = take n s @ sanitize (drop n s)"
        using Some rn by (subst sanitize.simps) (simp add: Cons)
      ultimately show ?thesis
        using 1(2) [OF Cons Some rn [symmetric]] by simp
    qed
  qed
qed

end
