(* ===== verification/JsonText.thy ===== *)
theory JsonText
  imports Json
begin

text \<open>
  JSON text: the scanner of \<open>encoding/json\<close> as a tokeniser and a pushdown machine (its
  \<open>parseState\<close> stack, with \<open>maxNestingDepth\<close>), the compact printer, and the theorem that the
  machine reads back what the printer writes.
\<close>

section \<open>Tokens\<close>

datatype token =
    TLBrace | TRBrace | TLBrack | TRBrack | TColon | TComma
  | TStr string
  | TAtom json

definition is_space :: "char \<Rightarrow> bool" where
  "is_space c \<longleftrightarrow> c = CHR '' '' \<or> c = CHR 0x09 \<or> c = CHR 0x0D \<or> c = CHR 0x0A"

text \<open>The number grammar: sign, integer part, fraction, exponent.\<close>

definition lex_int_part :: "string \<Rightarrow> (string \<times> string) option" where
  "lex_int_part s = (case s of [] \<Rightarrow> None
     | c # r \<Rightarrow> if c = CHR ''0'' then Some ([c], r)
         else if is_digit c then Some (takeWhile is_digit s, dropWhile is_digit s)
         else None)"

definition lex_frac :: "string \<Rightarrow> (string \<times> string) option" where
  "lex_frac s = (case s of
       c # r \<Rightarrow> if c = CHR ''.'' then
           (if takeWhile is_digit r = [] then None
            else Some (c # takeWhile is_digit r, dropWhile is_digit r))
         else Some ([], s)
     | [] \<Rightarrow> Some ([], s))"

definition lex_exp :: "string \<Rightarrow> (string \<times> string) option" where
  "lex_exp s = (case s of
       c # r \<Rightarrow> if c = CHR ''e'' \<or> c = CHR ''E'' then
           (let (sg, t) = (case r of d # r' \<Rightarrow> if d = CHR ''+'' \<or> d = CHR ''-'' then ([d], r') else ([], r)
                           | [] \<Rightarrow> ([], r))
            in if takeWhile is_digit t = [] then None
               else Some (c # sg @ takeWhile is_digit t, dropWhile is_digit t))
         else Some ([], s)
     | [] \<Rightarrow> Some ([], s))"

definition lex_magnitude :: "string \<Rightarrow> (string \<times> string) option" where
  "lex_magnitude s =
     Option.bind (lex_int_part s) (\<lambda>(i, s2).
     Option.bind (lex_frac s2) (\<lambda>(f, s3).
     Option.bind (lex_exp s3) (\<lambda>(e, s4). Some (i @ f @ e, s4))))"

definition lex_number :: "string \<Rightarrow> (string \<times> string) option" where
  "lex_number s = (case s of [] \<Rightarrow> None
     | c # r \<Rightarrow> if c = CHR ''-'' then map_option (\<lambda>(m, t). (c # m, t)) (lex_magnitude r)
         else lex_magnitude s)"

definition lex_token :: "string \<Rightarrow> (token \<times> string) option" where
  "lex_token s = (case s of [] \<Rightarrow> None
     | c # r \<Rightarrow>
         if c = CHR ''{'' then Some (TLBrace, r)
         else if c = CHR ''}'' then Some (TRBrace, r)
         else if c = CHR ''['' then Some (TLBrack, r)
         else if c = CHR '']'' then Some (TRBrack, r)
         else if c = CHR '':'' then Some (TColon, r)
         else if c = CHR '','' then Some (TComma, r)
         else if c = dquote then map_option (\<lambda>(t, r'). (TStr t, r')) (lex_string r)
         else if c = CHR ''n'' then (if take 4 s = ''null'' then Some (TAtom JNull, drop 4 s) else None)
         else if c = CHR ''t'' then (if take 4 s = ''true'' then Some (TAtom (JBool True), drop 4 s) else None)
         else if c = CHR ''f'' then (if take 5 s = ''false'' then Some (TAtom (JBool False), drop 5 s) else None)
         else map_option (\<lambda>(t, r'). (TAtom (JNum t), r')) (lex_number s))"

lemma lex_string_length: "lex_string s = Some (t, r) \<Longrightarrow> length r < length s"
proof (induction s arbitrary: t r rule: lex_string.induct)
  case (1 s)
  then show ?case
    by (subst (asm) (2) lex_string.simps)
      (fastforce split: list.splits if_splits option.splits dest: unquote_step_length)
qed

lemma lex_number_length: "lex_number s = Some (t, r) \<Longrightarrow> length r < length s"
proof -
  have i: "lex_int_part s1 = Some (i, s2) \<Longrightarrow> length s2 < length s1" for s1 i s2
    by (auto simp: lex_int_part_def split: list.splits if_splits intro: le_imp_less_Suc length_dropWhile_le)
  have f: "lex_frac s2 = Some (f, s3) \<Longrightarrow> length s3 \<le> length s2" for s2 f s3
    by (auto simp: lex_frac_def split: list.splits if_splits intro: le_SucI length_dropWhile_le)
  have e: "lex_exp s3 = Some (x, s4) \<Longrightarrow> length s4 \<le> length s3" for s3 x s4
    by (auto simp: lex_exp_def Let_def split: list.splits if_splits intro: le_SucI length_dropWhile_le)
  have m: "lex_magnitude s1 = Some (m, s4) \<Longrightarrow> length s4 < length s1" for s1 m s4
    by (fastforce simp: lex_magnitude_def bind_eq_Some_conv dest: i f e)
  assume "lex_number s = Some (t, r)"
  then show ?thesis
    by (auto simp: lex_number_def split: list.splits if_splits dest!: m)
qed

lemma lex_token_length: "lex_token s = Some (t, r) \<Longrightarrow> length r < length s"
  by (auto simp: lex_token_def split: list.splits if_splits dest: lex_string_length lex_number_length)

function lex :: "string \<Rightarrow> token list option" where
  "lex s = (case s of [] \<Rightarrow> Some []
     | c # r \<Rightarrow> if is_space c then lex r
         else (case lex_token s of None \<Rightarrow> None
           | Some (t, r') \<Rightarrow> map_option (\<lambda>ts. t # ts) (lex r')))"
  by pat_completeness auto
termination
  by (relation "measure length") (auto dest: lex_token_length)

declare lex.simps [simp del]

section \<open>The pushdown machine\<close>

text \<open>
  A frame per open bracket: the elements read so far (reversed), or the members read so far
  (reversed) with the key whose value is being read.
\<close>

datatype frame = FArr "json list" | FObj "(string \<times> json) list" "string option"

datatype mode =
    MVal            \<comment> \<open>a value\<close>
  | MFirst          \<comment> \<open>a value or the closing bracket of an empty array\<close>
  | MFirstKey       \<comment> \<open>a key or the closing brace of an empty object\<close>
  | MKey            \<comment> \<open>a key\<close>
  | MColon          \<comment> \<open>the colon after a key\<close>
  | MNext           \<comment> \<open>a comma or the closing bracket\<close>
  | MDone json
  | MErr

type_synonym pstate = "mode \<times> frame list"

fun complete :: "json \<Rightarrow> frame list \<Rightarrow> pstate" where
  "complete v [] = (MDone v, [])"
| "complete v (FArr vs # st) = (MNext, FArr (v # vs) # st)"
| "complete v (FObj kvs (Some k) # st) = (MNext, FObj ((k, v) # kvs) None # st)"
| "complete v (FObj kvs None # st) = (MErr, [])"

definition max_nesting_depth :: nat where
  "max_nesting_depth = 10000"

definition push :: "mode \<Rightarrow> frame \<Rightarrow> frame list \<Rightarrow> pstate" where
  "push m f st = (if length st < max_nesting_depth then (m, f # st) else (MErr, []))"

fun begin_value :: "token \<Rightarrow> frame list \<Rightarrow> pstate" where
  "begin_value (TAtom j) st = complete j st"
| "begin_value (TStr s) st = complete (JStr s) st"
| "begin_value TLBrack st = push MFirst (FArr []) st"
| "begin_value TLBrace st = push MFirstKey (FObj [] None) st"
| "begin_value _ st = (MErr, [])"

fun begin_key :: "token \<Rightarrow> frame list \<Rightarrow> pstate" where
  "begin_key (TStr k) (FObj kvs None # st) = (MColon, FObj kvs (Some k) # st)"
| "begin_key _ st = (MErr, [])"

fun end_frame :: "token \<Rightarrow> frame list \<Rightarrow> pstate" where
  "end_frame TRBrack (FArr vs # st) = complete (JArr (rev vs)) st"
| "end_frame TRBrace (FObj kvs None # st) = complete (JObj (rev kvs)) st"
| "end_frame _ st = (MErr, [])"

fun parse_step :: "token \<Rightarrow> pstate \<Rightarrow> pstate" where
  "parse_step t (MVal, st) = begin_value t st"
| "parse_step t (MFirst, st) = (if t = TRBrack then end_frame t st else begin_value t st)"
| "parse_step t (MFirstKey, st) = (if t = TRBrace then end_frame t st else begin_key t st)"
| "parse_step t (MKey, st) = begin_key t st"
| "parse_step t (MColon, st) = (if t = TColon then (MVal, st) else (MErr, []))"
| "parse_step t (MNext, st) =
     (if t = TComma then (case st of
          FArr _ # _ \<Rightarrow> (MVal, st)
        | FObj _ _ # _ \<Rightarrow> (MKey, st)
        | [] \<Rightarrow> (MErr, []))
      else end_frame t st)"
| "parse_step t (MDone j, st) = (MErr, [])"
| "parse_step t (MErr, st) = (MErr, [])"

definition parse_tokens :: "token list \<Rightarrow> json option" where
  "parse_tokens ts = (case fold parse_step ts (MVal, []) of (MDone j, []) \<Rightarrow> Some j | _ \<Rightarrow> None)"

text \<open>One value, with nothing but white space after it.\<close>

definition parse_json :: "string \<Rightarrow> json option" where
  "parse_json s = Option.bind (lex s) parse_tokens"

section \<open>The compact printer\<close>

lemma json_size_snd [termination_simp]:
  "kv \<in> set kvs \<Longrightarrow> size (snd kv) < Suc (size_list (size_prod (\<lambda>_. 0) size) kvs)"
  by (induction kvs) auto

primrec led :: "'a \<Rightarrow> 'a list list \<Rightarrow> 'a list" where
  "led s [] = []"
| "led s (x # xs) = s # x @ led s xs"

primrec sep :: "'a \<Rightarrow> 'a list list \<Rightarrow> 'a list" where
  "sep s [] = []"
| "sep s (x # xs) = x @ led s xs"

fun print_json :: "bool \<Rightarrow> json \<Rightarrow> string" where
  "print_json html JNull = ''null''"
| "print_json html (JBool b) = (if b then ''true'' else ''false'')"
| "print_json html (JNum n) = n"
| "print_json html (JStr s) = quote html s"
| "print_json html (JArr vs) = ''['' @ sep CHR '','' (map (print_json html) vs) @ '']''"
| "print_json html (JObj kvs) =
     ''{'' @ sep CHR '','' (map (\<lambda>kv. quote html (fst kv) @ '':'' @ print_json html (snd kv)) kvs) @ ''}''"

text \<open>Invalid UTF-8 repaired in every string and key.\<close>

fun sanitize_json :: "json \<Rightarrow> json" where
  "sanitize_json (JStr s) = JStr (sanitize s)"
| "sanitize_json (JArr vs) = JArr (map sanitize_json vs)"
| "sanitize_json (JObj kvs) = JObj (map (\<lambda>kv. (sanitize (fst kv), sanitize_json (snd kv))) kvs)"
| "sanitize_json j = j"

fun depth :: "json \<Rightarrow> nat" where
  "depth (JArr vs) = Suc (Max (insert 0 (depth ` set vs)))"
| "depth (JObj kvs) = Suc (Max (insert 0 ((\<lambda>kv. depth (snd kv)) ` set kvs)))"
| "depth j = 0"

section \<open>Scanning what was printed\<close>

fun toks :: "json \<Rightarrow> token list" where
  "toks (JStr s) = [TStr (sanitize s)]"
| "toks (JArr vs) = [TLBrack] @ sep TComma (map toks vs) @ [TRBrack]"
| "toks (JObj kvs) = [TLBrace]
     @ sep TComma (map (\<lambda>kv. [TStr (sanitize (fst kv)), TColon] @ toks (snd kv)) kvs) @ [TRBrace]"
| "toks j = [TAtom j]"

text \<open>Every number carries a literal of the JSON grammar.\<close>

definition number_literal :: "string \<Rightarrow> bool" where
  "number_literal n \<longleftrightarrow> lex_number n = Some (n, [])"

fun nums_ok :: "json \<Rightarrow> bool" where
  "nums_ok (JNum n) = number_literal n"
| "nums_ok (JArr vs) = list_all nums_ok vs"
| "nums_ok (JObj kvs) = list_all (\<lambda>kv. nums_ok (snd kv)) kvs"
| "nums_ok j = True"

text \<open>What may follow a number without continuing it.\<close>

definition stop :: "string \<Rightarrow> bool" where
  "stop r \<longleftrightarrow> (case r of [] \<Rightarrow> True
     | c # _ \<Rightarrow> \<not> is_digit c \<and> c \<noteq> CHR ''.'' \<and> c \<noteq> CHR ''e'' \<and> c \<noteq> CHR ''E'')"

lemma stop_simps [simp]:
  "stop []" "stop (CHR '','' # r)" "stop (CHR '']'' # r)" "stop (CHR ''}'' # r)"
  by (simp_all add: stop_def is_digit_def)

lemma digits_stop:
  assumes "stop r"
  shows "takeWhile is_digit (s @ r) = takeWhile is_digit s"
    "dropWhile is_digit (s @ r) = dropWhile is_digit s @ r"
  using assms by (induction s) (auto simp: stop_def split: list.splits)

lemma lex_int_part_stop: "stop r \<Longrightarrow> lex_int_part s = Some (i, t) \<Longrightarrow> lex_int_part (s @ r) = Some (i, t @ r)"
  using digits_stop [of r "tl s"]
  by (auto simp: lex_int_part_def split: list.splits if_splits)

lemma lex_frac_stop: "stop r \<Longrightarrow> lex_frac s = Some (f, t) \<Longrightarrow> lex_frac (s @ r) = Some (f, t @ r)"
  by (auto simp: lex_frac_def digits_stop stop_def split: list.splits if_splits)

lemma lex_exp_cases [case_names Nil other bare signed unsigned]:
  assumes "P []"
    and "\<And>c u. c \<noteq> CHR ''e'' \<Longrightarrow> c \<noteq> CHR ''E'' \<Longrightarrow> P (c # u)"
    and "\<And>c. c = CHR ''e'' \<or> c = CHR ''E'' \<Longrightarrow> P [c]"
    and "\<And>c d u. c = CHR ''e'' \<or> c = CHR ''E'' \<Longrightarrow> d = CHR ''+'' \<or> d = CHR ''-'' \<Longrightarrow> P (c # d # u)"
    and "\<And>c d u. c = CHR ''e'' \<or> c = CHR ''E'' \<Longrightarrow> d \<noteq> CHR ''+'' \<Longrightarrow> d \<noteq> CHR ''-'' \<Longrightarrow> P (c # d # u)"
  shows "P s"
proof (cases s)
  case (Cons c v)
  with assms show ?thesis by (cases v) metis+
qed (simp add: assms(1))

lemma lex_exp_stop: "stop r \<Longrightarrow> lex_exp s = Some (e, t) \<Longrightarrow> lex_exp (s @ r) = Some (e, t @ r)"
proof (induction s rule: lex_exp_cases)
  case (other c u)
  then show ?case by (auto simp: lex_exp_def)
next
  case (bare c)
  then show ?case by (simp add: lex_exp_def)
next
  case (signed c d u)
  then show ?case by (auto simp: lex_exp_def digits_stop split: if_splits)
next
  case (unsigned c d u)
  then show ?case using digits_stop [of r "d # u"] by (auto simp: lex_exp_def split: if_splits)
qed (auto simp: lex_exp_def stop_def split: list.splits)

lemma lex_magnitude_stop:
  assumes "stop r" and "lex_magnitude s = Some (n, t)"
  shows "lex_magnitude (s @ r) = Some (n, t @ r)"
proof -
  from assms(2) obtain i s2 f s3 e where l: "lex_int_part s = Some (i, s2)"
    "lex_frac s2 = Some (f, s3)" "lex_exp s3 = Some (e, t)" and n: "n = i @ f @ e"
    by (auto simp: lex_magnitude_def bind_eq_Some_conv)
  with lex_int_part_stop [OF assms(1) l(1)] lex_frac_stop [OF assms(1) l(2)]
    lex_exp_stop [OF assms(1) l(3)]
  show ?thesis by (simp add: lex_magnitude_def)
qed

lemma lex_number_stop:
  assumes "stop r" and "lex_number s = Some (n, t)"
  shows "lex_number (s @ r) = Some (n, t @ r)"
proof (cases s)
  case (Cons c u)
  then show ?thesis
    using assms(2) lex_magnitude_stop [OF assms(1), of s] lex_magnitude_stop [OF assms(1), of u]
    by (auto simp: lex_number_def split: if_splits)
qed (use assms(2) in \<open>simp add: lex_number_def\<close>)

lemma lex_number_head: "lex_number (c # s) = Some x \<Longrightarrow> c = CHR ''-'' \<or> is_digit c"
  by (auto simp: lex_number_def lex_magnitude_def lex_int_part_def is_digit_def bind_eq_Some_conv
      split: if_splits)

lemma lex_token_number:
  assumes "number_literal n" and "stop r"
  shows "lex_token (n @ r) = Some (TAtom (JNum n), r)"
proof -
  have l: "lex_number (n @ r) = Some (n, r)"
    using lex_number_stop [OF assms(2)] assms(1) by (simp add: number_literal_def)
  obtain c s where n: "n = c # s"
    using assms(1) by (cases n) (auto simp: number_literal_def lex_number_def)
  have "c = CHR ''-'' \<or> is_digit c" using lex_number_head l n by simp
  then have "c \<notin> set ''{}[]:,ntf'' \<and> c \<noteq> dquote" by (auto simp: is_digit_iff)
  with l n show ?thesis by (simp add: lex_token_def)
qed

lemma is_space_cases:
  assumes "is_space c"
  obtains "c = CHR '' ''" | "c = CHR 0x09" | "c = CHR 0x0D" | "c = CHR 0x0A"
  using assms by (auto simp: is_space_def)

lemma lex_step:
  assumes "lex_token s = Some (t, r)"
  shows "lex s = map_option ((#) t) (lex r)"
proof -
  obtain c u where s: "s = c # u" using assms by (cases s) (auto simp: lex_token_def)
  have "\<not> is_space c"
  proof
    assume "is_space c"
    then have "c \<notin> set ''{}[]:,ntf'' \<and> c \<noteq> dquote" by (elim is_space_cases) simp_all
    then have "lex_token s = map_option (\<lambda>(t, r'). (TAtom (JNum t), r')) (lex_number s)"
      by (simp add: s lex_token_def)
    with assms obtain x where "lex_number (c # u) = Some x" by (cases "lex_number s") (simp_all add: s)
    from lex_number_head [OF this] show False
      using \<open>is_space c\<close> by (elim is_space_cases) (simp_all add: is_digit_def)
  qed
  then show ?thesis using assms unfolding s by (subst lex.simps) simp
qed

lemma lex_punct [simp]:
  "lex (CHR ''{'' # r) = map_option ((#) TLBrace) (lex r)"
  "lex (CHR ''}'' # r) = map_option ((#) TRBrace) (lex r)"
  "lex (CHR ''['' # r) = map_option ((#) TLBrack) (lex r)"
  "lex (CHR '']'' # r) = map_option ((#) TRBrack) (lex r)"
  "lex (CHR '':'' # r) = map_option ((#) TColon) (lex r)"
  "lex (CHR '','' # r) = map_option ((#) TComma) (lex r)"
  by (rule lex_step, simp add: lex_token_def)+

lemma lex_quote: "lex (quote html s @ r) = map_option ((#) (TStr (sanitize s))) (lex r)"
  by (rule lex_step) (simp add: lex_token_def quote_def lex_string_quote)

lemma lex_Nil [simp]: "lex [] = Some []"
  by (simp add: lex.simps)

lemma map_option_append_Nil [simp]: "map_option ((@) []) m = m"
  by (cases m) simp_all

lemma lex_led:
  assumes "\<And>v r. v \<in> set vs \<Longrightarrow> stop r \<Longrightarrow> lex (P v @ r) = map_option ((@) (T v)) (lex r)" and "stop r"
  shows "stop (led CHR '','' (map P vs) @ r)
    \<and> lex (led CHR '','' (map P vs) @ r) = map_option ((@) (led TComma (map T vs))) (lex r)"
  using assms(1)
proof (induction vs)
  case Nil
  then show ?case using assms(2) by (simp add: option.map_ident)
next
  case (Cons u us)
  then have IH: "stop (led CHR '','' (map P us) @ r)"
    "lex (led CHR '','' (map P us) @ r) = map_option ((@) (led TComma (map T us))) (lex r)" by auto
  have "lex (P u @ led CHR '','' (map P us) @ r)
      = map_option ((@) (T u)) (lex (led CHR '','' (map P us) @ r))"
    using Cons.prems [of u] IH(1) by simp
  then show ?case by (simp add: IH(2) option.map_comp comp_def)
qed

lemma lex_sep:
  assumes "\<And>v r. v \<in> set vs \<Longrightarrow> stop r \<Longrightarrow> lex (P v @ r) = map_option ((@) (T v)) (lex r)" and "stop r"
  shows "lex (sep CHR '','' (map P vs) @ r) = map_option ((@) (sep TComma (map T vs))) (lex r)"
proof (cases vs)
  case (Cons v ws)
  have t: "stop (led CHR '','' (map P ws) @ r)
    \<and> lex (led CHR '','' (map P ws) @ r) = map_option ((@) (led TComma (map T ws))) (lex r)"
    using assms by (intro lex_led) (simp_all add: Cons)
  then show ?thesis using assms(1) [of v] by (cases "lex r") (simp_all add: Cons)
qed (simp add: option.map_ident)

lemma take_drop_literal: "take 4 (''null'' @ r) = ''null''" "take 4 (''true'' @ r) = ''true''"
  "take 5 (''false'' @ r) = ''false''"
  by simp_all

theorem lex_print:
  assumes "nums_ok j" and "stop r"
  shows "lex (print_json html j @ r) = map_option ((@) (toks j)) (lex r)"
  using assms
proof (induction j arbitrary: r)
  case JNull
  then show ?case using lex_step [of "''null'' @ r" "TAtom JNull" r] by (simp add: lex_token_def) 
next
  case (JBool b)
  then show ?case
    using lex_step [of "''true'' @ r" "TAtom (JBool True)" r]
      lex_step [of "''false'' @ r" "TAtom (JBool False)" r]
    by (simp add: lex_token_def)
next
  case (JNum n)
  then show ?case using lex_step [OF lex_token_number [of n r]] by simp
next
  case (JStr s)
  then show ?case by (simp add: lex_quote)
next
  case (JArr vs)
  have "lex (sep CHR '','' (map (print_json html) vs) @ '']'' @ r)
      = map_option ((@) (sep TComma (map toks vs))) (lex ('']'' @ r))"
    by (rule lex_sep) (use JArr in \<open>auto simp: list_all_iff\<close>)
  then show ?case by (simp add: option.map_comp comp_def)
next
  case (JObj kvs)
  have "lex (sep CHR '','' (map (\<lambda>kv. quote html (fst kv) @ '':'' @ print_json html (snd kv)) kvs) @ ''}'' @ r)
      = map_option ((@) (sep TComma (map (\<lambda>kv. [TStr (sanitize (fst kv)), TColon] @ toks (snd kv)) kvs)))
          (lex (''}'' @ r))"
  proof (rule lex_sep)
    fix kv and u :: string
    assume kv: "kv \<in> set kvs" and u: "stop u"
    have "lex (print_json html (snd kv) @ u) = map_option ((@) (toks (snd kv))) (lex u)"
      by (rule JObj.IH [of kv]) (use kv u JObj.prems in \<open>auto simp: list_all_iff snds.simps\<close>)
    then show "lex ((quote html (fst kv) @ '':'' @ print_json html (snd kv)) @ u)
        = map_option ((@) ([TStr (sanitize (fst kv)), TColon] @ toks (snd kv))) (lex u)"
      by (cases "lex u") (simp_all add: lex_quote)
  qed simp
  then show ?case by (simp add: option.map_comp comp_def)
qed

section \<open>Parsing what was printed\<close>

lemma toks_first: "\<exists>t ts. toks j = t # ts \<and> t \<noteq> TRBrack"
  by (cases j) auto

lemma fold_toks_MFirst: "fold parse_step (toks j) (MFirst, st) = fold parse_step (toks j) (MVal, st)"
  using toks_first [of j] by auto

lemma depth_JArr: "v \<in> set vs \<Longrightarrow> Suc (depth v) \<le> depth (JArr vs)"
  by simp

lemma depth_JObj: "kv \<in> set kvs \<Longrightarrow> Suc (depth (snd kv)) \<le> depth (JObj kvs)"
  by simp

lemma fold_elements:
  assumes "\<And>v ws. v \<in> set vs \<Longrightarrow>
    fold parse_step (toks v) (MVal, FArr ws # st) = (MNext, FArr (sanitize_json v # ws) # st)"
  shows "fold parse_step (led TComma (map toks vs)) (MNext, FArr acc # st)
    = (MNext, FArr (rev (map sanitize_json vs) @ acc) # st)"
  using assms by (induction vs arbitrary: acc) simp_all

lemma fold_members:
  assumes "\<And>kv ws k. kv \<in> set kvs \<Longrightarrow>
    fold parse_step (toks (snd kv)) (MVal, FObj ws (Some k) # st)
      = (MNext, FObj ((k, sanitize_json (snd kv)) # ws) None # st)"
  shows "fold parse_step (led TComma (map (\<lambda>kv. [TStr (sanitize (fst kv)), TColon] @ toks (snd kv)) kvs))
      (MNext, FObj acc None # st)
    = (MNext, FObj (rev (map (\<lambda>kv. (sanitize (fst kv), sanitize_json (snd kv))) kvs) @ acc) None # st)"
  using assms by (induction kvs arbitrary: acc) simp_all

lemma fold_array:
  assumes "length st < max_nesting_depth"
    and "\<And>v ws. v \<in> set vs \<Longrightarrow>
      fold parse_step (toks v) (MVal, FArr ws # st) = (MNext, FArr (sanitize_json v # ws) # st)"
  shows "fold parse_step (toks (JArr vs)) (MVal, st) = complete (sanitize_json (JArr vs)) st"
proof (cases vs)
  case (Cons v ws)
  have "fold parse_step (led TComma (map toks ws)) (MNext, FArr [sanitize_json v] # st)
      = (MNext, FArr (rev (map sanitize_json ws) @ [sanitize_json v]) # st)"
    using assms(2) by (intro fold_elements) (simp add: Cons)
  with assms show ?thesis by (simp add: Cons push_def fold_toks_MFirst)
qed (use assms(1) in \<open>simp add: push_def\<close>)

lemma fold_object:
  assumes "length st < max_nesting_depth"
    and "\<And>kv ws k. kv \<in> set kvs \<Longrightarrow>
      fold parse_step (toks (snd kv)) (MVal, FObj ws (Some k) # st)
        = (MNext, FObj ((k, sanitize_json (snd kv)) # ws) None # st)"
  shows "fold parse_step (toks (JObj kvs)) (MVal, st) = complete (sanitize_json (JObj kvs)) st"
proof (cases kvs)
  case (Cons kv ws)
  have "fold parse_step (led TComma (map (\<lambda>kv. [TStr (sanitize (fst kv)), TColon] @ toks (snd kv)) ws))
      (MNext, FObj [(sanitize (fst kv), sanitize_json (snd kv))] None # st)
    = (MNext, FObj (rev (map (\<lambda>kv. (sanitize (fst kv), sanitize_json (snd kv))) ws)
        @ [(sanitize (fst kv), sanitize_json (snd kv))]) None # st)"
    using assms(2) by (intro fold_members) (simp add: Cons)
  with assms show ?thesis by (simp add: Cons push_def)
qed (use assms(1) in \<open>simp add: push_def\<close>)

lemma fold_toks:
  "length st + depth j \<le> max_nesting_depth \<Longrightarrow>
    fold parse_step (toks j) (MVal, st) = complete (sanitize_json j) st"
proof (induction j arbitrary: st)
  case (JArr vs)
  show ?case
  proof (rule fold_array)
    fix v ws assume v: "v \<in> set vs"
    have "length (FArr ws # st) + depth v \<le> max_nesting_depth"
      using depth_JArr [OF v] JArr.prems by (simp del: depth.simps)
    from JArr.IH [OF v this]
    show "fold parse_step (toks v) (MVal, FArr ws # st) = (MNext, FArr (sanitize_json v # ws) # st)"
      by simp
  qed (use JArr.prems in simp)
next
  case (JObj kvs)
  show ?case
  proof (rule fold_object)
    fix kv ws k assume kv: "kv \<in> set kvs"
    have "length (FObj ws (Some k) # st) + depth (snd kv) \<le> max_nesting_depth"
      using depth_JObj [OF kv] JObj.prems by (simp del: depth.simps)
    from JObj.IH [OF kv _ this]
    show "fold parse_step (toks (snd kv)) (MVal, FObj ws (Some k) # st)
        = (MNext, FObj ((k, sanitize_json (snd kv)) # ws) None # st)"
      by (simp add: snds.simps)
  qed (use JObj.prems in simp)
qed simp_all

theorem parse_print:
  assumes "nums_ok j" and "depth j \<le> max_nesting_depth"
  shows "parse_json (print_json html j) = Some (sanitize_json j)"
proof -
  have "lex (print_json html j) = Some (toks j)"
    using lex_print [OF assms(1), of "[]" html] by simp
  moreover have "fold parse_step (toks j) (MVal, []) = (MDone (sanitize_json j), [])"
    using fold_toks [of "[]" j] assms(2) by simp
  ultimately show ?thesis by (simp add: parse_json_def parse_tokens_def)
qed

section \<open>Indented printing\<close>

text \<open>\<open>json.MarshalIndent(v, "", "  ")\<close>: a line per element or member, two spaces per level.\<close>

definition newline :: "nat \<Rightarrow> string" where
  "newline n = CHR 0x0A # replicate (2 * n) CHR '' ''"

fun indent_json :: "nat \<Rightarrow> json \<Rightarrow> string" where
  "indent_json n (JArr vs) = (if vs = [] then ''[]''
     else ''['' @ sep CHR '','' (map (\<lambda>v. newline (Suc n) @ indent_json (Suc n) v) vs) @ newline n @ '']'')"
| "indent_json n (JObj kvs) = (if kvs = [] then ''{}''
     else ''{'' @ sep CHR '','' (map (\<lambda>kv. newline (Suc n) @ quote True (fst kv) @ '': ''
         @ indent_json (Suc n) (snd kv)) kvs) @ newline n @ ''}'')"
| "indent_json n j = print_json True j"

lemma lex_space [simp]: "is_space c \<Longrightarrow> lex (c # r) = lex r"
  by (subst lex.simps) simp

lemma lex_newline [simp]: "lex (newline n @ r) = lex r"
proof -
  have "lex (replicate k CHR '' '' @ r) = lex r" for k
    by (induction k) (simp_all add: is_space_def)
  then show ?thesis by (simp add: newline_def is_space_def)
qed

lemma stop_newline [simp]: "stop (newline n @ r)"
  by (simp add: newline_def stop_def is_digit_def)

lemma lex_indent:
  "nums_ok j \<Longrightarrow> stop r \<Longrightarrow> lex (indent_json n j @ r) = map_option ((@) (toks j)) (lex r)"
proof (induction j arbitrary: n r)
  case (JArr vs)
  have "lex (sep CHR '','' (map (\<lambda>v. newline (Suc n) @ indent_json (Suc n) v) vs) @ newline n @ '']'' @ r)
      = map_option ((@) (sep TComma (map toks vs))) (lex (newline n @ '']'' @ r))"
    by (rule lex_sep) (use JArr in \<open>auto simp: list_all_iff\<close>)
  then show ?case by (simp add: option.map_comp comp_def)
next
  case (JObj kvs)
  have "lex (sep CHR '','' (map (\<lambda>kv. newline (Suc n) @ quote True (fst kv) @ '': ''
          @ indent_json (Suc n) (snd kv)) kvs) @ newline n @ ''}'' @ r)
      = map_option ((@) (sep TComma (map (\<lambda>kv. [TStr (sanitize (fst kv)), TColon] @ toks (snd kv)) kvs)))
          (lex (newline n @ ''}'' @ r))"
  proof (rule lex_sep)
    fix kv and u :: string
    assume kv: "kv \<in> set kvs" and u: "stop u"
    have "lex (indent_json (Suc n) (snd kv) @ u) = map_option ((@) (toks (snd kv))) (lex u)"
      by (rule JObj.IH [of kv]) (use kv u JObj.prems in \<open>auto simp: list_all_iff snds.simps\<close>)
    then show "lex ((newline (Suc n) @ quote True (fst kv) @ '': '' @ indent_json (Suc n) (snd kv)) @ u)
        = map_option ((@) ([TStr (sanitize (fst kv)), TColon] @ toks (snd kv))) (lex u)"
      by (cases "lex u") (simp_all add: lex_quote is_space_def)
  qed simp
  then show ?case by (simp add: option.map_comp comp_def)
next
  case JNull
  then show ?case using lex_print [of JNull r True] by (simp only: indent_json.simps)
next
  case (JBool b)
  then show ?case using lex_print [of "JBool b" r True] by (simp only: indent_json.simps)
next
  case (JNum x)
  then show ?case using lex_print [of "JNum x" r True] by (simp only: indent_json.simps)
next
  case (JStr x)
  then show ?case using lex_print [of "JStr x" r True] by (simp only: indent_json.simps)
qed

lemma spaces: "list_all is_space w \<Longrightarrow> stop w \<and> lex w = Some []"
proof (induction w)
  case (Cons c w)
  then show ?case by (auto simp: stop_def elim!: is_space_cases) (simp_all add: is_digit_def)
qed simp

theorem parse_indent:
  assumes "nums_ok j" and "depth j \<le> max_nesting_depth" and "list_all is_space w"
  shows "parse_json (indent_json n j @ w) = Some (sanitize_json j)"
proof -
  have w: "stop w \<and> lex w = Some []"
    using assms(3) by (rule spaces)
  then have "lex (indent_json n j @ w) = Some (toks j)"
    using lex_indent [OF assms(1), of w n] by simp
  moreover have "fold parse_step (toks j) (MVal, []) = (MDone (sanitize_json j), [])"
    using fold_toks [of "[]" j] assms(2) by simp
  ultimately show ?thesis by (simp add: parse_json_def parse_tokens_def)
qed

end
