(* ===== verification/Digest.thy ===== *)
theory Digest
  imports Prelude "HOL-Library.Word"
begin

unbundle bit_operations_syntax

text \<open>
  Package \<open>internal/digest\<close> (\<open>src/internal/digest/digest.go\<close>) with the SHA-256 function of Go's
  \<open>crypto/sha256\<close> written out on 32-bit words, and \<open>hex.EncodeToString\<close>. Every identity in the
  executor is \<open>SHA256 raw\<close>; the fact used everywhere is that it has the digest pattern.
\<close>

section \<open>The compression function\<close>

type_synonym w32 = "32 word"

definition sha_choice :: "w32 \<Rightarrow> w32 \<Rightarrow> w32 \<Rightarrow> w32" where
  "sha_choice e f g = ((e AND f) XOR ((NOT e) AND g))"

definition majority :: "w32 \<Rightarrow> w32 \<Rightarrow> w32 \<Rightarrow> w32" where
  "majority a b c = ((a AND b) XOR (a AND c) XOR (b AND c))"

definition mix3 :: "nat \<Rightarrow> nat \<Rightarrow> nat \<Rightarrow> w32 \<Rightarrow> w32" where
  "mix3 i j k x = (word_rotr i x XOR word_rotr j x XOR word_rotr k x)"

definition mix_shift :: "nat \<Rightarrow> nat \<Rightarrow> nat \<Rightarrow> w32 \<Rightarrow> w32" where
  "mix_shift i j k x = (word_rotr i x XOR word_rotr j x XOR drop_bit k x)"

definition round_constants :: "w32 list" where
  "round_constants = [
     1116352408, 1899447441, 3049323471, 3921009573, 961987163, 1508970993, 2453635748, 2870763221,
     3624381080, 310598401, 607225278, 1426881987, 1925078388, 2162078206, 2614888103, 3248222580,
     3835390401, 4022224774, 264347078, 604807628, 770255983, 1249150122, 1555081692, 1996064986,
     2554220882, 2821834349, 2952996808, 3210313671, 3336571891, 3584528711, 113926993, 338241895,
     666307205, 773529912, 1294757372, 1396182291, 1695183700, 1986661051, 2177026350, 2456956037,
     2730485921, 2820302411, 3259730800, 3345764771, 3516065817, 3600352804, 4094571909, 275423344,
     430227734, 506948616, 659060556, 883997877, 958139571, 1322822218, 1537002063, 1747873779,
     1955562222, 2024104815, 2227730452, 2361852424, 2428436474, 2756734187, 3204031479, 3329325298]"

definition initial_state :: "w32 list" where
  "initial_state = [1779033703, 3144134277, 1013904242, 2773480762,
                    1359893119, 2600822924, 528734635, 1541459225]"

text \<open>The message schedule, most recent word first.\<close>

fun schedule :: "nat \<Rightarrow> w32 list \<Rightarrow> w32 list" where
  "schedule 0 ws = ws"
| "schedule (Suc n) ws =
     schedule n ((mix_shift 17 19 10 (ws ! 1) + ws ! 6 + mix_shift 7 18 3 (ws ! 14) + ws ! 15) # ws)"

fun sha_round :: "w32 list \<Rightarrow> w32 \<times> w32 \<Rightarrow> w32 list" where
  "sha_round [a, b, c, d, e, f, g, h] (k, w) =
     (let t1 = h + mix3 6 11 25 e + sha_choice e f g + k + w;
          t2 = mix3 2 13 22 a + majority a b c
      in [t1 + t2, a, b, c, d + t1, e, f, g])"
| "sha_round st _ = st"

definition sha_block :: "w32 list \<Rightarrow> w32 list \<Rightarrow> w32 list" where
  "sha_block st block =
     map2 (+) st (foldl sha_round st (zip round_constants (rev (schedule 48 (rev block)))))"

section \<open>Padding\<close>

fun word_bytes :: "nat \<Rightarrow> nat \<Rightarrow> nat list" where
  "word_bytes 0 n = []"
| "word_bytes (Suc k) n = word_bytes k (n div 256) @ [n mod 256]"

definition sha_pad :: "nat list \<Rightarrow> nat list" where
  "sha_pad bs = bs @ [128] @ replicate ((119 - length bs mod 64) mod 64) 0
      @ word_bytes 8 (8 * length bs)"

fun be_words :: "nat list \<Rightarrow> w32 list" where
  "be_words (a # b # c # d # r) = of_nat (((a * 256 + b) * 256 + c) * 256 + d) # be_words r"
| "be_words _ = []"

fun sha_blocks :: "w32 list \<Rightarrow> w32 list \<Rightarrow> w32 list" where
  "sha_blocks st ws = (if length ws < 16 then st
     else sha_blocks (sha_block st (take 16 ws)) (drop 16 ws))"

declare sha_blocks.simps [simp del]

definition sum256 :: "string \<Rightarrow> w32 list" where
  "sum256 s = sha_blocks initial_state (be_words (sha_pad (map of_char s)))"

section \<open>The identity of a byte string\<close>

fun hex_nibbles :: "nat \<Rightarrow> nat \<Rightarrow> string" where
  "hex_nibbles 0 n = []"
| "hex_nibbles (Suc k) n = hex_nibbles k (n div 16) @ [hex_digit (n mod 16)]"

definition encode_hex :: "w32 list \<Rightarrow> string" where
  "encode_hex ws = concat (map (\<lambda>w. hex_nibbles 8 (unat w)) ws)"

definition SHA256 :: "string \<Rightarrow> string" where
  "SHA256 data = ''sha256:'' @ encode_hex (sum256 data)"

lemma hex_nibbles_hex: "list_all is_lower_hex (hex_nibbles k n)"
  by (induction k arbitrary: n) (simp_all add: is_lower_hex_hex_digit)

lemma length_hex_nibbles [simp]: "length (hex_nibbles k n) = k"
  by (induction k arbitrary: n) simp_all

lemma encode_hex_hex: "list_all is_lower_hex (encode_hex ws)"
  by (induction ws) (simp_all add: encode_hex_def hex_nibbles_hex)

lemma length_encode_hex: "length (encode_hex ws) = 8 * length ws"
  by (induction ws) (simp_all add: encode_hex_def)

lemma length_sha_round: "length st = 8 \<Longrightarrow> length (sha_round st kw) = 8"
  by (cases "(st, kw)" rule: sha_round.cases) (simp_all add: Let_def)

lemma length_sha_rounds: "length st = 8 \<Longrightarrow> length (foldl sha_round st kws) = 8"
  by (induction kws arbitrary: st) (simp_all add: length_sha_round)

lemma length_sha_blocks: "length st = 8 \<Longrightarrow> length (sha_blocks st ws) = 8"
proof (induction st ws rule: sha_blocks.induct)
  case (1 st ws)
  then show ?case
    by (cases "length ws < 16") (simp_all add: sha_blocks.simps [of st ws] sha_block_def length_sha_rounds)
qed

lemma SHA256_pattern [simp]: "digest_pattern (SHA256 data)"
  by (simp add: SHA256_def digest_pattern_def hex64_def encode_hex_hex length_encode_hex
      sum256_def length_sha_blocks initial_state_def)

lemma SHA256_nonempty [simp]: "SHA256 data \<noteq> []"
  by (simp add: SHA256_def)

lemma drop7_SHA256: "hex64 (drop 7 (SHA256 data))"
  using SHA256_pattern [of data] by (simp add: digest_pattern_def)

end
