(* ===== verification/Jcs.thy ===== *)
theory Jcs
  imports JsonText Digest "HOL-Library.Multiset"
begin

text \<open>
  Canonical JSON (\<open>internal/contract/canonical.go\<close>: \<open>JCS\<close>, \<open>integerValue\<close>,
  \<open>utf16Less\<close>), the \<open>canonicalRecord\<close>/\<open>canonicalDigest\<close> pipeline that every
  package runs on its records (\<open>json.Marshal\<close>, generic decoding, \<open>JCS\<close>, \<open>SHA256\<close>), and the
  theorem that this pipeline is the compact printing of a sorted normal form.
\<close>

section \<open>Integers\<close>

definition in_int64 :: "int \<Rightarrow> bool" where
  "in_int64 i \<longleftrightarrow> - (2 ^ 63) \<le> i \<and> i < 2 ^ 63"

text \<open>\<open>strconv.ParseInt(s, 10, 64)\<close> behind \<open>json.Number.Int64\<close>; \<open>None\<close> is the error.\<close>

definition parse_int64 :: "string \<Rightarrow> int option" where
  "parse_int64 s = (case s of [] \<Rightarrow> None
     | c # r \<Rightarrow>
        (let ds = (if c = CHR ''-'' \<or> c = CHR ''+'' then r else s);
             i = (if c = CHR ''-'' then - int (parse_digits ds) else int (parse_digits ds))
         in if ds \<noteq> [] \<and> list_all is_digit ds \<and> in_int64 i then Some i else None))"

lemma show_nat_split: obtains c r where "show_nat n = c # r" "is_digit c" "list_all is_digit r"
  using show_nat_digits [of n] by (cases "show_nat n") auto

lemma parse_int64_show_int [simp]: "in_int64 i \<Longrightarrow> parse_int64 (show_int i) = Some i"
proof (cases "i < 0")
  case True
  assume "in_int64 i"
  with True show ?thesis
    using show_nat_digits [of "nat (- i)"] by (simp add: parse_int64_def show_int_def)
next
  case False
  assume i: "in_int64 i"
  obtain c r where n: "show_nat (nat i) = c # r" "is_digit c" "list_all is_digit r"
    by (rule show_nat_split)
  have p: "parse_digits (c # r) = nat i" using parse_digits_show_nat [of "nat i"] n by simp
  have "c \<noteq> CHR ''-'' \<and> c \<noteq> CHR ''+''" using n(2) by (auto simp: is_digit_iff)
  with False n p i show ?thesis by (simp add: parse_int64_def show_int_def)
qed

lemma takeWhile_digits: "list_all is_digit r \<Longrightarrow> takeWhile is_digit r = r"
  "list_all is_digit r \<Longrightarrow> dropWhile is_digit r = []"
  by (induction r) simp_all

lemma lex_magnitude_show_nat: "lex_magnitude (show_nat n) = Some (show_nat n, [])"
proof -
  obtain c r where n: "show_nat n = c # r" "is_digit c" "list_all is_digit r"
    by (rule show_nat_split)
  have "c = CHR ''0'' \<Longrightarrow> r = []"
  proof -
    assume "c = CHR ''0''"
    with hd_show_nat [of n] n have "n = 0" by simp
    with n show "r = []" by (simp add: show_nat.simps)
  qed
  then have "lex_int_part (c # r) = Some (c # r, [])"
    using n by (simp add: lex_int_part_def takeWhile_digits)
  then show ?thesis by (simp add: n(1) lex_magnitude_def lex_frac_def lex_exp_def)
qed

lemma number_literal_show_int [simp]: "number_literal (show_int i)"
proof (cases "i < 0")
  case True
  then show ?thesis by (simp add: number_literal_def lex_number_def show_int_def lex_magnitude_show_nat)
next
  case False
  obtain c r where n: "show_nat (nat i) = c # r" "is_digit c"
    using show_nat_split [of "nat i"] by metis
  have "c \<noteq> CHR ''-''" using n(2) by (auto simp: is_digit_iff)
  with False show ?thesis
    using lex_magnitude_show_nat [of "nat i"] by (simp add: number_literal_def lex_number_def show_int_def n(1))
qed

section \<open>UTF-16 order of object keys\<close>

function runes :: "string \<Rightarrow> nat list" where
  "runes s = (case decode_rune s of None \<Rightarrow> [] | Some (r, n) \<Rightarrow> r # runes (drop n s))"
  by pat_completeness auto
termination
proof (relation "measure length")
  fix s :: string and x :: "nat \<times> nat" and r n
  assume "decode_rune s = Some x" "(r, n) = x"
  then show "(drop n s, s) \<in> measure length"
    using decode_rune_width [of s r n] by auto
qed simp

declare runes.simps [simp del]

definition utf16_units :: "nat \<Rightarrow> nat list" where
  "utf16_units r = (if r < 0x10000 then [r]
     else [0xD800 + (r - 0x10000) div 1024, 0xDC00 + (r - 0x10000) mod 1024])"

definition utf16_encode :: "string \<Rightarrow> nat list" where
  "utf16_encode s = concat (map utf16_units (runes s))"

text \<open>The loop over the common prefix, then the lengths.\<close>

fun units_less :: "nat list \<Rightarrow> nat list \<Rightarrow> bool" where
  "units_less (a # as) (b # bs) = (if a \<noteq> b then a < b else units_less as bs)"
| "units_less as bs = (length as < length bs)"

definition utf16Less :: "string \<Rightarrow> string \<Rightarrow> bool" where
  "utf16Less l r = units_less (utf16_encode l) (utf16_encode r)"

lemma nil_less: "[] < bs \<longleftrightarrow> bs \<noteq> ([] :: nat list)"
  by (cases bs) simp_all

lemma units_less_iff: "units_less as bs \<longleftrightarrow> as < bs"
  by (induction as bs rule: units_less.induct) (auto simp: nil_less)

lemma utf16Less_iff: "utf16Less l r \<longleftrightarrow> utf16_encode l < utf16_encode r"
  by (simp add: utf16Less_def units_less_iff)

section \<open>JCS\<close>

text \<open>
  \<open>any_of\<close> is decoding into \<open>any\<close>: an object becomes a Go map, so a repeated key keeps its last
  value. Sorting with \<open>sort.Slice(keys, utf16Less)\<close> is \<open>sort_key utf16_encode\<close>.
\<close>

fun any_of :: "json \<Rightarrow> json" where
  "any_of (JArr vs) = JArr (map any_of vs)"
| "any_of (JObj kvs) = JObj (fold (\<lambda>kv m. filter (\<lambda>p. fst p \<noteq> fst kv) m @ [kv])
     (map (\<lambda>kv. (fst kv, any_of (snd kv))) kvs) [])"
| "any_of j = j"

fun JCS :: "json \<Rightarrow> string result" where
  "JCS JNull = Inr ''null''"
| "JCS (JBool b) = Inr (if b then ''true'' else ''false'')"
| "JCS (JStr s) = Inr (quote False s)"
| "JCS (JNum n) = (case parse_int64 n of
       None \<Rightarrow> Inl (Errf ''unsupported canonical JSON type %T'' [''json.Number''])
     | Some i \<Rightarrow> Inr (show_int i))"
| "JCS (JArr vs) = bindE (mapE JCS vs) (\<lambda>ts. Inr (''['' @ sep CHR '','' ts @ '']''))"
| "JCS (JObj kvs) =
     bindE (mapE (\<lambda>kv. bindE (JCS (snd kv)) (\<lambda>t. Inr (quote False (fst kv) @ '':'' @ t)))
              (sort_key (\<lambda>kv. utf16_encode (fst kv)) kvs))
       (\<lambda>ts. Inr (''{'' @ sep CHR '','' ts @ ''}''))"

text \<open>The pipeline \<open>json.Marshal\<close>, \<open>Decode(&generic)\<close>, \<open>contract.JCS(generic)\<close>.\<close>

definition canonical_record :: "json \<Rightarrow> string result" where
  "canonical_record j =
     bindE (of_option (New ''invalid character'') (parse_json (print_json True j)))
       (\<lambda>g. JCS (any_of g))"

definition canonical_digest :: "json \<Rightarrow> string result" where
  "canonical_digest j = bindE (canonical_record j) (\<lambda>c. Inr (SHA256 c))"

section \<open>The normal form\<close>

fun canon :: "json \<Rightarrow> json" where
  "canon (JNum n) = JNum (case parse_int64 n of None \<Rightarrow> n | Some i \<Rightarrow> show_int i)"
| "canon (JArr vs) = JArr (map canon vs)"
| "canon (JObj kvs) = JObj (sort_key (\<lambda>kv. utf16_encode (fst kv)) (map (\<lambda>kv. (fst kv, canon (snd kv))) kvs))"
| "canon j = j"

text \<open>
  The values records encode to: valid UTF-8, integers of 64 bits in their usual notation, distinct
  keys, nesting below \<open>d\<close>.
\<close>

fun fits :: "nat \<Rightarrow> json \<Rightarrow> bool" where
  "fits d (JStr s) = valid_utf8 s"
| "fits d (JNum n) = (case parse_int64 n of None \<Rightarrow> False | Some i \<Rightarrow> n = show_int i)"
| "fits d (JArr vs) = (0 < d \<and> list_all (fits (d - 1)) vs)"
| "fits d (JObj kvs) = (0 < d \<and> distinct (map fst kvs)
     \<and> list_all (\<lambda>kv. valid_utf8 (fst kv) \<and> fits (d - 1) (snd kv)) kvs)"
| "fits d j = True"

lemma show_int_head: "hd (show_int i) = CHR ''-'' \<longleftrightarrow> i < 0"
proof (cases "i < 0")
  case False
  obtain c r where n: "show_nat (nat i) = c # r" "is_digit c"
    using show_nat_split [of "nat i"] by metis
  have "c \<noteq> CHR ''-''" using n(2) by (auto simp: is_digit_iff)
  with False n show ?thesis by (simp add: show_int_def)
qed (simp add: show_int_def)

lemma show_int_inject [simp]: "show_int i = show_int k \<longleftrightarrow> i = k"
proof
  assume e: "show_int i = show_int k"
  then have s: "i < 0 \<longleftrightarrow> k < 0" using show_int_head by metis
  have "show_nat (nat \<bar>i\<bar>) = show_nat (nat \<bar>k\<bar>)"
    using e s by (cases "i < 0") (simp_all add: show_int_def)
  then have "nat \<bar>i\<bar> = nat \<bar>k\<bar>" using parse_digits_show_nat by metis
  with s show "i = k" by linarith
qed simp

lemma parse_int64_range: "parse_int64 n = Some i \<Longrightarrow> in_int64 i"
  by (auto simp: parse_int64_def Let_def split: list.splits if_splits)

lemma fits_num: "fits d (JNum n) \<longleftrightarrow> (\<exists>i. in_int64 i \<and> n = show_int i)"
  using parse_int64_range by (fastforce split: option.splits)

lemma fits_num_show [simp]: "fits d (JNum (show_int i)) \<longleftrightarrow> in_int64 i"
  unfolding fits_num by auto

lemma fits_induct [consumes 1, case_names null bool str num arr obj]:
  assumes "fits d j"
    and "\<And>d. P d JNull" and "\<And>d b. P d (JBool b)" and "\<And>d s. valid_utf8 s \<Longrightarrow> P d (JStr s)"
    and "\<And>d i. in_int64 i \<Longrightarrow> P d (JNum (show_int i))"
    and "\<And>d vs. 0 < d \<Longrightarrow> (\<And>v. v \<in> set vs \<Longrightarrow> fits (d - 1) v \<and> P (d - 1) v) \<Longrightarrow> P d (JArr vs)"
    and "\<And>d kvs. 0 < d \<Longrightarrow> distinct (map fst kvs) \<Longrightarrow>
      (\<And>kv. kv \<in> set kvs \<Longrightarrow> valid_utf8 (fst kv) \<and> fits (d - 1) (snd kv) \<and> P (d - 1) (snd kv)) \<Longrightarrow>
      P d (JObj kvs)"
  shows "P d j"
  using assms(1)
proof (induction j arbitrary: d)
  case (JNum n)
  then show ?case unfolding fits_num using assms(5) by auto
next
  case (JArr vs)
  then show ?case by (intro assms(6)) (auto simp: list_all_iff)
next
  case (JObj kvs)
  have "valid_utf8 (fst kv) \<and> fits (d - 1) (snd kv) \<and> P (d - 1) (snd kv)" if "kv \<in> set kvs" for kv
    using JObj.IH [OF that, of "snd kv" "d - 1"] JObj.prems that
    by (simp add: list_all_iff snds.simps)
  with JObj.prems show ?case by (intro assms(7)) simp_all
qed (simp_all add: assms)

lemma fits_mono: "fits d j \<Longrightarrow> d \<le> e \<Longrightarrow> fits e j"
proof (induction d j arbitrary: e rule: fits_induct)
  case (arr d vs)
  have "fits (e - 1) v" if "v \<in> set vs" for v using arr that by simp
  with arr show ?case by (simp add: list_all_iff)
next
  case (obj d kvs)
  have "valid_utf8 (fst kv) \<and> fits (e - 1) (snd kv)" if "kv \<in> set kvs" for kv using obj that by simp
  with obj show ?case by (simp add: list_all_iff)
qed simp_all

lemma fits_depth: "fits d j \<Longrightarrow> depth j \<le> d"
proof (induction d j rule: fits_induct)
  case (arr d vs)
  then have "Max (insert 0 (depth ` set vs)) \<le> d - 1" by (intro Max.boundedI) auto
  with arr(1) show ?case unfolding depth.simps by linarith
next
  case (obj d kvs)
  then have "Max (insert 0 ((\<lambda>kv. depth (snd kv)) ` set kvs)) \<le> d - 1" by (intro Max.boundedI) auto
  with obj(1) show ?case unfolding depth.simps by linarith
qed simp_all

lemma fits_nums_ok: "fits d j \<Longrightarrow> nums_ok j"
  by (induction d j rule: fits_induct) (simp_all add: list_all_iff)

lemma fits_sanitize: "fits d j \<Longrightarrow> sanitize_json j = j"
  by (induction d j rule: fits_induct) (simp_all add: valid_utf8_def map_idI)

lemma last_wins_distinct:
  assumes "distinct (map fst (m @ kvs))"
  shows "fold (\<lambda>kv m. filter (\<lambda>p. fst p \<noteq> fst kv) m @ [kv]) kvs m = m @ kvs"
  using assms
proof (induction kvs arbitrary: m)
  case (Cons kv kvs)
  from Cons.prems have "fst kv \<notin> fst ` set m" by simp
  then have "fst p \<noteq> fst kv" if "p \<in> set m" for p using that by (metis imageI)
  then have "filter (\<lambda>p. fst p \<noteq> fst kv) m = m" by (simp add: filter_id_conv)
  with Cons.IH [of "m @ [kv]"] Cons.prems show ?case by simp
qed simp

lemma fits_any_of: "fits d j \<Longrightarrow> any_of j = j"
proof (induction d j rule: fits_induct)
  case (obj d kvs)
  then have "map (\<lambda>kv. (fst kv, any_of (snd kv))) kvs = kvs" by (simp add: map_idI)
  with obj(2) show ?case
    using last_wins_distinct [of "[]" kvs] by simp
qed (simp_all add: map_idI)

lemma sort_key_map_canon:
  "sort_key (\<lambda>kv. utf16_encode (fst kv)) (map (\<lambda>kv. (fst kv, f (snd kv))) kvs)
    = map (\<lambda>kv. (fst kv, f (snd kv))) (sort_key (\<lambda>kv. utf16_encode (fst kv)) kvs)"
proof -
  have ins: "insort_key (\<lambda>kv. utf16_encode (fst kv)) (fst kv, f (snd kv)) (map (\<lambda>kv. (fst kv, f (snd kv))) xs)
    = map (\<lambda>kv. (fst kv, f (snd kv))) (insort_key (\<lambda>kv. utf16_encode (fst kv)) kv xs)" for kv xs
    by (induction xs) auto
  show ?thesis by (induction kvs) (simp_all add: ins)
qed

lemma JCS_fits: "fits d j \<Longrightarrow> JCS j = Inr (print_json False (canon j))"
proof (induction d j rule: fits_induct)
  case (arr d vs)
  then have "mapE JCS vs = Inr (map (\<lambda>v. print_json False (canon v)) vs)"
    by (intro mapE_Inr_map) simp
  then show ?case by (simp add: comp_def)
next
  case (obj d kvs)
  then have "mapE (\<lambda>kv. bindE (JCS (snd kv)) (\<lambda>t. Inr (quote False (fst kv) @ '':'' @ t)))
      (sort_key (\<lambda>kv. utf16_encode (fst kv)) kvs)
    = Inr (map (\<lambda>kv. quote False (fst kv) @ '':'' @ print_json False (canon (snd kv)))
        (sort_key (\<lambda>kv. utf16_encode (fst kv)) kvs))"
    by (intro mapE_Inr_map) simp
  then show ?case by (simp add: sort_key_map_canon comp_def)
qed simp_all

lemma distinct_fst_sort: "distinct (map fst (sort_key f kvs)) \<longleftrightarrow> distinct (map fst kvs)"
proof -
  have "mset (map fst (sort_key f kvs)) = mset (map fst kvs)" by simp
  then show ?thesis by (rule mset_eq_imp_distinct_iff)
qed

lemma fits_canon: "fits d j \<Longrightarrow> fits d (canon j)"
proof (induction d j rule: fits_induct)
  case (obj d kvs)
  then show ?case by (simp add: sort_key_map_canon list_all_iff comp_def distinct_fst_sort)
qed (simp_all add: list_all_iff)

abbreviation record_json :: "json \<Rightarrow> bool" where
  "record_json j \<equiv> fits max_nesting_depth j"

definition canonical_text :: "json \<Rightarrow> string" where
  "canonical_text j = print_json False (canon j)"

theorem canonical_record_eq:
  assumes "record_json j"
  shows "canonical_record j = Inr (canonical_text j)"
  using parse_print [OF fits_nums_ok [OF assms] fits_depth [OF assms], of True]
  by (simp add: canonical_record_def fits_sanitize [OF assms] fits_any_of [OF assms]
      JCS_fits [OF assms] canonical_text_def)

theorem parse_canonical_text:
  assumes "record_json j"
  shows "parse_json (canonical_text j) = Some (canon j)"
proof -
  note f = fits_canon [OF assms]
  show ?thesis
    using parse_print [OF fits_nums_ok [OF f] fits_depth [OF f], of False]
    by (simp add: canonical_text_def fits_sanitize [OF f])
qed

lemma canonical_digest_eq: "record_json j \<Longrightarrow> canonical_digest j = Inr (SHA256 (canonical_text j))"
  by (simp add: canonical_digest_def canonical_record_eq)

lemma canonical_digest_pattern: "canonical_digest j = Inr d \<Longrightarrow> digest_pattern d"
  by (auto simp: canonical_digest_def bindE_eq_Inr)

end
