(* ===== verification/Codec.thy ===== *)
theory Codec
  imports Jcs
begin

text \<open>
  Strict decoding (\<open>internal/jsonstrict\<close>) and the correspondence between Go structs and JSON
  objects: \<open>struct\<close> builds the object \<open>json.Marshal\<close> writes for a table of tagged fields,
  \<open>dec_struct\<close> is \<open>json.Unmarshal\<close> with \<open>DisallowUnknownFields\<close>. The locale
  \<open>json_codec\<close> states what a record's encoder and decoder owe each other and derives what the
  packages rely on: strict decoding of a canonical record gives the record back, and canonical
  records with the same text are equal.
\<close>

section \<open>jsonstrict\<close>

fun duplicate_key :: "json \<Rightarrow> bool" where
  "duplicate_key (JArr vs) = list_ex duplicate_key vs"
| "duplicate_key (JObj kvs) = (\<not> distinct (map fst kvs) \<or> list_ex (\<lambda>kv. duplicate_key (snd kv)) kvs)"
| "duplicate_key j = False"

text \<open>
  One JSON value and nothing after it, no repeated object key at any depth, and the typed decoding
  of the value; \<open>dec\<close> is the decoding into the target's type.
\<close>

definition strict_decode :: "(json \<Rightarrow> 'a option) \<Rightarrow> string \<Rightarrow> 'a result" where
  "strict_decode dec raw =
     (case parse_json raw of
        None \<Rightarrow> Inl (New ''malformed JSON'')
      | Some j \<Rightarrow>
          if duplicate_key j then Inl (New ''duplicate object key'')
          else of_option (New ''cannot unmarshal'') (dec j))"

lemma strict_decode_eq_Inr:
  "strict_decode dec raw = Inr a \<longleftrightarrow>
    (\<exists>j. parse_json raw = Some j \<and> \<not> duplicate_key j \<and> dec j = Some a)"
  by (auto simp: strict_decode_def split: option.splits)

lemma fits_no_duplicate: "fits d j \<Longrightarrow> \<not> duplicate_key j"
  by (induction d j rule: fits_induct) (simp_all add: list_ex_iff)

section \<open>Structs as objects\<close>

text \<open>\<open>reflect\<close>'s notion of an empty value, for \<open>omitempty\<close>.\<close>

fun empty_json :: "json \<Rightarrow> bool" where
  "empty_json (JStr s) = (s = [])"
| "empty_json (JNum n) = (n = ''0'')"
| "empty_json (JBool b) = (\<not> b)"
| "empty_json JNull = True"
| "empty_json (JArr vs) = (vs = [])"
| "empty_json (JObj kvs) = False"

text \<open>A field's JSON name, whether its tag says \<open>omitempty\<close>, and its value.\<close>

type_synonym field = "string \<times> bool \<times> json"

abbreviation key :: "string \<Rightarrow> json \<Rightarrow> field" where
  "key n v \<equiv> (n, False, v)"

abbreviation optkey :: "string \<Rightarrow> json \<Rightarrow> field" where
  "optkey n v \<equiv> (n, True, v)"

definition present :: "field \<Rightarrow> bool" where
  "present f = (\<not> (fst (snd f) \<and> empty_json (snd (snd f))))"

definition members :: "field list \<Rightarrow> (string \<times> json) list" where
  "members fs = map (\<lambda>f. (fst f, snd (snd f))) (filter present fs)"

definition struct :: "field list \<Rightarrow> json" where
  "struct fs = JObj (members fs)"

definition JInt :: "int \<Rightarrow> json" where
  "JInt i = JNum (show_int i)"

definition JSlice :: "('a \<Rightarrow> json) \<Rightarrow> 'a slice \<Rightarrow> json" where
  "JSlice enc s = (case s of None \<Rightarrow> JNull | Some xs \<Rightarrow> JArr (map enc xs))"

lemma fits_JInt [simp]: "fits d (JInt i) \<longleftrightarrow> in_int64 i"
  by (simp add: JInt_def del: fits.simps)

lemma canon_JInt [simp]: "in_int64 i \<Longrightarrow> canon (JInt i) = JInt i"
  by (simp add: JInt_def)

lemma fits_JSlice: "fits d (JSlice enc s) \<longleftrightarrow> (s = None \<or> (0 < d \<and> list_all (\<lambda>x. fits (d - 1) (enc x)) (elems s)))"
  by (simp add: JSlice_def list_all_iff split: option.splits)

lemma fits_struct:
  assumes "distinct (map fst fs)"
  shows "fits d (struct fs) \<longleftrightarrow>
    0 < d \<and> (\<forall>f \<in> set fs. present f \<longrightarrow> valid_utf8 (fst f) \<and> fits (d - 1) (snd (snd f)))"
proof -
  have "distinct (map fst (members fs))"
    using assms by (simp add: members_def comp_def distinct_map_filter)
  then show ?thesis by (auto simp: struct_def members_def list_all_iff)
qed

section \<open>Decoding structs\<close>

text \<open>
  A key names a field when it is the field's name, or else when both fold to the same string:
  \<open>foldName\<close> upper-cases ASCII letters and folds the two other runes of the letters' orbits,
  U+017F and U+212A.
\<close>

definition fold_rune :: "nat \<Rightarrow> nat" where
  "fold_rune r = (if 97 \<le> r \<and> r \<le> 122 then r - 32 else if r = 0x17F then 83
     else if r = 0x212A then 75 else r)"

definition fold_name :: "string \<Rightarrow> nat list" where
  "fold_name s = map fold_rune (runes s)"

definition resolve :: "string list \<Rightarrow> string \<Rightarrow> string option" where
  "resolve names k = (if k \<in> set names then Some k
     else find (\<lambda>n. fold_name n = fold_name k) names)"

definition field_values :: "string list \<Rightarrow> string \<Rightarrow> (string \<times> json) list \<Rightarrow> json list" where
  "field_values names n kvs = map snd (filter (\<lambda>kv. resolve names (fst kv) = Some n) kvs)"

text \<open>
  The values given to one field, in the order of the text, each decoded over what the previous one
  left (\<open>null\<close> leaves a string, integer, Boolean or struct unchanged).
\<close>

definition dec_field ::
  "string list \<Rightarrow> (string \<times> json) list \<Rightarrow> string \<Rightarrow> ('a \<Rightarrow> json \<Rightarrow> 'a option) \<Rightarrow> 'a \<Rightarrow> 'a option" where
  "dec_field names kvs n d z =
     fold (\<lambda>v acc. Option.bind acc (\<lambda>x. d x v)) (field_values names n kvs) (Some z)"

definition known_keys :: "string list \<Rightarrow> (string \<times> json) list \<Rightarrow> bool" where
  "known_keys names kvs = list_all (\<lambda>kv. resolve names (fst kv) \<noteq> None) kvs"

definition dec_struct ::
  "string list \<Rightarrow> ((string \<times> json) list \<Rightarrow> 'a option) \<Rightarrow> 'a \<Rightarrow> json \<Rightarrow> 'a option" where
  "dec_struct names body old j =
     (case j of JNull \<Rightarrow> Some old
      | JObj kvs \<Rightarrow> if known_keys names kvs then body kvs else None
      | _ \<Rightarrow> None)"

definition dec_string :: "string \<Rightarrow> json \<Rightarrow> string option" where
  "dec_string old j = (case j of JNull \<Rightarrow> Some old | JStr s \<Rightarrow> Some s | _ \<Rightarrow> None)"

definition dec_bool :: "bool \<Rightarrow> json \<Rightarrow> bool option" where
  "dec_bool old j = (case j of JNull \<Rightarrow> Some old | JBool b \<Rightarrow> Some b | _ \<Rightarrow> None)"

definition dec_int :: "int \<Rightarrow> json \<Rightarrow> int option" where
  "dec_int old j = (case j of JNull \<Rightarrow> Some old | JNum n \<Rightarrow> parse_int64 n | _ \<Rightarrow> None)"

text \<open>An array is decoded over the slice's old elements, then over zero values.\<close>

fun dec_elems :: "('a \<Rightarrow> json \<Rightarrow> 'a option) \<Rightarrow> 'a \<Rightarrow> 'a list \<Rightarrow> json list \<Rightarrow> 'a list option" where
  "dec_elems d z old [] = Some []"
| "dec_elems d z old (v # vs) =
     Option.bind (d (case old of [] \<Rightarrow> z | x # _ \<Rightarrow> x) v) (\<lambda>x.
     Option.bind (dec_elems d z (tl old) vs) (\<lambda>xs. Some (x # xs)))"

definition dec_slice :: "('a \<Rightarrow> json \<Rightarrow> 'a option) \<Rightarrow> 'a \<Rightarrow> 'a slice \<Rightarrow> json \<Rightarrow> 'a slice option" where
  "dec_slice d z old j = (case j of JNull \<Rightarrow> Some None
     | JArr vs \<Rightarrow> map_option Some (dec_elems d z (elems old) vs) | _ \<Rightarrow> None)"

section \<open>Decoding what was encoded\<close>

text \<open>The members of a canonical struct.\<close>

definition canon_members :: "field list \<Rightarrow> (string \<times> json) list" where
  "canon_members fs = sort_key (\<lambda>kv. utf16_encode (fst kv))
     (map (\<lambda>kv. (fst kv, canon (snd kv))) (members fs))"

lemma canon_struct: "canon (struct fs) = JObj (canon_members fs)"
  by (simp add: struct_def canon_members_def)

definition lookup_field :: "field list \<Rightarrow> string \<Rightarrow> json option" where
  "lookup_field fs n = (case map_of fs n of None \<Rightarrow> None
     | Some (om, v) \<Rightarrow> if om \<and> empty_json v then None else Some (canon v))"

lemma fst_canon_members: "set (map fst (canon_members fs)) \<subseteq> set (map fst fs)"
  by (force simp: canon_members_def members_def)

lemma canon_members_distinct:
  "distinct (map fst fs) \<Longrightarrow> distinct (map fst (canon_members fs))"
  by (simp add: canon_members_def distinct_fst_sort members_def comp_def distinct_map_filter)

lemma map_of_canon_members:
  assumes "distinct (map fst fs)"
  shows "map_of (canon_members fs) n = lookup_field fs n"
proof -
  have "map_of (canon_members fs) = map_of (map (\<lambda>kv. (fst kv, canon (snd kv))) (members fs))"
  proof (rule map_of_inject_set [THEN iffD2])
    show "distinct (map fst (canon_members fs))" by (rule canon_members_distinct [OF assms])
    show "distinct (map fst (map (\<lambda>kv. (fst kv, canon (snd kv))) (members fs)))"
      using assms by (simp add: members_def comp_def distinct_map_filter)
    show "set (canon_members fs) = set (map (\<lambda>kv. (fst kv, canon (snd kv))) (members fs))"
      by (simp add: canon_members_def)
  qed
  moreover have "map_of (map (\<lambda>kv. (fst kv, canon (snd kv))) (members fs)) n = lookup_field fs n"
    using assms
  proof (induction fs)
    case (Cons f fs)
    have "map_of (map (\<lambda>kv. (fst kv, canon (snd kv))) (members fs)) (fst f) = None"
      if "fst f \<notin> set (map fst fs)"
      proof -
      have "fst kv \<noteq> fst f" if "kv \<in> set fs" for kv using that \<open>fst f \<notin> set (map fst fs)\<close> by (metis image_eqI set_map)
      then show ?thesis by (fastforce simp: map_of_eq_None_iff members_def)
    qed
    with Cons show ?case
      by (cases f) (auto simp: members_def lookup_field_def present_def)
  qed (simp add: members_def lookup_field_def)
  ultimately show ?thesis by simp
qed

lemma field_values_exact:
  assumes "distinct (map fst kvs)" and "set (map fst kvs) \<subseteq> set names"
  shows "field_values names n kvs = (case map_of kvs n of None \<Rightarrow> [] | Some v \<Rightarrow> [v])"
  using assms
proof (induction kvs)
  case (Cons kv kvs)
  have "filter (\<lambda>p. resolve names (fst p) = Some (fst kv)) kvs = []"
    using Cons.prems by (auto simp: filter_empty_conv resolve_def image_iff)
  with Cons show ?case by (cases kv) (auto simp: field_values_def resolve_def)
qed (simp add: field_values_def)

lemma known_keys_exact: "set (map fst kvs) \<subseteq> set names \<Longrightarrow> known_keys names kvs"
  by (auto simp: known_keys_def list_all_iff resolve_def)

lemma dec_struct_canon:
  assumes "map fst fs = names" and "distinct names"
  shows "dec_struct names body old (canon (struct fs)) = body (canon_members fs)"
  using assms known_keys_exact [of "canon_members fs" names] fst_canon_members [of fs]
  by (simp add: dec_struct_def canon_struct)

lemma dec_field_canon:
  assumes "map fst fs = names" and "distinct names"
  shows "dec_field names (canon_members fs) n d z
    = (case lookup_field fs n of None \<Rightarrow> Some z | Some v \<Rightarrow> d z v)"
  using assms field_values_exact [of "canon_members fs" names n] fst_canon_members [of fs]
    canon_members_distinct [of fs] map_of_canon_members [of fs n]
  by (simp add: dec_field_def split: option.splits)

text \<open>The same for a struct as \<open>json.Marshal\<close> writes it, its members in declaration order.\<close>

definition lookup_plain :: "field list \<Rightarrow> string \<Rightarrow> json option" where
  "lookup_plain fs n = (case map_of fs n of None \<Rightarrow> None
     | Some (om, v) \<Rightarrow> if om \<and> empty_json v then None else Some v)"

lemma fst_members: "set (map fst (members fs)) \<subseteq> set (map fst fs)"
  by (force simp: members_def)

lemma members_distinct: "distinct (map fst fs) \<Longrightarrow> distinct (map fst (members fs))"
  by (simp add: members_def comp_def distinct_map_filter)

lemma map_of_members:
  assumes "distinct (map fst fs)"
  shows "map_of (members fs) n = lookup_plain fs n"
  using assms
proof (induction fs)
  case (Cons f fs)
  have "map_of (members fs) (fst f) = None"
  proof -
    have "fst kv \<noteq> fst f" if "kv \<in> set fs" for kv using that Cons.prems by (auto simp: image_iff)
    then show ?thesis by (fastforce simp: map_of_eq_None_iff members_def)
  qed
  with Cons show ?case by (cases f) (auto simp: members_def lookup_plain_def present_def)
qed (simp add: members_def lookup_plain_def)

lemma dec_struct_plain:
  assumes "map fst fs = names" and "distinct names"
  shows "dec_struct names body old (struct fs) = body (members fs)"
  using assms known_keys_exact [of "members fs" names] fst_members [of fs]
  by (simp add: dec_struct_def struct_def)

lemma dec_field_plain:
  assumes "map fst fs = names" and "distinct names"
  shows "dec_field names (members fs) n d z = (case lookup_plain fs n of None \<Rightarrow> Some z | Some v \<Rightarrow> d z v)"
  using assms field_values_exact [of "members fs" names n] fst_members [of fs]
    members_distinct [of fs] map_of_members [of fs n]
  by (simp add: dec_field_def split: option.splits)

lemma lookup_plain_simps [simp]:
  "lookup_plain [] n = None"
  "lookup_plain ((m, om, v) # fs) n = (if m = n then if om \<and> empty_json v then None else Some v
     else lookup_plain fs n)"
  by (simp_all add: lookup_plain_def)

lemma dec_slice_plain:
  assumes "\<And>x. x \<in> set (elems s) \<Longrightarrow> d z (enc x) = Some x"
  shows "dec_slice d z None (JSlice enc s) = Some s"
proof -
  have "(\<And>x. x \<in> set xs \<Longrightarrow> d z (enc x) = Some x) \<Longrightarrow> dec_elems d z [] (map enc xs) = Some xs" for xs
    by (induction xs) simp_all
  from this [of "elems s"] assms have "dec_elems d z [] (map enc (elems s)) = Some (elems s)" by simp
  then show ?thesis by (cases s) (simp_all add: dec_slice_def JSlice_def)
qed

lemma lookup_field_simps [simp]:
  "lookup_field [] n = None"
  "lookup_field ((m, om, v) # fs) n = (if m = n then if om \<and> empty_json v then None else Some (canon v)
     else lookup_field fs n)"
  by (simp_all add: lookup_field_def)

lemma dec_string_simps [simp]: "dec_string old (JStr s) = Some s" "dec_string old JNull = Some old"
  by (simp_all add: dec_string_def)

lemma dec_bool_simps [simp]: "dec_bool old (JBool b) = Some b" "dec_bool old JNull = Some old"
  by (simp_all add: dec_bool_def)

lemma dec_int_simps [simp]: "in_int64 i \<Longrightarrow> dec_int old (JInt i) = Some i" "dec_int old JNull = Some old"
  by (simp_all add: dec_int_def JInt_def)

lemma dec_elems_canon:
  assumes "\<And>x. x \<in> set xs \<Longrightarrow> d z (canon (enc x)) = Some x"
  shows "dec_elems d z [] (map canon (map enc xs)) = Some xs"
  using assms by (induction xs) simp_all

lemma dec_slice_canon:
  assumes "\<And>x. x \<in> set (elems s) \<Longrightarrow> d z (canon (enc x)) = Some x"
  shows "dec_slice d z None (canon (JSlice enc s)) = Some s"
  using dec_elems_canon [of "elems s" d z enc] assms
  by (cases s) (simp_all add: dec_slice_def JSlice_def)

lemma dec_slice_strings [simp]: "dec_slice dec_string [] None (canon (JSlice JStr s)) = Some s"
  by (rule dec_slice_canon) simp

section \<open>The contract of a record's codec\<close>

locale json_codec =
  fixes enc :: "'a \<Rightarrow> json" and dec :: "json \<Rightarrow> 'a option" and ok :: "'a \<Rightarrow> bool"
  assumes encodes: "ok a \<Longrightarrow> fits 16 (enc a)"
    and decodes: "ok a \<Longrightarrow> dec (canon (enc a)) = Some a"
begin

lemma encodes_record: "ok a \<Longrightarrow> record_json (enc a)"
  by (rule fits_mono [OF encodes]) (simp_all add: max_nesting_depth_def)

lemma canonical: "ok a \<Longrightarrow> canonical_record (enc a) = Inr (canonical_text (enc a))"
  by (rule canonical_record_eq) (rule encodes_record)

lemma digest: "ok a \<Longrightarrow> canonical_digest (enc a) = Inr (SHA256 (canonical_text (enc a)))"
  by (rule canonical_digest_eq) (rule encodes_record)

lemma strict: "ok a \<Longrightarrow> strict_decode dec (canonical_text (enc a)) = Inr a"
  using parse_canonical_text [OF encodes_record, of a] fits_no_duplicate [OF fits_canon [OF encodes_record], of a]
  by (simp add: strict_decode_def decodes)

lemma injective: "ok a \<Longrightarrow> ok b \<Longrightarrow> canonical_text (enc a) = canonical_text (enc b) \<longleftrightarrow> a = b"
  by (metis strict sum.inject(2))

end

end
