(* ===== verification/StagePlan.thy ===== *)
theory StagePlan
  imports Codec "HOL-Library.Monad_Syntax"
begin

text \<open>
  The staged execution plan (\<open>internal/stageplan/plan.go\<close>, \<open>build.go\<close>): strict
  verification of a plan document against independently supplied identities, the verified
  \<open>Binding\<close>, lookup of one stage with its canonical digest, the recovery deny gate, and the
  constructor of ordinary bare-cluster plans.
\<close>

section \<open>Data\<close>

record Identity =
  i_Namespace :: string
  i_Name :: string

record Expected =
  x_ContractIdentity :: Identity
  x_IntentRevision :: string
  x_EnablementRevision :: string
  x_PlatformRevision :: string
  x_ExecutionFixture :: string
  x_ExecutionAttemptDigest :: string
  x_RecoverySourcePlanDigest :: string
  x_InfrastructureAuthority :: string
  x_ManagementAuthority :: string
  x_GitOpsAuthority :: string
  x_NetworkObservationMode :: string
  x_CompletionMode :: string

record Authorities =
  a_Infrastructure :: string
  a_Management :: string
  a_GitOps :: string
  a_WorkloadIdentityMode :: string
  a_RunnerIdentityMode :: string

record Input =
  in_Name :: string
  in_Digest :: string

record Stage =
  s_ID :: string
  s_Order :: int
  s_Kind :: string
  s_Authority :: string
  s_GrantOperation :: string
  s_Requires :: "string slice"
  s_Inputs :: "Input slice"

record document =
  d_Format :: string
  d_ContractIdentity :: Identity
  d_IntentRevision :: string
  d_EnablementRevision :: string
  d_PlatformRevision :: string
  d_ExecutionFixture :: string
  d_ExecutionAttempt :: string
  d_RecoverySourcePlanDigest :: string
  d_AuthorizationState :: string
  d_NetworkObservationMode :: string
  d_CompletionMode :: string
  d_Authorities :: Authorities
  d_Stages :: "Stage slice"

record Binding =
  b_Format :: string
  b_PlanDigest :: string
  b_ContractIdentity :: Identity
  b_IntentRevision :: string
  b_EnablementRevision :: string
  b_PlatformRevision :: string
  b_ExecutionFixture :: string
  b_ExecutionAttempt :: string
  b_RecoverySourcePlanDigest :: string
  b_NetworkObservationMode :: string
  b_CompletionMode :: string
  b_Authorities :: Authorities
  b_Stages :: "Stage slice"
  b_verified :: bool
  b_verifiedDigest :: string
  b_verifiedIdentity :: Identity
  b_verifiedRevisions :: "string list"
  b_verifiedAuthorities :: Authorities
  b_verifiedNetworkObservationMode :: string
  b_verifiedCompletionMode :: string
  b_verifiedRecoverySource :: string
  b_stageDigests :: "string \<Rightarrow> string option"

record stageRule =
  r_id :: string
  r_kind :: string
  r_authority :: string
  r_grantOperation :: string
  r_requires :: "string slice"

definition Format :: string where "Format = ''ok147-staged-execution-plan/v1''"
definition FormatV2 :: string where "FormatV2 = ''ok147-staged-execution-plan/v2''"
definition FormatRecovery :: string where "FormatRecovery = ''ok147-staged-execution-plan/recovery-v1''"
definition BindingFormat :: string where "BindingFormat = ''ok147-verified-staged-execution-plan/v1''"
definition BindingFormatV2 :: string where "BindingFormatV2 = ''ok147-verified-staged-execution-plan/v2''"
definition CompletionModeBareClusterMVP :: string where
  "CompletionModeBareClusterMVP = ''bare-cluster-mvp/v1''"
definition BareClusterStageCount :: nat where "BareClusterStageCount = 7"
definition maximumPlanBytes :: nat where "maximumPlanBytes = 128 * 1024"

lemmas plan_constants = Format_def FormatV2_def FormatRecovery_def BindingFormat_def BindingFormatV2_def
  CompletionModeBareClusterMVP_def BareClusterStageCount_def

abbreviation namePattern :: "string \<Rightarrow> bool" where
  "namePattern \<equiv> lower_name 1 127"

abbreviation digestPattern :: "string \<Rightarrow> bool" where
  "digestPattern \<equiv> digest_pattern"

definition rule :: "string \<Rightarrow> string \<Rightarrow> string \<Rightarrow> string \<Rightarrow> string slice \<Rightarrow> stageRule" where
  "rule i k a g req = \<lparr>r_id = i, r_kind = k, r_authority = a, r_grantOperation = g, r_requires = req\<rparr>"

definition requiredSequence :: "stageRule list" where
  "requiredSequence = [
     rule ''provider-prerequisites'' ''Submission'' ''infrastructure'' ''CreateProviderPrerequisites'' None,
     rule ''cluster-lifecycle'' ''Submission'' ''management'' ''CreateCluster'' (Some [''provider-prerequisites'']),
     rule ''lifecycle-observation'' ''Observation'' ''management'' '''' (Some [''cluster-lifecycle'']),
     rule ''enablement'' ''Submission'' ''management'' ''CreateEnablement'' (Some [''lifecycle-observation'']),
     rule ''network-observation'' ''Observation'' ''workload'' '''' (Some [''enablement'']),
     rule ''runtime-binding'' ''Binding'' ''runner'' '''' (Some [''network-observation'']),
     rule ''target-access'' ''Submission'' ''workload'' ''CreateTargetAccess'' (Some [''runtime-binding'']),
     rule ''target-credential'' ''Credential'' ''workload'' ''IssueTargetCredential'' (Some [''target-access'']),
     rule ''target-registration'' ''Submission'' ''gitops'' ''RegisterTarget'' (Some [''target-credential'']),
     rule ''platform-applications'' ''Submission'' ''gitops'' ''CreatePlatformApplications'' (Some [''target-registration'']),
     rule ''platform-observation'' ''Observation'' ''gitops'' '''' (Some [''platform-applications'']),
     rule ''aggregate-evidence'' ''Evaluation'' ''runner'' '''' (Some [''platform-observation''])]"

section \<open>JSON form\<close>

definition enc_identity :: "Identity \<Rightarrow> json" where
  "enc_identity i = struct [key ''namespace'' (JStr (i_Namespace i)), key ''name'' (JStr (i_Name i))]"

definition dec_identity :: "Identity \<Rightarrow> json \<Rightarrow> Identity option" where
  "dec_identity old = (let ns = [''namespace'', ''name''] in dec_struct ns (\<lambda>kvs. do {
     a \<leftarrow> dec_field ns kvs ''namespace'' dec_string (i_Namespace old);
     b \<leftarrow> dec_field ns kvs ''name'' dec_string (i_Name old);
     Some \<lparr>i_Namespace = a, i_Name = b\<rparr> }) old)"

definition enc_authorities :: "Authorities \<Rightarrow> json" where
  "enc_authorities a = struct [key ''infrastructure'' (JStr (a_Infrastructure a)),
     key ''management'' (JStr (a_Management a)), key ''gitOps'' (JStr (a_GitOps a)),
     key ''workloadIdentityMode'' (JStr (a_WorkloadIdentityMode a)),
     key ''runnerIdentityMode'' (JStr (a_RunnerIdentityMode a))]"

definition dec_authorities :: "Authorities \<Rightarrow> json \<Rightarrow> Authorities option" where
  "dec_authorities old =
     (let ns = [''infrastructure'', ''management'', ''gitOps'', ''workloadIdentityMode'', ''runnerIdentityMode'']
      in dec_struct ns (\<lambda>kvs. do {
     a \<leftarrow> dec_field ns kvs ''infrastructure'' dec_string (a_Infrastructure old);
     b \<leftarrow> dec_field ns kvs ''management'' dec_string (a_Management old);
     c \<leftarrow> dec_field ns kvs ''gitOps'' dec_string (a_GitOps old);
     d \<leftarrow> dec_field ns kvs ''workloadIdentityMode'' dec_string (a_WorkloadIdentityMode old);
     e \<leftarrow> dec_field ns kvs ''runnerIdentityMode'' dec_string (a_RunnerIdentityMode old);
     Some \<lparr>a_Infrastructure = a, a_Management = b, a_GitOps = c, a_WorkloadIdentityMode = d,
       a_RunnerIdentityMode = e\<rparr> }) old)"

definition enc_input :: "Input \<Rightarrow> json" where
  "enc_input i = struct [key ''name'' (JStr (in_Name i)), key ''digest'' (JStr (in_Digest i))]"

definition dec_input :: "Input \<Rightarrow> json \<Rightarrow> Input option" where
  "dec_input old = (let ns = [''name'', ''digest''] in dec_struct ns (\<lambda>kvs. do {
     a \<leftarrow> dec_field ns kvs ''name'' dec_string (in_Name old);
     b \<leftarrow> dec_field ns kvs ''digest'' dec_string (in_Digest old);
     Some \<lparr>in_Name = a, in_Digest = b\<rparr> }) old)"

definition zero_input :: Input where
  "zero_input = \<lparr>in_Name = [], in_Digest = []\<rparr>"

definition enc_stage :: "Stage \<Rightarrow> json" where
  "enc_stage s = struct [key ''id'' (JStr (s_ID s)), key ''order'' (JInt (s_Order s)),
     key ''kind'' (JStr (s_Kind s)), key ''authority'' (JStr (s_Authority s)),
     optkey ''grantOperation'' (JStr (s_GrantOperation s)),
     key ''requires'' (JSlice JStr (s_Requires s)), key ''inputs'' (JSlice enc_input (s_Inputs s))]"

definition dec_stage :: "Stage \<Rightarrow> json \<Rightarrow> Stage option" where
  "dec_stage old =
     (let ns = [''id'', ''order'', ''kind'', ''authority'', ''grantOperation'', ''requires'', ''inputs'']
      in dec_struct ns (\<lambda>kvs. do {
     a \<leftarrow> dec_field ns kvs ''id'' dec_string (s_ID old);
     b \<leftarrow> dec_field ns kvs ''order'' dec_int (s_Order old);
     c \<leftarrow> dec_field ns kvs ''kind'' dec_string (s_Kind old);
     d \<leftarrow> dec_field ns kvs ''authority'' dec_string (s_Authority old);
     e \<leftarrow> dec_field ns kvs ''grantOperation'' dec_string (s_GrantOperation old);
     f \<leftarrow> dec_field ns kvs ''requires'' (dec_slice dec_string []) (s_Requires old);
     g \<leftarrow> dec_field ns kvs ''inputs'' (dec_slice dec_input zero_input) (s_Inputs old);
     Some \<lparr>s_ID = a, s_Order = b, s_Kind = c, s_Authority = d, s_GrantOperation = e,
       s_Requires = f, s_Inputs = g\<rparr> }) old)"

definition zero_stage :: Stage where
  "zero_stage = \<lparr>s_ID = [], s_Order = 0, s_Kind = [], s_Authority = [], s_GrantOperation = [],
     s_Requires = None, s_Inputs = None\<rparr>"

definition zero_identity :: Identity where
  "zero_identity = \<lparr>i_Namespace = [], i_Name = []\<rparr>"

definition zero_authorities :: Authorities where
  "zero_authorities = \<lparr>a_Infrastructure = [], a_Management = [], a_GitOps = [],
     a_WorkloadIdentityMode = [], a_RunnerIdentityMode = []\<rparr>"

definition zero_document :: document where
  "zero_document = \<lparr>d_Format = [], d_ContractIdentity = zero_identity, d_IntentRevision = [],
     d_EnablementRevision = [], d_PlatformRevision = [], d_ExecutionFixture = [],
     d_ExecutionAttempt = [], d_RecoverySourcePlanDigest = [], d_AuthorizationState = [],
     d_NetworkObservationMode = [], d_CompletionMode = [], d_Authorities = zero_authorities,
     d_Stages = None\<rparr>"

definition enc_document :: "document \<Rightarrow> json" where
  "enc_document d = struct [key ''format'' (JStr (d_Format d)),
     key ''contractIdentity'' (enc_identity (d_ContractIdentity d)),
     key ''intentRevision'' (JStr (d_IntentRevision d)),
     key ''enablementRevision'' (JStr (d_EnablementRevision d)),
     key ''platformRevision'' (JStr (d_PlatformRevision d)),
     key ''executionFixture'' (JStr (d_ExecutionFixture d)),
     optkey ''executionAttemptDigest'' (JStr (d_ExecutionAttempt d)),
     optkey ''recoverySourcePlanDigest'' (JStr (d_RecoverySourcePlanDigest d)),
     key ''authorizationState'' (JStr (d_AuthorizationState d)),
     optkey ''networkObservationMode'' (JStr (d_NetworkObservationMode d)),
     optkey ''completionMode'' (JStr (d_CompletionMode d)),
     key ''authorities'' (enc_authorities (d_Authorities d)),
     key ''stages'' (JSlice enc_stage (d_Stages d))]"

definition document_fields :: "string list" where
  "document_fields = [''format'', ''contractIdentity'', ''intentRevision'', ''enablementRevision'',
     ''platformRevision'', ''executionFixture'', ''executionAttemptDigest'',
     ''recoverySourcePlanDigest'', ''authorizationState'', ''networkObservationMode'',
     ''completionMode'', ''authorities'', ''stages'']"

definition dec_document :: "json \<Rightarrow> document option" where
  "dec_document = (let ns = document_fields; old = zero_document in dec_struct ns (\<lambda>kvs. do {
     a \<leftarrow> dec_field ns kvs ''format'' dec_string (d_Format old);
     b \<leftarrow> dec_field ns kvs ''contractIdentity'' dec_identity (d_ContractIdentity old);
     c \<leftarrow> dec_field ns kvs ''intentRevision'' dec_string (d_IntentRevision old);
     d \<leftarrow> dec_field ns kvs ''enablementRevision'' dec_string (d_EnablementRevision old);
     e \<leftarrow> dec_field ns kvs ''platformRevision'' dec_string (d_PlatformRevision old);
     f \<leftarrow> dec_field ns kvs ''executionFixture'' dec_string (d_ExecutionFixture old);
     g \<leftarrow> dec_field ns kvs ''executionAttemptDigest'' dec_string (d_ExecutionAttempt old);
     h \<leftarrow> dec_field ns kvs ''recoverySourcePlanDigest'' dec_string (d_RecoverySourcePlanDigest old);
     i \<leftarrow> dec_field ns kvs ''authorizationState'' dec_string (d_AuthorizationState old);
     j \<leftarrow> dec_field ns kvs ''networkObservationMode'' dec_string (d_NetworkObservationMode old);
     k \<leftarrow> dec_field ns kvs ''completionMode'' dec_string (d_CompletionMode old);
     l \<leftarrow> dec_field ns kvs ''authorities'' dec_authorities (d_Authorities old);
     m \<leftarrow> dec_field ns kvs ''stages'' (dec_slice dec_stage zero_stage) (d_Stages old);
     Some \<lparr>d_Format = a, d_ContractIdentity = b, d_IntentRevision = c, d_EnablementRevision = d,
       d_PlatformRevision = e, d_ExecutionFixture = f, d_ExecutionAttempt = g,
       d_RecoverySourcePlanDigest = h, d_AuthorizationState = i, d_NetworkObservationMode = j,
       d_CompletionMode = k, d_Authorities = l, d_Stages = m\<rparr> }) old)"

section \<open>Verification\<close>

definition validCompletionMode :: "string \<Rightarrow> bool" where
  "validCompletionMode mode \<longleftrightarrow> mode = '''' \<or> mode = CompletionModeBareClusterMVP"

text \<open>
  Go ranges over the two map literals in random order; which of several invalid values is named in
  the error is therefore not modelled.
\<close>

definition ValidateExpected :: "Expected \<Rightarrow> unit result" where
  "ValidateExpected e =
     (if i_Name (x_ContractIdentity e) = '''' \<or> i_Namespace (x_ContractIdentity e) = '''' then
        Inl (New ''expected Contract identity is incomplete'')
      else if \<not> list_all digestPattern [x_IntentRevision e, x_EnablementRevision e,
          x_PlatformRevision e, x_ExecutionFixture e] then
        Inl (Errf ''expected %s is invalid'' [])
      else if x_ExecutionAttemptDigest e \<noteq> '''' \<and> \<not> digestPattern (x_ExecutionAttemptDigest e) then
        Inl (New ''expected execution attempt digest is invalid'')
      else if x_RecoverySourcePlanDigest e \<noteq> '''' \<and> \<not> digestPattern (x_RecoverySourcePlanDigest e) then
        Inl (New ''expected recovery source plan digest is invalid'')
      else if x_NetworkObservationMode e \<noteq> '''' \<and> x_NetworkObservationMode e \<noteq> ''deferred-mvp/v1'' then
        Inl (New ''expected network observation mode is unsupported'')
      else if \<not> validCompletionMode (x_CompletionMode e) then
        Inl (New ''expected completion mode is unsupported'')
      else if \<not> list_all namePattern [x_InfrastructureAuthority e, x_ManagementAuthority e,
          x_GitOpsAuthority e] then
        Inl (Errf ''expected %s is invalid'' [])
      else if x_InfrastructureAuthority e = x_ManagementAuthority e
          \<or> x_InfrastructureAuthority e = x_GitOpsAuthority e
          \<or> x_ManagementAuthority e = x_GitOpsAuthority e then
        Inl (New ''infrastructure, management, and GitOps authorities must be distinct'')
      else Inr ())"

text \<open>\<open>equalStrings\<close> compares lengths and elements, so a nil slice equals an empty one.\<close>

definition equalStrings :: "string slice \<Rightarrow> string slice \<Rightarrow> bool" where
  "equalStrings l r \<longleftrightarrow> elems l = elems r"

fun validate_inputs :: "string \<Rightarrow> string \<Rightarrow> Input list \<Rightarrow> unit result" where
  "validate_inputs sid previous [] = Inr ()"
| "validate_inputs sid previous (i # is) =
     (if \<not> namePattern (in_Name i) \<or> \<not> digestPattern (in_Digest i) then
        Inl (Errf ''stage %s has an invalid input binding'' [sid])
      else if previous \<noteq> '''' \<and> in_Name i \<le> previous then
        Inl (Errf ''stage %s input bindings are not uniquely sorted'' [sid])
      else validate_inputs sid (in_Name i) is)"

fun validate_sequence :: "nat \<Rightarrow> stageRule list \<Rightarrow> Stage list \<Rightarrow> unit result" where
  "validate_sequence n (r # rs) (s # ss) =
     (if s_Order s \<noteq> int n + 1 \<or> s_ID s \<noteq> r_id r \<or> s_Kind s \<noteq> r_kind r \<or> s_Authority s \<noteq> r_authority r
          \<or> s_GrantOperation s \<noteq> r_grantOperation r \<or> \<not> equalStrings (s_Requires s) (r_requires r) then
        Inl (Errf ''stage %d does not match the required bounded sequence'' [show_nat (n + 1)])
      else if elems (s_Inputs s) = [] then
        Inl (Errf ''stage %s has no immutable input bindings'' [s_ID s])
      else bindE (validate_inputs (s_ID s) '''' (elems (s_Inputs s)))
             (\<lambda>_. validate_sequence (Suc n) rs ss))"
| "validate_sequence n _ _ = Inr ()"

definition stage_sequence :: "Stage list \<Rightarrow> string \<Rightarrow> stageRule list" where
  "stage_sequence stages mode =
     (if mode = CompletionModeBareClusterMVP \<and> length stages = BareClusterStageCount
      then take BareClusterStageCount requiredSequence else requiredSequence)"

definition validateStages :: "Stage list \<Rightarrow> string \<Rightarrow> unit result" where
  "validateStages stages mode =
     (if length stages \<noteq> length (stage_sequence stages mode) then
        Inl (Errf ''staged execution plan has %d stages, expected %s''
          [show_nat (length stages),
           if mode = CompletionModeBareClusterMVP then ''7 or 12'' else ''12''])
      else validate_sequence 0 (stage_sequence stages mode) stages)"

definition cloneStages :: "Stage list \<Rightarrow> Stage list" where
  "cloneStages stages = stages"

definition stage_digest :: "Stage \<Rightarrow> string result" where
  "stage_digest s = canonical_digest (enc_stage s)"

text \<open>The loop that fills \<open>stageDigests\<close>.\<close>

fun stage_digests :: "Stage list \<Rightarrow> (string \<Rightarrow> string option) \<Rightarrow> (string \<Rightarrow> string option) result" where
  "stage_digests [] m = Inr m"
| "stage_digests (s # ss) m = bindE (stage_digest s) (\<lambda>d. stage_digests ss (m(s_ID s \<mapsto> d)))"

text \<open>The chain of checks of \<open>Verify\<close> up to \<open>validateStages\<close>.\<close>

definition check_document :: "document \<Rightarrow> Expected \<Rightarrow> unit result" where
  "check_document s e =
     (if d_Format s \<noteq> Format \<and> d_Format s \<noteq> FormatV2 \<and> d_Format s \<noteq> FormatRecovery then
        Inl (Errf ''staged execution plan format %q is not supported'' [d_Format s])
      else if d_Format s = FormatRecovery \<and>
          (\<not> digestPattern (d_RecoverySourcePlanDigest s)
           \<or> d_RecoverySourcePlanDigest s \<noteq> x_RecoverySourcePlanDigest e
           \<or> d_ExecutionAttempt s \<noteq> '''' \<or> x_ExecutionAttemptDigest e \<noteq> ''''
           \<or> d_CompletionMode s \<noteq> CompletionModeBareClusterMVP
           \<or> length (elems (d_Stages s)) \<noteq> BareClusterStageCount) then
        Inl (New ''recovery plan requires its exact source identity and seven-stage Bare-MVP scope'')
      else if d_Format s \<noteq> FormatRecovery \<and>
          (d_RecoverySourcePlanDigest s \<noteq> '''' \<or> x_RecoverySourcePlanDigest e \<noteq> '''') then
        Inl (New ''ordinary plans cannot select recovery source identities'')
      else if (d_Format s = Format \<or> d_Format s = FormatRecovery) \<and>
          (d_ExecutionAttempt s \<noteq> '''' \<or> x_ExecutionAttemptDigest e \<noteq> '''') then
        Inl (New ''staged execution plan v1 cannot bind an execution attempt'')
      else if \<not> (d_Format s = Format \<or> d_Format s = FormatRecovery) \<and>
          (\<not> digestPattern (d_ExecutionAttempt s) \<or> d_ExecutionAttempt s \<noteq> x_ExecutionAttemptDigest e) then
        Inl (New ''staged execution plan execution attempt differs from verified input'')
      else if d_AuthorizationState s \<noteq> ''NO-GO'' then
        Inl (New ''staged execution plan must remain non-authorizing (authorizationState NO-GO)'')
      else if d_NetworkObservationMode s \<noteq> x_NetworkObservationMode e then
        Inl (New ''staged execution plan network observation mode differs from verified input'')
      else if d_NetworkObservationMode s \<noteq> '''' \<and> d_NetworkObservationMode s \<noteq> ''deferred-mvp/v1'' then
        Inl (New ''staged execution plan network observation mode is unsupported'')
      else if d_CompletionMode s \<noteq> x_CompletionMode e then
        Inl (New ''staged execution plan completion mode differs from verified input'')
      else if \<not> validCompletionMode (d_CompletionMode s) then
        Inl (New ''staged execution plan completion mode is unsupported'')
      else if d_IntentRevision s \<noteq> x_IntentRevision e \<or> d_EnablementRevision s \<noteq> x_EnablementRevision e
          \<or> d_PlatformRevision s \<noteq> x_PlatformRevision e \<or> d_ExecutionFixture s \<noteq> x_ExecutionFixture e then
        Inl (New ''staged execution plan revisions or fixture differ from verified inputs'')
      else if d_ContractIdentity s \<noteq> x_ContractIdentity e then
        Inl (New ''staged execution plan Contract identity differs from verified input'')
      else if a_Infrastructure (d_Authorities s) \<noteq> x_InfrastructureAuthority e
          \<or> a_Management (d_Authorities s) \<noteq> x_ManagementAuthority e
          \<or> a_GitOps (d_Authorities s) \<noteq> x_GitOpsAuthority e then
        Inl (New ''staged execution plan authority identities differ from verified topology'')
      else if a_WorkloadIdentityMode (d_Authorities s) \<noteq> ''capi-cluster-uid/v1''
          \<or> a_RunnerIdentityMode (d_Authorities s) \<noteq> ''bounded-job/v1'' then
        Inl (New ''staged execution plan uses an unsupported dynamic authority mode'')
      else validateStages (elems (d_Stages s)) (d_CompletionMode s))"

text \<open>The binding \<open>Verify\<close> returns.\<close>

definition bind_document ::
  "document \<Rightarrow> string \<Rightarrow> (string \<Rightarrow> string option) \<Rightarrow> Binding" where
  "bind_document s planDigest digests = \<lparr>
     b_Format = (if d_Format s = FormatV2 then BindingFormatV2 else BindingFormat),
     b_PlanDigest = planDigest,
     b_ContractIdentity = d_ContractIdentity s,
     b_IntentRevision = d_IntentRevision s,
     b_EnablementRevision = d_EnablementRevision s,
     b_PlatformRevision = d_PlatformRevision s,
     b_ExecutionFixture = d_ExecutionFixture s,
     b_ExecutionAttempt = d_ExecutionAttempt s,
     b_RecoverySourcePlanDigest = d_RecoverySourcePlanDigest s,
     b_NetworkObservationMode = d_NetworkObservationMode s,
     b_CompletionMode = d_CompletionMode s,
     b_Authorities = d_Authorities s,
     b_Stages = Some (cloneStages (elems (d_Stages s))),
     b_verified = True,
     b_verifiedDigest = planDigest,
     b_verifiedIdentity = d_ContractIdentity s,
     b_verifiedRevisions = [d_IntentRevision s, d_EnablementRevision s, d_PlatformRevision s,
       d_ExecutionFixture s, d_ExecutionAttempt s],
     b_verifiedAuthorities = d_Authorities s,
     b_verifiedNetworkObservationMode = d_NetworkObservationMode s,
     b_verifiedCompletionMode = d_CompletionMode s,
     b_verifiedRecoverySource = d_RecoverySourcePlanDigest s,
     b_stageDigests = digests\<rparr>"

definition Verify :: "string \<Rightarrow> Expected \<Rightarrow> Binding result" where
  "Verify raw e =
     bindE (ValidateExpected e) (\<lambda>_.
     bindE (wrapE ''decode staged execution plan'' (strict_decode dec_document raw)) (\<lambda>s.
     bindE (check_document s e) (\<lambda>_.
     bindE (canonical_digest (enc_document s)) (\<lambda>planDigest.
     bindE (stage_digests (elems (d_Stages s)) Map.empty) (\<lambda>digests.
       Inr (bind_document s planDigest digests))))))"

text \<open>
  \<open>Load\<close>: \<open>info\<close> is what \<open>Lstat\<close> reports (regular file, symbolic link, size), \<open>content\<close> what the
  later \<open>Open\<close> and read of the path give; the file may change in between.
\<close>

record file_info =
  f_regular :: bool
  f_symlink :: bool
  f_size :: int

definition Load :: "string \<Rightarrow> file_info option \<Rightarrow> string option \<Rightarrow> Expected \<Rightarrow> Binding result" where
  "Load path info content e =
     (if path = '''' then Inl (New ''staged execution plan path is required'')
      else (case info of None \<Rightarrow> Inl (New ''inspect staged execution plan'')
      | Some i \<Rightarrow>
          if \<not> f_regular i \<or> f_symlink i \<or> f_size i \<le> 0 \<or> f_size i > int maximumPlanBytes then
            Inl (New ''staged execution plan metadata is invalid'')
          else (case content of None \<Rightarrow> Inl (New ''open staged execution plan'')
          | Some c \<Rightarrow>
              if length (take (maximumPlanBytes + 1) c) > maximumPlanBytes then
                Inl (New ''read bounded staged execution plan'')
              else Verify (take (maximumPlanBytes + 1) c) e)))"

section \<open>Reading a binding\<close>

text \<open>\<open>strings.TrimSpace(s) != ""\<close>: some rune is not white space.\<close>

definition unicode_space :: "nat \<Rightarrow> bool" where
  "unicode_space r \<longleftrightarrow> (9 \<le> r \<and> r \<le> 13) \<or> (0x2000 \<le> r \<and> r \<le> 0x200A)
     \<or> r \<in> {32, 0x85, 0xA0, 0x1680, 0x2028, 0x2029, 0x202F, 0x205F, 0x3000}"

definition blank :: "string \<Rightarrow> bool" where
  "blank s \<longleftrightarrow> list_all unicode_space (runes s)"

definition IsMutating :: "Stage \<Rightarrow> bool" where
  "IsMutating s \<longleftrightarrow> \<not> blank (s_GrantOperation s)"

definition InputNames :: "Stage \<Rightarrow> string list" where
  "InputNames s = sort (map in_Name (elems (s_Inputs s)))"

definition Binding_Stage :: "Binding \<Rightarrow> string \<Rightarrow> (Stage \<times> string) result" where
  "Binding_Stage b sid =
     (if \<not> b_verified b \<or> (b_Format b \<noteq> BindingFormat \<and> b_Format b \<noteq> BindingFormatV2)
          \<or> b_PlanDigest b \<noteq> b_verifiedDigest b \<or> \<not> digestPattern (b_PlanDigest b) then
        Inl (New ''verified staged execution binding is required'')
      else if b_RecoverySourcePlanDigest b \<noteq> b_verifiedRecoverySource b
          \<or> b_ContractIdentity b \<noteq> b_verifiedIdentity b
          \<or> [b_IntentRevision b, b_EnablementRevision b, b_PlatformRevision b, b_ExecutionFixture b,
             b_ExecutionAttempt b] \<noteq> b_verifiedRevisions b
          \<or> b_Authorities b \<noteq> b_verifiedAuthorities b
          \<or> b_NetworkObservationMode b \<noteq> b_verifiedNetworkObservationMode b
          \<or> b_CompletionMode b \<noteq> b_verifiedCompletionMode b then
        Inl (New ''staged execution top-level binding changed after verification'')
      else bindE (wrapE ''revalidate staged execution binding''
                    (validateStages (elems (b_Stages b)) (b_CompletionMode b))) (\<lambda>_.
        case find (\<lambda>s. s_ID s = sid) (elems (b_Stages b)) of
          None \<Rightarrow> Inl (Errf ''stage %q is not part of the verified execution plan'' [sid])
        | Some s \<Rightarrow>
            (case stage_digest s of
               Inl _ \<Rightarrow> Inl (New ''staged execution stage binding changed after verification'')
             | Inr d \<Rightarrow>
                 if d \<noteq> (case b_stageDigests b sid of None \<Rightarrow> '''' | Some v \<Rightarrow> v) then
                   Inl (New ''staged execution stage binding changed after verification'')
                 else Inr (hd (cloneStages [s]), d))))"

definition RequireInput :: "Binding \<Rightarrow> string \<Rightarrow> string \<Rightarrow> string \<Rightarrow> unit result" where
  "RequireInput b stageID name expectedDigest =
     bindE (Binding_Stage b stageID) (\<lambda>(stage, _).
       if \<not> namePattern name \<or> \<not> digestPattern expectedDigest then
         Inl (New ''required staged execution input identity is invalid'')
       else (case find (\<lambda>i. in_Name i = name) (elems (s_Inputs stage)) of
           None \<Rightarrow> Inl (New ''staged execution plan does not bind the required artifact'')
         | Some i \<Rightarrow>
             if in_Digest i \<noteq> expectedDigest then
               Inl (New ''staged execution input digest differs from verified artifact'')
             else Inr ()))"

definition ErrRecoveryExecutionDisabled :: goerror where
  "ErrRecoveryExecutionDisabled = Sentinel ''recovery execution is disabled pending an authoritative atomic reservation and legacy-executor fencing''"

definition RequireExecutionEnabled :: "Binding \<Rightarrow> unit result" where
  "RequireExecutionEnabled b =
     (if b_RecoverySourcePlanDigest b \<noteq> '''' \<or> b_verifiedRecoverySource b \<noteq> ''''
      then Inl ErrRecoveryExecutionDisabled else Inr ())"

section \<open>BuildBareCluster\<close>

definition bare_input_names :: "string list list" where
  "bare_input_names = [[''projection.provider-prerequisites''],
     [''projection.cluster-lifecycle'', ''stage.provider-access''],
     [''stage.lifecycle-observation''], [''stage.enablement''], [''stage.network-observation''],
     [''stage.runtime-binding''], [''stage.target-access'']]"

definition build_input :: "(string \<times> string) list \<Rightarrow> string \<Rightarrow> Input result" where
  "build_input inputs name = (case map_of inputs name of
       None \<Rightarrow> Inl (New ''fresh Bare-MVP plan input is missing or invalid'')
     | Some v \<Rightarrow> if \<not> digestPattern v then Inl (New ''fresh Bare-MVP plan input is missing or invalid'')
         else Inr \<lparr>in_Name = name, in_Digest = v\<rparr>)"

fun build_stages ::
  "(string \<times> string) list \<Rightarrow> nat \<Rightarrow> stageRule list \<Rightarrow> string list list \<Rightarrow> Stage list result" where
  "build_stages inputs i (r # rs) (names # nss) =
     bindE (mapE (build_input inputs) names) (\<lambda>is.
     bindE (build_stages inputs (Suc i) rs nss) (\<lambda>ss.
       Inr (\<lparr>s_ID = r_id r, s_Order = int i + 1, s_Kind = r_kind r, s_Authority = r_authority r,
              s_GrantOperation = r_grantOperation r, s_Requires = Some (elems (r_requires r)),
              s_Inputs = Some is\<rparr> # ss)))"
| "build_stages inputs i _ _ = Inr []"

definition bare_document :: "Expected \<Rightarrow> Stage list \<Rightarrow> document" where
  "bare_document e stages = zero_document\<lparr>
     d_Format := Format, d_ContractIdentity := x_ContractIdentity e,
     d_IntentRevision := x_IntentRevision e, d_EnablementRevision := x_EnablementRevision e,
     d_PlatformRevision := x_PlatformRevision e, d_ExecutionFixture := x_ExecutionFixture e,
     d_AuthorizationState := ''NO-GO'', d_CompletionMode := CompletionModeBareClusterMVP,
     d_Authorities := \<lparr>a_Infrastructure = x_InfrastructureAuthority e,
       a_Management = x_ManagementAuthority e, a_GitOps = x_GitOpsAuthority e,
       a_WorkloadIdentityMode = ''capi-cluster-uid/v1'', a_RunnerIdentityMode = ''bounded-job/v1''\<rparr>,
     d_Stages := Some stages\<rparr>"

definition BuildBareCluster :: "Expected \<Rightarrow> (string \<times> string) list \<Rightarrow> (string \<times> Binding) result" where
  "BuildBareCluster e inputs =
     (if x_CompletionMode e \<noteq> CompletionModeBareClusterMVP \<or> x_ExecutionAttemptDigest e \<noteq> ''''
          \<or> x_RecoverySourcePlanDigest e \<noteq> '''' \<or> x_NetworkObservationMode e \<noteq> '''' then
        Inl (New ''fresh Bare-MVP plan requires ordinary seven-stage scope and full network observation'')
      else bindE (ValidateExpected e) (\<lambda>_.
        if card (set (map fst inputs)) \<noteq> 8 then
          Inl (New ''fresh Bare-MVP plan requires exactly eight immutable inputs'')
        else bindE (build_stages inputs 0 (take BareClusterStageCount requiredSequence) bare_input_names)
          (\<lambda>stages.
            let raw = indent_json 0 (enc_document (bare_document e stages)) @ [CHR 0x0A]
            in bindE (Verify raw e) (\<lambda>b. Inr (raw, b)))))"

section \<open>The codecs\<close>

lemmas struct_codec = dec_struct_canon dec_field_canon Let_def

definition ok_identity :: "Identity \<Rightarrow> bool" where
  "ok_identity i \<longleftrightarrow> valid_utf8 (i_Namespace i) \<and> valid_utf8 (i_Name i)"

definition ok_authorities :: "Authorities \<Rightarrow> bool" where
  "ok_authorities a \<longleftrightarrow> list_all valid_utf8 [a_Infrastructure a, a_Management a, a_GitOps a,
     a_WorkloadIdentityMode a, a_RunnerIdentityMode a]"

definition ok_input :: "Input \<Rightarrow> bool" where
  "ok_input i \<longleftrightarrow> valid_utf8 (in_Name i) \<and> valid_utf8 (in_Digest i)"

definition ok_stage :: "Stage \<Rightarrow> bool" where
  "ok_stage s \<longleftrightarrow> list_all valid_utf8 [s_ID s, s_Kind s, s_Authority s, s_GrantOperation s]
     \<and> list_all valid_utf8 (elems (s_Requires s)) \<and> list_all ok_input (elems (s_Inputs s))
     \<and> in_int64 (s_Order s)"

definition ok_document :: "document \<Rightarrow> bool" where
  "ok_document d \<longleftrightarrow> list_all valid_utf8 [d_Format d, d_IntentRevision d, d_EnablementRevision d,
       d_PlatformRevision d, d_ExecutionFixture d, d_ExecutionAttempt d, d_RecoverySourcePlanDigest d,
       d_AuthorizationState d, d_NetworkObservationMode d, d_CompletionMode d]
     \<and> ok_identity (d_ContractIdentity d) \<and> ok_authorities (d_Authorities d)
     \<and> list_all ok_stage (elems (d_Stages d))"

lemma dec_identity_canon [simp]: "dec_identity zero_identity (canon (enc_identity i)) = Some i"
  by (simp add: dec_identity_def enc_identity_def zero_identity_def struct_codec)

lemma dec_authorities_canon [simp]:
  "dec_authorities zero_authorities (canon (enc_authorities a)) = Some a"
  by (simp add: dec_authorities_def enc_authorities_def zero_authorities_def struct_codec)

lemma dec_input_canon [simp]: "dec_input zero_input (canon (enc_input i)) = Some i"
  by (simp add: dec_input_def enc_input_def zero_input_def struct_codec)

lemma dec_stage_canon [simp]:
  "in_int64 (s_Order s) \<Longrightarrow> dec_stage zero_stage (canon (enc_stage s)) = Some s"
  by (simp add: dec_stage_def enc_stage_def zero_stage_def struct_codec dec_slice_canon)

lemma dec_document_canon:
  assumes "list_all ok_stage (elems (d_Stages d))"
  shows "dec_document (canon (enc_document d)) = Some d"
proof -
  have "dec_slice dec_stage zero_stage None (canon (JSlice enc_stage (d_Stages d))) = Some (d_Stages d)"
    by (rule dec_slice_canon) (use assms in \<open>simp add: list_all_iff ok_stage_def\<close>)
  then show ?thesis
    by (simp add: dec_document_def enc_document_def zero_document_def document_fields_def struct_codec)
qed

lemma fits_identity: "ok_identity i \<Longrightarrow> 0 < d \<Longrightarrow> fits d (enc_identity i)"
  by (simp add: enc_identity_def fits_struct ok_identity_def valid_utf8_ascii is_ascii_def)


lemmas fits_codec = fits_struct fits_JSlice valid_utf8_ascii is_ascii_def

lemma fits_authorities: "ok_authorities a \<Longrightarrow> 0 < d \<Longrightarrow> fits d (enc_authorities a)"
  by (simp add: enc_authorities_def ok_authorities_def fits_codec)

lemma fits_input: "ok_input i \<Longrightarrow> 0 < d \<Longrightarrow> fits d (enc_input i)"
  by (simp add: enc_input_def ok_input_def fits_codec)

lemma fits_stage:
  assumes "ok_stage s" and "3 \<le> d"
  shows "fits d (enc_stage s)"
proof -
  have "fits (d - 1) (JSlice enc_input (s_Inputs s))"
    using assms by (auto simp: fits_JSlice ok_stage_def list_all_iff intro!: fits_input)
  moreover have "fits (d - 1) (JSlice JStr (s_Requires s))"
    using assms by (auto simp: fits_JSlice ok_stage_def list_all_iff)
  ultimately show ?thesis
    using assms by (simp add: enc_stage_def ok_stage_def fits_struct valid_utf8_ascii is_ascii_def)
qed

lemma fits_document:
  assumes "ok_document d" and "5 \<le> k"
  shows "fits k (enc_document d)"
proof -
  have "fits (k - 1) (JSlice enc_stage (d_Stages d))"
    using assms by (auto simp: fits_JSlice ok_document_def list_all_iff intro!: fits_stage)
  moreover have "fits (k - 1) (enc_identity (d_ContractIdentity d))"
    using assms by (simp add: ok_document_def fits_identity)
  moreover have "fits (k - 1) (enc_authorities (d_Authorities d))"
    using assms by (simp add: ok_document_def fits_authorities)
  ultimately show ?thesis
    using assms by (simp add: enc_document_def ok_document_def fits_struct valid_utf8_ascii is_ascii_def)
qed

interpretation stage_codec: json_codec enc_stage "dec_stage zero_stage" ok_stage
  by unfold_locales (simp_all add: fits_stage ok_stage_def)

interpretation document_codec: json_codec enc_document dec_document ok_document
  by unfold_locales (simp_all add: fits_document dec_document_canon ok_document_def)

end
