(* ===== verification/StagePlanFacts.thy ===== *)
theory StagePlanFacts
  imports StagePlan
begin

text \<open>
  What verification of a staged plan establishes: the required sequence with its order, ids and
  dependency chain, the agreement of the binding with the expected identities, the lookup of every
  verified stage, detection of changes made after verification, and the success of
  \<open>BuildBareCluster\<close>.
\<close>

section \<open>The required sequence\<close>

definition rule_matches :: "nat \<Rightarrow> stageRule \<Rightarrow> Stage \<Rightarrow> bool" where
  "rule_matches n r s \<longleftrightarrow> s_Order s = int n + 1 \<and> s_ID s = r_id r \<and> s_Kind s = r_kind r
     \<and> s_Authority s = r_authority r \<and> s_GrantOperation s = r_grantOperation r
     \<and> elems (s_Requires s) = elems (r_requires r)"

text \<open>Nonempty, every name and digest well-formed, names strictly increasing.\<close>

definition inputs_bound :: "Input list \<Rightarrow> bool" where
  "inputs_bound is \<longleftrightarrow> is \<noteq> [] \<and> list_all (\<lambda>i. namePattern (in_Name i) \<and> digestPattern (in_Digest i)) is
     \<and> sorted_wrt (<) (map in_Name is)"

lemma validate_inputs_iff:
  "validate_inputs sid p is = Inr () \<longleftrightarrow>
    list_all (\<lambda>i. namePattern (in_Name i) \<and> digestPattern (in_Digest i)) is
    \<and> sorted_wrt (<) (map in_Name is) \<and> (p \<noteq> [] \<longrightarrow> (\<forall>i \<in> set is. p < in_Name i))"
proof (induction "is" arbitrary: p)
  case (Cons i "is")
  have ne: "namePattern (in_Name i) \<Longrightarrow> in_Name i \<noteq> []" by auto
  show ?case
  proof (cases "namePattern (in_Name i) \<and> digestPattern (in_Digest i) \<and> (p \<noteq> [] \<longrightarrow> p < in_Name i)")
    case True
    then have "validate_inputs sid p (i # is) = validate_inputs sid (in_Name i) is" by auto
    moreover have "p \<noteq> [] \<Longrightarrow> \<forall>j \<in> set is. in_Name i < in_Name j \<Longrightarrow> \<forall>j \<in> set is. p < in_Name j"
      using True by (meson less_trans)
    ultimately show ?thesis using Cons.IH [of "in_Name i"] True ne by auto
  next
    case False
    then show ?thesis by auto
  qed
qed simp

lemma validate_sequence_iff:
  "length rs = length ss \<Longrightarrow> validate_sequence n rs ss = Inr () \<longleftrightarrow>
    (\<forall>i < length rs. rule_matches (n + i) (rs ! i) (ss ! i) \<and> inputs_bound (elems (s_Inputs (ss ! i))))"
proof (induction rs ss arbitrary: n rule: list_induct2)
  case (Cons r rs s ss)
  have "validate_sequence n (r # rs) (s # ss) = Inr () \<longleftrightarrow>
    (rule_matches n r s \<and> inputs_bound (elems (s_Inputs s))) \<and> validate_sequence (Suc n) rs ss = Inr ()"
  proof -
    have c: "(s_Order s \<noteq> int n + 1 \<or> s_ID s \<noteq> r_id r \<or> s_Kind s \<noteq> r_kind r \<or> s_Authority s \<noteq> r_authority r
        \<or> s_GrantOperation s \<noteq> r_grantOperation r \<or> \<not> equalStrings (s_Requires s) (r_requires r))
      = (\<not> rule_matches n r s)"
      by (simp add: rule_matches_def equalStrings_def)
    show ?thesis
      by (simp only: validate_sequence.simps c if_Inl_eq_Inr not_not bindE_eq_Inr)
        (auto simp: inputs_bound_def validate_inputs_iff)
  qed
  with Cons.IH [of "Suc n"] show ?case
    by (simp only: length_Cons All_less_Suc2 nth_Cons_0 nth_Cons_Suc add_0_right add_Suc_shift)
qed simp

lemma length_requiredSequence: "length requiredSequence = 12"
  by (simp add: requiredSequence_def)

lemma distinct_requiredSequence: "distinct (map r_id requiredSequence)"
  by (simp add: requiredSequence_def rule_def)

lemma validateStages_iff:
  "validateStages ss mode = Inr () \<longleftrightarrow>
    length ss = length (stage_sequence ss mode) \<and>
    (\<forall>i < length ss. rule_matches i (stage_sequence ss mode ! i) (ss ! i)
       \<and> inputs_bound (elems (s_Inputs (ss ! i))))"
  using validate_sequence_iff [of "stage_sequence ss mode" ss 0] by (auto simp: validateStages_def)

lemma stage_sequence_take: "\<exists>n. stage_sequence ss mode = take n requiredSequence"
  by (metis stage_sequence_def take_all length_requiredSequence order_refl)

lemma validateStages_ids:
  assumes "validateStages ss mode = Inr ()"
  shows "map s_ID ss = map r_id (stage_sequence ss mode)" and "distinct (map s_ID ss)"
proof -
  show m: "map s_ID ss = map r_id (stage_sequence ss mode)"
    using assms by (intro nth_equalityI) (auto simp: validateStages_iff rule_matches_def)
  obtain n where "stage_sequence ss mode = take n requiredSequence" using stage_sequence_take by blast
  with m show "distinct (map s_ID ss)"
    using distinct_requiredSequence by (simp add: take_map [symmetric])
qed

lemma find_stage:
  assumes "distinct (map s_ID ss)" and "s \<in> set ss"
  shows "find (\<lambda>x. s_ID x = s_ID s) ss = Some s"
  using assms by (induction ss) (auto simp: image_iff)

section \<open>What Verify establishes\<close>

lemma Verify_eq_Inr:
  "Verify raw e = Inr b \<longleftrightarrow>
    (\<exists>s pd dg. ValidateExpected e = Inr () \<and> strict_decode dec_document raw = Inr s
       \<and> check_document s e = Inr () \<and> canonical_digest (enc_document s) = Inr pd
       \<and> stage_digests (elems (d_Stages s)) Map.empty = Inr dg \<and> b = bind_document s pd dg)"
  by (auto simp: Verify_def bindE_eq_Inr)

text \<open>The identities a document shares with what is expected.\<close>

definition agrees :: "document \<Rightarrow> Expected \<Rightarrow> bool" where
  "agrees s e \<longleftrightarrow>
     d_ContractIdentity s = x_ContractIdentity e
     \<and> d_IntentRevision s = x_IntentRevision e \<and> d_EnablementRevision s = x_EnablementRevision e
     \<and> d_PlatformRevision s = x_PlatformRevision e \<and> d_ExecutionFixture s = x_ExecutionFixture e
     \<and> d_ExecutionAttempt s = x_ExecutionAttemptDigest e
     \<and> d_RecoverySourcePlanDigest s = x_RecoverySourcePlanDigest e
     \<and> d_NetworkObservationMode s = x_NetworkObservationMode e
     \<and> d_CompletionMode s = x_CompletionMode e
     \<and> d_Authorities s = \<lparr>a_Infrastructure = x_InfrastructureAuthority e,
         a_Management = x_ManagementAuthority e, a_GitOps = x_GitOpsAuthority e,
         a_WorkloadIdentityMode = ''capi-cluster-uid/v1'', a_RunnerIdentityMode = ''bounded-job/v1''\<rparr>"

lemma formats_distinct [simp]:
  "Format \<noteq> FormatV2" "Format \<noteq> FormatRecovery" "FormatV2 \<noteq> FormatRecovery"
  "FormatV2 \<noteq> Format" "FormatRecovery \<noteq> Format" "FormatRecovery \<noteq> FormatV2"
  by (simp_all add: plan_constants)

lemma binding_formats_distinct [simp]: "BindingFormat \<noteq> BindingFormatV2" "BindingFormatV2 \<noteq> BindingFormat"
  by (simp_all add: plan_constants)

lemmas check_document_simps = check_document_def if_Inl_eq_Inr de_Morgan_disj de_Morgan_conj not_not

lemma check_document_agrees:
  assumes "check_document s e = Inr ()"
  shows "agrees s e"
proof -
  note c = assms [simplified check_document_simps]
  have "d_RecoverySourcePlanDigest s = x_RecoverySourcePlanDigest e
      \<and> d_ExecutionAttempt s = x_ExecutionAttemptDigest e"
    using c by (cases "d_Format s = FormatRecovery"; cases "d_Format s = Format"; simp)
  then show ?thesis using c by (simp add: agrees_def)
qed

lemma check_document_sound:
  "check_document s e = Inr () \<Longrightarrow>
    d_Format s \<in> {Format, FormatV2, FormatRecovery} \<and> d_AuthorizationState s = ''NO-GO''
    \<and> (d_Format s = FormatRecovery \<longleftrightarrow> x_RecoverySourcePlanDigest e \<noteq> '''')
    \<and> (d_Format s = FormatV2 \<longleftrightarrow> x_ExecutionAttemptDigest e \<noteq> '''')
    \<and> validateStages (elems (d_Stages s)) (d_CompletionMode s) = Inr ()"
  by (cases "d_Format s = FormatRecovery"; cases "d_Format s = Format"; cases "d_Format s = FormatV2")
    (simp_all only: check_document_simps, auto)

lemma Verify_stages_valid:
  "Verify raw e = Inr b \<Longrightarrow> validateStages (elems (b_Stages b)) (b_CompletionMode b) = Inr ()"
  by (auto simp: Verify_eq_Inr bind_document_def cloneStages_def dest: check_document_sound)

lemma requiredSequence_chain:
  "i < 12 \<Longrightarrow> elems (r_requires (requiredSequence ! i))
     = (if i = 0 then [] else [r_id (requiredSequence ! (i - 1))])"
  by (simp add: requiredSequence_def rule_def less_Suc_eq numeral_eq_Suc) (elim disjE; simp)


lemma stage_digests_entries:
  assumes "stage_digests ss m = Inr dg" and "distinct (map s_ID ss)"
  shows "(\<forall>s \<in> set ss. \<exists>d. stage_digest s = Inr d \<and> dg (s_ID s) = Some d)
    \<and> (\<forall>i. i \<notin> s_ID ` set ss \<longrightarrow> dg i = m i)"
  using assms
proof (induction ss arbitrary: m)
  case (Cons s ss)
  from Cons.prems(1) obtain d where d: "stage_digest s = Inr d"
    and r: "stage_digests ss (m(s_ID s \<mapsto> d)) = Inr dg" by (auto simp: bindE_eq_Inr)
  from Cons.IH [OF r] Cons.prems(2) d show ?case by auto
qed simp

lemma requiredSequence_ok:
  "list_all (\<lambda>r. list_all valid_utf8 [r_id r, r_kind r, r_authority r, r_grantOperation r]
     \<and> list_all valid_utf8 (elems (r_requires r))) requiredSequence"
  by (simp add: requiredSequence_def rule_def valid_utf8_ascii is_ascii_def)

lemma inputs_bound_ok: "inputs_bound is \<Longrightarrow> list_all ok_input is"
  by (auto simp: inputs_bound_def ok_input_def list_all_iff intro: valid_utf8_name valid_utf8_digest)

lemma validateStages_ok:
  assumes "validateStages ss mode = Inr ()"
  shows "list_all ok_stage ss"
  unfolding list_all_length
proof (intro allI impI)
  fix i assume i: "i < length ss"
  let ?r = "stage_sequence ss mode ! i"
  obtain n where n: "stage_sequence ss mode = take n requiredSequence" using stage_sequence_take by blast
  have m: "rule_matches i ?r (ss ! i)" and b: "inputs_bound (elems (s_Inputs (ss ! i)))"
    and l: "i < length (stage_sequence ss mode)" and i12: "int i + 1 \<le> 12"
    using assms i n length_requiredSequence by (auto simp: validateStages_iff)
  have "?r \<in> set requiredSequence" using l nth_mem [of i "stage_sequence ss mode"] n by (auto dest: in_set_takeD)
  then have "list_all valid_utf8 [r_id ?r, r_kind ?r, r_authority ?r, r_grantOperation ?r]
     \<and> list_all valid_utf8 (elems (r_requires ?r))"
    using requiredSequence_ok by (simp add: list_all_iff)
  with m inputs_bound_ok [OF b] i12 show "ok_stage (ss ! i)"
    by (simp add: ok_stage_def rule_matches_def in_int64_def)
qed

text \<open>
  C26: when \<open>Verify\<close> accepts a plan document, the document is the strict decoding of the bytes, it
  is non-authorizing, its identities, revisions, modes and authorities (those of the binding) are
  exactly the expected ones, and the plan digest is the digest of its canonical form.
\<close>

theorem Verify_sound:
  assumes "Verify raw e = Inr b"
  shows "\<exists>s. strict_decode dec_document raw = Inr s \<and> d_AuthorizationState s = ''NO-GO''
    \<and> d_Format s \<in> {Format, FormatV2, FormatRecovery} \<and> agrees s e
    \<and> canonical_digest (enc_document s) = Inr (b_PlanDigest b)
    \<and> b_ContractIdentity b = x_ContractIdentity e
    \<and> [b_IntentRevision b, b_EnablementRevision b, b_PlatformRevision b, b_ExecutionFixture b,
       b_ExecutionAttempt b]
      = [x_IntentRevision e, x_EnablementRevision e, x_PlatformRevision e, x_ExecutionFixture e,
         x_ExecutionAttemptDigest e]
    \<and> b_RecoverySourcePlanDigest b = x_RecoverySourcePlanDigest e
    \<and> b_Authorities b = d_Authorities s \<and> elems (b_Stages b) = elems (d_Stages s)"
proof -
  from assms obtain s pd dg where s: "strict_decode dec_document raw = Inr s"
    "check_document s e = Inr ()" "canonical_digest (enc_document s) = Inr pd"
    and b: "b = bind_document s pd dg" by (auto simp: Verify_eq_Inr)
  from check_document_agrees [OF s(2)] check_document_sound [OF s(2)] s b
  show ?thesis by (intro exI [of _ s]) (auto simp: bind_document_def agrees_def cloneStages_def)
qed

lemma plan_sequence:
  assumes "Verify raw e = Inr b"
  shows "\<exists>n. (n = 12 \<or> n = 7 \<and> x_CompletionMode e = CompletionModeBareClusterMVP)
    \<and> length (elems (b_Stages b)) = n
    \<and> (\<forall>i < n. let s = elems (b_Stages b) ! i in
        rule_matches i (requiredSequence ! i) s
        \<and> elems (s_Requires s) = (if i = 0 then [] else [s_ID (elems (b_Stages b) ! (i - 1))])
        \<and> inputs_bound (elems (s_Inputs s)))"
proof -
  let ?ss = "elems (b_Stages b)"
  note v = Verify_stages_valid [OF assms]
  have m: "b_CompletionMode b = x_CompletionMode e"
    using assms by (auto simp: Verify_eq_Inr bind_document_def agrees_def dest!: check_document_agrees)
  obtain n where n: "n = 12 \<or> n = 7 \<and> x_CompletionMode e = CompletionModeBareClusterMVP"
    "length ?ss = n" "stage_sequence ?ss (b_CompletionMode b) = take n requiredSequence"
    using v m by (auto simp: validateStages_iff stage_sequence_def length_requiredSequence
        BareClusterStageCount_def split: if_splits)
  have r: "rule_matches i (requiredSequence ! i) (?ss ! i) \<and> inputs_bound (elems (s_Inputs (?ss ! i)))"
    if "i < n" for i
    using v that n by (auto simp: validateStages_iff)
  have "elems (s_Requires (?ss ! i)) = (if i = 0 then [] else [s_ID (?ss ! (i - 1))])" if "i < n" for i
    using r [OF that] r [of "i - 1"] that n(1) requiredSequence_chain [of i]
    by (auto simp: rule_matches_def)
  with r n show ?thesis by (auto simp: Let_def)
qed

text \<open>
  C27: the stages of a verified plan are the required sequence, in full or cut after seven stages in
  bare-cluster mode: ids, kinds, authorities and grant operations are those of the rules, the order
  counts from one, every stage depends on exactly its predecessor, and its inputs are nonempty,
  well-formed and strictly sorted by name.
\<close>

theorem Verify_sequence:
  assumes "Verify raw e = Inr b"
  shows "\<exists>n. (n = 12 \<or> n = 7 \<and> x_CompletionMode e = CompletionModeBareClusterMVP)
    \<and> length (elems (b_Stages b)) = n
    \<and> (\<forall>i < n. let s = elems (b_Stages b) ! i in
        rule_matches i (requiredSequence ! i) s
        \<and> elems (s_Requires s) = (if i = 0 then [] else [s_ID (elems (b_Stages b) ! (i - 1))])
        \<and> inputs_bound (elems (s_Inputs s)))"
  by (rule plan_sequence [OF assms])

lemma stage_lookup:
  assumes "Verify raw e = Inr b"
  shows "(\<forall>s \<in> set (elems (b_Stages b)).
      Binding_Stage b (s_ID s) = Inr (s, SHA256 (canonical_text (enc_stage s))))
    \<and> (\<forall>i. i \<notin> s_ID ` set (elems (b_Stages b)) \<longrightarrow>
      Binding_Stage b i = Inl (Errf ''stage %q is not part of the verified execution plan'' [i]))"
proof -
  let ?ss = "elems (b_Stages b)"
  note v = Verify_stages_valid [OF assms]
  note d = validateStages_ids(2) [OF v]
  have ok: "list_all ok_stage ?ss" by (rule validateStages_ok [OF v])
  from assms obtain s pd dg where b: "b = bind_document s pd dg"
    and pd: "canonical_digest (enc_document s) = Inr pd"
    and dg: "stage_digests ?ss Map.empty = Inr dg"
    by (auto simp: Verify_eq_Inr bind_document_def cloneStages_def)
  have k: "Binding_Stage b i = (case find (\<lambda>s. s_ID s = i) ?ss of
      None \<Rightarrow> Inl (Errf ''stage %q is not part of the verified execution plan'' [i])
    | Some s \<Rightarrow> (case stage_digest s of
        Inl _ \<Rightarrow> Inl (New ''staged execution stage binding changed after verification'')
      | Inr d \<Rightarrow> if d \<noteq> (case dg i of None \<Rightarrow> '''' | Some v \<Rightarrow> v)
          then Inl (New ''staged execution stage binding changed after verification'')
          else Inr (s, d)))" for i
    using v canonical_digest_pattern [OF pd] unfolding b
    by (simp add: Binding_Stage_def bind_document_def cloneStages_def split: option.split sum.split)
  have "Binding_Stage b (s_ID s) = Inr (s, SHA256 (canonical_text (enc_stage s)))" if "s \<in> set ?ss" for s
  proof -
    have sd: "stage_digest s = Inr (SHA256 (canonical_text (enc_stage s)))"
      using ok that by (simp add: stage_digest_def stage_codec.digest list_all_iff)
    then have "dg (s_ID s) = Some (SHA256 (canonical_text (enc_stage s)))"
      using stage_digests_entries [OF dg d] that by auto
    with sd show ?thesis by (simp add: k find_stage [OF d that])
  qed
  moreover have "find (\<lambda>s. s_ID s = i) ?ss = None" if "i \<notin> s_ID ` set ?ss" for i
    using that by (auto simp: find_None_iff)
  ultimately show ?thesis by (simp add: k)
qed

text \<open>
  After verification, \<open>Stage\<close> returns every stage of the plan with the digest of its canonical
  form, and refuses every other id; it never fails on an unchanged binding.
\<close>

theorem Stage_after_Verify:
  assumes "Verify raw e = Inr b"
  shows "(\<forall>s \<in> set (elems (b_Stages b)).
      Binding_Stage b (s_ID s) = Inr (s, SHA256 (canonical_text (enc_stage s))))
    \<and> (\<forall>i. i \<notin> s_ID ` set (elems (b_Stages b)) \<longrightarrow>
      Binding_Stage b i = Inl (Errf ''stage %q is not part of the verified execution plan'' [i]))"
  by (rule stage_lookup [OF assms])


text \<open>
  A stage changed in memory after verification is returned only on a collision of SHA-256: when
  \<open>Stage\<close> accepts a binding whose stage list was replaced, the stage it returns is the one that was
  verified, or its canonical text differs from the verified one and has the same digest.
\<close>

theorem Stage_tamper:
  assumes "Verify raw e = Inr b" and "Binding_Stage (b\<lparr>b_Stages := ss\<rparr>) i = Inr (s, d)"
  shows "\<exists>s0 \<in> set (elems (b_Stages b)). s_ID s0 = i
    \<and> (s = s0 \<or> canonical_text (enc_stage s) \<noteq> canonical_text (enc_stage s0)
              \<and> SHA256 (canonical_text (enc_stage s)) = SHA256 (canonical_text (enc_stage s0)))"
proof -
  note v = Verify_stages_valid [OF assms(1)]
  note dist = validateStages_ids(2) [OF v]
  from assms(1) obtain doc pd dg where b: "b = bind_document doc pd dg"
    and dg: "stage_digests (elems (b_Stages b)) Map.empty = Inr dg"
    by (auto simp: Verify_eq_Inr bind_document_def cloneStages_def)
  have k: "validateStages (elems ss) (b_CompletionMode b) = Inr ()"
    "find (\<lambda>s. s_ID s = i) (elems ss) = Some s" "stage_digest s = Inr d"
    "d = (case dg i of None \<Rightarrow> '''' | Some v \<Rightarrow> v)"
    using assms(2) unfolding b
    by (auto simp: Binding_Stage_def bind_document_def cloneStages_def bindE_eq_Inr
        split: if_splits option.splits sum.splits)
  have d: "digestPattern d" using k(3) by (simp add: stage_digest_def canonical_digest_pattern)
  with k(4) have dgi: "dg i = Some d" by (auto split: option.splits)
  have "i \<in> s_ID ` set (elems (b_Stages b))"
    using stage_digests_entries [OF dg dist] dgi by (metis option.distinct(1))
  then obtain s0 where s0: "s0 \<in> set (elems (b_Stages b))" "s_ID s0 = i" "stage_digest s0 = Inr d"
    using stage_digests_entries [OF dg dist] dgi by auto
  have ok: "ok_stage s" "ok_stage s0"
    using validateStages_ok [OF k(1)] validateStages_ok [OF v] s0 k(2)
    by (auto simp: list_all_iff find_Some_iff)
  have "SHA256 (canonical_text (enc_stage s)) = SHA256 (canonical_text (enc_stage s0))"
    using k(3) s0(3) ok by (simp add: stage_digest_def stage_codec.digest)
  with ok s0 show ?thesis using stage_codec.injective [of s s0] by auto
qed

text \<open>
  The recovery deny gate. For a verified plan, execution is enabled exactly when no recovery
  source was expected; a recovery plan is refused with \<open>ErrRecoveryExecutionDisabled\<close>, also after
  the caller clears the public field of the binding.
\<close>

theorem recovery_gate:
  assumes "Verify raw e = Inr b"
  shows "RequireExecutionEnabled b =
      (if x_RecoverySourcePlanDigest e = '''' then Inr () else Inl ErrRecoveryExecutionDisabled)
    \<and> (x_RecoverySourcePlanDigest e \<noteq> '''' \<longrightarrow>
      RequireExecutionEnabled (b\<lparr>b_RecoverySourcePlanDigest := ''''\<rparr>) = Inl ErrRecoveryExecutionDisabled)"
  using assms
  by (auto simp: Verify_eq_Inr bind_document_def RequireExecutionEnabled_def agrees_def
      dest!: check_document_agrees)

lemma find_input:
  assumes "sorted_wrt (<) (map in_Name is)"
  shows "find (\<lambda>i. in_Name i = n) is = Some i \<longleftrightarrow> i \<in> set is \<and> in_Name i = n"
  using assms by (induction "is") (auto simp: list_all_iff)

text \<open>
  \<open>RequireInput\<close> on a verified plan holds exactly when the selected stage binds that name to
  that digest.
\<close>

theorem RequireInput_iff:
  assumes "Verify raw e = Inr b"
  shows "RequireInput b sid n dig = Inr () \<longleftrightarrow>
    (\<exists>s \<in> set (elems (b_Stages b)). s_ID s = sid \<and> \<lparr>in_Name = n, in_Digest = dig\<rparr> \<in> set (elems (s_Inputs s)))"
proof (cases "sid \<in> s_ID ` set (elems (b_Stages b))")
  case True
  note v = Verify_stages_valid [OF assms]
  from True obtain s where s: "s \<in> set (elems (b_Stages b))" "s_ID s = sid" by auto
  have u: "t = s" if "t \<in> set (elems (b_Stages b))" "s_ID t = sid" for t
    using find_stage [OF validateStages_ids(2) [OF v] that(1)]
      find_stage [OF validateStages_ids(2) [OF v] s(1)] that(2) s(2) by simp
  have ib: "inputs_bound (elems (s_Inputs s))"
    using v s(1) by (auto simp: validateStages_iff in_set_conv_nth)
  then have srt: "sorted_wrt (<) (map in_Name (elems (s_Inputs s)))" by (simp add: inputs_bound_def)
  have "Binding_Stage b sid = Inr (s, SHA256 (canonical_text (enc_stage s)))"
    using stage_lookup [OF assms] s by auto
  then have "RequireInput b sid n dig = Inr () \<longleftrightarrow> namePattern n \<and> digestPattern dig \<and>
      (\<exists>i. find (\<lambda>i. in_Name i = n) (elems (s_Inputs s)) = Some i \<and> in_Digest i = dig)"
    by (auto simp: RequireInput_def split: option.splits)
  also have "\<dots> \<longleftrightarrow> \<lparr>in_Name = n, in_Digest = dig\<rparr> \<in> set (elems (s_Inputs s))"
  proof
    assume m: "\<lparr>in_Name = n, in_Digest = dig\<rparr> \<in> set (elems (s_Inputs s))"
    then have "namePattern n \<and> digestPattern dig" using ib by (auto simp: inputs_bound_def list_all_iff)
    then show "namePattern n \<and> digestPattern dig \<and>
      (\<exists>i. find (\<lambda>i. in_Name i = n) (elems (s_Inputs s)) = Some i \<and> in_Digest i = dig)"
      using m by (auto simp: find_input [OF srt] intro!: exI [of _ "\<lparr>in_Name = n, in_Digest = dig\<rparr>"])
  next
    assume "namePattern n \<and> digestPattern dig \<and>
      (\<exists>i. find (\<lambda>i. in_Name i = n) (elems (s_Inputs s)) = Some i \<and> in_Digest i = dig)"
    then obtain i where i: "i \<in> set (elems (s_Inputs s))" "in_Name i = n" "in_Digest i = dig"
      by (auto simp: find_input [OF srt])
    have "\<lparr>in_Name = n, in_Digest = dig\<rparr> = i" by (rule Input.equality) (simp_all add: i)
    with i(1) show "\<lparr>in_Name = n, in_Digest = dig\<rparr> \<in> set (elems (s_Inputs s))" by simp
  qed
  also have "\<dots> \<longleftrightarrow> (\<exists>t \<in> set (elems (b_Stages b)). s_ID t = sid
      \<and> \<lparr>in_Name = n, in_Digest = dig\<rparr> \<in> set (elems (s_Inputs t)))"
    using s u by metis
  finally show ?thesis .
next
  case False
  then show ?thesis using stage_lookup [OF assms] by (auto simp: RequireInput_def)
qed

section \<open>BuildBareCluster\<close>

lemma dec_identity_plain [simp]: "dec_identity zero_identity (enc_identity i) = Some i"
  by (simp add: dec_identity_def enc_identity_def zero_identity_def dec_struct_plain dec_field_plain Let_def)

lemma dec_authorities_plain [simp]: "dec_authorities zero_authorities (enc_authorities a) = Some a"
  by (simp add: dec_authorities_def enc_authorities_def zero_authorities_def dec_struct_plain
      dec_field_plain Let_def)

lemma dec_input_plain [simp]: "dec_input zero_input (enc_input i) = Some i"
  by (simp add: dec_input_def enc_input_def zero_input_def dec_struct_plain dec_field_plain Let_def)

lemma dec_stage_plain [simp]:
  "in_int64 (s_Order s) \<Longrightarrow> dec_stage zero_stage (enc_stage s) = Some s"
  by (simp add: dec_stage_def enc_stage_def zero_stage_def dec_struct_plain dec_field_plain Let_def
      dec_slice_plain)

lemma dec_document_plain:
  assumes "list_all ok_stage (elems (d_Stages d))"
  shows "dec_document (enc_document d) = Some d"
proof -
  have "dec_slice dec_stage zero_stage None (JSlice enc_stage (d_Stages d)) = Some (d_Stages d)"
    by (rule dec_slice_plain) (use assms in \<open>simp add: list_all_iff ok_stage_def\<close>)
  then show ?thesis
    by (simp add: dec_document_def enc_document_def zero_document_def document_fields_def
        dec_struct_plain dec_field_plain Let_def)
qed

lemma strict_decode_indented:
  assumes "ok_document d"
  shows "strict_decode dec_document (indent_json 0 (enc_document d) @ [CHR 0x0A]) = Inr d"
proof -
  have f: "fits 16 (enc_document d)" by (rule fits_document [OF assms]) simp
  have "depth (enc_document d) \<le> max_nesting_depth"
    using fits_depth [OF f] by (simp add: max_nesting_depth_def)
  then have "parse_json (indent_json 0 (enc_document d) @ [CHR 0x0A]) = Some (enc_document d)"
    using parse_indent [OF fits_nums_ok [OF f], of "[CHR 0x0A]" 0] fits_sanitize [OF f]
    by (simp add: is_space_def)
  with fits_no_duplicate [OF f] assms show ?thesis
    by (simp add: strict_decode_def dec_document_plain ok_document_def)
qed

definition input_for :: "(string \<times> string) list \<Rightarrow> string \<Rightarrow> Input" where
  "input_for inputs n = \<lparr>in_Name = n, in_Digest = (case map_of inputs n of None \<Rightarrow> [] | Some v \<Rightarrow> v)\<rparr>"

definition complete_inputs :: "(string \<times> string) list \<Rightarrow> bool" where
  "complete_inputs inputs \<longleftrightarrow> card (set (map fst inputs)) = 8
     \<and> list_all (\<lambda>n. case map_of inputs n of None \<Rightarrow> False | Some v \<Rightarrow> digestPattern v) (concat bare_input_names)"

definition bare_stage :: "(string \<times> string) list \<Rightarrow> nat \<Rightarrow> Stage" where
  "bare_stage inputs i = (let r = requiredSequence ! i in
     \<lparr>s_ID = r_id r, s_Order = int i + 1, s_Kind = r_kind r, s_Authority = r_authority r,
      s_GrantOperation = r_grantOperation r, s_Requires = Some (elems (r_requires r)),
      s_Inputs = Some (map (input_for inputs) (bare_input_names ! i))\<rparr>)"

lemma build_stages_ok:
  assumes "complete_inputs inputs" and "i \<le> 7"
  shows "build_stages inputs i (drop i (take 7 requiredSequence)) (drop i bare_input_names)
    = Inr (map (bare_stage inputs) [i..<7])"
  using assms(2)
proof (induction "7 - i" arbitrary: i)
  case 0
  then show ?case by (simp add: length_requiredSequence)
next
  case (Suc k)
  then have i: "i < 7" by simp
  have l: "length bare_input_names = 7" by (simp add: bare_input_names_def)
  have "mapE (build_input inputs) (bare_input_names ! i) = Inr (map (input_for inputs) (bare_input_names ! i))"
  proof (rule mapE_Inr_map)
    fix n assume "n \<in> set (bare_input_names ! i)"
    then have "n \<in> set (concat bare_input_names)" using nth_mem [of i bare_input_names] i l by auto
    then show "build_input inputs n = Inr (input_for inputs n)"
      using assms(1) by (auto simp: complete_inputs_def list_all_iff build_input_def input_for_def
          split: option.splits)
  qed
  moreover have "drop i (take 7 requiredSequence) = requiredSequence ! i # drop (Suc i) (take 7 requiredSequence)"
    using i by (simp add: Cons_nth_drop_Suc [symmetric] length_requiredSequence)
  moreover have "drop i bare_input_names = bare_input_names ! i # drop (Suc i) bare_input_names"
    using i l by (simp add: Cons_nth_drop_Suc)
  moreover have "[i..<7] = i # [Suc i..<7]" using i by (simp add: upt_conv_Cons)
  ultimately show ?case
    using Suc(1) [of "Suc i"] Suc(2) i by (simp add: bare_stage_def Let_def)
qed

lemma bare_inputs_bound:
  assumes "complete_inputs inputs" and "i < 7"
  shows "inputs_bound (map (input_for inputs) (bare_input_names ! i))"
proof -
  have l: "length bare_input_names = 7" by (simp add: bare_input_names_def)
  have names: "list_all (\<lambda>ns. ns \<noteq> [] \<and> list_all namePattern ns \<and> sorted_wrt (<) ns) bare_input_names"
    by (simp add: bare_input_names_def lower_name_def is_lower_alnum_def is_digit_def)
  have "bare_input_names ! i \<in> set bare_input_names" using l assms(2) by simp
  then have m: "\<forall>n \<in> set (bare_input_names ! i). digestPattern (in_Digest (input_for inputs n))"
    using assms(1) by (auto simp: complete_inputs_def list_all_iff input_for_def split: option.splits)
  with names \<open>bare_input_names ! i \<in> _\<close> show ?thesis
    by (auto simp: inputs_bound_def list_all_iff comp_def input_for_def)
qed

lemma bare_stages_valid:
  assumes "complete_inputs inputs"
  shows "validateStages (map (bare_stage inputs) [0..<7]) CompletionModeBareClusterMVP = Inr ()"
  using bare_inputs_bound [OF assms]
  by (simp add: validateStages_iff stage_sequence_def BareClusterStageCount_def length_requiredSequence
      bare_stage_def rule_matches_def Let_def)


lemma ValidateExpected_iff:
  "ValidateExpected e = Inr () \<longleftrightarrow>
     i_Name (x_ContractIdentity e) \<noteq> '''' \<and> i_Namespace (x_ContractIdentity e) \<noteq> ''''
     \<and> list_all digestPattern [x_IntentRevision e, x_EnablementRevision e, x_PlatformRevision e,
         x_ExecutionFixture e]
     \<and> (x_ExecutionAttemptDigest e = '''' \<or> digestPattern (x_ExecutionAttemptDigest e))
     \<and> (x_RecoverySourcePlanDigest e = '''' \<or> digestPattern (x_RecoverySourcePlanDigest e))
     \<and> (x_NetworkObservationMode e = '''' \<or> x_NetworkObservationMode e = ''deferred-mvp/v1'')
     \<and> validCompletionMode (x_CompletionMode e)
     \<and> list_all namePattern [x_InfrastructureAuthority e, x_ManagementAuthority e, x_GitOpsAuthority e]
     \<and> distinct [x_InfrastructureAuthority e, x_ManagementAuthority e, x_GitOpsAuthority e]"
  by (simp only: ValidateExpected_def if_Inl_eq_Inr de_Morgan_disj de_Morgan_conj not_not) auto

text \<open>What a caller of \<open>BuildBareCluster\<close> has to supply.\<close>

definition bare_expected :: "Expected \<Rightarrow> bool" where
  "bare_expected e \<longleftrightarrow> x_CompletionMode e = CompletionModeBareClusterMVP
     \<and> x_ExecutionAttemptDigest e = '''' \<and> x_RecoverySourcePlanDigest e = ''''
     \<and> x_NetworkObservationMode e = '''' \<and> ValidateExpected e = Inr () \<and> ok_identity (x_ContractIdentity e)"

lemma bare_document_ok:
  assumes "bare_expected e" and "complete_inputs inputs"
  shows "ok_document (bare_document e (map (bare_stage inputs) [0..<7]))"
  using assms(1) validateStages_ok [OF bare_stages_valid [OF assms(2)]]
  by (simp add: bare_expected_def ok_document_def bare_document_def zero_document_def ok_authorities_def
      ValidateExpected_iff valid_utf8_digest valid_utf8_name [of "Suc 0" 127])
    (simp add: valid_utf8_ascii is_ascii_def plan_constants)

lemma bare_document_checks:
  assumes "bare_expected e" and "complete_inputs inputs"
  shows "check_document (bare_document e (map (bare_stage inputs) [0..<7])) e = Inr ()"
  using assms bare_stages_valid [OF assms(2)]
  by (simp add: check_document_def bare_document_def zero_document_def bare_expected_def
      validCompletionMode_def)

lemma stage_digests_ok: "list_all ok_stage ss \<Longrightarrow> \<exists>dg. stage_digests ss m = Inr dg"
  by (induction ss arbitrary: m) (simp_all add: stage_digest_def stage_codec.digest)

lemma build_bare:
  assumes "bare_expected e" and "complete_inputs inputs"
  shows "\<exists>raw b. BuildBareCluster e inputs = Inr (raw, b) \<and> Verify raw e = Inr b
    \<and> elems (b_Stages b) = map (bare_stage inputs) [0..<7]"
proof -
  let ?d = "bare_document e (map (bare_stage inputs) [0..<7])"
  let ?raw = "indent_json 0 (enc_document ?d) @ [CHR 0x0A]"
  note ok = bare_document_ok [OF assms]
  have st: "elems (d_Stages ?d) = map (bare_stage inputs) [0..<7]" by (simp add: bare_document_def)
  obtain dg where dg: "stage_digests (elems (d_Stages ?d)) Map.empty = Inr dg"
    using stage_digests_ok ok unfolding ok_document_def by blast
  have v: "Verify ?raw e = Inr (bind_document ?d (SHA256 (canonical_text (enc_document ?d))) dg)"
    using assms(1) strict_decode_indented [OF ok] bare_document_checks [OF assms]
      document_codec.digest [OF ok] dg
    by (simp add: Verify_def bare_expected_def)
  moreover have "build_stages inputs 0 (take BareClusterStageCount requiredSequence) bare_input_names
      = Inr (map (bare_stage inputs) [0..<7])"
    using build_stages_ok [OF assms(2), of 0] by (simp add: BareClusterStageCount_def)
  ultimately have "BuildBareCluster e inputs
      = Inr (?raw, bind_document ?d (SHA256 (canonical_text (enc_document ?d))) dg)"
    using assms by (simp add: BuildBareCluster_def bare_expected_def complete_inputs_def Let_def)
  with v st show ?thesis by (auto simp: bind_document_def cloneStages_def simp del: upt_rec_numeral)
qed

text \<open>
  C28: for ordinary bare-cluster expectations and digests for exactly the eight named inputs,
  \<open>BuildBareCluster\<close> succeeds; the bytes it returns pass \<open>Verify\<close> with the binding it returns, whose
  seven stages bind the supplied digests under their names.
\<close>

theorem BuildBareCluster_verifies:
  assumes "bare_expected e" and "complete_inputs inputs"
  shows "\<exists>raw b. BuildBareCluster e inputs = Inr (raw, b) \<and> Verify raw e = Inr b
    \<and> elems (b_Stages b) = map (bare_stage inputs) [0..<7]"
  by (rule build_bare [OF assms])

section \<open>A concrete plan\<close>

definition sample_digest :: "char \<Rightarrow> string" where
  "sample_digest c = ''sha256:'' @ replicate 64 c"

definition sample_expected :: Expected where
  "sample_expected = \<lparr>x_ContractIdentity = \<lparr>i_Namespace = ''tenants'', i_Name = ''alpha''\<rparr>,
     x_IntentRevision = sample_digest CHR ''1'', x_EnablementRevision = sample_digest CHR ''2'',
     x_PlatformRevision = sample_digest CHR ''3'', x_ExecutionFixture = sample_digest CHR ''4'',
     x_ExecutionAttemptDigest = '''', x_RecoverySourcePlanDigest = '''',
     x_InfrastructureAuthority = ''infra.local'', x_ManagementAuthority = ''mgmt.local'',
     x_GitOpsAuthority = ''gitops.local'', x_NetworkObservationMode = '''',
     x_CompletionMode = CompletionModeBareClusterMVP\<rparr>"

definition sample_inputs :: "(string \<times> string) list" where
  "sample_inputs = map (\<lambda>n. (n, sample_digest CHR ''a'')) (concat bare_input_names)"

lemma sample_digest_pattern: "is_lower_hex c \<Longrightarrow> digest_pattern (sample_digest c)"
  by (simp add: sample_digest_def digest_pattern_def hex64_def list_all_iff)

lemma sample_ok: "bare_expected sample_expected" "complete_inputs sample_inputs"
proof -
  have h: "is_lower_hex CHR ''1''" "is_lower_hex CHR ''2''" "is_lower_hex CHR ''3''"
    "is_lower_hex CHR ''4''" "is_lower_hex CHR ''a''"
    by (simp_all add: is_lower_hex_def is_digit_def)
  show "bare_expected sample_expected"
    by (simp add: bare_expected_def sample_expected_def ValidateExpected_iff sample_digest_pattern h
        validCompletionMode_def lower_name_def is_lower_alnum_def is_digit_def ok_identity_def
        valid_utf8_ascii is_ascii_def)
  show "complete_inputs sample_inputs"
    by (simp add: complete_inputs_def sample_inputs_def bare_input_names_def sample_digest_pattern h)
qed

definition sample_plan :: "string \<times> Binding" where
  "sample_plan = (case BuildBareCluster sample_expected sample_inputs of Inr p \<Rightarrow> p
     | Inl _ \<Rightarrow> (''never'', bind_document zero_document '''' Map.empty))"

definition sample_raw :: string where
  "sample_raw = fst sample_plan"

definition sample_binding :: Binding where
  "sample_binding = snd sample_plan"

lemma sample_verified:
  "Verify sample_raw sample_expected = Inr sample_binding"
  "elems (b_Stages sample_binding) = map (bare_stage sample_inputs) [0..<7]"
  using build_bare [OF sample_ok]
  by (auto simp: sample_raw_def sample_binding_def sample_plan_def simp del: upt_rec_numeral)

lemma sample_stage_ids:
  "s_ID ` set (elems (b_Stages sample_binding)) = {''provider-prerequisites'', ''cluster-lifecycle'',
     ''lifecycle-observation'', ''enablement'', ''network-observation'', ''runtime-binding'', ''target-access''}"
  by (simp add: sample_verified bare_stage_def requiredSequence_def rule_def Let_def numeral_eq_Suc)

text \<open>The witnesses: the theorems above on the sample plan.\<close>

lemma Verify_sound_witness:
  "\<exists>s. strict_decode dec_document sample_raw = Inr s \<and> agrees s sample_expected
    \<and> canonical_digest (enc_document s) = Inr (b_PlanDigest sample_binding)"
  using Verify_sound [OF sample_verified(1)] by blast

lemma Verify_sequence_witness:
  "length (elems (b_Stages sample_binding)) \<in> {7, 12}"
  using Verify_sequence [OF sample_verified(1)] by auto

lemma Stage_after_Verify_witness:
  "Binding_Stage sample_binding ''aggregate-evidence''
    = Inl (Errf ''stage %q is not part of the verified execution plan'' [''aggregate-evidence''])"
  using Stage_after_Verify [OF sample_verified(1)] sample_stage_ids by simp

lemma Stage_tamper_witness:
  "\<exists>s0 \<in> set (elems (b_Stages sample_binding)). s_ID s0 = ''enablement''"
proof -
  have "''enablement'' \<in> s_ID ` set (elems (b_Stages sample_binding))" by (simp add: sample_stage_ids)
  then obtain s where s: "s \<in> set (elems (b_Stages sample_binding))" "s_ID s = ''enablement''" by auto
  then have "Binding_Stage sample_binding ''enablement'' = Inr (s, SHA256 (canonical_text (enc_stage s)))"
    using stage_lookup [OF sample_verified(1)] by auto
  then have "Binding_Stage (sample_binding\<lparr>b_Stages := b_Stages sample_binding\<rparr>) ''enablement''
      = Inr (s, SHA256 (canonical_text (enc_stage s)))" by simp
  from Stage_tamper [OF sample_verified(1) this] show ?thesis by blast
qed

lemma recovery_gate_witness: "RequireExecutionEnabled sample_binding = Inr ()"
  using recovery_gate [OF sample_verified(1)] by (simp add: sample_expected_def)

lemma RequireInput_witness:
  "RequireInput sample_binding ''enablement'' ''stage.enablement'' (sample_digest CHR ''a'') = Inr ()"
proof -
  have "bare_stage sample_inputs 3 \<in> set (elems (b_Stages sample_binding))"
    unfolding sample_verified(2) set_map by (rule imageI) simp
  moreover have "s_ID (bare_stage sample_inputs 3) = ''enablement''"
    by (simp add: bare_stage_def requiredSequence_def rule_def Let_def)
  moreover have "\<lparr>in_Name = ''stage.enablement'', in_Digest = sample_digest CHR ''a''\<rparr>
      \<in> set (elems (s_Inputs (bare_stage sample_inputs 3)))"
    by (simp add: bare_stage_def Let_def bare_input_names_def input_for_def sample_inputs_def)
  ultimately show ?thesis using RequireInput_iff [OF sample_verified(1)] by blast
qed

lemma BuildBareCluster_verifies_witness:
  "\<exists>raw b. BuildBareCluster sample_expected sample_inputs = Inr (raw, b) \<and> Verify raw sample_expected = Inr b"
  using BuildBareCluster_verifies [OF sample_ok] by blast

end
