(* ===== verification/GoTime.thy ===== *)
theory GoTime
  imports Prelude
begin

text \<open>
  The part of Go's \<open>time\<close> package that the executor relies on: instants, \<open>IsZero\<close>,
  \<open>Before\<close>, \<open>Sub\<close> with its saturation, \<open>Format(time.RFC3339Nano)\<close> of a UTC instant and
  \<open>time.Parse\<close> for the layouts RFC3339 and RFC3339Nano. An instant counts nanoseconds
  since the zero time, 0001-01-01T00:00:00Z. Main result: what is formatted is parsed back.
\<close>

type_synonym time = int

definition is_zero_time :: "time \<Rightarrow> bool" where
  "is_zero_time t \<longleftrightarrow> t = 0"

definition before :: "time \<Rightarrow> time \<Rightarrow> bool" where
  "before t u \<longleftrightarrow> t < u"

definition after :: "time \<Rightarrow> time \<Rightarrow> bool" where
  "after t u \<longleftrightarrow> u < t"

text \<open>\<open>t.Sub(u)\<close> is an \<open>int64\<close> and saturates at both ends.\<close>

definition sub_time :: "time \<Rightarrow> time \<Rightarrow> int" where
  "sub_time t u = max (- (2 ^ 63)) (min (2 ^ 63 - 1) (t - u))"

definition nanosecond_per_second :: int where
  "nanosecond_per_second = 1000000000"

definition minute :: int where
  "minute = 60 * nanosecond_per_second"

section \<open>The proleptic Gregorian calendar\<close>

definition is_leap :: "int \<Rightarrow> bool" where
  "is_leap y \<longleftrightarrow> y mod 4 = 0 \<and> (y mod 100 \<noteq> 0 \<or> y mod 400 = 0)"

definition days_before_year :: "int \<Rightarrow> int" where
  "days_before_year y =
     365 * (y - 1) + (y - 1) div 4 - (y - 1) div 100 + (y - 1) div 400"

definition month_lengths :: "int \<Rightarrow> int list" where
  "month_lengths y = [31, if is_leap y then 29 else 28, 31, 30, 31, 30, 31, 31, 30, 31, 30, 31]"

definition days_in :: "int \<Rightarrow> nat \<Rightarrow> int" where
  "days_in y m = (if 1 \<le> m \<and> m \<le> 12 then month_lengths y ! (m - 1) else 0)"

text \<open>The year that holds a day number, from an estimate that is off by at most one.\<close>

definition year_of :: "int \<Rightarrow> int" where
  "year_of d =
     (let y = (400 * d) div 146097 + 1
      in if d < days_before_year y then y - 1
         else if days_before_year (y + 1) \<le> d then y + 1 else y)"

text \<open>Month (from 1) and day of the month (from 1) of a day of the year (from 0).\<close>

fun month_day :: "nat \<Rightarrow> int list \<Rightarrow> int \<Rightarrow> nat \<times> int" where
  "month_day m [] d = (m, d + 1)"
| "month_day m (l # ls) d = (if d < l then (m, d + 1) else month_day (Suc m) ls (d - l))"

definition civil_of_days :: "int \<Rightarrow> int \<times> nat \<times> int" where
  "civil_of_days d = (let y = year_of d; (m, k) = month_day 1 (month_lengths y) (d - days_before_year y)
                      in (y, m, k))"

definition days_of_civil :: "int \<Rightarrow> nat \<Rightarrow> int \<Rightarrow> int" where
  "days_of_civil y m k = days_before_year y + sum_list (take (m - 1) (month_lengths y)) + (k - 1)"

lemma div_pred:
  fixes y k :: int
  assumes "0 < k"
  shows "y div k = (y - 1) div k + (if y mod k = 0 then 1 else 0)"
proof -
  define q r where "q = (y - 1) div k" and "r = (y - 1) mod k"
  have r: "0 \<le> r" "r < k" using assms by (simp_all add: r_def)
  have "k * q + r = y - 1" unfolding q_def r_def by (rule mult_div_mod_eq)
  then have y: "y = (r + 1) + k * q" by simp
  show ?thesis
  proof (cases "r + 1 = k")
    case True
    then have "y = k * (q + 1)" using y by (simp add: algebra_simps)
    then have "y div k = q + 1" "y mod k = 0" using assms by simp_all
    then show ?thesis by (simp add: q_def)
  next
    case False
    then have "(r + 1) div k = 0" "(r + 1) mod k = r + 1" using r by simp_all
    moreover have "y div k = q + (r + 1) div k" "y mod k = (r + 1) mod k"
      using assms by (simp_all add: y)
    ultimately show ?thesis using r by (simp add: q_def)
  qed
qed

lemma leap_balance:
  fixes y :: int
  assumes "y4 = a + (if p then 1 else 0)" and "y100 = b + (if q then 1 else 0)"
    and "y400 = c + (if r then 1 else 0)" and "r \<Longrightarrow> q" and "q \<Longrightarrow> p"
  shows "365 * y + y4 - y100 + y400
    = 365 * (y - 1) + a - b + c + (if p \<and> (\<not> q \<or> r) then 366 else 365)"
  using assms(4,5) unfolding assms(1-3) by (cases p; cases q; cases r) simp_all

lemma days_before_year_Suc: "days_before_year (y + 1) = days_before_year y + (if is_leap y then 366 else 365)"
proof -
  have m: "y mod 400 = 0 \<Longrightarrow> y mod 100 = 0" "y mod 100 = 0 \<Longrightarrow> y mod 4 = 0"
    using dvd_trans [of 100 400 y] dvd_trans [of 4 100 y] by (simp_all add: mod_eq_0_iff_dvd)
  have q: "y div 4 = (y - 1) div 4 + (if y mod 4 = 0 then 1 else 0)"
    "y div 100 = (y - 1) div 100 + (if y mod 100 = 0 then 1 else 0)"
    "y div 400 = (y - 1) div 400 + (if y mod 400 = 0 then 1 else 0)"
    by (rule div_pred, simp)+
  show ?thesis
    unfolding days_before_year_def is_leap_def add_diff_cancel_right'
    by (rule leap_balance [OF q]) (use m in auto)
qed

lemma div_bracket: "0 < k \<Longrightarrow> k * (n div k) \<le> n \<and> n < k * (n div k) + (k::int)"
  using mult_div_mod_eq [of k n] pos_mod_bound [of k n] pos_mod_sign [of k n] by linarith

lemma year_estimate:
  fixes d :: int
  defines "y \<equiv> (400 * d) div 146097 + 1"
  shows "days_before_year (y - 1) \<le> d" "d < days_before_year (y + 2)"
proof -
  define n where "n = (400 * d) div 146097"
  have n: "146097 * n \<le> 400 * d" "400 * d < 146097 * n + 146097"
    using div_bracket [of 146097 "400 * d"] by (simp_all add: n_def)
  note q = div_bracket [of 4] div_bracket [of 100] div_bracket [of 400]
  show "days_before_year (y - 1) \<le> d"
    using q(1) [of "n - 1"] q(2) [of "n - 1"] q(3) [of "n - 1"] n by (simp add: days_before_year_def y_def n_def [symmetric])
  show "d < days_before_year (y + 2)"
    using q(1) [of "n + 1"] q(2) [of "n + 1"] q(3) [of "n + 1"] n by (simp add: days_before_year_def y_def n_def [symmetric])
qed

lemma year_of_bounds: "days_before_year (year_of d) \<le> d" "d < days_before_year (year_of d + 1)"
proof -
  define y where "y = (400 * d) div 146097 + 1"
  have e: "days_before_year (y - 1) \<le> d" "d < days_before_year (y + 2)"
    using year_estimate [of d] by (simp_all add: y_def)
  have yo: "year_of d = (if d < days_before_year y then y - 1
      else if days_before_year (y + 1) \<le> d then y + 1 else y)"
    by (simp add: year_of_def y_def Let_def)
  show "days_before_year (year_of d) \<le> d" "d < days_before_year (year_of d + 1)"
    using e by (auto simp: yo algebra_simps)
qed

text \<open>Walking the month table inverts summing its prefix.\<close>

lemma month_day_correct:
  assumes "0 \<le> d" and "d < sum_list ls" and "month_day m ls d = (m', k)"
  shows "m \<le> m' \<and> m' < m + length ls \<and> 1 \<le> k \<and> k \<le> ls ! (m' - m)
    \<and> sum_list (take (m' - m) ls) + (k - 1) = d"
  using assms
proof (induction ls arbitrary: m d)
  case Nil
  then show ?case by simp
next
  case (Cons l ls)
  show ?case
  proof (cases "d < l")
    case True
    with Cons.prems show ?thesis by auto
  next
    case False
    with Cons.prems have "month_day (Suc m) ls (d - l) = (m', k)" by simp
    with Cons.IH [of "d - l" "Suc m"] Cons.prems False
    have IH: "Suc m \<le> m'" "m' < Suc m + length ls" "1 \<le> k" "k \<le> ls ! (m' - Suc m)"
      "sum_list (take (m' - Suc m) ls) + (k - 1) = d - l"
      by simp_all
    then have "m' - m = Suc (m' - Suc m)" by simp
    with IH show ?thesis by (simp del: diff_Suc_Suc)
  qed
qed

lemma sum_month_lengths: "sum_list (month_lengths y) = (if is_leap y then 366 else 365)"
  by (simp add: month_lengths_def)

lemma civil_of_days_correct:
  assumes "civil_of_days d = (y, m, k)"
  shows "1 \<le> m" "m \<le> 12" "1 \<le> k" "k \<le> days_in y m" "days_of_civil y m k = d" "y = year_of d"
proof -
  from assms have y: "y = year_of d"
    and md: "month_day 1 (month_lengths y) (d - days_before_year y) = (m, k)"
    by (auto simp: civil_of_days_def Let_def split: prod.splits)
  have b: "0 \<le> d - days_before_year y" "d - days_before_year y < sum_list (month_lengths y)"
    using year_of_bounds [of d] days_before_year_Suc [of y] sum_month_lengths [of y]
    by (simp_all add: y)
  have l: "length (month_lengths y) = 12" by (simp add: month_lengths_def)
  note c = month_day_correct [OF b md, unfolded l]
  show "1 \<le> m" "m \<le> 12" "1 \<le> k" "y = year_of d" using c y by simp_all
  show "k \<le> days_in y m" using c by (simp add: days_in_def)
  show "days_of_civil y m k = d" using c by (simp add: days_of_civil_def)
qed

section \<open>Format\<close>

text \<open>Go's \<open>appendInt(b, x, width)\<close>: zero padded to the width, longer when it does not fit.\<close>

fun fixed_digits :: "nat \<Rightarrow> nat \<Rightarrow> string" where
  "fixed_digits 0 n = []"
| "fixed_digits (Suc w) n = fixed_digits w (n div 10) @ [digit (n mod 10)]"

definition append_int :: "nat \<Rightarrow> int \<Rightarrow> string" where
  "append_int w i =
     (if i < 0 then ''-'' else []) @
     (let n = nat \<bar>i\<bar> in if n < 10 ^ w then fixed_digits w n else show_nat n)"

definition trim_zeros :: "string \<Rightarrow> string" where
  "trim_zeros s = rev (dropWhile ((=) (CHR ''0'')) (rev s))"

definition frac_seconds :: "nat \<Rightarrow> string" where
  "frac_seconds ns = (if ns = 0 then [] else CHR ''.'' # trim_zeros (fixed_digits 9 ns))"

definition format_rfc3339nano :: "time \<Rightarrow> string" where
  "format_rfc3339nano t =
     (let day = t div (86400 * nanosecond_per_second);
          ns = t mod (86400 * nanosecond_per_second);
          s = ns div nanosecond_per_second;
          (y, m, k) = civil_of_days day
      in append_int 4 y @ ''-'' @ append_int 2 (int m) @ ''-'' @ append_int 2 k @ ''T''
         @ append_int 2 (s div 3600) @ '':'' @ append_int 2 (s div 60 mod 60) @ '':''
         @ append_int 2 (s mod 60) @ frac_seconds (nat (ns mod nanosecond_per_second)) @ ''Z'')"

section \<open>Parse\<close>

definition expect :: "char \<Rightarrow> string \<Rightarrow> string option" where
  "expect c s = (case s of [] \<Rightarrow> None | d # ds \<Rightarrow> if d = c then Some ds else None)"

text \<open>\<open>getnum(s, true)\<close> and \<open>getnum(s, false)\<close>: two digits, or one digit where a second one is missing.\<close>

fun getnum_fixed :: "string \<Rightarrow> (nat \<times> string) option" where
  "getnum_fixed (a # b # r) =
     (if is_digit a \<and> is_digit b then Some (10 * digit_val a + digit_val b, r) else None)"
| "getnum_fixed _ = None"

fun getnum :: "string \<Rightarrow> (nat \<times> string) option" where
  "getnum (a # b # r) =
     (if \<not> is_digit a then None
      else if \<not> is_digit b then Some (digit_val a, b # r)
      else Some (10 * digit_val a + digit_val b, r))"
| "getnum [a] = (if is_digit a then Some (digit_val a, []) else None)"
| "getnum [] = None"

definition parse_year :: "string \<Rightarrow> (nat \<times> string) option" where
  "parse_year s = (if 4 \<le> length s \<and> list_all is_digit (take 4 s)
     then Some (parse_digits (take 4 s), drop 4 s) else None)"

text \<open>
  A fraction is accepted after the seconds of either layout, with any number of digits, of
  which the first nine count; a comma serves as well as a period.
\<close>

definition parse_frac :: "string \<Rightarrow> nat \<times> string" where
  "parse_frac s = (case s of
       p # d # r \<Rightarrow>
         if (p = CHR ''.'' \<or> p = CHR '','') \<and> is_digit d
         then let ds = takeWhile is_digit (d # r); kept = take 9 ds
              in (parse_digits kept * 10 ^ (9 - length kept), dropWhile is_digit (d # r))
         else (0, s)
     | _ \<Rightarrow> (0, s))"

text \<open>\<open>Z07:00\<close>: the offset in seconds.\<close>

definition parse_zone :: "string \<Rightarrow> (int \<times> string) option" where
  "parse_zone s = (case s of
       c # r \<Rightarrow>
         if c = CHR ''Z'' then Some (0, r)
         else if length s < 6 \<or> s ! 3 \<noteq> CHR '':'' then None
         else (case (getnum_fixed (take 2 r), getnum_fixed (take 2 (drop 3 r))) of
             (Some (h, _), Some (mm, _)) \<Rightarrow>
               if h > 24 \<or> mm > 60 then None
               else if c = CHR ''+'' then Some (int ((h * 60 + mm) * 60), drop 6 s)
               else if c = CHR ''-'' then Some (- int ((h * 60 + mm) * 60), drop 6 s)
               else None
           | _ \<Rightarrow> None)
     | [] \<Rightarrow> None)"

definition parse_rfc3339 :: "string \<Rightarrow> time option" where
  "parse_rfc3339 s0 =
     Option.bind (parse_year s0) (\<lambda>(y, s).
     Option.bind (expect (CHR ''-'') s) (\<lambda>s.
     Option.bind (getnum_fixed s) (\<lambda>(m, s).
     if m = 0 \<or> 12 < m then None else
     Option.bind (expect (CHR ''-'') s) (\<lambda>s.
     Option.bind (getnum_fixed s) (\<lambda>(k, s).
     Option.bind (expect (CHR ''T'') s) (\<lambda>s.
     Option.bind (getnum s) (\<lambda>(hh, s).
     if 24 \<le> hh then None else
     Option.bind (expect (CHR '':'') s) (\<lambda>s.
     Option.bind (getnum_fixed s) (\<lambda>(mi, s).
     if 60 \<le> mi then None else
     Option.bind (expect (CHR '':'') s) (\<lambda>s.
     Option.bind (getnum_fixed s) (\<lambda>(se, s).
     if 60 \<le> se then None else
     (case parse_frac s of (ns, s) \<Rightarrow>
     Option.bind (parse_zone s) (\<lambda>(off, s).
     if s \<noteq> [] then None
     else if int k < 1 \<or> days_in (int y) m < int k then None
     else Some ((days_of_civil (int y) m (int k) * 86400 + int (hh * 3600 + mi * 60 + se) - off)
                * nanosecond_per_second + int ns))))))))))))))"

section \<open>Formatted instants parse back\<close>

lemma length_fixed_digits [simp]: "length (fixed_digits w n) = w"
  by (induction w arbitrary: n) simp_all

lemma fixed_digits_digits: "list_all is_digit (fixed_digits w n)"
  by (induction w arbitrary: n) simp_all

lemma parse_fixed_digits: "n < 10 ^ w \<Longrightarrow> parse_digits (fixed_digits w n) = n"
proof (induction w arbitrary: n)
  case 0
  then show ?case by (simp add: parse_digits_def)
next
  case (Suc w)
  then have "n div 10 < 10 ^ w" by (simp add: div_less_iff_less_mult mult.commute)
  with Suc.IH show ?case by simp
qed

lemma append_int_fixed: "0 \<le> i \<Longrightarrow> i < 10 ^ w \<Longrightarrow> append_int w i = fixed_digits w (nat i)"
  by (simp add: append_int_def Let_def nat_less_iff)

lemma two_digits:
  assumes "0 \<le> i" and "i < 100"
  obtains a b where "append_int 2 i = [a, b]" "is_digit a" "is_digit b"
    "10 * digit_val a + digit_val b = nat i"
proof -
  have n: "nat i < 100" using assms by simp
  have "append_int 2 i = [digit (nat i div 10 mod 10), digit (nat i mod 10)]"
    using append_int_fixed [of i 2] assms by (simp add: numeral_2_eq_2)
  with n that show ?thesis by simp
qed

lemma getnum_two [simp]:
  assumes "0 \<le> i" and "i < 100"
  shows "getnum_fixed (append_int 2 i @ r) = Some (nat i, r)" "getnum (append_int 2 i @ r) = Some (nat i, r)"
  using assms by (auto elim!: two_digits [of i])

lemma parse_year_append_int:
  assumes "0 \<le> y" and "y < 10000"
  shows "parse_year (append_int 4 y @ r) = Some (nat y, r)"
proof -
  have "append_int 4 y = fixed_digits 4 (nat y)" "nat y < 10 ^ 4"
    using assms by (simp_all add: append_int_fixed)
  with fixed_digits_digits [of 4] show ?thesis
    by (simp add: parse_year_def parse_fixed_digits)
qed

lemma expect_Cons [simp]: "expect c (c # r) = Some r"
  by (simp add: expect_def)

lemma parse_digits_zeros: "parse_digits (xs @ replicate k (CHR ''0'')) = parse_digits xs * 10 ^ k"
proof (induction k)
  case (Suc k)
  have "xs @ replicate (Suc k) (CHR ''0'') = (xs @ replicate k (CHR ''0'')) @ [CHR ''0'']"
    by (simp add: replicate_append_same)
  moreover have "digit_val (CHR ''0'') = 0" by (simp add: digit_val_def)
  ultimately show ?case using Suc by (simp only: parse_digits_snoc) simp
qed simp

lemma trim_zeros_split: "\<exists>k. s = trim_zeros s @ replicate k (CHR ''0'')"
proof -
  have "rev s = takeWhile ((=) (CHR ''0'')) (rev s) @ dropWhile ((=) (CHR ''0'')) (rev s)" by simp
  moreover have "takeWhile ((=) (CHR ''0'')) (rev s)
      = replicate (length (takeWhile ((=) (CHR ''0'')) (rev s))) (CHR ''0'')"
    by (rule replicate_eqI [symmetric, THEN sym]) (auto dest: set_takeWhileD)
  ultimately have "s = rev (dropWhile ((=) (CHR ''0'')) (rev s))
      @ rev (replicate (length (takeWhile ((=) (CHR ''0'')) (rev s))) (CHR ''0''))"
    by (metis rev_append rev_rev_ident)
  then show ?thesis by (auto simp: trim_zeros_def)
qed

lemma parse_frac_seconds:
  assumes "n < 10 ^ 9"
  shows "parse_frac (frac_seconds n @ ''Z'') = (n, ''Z'')"
proof (cases "n = 0")
  case True
  then show ?thesis by (simp add: frac_seconds_def parse_frac_def)
next
  case False
  define t where "t = trim_zeros (fixed_digits 9 n)"
  obtain k where k: "fixed_digits 9 n = t @ replicate k (CHR ''0'')"
    using trim_zeros_split t_def by blast
  have v: "parse_digits t * 10 ^ k = n"
    using parse_fixed_digits [OF assms] by (simp add: k parse_digits_zeros)
  have len: "length t \<le> 9" "k = 9 - length t" using arg_cong [OF k, of length] by simp_all
  have dig: "list_all is_digit t" using fixed_digits_digits [of 9 n] by (simp add: k)
  have z: "\<not> is_digit (CHR ''Z'')" by (simp add: is_digit_def)
  have "t \<noteq> []" using v False by (auto simp: parse_digits_def)
  then obtain d r where t: "t = d # r" by (cases t) auto
  have "is_digit d" using dig by (simp add: t)
  moreover have "takeWhile is_digit (t @ ''Z'') = t" "dropWhile is_digit (t @ ''Z'') = ''Z''"
    using dig z by (auto simp: list_all_iff takeWhile_append2 dropWhile_append2)
  ultimately show ?thesis
    using False len v by (simp add: frac_seconds_def parse_frac_def t_def [symmetric] t Let_def)
qed

lemma days_before_year_mono: "y \<le> z \<Longrightarrow> days_before_year y \<le> days_before_year z"
proof (induction z rule: int_ge_induct)
  case (step z)
  then show ?case using days_before_year_Suc [of z] by (simp split: if_splits)
qed simp

lemma year_of_range:
  assumes "0 \<le> d" and "d < 3652059"
  shows "1 \<le> year_of d" "year_of d < 10000"
proof -
  have "days_before_year 1 = 0" "days_before_year 10000 = 3652059"
    by (simp_all add: days_before_year_def)
  with assms year_of_bounds [of d] days_before_year_mono [of "year_of d + 1" 1]
    days_before_year_mono [of 10000 "year_of d"]
  show "1 \<le> year_of d" "year_of d < 10000" by linarith+
qed

text \<open>The instants whose year has four digits: years 1 to 9999.\<close>

definition valid_time :: "time \<Rightarrow> bool" where
  "valid_time t \<longleftrightarrow> 0 \<le> t \<and> t < 3652059 * 86400 * nanosecond_per_second"

lemma days_in_bound: "days_in y m \<le> 31"
proof -
  have "i < 12 \<Longrightarrow> month_lengths y ! i \<le> 31" for i
    by (auto simp: month_lengths_def nth_Cons' numeral_eq_Suc)
  from this [of "m - 1"] show ?thesis by (auto simp: days_in_def)
qed

lemma parse_written:
  assumes y: "0 \<le> y" "y < 10000" and m: "1 \<le> m" "m \<le> 12" and k: "1 \<le> k" "k \<le> days_in y m"
    and h: "0 \<le> h" "h < 24" and mi: "0 \<le> mi" "mi < 60" and se: "0 \<le> se" "se < 60"
    and n: "n < 10 ^ 9"
  shows "parse_rfc3339 (append_int 4 y @ ''-'' @ append_int 2 (int m) @ ''-'' @ append_int 2 k
      @ ''T'' @ append_int 2 h @ '':'' @ append_int 2 mi @ '':'' @ append_int 2 se
      @ frac_seconds n @ ''Z'')
    = Some ((days_of_civil y m k * 86400 + (h * 3600 + mi * 60 + se)) * nanosecond_per_second + int n)"
proof -
  have b: "int m < 100" "m < 100" "0 \<le> k" "k < 100" "h < 100" "mi < 100" "se < 100" "int (nat k) = k" "int (nat y) = y"
    "\<not> k < 1" "\<not> days_in y m < k"
    using assms days_in_bound [of y m] by simp_all
  have c: "int (nat h * 3600 + nat mi * 60 + nat se) = h * 3600 + mi * 60 + se"
    "0 < m \<and> \<not> 12 < m" "\<not> 24 \<le> nat h" "\<not> 60 \<le> nat mi" "\<not> 60 \<le> nat se"
    using h mi se m by simp_all
  show ?thesis
    unfolding parse_rfc3339_def
    by (simp add: parse_year_append_int y m b h mi se parse_frac_seconds [OF n] parse_zone_def
          c del: of_nat_add of_nat_mult)
qed

theorem parse_format:
  assumes "valid_time t"
  shows "parse_rfc3339 (format_rfc3339nano t) = Some t"
proof -
  define day where "day = t div (86400 * nanosecond_per_second)"
  define ns where "ns = t mod (86400 * nanosecond_per_second)"
  define s where "s = ns div nanosecond_per_second"
  define f where "f = ns mod nanosecond_per_second"
  obtain y m k where c: "civil_of_days day = (y, m, k)" by (cases "civil_of_days day") auto
  note cc = civil_of_days_correct [OF c]
  have t: "t = (day * 86400 + s) * nanosecond_per_second + f"
    using div_mult_mod_eq [of t "86400 * nanosecond_per_second"] div_mult_mod_eq [of ns nanosecond_per_second]
    unfolding f_def s_def ns_def day_def by (simp only: distrib_right mult.assoc)
  have f: "0 \<le> f" "f < nanosecond_per_second" by (simp_all add: f_def nanosecond_per_second_def)
  have "0 \<le> ns" "ns < 86400 * nanosecond_per_second" by (simp_all add: ns_def nanosecond_per_second_def)
  then have s: "0 \<le> s" "s < 86400" by (simp_all add: s_def nanosecond_per_second_def)
  have day: "0 \<le> day" "day < 3652059"
    using assms div_bracket [of "86400 * nanosecond_per_second" t]
    unfolding day_def valid_time_def nanosecond_per_second_def by linarith+
  have y: "0 \<le> y" "y < 10000" using year_of_range [OF day] cc(6) by simp_all
  have hms: "0 \<le> s div 3600" "s div 3600 < 24" "0 \<le> s div 60 mod 60" "s div 60 mod 60 < 60"
    "0 \<le> s mod 60" "s mod 60 < 60"
    using s by simp_all
  have "s div 60 div 60 = s div 3600" by (simp flip: zdiv_zmult2_eq)
  with div_mult_mod_eq [of s 60] div_mult_mod_eq [of "s div 60" 60]
  have sec: "s div 3600 * 3600 + s div 60 mod 60 * 60 + s mod 60 = s" by linarith
  have fr: "nat f < 10 ^ 9" "int (nat f) = f" using f by (simp_all add: nanosecond_per_second_def)
  have "format_rfc3339nano t = append_int 4 y @ ''-'' @ append_int 2 (int m) @ ''-'' @ append_int 2 k
      @ ''T'' @ append_int 2 (s div 3600) @ '':'' @ append_int 2 (s div 60 mod 60) @ '':''
      @ append_int 2 (s mod 60) @ frac_seconds (nat f) @ ''Z''"
    by (simp add: format_rfc3339nano_def Let_def day_def [symmetric] ns_def [symmetric]
        s_def [symmetric] f_def [symmetric] c)
  with parse_written [OF y cc(1,2,3,4) hms fr(1)] show ?thesis
    by (simp only: cc(5) sec fr(2) t [symmetric])
qed

end
