(* ===== verification/StageReceipt.thy ===== *)
theory StageReceipt
  imports StagePlanFacts GoTime
begin

text \<open>
  Stage receipts (\<open>internal/stagereceipt/receipt.go\<close>, \<open>recovery.go\<close>): construction and
  verification of the immutable evidence chain, the recovery context of an inherited prefix, and
  re-verification.
\<close>

section \<open>Data\<close>

record Predecessor =
  p_StageID :: string
  p_ReceiptDigest :: string

record Receipt =
  rc_Format :: string
  rc_PlanDigest :: string
  rc_ContractIdentity :: Identity
  rc_ContractRevision :: string
  rc_EnablementRevision :: string
  rc_PlatformRevision :: string
  rc_ExecutionFixture :: string
  rc_StageID :: string
  rc_StageOrder :: int
  rc_StageDigest :: string
  rc_Kind :: string
  rc_Authority :: string
  rc_Operation :: string
  rc_Predecessors :: "Predecessor slice"
  rc_State :: string
  rc_MutationState :: string
  rc_OperationOutcomeDigest :: string
  rc_EvidenceDigest :: string
  rc_TargetClusterUIDDigest :: string
  rc_CompletedAt :: string
  rc_RecoveryBindingDigest :: string

record Verified =
  v_receipt :: Receipt
  v_digest :: string
  v_raw :: string
  v_verified :: bool
  v_recoveryPlan :: string
  v_recoveryDigest :: string
  v_sourcePlan :: "Binding option"

definition ReceiptFormat :: string where "ReceiptFormat = ''ok147-stage-receipt/v1''"
definition RecoveryFormat :: string where "RecoveryFormat = ''ok147-stage-receipt/recovery-v1''"
definition maximumReceiptBytes :: nat where "maximumReceiptBytes = 128 * 1024"

definition zero_predecessor :: Predecessor where
  "zero_predecessor = \<lparr>p_StageID = [], p_ReceiptDigest = []\<rparr>"

definition zero_receipt :: Receipt where
  "zero_receipt = \<lparr>rc_Format = [], rc_PlanDigest = [], rc_ContractIdentity = zero_identity,
     rc_ContractRevision = [], rc_EnablementRevision = [], rc_PlatformRevision = [],
     rc_ExecutionFixture = [], rc_StageID = [], rc_StageOrder = 0, rc_StageDigest = [], rc_Kind = [],
     rc_Authority = [], rc_Operation = [], rc_Predecessors = None, rc_State = [],
     rc_MutationState = [], rc_OperationOutcomeDigest = [], rc_EvidenceDigest = [],
     rc_TargetClusterUIDDigest = [], rc_CompletedAt = [], rc_RecoveryBindingDigest = []\<rparr>"

section \<open>JSON form\<close>

definition enc_predecessor :: "Predecessor \<Rightarrow> json" where
  "enc_predecessor p = struct [key ''stageId'' (JStr (p_StageID p)),
     key ''receiptDigest'' (JStr (p_ReceiptDigest p))]"

definition dec_predecessor :: "Predecessor \<Rightarrow> json \<Rightarrow> Predecessor option" where
  "dec_predecessor old = (let ns = [''stageId'', ''receiptDigest''] in dec_struct ns (\<lambda>kvs. do {
     a \<leftarrow> dec_field ns kvs ''stageId'' dec_string (p_StageID old);
     b \<leftarrow> dec_field ns kvs ''receiptDigest'' dec_string (p_ReceiptDigest old);
     Some \<lparr>p_StageID = a, p_ReceiptDigest = b\<rparr> }) old)"

definition enc_receipt :: "Receipt \<Rightarrow> json" where
  "enc_receipt r = struct [
     key ''format'' (JStr (rc_Format r)),
     key ''planDigest'' (JStr (rc_PlanDigest r)),
     key ''contractIdentity'' (enc_identity (rc_ContractIdentity r)),
     key ''contractRevision'' (JStr (rc_ContractRevision r)),
     key ''enablementRevision'' (JStr (rc_EnablementRevision r)),
     key ''platformRevision'' (JStr (rc_PlatformRevision r)),
     key ''executionFixture'' (JStr (rc_ExecutionFixture r)),
     key ''stageId'' (JStr (rc_StageID r)),
     key ''stageOrder'' (JInt (rc_StageOrder r)),
     key ''stageDigest'' (JStr (rc_StageDigest r)),
     key ''kind'' (JStr (rc_Kind r)),
     key ''authority'' (JStr (rc_Authority r)),
     optkey ''operation'' (JStr (rc_Operation r)),
     key ''predecessors'' (JSlice enc_predecessor (rc_Predecessors r)),
     key ''state'' (JStr (rc_State r)),
     key ''mutationState'' (JStr (rc_MutationState r)),
     optkey ''operationOutcomeDigest'' (JStr (rc_OperationOutcomeDigest r)),
     key ''evidenceDigest'' (JStr (rc_EvidenceDigest r)),
     optkey ''targetClusterUidDigest'' (JStr (rc_TargetClusterUIDDigest r)),
     key ''completedAt'' (JStr (rc_CompletedAt r)),
     optkey ''recoveryBindingDigest'' (JStr (rc_RecoveryBindingDigest r))]"

definition receipt_fields :: "string list" where
  "receipt_fields = [''format'', ''planDigest'', ''contractIdentity'', ''contractRevision'',
     ''enablementRevision'', ''platformRevision'', ''executionFixture'', ''stageId'', ''stageOrder'',
     ''stageDigest'', ''kind'', ''authority'', ''operation'', ''predecessors'', ''state'',
     ''mutationState'', ''operationOutcomeDigest'', ''evidenceDigest'', ''targetClusterUidDigest'',
     ''completedAt'', ''recoveryBindingDigest'']"

definition dec_receipt :: "json \<Rightarrow> Receipt option" where
  "dec_receipt = (let ns = receipt_fields; z = zero_receipt in dec_struct ns (\<lambda>kvs. do {
     f1 \<leftarrow> dec_field ns kvs ''format'' dec_string [];
     f2 \<leftarrow> dec_field ns kvs ''planDigest'' dec_string [];
     f3 \<leftarrow> dec_field ns kvs ''contractIdentity'' dec_identity zero_identity;
     f4 \<leftarrow> dec_field ns kvs ''contractRevision'' dec_string [];
     f5 \<leftarrow> dec_field ns kvs ''enablementRevision'' dec_string [];
     f6 \<leftarrow> dec_field ns kvs ''platformRevision'' dec_string [];
     f7 \<leftarrow> dec_field ns kvs ''executionFixture'' dec_string [];
     f8 \<leftarrow> dec_field ns kvs ''stageId'' dec_string [];
     f9 \<leftarrow> dec_field ns kvs ''stageOrder'' dec_int 0;
     f10 \<leftarrow> dec_field ns kvs ''stageDigest'' dec_string [];
     f11 \<leftarrow> dec_field ns kvs ''kind'' dec_string [];
     f12 \<leftarrow> dec_field ns kvs ''authority'' dec_string [];
     f13 \<leftarrow> dec_field ns kvs ''operation'' dec_string [];
     f14 \<leftarrow> dec_field ns kvs ''predecessors'' (dec_slice dec_predecessor zero_predecessor) None;
     f15 \<leftarrow> dec_field ns kvs ''state'' dec_string [];
     f16 \<leftarrow> dec_field ns kvs ''mutationState'' dec_string [];
     f17 \<leftarrow> dec_field ns kvs ''operationOutcomeDigest'' dec_string [];
     f18 \<leftarrow> dec_field ns kvs ''evidenceDigest'' dec_string [];
     f19 \<leftarrow> dec_field ns kvs ''targetClusterUidDigest'' dec_string [];
     f20 \<leftarrow> dec_field ns kvs ''completedAt'' dec_string [];
     f21 \<leftarrow> dec_field ns kvs ''recoveryBindingDigest'' dec_string [];
     Some \<lparr>rc_Format = f1, rc_PlanDigest = f2, rc_ContractIdentity = f3, rc_ContractRevision = f4,
       rc_EnablementRevision = f5, rc_PlatformRevision = f6, rc_ExecutionFixture = f7, rc_StageID = f8,
       rc_StageOrder = f9, rc_StageDigest = f10, rc_Kind = f11, rc_Authority = f12, rc_Operation = f13,
       rc_Predecessors = f14, rc_State = f15, rc_MutationState = f16, rc_OperationOutcomeDigest = f17,
       rc_EvidenceDigest = f18, rc_TargetClusterUIDDigest = f19, rc_CompletedAt = f20,
       rc_RecoveryBindingDigest = f21\<rparr> }) z)"

section \<open>Accessors of a verified receipt\<close>

definition NotVerified :: goerror where
  "NotVerified = New ''stage receipt was not produced by verification''"

definition Verified_Receipt :: "Verified \<Rightarrow> Receipt result" where
  "Verified_Receipt v = (if \<not> v_verified v then Inl NotVerified
     else Inr ((v_receipt v)\<lparr>rc_Predecessors := Some (elems (rc_Predecessors (v_receipt v)))\<rparr>))"

definition Verified_Digest :: "Verified \<Rightarrow> string result" where
  "Verified_Digest v = (if \<not> v_verified v \<or> \<not> digestPattern (v_digest v) then Inl NotVerified
     else Inr (v_digest v))"

definition Verified_Bytes :: "Verified \<Rightarrow> string result" where
  "Verified_Bytes v = (if \<not> v_verified v \<or> length (v_raw v) = 0 then Inl NotVerified
     else Inr (v_raw v))"

section \<open>Verification\<close>

text \<open>The loop of \<open>verifiedLinks\<close> over predecessors and required ids, index by index.\<close>

fun verified_links_from ::
  "Binding \<Rightarrow> Stage \<Rightarrow> time \<Rightarrow> string list \<Rightarrow> Verified list \<Rightarrow> Predecessor list result" where
  "verified_links_from plan stage completedAt (q # qs) (p # ps) =
     bindE (Verified_Receipt p) (\<lambda>receipt.
     bindE (Verified_Digest p) (\<lambda>d.
       if (rc_PlanDigest receipt \<noteq> b_PlanDigest plan \<and> v_recoveryPlan p \<noteq> b_PlanDigest plan)
          \<or> rc_StageID receipt \<noteq> q \<or> rc_State receipt \<noteq> ''SUCCEEDED''
          \<or> rc_StageOrder receipt \<ge> s_Order stage then
         Inl (New ''stage receipt predecessor is foreign, unsuccessful or out of order'')
       else (case parse_rfc3339 (rc_CompletedAt receipt) of
           None \<Rightarrow> Inl (New ''stage receipt completion precedes its predecessor'')
         | Some t \<Rightarrow>
             if before completedAt t then Inl (New ''stage receipt completion precedes its predecessor'')
             else bindE (verified_links_from plan stage completedAt qs ps) (\<lambda>ls.
               Inr (\<lparr>p_StageID = rc_StageID receipt, p_ReceiptDigest = d\<rparr> # ls)))))"
| "verified_links_from plan stage completedAt _ _ = Inr []"

definition verifiedLinks ::
  "Binding \<Rightarrow> Stage \<Rightarrow> Verified slice \<Rightarrow> time \<Rightarrow> Predecessor slice result" where
  "verifiedLinks plan stage predecessors completedAt =
     (if predecessors = None \<or> length (elems predecessors) \<noteq> length (elems (s_Requires stage)) then
        Inl (New ''stage receipt predecessor set is incomplete'')
      else bindE (verified_links_from plan stage completedAt (elems (s_Requires stage)) (elems predecessors))
        (\<lambda>ls. Inr (Some ls)))"

definition equalLinks :: "Predecessor slice \<Rightarrow> Predecessor slice \<Rightarrow> bool" where
  "equalLinks l r \<longleftrightarrow> l \<noteq> None \<and> r \<noteq> None \<and> elems l = elems r"

definition canonicalReceipt :: "Receipt \<Rightarrow> (string \<times> string) result" where
  "canonicalReceipt r = bindE (canonical_record (enc_receipt r)) (\<lambda>c. Inr (c, SHA256 c))"

text \<open>
  The recovery format and binding digest a receipt of the plan must carry, or the error when the
  plan is a recovery plan and the predecessor lacks its context.
\<close>

definition wanted_recovery :: "Binding \<Rightarrow> Stage \<Rightarrow> Verified slice \<Rightarrow> (string \<times> string) result" where
  "wanted_recovery plan stage predecessors =
     (if b_RecoverySourcePlanDigest plan \<noteq> '''' then
        (case elems predecessors of
           [p] \<Rightarrow>
             if s_Order stage < 5 \<or> v_recoveryPlan p \<noteq> b_PlanDigest plan
                \<or> \<not> digestPattern (v_recoveryDigest p) then
               Inl (New ''recovery receipt requires the inherited source prefix and remaining-stage boundary'')
             else Inr (RecoveryFormat, v_recoveryDigest p)
         | _ \<Rightarrow> Inl (New ''recovery receipt requires the inherited source prefix and remaining-stage boundary''))
      else Inr (ReceiptFormat, ''''))"

text \<open>The checks on outcome, mutation state and target identity.\<close>

definition check_outcome :: "Receipt \<Rightarrow> Stage \<Rightarrow> unit result" where
  "check_outcome r stage =
     (if \<not> allowed (rc_State r) [''SUCCEEDED'', ''FAILED'', ''STOPPED'']
          \<or> \<not> digestPattern (rc_EvidenceDigest r) then
        Inl (New ''stage receipt outcome or evidence digest is invalid'')
      else if IsMutating stage \<and>
          (\<not> allowed (rc_MutationState r) [''NOT_ATTEMPTED'', ''ATTEMPTED'', ''UNKNOWN'']
           \<or> \<not> digestPattern (rc_OperationOutcomeDigest r)) then
        Inl (New ''mutating stage receipt lacks a valid operation outcome'')
      else if IsMutating stage \<and> rc_State r = ''SUCCEEDED'' \<and> rc_MutationState r \<noteq> ''ATTEMPTED''
          \<and> \<not> (s_ID stage = ''provider-prerequisites'' \<and> rc_MutationState r = ''NOT_ATTEMPTED'') then
        Inl (New ''successful mutating stage did not attempt mutation'')
      else if \<not> IsMutating stage \<and>
          (rc_MutationState r \<noteq> ''NOT_APPLICABLE'' \<or> rc_OperationOutcomeDigest r \<noteq> '''') then
        Inl (New ''read-only stage receipt contains mutation state'')
      else if rc_TargetClusterUIDDigest r \<noteq> '''' \<and>
          (s_ID stage \<noteq> ''cluster-lifecycle'' \<or> rc_State r \<noteq> ''SUCCEEDED''
           \<or> \<not> digestPattern (rc_TargetClusterUIDDigest r)) then
        Inl (New ''stage receipt target Cluster identity binding is invalid'')
      else Inr ())"

definition verifyReceipt :: "Receipt \<Rightarrow> Binding \<Rightarrow> Verified slice \<Rightarrow> Verified result" where
  "verifyReceipt r plan predecessors =
     bindE (Binding_Stage plan (rc_StageID r)) (\<lambda>(stage, stageDigest).
     bindE (wanted_recovery plan stage predecessors) (\<lambda>(wantFormat, wantRecovery).
       if rc_Format r \<noteq> wantFormat \<or> rc_RecoveryBindingDigest r \<noteq> wantRecovery
          \<or> rc_PlanDigest r \<noteq> b_PlanDigest plan \<or> rc_ContractIdentity r \<noteq> b_ContractIdentity plan
          \<or> rc_ContractRevision r \<noteq> b_IntentRevision plan
          \<or> rc_EnablementRevision r \<noteq> b_EnablementRevision plan
          \<or> rc_PlatformRevision r \<noteq> b_PlatformRevision plan
          \<or> rc_ExecutionFixture r \<noteq> b_ExecutionFixture plan then
         Inl (New ''stage receipt plan or Contract identity differs'')
       else if rc_StageOrder r \<noteq> s_Order stage \<or> rc_StageDigest r \<noteq> stageDigest
          \<or> rc_Kind r \<noteq> s_Kind stage \<or> rc_Authority r \<noteq> s_Authority stage
          \<or> rc_Operation r \<noteq> s_GrantOperation stage then
         Inl (New ''stage receipt does not bind the exact stage'')
       else (case parse_rfc3339 (rc_CompletedAt r) of
           None \<Rightarrow> Inl (New ''stage receipt completion time is invalid'')
         | Some completedAt \<Rightarrow>
             bindE (verifiedLinks plan stage predecessors completedAt) (\<lambda>links.
             if \<not> equalLinks (rc_Predecessors r) links then
               Inl (New ''stage receipt predecessor chain differs'')
             else bindE (check_outcome r stage) (\<lambda>_.
               bindE (canonicalReceipt r) (\<lambda>(raw, receiptDigest).
                 Inr \<lparr>v_receipt = r, v_digest = receiptDigest, v_raw = raw, v_verified = True,
                   v_recoveryPlan = (if wantRecovery \<noteq> '''' then b_PlanDigest plan else ''''),
                   v_recoveryDigest = (if wantRecovery \<noteq> '''' then wantRecovery else ''''),
                   v_sourcePlan = None\<rparr>))))))"

definition receipt_New_target ::
  "Binding \<Rightarrow> string \<Rightarrow> Verified slice \<Rightarrow> string \<Rightarrow> string \<Rightarrow> string \<Rightarrow> string \<Rightarrow> string \<Rightarrow> time \<Rightarrow> Verified result" where
  "receipt_New_target plan stageID predecessors state mutationState outcome evidence target completedAt =
     bindE (Binding_Stage plan stageID) (\<lambda>(stage, stageDigest).
     bindE (verifiedLinks plan stage predecessors completedAt) (\<lambda>links.
       let receipt = \<lparr>rc_Format = ReceiptFormat, rc_PlanDigest = b_PlanDigest plan,
             rc_ContractIdentity = b_ContractIdentity plan, rc_ContractRevision = b_IntentRevision plan,
             rc_EnablementRevision = b_EnablementRevision plan,
             rc_PlatformRevision = b_PlatformRevision plan,
             rc_ExecutionFixture = b_ExecutionFixture plan, rc_StageID = s_ID stage,
             rc_StageOrder = s_Order stage, rc_StageDigest = stageDigest, rc_Kind = s_Kind stage,
             rc_Authority = s_Authority stage, rc_Operation = s_GrantOperation stage,
             rc_Predecessors = links, rc_State = state, rc_MutationState = mutationState,
             rc_OperationOutcomeDigest = outcome, rc_EvidenceDigest = evidence,
             rc_TargetClusterUIDDigest = target,
             rc_CompletedAt = format_rfc3339nano completedAt, rc_RecoveryBindingDigest = ''''\<rparr>;
           receipt' = (case elems predecessors of
               [p] \<Rightarrow> if v_recoveryPlan p = b_PlanDigest plan
                 then receipt\<lparr>rc_Format := RecoveryFormat, rc_RecoveryBindingDigest := v_recoveryDigest p\<rparr>
                 else receipt
             | _ \<Rightarrow> receipt)
       in verifyReceipt receipt' plan predecessors))"

definition receipt_New ::
  "Binding \<Rightarrow> string \<Rightarrow> Verified slice \<Rightarrow> string \<Rightarrow> string \<Rightarrow> string \<Rightarrow> string \<Rightarrow> time \<Rightarrow> Verified result" where
  "receipt_New plan stageID predecessors state mutationState outcome evidence completedAt =
     receipt_New_target plan stageID predecessors state mutationState outcome evidence '''' completedAt"

definition receipt_Verify :: "string \<Rightarrow> string \<Rightarrow> Binding \<Rightarrow> Verified slice \<Rightarrow> Verified result" where
  "receipt_Verify raw expectedDigest plan predecessors =
     (if \<not> digestPattern expectedDigest then Inl (New ''expected stage receipt digest is invalid'')
      else bindE (wrapE ''decode stage receipt'' (strict_decode dec_receipt raw)) (\<lambda>receipt.
        bindE (verifyReceipt receipt plan predecessors) (\<lambda>v.
          if raw \<noteq> v_raw v then Inl (New ''stage receipt is not canonical or was modified'')
          else if v_digest v \<noteq> expectedDigest then
            Inl (New ''stage receipt digest differs from expected identity'')
          else Inr v)))"

definition receipt_Load ::
  "string \<Rightarrow> file_info option \<Rightarrow> string option \<Rightarrow> string \<Rightarrow> Binding \<Rightarrow> Verified slice \<Rightarrow> Verified result" where
  "receipt_Load path info content expectedDigest plan predecessors =
     (if path = '''' then Inl (New ''stage receipt path is required'')
      else (case info of None \<Rightarrow> Inl (New ''inspect stage receipt'')
      | Some i \<Rightarrow>
          if \<not> f_regular i \<or> f_symlink i \<or> f_size i \<le> 0 \<or> f_size i > int maximumReceiptBytes then
            Inl (New ''stage receipt metadata is invalid'')
          else (case content of None \<Rightarrow> Inl (New ''open stage receipt'')
          | Some c \<Rightarrow>
              if length (take (maximumReceiptBytes + 1) c) > maximumReceiptBytes then
                Inl (New ''read bounded stage receipt'')
              else receipt_Verify (take (maximumReceiptBytes + 1) c) expectedDigest plan predecessors)))"

section \<open>Recovery\<close>

text \<open>
  \<open>InheritFourStagePrefix\<close>: the comparison of the two plans, stage by stage. At index four the
  one input of the successor takes the source's digest before the encodings are compared.
\<close>

definition recovery_stage_matches :: "Binding \<Rightarrow> Binding \<Rightarrow> nat \<Rightarrow> Stage \<Rightarrow> unit result" where
  "recovery_stage_matches source successor i candidate =
     (case (Binding_Stage source (s_ID candidate), Binding_Stage successor (s_ID candidate)) of
        (Inr (old, _), Inr (new, _)) \<Rightarrow>
          (case (i = 4, elems (s_Inputs old), elems (s_Inputs new)) of
             (True, [oi], [ni]) \<Rightarrow>
               if in_Name oi \<noteq> ''stage.network-observation'' \<or> in_Name ni \<noteq> in_Name oi
                  \<or> in_Digest ni = in_Digest oi then
                 Inl (New ''recovery must change exactly the Stage-5 profile input'')
               else if print_json True (enc_stage old)
                  \<noteq> print_json True (enc_stage (new\<lparr>s_Inputs := Some [ni\<lparr>in_Digest := in_Digest oi\<rparr>]\<rparr>)) then
                 Inl (New ''recovery changes an unapproved stage field'')
               else Inr ()
           | (True, _, _) \<Rightarrow> Inl (New ''recovery must change exactly the Stage-5 profile input'')
           | (False, _, _) \<Rightarrow>
               if print_json True (enc_stage old) \<noteq> print_json True (enc_stage new) then
                 Inl (New ''recovery changes an unapproved stage field'')
               else Inr ())
      | _ \<Rightarrow> Inl (New ''recovery plan is not verified''))"

fun recovery_stages_match :: "Binding \<Rightarrow> Binding \<Rightarrow> nat \<Rightarrow> Stage list \<Rightarrow> unit result" where
  "recovery_stages_match source successor i [] = Inr ()"
| "recovery_stages_match source successor i (c # cs) =
     bindE (recovery_stage_matches source successor i c)
       (\<lambda>_. recovery_stages_match source successor (Suc i) cs)"

fun inherit_prefix ::
  "Binding \<Rightarrow> Binding \<Rightarrow> string \<Rightarrow> nat \<Rightarrow> Verified list \<Rightarrow> Verified list \<Rightarrow> Verified list result" where
  "inherit_prefix source successor bindingDigest i previous [] = Inr []"
| "inherit_prefix source successor bindingDigest i previous (original # rest) =
     bindE (Verified_Bytes original) (\<lambda>raw.
     bindE (Verified_Digest original) (\<lambda>d.
       (case receipt_Verify raw d source (Some previous) of
          Inl _ \<Rightarrow> Inl (New ''recovery requires four exact successful source receipts'')
        | Inr checked \<Rightarrow>
            if rc_State (v_receipt checked) \<noteq> ''SUCCEEDED'' \<or> rc_StageOrder (v_receipt checked) \<noteq> int i + 1 then
              Inl (New ''recovery requires four exact successful source receipts'')
            else bindE (inherit_prefix source successor bindingDigest (Suc i) [checked] rest) (\<lambda>vs.
              Inr (checked\<lparr>v_recoveryPlan := b_PlanDigest successor, v_recoveryDigest := bindingDigest,
                     v_sourcePlan := Some source\<rparr> # vs)))))"

definition InheritFourStagePrefix ::
  "Binding \<Rightarrow> Binding \<Rightarrow> Verified slice \<Rightarrow> string \<Rightarrow> Verified list result" where
  "InheritFourStagePrefix source successor prefix bindingDigest =
     (if \<not> digestPattern bindingDigest \<or> b_RecoverySourcePlanDigest source \<noteq> ''''
         \<or> b_ExecutionAttempt source \<noteq> ''''
         \<or> b_RecoverySourcePlanDigest successor \<noteq> b_PlanDigest source
         \<or> b_PlanDigest successor = b_PlanDigest source \<or> length (elems prefix) \<noteq> 4
         \<or> length (elems (b_Stages source)) \<noteq> 7 \<or> length (elems (b_Stages successor)) \<noteq> 7
         \<or> b_CompletionMode source \<noteq> CompletionModeBareClusterMVP
         \<or> b_ContractIdentity source \<noteq> b_ContractIdentity successor
         \<or> b_IntentRevision source \<noteq> b_IntentRevision successor
         \<or> b_EnablementRevision source \<noteq> b_EnablementRevision successor
         \<or> b_PlatformRevision source \<noteq> b_PlatformRevision successor
         \<or> b_ExecutionFixture source \<noteq> b_ExecutionFixture successor
         \<or> b_Authorities source \<noteq> b_Authorities successor
         \<or> b_NetworkObservationMode source \<noteq> b_NetworkObservationMode successor
         \<or> b_CompletionMode source \<noteq> b_CompletionMode successor then
        Inl (New ''recovery source, successor or four-stage prefix differs'')
      else bindE (recovery_stages_match source successor 0 (elems (b_Stages source))) (\<lambda>_.
        bindE (inherit_prefix source successor bindingDigest 0 [] (elems prefix)) (\<lambda>result.
          if \<not> digestPattern (rc_TargetClusterUIDDigest (v_receipt (result ! 1))) then
            Inl (New ''source prefix lacks durable target identity'')
          else Inr result)))"

definition plain_predecessor :: "Verified \<Rightarrow> Verified" where
  "plain_predecessor p = p\<lparr>v_recoveryPlan := '''', v_recoveryDigest := '''', v_sourcePlan := None\<rparr>"

definition Reverify :: "Verified \<Rightarrow> Binding \<Rightarrow> Verified slice \<Rightarrow> Verified result" where
  "Reverify v plan previous =
     (case v_sourcePlan v of
        None \<Rightarrow> receipt_Verify (v_raw v) (v_digest v) plan previous
      | Some source \<Rightarrow>
          if \<not> v_verified v \<or> v_recoveryPlan v \<noteq> b_PlanDigest plan
             \<or> b_RecoverySourcePlanDigest plan \<noteq> b_PlanDigest source
             \<or> rc_StageOrder (v_receipt v) > 4 then
            Inl (New ''inherited receipt recovery context differs'')
          else if list_ex (\<lambda>p. v_recoveryPlan p \<noteq> v_recoveryPlan v \<or> v_recoveryDigest p \<noteq> v_recoveryDigest v)
              (elems previous) then
            Inl (New ''mixed recovery binding predecessors'')
          else bindE (receipt_Verify (v_raw v) (v_digest v) source
                        (Some (map plain_predecessor (elems previous)))) (\<lambda>checked.
            Inr (checked\<lparr>v_recoveryPlan := v_recoveryPlan v, v_recoveryDigest := v_recoveryDigest v,
                   v_sourcePlan := v_sourcePlan v\<rparr>)))"

definition InheritedFor :: "Verified \<Rightarrow> Binding \<Rightarrow> bool" where
  "InheritedFor v plan \<longleftrightarrow> v_verified v \<and> (case v_sourcePlan v of None \<Rightarrow> False
     | Some source \<Rightarrow> v_recoveryPlan v = b_PlanDigest plan
         \<and> b_PlanDigest source = b_RecoverySourcePlanDigest plan)"

end
