(* ===== verification/StageReceiptFacts.thy ===== *)
theory StageReceiptFacts
  imports StageReceipt
begin

text \<open>
  Receipts: the codec of the receipt record, what an accepted receipt establishes about its plan,
  stage and predecessors, the agreement of construction and verification, and the recovery prefix.
\<close>

section \<open>The codec\<close>

definition ok_predecessor :: "Predecessor \<Rightarrow> bool" where
  "ok_predecessor p \<longleftrightarrow> valid_utf8 (p_StageID p) \<and> valid_utf8 (p_ReceiptDigest p)"

definition ok_receipt :: "Receipt \<Rightarrow> bool" where
  "ok_receipt r \<longleftrightarrow> list_all valid_utf8 [rc_Format r, rc_PlanDigest r, rc_ContractRevision r,
       rc_EnablementRevision r, rc_PlatformRevision r, rc_ExecutionFixture r, rc_StageID r,
       rc_StageDigest r, rc_Kind r, rc_Authority r, rc_Operation r, rc_State r, rc_MutationState r,
       rc_OperationOutcomeDigest r, rc_EvidenceDigest r, rc_TargetClusterUIDDigest r,
       rc_CompletedAt r, rc_RecoveryBindingDigest r]
     \<and> ok_identity (rc_ContractIdentity r) \<and> list_all ok_predecessor (elems (rc_Predecessors r))
     \<and> in_int64 (rc_StageOrder r)"

lemma dec_predecessor_canon [simp]:
  "dec_predecessor zero_predecessor (canon (enc_predecessor p)) = Some p"
  by (simp add: dec_predecessor_def enc_predecessor_def zero_predecessor_def struct_codec)

lemma fits_predecessor: "ok_predecessor p \<Longrightarrow> 0 < d \<Longrightarrow> fits d (enc_predecessor p)"
  by (simp add: enc_predecessor_def ok_predecessor_def fits_codec)

lemma dec_receipt_canon: "in_int64 (rc_StageOrder r) \<Longrightarrow> dec_receipt (canon (enc_receipt r)) = Some r"
proof -
  assume "in_int64 (rc_StageOrder r)"
  moreover have "dec_slice dec_predecessor zero_predecessor None
      (canon (JSlice enc_predecessor (rc_Predecessors r))) = Some (rc_Predecessors r)"
    by (rule dec_slice_canon) simp
  ultimately show ?thesis
    by (simp add: dec_receipt_def enc_receipt_def receipt_fields_def struct_codec)
qed

lemma fits_receipt:
  assumes "ok_receipt r" and "4 \<le> k"
  shows "fits k (enc_receipt r)"
proof -
  have "fits (k - 1) (JSlice enc_predecessor (rc_Predecessors r))"
    using assms by (auto simp: fits_JSlice ok_receipt_def list_all_iff intro!: fits_predecessor)
  moreover have "fits (k - 1) (enc_identity (rc_ContractIdentity r))"
    using assms by (simp add: ok_receipt_def fits_identity)
  ultimately show ?thesis
    using assms by (simp add: enc_receipt_def ok_receipt_def fits_struct valid_utf8_ascii is_ascii_def)
qed

interpretation receipt_codec: json_codec enc_receipt dec_receipt ok_receipt
  by unfold_locales (simp_all add: fits_receipt dec_receipt_canon ok_receipt_def)

section \<open>Facts about verified plans\<close>

lemma plan_digests:
  assumes "Verify raw e = Inr plan"
  shows "digestPattern (b_PlanDigest plan)" "digestPattern (b_IntentRevision plan)"
    "digestPattern (b_EnablementRevision plan)" "digestPattern (b_PlatformRevision plan)"
    "digestPattern (b_ExecutionFixture plan)"
    "b_ContractIdentity plan = x_ContractIdentity e"
    "b_RecoverySourcePlanDigest plan = x_RecoverySourcePlanDigest e"
    "b_ExecutionAttempt plan = x_ExecutionAttemptDigest e"
    "b_RecoverySourcePlanDigest plan \<noteq> '''' \<Longrightarrow> digestPattern (b_RecoverySourcePlanDigest plan)"
proof -
  from assms obtain s pd dg where v: "ValidateExpected e = Inr ()" and a: "agrees s e"
    and d: "canonical_digest (enc_document s) = Inr pd" and b: "plan = bind_document s pd dg"
    by (auto simp: Verify_eq_Inr dest: check_document_agrees)
  from canonical_digest_pattern [OF d] v a b
  show "digestPattern (b_PlanDigest plan)" "digestPattern (b_IntentRevision plan)"
    "digestPattern (b_EnablementRevision plan)" "digestPattern (b_PlatformRevision plan)"
    "digestPattern (b_ExecutionFixture plan)"
    "b_ContractIdentity plan = x_ContractIdentity e"
    "b_RecoverySourcePlanDigest plan = x_RecoverySourcePlanDigest e"
    "b_ExecutionAttempt plan = x_ExecutionAttemptDigest e"
    "b_RecoverySourcePlanDigest plan \<noteq> '''' \<Longrightarrow> digestPattern (b_RecoverySourcePlanDigest plan)"
    by (auto simp: bind_document_def agrees_def ValidateExpected_iff)
qed

lemma Binding_Stage_facts:
  assumes "Binding_Stage plan sid = Inr (s, d)"
  shows "s \<in> set (elems (b_Stages plan))" "s_ID s = sid" "ok_stage s" "digestPattern d"
    "stage_digest s = Inr d" "elems (s_Inputs s) \<noteq> []" "digestPattern (b_PlanDigest plan)"
proof -
  from assms have v: "validateStages (elems (b_Stages plan)) (b_CompletionMode plan) = Inr ()"
    and f: "find (\<lambda>x. s_ID x = sid) (elems (b_Stages plan)) = Some s"
    and d: "stage_digest s = Inr d" and p: "digestPattern (b_PlanDigest plan)"
    by (auto simp: Binding_Stage_def bindE_eq_Inr cloneStages_def split: if_splits option.splits sum.splits)
  from f show s: "s \<in> set (elems (b_Stages plan))" "s_ID s = sid" by (auto simp: find_Some_iff)
  from validateStages_ok [OF v] s(1) show "ok_stage s" by (simp add: list_all_iff)
  from d show "digestPattern d" "stage_digest s = Inr d"
    by (simp_all add: stage_digest_def canonical_digest_pattern)
  from v s(1) show "elems (s_Inputs s) \<noteq> []"
    by (auto simp: validateStages_iff in_set_conv_nth inputs_bound_def)
  from p show "digestPattern (b_PlanDigest plan)" .
qed

section \<open>What an accepted receipt establishes\<close>

text \<open>
  A predecessor that may stand before a stage: verified, of the same plan or inherited for it,
  succeeded, the required id, an earlier order and no later completion.
\<close>

definition links_to :: "Binding \<Rightarrow> Stage \<Rightarrow> time \<Rightarrow> string \<Rightarrow> Verified \<Rightarrow> bool" where
  "links_to plan stage t q p \<longleftrightarrow> v_verified p \<and> digestPattern (v_digest p)
     \<and> (rc_PlanDigest (v_receipt p) = b_PlanDigest plan \<or> v_recoveryPlan p = b_PlanDigest plan)
     \<and> rc_StageID (v_receipt p) = q \<and> rc_State (v_receipt p) = ''SUCCEEDED''
     \<and> rc_StageOrder (v_receipt p) < s_Order stage
     \<and> (case parse_rfc3339 (rc_CompletedAt (v_receipt p)) of None \<Rightarrow> False | Some u \<Rightarrow> \<not> before t u)"

definition link_of :: "Verified \<Rightarrow> Predecessor" where
  "link_of p = \<lparr>p_StageID = rc_StageID (v_receipt p), p_ReceiptDigest = v_digest p\<rparr>"

lemma verified_links_from_iff:
  "length qs = length ps \<Longrightarrow> verified_links_from plan stage t qs ps = Inr ls \<longleftrightarrow>
    list_all2 (links_to plan stage t) qs ps \<and> ls = map link_of ps"
proof (induction qs ps arbitrary: ls rule: list_induct2)
  case (Cons q qs p ps)
  have "verified_links_from plan stage t (q # qs) (p # ps) = Inr ls \<longleftrightarrow>
      links_to plan stage t q p \<and> (\<exists>ks. verified_links_from plan stage t qs ps = Inr ks \<and> ls = link_of p # ks)"
    by (auto simp: Verified_Receipt_def Verified_Digest_def links_to_def link_of_def bindE_eq_Inr
        split: option.splits)
  with Cons.IH show ?case by auto
qed auto

lemma verifiedLinks_iff:
  "verifiedLinks plan stage preds t = Inr links \<longleftrightarrow>
    (\<exists>ps. preds = Some ps \<and> list_all2 (links_to plan stage t) (elems (s_Requires stage)) ps
      \<and> links = Some (map link_of ps))"
proof (cases preds)
  case (Some ps)
  show ?thesis
  proof (cases "length ps = length (elems (s_Requires stage))")
    case True
    then show ?thesis
      using verified_links_from_iff [of "elems (s_Requires stage)" ps plan stage t]
      by (auto simp: Some verifiedLinks_def bindE_eq_Inr)
  next
    case False
    then show ?thesis by (auto simp: Some verifiedLinks_def dest: list_all2_lengthD)
  qed
qed (simp add: verifiedLinks_def)

text \<open>The outcome rules.\<close>

definition outcome_allowed :: "Receipt \<Rightarrow> Stage \<Rightarrow> bool" where
  "outcome_allowed r s \<longleftrightarrow>
     rc_State r \<in> {''SUCCEEDED'', ''FAILED'', ''STOPPED''} \<and> digestPattern (rc_EvidenceDigest r)
     \<and> (if IsMutating s
        then rc_MutationState r \<in> {''NOT_ATTEMPTED'', ''ATTEMPTED'', ''UNKNOWN''}
          \<and> digestPattern (rc_OperationOutcomeDigest r)
          \<and> (rc_State r = ''SUCCEEDED'' \<longrightarrow> rc_MutationState r = ''ATTEMPTED''
              \<or> s_ID s = ''provider-prerequisites'' \<and> rc_MutationState r = ''NOT_ATTEMPTED'')
        else rc_MutationState r = ''NOT_APPLICABLE'' \<and> rc_OperationOutcomeDigest r = '''')
     \<and> (rc_TargetClusterUIDDigest r = '''' \<or> s_ID s = ''cluster-lifecycle''
          \<and> rc_State r = ''SUCCEEDED'' \<and> digestPattern (rc_TargetClusterUIDDigest r))"

lemma check_outcome_iff: "check_outcome r s = Inr () \<longleftrightarrow> outcome_allowed r s"
  by (cases "IsMutating s")
    (simp_all only: check_outcome_def if_Inl_eq_Inr de_Morgan_disj de_Morgan_conj not_not
      outcome_allowed_def allowed_simps if_True if_False, auto)

text \<open>The receipt names the plan and the stage it was issued for.\<close>

definition binds_stage :: "Receipt \<Rightarrow> Binding \<Rightarrow> Stage \<Rightarrow> string \<Rightarrow> bool" where
  "binds_stage r plan s d \<longleftrightarrow> rc_PlanDigest r = b_PlanDigest plan
     \<and> rc_ContractIdentity r = b_ContractIdentity plan \<and> rc_ContractRevision r = b_IntentRevision plan
     \<and> rc_EnablementRevision r = b_EnablementRevision plan \<and> rc_PlatformRevision r = b_PlatformRevision plan
     \<and> rc_ExecutionFixture r = b_ExecutionFixture plan \<and> rc_StageOrder r = s_Order s
     \<and> rc_StageDigest r = d \<and> rc_Kind r = s_Kind s \<and> rc_Authority r = s_Authority s
     \<and> rc_Operation r = s_GrantOperation s"

definition verified_as :: "Receipt \<Rightarrow> string \<Rightarrow> Binding \<Rightarrow> string \<Rightarrow> Verified" where
  "verified_as r raw plan wr = \<lparr>v_receipt = r, v_digest = SHA256 raw, v_raw = raw, v_verified = True,
     v_recoveryPlan = (if wr \<noteq> '''' then b_PlanDigest plan else ''''),
     v_recoveryDigest = wr, v_sourcePlan = None\<rparr>"

lemma verifyReceipt_eq_Inr:
  "verifyReceipt r plan preds = Inr v \<longleftrightarrow>
    (\<exists>s d fm wr t ps raw. Binding_Stage plan (rc_StageID r) = Inr (s, d)
      \<and> wanted_recovery plan s preds = Inr (fm, wr) \<and> rc_Format r = fm \<and> rc_RecoveryBindingDigest r = wr
      \<and> binds_stage r plan s d \<and> parse_rfc3339 (rc_CompletedAt r) = Some t
      \<and> preds = Some ps \<and> list_all2 (links_to plan s t) (elems (s_Requires s)) ps
      \<and> rc_Predecessors r = Some (map link_of ps) \<and> outcome_allowed r s
      \<and> canonical_record (enc_receipt r) = Inr raw \<and> v = verified_as r raw plan wr)"
proof -
  have links: "(\<exists>x. verifiedLinks plan s preds t = Inr x \<and> equalLinks (rc_Predecessors r) x \<and> P)
    \<longleftrightarrow> (\<exists>ps. preds = Some ps \<and> list_all2 (links_to plan s t) (elems (s_Requires s)) ps
        \<and> rc_Predecessors r = Some (map link_of ps) \<and> P)" for s t P
    by (cases "rc_Predecessors r") (auto simp: verifiedLinks_iff equalLinks_def)
  show ?thesis
    unfolding verifyReceipt_def Inr_conv links check_outcome_iff canonicalReceipt_def
      binds_stage_def verified_as_def
    by (auto simp: check_outcome_iff)
qed

lemma receipt_Verify_eq_Inr:
  "receipt_Verify raw d plan preds = Inr v \<longleftrightarrow>
    (\<exists>r. digestPattern d \<and> strict_decode dec_receipt raw = Inr r \<and> verifyReceipt r plan preds = Inr v
      \<and> v_raw v = raw \<and> v_digest v = d)"
  unfolding receipt_Verify_def Inr_conv by auto

lemma verified_as_simps [simp]:
  "v_receipt (verified_as r raw plan wr) = r" "v_raw (verified_as r raw plan wr) = raw"
  "v_digest (verified_as r raw plan wr) = SHA256 raw" "v_verified (verified_as r raw plan wr)"
  "v_sourcePlan (verified_as r raw plan wr) = None"
  by (simp_all add: verified_as_def)

lemma IsMutating_iff_operation: "blank [] \<and> (s_GrantOperation s = [] \<longrightarrow> \<not> IsMutating s)"
  by (simp add: IsMutating_def blank_def runes.simps)

text \<open>
  C29: an accepted receipt is exactly the bytes it was read from and their digest, binds the plan and
  one of its stages, carries one link per required predecessor (each verified, successful, of this
  plan or inherited for it, earlier in order and not completed later), and obeys the outcome rules.
\<close>

theorem receipt_Verify_sound:
  assumes "receipt_Verify raw d plan preds = Inr v"
  shows "v_raw v = raw \<and> d = SHA256 raw \<and> v_digest v = d \<and> v_verified v
    \<and> strict_decode dec_receipt raw = Inr (v_receipt v)
    \<and> canonical_record (enc_receipt (v_receipt v)) = Inr raw
    \<and> (\<exists>s sd t ps. Binding_Stage plan (rc_StageID (v_receipt v)) = Inr (s, sd)
        \<and> binds_stage (v_receipt v) plan s sd \<and> parse_rfc3339 (rc_CompletedAt (v_receipt v)) = Some t
        \<and> preds = Some ps \<and> list_all2 (links_to plan s t) (elems (s_Requires s)) ps
        \<and> rc_Predecessors (v_receipt v) = Some (map link_of ps) \<and> outcome_allowed (v_receipt v) s)"
proof -
  from assms obtain r where r: "strict_decode dec_receipt raw = Inr r" "verifyReceipt r plan preds = Inr v"
    "v_raw v = raw" "v_digest v = d" by (auto simp: receipt_Verify_eq_Inr)
  from r(2) obtain s sd wr t ps raw' where f: "Binding_Stage plan (rc_StageID r) = Inr (s, sd)"
    "binds_stage r plan s sd" "parse_rfc3339 (rc_CompletedAt r) = Some t" "preds = Some ps"
    "list_all2 (links_to plan s t) (elems (s_Requires s)) ps" "rc_Predecessors r = Some (map link_of ps)"
    "outcome_allowed r s" "canonical_record (enc_receipt r) = Inr raw'" "v = verified_as r raw' plan wr"
    unfolding verifyReceipt_eq_Inr by blast
  from f r show ?thesis by auto
qed

text \<open>The strings of a receipt that verification accepted are valid UTF-8.\<close>

lemma links_ok:
  assumes "list_all2 (links_to plan s t) qs ps" and "list_all valid_utf8 qs"
  shows "list_all ok_predecessor (map link_of ps)"
  using assms
  by (induction rule: list_all2_induct) (auto simp: links_to_def link_of_def ok_predecessor_def intro: valid_utf8_digest)

lemma valid_literals:
  "valid_utf8 ''SUCCEEDED''" "valid_utf8 ''FAILED''" "valid_utf8 ''STOPPED''" "valid_utf8 ''NOT_ATTEMPTED''"
  "valid_utf8 ''ATTEMPTED''" "valid_utf8 ''UNKNOWN''" "valid_utf8 ''NOT_APPLICABLE''"
  "valid_utf8 ReceiptFormat" "valid_utf8 RecoveryFormat"
  by (simp_all add: valid_utf8_ascii is_ascii_def ReceiptFormat_def RecoveryFormat_def)

lemma wanted_recovery_ok:
  "wanted_recovery plan s preds = Inr (fm, wr) \<Longrightarrow> valid_utf8 fm \<and> (wr = '''' \<or> digestPattern wr)"
  by (auto simp: wanted_recovery_def valid_literals split: if_splits list.splits)

lemma outcome_ok:
  assumes "outcome_allowed r s"
  shows "list_all valid_utf8 [rc_State r, rc_MutationState r, rc_OperationOutcomeDigest r,
    rc_EvidenceDigest r, rc_TargetClusterUIDDigest r]"
proof -
  have "rc_State r \<in> {''SUCCEEDED'', ''FAILED'', ''STOPPED''}"
    "rc_MutationState r \<in> {''NOT_ATTEMPTED'', ''ATTEMPTED'', ''UNKNOWN'', ''NOT_APPLICABLE''}"
    "rc_OperationOutcomeDigest r = '''' \<or> digestPattern (rc_OperationOutcomeDigest r)"
    "digestPattern (rc_EvidenceDigest r)"
    "rc_TargetClusterUIDDigest r = '''' \<or> digestPattern (rc_TargetClusterUIDDigest r)"
    using assms by (auto simp: outcome_allowed_def split: if_splits)
  then show ?thesis using valid_literals by (auto intro: valid_utf8_digest)
qed

lemma receipt_parts_ok:
  assumes "Verify plan_raw e = Inr plan" and "ok_identity (x_ContractIdentity e)"
    and st: "Binding_Stage plan (rc_StageID r) = Inr (s, d)"
    and fm: "valid_utf8 (rc_Format r)" "rc_RecoveryBindingDigest r = '''' \<or> digestPattern (rc_RecoveryBindingDigest r)"
    and b: "binds_stage r plan s d" and l: "list_all2 (links_to plan s t) (elems (s_Requires s)) ps"
    and p: "rc_Predecessors r = Some (map link_of ps)" and o: "outcome_allowed r s"
    and c: "list_all is_ascii (rc_CompletedAt r)"
  shows "ok_receipt r"
proof -
  note stf = Binding_Stage_facts [OF st]
  have "list_all valid_utf8 (elems (s_Requires s))" using stf(3) by (simp add: ok_stage_def)
  note k = links_ok [OF l this]
  have plan: "list_all valid_utf8 [b_PlanDigest plan, b_IntentRevision plan, b_EnablementRevision plan,
      b_PlatformRevision plan, b_ExecutionFixture plan, d]"
    using plan_digests [OF assms(1)] stf(4) by (simp add: valid_utf8_digest)
  have "list_all valid_utf8 [s_ID s, s_Kind s, s_Authority s, s_GrantOperation s] \<and> in_int64 (s_Order s)"
    using stf(3) by (simp add: ok_stage_def)
  moreover have "valid_utf8 (rc_RecoveryBindingDigest r)" using fm(2) by (auto intro: valid_utf8_digest)
  ultimately show ?thesis
    using plan stf(2) k outcome_ok [OF o] assms(2) plan_digests(6) [OF assms(1)]
      valid_utf8_ascii [OF c] fm(1) b p
    by (simp add: ok_receipt_def binds_stage_def)
qed

lemma verifyReceipt_ok:
  assumes "Verify plan_raw e = Inr plan" and "ok_identity (x_ContractIdentity e)"
    and "verifyReceipt r plan preds = Inr v" and "list_all is_ascii (rc_CompletedAt r)"
  shows "ok_receipt r"
proof -
  from assms(3) obtain s d fm wr t ps where f: "Binding_Stage plan (rc_StageID r) = Inr (s, d)"
    "wanted_recovery plan s preds = Inr (fm, wr)" "rc_Format r = fm" "rc_RecoveryBindingDigest r = wr"
    "binds_stage r plan s d" "list_all2 (links_to plan s t) (elems (s_Requires s)) ps"
    "rc_Predecessors r = Some (map link_of ps)" "outcome_allowed r s"
    unfolding verifyReceipt_eq_Inr by blast
  show ?thesis
    by (rule receipt_parts_ok [OF assms(1,2) f(1) _ _ f(5,6,7,8) assms(4)])
      (use wanted_recovery_ok [OF f(2)] f(3,4) in auto)
qed

lemma receipt_New_target_eq_Inr:
  "receipt_New_target plan sid preds st ms oc ev tg t = Inr v \<Longrightarrow>
    \<exists>r. verifyReceipt r plan preds = Inr v \<and> rc_StageID r = sid \<and> rc_State r = st
      \<and> rc_MutationState r = ms \<and> rc_OperationOutcomeDigest r = oc \<and> rc_EvidenceDigest r = ev
      \<and> rc_TargetClusterUIDDigest r = tg \<and> rc_CompletedAt r = format_rfc3339nano t"
  unfolding receipt_New_target_def Inr_conv
  by (elim exE conjE, rule exI, rule conjI, assumption)
    (auto split: list.split dest: Binding_Stage_facts(2))

lemma digits_ascii: "list_all is_digit s \<Longrightarrow> list_all is_ascii s"
  by (auto simp: list_all_iff is_digit_iff is_ascii_def less_char_def)

lemma append_int_ascii: "list_all is_ascii (append_int w i)"
  by (auto simp: append_int_def Let_def digits_ascii fixed_digits_digits show_nat_digits is_ascii_def)

lemma frac_seconds_ascii: "list_all is_ascii (frac_seconds n)"
proof -
  obtain k where "fixed_digits 9 n = trim_zeros (fixed_digits 9 n) @ replicate k CHR ''0''"
    using trim_zeros_split by blast
  then have "list_all is_ascii (trim_zeros (fixed_digits 9 n))"
    using digits_ascii [OF fixed_digits_digits [of 9 n]] by (metis list_all_append)
  then show ?thesis by (simp add: frac_seconds_def is_ascii_def)
qed

lemma format_ascii: "list_all is_ascii (format_rfc3339nano t)"
  by (simp add: format_rfc3339nano_def Let_def append_int_ascii frac_seconds_ascii is_ascii_def split: prod.split)

lemma new_verifies:
  assumes "Verify plan_raw e = Inr plan" and "ok_identity (x_ContractIdentity e)"
    and "receipt_New_target plan sid preds st ms oc ev tg t = Inr v"
  shows "receipt_Verify (v_raw v) (v_digest v) plan preds = Inr v"
proof -
  from receipt_New_target_eq_Inr [OF assms(3)] obtain r where r: "verifyReceipt r plan preds = Inr v"
    "rc_CompletedAt r = format_rfc3339nano t" by blast
  have ok: "ok_receipt r" using verifyReceipt_ok [OF assms(1,2) r(1)] r(2) format_ascii by simp
  from r(1) obtain raw wr where v: "canonical_record (enc_receipt r) = Inr raw" "v = verified_as r raw plan wr"
    unfolding verifyReceipt_eq_Inr by blast
  have "raw = canonical_text (enc_receipt r)" using receipt_codec.canonical [OF ok] v(1) by simp
  then have "strict_decode dec_receipt raw = Inr r" using receipt_codec.strict [OF ok] by simp
  then show ?thesis using r(1) v(2) by (auto simp: receipt_Verify_eq_Inr)
qed

text \<open>
  C30: a receipt made by \<open>New\<close> (with or without a target identity) for a verified plan is accepted by
  \<open>Verify\<close> from its own bytes and digest, in the same context, and yields the same verified receipt.
\<close>

theorem receipt_New_Verify:
  assumes "Verify plan_raw e = Inr plan" and "ok_identity (x_ContractIdentity e)"
    and "receipt_New_target plan sid preds st ms oc ev tg t = Inr v"
  shows "receipt_Verify (v_raw v) (v_digest v) plan preds = Inr v"
  by (rule new_verifies [OF assms])

definition outcome_receipt :: "string \<Rightarrow> string \<Rightarrow> string \<Rightarrow> string \<Rightarrow> string \<Rightarrow> Receipt" where
  "outcome_receipt st ms oc ev tg = zero_receipt\<lparr>rc_State := st, rc_MutationState := ms,
     rc_OperationOutcomeDigest := oc, rc_EvidenceDigest := ev, rc_TargetClusterUIDDigest := tg\<rparr>"

lemma outcome_allowed_cong:
  "rc_State r = rc_State r' \<Longrightarrow> rc_MutationState r = rc_MutationState r' \<Longrightarrow>
   rc_OperationOutcomeDigest r = rc_OperationOutcomeDigest r' \<Longrightarrow> rc_EvidenceDigest r = rc_EvidenceDigest r' \<Longrightarrow>
   rc_TargetClusterUIDDigest r = rc_TargetClusterUIDDigest r' \<Longrightarrow>
   outcome_allowed r s = outcome_allowed r' s"
  by (simp add: outcome_allowed_def)

lemma new_receipt_succeeds:
  assumes "Verify plan_raw e = Inr plan" and "ok_identity (x_ContractIdentity e)"
    and "x_RecoverySourcePlanDigest e = ''''" and "s \<in> set (elems (b_Stages plan))" and "valid_time t"
    and "\<forall>p \<in> set ps. v_recoveryPlan p \<noteq> b_PlanDigest plan"
  shows "(\<exists>v. receipt_New_target plan (s_ID s) (Some ps) st ms oc ev tg t = Inr v) \<longleftrightarrow>
    list_all2 (links_to plan s t) (elems (s_Requires s)) ps
    \<and> outcome_allowed (outcome_receipt st ms oc ev tg) s"
proof -
  let ?d = "SHA256 (canonical_text (enc_stage s))"
  let ?r = "\<lparr>rc_Format = ReceiptFormat, rc_PlanDigest = b_PlanDigest plan,
             rc_ContractIdentity = b_ContractIdentity plan, rc_ContractRevision = b_IntentRevision plan,
             rc_EnablementRevision = b_EnablementRevision plan,
             rc_PlatformRevision = b_PlatformRevision plan,
             rc_ExecutionFixture = b_ExecutionFixture plan, rc_StageID = s_ID s,
             rc_StageOrder = s_Order s, rc_StageDigest = ?d, rc_Kind = s_Kind s,
             rc_Authority = s_Authority s, rc_Operation = s_GrantOperation s,
             rc_Predecessors = Some (map link_of ps), rc_State = st, rc_MutationState = ms,
             rc_OperationOutcomeDigest = oc, rc_EvidenceDigest = ev,
             rc_TargetClusterUIDDigest = tg,
             rc_CompletedAt = format_rfc3339nano t, rc_RecoveryBindingDigest = ''''\<rparr>"
  have st: "Binding_Stage plan (s_ID s) = Inr (s, ?d)" using stage_lookup [OF assms(1)] assms(4) by simp
  have nr: "b_RecoverySourcePlanDigest plan = ''''" using plan_digests(7) [OF assms(1)] assms(3) by simp
  have w: "wanted_recovery plan s (Some ps) = Inr (ReceiptFormat, '''')"
    using nr by (simp add: wanted_recovery_def)
  have b: "binds_stage ?r plan s ?d" by (simp add: binds_stage_def)
  have o: "outcome_allowed ?r s \<longleftrightarrow> outcome_allowed (outcome_receipt st ms oc ev tg) s"
    by (rule outcome_allowed_cong) (simp_all add: outcome_receipt_def)
  have c: "\<exists>raw. canonical_record (enc_receipt ?r) = Inr raw"
    if "list_all2 (links_to plan s t) (elems (s_Requires s)) ps" "outcome_allowed ?r s"
  proof -
    have "ok_receipt ?r"
      by (rule receipt_parts_ok [OF assms(1,2) _ _ _ b that(1) _ that(2)])
        (simp_all add: st valid_literals format_ascii)
    then show ?thesis using receipt_codec.canonical by blast
  qed
  have v: "(\<exists>v. verifyReceipt ?r plan (Some ps) = Inr v) \<longleftrightarrow>
    list_all2 (links_to plan s t) (elems (s_Requires s)) ps \<and> outcome_allowed ?r s"
    unfolding verifyReceipt_eq_Inr using st w b c parse_format [OF assms(5)] by auto
  have n: "receipt_New_target plan (s_ID s) (Some ps) st ms oc ev tg t =
     bindE (verifiedLinks plan s (Some ps) t) (\<lambda>links. verifyReceipt (?r\<lparr>rc_Predecessors := links\<rparr>) plan (Some ps))"
    using assms(6) by (cases ps; cases "tl ps") (simp_all add: receipt_New_target_def st Let_def)
  show ?thesis
  proof (cases "list_all2 (links_to plan s t) (elems (s_Requires s)) ps")
    case True
    then have "verifiedLinks plan s (Some ps) t = Inr (Some (map link_of ps))" by (simp add: verifiedLinks_iff)
    with True v o show ?thesis by (simp add: n)
  next
    case False
    then show ?thesis by (auto simp: n Inr_conv verifiedLinks_iff)
  qed
qed

text \<open>
  C31: for an ordinary verified plan, one of its stages and predecessors without recovery context,
  \<open>New\<close> succeeds exactly when every required predecessor links and the outcome rules hold.
\<close>

theorem receipt_New_iff:
  assumes "Verify plan_raw e = Inr plan" and "ok_identity (x_ContractIdentity e)"
    and "x_RecoverySourcePlanDigest e = ''''" and "s \<in> set (elems (b_Stages plan))" and "valid_time t"
    and "\<forall>p \<in> set ps. v_recoveryPlan p \<noteq> b_PlanDigest plan"
  shows "(\<exists>v. receipt_New_target plan (s_ID s) (Some ps) st ms oc ev tg t = Inr v) \<longleftrightarrow>
    list_all2 (links_to plan s t) (elems (s_Requires s)) ps
    \<and> outcome_allowed (outcome_receipt st ms oc ev tg) s"
  by (rule new_receipt_succeeds [OF assms])


section \<open>A concrete receipt\<close>

definition sample_stage1 :: Stage where
  "sample_stage1 = bare_stage sample_inputs 0"

definition sample_receipt_result :: "Verified result" where
  "sample_receipt_result = receipt_New_target sample_binding ''provider-prerequisites'' (Some [])
     ''SUCCEEDED'' ''ATTEMPTED'' (sample_digest CHR ''b'') (sample_digest CHR ''c'') '''' 0"

definition sample_receipt :: Verified where
  "sample_receipt = (case sample_receipt_result of Inr v \<Rightarrow> v
     | Inl _ \<Rightarrow> verified_as zero_receipt '''' sample_binding '''')"

lemma sample_stage1_member: "sample_stage1 \<in> set (elems (b_Stages sample_binding))"
  unfolding sample_verified(2) set_map sample_stage1_def by (rule imageI) simp

lemma sample_stage1_fields:
  "s_ID sample_stage1 = ''provider-prerequisites''" "s_Requires sample_stage1 = Some []"
  "s_GrantOperation sample_stage1 = ''CreateProviderPrerequisites''"
  by (simp_all add: sample_stage1_def bare_stage_def requiredSequence_def rule_def)

lemma sample_identity: "ok_identity (x_ContractIdentity sample_expected)"
  using sample_ok(1) by (simp add: bare_expected_def)

lemma sample_no_recovery: "x_RecoverySourcePlanDigest sample_expected = ''''"
  by (simp add: sample_expected_def)

lemma blank_ascii: "byte c < 128 \<Longrightarrow> \<not> unicode_space (byte c) \<Longrightarrow> \<not> blank (c # s)"
  by (simp add: blank_def runes.simps [of "c # s"])

lemma sample_mutating: "IsMutating sample_stage1"
  unfolding IsMutating_def sample_stage1_fields by (rule blank_ascii) (simp_all add: unicode_space_def)

lemma sample_outcome:
  "outcome_allowed (outcome_receipt ''SUCCEEDED'' ''ATTEMPTED'' (sample_digest CHR ''b'')
     (sample_digest CHR ''c'') '''') sample_stage1"
  by (simp add: outcome_allowed_def outcome_receipt_def sample_mutating sample_digest_pattern
      is_lower_hex_def is_digit_def)

lemma valid_time_0: "valid_time 0"
  by (simp add: valid_time_def nanosecond_per_second_def)

lemma sample_receipt_new:
  "receipt_New_target sample_binding ''provider-prerequisites'' (Some [])
     ''SUCCEEDED'' ''ATTEMPTED'' (sample_digest CHR ''b'') (sample_digest CHR ''c'') '''' 0 = Inr sample_receipt"
proof -
  have "\<exists>v. sample_receipt_result = Inr v"
    using new_receipt_succeeds [OF sample_verified(1) sample_identity sample_no_recovery
        sample_stage1_member valid_time_0, of "[]"] sample_outcome
    unfolding sample_receipt_result_def by (simp add: sample_stage1_fields)
  then show ?thesis by (auto simp: sample_receipt_def sample_receipt_result_def)
qed

lemma receipt_New_Verify_witness:
  "receipt_Verify (v_raw sample_receipt) (v_digest sample_receipt) sample_binding (Some []) = Inr sample_receipt"
  by (rule receipt_New_Verify [OF sample_verified(1) sample_identity sample_receipt_new])

lemma receipt_New_iff_witness:
  "\<exists>v. receipt_New_target sample_binding (s_ID sample_stage1) (Some []) ''SUCCEEDED'' ''ATTEMPTED''
     (sample_digest CHR ''b'') (sample_digest CHR ''c'') '''' 0 = Inr v"
  using receipt_New_iff [OF sample_verified(1) sample_identity sample_no_recovery
      sample_stage1_member valid_time_0, of "[]"] sample_outcome
  by (simp add: sample_stage1_fields)

lemma sample_receipt_verifies:
  "receipt_Verify (v_raw sample_receipt) (v_digest sample_receipt) sample_binding (Some []) = Inr sample_receipt"
  by (rule new_verifies [OF sample_verified(1) sample_identity sample_receipt_new])

lemma receipt_Verify_sound_witness:
  "v_digest sample_receipt = SHA256 (v_raw sample_receipt)"
  using receipt_Verify_sound [OF sample_receipt_verifies] by simp

end
