(* ===== verification/StageCursor.thy ===== *)
theory StageCursor
  imports StageReceiptFacts
begin

text \<open>
  The stage cursor (\<open>internal/stagecursor/cursor.go\<close>): from an explicit receipt prefix to exactly
  one decision, NEXT, COMPLETED or STOPPED; and the theorem that the receipts of a run move the
  cursor through the plan.
\<close>

section \<open>Data\<close>

record CursorPredecessor =
  cp_StageID :: string
  cp_ReceiptDigest :: string

record Decision =
  cd_Format :: string
  cd_State :: string
  cd_PlanDigest :: string
  cd_CompletedStages :: int
  cd_StageID :: string
  cd_StageOrder :: int
  cd_StageDigest :: string
  cd_Kind :: string
  cd_Authority :: string
  cd_Operation :: string
  cd_RequiresAuthorization :: bool
  cd_Predecessors :: "CursorPredecessor slice"
  cd_TerminalOutcome :: string
  cd_TerminalReceiptDigest :: string

record Cursor =
  cu_decision :: Decision
  cu_predecessors :: "Verified slice"
  cu_verified :: bool

definition DecisionFormat :: string where
  "DecisionFormat = ''ok147-stage-cursor-decision/v1''"

definition Cursor_Decision :: "Cursor \<Rightarrow> Decision result" where
  "Cursor_Decision c = (if \<not> cu_verified c then Inl (New ''stage cursor was not produced by verification'')
     else Inr ((cu_decision c)\<lparr>cd_Predecessors := Some (elems (cd_Predecessors (cu_decision c)))\<rparr>))"

definition Cursor_Predecessors :: "Cursor \<Rightarrow> Verified slice result" where
  "Cursor_Predecessors c = (if \<not> cu_verified c then Inl (New ''stage cursor was not produced by verification'')
     else Inr (Some (elems (cu_predecessors c))))"

definition verifiedCursor :: "Decision \<Rightarrow> Verified list \<Rightarrow> Cursor" where
  "verifiedCursor d ps = \<lparr>cu_decision = d, cu_predecessors = Some ps, cu_verified = True\<rparr>"

definition explicitPredecessors :: "Predecessor slice \<Rightarrow> CursorPredecessor slice" where
  "explicitPredecessors s =
     Some (map (\<lambda>p. \<lparr>cp_StageID = p_StageID p, cp_ReceiptDigest = p_ReceiptDigest p\<rparr>) (elems s))"

section \<open>Evaluate\<close>

definition stopped_decision :: "Binding \<Rightarrow> nat \<Rightarrow> Receipt \<Rightarrow> string \<Rightarrow> Decision" where
  "stopped_decision plan index receipt receiptDigest = \<lparr>
     cd_Format = DecisionFormat, cd_State = ''STOPPED'', cd_PlanDigest = b_PlanDigest plan,
     cd_CompletedStages = int index, cd_StageID = rc_StageID receipt,
     cd_StageOrder = rc_StageOrder receipt, cd_StageDigest = rc_StageDigest receipt,
     cd_Kind = rc_Kind receipt, cd_Authority = rc_Authority receipt,
     cd_Operation = rc_Operation receipt, cd_RequiresAuthorization = False,
     cd_Predecessors = explicitPredecessors (rc_Predecessors receipt),
     cd_TerminalOutcome = rc_State receipt, cd_TerminalReceiptDigest = receiptDigest\<rparr>"

definition completed_decision :: "Binding \<Rightarrow> nat \<Rightarrow> Decision" where
  "completed_decision plan n = \<lparr>
     cd_Format = DecisionFormat, cd_State = ''COMPLETED'', cd_PlanDigest = b_PlanDigest plan,
     cd_CompletedStages = int n, cd_StageID = '''', cd_StageOrder = 0, cd_StageDigest = '''',
     cd_Kind = '''', cd_Authority = '''', cd_Operation = '''', cd_RequiresAuthorization = False,
     cd_Predecessors = Some [], cd_TerminalOutcome = '''', cd_TerminalReceiptDigest = ''''\<rparr>"

definition next_decision :: "Binding \<Rightarrow> nat \<Rightarrow> Stage \<Rightarrow> string \<Rightarrow> CursorPredecessor list \<Rightarrow> Decision" where
  "next_decision plan n stage digest preds = \<lparr>
     cd_Format = DecisionFormat, cd_State = ''NEXT'', cd_PlanDigest = b_PlanDigest plan,
     cd_CompletedStages = int n, cd_StageID = s_ID stage, cd_StageOrder = s_Order stage,
     cd_StageDigest = digest, cd_Kind = s_Kind stage, cd_Authority = s_Authority stage,
     cd_Operation = s_GrantOperation stage, cd_RequiresAuthorization = IsMutating stage,
     cd_Predecessors = Some preds, cd_TerminalOutcome = '''', cd_TerminalReceiptDigest = ''''\<rparr>"

text \<open>
  The loop over the prefix: it stops with a cursor at a terminal receipt, or ends with the
  predecessors of the next stage. The list of stages is \<open>plan.Stages[index:]\<close>.
\<close>

fun evaluate_prefix ::
  "Binding \<Rightarrow> nat \<Rightarrow> Verified list \<Rightarrow> Stage list \<Rightarrow> Verified list \<Rightarrow> (Cursor + Verified list) result" where
  "evaluate_prefix plan index previous stages [] = Inr (Inr previous)"
| "evaluate_prefix plan index previous [] (v # vs) = Inl (New ''stage receipt prefix exceeds the staged plan'')"
| "evaluate_prefix plan index previous (expected # stages) (v # vs) =
     bindE (Verified_Digest v) (\<lambda>receiptDigest.
     bindE (wrapE (''verify stage receipt prefix item '' @ show_nat (index + 1)) (Reverify v plan (Some previous)))
       (\<lambda>rechecked.
     bindE (Verified_Receipt rechecked) (\<lambda>receipt.
       if rc_StageID receipt \<noteq> s_ID expected \<or> rc_StageOrder receipt \<noteq> s_Order expected then
         Inl (New ''stage receipt prefix is reordered or contains a gap'')
       else if rc_State receipt \<noteq> ''SUCCEEDED'' then
         (if vs \<noteq> [] then Inl (New ''stage receipt prefix continues after a terminal outcome'')
          else Inr (Inl (verifiedCursor (stopped_decision plan index receipt receiptDigest) [])))
       else evaluate_prefix plan (Suc index) [rechecked] stages vs)))"

definition cursor_links :: "Verified list \<Rightarrow> CursorPredecessor list result" where
  "cursor_links ps = mapE (\<lambda>v. bindE (Verified_Receipt v) (\<lambda>r. bindE (Verified_Digest v) (\<lambda>d.
     Inr \<lparr>cp_StageID = rc_StageID r, cp_ReceiptDigest = d\<rparr>))) ps"

definition Evaluate :: "Binding \<Rightarrow> Verified slice \<Rightarrow> Cursor result" where
  "Evaluate plan prefix =
     (case prefix of None \<Rightarrow> Inl (New ''stage receipt prefix must be explicit'')
      | Some vs \<Rightarrow>
          if length vs > length (elems (b_Stages plan)) then
            Inl (New ''stage receipt prefix exceeds the staged plan'')
          else if b_RecoverySourcePlanDigest plan \<noteq> '''' \<and> length vs < 4 then
            Inl (New ''recovery cannot start or replay Stages 1-4'')
          else if b_RecoverySourcePlanDigest plan \<noteq> '''' \<and> \<not> list_all (\<lambda>v. InheritedFor v plan) (take 4 vs) then
            Inl (New ''recovery requires the verified original prefix'')
          else bindE (evaluate_prefix plan 0 [] (elems (b_Stages plan)) vs) (\<lambda>out.
            case out of
              Inl cursor \<Rightarrow> Inr cursor
            | Inr previous \<Rightarrow>
                if length vs = length (elems (b_Stages plan)) then
                  Inr (verifiedCursor (completed_decision plan (length vs)) [])
                else bindE (Binding_Stage plan (s_ID (elems (b_Stages plan) ! length vs)))
                  (\<lambda>(next, nextDigest).
                    bindE (cursor_links previous) (\<lambda>preds.
                      Inr (verifiedCursor (next_decision plan (length vs) next nextDigest preds) previous)))))"

section \<open>The loop\<close>

lemma Verified_Receipt_verified [simp]:
  "v_verified v \<Longrightarrow> Verified_Receipt v
    = Inr ((v_receipt v)\<lparr>rc_Predecessors := Some (elems (rc_Predecessors (v_receipt v)))\<rparr>)"
  by (simp add: Verified_Receipt_def)

lemma evaluate_prefix_append:
  "evaluate_prefix plan i prev stages vs = Inr (Inr prev') \<Longrightarrow>
    evaluate_prefix plan i prev stages (vs @ ws)
      = evaluate_prefix plan (i + length vs) prev' (drop (length vs) stages) ws"
proof (induction vs arbitrary: i prev stages)
  case (Cons v vs)
  then obtain s ss where s: "stages = s # ss" by (cases stages) auto
  from Cons.prems obtain d re r where r: "Verified_Digest v = Inr d" "Reverify v plan (Some prev) = Inr re"
    "Verified_Receipt re = Inr r" "rc_StageID r = s_ID s" "rc_StageOrder r = s_Order s"
    "rc_State r = ''SUCCEEDED''" "evaluate_prefix plan (Suc i) [re] ss vs = Inr (Inr prev')"
    by (auto simp: s Inr_conv split: if_splits)
  with Cons.IH [OF r(7)] show ?case by (simp add: s)
qed simp

text \<open>The receipts the loop accepted, with the predecessors each was checked against.\<close>

inductive chained :: "Binding \<Rightarrow> Verified list \<Rightarrow> Stage list \<Rightarrow> Verified list \<Rightarrow> Verified list \<Rightarrow> bool" where
  chained_Nil: "chained plan prev stages [] prev"
| chained_Cons: "Verified_Digest v = Inr d \<Longrightarrow> Reverify v plan (Some prev) = Inr re \<Longrightarrow>
    rc_StageID (v_receipt re) = s_ID s \<Longrightarrow> rc_StageOrder (v_receipt re) = s_Order s \<Longrightarrow>
    rc_State (v_receipt re) = ''SUCCEEDED'' \<Longrightarrow> chained plan [re] stages vs out \<Longrightarrow>
    chained plan prev (s # stages) (v # vs) out"

inductive_cases chained_ConsE: "chained plan prev stages (v # vs) out"
inductive_simps chained_Nil_iff [simp]: "chained plan prev stages [] out"

lemma receipt_Verify_facts:
  assumes "receipt_Verify raw d plan preds = Inr v"
  shows "v_verified v" "v_raw v = raw" "v_digest v = d" "digestPattern (v_digest v)"
  using assms by (auto simp: receipt_Verify_eq_Inr verifyReceipt_eq_Inr)

lemma Reverify_facts:
  assumes "Reverify v plan prev = Inr re"
  shows "v_verified re" "v_raw re = v_raw v" "v_digest re = v_digest v" "digestPattern (v_digest re)"
  using assms by (auto simp: Reverify_def Inr_conv split: option.splits dest: receipt_Verify_facts)

lemma evaluate_prefix_chained:
  "evaluate_prefix plan i prev stages vs = Inr (Inr out) \<longleftrightarrow> chained plan prev stages vs out"
proof (induction vs arbitrary: i prev stages)
  case (Cons v vs)
  show ?case
  proof (cases stages)
    case Nil
    then show ?thesis by (auto elim: chained_ConsE)
  next
    case (Cons s ss)
    show ?thesis
    proof
      assume "evaluate_prefix plan i prev stages (v # vs) = Inr (Inr out)"
      then obtain d re r where r: "Verified_Digest v = Inr d" "Reverify v plan (Some prev) = Inr re"
        "Verified_Receipt re = Inr r" "rc_StageID r = s_ID s" "rc_StageOrder r = s_Order s"
        "rc_State r = ''SUCCEEDED''" "evaluate_prefix plan (Suc i) [re] ss vs = Inr (Inr out)"
        by (auto simp: Cons Inr_conv split: if_splits)
      with Cons.IH [of "Suc i" "[re]" ss] Reverify_facts(1) [OF r(2)]
      show "chained plan prev stages (v # vs) out"
        unfolding Cons by (intro chained_Cons) auto
    next
      assume "chained plan prev stages (v # vs) out"
      then show "evaluate_prefix plan i prev stages (v # vs) = Inr (Inr out)"
        by (rule chained_ConsE) (use Cons.IH Reverify_facts(1) Cons in auto)
    qed
  qed
qed auto

section \<open>The decision\<close>

lemma Evaluate_eq:
  "Evaluate plan (Some vs) = Inr c \<longleftrightarrow>
    length vs \<le> length (elems (b_Stages plan))
    \<and> (b_RecoverySourcePlanDigest plan \<noteq> '''' \<longrightarrow> 4 \<le> length vs \<and> list_all (\<lambda>v. InheritedFor v plan) (take 4 vs))
    \<and> (evaluate_prefix plan 0 [] (elems (b_Stages plan)) vs = Inr (Inl c)
       \<or> (\<exists>out. chained plan [] (elems (b_Stages plan)) vs out \<and>
          (if length vs = length (elems (b_Stages plan))
           then c = verifiedCursor (completed_decision plan (length vs)) []
           else \<exists>next nextDigest preds.
             Binding_Stage plan (s_ID (elems (b_Stages plan) ! length vs)) = Inr (next, nextDigest)
             \<and> cursor_links out = Inr preds
             \<and> c = verifiedCursor (next_decision plan (length vs) next nextDigest preds) out)))"
proof -
  have o: "(\<exists>x. evaluate_prefix plan 0 [] (elems (b_Stages plan)) vs = Inr x \<and> P x) \<longleftrightarrow>
     (\<exists>k. evaluate_prefix plan 0 [] (elems (b_Stages plan)) vs = Inr (Inl k) \<and> P (Inl k))
     \<or> (\<exists>out. chained plan [] (elems (b_Stages plan)) vs out \<and> P (Inr out))" for P
    unfolding evaluate_prefix_chained [of plan 0, symmetric] by (metis sum.exhaust)
  show ?thesis
    unfolding Evaluate_def option.case Inr_conv o
    by (auto simp: Inr_conv split: if_splits)
qed

lemma evaluate_prefix_stopped:
  assumes "evaluate_prefix plan i prev stages vs = Inr (Inl c)"
  shows "\<exists>us v out re. vs = us @ [v] \<and> chained plan prev stages us out
    \<and> Reverify v plan (Some out) = Inr re \<and> rc_State (v_receipt re) \<noteq> ''SUCCEEDED''
    \<and> length us < length stages \<and> rc_StageID (v_receipt re) = s_ID (stages ! length us)
    \<and> c = verifiedCursor (stopped_decision plan (i + length us)
        ((v_receipt re)\<lparr>rc_Predecessors := Some (elems (rc_Predecessors (v_receipt re)))\<rparr>) (v_digest re)) []"
  using assms
proof (induction vs arbitrary: i prev stages)
  case (Cons v vs)
  then obtain s ss where s: "stages = s # ss" by (cases stages) auto
  from Cons.prems obtain d re rc where r0: "Verified_Digest v = Inr d" "Reverify v plan (Some prev) = Inr re"
    "Verified_Receipt re = Inr rc" "rc_StageID rc = s_ID s" "rc_StageOrder rc = s_Order s"
    and t0: "if rc_State rc \<noteq> ''SUCCEEDED'' then vs = [] \<and> c = verifiedCursor (stopped_decision plan i rc d) []
      else evaluate_prefix plan (Suc i) [re] ss vs = Inr (Inl c)"
    by (auto simp: s Inr_conv split: if_splits)
  have rc: "rc = (v_receipt re)\<lparr>rc_Predecessors := Some (elems (rc_Predecessors (v_receipt re)))\<rparr>"
    using r0(3) Reverify_facts(1) [OF r0(2)] by simp
  have r: "Verified_Digest v = Inr d" "Reverify v plan (Some prev) = Inr re"
    "rc_StageID (v_receipt re) = s_ID s" "rc_StageOrder (v_receipt re) = s_Order s"
    using r0 rc by simp_all
  have t: "if rc_State (v_receipt re) \<noteq> ''SUCCEEDED'' then vs = [] \<and> c = verifiedCursor (stopped_decision plan i
        ((v_receipt re)\<lparr>rc_Predecessors := Some (elems (rc_Predecessors (v_receipt re)))\<rparr>) d) []
      else evaluate_prefix plan (Suc i) [re] ss vs = Inr (Inl c)"
    using t0 rc by (simp split: if_splits)
  have d: "d = v_digest re" using r(1) Reverify_facts(3) [OF r(2)] by (auto simp: Verified_Digest_def split: if_splits)
  show ?case
  proof (cases "rc_State (v_receipt re) = ''SUCCEEDED''")
    case True
    with t have "evaluate_prefix plan (Suc i) [re] ss vs = Inr (Inl c)" by simp
    from Cons.IH [OF this] obtain us w out re' where w: "vs = us @ [w]" "chained plan [re] ss us out"
      "Reverify w plan (Some out) = Inr re'" "rc_State (v_receipt re') \<noteq> ''SUCCEEDED''"
      "length us < length ss" "rc_StageID (v_receipt re') = s_ID (ss ! length us)"
      "c = verifiedCursor (stopped_decision plan (Suc i + length us)
        ((v_receipt re')\<lparr>rc_Predecessors := Some (elems (rc_Predecessors (v_receipt re')))\<rparr>) (v_digest re')) []"
      by blast
    have "chained plan prev (s # ss) (v # us) out"
      by (rule chained_Cons [OF r(1,2,3,4) True w(2)])
    with w s show ?thesis by (intro exI [of _ "v # us"] exI [of _ w] exI [of _ out] exI [of _ re']) simp
  next
    case False
    with t r d s show ?thesis
      by (intro exI [of _ "[]"] exI [of _ v] exI [of _ prev] exI [of _ re]) simp
  qed
qed simp

lemma chained_length: "chained plan prev stages vs out \<Longrightarrow> length vs \<le> length stages"
  by (induction rule: chained.induct) simp_all

lemma chained_out:
  "chained plan prev stages vs out \<Longrightarrow> vs \<noteq> [] \<Longrightarrow>
    \<exists>re. out = [re] \<and> v_raw re = v_raw (last vs) \<and> v_digest re = v_digest (last vs) \<and> v_verified re
      \<and> digestPattern (v_digest re) \<and> rc_State (v_receipt re) = ''SUCCEEDED''
      \<and> rc_StageID (v_receipt re) = s_ID (stages ! (length vs - 1))
      \<and> rc_StageOrder (v_receipt re) = s_Order (stages ! (length vs - 1))"
proof (induction rule: chained.induct)
  case (chained_Cons v d plan prev re s stages vs out)
  show ?case
  proof (cases "vs = []")
    case True
    with chained_Cons Reverify_facts [OF chained_Cons.hyps(2)] show ?thesis by simp
  next
    case False
    with chained_Cons.IH show ?thesis by (cases vs) simp_all
  qed
qed simp

lemma chained_verified:
  "chained plan prev stages vs out \<Longrightarrow> list_all (\<lambda>p. v_verified p \<and> digestPattern (v_digest p)) prev \<Longrightarrow>
    list_all (\<lambda>p. v_verified p \<and> digestPattern (v_digest p)) out"
  by (induction rule: chained.induct) (auto dest: Reverify_facts(1,4))

definition cursor_link_of :: "Verified \<Rightarrow> CursorPredecessor" where
  "cursor_link_of v = \<lparr>cp_StageID = rc_StageID (v_receipt v), cp_ReceiptDigest = v_digest v\<rparr>"

lemma cursor_links_ok:
  assumes "list_all (\<lambda>p. v_verified p \<and> digestPattern (v_digest p)) ps"
  shows "cursor_links ps = Inr (map cursor_link_of ps)"
  unfolding cursor_links_def
  by (rule mapE_Inr_map) (use assms in \<open>auto simp: list_all_iff Verified_Digest_def cursor_link_of_def\<close>)

lemma chained_links: "chained plan [] stages vs out \<Longrightarrow> cursor_links out = Inr (map cursor_link_of out)"
  by (rule cursor_links_ok) (rule chained_verified, assumption, simp)

text \<open>
  C32: what the cursor decides on a verified plan. It stops at a receipt that did not succeed, which
  is the last of the prefix; it is completed when the receipts of all stages succeeded; otherwise
  the next stage is the one after the accepted receipts, in plan order, with the last receipt as its
  predecessor, and it requires authorization exactly when it mutates.
\<close>

theorem Evaluate_decides:
  assumes "Verify raw e = Inr plan" and "Evaluate plan (Some vs) = Inr c"
  shows "let ss = elems (b_Stages plan); n = length vs; d = cu_decision c in
    (cd_State d = ''COMPLETED'' \<and> n = length ss \<and> (\<exists>out. chained plan [] ss vs out))
    \<or> (cd_State d = ''NEXT'' \<and> n < length ss \<and> cd_CompletedStages d = int n
       \<and> cd_StageID d = s_ID (ss ! n) \<and> cd_RequiresAuthorization d = IsMutating (ss ! n)
       \<and> (\<exists>out. chained plan [] ss vs out \<and> cu_predecessors c = Some out
           \<and> cd_Predecessors d = Some (map cursor_link_of out)))
    \<or> (cd_State d = ''STOPPED'' \<and> (\<exists>us v out. vs = us @ [v] \<and> chained plan [] ss us out
       \<and> cd_TerminalReceiptDigest d = v_digest v \<and> cd_TerminalOutcome d \<noteq> ''SUCCEEDED''
       \<and> cd_StageID d = s_ID (ss ! (n - 1)) \<and> \<not> cd_RequiresAuthorization d))"
proof -
  let ?ss = "elems (b_Stages plan)"
  from assms(2) consider (stop) "evaluate_prefix plan 0 [] ?ss vs = Inr (Inl c)"
    | (full) out where "chained plan [] ?ss vs out" "length vs = length ?ss"
        "c = verifiedCursor (completed_decision plan (length vs)) []"
    | (step) out nxt nd preds where "chained plan [] ?ss vs out" "length vs < length ?ss"
        "Binding_Stage plan (s_ID (?ss ! length vs)) = Inr (nxt, nd)" "cursor_links out = Inr preds"
        "c = verifiedCursor (next_decision plan (length vs) nxt nd preds) out"
    unfolding Evaluate_eq by (metis le_neq_implies_less)
  then show ?thesis
  proof cases
    case stop
    from evaluate_prefix_stopped [OF this] obtain us v out re where w: "vs = us @ [v]"
      "chained plan [] ?ss us out" "Reverify v plan (Some out) = Inr re"
      "rc_State (v_receipt re) \<noteq> ''SUCCEEDED''" "rc_StageID (v_receipt re) = s_ID (?ss ! length us)"
      "c = verifiedCursor (stopped_decision plan (0 + length us)
        ((v_receipt re)\<lparr>rc_Predecessors := Some (elems (rc_Predecessors (v_receipt re)))\<rparr>) (v_digest re)) []"
      by blast
    have "cd_State (cu_decision c) = ''STOPPED'' \<and> cd_TerminalReceiptDigest (cu_decision c) = v_digest v
       \<and> cd_TerminalOutcome (cu_decision c) \<noteq> ''SUCCEEDED''
       \<and> cd_StageID (cu_decision c) = s_ID (?ss ! (length vs - 1)) \<and> \<not> cd_RequiresAuthorization (cu_decision c)"
      using w Reverify_facts(3) [OF w(3)] by (simp add: verifiedCursor_def stopped_decision_def)
    with w(1,2) show ?thesis unfolding Let_def by blast
  next
    case full
    then show ?thesis unfolding Let_def by (auto simp: verifiedCursor_def completed_decision_def)
  next
    case step
    have "?ss ! length vs \<in> set ?ss" using step(2) by simp
    then have n: "nxt = ?ss ! length vs" using stage_lookup [OF assms(1)] step(3) by simp
    have p: "preds = map cursor_link_of out" using chained_links [OF step(1)] step(4) by simp
    have "cd_State (cu_decision c) = ''NEXT'' \<and> cd_CompletedStages (cu_decision c) = int (length vs)
       \<and> cd_StageID (cu_decision c) = s_ID (?ss ! length vs)
       \<and> cd_RequiresAuthorization (cu_decision c) = IsMutating (?ss ! length vs)
       \<and> cu_predecessors c = Some out \<and> cd_Predecessors (cu_decision c) = Some (map cursor_link_of out)"
      using step(5) n p by (simp add: verifiedCursor_def next_decision_def)
    with step(1,2) show ?thesis unfolding Let_def by blast
  qed
qed


section \<open>A run moves the cursor\<close>

lemma receipt_New_facts:
  assumes "receipt_New_target plan sid preds st ms oc ev tg t = Inr v"
  shows "v_verified v" "digestPattern (v_digest v)" "v_sourcePlan v = None" "rc_State (v_receipt v) = st"
    "rc_StageID (v_receipt v) = sid" "rc_CompletedAt (v_receipt v) = format_rfc3339nano t"
    "\<exists>s d. Binding_Stage plan sid = Inr (s, d) \<and> binds_stage (v_receipt v) plan s d"
    "b_RecoverySourcePlanDigest plan = '''' \<Longrightarrow> v_recoveryPlan v = ''''"
proof -
  from receipt_New_target_eq_Inr [OF assms] obtain r where r: "verifyReceipt r plan preds = Inr v"
    "rc_StageID r = sid" "rc_State r = st" "rc_CompletedAt r = format_rfc3339nano t" by blast
  then show "v_verified v" "digestPattern (v_digest v)" "v_sourcePlan v = None" "rc_State (v_receipt v) = st"
    "rc_StageID (v_receipt v) = sid" "rc_CompletedAt (v_receipt v) = format_rfc3339nano t"
    "\<exists>s d. Binding_Stage plan sid = Inr (s, d) \<and> binds_stage (v_receipt v) plan s d"
    by (auto simp: verifyReceipt_eq_Inr)
  show "v_recoveryPlan v = ''''" if "b_RecoverySourcePlanDigest plan = ''''"
    using r(1) that by (auto simp: verifyReceipt_eq_Inr wanted_recovery_def verified_as_def)
qed

lemma chained_snoc:
  assumes "chained plan prev stages vs out" and "length vs < length stages"
    and "Verified_Digest v = Inr d" and "Reverify v plan (Some out) = Inr re"
    and "rc_StageID (v_receipt re) = s_ID (stages ! length vs)"
    and "rc_StageOrder (v_receipt re) = s_Order (stages ! length vs)"
    and "rc_State (v_receipt re) = ''SUCCEEDED''"
  shows "chained plan prev stages (vs @ [v]) [re]"
  using assms
proof (induction rule: chained.induct)
  case (chained_Nil plan prev stages)
  then obtain s ss where s: "stages = s # ss" by (cases stages) auto
  have "chained plan [re] ss [] [re]" by (rule chained.chained_Nil)
  with chained_Nil s show ?case by (auto intro: chained.chained_Cons)
next
  case (chained_Cons w e plan prev rw s stages vs out)
  then have "chained plan [rw] stages (vs @ [v]) [re]" by simp
  with chained_Cons.hyps show ?case by (auto intro: chained.chained_Cons)
qed

lemma new_receipt_reverifies:
  assumes "Verify raw e = Inr plan" and "ok_identity (x_ContractIdentity e)"
    and "receipt_New_target plan sid (Some out) st ms oc ev tg t = Inr v"
  shows "Reverify v plan (Some out) = Inr v" "Verified_Digest v = Inr (v_digest v)"
  using new_verifies [OF assms] receipt_New_facts [OF assms(3)]
  by (simp_all add: Reverify_def Verified_Digest_def)

lemma new_receipt_stage:
  assumes "Verify raw e = Inr plan" and "s \<in> set (elems (b_Stages plan))"
    and "receipt_New_target plan (s_ID s) preds st ms oc ev tg t = Inr v"
  shows "rc_StageOrder (v_receipt v) = s_Order s" "rc_PlanDigest (v_receipt v) = b_PlanDigest plan"
proof -
  obtain s' d where "Binding_Stage plan (s_ID s) = Inr (s', d)" "binds_stage (v_receipt v) plan s' d"
    using receipt_New_facts(7) [OF assms(3)] by blast
  moreover from this have "s' = s" using stage_lookup [OF assms(1)] assms(2) by simp
  ultimately show "rc_StageOrder (v_receipt v) = s_Order s" "rc_PlanDigest (v_receipt v) = b_PlanDigest plan"
    by (simp_all add: binds_stage_def)
qed

lemma Evaluate_chained:
  assumes "Verify raw e = Inr plan" and "x_RecoverySourcePlanDigest e = ''''"
    and "chained plan [] (elems (b_Stages plan)) vs out"
  shows "Evaluate plan (Some vs) = Inr (if length vs = length (elems (b_Stages plan))
    then verifiedCursor (completed_decision plan (length vs)) []
    else let s = elems (b_Stages plan) ! length vs in
      verifiedCursor (next_decision plan (length vs) s (SHA256 (canonical_text (enc_stage s)))
        (map cursor_link_of out)) out)"
proof -
  note l = chained_length [OF assms(3)]
  have nr: "b_RecoverySourcePlanDigest plan = ''''" using plan_digests(7) [OF assms(1)] assms(2) by simp
  show ?thesis
  proof (cases "length vs = length (elems (b_Stages plan))")
    case True
    with nr l assms(3) show ?thesis unfolding Evaluate_eq by auto
  next
    case False
    with l have "elems (b_Stages plan) ! length vs \<in> set (elems (b_Stages plan))" by simp
    then have "Binding_Stage plan (s_ID (elems (b_Stages plan) ! length vs)) =
      Inr (elems (b_Stages plan) ! length vs, SHA256 (canonical_text (enc_stage (elems (b_Stages plan) ! length vs))))"
      using stage_lookup [OF assms(1)] by simp
    with False nr l assms(3) chained_links [OF assms(3)] show ?thesis
      unfolding Evaluate_eq Let_def by auto
  qed
qed

text \<open>
  The receipt of the stage the cursor selected, built on the cursor's predecessors, advances the
  cursor: to COMPLETED after the last stage, to NEXT with the following stage after an earlier one,
  to STOPPED with that receipt's digest when it did not succeed.
\<close>

theorem cursor_advances:
  assumes "Verify raw e = Inr plan" and "ok_identity (x_ContractIdentity e)"
    and "x_RecoverySourcePlanDigest e = ''''"
    and "chained plan [] (elems (b_Stages plan)) vs out" and "length vs < length (elems (b_Stages plan))"
    and "receipt_New_target plan (s_ID (elems (b_Stages plan) ! length vs)) (Some out) st ms oc ev tg t = Inr v"
  shows "\<exists>c. Evaluate plan (Some (vs @ [v])) = Inr c
    \<and> (if st \<noteq> ''SUCCEEDED'' then cd_State (cu_decision c) = ''STOPPED''
           \<and> cd_TerminalReceiptDigest (cu_decision c) = v_digest v
       else chained plan [] (elems (b_Stages plan)) (vs @ [v]) [v]
         \<and> (if Suc (length vs) = length (elems (b_Stages plan)) then cd_State (cu_decision c) = ''COMPLETED''
            else cd_State (cu_decision c) = ''NEXT'' \<and> cu_predecessors c = Some [v]
              \<and> cd_StageID (cu_decision c) = s_ID (elems (b_Stages plan) ! Suc (length vs))))"
proof -
  let ?ss = "elems (b_Stages plan)" and ?n = "length vs"
  note r = new_receipt_reverifies [OF assms(1,2,6)]
  note f = receipt_New_facts [OF assms(6)]
  have m: "?ss ! ?n \<in> set ?ss" using assms(5) by simp
  note o = new_receipt_stage [OF assms(1) m assms(6)]
  show ?thesis
  proof (cases "st = ''SUCCEEDED''")
    case True
    have c: "chained plan [] ?ss (vs @ [v]) [v]"
      by (rule chained_snoc [OF assms(4,5) r(2,1)]) (simp_all add: f o True)
    show ?thesis
      using Evaluate_chained [OF assms(1,3) c] c True assms(5)
      by (auto simp: Let_def verifiedCursor_def completed_decision_def next_decision_def)
  next
    case False
    have "drop ?n ?ss = ?ss ! ?n # drop (Suc ?n) ?ss" using assms(5) by (simp add: Cons_nth_drop_Suc)
    then have "evaluate_prefix plan 0 [] ?ss (vs @ [v]) = Inr (Inl (verifiedCursor (stopped_decision plan ?n
        ((v_receipt v)\<lparr>rc_Predecessors := Some (elems (rc_Predecessors (v_receipt v)))\<rparr>) (v_digest v)) []))"
      using evaluate_prefix_append [OF assms(4) [folded evaluate_prefix_chained [of _ 0]], of "[v]"] r f o False
      by simp
    moreover have "b_RecoverySourcePlanDigest plan = ''''" using plan_digests(7) [OF assms(1)] assms(3) by simp
    ultimately show ?thesis
      using assms(5) False unfolding Evaluate_eq
      by (auto simp: verifiedCursor_def stopped_decision_def)
  qed
qed


section \<open>Every ordinary plan can be completed\<close>

lemma outcome_exists:
  "\<exists>ms oc. outcome_allowed (outcome_receipt ''SUCCEEDED'' ms oc (sample_digest CHR ''c'') '''') s"
proof (cases "IsMutating s")
  case True
  then show ?thesis
    by (intro exI [of _ "''ATTEMPTED''"] exI [of _ "sample_digest CHR ''b''"])
      (simp add: outcome_allowed_def outcome_receipt_def sample_digest_pattern is_lower_hex_def is_digit_def)
next
  case False
  then show ?thesis
    by (intro exI [of _ "''NOT_APPLICABLE''"] exI [of _ "''''"])
      (simp add: outcome_allowed_def outcome_receipt_def sample_digest_pattern is_lower_hex_def is_digit_def)
qed

lemma plan_prefix_exists:
  assumes "Verify raw e = Inr plan" and "ok_identity (x_ContractIdentity e)"
    and "x_RecoverySourcePlanDigest e = ''''" and "n \<le> length (elems (b_Stages plan))"
  shows "\<exists>vs out. length vs = n \<and> chained plan [] (elems (b_Stages plan)) vs out
    \<and> (\<forall>p \<in> set out. v_recoveryPlan p \<noteq> b_PlanDigest plan)
    \<and> (n < length (elems (b_Stages plan)) \<longrightarrow>
        list_all2 (links_to plan (elems (b_Stages plan) ! n) 0) (elems (s_Requires (elems (b_Stages plan) ! n))) out)"
  using assms(4)
proof (induction n)
  case 0
  have "length (elems (b_Stages plan)) > 0 \<Longrightarrow> elems (s_Requires (elems (b_Stages plan) ! 0)) = []"
    using plan_sequence [OF assms(1)] by (auto simp: Let_def)
  then show ?case by (intro exI [of _ "[]"]) auto
next
  case (Suc n)
  let ?ss = "elems (b_Stages plan)"
  from Suc obtain vs out where v: "length vs = n" "chained plan [] ?ss vs out"
    "\<forall>p \<in> set out. v_recoveryPlan p \<noteq> b_PlanDigest plan"
    "list_all2 (links_to plan (?ss ! n) 0) (elems (s_Requires (?ss ! n))) out" by auto
  have m: "?ss ! n \<in> set ?ss" using Suc.prems by simp
  obtain ms oc where o: "outcome_allowed (outcome_receipt ''SUCCEEDED'' ms oc (sample_digest CHR ''c'') '''') (?ss ! n)"
    using outcome_exists by blast
  obtain w where w: "receipt_New_target plan (s_ID (?ss ! n)) (Some out) ''SUCCEEDED'' ms oc
      (sample_digest CHR ''c'') '''' 0 = Inr w"
    using new_receipt_succeeds [OF assms(1,2,3) m valid_time_0 v(3)] v(4) o by blast
  note f = receipt_New_facts [OF w]
  note o' = new_receipt_stage [OF assms(1) m w]
  have c: "chained plan [] ?ss (vs @ [w]) [w]"
    by (rule chained_snoc [OF v(2) _ new_receipt_reverifies(2,1) [OF assms(1,2) w]])
      (use Suc.prems v(1) f o' in simp_all)
  have rp: "v_recoveryPlan w = ''''"
    using f(8) plan_digests(7) [OF assms(1)] assms(3) by simp
  have pd: "b_PlanDigest plan \<noteq> ''''" using digest_pattern_nonempty [OF plan_digests(1) [OF assms(1)]] by simp
  have l: "list_all2 (links_to plan (?ss ! Suc n) 0) (elems (s_Requires (?ss ! Suc n))) [w]" if "Suc n < length ?ss"
  proof -
    obtain N where N: "length ?ss = N" "\<forall>i < N. rule_matches i (requiredSequence ! i) (?ss ! i)
        \<and> elems (s_Requires (?ss ! i)) = (if i = 0 then [] else [s_ID (?ss ! (i - 1))])"
      using plan_sequence [OF assms(1)] by (auto simp: Let_def)
    then have "elems (s_Requires (?ss ! Suc n)) = [s_ID (?ss ! n)]"
      "s_Order (?ss ! n) < s_Order (?ss ! Suc n)"
      using that N(2) [rule_format, of "Suc n"] N(2) [rule_format, of n] N(1) by (simp_all add: rule_matches_def)
    moreover have "parse_rfc3339 (rc_CompletedAt (v_receipt w)) = Some 0"
      using parse_format [OF valid_time_0] f(6) by simp
    ultimately show ?thesis using f o' by (simp add: links_to_def before_def)
  qed
  show ?case
    by (intro exI [of _ "vs @ [w]"] exI [of _ "[w]"]) (use v(1) c rp pd l in auto)
qed

text \<open>
  C33: every ordinary verified plan can be completed: some sequence of receipts, one per stage, is
  accepted by the cursor with the decision COMPLETED.
\<close>

theorem plan_completable:
  assumes "Verify raw e = Inr plan" and "ok_identity (x_ContractIdentity e)"
    and "x_RecoverySourcePlanDigest e = ''''"
  shows "\<exists>vs c. length vs = length (elems (b_Stages plan)) \<and> Evaluate plan (Some vs) = Inr c
    \<and> cd_State (cu_decision c) = ''COMPLETED''"
proof -
  obtain vs out where v: "length vs = length (elems (b_Stages plan))"
    "chained plan [] (elems (b_Stages plan)) vs out"
    using plan_prefix_exists [OF assms order_refl] by blast
  with Evaluate_chained [OF assms(1,3) v(2)] show ?thesis
    by (auto simp: verifiedCursor_def completed_decision_def)
qed

section \<open>The cursor on the sample plan\<close>

lemma sample_chained: "chained sample_binding [] (elems (b_Stages sample_binding)) [] []"
  by simp

lemma sample_first: "elems (b_Stages sample_binding) ! 0 = sample_stage1"
  "length (elems (b_Stages sample_binding)) = 7"
  by (simp_all add: sample_verified sample_stage1_def)

lemma Evaluate_decides_witness:
  "\<exists>c. Evaluate sample_binding (Some []) = Inr c \<and> cd_State (cu_decision c) = ''NEXT''"
proof -
  obtain c where c: "Evaluate sample_binding (Some []) = Inr c"
    using Evaluate_chained [OF sample_verified(1) sample_no_recovery sample_chained] by blast
  from Evaluate_decides [OF sample_verified(1) c] sample_first(2) c show ?thesis
    by (auto simp: Let_def)
qed

lemma cursor_advances_witness:
  "\<exists>c. Evaluate sample_binding (Some [sample_receipt]) = Inr c \<and> cd_State (cu_decision c) = ''NEXT''
     \<and> cu_predecessors c = Some [sample_receipt]"
proof -
  have "receipt_New_target sample_binding (s_ID (elems (b_Stages sample_binding) ! length ([] :: Verified list)))
      (Some []) ''SUCCEEDED'' ''ATTEMPTED'' (sample_digest CHR ''b'') (sample_digest CHR ''c'') '''' 0
    = Inr sample_receipt"
    using sample_receipt_new by (simp add: sample_first sample_stage1_fields)
  from cursor_advances [OF sample_verified(1) sample_identity sample_no_recovery sample_chained _ this]
  show ?thesis by (auto simp: sample_first)
qed

lemma plan_completable_witness:
  "\<exists>vs c. length vs = 7 \<and> Evaluate sample_binding (Some vs) = Inr c \<and> cd_State (cu_decision c) = ''COMPLETED''"
  using plan_completable [OF sample_verified(1) sample_identity sample_no_recovery] sample_first(2) by simp

end
