(* ===== verification/StageAttempt.thy ===== *)
theory StageAttempt
  imports StagePlanFacts
begin

text \<open>
  The execution attempt (\<open>internal/stageattempt/attempt.go\<close>): verification of the redaction-safe
  identity of one bounded attempt, which grants nothing.
\<close>

section \<open>Data\<close>

record AttemptDocument =
  at_Format :: string
  at_AttemptID :: string
  at_SourceFixtureDigest :: string
  at_SourcePlanSemanticDigest :: string
  at_RunnerImage :: string
  at_ActivationPackageDigest :: string
  at_SourceActivationPackageDigest :: string
  at_Mode :: string
  at_PredecessorAttemptDigest :: string
  at_StoppedEvidenceDigest :: string
  at_DecisionWindowDigest :: string
  at_MaxAttempts :: int

record AttemptExpected =
  ax_AttemptID :: string
  ax_SourceFixtureDigest :: string
  ax_SourcePlanSemanticDigest :: string
  ax_RunnerImage :: string
  ax_ActivationPackageDigest :: string
  ax_SourceActivationPackageDigest :: string
  ax_PredecessorAttemptDigest :: string
  ax_StoppedEvidenceDigest :: string
  ax_DecisionWindowDigest :: string

record AttemptReceipt =
  ar_Format :: string
  ar_State :: string
  ar_ExecutionAttemptDigest :: string
  ar_SourceFixtureDigest :: string
  ar_SourcePlanDigest :: string
  ar_RunnerImage :: string
  ar_ActivationPackageDigest :: string
  ar_SourceActivationPackageDigest :: string
  ar_Mode :: string
  ar_RecoveryBound :: bool
  ar_MaxAttempts :: int
  ar_MutationAllowed :: bool

definition AttemptLegacyFormat :: string where "AttemptLegacyFormat = ''ok147-execution-attempt/v1''"
definition AttemptLegacyReceiptFormat :: string where
  "AttemptLegacyReceiptFormat = ''ok147-verified-execution-attempt/v1''"
definition AttemptFormat :: string where "AttemptFormat = ''ok147-execution-attempt/v2''"
definition AttemptReceiptFormat :: string where
  "AttemptReceiptFormat = ''ok147-verified-execution-attempt/v2''"
definition AttemptMode :: string where "AttemptMode = ''create-converge-observe/v1''"

lemmas attempt_constants = AttemptLegacyFormat_def AttemptLegacyReceiptFormat_def AttemptFormat_def
  AttemptReceiptFormat_def AttemptMode_def

text \<open>\<open>^[a-z0-9][a-z0-9./_-]*@sha256:[0-9a-f]{64}$\<close>: the class before the \<open>@\<close> does not contain it.\<close>

definition imagePattern :: "string \<Rightarrow> bool" where
  "imagePattern s =
     (let a = takeWhile (\<lambda>c. c \<noteq> CHR ''@'') s; b = dropWhile (\<lambda>c. c \<noteq> CHR ''@'') s
      in a \<noteq> [] \<and> is_lower_alnum (hd a)
         \<and> list_all (\<lambda>c. is_lower_alnum c \<or> c \<in> set ''./_-'') (tl a)
         \<and> b \<noteq> [] \<and> digest_pattern (tl b))"

section \<open>JSON form\<close>

definition enc_attempt :: "AttemptDocument \<Rightarrow> json" where
  "enc_attempt d = struct [
     key ''format'' (JStr (at_Format d)), key ''attemptId'' (JStr (at_AttemptID d)),
     key ''sourceFixtureDigest'' (JStr (at_SourceFixtureDigest d)),
     key ''sourcePlanSemanticDigest'' (JStr (at_SourcePlanSemanticDigest d)),
     key ''runnerImage'' (JStr (at_RunnerImage d)),
     optkey ''activationPackageDigest'' (JStr (at_ActivationPackageDigest d)),
     optkey ''sourceActivationPackageDigest'' (JStr (at_SourceActivationPackageDigest d)),
     key ''mode'' (JStr (at_Mode d)),
     optkey ''predecessorAttemptDigest'' (JStr (at_PredecessorAttemptDigest d)),
     optkey ''stoppedEvidenceDigest'' (JStr (at_StoppedEvidenceDigest d)),
     key ''decisionWindowDigest'' (JStr (at_DecisionWindowDigest d)),
     key ''maxAttempts'' (JInt (at_MaxAttempts d))]"

definition attempt_fields :: "string list" where
  "attempt_fields = [''format'', ''attemptId'', ''sourceFixtureDigest'', ''sourcePlanSemanticDigest'',
     ''runnerImage'', ''activationPackageDigest'', ''sourceActivationPackageDigest'', ''mode'',
     ''predecessorAttemptDigest'', ''stoppedEvidenceDigest'', ''decisionWindowDigest'', ''maxAttempts'']"

definition zero_attempt :: AttemptDocument where
  "zero_attempt = \<lparr>at_Format = [], at_AttemptID = [], at_SourceFixtureDigest = [],
     at_SourcePlanSemanticDigest = [], at_RunnerImage = [], at_ActivationPackageDigest = [],
     at_SourceActivationPackageDigest = [], at_Mode = [], at_PredecessorAttemptDigest = [],
     at_StoppedEvidenceDigest = [], at_DecisionWindowDigest = [], at_MaxAttempts = 0\<rparr>"

definition dec_attempt :: "json \<Rightarrow> AttemptDocument option" where
  "dec_attempt = (let ns = attempt_fields in dec_struct ns (\<lambda>kvs. do {
     a \<leftarrow> dec_field ns kvs ''format'' dec_string [];
     b \<leftarrow> dec_field ns kvs ''attemptId'' dec_string [];
     c \<leftarrow> dec_field ns kvs ''sourceFixtureDigest'' dec_string [];
     d \<leftarrow> dec_field ns kvs ''sourcePlanSemanticDigest'' dec_string [];
     e \<leftarrow> dec_field ns kvs ''runnerImage'' dec_string [];
     f \<leftarrow> dec_field ns kvs ''activationPackageDigest'' dec_string [];
     g \<leftarrow> dec_field ns kvs ''sourceActivationPackageDigest'' dec_string [];
     h \<leftarrow> dec_field ns kvs ''mode'' dec_string [];
     i \<leftarrow> dec_field ns kvs ''predecessorAttemptDigest'' dec_string [];
     j \<leftarrow> dec_field ns kvs ''stoppedEvidenceDigest'' dec_string [];
     k \<leftarrow> dec_field ns kvs ''decisionWindowDigest'' dec_string [];
     l \<leftarrow> dec_field ns kvs ''maxAttempts'' dec_int 0;
     Some \<lparr>at_Format = a, at_AttemptID = b, at_SourceFixtureDigest = c,
       at_SourcePlanSemanticDigest = d, at_RunnerImage = e, at_ActivationPackageDigest = f,
       at_SourceActivationPackageDigest = g, at_Mode = h, at_PredecessorAttemptDigest = i,
       at_StoppedEvidenceDigest = j, at_DecisionWindowDigest = k, at_MaxAttempts = l\<rparr> }) zero_attempt)"

section \<open>Verification\<close>

definition validActivationIdentity :: "string \<Rightarrow> string \<Rightarrow> bool" where
  "validActivationIdentity legacy source \<longleftrightarrow> legacy \<noteq> source \<and>
     (legacy \<noteq> '''' \<and> source = '''' \<and> digest_pattern legacy
      \<or> source \<noteq> '''' \<and> legacy = '''' \<and> digest_pattern source)"

definition attempt_validateExpected :: "AttemptExpected \<Rightarrow> unit result" where
  "attempt_validateExpected e =
     (if \<not> namePattern (ax_AttemptID e) \<or> \<not> digestPattern (ax_SourceFixtureDigest e)
         \<or> \<not> digestPattern (ax_SourcePlanSemanticDigest e) \<or> \<not> imagePattern (ax_RunnerImage e)
         \<or> \<not> validActivationIdentity (ax_ActivationPackageDigest e) (ax_SourceActivationPackageDigest e)
         \<or> \<not> digestPattern (ax_DecisionWindowDigest e) then
        Inl (New ''expected execution attempt identity is invalid'')
      else if list_ex (\<lambda>v. v \<noteq> '''' \<and> \<not> digestPattern v)
          [ax_PredecessorAttemptDigest e, ax_StoppedEvidenceDigest e] then
        Inl (New ''expected recovery attempt identity is invalid'')
      else Inr ())"

definition validateDocument :: "AttemptDocument \<Rightarrow> unit result" where
  "validateDocument d =
     (if at_Format d \<noteq> AttemptFormat \<and> at_Format d \<noteq> AttemptLegacyFormat
         \<or> at_Mode d \<noteq> AttemptMode \<or> at_MaxAttempts d \<noteq> 1
         \<or> \<not> namePattern (at_AttemptID d) \<or> \<not> digestPattern (at_SourceFixtureDigest d)
         \<or> \<not> digestPattern (at_SourcePlanSemanticDigest d) \<or> \<not> imagePattern (at_RunnerImage d)
         \<or> \<not> validActivationIdentity (at_ActivationPackageDigest d) (at_SourceActivationPackageDigest d)
         \<or> \<not> digestPattern (at_DecisionWindowDigest d) then
        Inl (New ''execution attempt identity is invalid'')
      else if at_Format d = AttemptLegacyFormat \<and> at_ActivationPackageDigest d = ''''
         \<or> at_Format d = AttemptFormat \<and> at_SourceActivationPackageDigest d = '''' then
        Inl (New ''execution attempt activation identity does not match its format'')
      else if list_ex (\<lambda>v. v \<noteq> '''' \<and> \<not> digestPattern v)
          [at_PredecessorAttemptDigest d, at_StoppedEvidenceDigest d] then
        Inl (New ''execution attempt recovery identity is invalid'')
      else Inr ())"

definition attempt_canonicalJSON :: "AttemptDocument \<Rightarrow> string result" where
  "attempt_canonicalJSON d = orE (New ''canonicalize execution attempt'') (canonical_record (enc_attempt d))"

definition attempt_Verify :: "string \<Rightarrow> AttemptExpected \<Rightarrow> AttemptReceipt result" where
  "attempt_Verify raw e =
     bindE (attempt_validateExpected e) (\<lambda>_.
     bindE (wrapE ''decode execution attempt'' (strict_decode dec_attempt raw)) (\<lambda>d.
     bindE (validateDocument d) (\<lambda>_.
       if at_AttemptID d \<noteq> ax_AttemptID e \<or> at_SourceFixtureDigest d \<noteq> ax_SourceFixtureDigest e
          \<or> at_SourcePlanSemanticDigest d \<noteq> ax_SourcePlanSemanticDigest e
          \<or> at_RunnerImage d \<noteq> ax_RunnerImage e
          \<or> at_ActivationPackageDigest d \<noteq> ax_ActivationPackageDigest e
          \<or> at_SourceActivationPackageDigest d \<noteq> ax_SourceActivationPackageDigest e
          \<or> at_PredecessorAttemptDigest d \<noteq> ax_PredecessorAttemptDigest e
          \<or> at_StoppedEvidenceDigest d \<noteq> ax_StoppedEvidenceDigest e
          \<or> at_DecisionWindowDigest d \<noteq> ax_DecisionWindowDigest e then
         Inl (New ''execution attempt differs from independently verified inputs'')
       else bindE (attempt_canonicalJSON d) (\<lambda>canonical.
         Inr \<lparr>ar_Format = (if at_Format d = AttemptLegacyFormat then AttemptLegacyReceiptFormat
                else AttemptReceiptFormat),
           ar_State = ''VERIFIED'', ar_ExecutionAttemptDigest = SHA256 canonical,
           ar_SourceFixtureDigest = at_SourceFixtureDigest d,
           ar_SourcePlanDigest = at_SourcePlanSemanticDigest d, ar_RunnerImage = at_RunnerImage d,
           ar_ActivationPackageDigest = at_ActivationPackageDigest d,
           ar_SourceActivationPackageDigest = at_SourceActivationPackageDigest d,
           ar_Mode = at_Mode d,
           ar_RecoveryBound = (at_PredecessorAttemptDigest d \<noteq> '''' \<or> at_StoppedEvidenceDigest d \<noteq> ''''),
           ar_MaxAttempts = at_MaxAttempts d, ar_MutationAllowed = False\<rparr>))))"

section \<open>Exactly one document is accepted\<close>

text \<open>The document that a valid expectation determines.\<close>

definition expected_attempt :: "AttemptExpected \<Rightarrow> AttemptDocument" where
  "expected_attempt e = \<lparr>
     at_Format = (if ax_SourceActivationPackageDigest e = '''' then AttemptLegacyFormat else AttemptFormat),
     at_AttemptID = ax_AttemptID e, at_SourceFixtureDigest = ax_SourceFixtureDigest e,
     at_SourcePlanSemanticDigest = ax_SourcePlanSemanticDigest e, at_RunnerImage = ax_RunnerImage e,
     at_ActivationPackageDigest = ax_ActivationPackageDigest e,
     at_SourceActivationPackageDigest = ax_SourceActivationPackageDigest e, at_Mode = AttemptMode,
     at_PredecessorAttemptDigest = ax_PredecessorAttemptDigest e,
     at_StoppedEvidenceDigest = ax_StoppedEvidenceDigest e,
     at_DecisionWindowDigest = ax_DecisionWindowDigest e, at_MaxAttempts = 1\<rparr>"

definition ok_attempt :: "AttemptDocument \<Rightarrow> bool" where
  "ok_attempt d \<longleftrightarrow> list_all valid_utf8 [at_Format d, at_AttemptID d, at_SourceFixtureDigest d,
     at_SourcePlanSemanticDigest d, at_RunnerImage d, at_ActivationPackageDigest d,
     at_SourceActivationPackageDigest d, at_Mode d, at_PredecessorAttemptDigest d,
     at_StoppedEvidenceDigest d, at_DecisionWindowDigest d] \<and> in_int64 (at_MaxAttempts d)"

lemma fits_attempt: "ok_attempt d \<Longrightarrow> 2 \<le> k \<Longrightarrow> fits k (enc_attempt d)"
  by (simp add: enc_attempt_def ok_attempt_def fits_struct valid_utf8_ascii is_ascii_def)

lemma dec_attempt_canon: "in_int64 (at_MaxAttempts d) \<Longrightarrow> dec_attempt (canon (enc_attempt d)) = Some d"
  by (simp add: dec_attempt_def enc_attempt_def attempt_fields_def struct_codec)

interpretation attempt_codec: json_codec enc_attempt dec_attempt ok_attempt
  by unfold_locales (simp_all add: fits_attempt dec_attempt_canon ok_attempt_def)

lemma digest_ascii: "digest_pattern d \<Longrightarrow> valid_utf8 d"
  by (rule valid_utf8_digest)

lemma image_ascii: "imagePattern s \<Longrightarrow> valid_utf8 s"
proof (rule valid_utf8_ascii)
  assume i: "imagePattern s"
  let ?a = "takeWhile (\<lambda>c. c \<noteq> CHR ''@'') s" and ?b = "dropWhile (\<lambda>c. c \<noteq> CHR ''@'') s"
  from i have a: "?a = hd ?a # tl ?a" "is_lower_alnum (hd ?a)"
    "list_all (\<lambda>c. is_lower_alnum c \<or> c \<in> set ''./_-'') (tl ?a)"
    and b: "?b \<noteq> []" "digest_pattern (tl ?b)" by (simp_all add: imagePattern_def Let_def)
  have "list_all is_ascii (hd ?a # tl ?a)"
    using a(2,3) by (auto simp: list_all_iff lower_alnum_ascii is_ascii_def intro: lower_alnum_ascii [unfolded is_ascii_def])
  moreover have "hd ?b = CHR ''@''" using b(1) hd_dropWhile [of "\<lambda>c. c \<noteq> CHR ''@''" s] by simp
  then have "list_all is_ascii (hd ?b # tl ?b)"
    using digest_pattern_ascii [OF b(2)] by (simp add: is_ascii_def)
  ultimately show "list_all is_ascii s"
    using a(1) b(1) by (metis list.collapse list_all_append takeWhile_dropWhile_id)
qed

lemma validateDocument_iff:
  "validateDocument d = Inr () \<longleftrightarrow>
     at_Format d \<in> {AttemptFormat, AttemptLegacyFormat} \<and> at_Mode d = AttemptMode \<and> at_MaxAttempts d = 1
     \<and> namePattern (at_AttemptID d) \<and> digestPattern (at_SourceFixtureDigest d)
     \<and> digestPattern (at_SourcePlanSemanticDigest d) \<and> imagePattern (at_RunnerImage d)
     \<and> validActivationIdentity (at_ActivationPackageDigest d) (at_SourceActivationPackageDigest d)
     \<and> digestPattern (at_DecisionWindowDigest d)
     \<and> \<not> (at_Format d = AttemptLegacyFormat \<and> at_ActivationPackageDigest d = '''')
     \<and> \<not> (at_Format d = AttemptFormat \<and> at_SourceActivationPackageDigest d = '''')
     \<and> (at_PredecessorAttemptDigest d = '''' \<or> digestPattern (at_PredecessorAttemptDigest d))
     \<and> (at_StoppedEvidenceDigest d = '''' \<or> digestPattern (at_StoppedEvidenceDigest d))"
  unfolding validateDocument_def Inr_conv by auto

lemma validateDocument_ok: "validateDocument d = Inr () \<Longrightarrow> ok_attempt d"
proof -
  assume v: "validateDocument d = Inr ()"
  have c: "valid_utf8 AttemptFormat" "valid_utf8 AttemptLegacyFormat" "valid_utf8 AttemptMode"
    by (simp_all add: attempt_constants valid_utf8_ascii is_ascii_def)
  have act: "valid_utf8 (at_ActivationPackageDigest d)" "valid_utf8 (at_SourceActivationPackageDigest d)"
    using v by (auto simp: validateDocument_iff validActivationIdentity_def intro: digest_ascii)
  have opt: "valid_utf8 (at_PredecessorAttemptDigest d)" "valid_utf8 (at_StoppedEvidenceDigest d)"
    using v by (auto simp: validateDocument_iff intro: digest_ascii)
  show ?thesis
    using v c act opt by (auto simp: validateDocument_iff ok_attempt_def in_int64_def
        intro: digest_ascii image_ascii valid_utf8_name)
qed

lemma attempt_formats_distinct [simp]: "AttemptFormat \<noteq> AttemptLegacyFormat" "AttemptLegacyFormat \<noteq> AttemptFormat"
  by (simp_all add: attempt_constants)

lemma expected_attempt_valid:
  "attempt_validateExpected e = Inr () \<Longrightarrow> validateDocument (expected_attempt e) = Inr ()"
  unfolding attempt_validateExpected_def Inr_conv validateDocument_iff
  by (auto simp: expected_attempt_def validActivationIdentity_def)

lemma attempt_Verify_eq_Inr:
  "attempt_Verify raw e = Inr r \<longleftrightarrow>
    attempt_validateExpected e = Inr () \<and> strict_decode dec_attempt raw = Inr (expected_attempt e)
    \<and> r = \<lparr>ar_Format = (if ax_SourceActivationPackageDigest e = '''' then AttemptLegacyReceiptFormat
              else AttemptReceiptFormat),
           ar_State = ''VERIFIED'',
           ar_ExecutionAttemptDigest = SHA256 (canonical_text (enc_attempt (expected_attempt e))),
           ar_SourceFixtureDigest = ax_SourceFixtureDigest e,
           ar_SourcePlanDigest = ax_SourcePlanSemanticDigest e, ar_RunnerImage = ax_RunnerImage e,
           ar_ActivationPackageDigest = ax_ActivationPackageDigest e,
           ar_SourceActivationPackageDigest = ax_SourceActivationPackageDigest e,
           ar_Mode = AttemptMode,
           ar_RecoveryBound = (ax_PredecessorAttemptDigest e \<noteq> '''' \<or> ax_StoppedEvidenceDigest e \<noteq> ''''),
           ar_MaxAttempts = 1, ar_MutationAllowed = False\<rparr>" (is "?L \<longleftrightarrow> ?R")
proof
  assume ?L
  then obtain d c where v: "attempt_validateExpected e = Inr ()" "strict_decode dec_attempt raw = Inr d"
    "validateDocument d = Inr ()" "canonical_record (enc_attempt d) = Inr c"
    and eq: "at_AttemptID d = ax_AttemptID e" "at_SourceFixtureDigest d = ax_SourceFixtureDigest e"
    "at_SourcePlanSemanticDigest d = ax_SourcePlanSemanticDigest e" "at_RunnerImage d = ax_RunnerImage e"
    "at_ActivationPackageDigest d = ax_ActivationPackageDigest e"
    "at_SourceActivationPackageDigest d = ax_SourceActivationPackageDigest e"
    "at_PredecessorAttemptDigest d = ax_PredecessorAttemptDigest e"
    "at_StoppedEvidenceDigest d = ax_StoppedEvidenceDigest e"
    "at_DecisionWindowDigest d = ax_DecisionWindowDigest e"
    and r: "r = \<lparr>ar_Format = (if at_Format d = AttemptLegacyFormat then AttemptLegacyReceiptFormat
                else AttemptReceiptFormat),
           ar_State = ''VERIFIED'', ar_ExecutionAttemptDigest = SHA256 c,
           ar_SourceFixtureDigest = at_SourceFixtureDigest d,
           ar_SourcePlanDigest = at_SourcePlanSemanticDigest d, ar_RunnerImage = at_RunnerImage d,
           ar_ActivationPackageDigest = at_ActivationPackageDigest d,
           ar_SourceActivationPackageDigest = at_SourceActivationPackageDigest d,
           ar_Mode = at_Mode d,
           ar_RecoveryBound = (at_PredecessorAttemptDigest d \<noteq> '''' \<or> at_StoppedEvidenceDigest d \<noteq> ''''),
           ar_MaxAttempts = at_MaxAttempts d, ar_MutationAllowed = False\<rparr>"
    unfolding attempt_Verify_def Inr_conv attempt_canonicalJSON_def by auto
  have f: "at_Format d = (if ax_SourceActivationPackageDigest e = '''' then AttemptLegacyFormat else AttemptFormat)"
    "at_Mode d = AttemptMode" "at_MaxAttempts d = 1"
    using v(3) eq by (auto simp: validateDocument_iff validActivationIdentity_def)
  have d: "d = expected_attempt e"
    by (rule AttemptDocument.equality) (simp_all add: expected_attempt_def eq f)
  have "c = canonical_text (enc_attempt d)"
    using attempt_codec.canonical [OF validateDocument_ok [OF v(3)]] v(4) by simp
  with r v d show ?R by (simp add: expected_attempt_def)
next
  assume ?R
  moreover from this have v: "validateDocument (expected_attempt e) = Inr ()" by (simp add: expected_attempt_valid)
  ultimately show ?L
    using attempt_codec.canonical [OF validateDocument_ok [OF v]]
    by (simp add: attempt_Verify_def attempt_canonicalJSON_def) (simp add: expected_attempt_def)
qed

text \<open>
  Verification of an attempt accepts exactly the texts that decode to the one document its
  expectation determines; the receipt then reports VERIFIED, a single attempt and no permission to
  mutate.
\<close>

theorem attempt_Verify_exact:
  "((\<exists>r. attempt_Verify raw e = Inr r) \<longleftrightarrow>
     attempt_validateExpected e = Inr () \<and> strict_decode dec_attempt raw = Inr (expected_attempt e))
   \<and> \<not> (\<exists>r. attempt_Verify raw e = Inr r \<and> ar_State r \<noteq> ''VERIFIED'')
   \<and> \<not> (\<exists>r. attempt_Verify raw e = Inr r \<and> ar_MaxAttempts r \<noteq> 1)
   \<and> \<not> (\<exists>r. attempt_Verify raw e = Inr r \<and> ar_MutationAllowed r)"
  unfolding attempt_Verify_eq_Inr by auto

end
