(* ===== verification/Base64.thy ===== *)
theory Base64
  imports StagePlan
begin

text \<open>
  The parts of Go's standard library that the authorization package uses beside JSON and time:
  \<open>base64.StdEncoding.Strict()\<close> and \<open>bytes.TrimSpace\<close>.
\<close>

section \<open>Base64\<close>

definition sextet :: "char \<Rightarrow> nat option" where
  "sextet c =
     (if CHR ''A'' \<le> c \<and> c \<le> CHR ''Z'' then Some (of_char c - 65)
      else if CHR ''a'' \<le> c \<and> c \<le> CHR ''z'' then Some (of_char c - 71)
      else if is_digit c then Some (of_char c + 4)
      else if c = CHR ''+'' then Some 62
      else if c = CHR ''/'' then Some 63
      else None)"

text \<open>
  A quantum of four characters; padding only closes the text, and in strict mode the bits it hides
  are zero. Line breaks are skipped everywhere.
\<close>

fun decode_quanta :: "string \<Rightarrow> string option" where
  "decode_quanta [] = Some []"
| "decode_quanta [a, b, c, d] =
     (case (sextet a, sextet b) of
        (Some w, Some x) \<Rightarrow>
          if c = CHR ''='' then
            (if d = CHR ''='' \<and> x mod 16 = 0 then Some [char_of (w * 4 + x div 16)] else None)
          else (case sextet c of None \<Rightarrow> None
            | Some y \<Rightarrow>
                if d = CHR ''='' then
                  (if y mod 4 = 0 then Some [char_of (w * 4 + x div 16), char_of (x mod 16 * 16 + y div 4)]
                   else None)
                else (case sextet d of None \<Rightarrow> None
                  | Some z \<Rightarrow> Some [char_of (w * 4 + x div 16), char_of (x mod 16 * 16 + y div 4),
                      char_of (y mod 4 * 64 + z)]))
      | _ \<Rightarrow> None)"
| "decode_quanta (a # b # c # d # e # r) =
     (case (sextet a, sextet b, sextet c, sextet d) of
        (Some w, Some x, Some y, Some z) \<Rightarrow>
          map_option (\<lambda>t. char_of (w * 4 + x div 16) # char_of (x mod 16 * 16 + y div 4)
            # char_of (y mod 4 * 64 + z) # t) (decode_quanta (e # r))
      | _ \<Rightarrow> None)"
| "decode_quanta _ = None"

definition base64_decode :: "string \<Rightarrow> string option" where
  "base64_decode s = decode_quanta (filter (\<lambda>c. c \<noteq> CHR 0x0A \<and> c \<noteq> CHR 0x0D) s)"

text \<open>The encoder, the reference of the round trip.\<close>

definition sextet_char :: "nat \<Rightarrow> char" where
  "sextet_char n = (if n < 26 then char_of (65 + n) else if n < 52 then char_of (71 + n)
     else if n < 62 then char_of (n - 4) else if n = 62 then CHR ''+'' else CHR ''/'')"

fun base64_encode :: "string \<Rightarrow> string" where
  "base64_encode [] = []"
| "base64_encode [a] = [sextet_char (of_char a div 4), sextet_char (of_char a mod 4 * 16), CHR ''='', CHR ''='']"
| "base64_encode [a, b] = [sextet_char (of_char a div 4), sextet_char (of_char a mod 4 * 16 + of_char b div 16),
     sextet_char (of_char b mod 16 * 4), CHR ''='']"
| "base64_encode (a # b # c # r) =
     sextet_char (of_char a div 4) # sextet_char (of_char a mod 4 * 16 + of_char b div 16)
     # sextet_char (of_char b mod 16 * 4 + of_char c div 64) # sextet_char (of_char c mod 64) # base64_encode r"

lemma sextet_sextet_char: "n < 64 \<Longrightarrow> sextet (sextet_char n) = Some n"
  by (auto simp: sextet_def sextet_char_def less_eq_char_def is_digit_iff)

lemma sextet_char_plain:
  "n < 64 \<Longrightarrow> sextet_char n \<noteq> CHR ''='' \<and> sextet_char n \<noteq> CHR 0x0A \<and> sextet_char n \<noteq> CHR 0x0D"
proof -
  assume n: "n < 64"
  have "sextet CHR ''='' = None" "sextet CHR 0x0A = None" "sextet CHR 0x0D = None"
    by (simp_all add: sextet_def is_digit_def)
  with sextet_sextet_char [OF n] show ?thesis by (metis option.distinct(1))
qed

lemma byte_less: "(of_char (a :: char) :: nat) < 256"
  by simp

lemma byte_bounds:
  fixes a b c :: char
  defines "x \<equiv> (of_char a :: nat)" and "y \<equiv> (of_char b :: nat)" and "z \<equiv> (of_char c :: nat)"
  shows "x div 4 < 64" "x mod 4 * 16 + y div 16 < 64" "x mod 4 * 16 < 64" "y mod 16 * 4 + z div 64 < 64"
    "y mod 16 * 4 < 64" "z mod 64 < 64"
proof -
  have "x < 256" "y < 256" "z < 256" by (simp_all add: x_def y_def z_def)
  then show "x div 4 < 64" "x mod 4 * 16 + y div 16 < 64" "x mod 4 * 16 < 64" "y mod 16 * 4 + z div 64 < 64"
    "y mod 16 * 4 < 64" "z mod 64 < 64" by auto
qed

lemma split_at:
  fixes p q k :: nat
  assumes "q < k"
  shows "(p * k + q) div k = p" "(p * k + q) mod k = q"
  using assms by simp_all

lemma byte_parts:
  fixes a b c :: char
  defines "x \<equiv> (of_char a :: nat)" and "y \<equiv> (of_char b :: nat)" and "z \<equiv> (of_char c :: nat)"
  shows "char_of (x div 4 * 4 + (x mod 4 * 16 + y div 16) div 16) = a"
    "char_of (x div 4 * 4 + x mod 4 * 16 div 16) = a"
    "char_of ((x mod 4 * 16 + y div 16) mod 16 * 16 + (y mod 16 * 4 + z div 64) div 4) = b"
    "char_of ((x mod 4 * 16 + y div 16) mod 16 * 16 + y mod 16 * 4 div 4) = b"
    "char_of ((y mod 16 * 4 + z div 64) mod 4 * 64 + z mod 64) = c"
proof -
  have "x < 256" "y < 256" "z < 256" by (simp_all add: x_def y_def z_def)
  then have "y div 16 < 16" "z div 64 < 4" by auto
  note s = split_at [OF this(1), of "x mod 4"] split_at [OF this(2), of "y mod 16"]
  have "x div 4 * 4 + x mod 4 = x" "y div 16 * 16 + y mod 16 = y" "z div 64 * 64 + z mod 64 = z" by simp_all
  with s show "char_of (x div 4 * 4 + (x mod 4 * 16 + y div 16) div 16) = a"
    "char_of (x div 4 * 4 + x mod 4 * 16 div 16) = a"
    "char_of ((x mod 4 * 16 + y div 16) mod 16 * 16 + (y mod 16 * 4 + z div 64) div 4) = b"
    "char_of ((x mod 4 * 16 + y div 16) mod 16 * 16 + y mod 16 * 4 div 4) = b"
    "char_of ((y mod 16 * 4 + z div 64) mod 4 * 64 + z mod 64) = c"
    by (simp_all add: x_def y_def z_def)
qed

lemmas encoded_sextets = sextet_char_plain [OF byte_bounds(1)] sextet_char_plain [OF byte_bounds(2)]
  sextet_char_plain [OF byte_bounds(3)] sextet_char_plain [OF byte_bounds(4)]
  sextet_char_plain [OF byte_bounds(5)] sextet_char_plain [OF byte_bounds(6)]
  sextet_sextet_char [OF byte_bounds(1)] sextet_sextet_char [OF byte_bounds(2)]
  sextet_sextet_char [OF byte_bounds(3)] sextet_sextet_char [OF byte_bounds(4)]
  sextet_sextet_char [OF byte_bounds(5)] sextet_sextet_char [OF byte_bounds(6)]

lemma encode_plain: "list_all (\<lambda>c. c \<noteq> CHR 0x0A \<and> c \<noteq> CHR 0x0D) (base64_encode s)"
  by (induction s rule: base64_encode.induct) (simp_all add: encoded_sextets)

lemma decode_quanta_Cons:
  assumes "sextet a = Some w" "sextet b = Some x" "sextet c = Some y" "sextet d = Some z"
    and "d \<noteq> CHR ''=''" "c \<noteq> CHR ''=''"
  shows "decode_quanta (a # b # c # d # r) = map_option (\<lambda>t. char_of (w * 4 + x div 16)
    # char_of (x mod 16 * 16 + y div 4) # char_of (y mod 4 * 64 + z) # t) (decode_quanta r)"
  using assms by (cases r) simp_all

lemma decode_quanta_encode: "decode_quanta (base64_encode s) = Some s"
proof (induction s rule: base64_encode.induct)
  case (2 a)
  then show ?case using byte_parts(2) [of a] by (simp add: encoded_sextets)
next
  case (3 a b)
  then show ?case using byte_parts(1) [of a b] byte_parts(4) [of a b] by (simp add: encoded_sextets)
next
  case (4 a b c r)
  show ?case
    unfolding base64_encode.simps
    by (subst decode_quanta_Cons [OF sextet_sextet_char [OF byte_bounds(1)] sextet_sextet_char [OF byte_bounds(2)]
          sextet_sextet_char [OF byte_bounds(4)] sextet_sextet_char [OF byte_bounds(6)]])
      (simp_all only: 4 option.map byte_parts encoded_sextets not_False_eq_True)
qed simp

lemma base64_decode_encode: "base64_decode (base64_encode s) = Some s"
proof -
  have "filter (\<lambda>c. c \<noteq> CHR 0x0A \<and> c \<noteq> CHR 0x0D) (base64_encode s) = base64_encode s"
    using encode_plain [of s] by (simp add: filter_id_conv list_all_iff)
  then show ?thesis by (simp add: base64_decode_def decode_quanta_encode)
qed

section \<open>TrimSpace\<close>

text \<open>The text cut into its runes, each with the bytes that encode it.\<close>

function rune_chunks :: "string \<Rightarrow> (nat \<times> string) list" where
  "rune_chunks s = (case decode_rune s of None \<Rightarrow> []
     | Some (r, n) \<Rightarrow> (r, take n s) # rune_chunks (drop n s))"
  by pat_completeness auto
termination
proof (relation "measure length")
  fix s :: string and x :: "nat \<times> nat" and r n
  assume "decode_rune s = Some x" "(r, n) = x"
  then show "(drop n s, s) \<in> measure length"
    using decode_rune_width [of s r n] by auto
qed simp

declare rune_chunks.simps [simp del]

definition trim_space :: "string \<Rightarrow> string" where
  "trim_space s =
     (let space = (\<lambda>c. unicode_space (fst c))
      in concat (map snd (rev (dropWhile space (rev (dropWhile space (rune_chunks s)))))))"

text \<open>A text of visible ASCII characters is its own trimming.\<close>

lemma rune_chunks_ascii:
  "list_all is_ascii s \<Longrightarrow> rune_chunks s = map (\<lambda>c. (of_char c, [c])) s"
proof (induction s)
  case (Cons c s)
  then show ?case by (simp add: rune_chunks.simps [of "c # s"] is_ascii_def less_char_def)
qed (simp add: rune_chunks.simps)

lemma trim_space_visible:
  assumes "list_all (\<lambda>c. is_ascii c \<and> \<not> unicode_space (of_char c)) s"
  shows "trim_space s = s"
proof -
  have k: "rune_chunks s = map (\<lambda>c. (of_char c, [c])) s"
    using assms by (intro rune_chunks_ascii) (simp add: list_all_iff)
  have d: "list_all (\<lambda>c. \<not> unicode_space (of_char c)) t \<Longrightarrow>
      dropWhile (\<lambda>c. unicode_space (fst c)) (map (\<lambda>c. (of_char c, [c])) t) = map (\<lambda>c. (of_char c, [c])) t" for t
    by (cases t) simp_all
  have a: "list_all (\<lambda>c. \<not> unicode_space (of_char c)) s" "list_all (\<lambda>c. \<not> unicode_space (of_char c)) (rev s)"
    using assms by (simp_all add: list_all_iff)
  have "concat (map (\<lambda>c. [c]) s) = s" by (induction s) simp_all
  then show ?thesis
    using d [OF a(1)] d [OF a(2)] by (simp add: trim_space_def k rev_map [symmetric] comp_def)
qed

lemma sextet_char_visible:
  assumes "n < 64"
  shows "is_ascii (sextet_char n) \<and> \<not> unicode_space (of_char (sextet_char n))"
proof -
  have v: "is_ascii c \<and> \<not> unicode_space (of_char c)" if "33 \<le> (of_char c :: nat)" "(of_char c :: nat) < 127" for c
    using that by (auto simp: is_ascii_def less_char_def unicode_space_def)
  show ?thesis by (rule v) (use assms in \<open>auto simp: sextet_char_def\<close>)
qed

lemma base64_visible:
  "list_all (\<lambda>c. is_ascii c \<and> \<not> unicode_space (of_char c)) (base64_encode s)"
proof -
  have e: "is_ascii CHR ''=''" "\<not> unicode_space 61" by (simp_all add: is_ascii_def unicode_space_def)
  show ?thesis
    by (induction s rule: base64_encode.induct)
      (simp_all add: e sextet_char_visible [OF byte_bounds(1)] sextet_char_visible [OF byte_bounds(2)]
        sextet_char_visible [OF byte_bounds(3)] sextet_char_visible [OF byte_bounds(4)]
        sextet_char_visible [OF byte_bounds(5)] sextet_char_visible [OF byte_bounds(6)])
qed

end
