(* ===== verification/Authorization.thy ===== *)
theory Authorization
  imports StageReceiptFacts Base64
begin

text \<open>
  Stage grants (\<open>internal/authorization/stage.go\<close>, \<open>stage_dispatch.go\<close> and \<open>parsePublicKey\<close> of
  \<open>authorization.go\<close>): verification of a signed, content-bound, single-use decision for one
  mutating stage, its rebinding to the stage before the ledger claim, and the check of a delegated
  receiver. The Ed25519 primitive is the parameter \<open>sigcheck\<close> (public key, message, signature); the
  model uses nothing of it except where a statement names it.
\<close>

section \<open>Data\<close>

record StagePredecessor =
  sq_StageID :: string
  sq_OutcomeDigest :: string

record StagePayload =
  sp_Audience :: string
  sp_GrantID :: string
  sp_Decision :: string
  sp_PlanDigest :: string
  sp_ContractIdentity :: Identity
  sp_ContractRevision :: string
  sp_EnablementRevision :: string
  sp_PlatformRevision :: string
  sp_ExecutionFixture :: string
  sp_ExecutionAttempt :: string
  sp_StageID :: string
  sp_StageOrder :: int
  sp_StageDigest :: string
  sp_Operation :: string
  sp_Authority :: string
  sp_Predecessors :: "StagePredecessor slice"
  sp_NotBefore :: string
  sp_NotAfter :: string
  sp_MaxUses :: int

record signature =
  sg_Algorithm :: string
  sg_KeyID :: string
  sg_Value :: string

record stageEnvelope =
  ev_Format :: string
  ev_Payload :: StagePayload
  ev_Signature :: signature

record GrantReceipt =
  gr_Format :: string
  gr_State :: string
  gr_AuthorizationDigest :: string
  gr_GrantID :: string
  gr_KeyID :: string
  gr_PlanDigest :: string
  gr_StageID :: string
  gr_StageDigest :: string
  gr_Operation :: string
  gr_Authority :: string
  gr_PredecessorDigest :: string
  gr_NotAfter :: string
  gr_MaxUses :: int
  gr_ExecutionAttempt :: string

record StageConsumptionBinding =
  sc_AuthorizationDigest :: string
  sc_GrantID :: string
  sc_KeyID :: string
  sc_PlanDigest :: string
  sc_StageID :: string
  sc_StageDigest :: string
  sc_Operation :: string
  sc_Authority :: string
  sc_PredecessorDigest :: string
  sc_ContractRevision :: string
  sc_NotBefore :: string
  sc_NotAfter :: string
  sc_ExecutionAttempt :: string

record VerifiedStageGrant =
  vg_receipt :: GrantReceipt
  vg_binding :: StageConsumptionBinding
  vg_envelope :: string
  vg_verified :: bool

definition StageFormat :: string where "StageFormat = ''ok147-stage-authorization/v1''"
definition StageFormatV2 :: string where "StageFormatV2 = ''ok147-stage-authorization/v2''"
definition StageAudience :: string where "StageAudience = ''ok-cluster-staged-executor''"
definition maximumStageGrantBytes :: nat where "maximumStageGrantBytes = 128 * 1024"
definition maximumPublicKeyBytes :: nat where "maximumPublicKeyBytes = 4 * 1024"
definition MaximumWindow :: int where "MaximumWindow = 30 * minute"

abbreviation stageGrantIDPattern :: "string \<Rightarrow> bool" where
  "stageGrantIDPattern \<equiv> lower_name 2 127"

section \<open>JSON form\<close>

definition enc_stage_predecessor :: "StagePredecessor \<Rightarrow> json" where
  "enc_stage_predecessor p = struct [key ''stageId'' (JStr (sq_StageID p)),
     key ''outcomeDigest'' (JStr (sq_OutcomeDigest p))]"

definition zero_stage_predecessor :: StagePredecessor where
  "zero_stage_predecessor = \<lparr>sq_StageID = [], sq_OutcomeDigest = []\<rparr>"

definition dec_stage_predecessor :: "StagePredecessor \<Rightarrow> json \<Rightarrow> StagePredecessor option" where
  "dec_stage_predecessor old = (let ns = [''stageId'', ''outcomeDigest''] in dec_struct ns (\<lambda>kvs. do {
     a \<leftarrow> dec_field ns kvs ''stageId'' dec_string (sq_StageID old);
     b \<leftarrow> dec_field ns kvs ''outcomeDigest'' dec_string (sq_OutcomeDigest old);
     Some \<lparr>sq_StageID = a, sq_OutcomeDigest = b\<rparr> }) old)"

definition enc_payload :: "StagePayload \<Rightarrow> json" where
  "enc_payload p = struct [
     key ''audience'' (JStr (sp_Audience p)), key ''grantId'' (JStr (sp_GrantID p)),
     key ''decision'' (JStr (sp_Decision p)), key ''planDigest'' (JStr (sp_PlanDigest p)),
     key ''contractIdentity'' (enc_identity (sp_ContractIdentity p)),
     key ''contractRevision'' (JStr (sp_ContractRevision p)),
     key ''enablementRevision'' (JStr (sp_EnablementRevision p)),
     key ''platformRevision'' (JStr (sp_PlatformRevision p)),
     key ''executionFixture'' (JStr (sp_ExecutionFixture p)),
     optkey ''executionAttemptDigest'' (JStr (sp_ExecutionAttempt p)),
     key ''stageId'' (JStr (sp_StageID p)), key ''stageOrder'' (JInt (sp_StageOrder p)),
     key ''stageDigest'' (JStr (sp_StageDigest p)), key ''operation'' (JStr (sp_Operation p)),
     key ''authority'' (JStr (sp_Authority p)),
     key ''predecessors'' (JSlice enc_stage_predecessor (sp_Predecessors p)),
     key ''notBefore'' (JStr (sp_NotBefore p)), key ''notAfter'' (JStr (sp_NotAfter p)),
     key ''maxUses'' (JInt (sp_MaxUses p))]"

definition payload_fields :: "string list" where
  "payload_fields = [''audience'', ''grantId'', ''decision'', ''planDigest'', ''contractIdentity'',
     ''contractRevision'', ''enablementRevision'', ''platformRevision'', ''executionFixture'',
     ''executionAttemptDigest'', ''stageId'', ''stageOrder'', ''stageDigest'', ''operation'',
     ''authority'', ''predecessors'', ''notBefore'', ''notAfter'', ''maxUses'']"

definition zero_payload :: StagePayload where
  "zero_payload = \<lparr>sp_Audience = [], sp_GrantID = [], sp_Decision = [], sp_PlanDigest = [],
     sp_ContractIdentity = zero_identity, sp_ContractRevision = [], sp_EnablementRevision = [],
     sp_PlatformRevision = [], sp_ExecutionFixture = [], sp_ExecutionAttempt = [], sp_StageID = [],
     sp_StageOrder = 0, sp_StageDigest = [], sp_Operation = [], sp_Authority = [],
     sp_Predecessors = None, sp_NotBefore = [], sp_NotAfter = [], sp_MaxUses = 0\<rparr>"

definition dec_payload :: "StagePayload \<Rightarrow> json \<Rightarrow> StagePayload option" where
  "dec_payload old = (let ns = payload_fields in dec_struct ns (\<lambda>kvs. do {
     f1 \<leftarrow> dec_field ns kvs ''audience'' dec_string (sp_Audience old);
     f2 \<leftarrow> dec_field ns kvs ''grantId'' dec_string (sp_GrantID old);
     f3 \<leftarrow> dec_field ns kvs ''decision'' dec_string (sp_Decision old);
     f4 \<leftarrow> dec_field ns kvs ''planDigest'' dec_string (sp_PlanDigest old);
     f5 \<leftarrow> dec_field ns kvs ''contractIdentity'' dec_identity (sp_ContractIdentity old);
     f6 \<leftarrow> dec_field ns kvs ''contractRevision'' dec_string (sp_ContractRevision old);
     f7 \<leftarrow> dec_field ns kvs ''enablementRevision'' dec_string (sp_EnablementRevision old);
     f8 \<leftarrow> dec_field ns kvs ''platformRevision'' dec_string (sp_PlatformRevision old);
     f9 \<leftarrow> dec_field ns kvs ''executionFixture'' dec_string (sp_ExecutionFixture old);
     f10 \<leftarrow> dec_field ns kvs ''executionAttemptDigest'' dec_string (sp_ExecutionAttempt old);
     f11 \<leftarrow> dec_field ns kvs ''stageId'' dec_string (sp_StageID old);
     f12 \<leftarrow> dec_field ns kvs ''stageOrder'' dec_int (sp_StageOrder old);
     f13 \<leftarrow> dec_field ns kvs ''stageDigest'' dec_string (sp_StageDigest old);
     f14 \<leftarrow> dec_field ns kvs ''operation'' dec_string (sp_Operation old);
     f15 \<leftarrow> dec_field ns kvs ''authority'' dec_string (sp_Authority old);
     f16 \<leftarrow> dec_field ns kvs ''predecessors'' (dec_slice dec_stage_predecessor zero_stage_predecessor)
              (sp_Predecessors old);
     f17 \<leftarrow> dec_field ns kvs ''notBefore'' dec_string (sp_NotBefore old);
     f18 \<leftarrow> dec_field ns kvs ''notAfter'' dec_string (sp_NotAfter old);
     f19 \<leftarrow> dec_field ns kvs ''maxUses'' dec_int (sp_MaxUses old);
     Some \<lparr>sp_Audience = f1, sp_GrantID = f2, sp_Decision = f3, sp_PlanDigest = f4,
       sp_ContractIdentity = f5, sp_ContractRevision = f6, sp_EnablementRevision = f7,
       sp_PlatformRevision = f8, sp_ExecutionFixture = f9, sp_ExecutionAttempt = f10, sp_StageID = f11,
       sp_StageOrder = f12, sp_StageDigest = f13, sp_Operation = f14, sp_Authority = f15,
       sp_Predecessors = f16, sp_NotBefore = f17, sp_NotAfter = f18, sp_MaxUses = f19\<rparr> }) old)"

definition enc_signature :: "signature \<Rightarrow> json" where
  "enc_signature g = struct [key ''algorithm'' (JStr (sg_Algorithm g)),
     key ''keyId'' (JStr (sg_KeyID g)), key ''value'' (JStr (sg_Value g))]"

definition zero_signature :: signature where
  "zero_signature = \<lparr>sg_Algorithm = [], sg_KeyID = [], sg_Value = []\<rparr>"

definition dec_signature :: "signature \<Rightarrow> json \<Rightarrow> signature option" where
  "dec_signature old = (let ns = [''algorithm'', ''keyId'', ''value''] in dec_struct ns (\<lambda>kvs. do {
     a \<leftarrow> dec_field ns kvs ''algorithm'' dec_string (sg_Algorithm old);
     b \<leftarrow> dec_field ns kvs ''keyId'' dec_string (sg_KeyID old);
     c \<leftarrow> dec_field ns kvs ''value'' dec_string (sg_Value old);
     Some \<lparr>sg_Algorithm = a, sg_KeyID = b, sg_Value = c\<rparr> }) old)"

definition enc_envelope :: "stageEnvelope \<Rightarrow> json" where
  "enc_envelope e = struct [key ''format'' (JStr (ev_Format e)), key ''payload'' (enc_payload (ev_Payload e)),
     key ''signature'' (enc_signature (ev_Signature e))]"

definition dec_envelope :: "json \<Rightarrow> stageEnvelope option" where
  "dec_envelope = (let ns = [''format'', ''payload'', ''signature''] in dec_struct ns (\<lambda>kvs. do {
     a \<leftarrow> dec_field ns kvs ''format'' dec_string [];
     b \<leftarrow> dec_field ns kvs ''payload'' dec_payload zero_payload;
     c \<leftarrow> dec_field ns kvs ''signature'' dec_signature zero_signature;
     Some \<lparr>ev_Format = a, ev_Payload = b, ev_Signature = c\<rparr> })
     \<lparr>ev_Format = [], ev_Payload = zero_payload, ev_Signature = zero_signature\<rparr>)"

section \<open>Keys and signing bytes\<close>

definition parsePublicKey :: "string \<Rightarrow> (string \<times> string) result" where
  "parsePublicKey raw = (case base64_decode (trim_space raw) of
       None \<Rightarrow> Inl (New ''decode trusted Ed25519 public key'')
     | Some decoded \<Rightarrow>
         if length decoded \<noteq> 32 then
           Inl (Errf ''trusted Ed25519 public key has %d bytes, expected %d'' [show_nat (length decoded), ''32''])
         else Inr (decoded, SHA256 decoded))"

definition StageSigningBytes :: "StagePayload \<Rightarrow> string result" where
  "StageSigningBytes p = canonical_record (enc_payload p)"

section \<open>Predecessors\<close>

fun stage_predecessor_bindings :: "string \<Rightarrow> string list \<Rightarrow> Verified list \<Rightarrow> StagePredecessor list result" where
  "stage_predecessor_bindings planDigest (q # qs) (p # ps) =
     bindE (Verified_Receipt p) (\<lambda>receipt.
     bindE (Verified_Digest p) (\<lambda>d.
       if rc_PlanDigest receipt \<noteq> planDigest \<or> rc_State receipt \<noteq> ''SUCCEEDED'' \<or> rc_StageID receipt \<noteq> q
          \<or> \<not> digestPattern d then
         Inl (New ''stage authorization predecessor evidence differs'')
       else bindE (stage_predecessor_bindings planDigest qs ps) (\<lambda>bs.
         Inr (\<lparr>sq_StageID = rc_StageID receipt, sq_OutcomeDigest = d\<rparr> # bs))))"
| "stage_predecessor_bindings planDigest _ _ = Inr []"

definition predecessor_digest :: "StagePredecessor list \<Rightarrow> string result" where
  "predecessor_digest bs = canonical_digest (JArr (map enc_stage_predecessor bs))"

definition verifiedStagePredecessors ::
  "Verified slice \<Rightarrow> string list \<Rightarrow> string \<Rightarrow> (StagePredecessor list \<times> string) result" where
  "verifiedStagePredecessors expected required planDigest =
     (if expected = None \<or> length (elems expected) \<noteq> length required then
        Inl (New ''stage authorization predecessor set is incomplete'')
      else bindE (stage_predecessor_bindings planDigest required (elems expected)) (\<lambda>bs.
        bindE (predecessor_digest bs) (\<lambda>d. Inr (bs, d))))"

definition verifyStagePredecessors ::
  "StagePredecessor slice \<Rightarrow> Verified slice \<Rightarrow> string list \<Rightarrow> string \<Rightarrow> string result" where
  "verifyStagePredecessors payload expected required planDigest =
     (if payload = None \<or> expected = None \<or> length (elems payload) \<noteq> length required
         \<or> length (elems expected) \<noteq> length required then
        Inl (New ''stage authorization predecessor set is incomplete'')
      else bindE (verifiedStagePredecessors expected required planDigest) (\<lambda>(bs, d).
        if \<not> list_all2 (\<lambda>p b. p = b \<and> digestPattern (sq_OutcomeDigest p)) (elems payload) bs then
          Inl (New ''stage authorization predecessor evidence differs'')
        else Inr d))"

section \<open>Verification of a grant\<close>

definition verifyStagePayload ::
  "StagePayload \<Rightarrow> Binding \<Rightarrow> Stage \<Rightarrow> string \<Rightarrow> Verified slice \<Rightarrow> time \<Rightarrow> string result" where
  "verifyStagePayload p plan stage stageDigest expected at =
     (if sp_Audience p \<noteq> StageAudience \<or> sp_Decision p \<noteq> ''ALLOW'' then
        Inl (New ''stage authorization audience or decision is not accepted'')
      else if \<not> stageGrantIDPattern (sp_GrantID p) then
        Inl (New ''stage authorization grantId is invalid'')
      else if sp_PlanDigest p \<noteq> b_PlanDigest plan \<or> sp_ContractIdentity p \<noteq> b_ContractIdentity plan
          \<or> sp_ContractRevision p \<noteq> b_IntentRevision plan
          \<or> sp_EnablementRevision p \<noteq> b_EnablementRevision plan
          \<or> sp_PlatformRevision p \<noteq> b_PlatformRevision plan
          \<or> sp_ExecutionFixture p \<noteq> b_ExecutionFixture plan then
        Inl (New ''stage authorization plan or Contract bindings differ'')
      else if sp_ExecutionAttempt p \<noteq> b_ExecutionAttempt plan then
        Inl (New ''stage authorization execution attempt differs'')
      else if sp_StageID p \<noteq> s_ID stage \<or> sp_StageOrder p \<noteq> s_Order stage \<or> sp_StageDigest p \<noteq> stageDigest
          \<or> sp_Operation p \<noteq> s_GrantOperation stage \<or> sp_Authority p \<noteq> s_Authority stage then
        Inl (New ''stage authorization does not bind the exact stage'')
      else bindE (verifyStagePredecessors (sp_Predecessors p) expected (elems (s_Requires stage)) (b_PlanDigest plan))
        (\<lambda>predecessorDigest.
        if sp_MaxUses p \<noteq> 1 then Inl (New ''stage authorization must declare exactly one use'')
        else (case parse_rfc3339 (sp_NotBefore p) of
            None \<Rightarrow> Inl (New ''stage authorization notBefore'')
          | Some notBefore \<Rightarrow>
              (case parse_rfc3339 (sp_NotAfter p) of
                 None \<Rightarrow> Inl (New ''stage authorization notAfter'')
               | Some notAfter \<Rightarrow>
                   if \<not> after notAfter notBefore \<or> sub_time notAfter notBefore > MaximumWindow then
                     Inl (New ''stage authorization time window is invalid'')
                   else if before at notBefore \<or> \<not> before at notAfter then
                     Inl (New ''stage authorization is not active at the evaluation time'')
                   else Inr predecessorDigest))))"

definition grant_of ::
  "StagePayload \<Rightarrow> string \<Rightarrow> string \<Rightarrow> string \<Rightarrow> Binding \<Rightarrow> Stage \<Rightarrow> string \<Rightarrow> string \<Rightarrow> VerifiedStageGrant" where
  "grant_of p format raw keyID plan stage stageDigest predecessorDigest = \<lparr>
     vg_receipt = \<lparr>
       gr_Format = (if format = StageFormatV2 then ''ok147-stage-authorization-receipt/v2''
         else ''ok147-stage-authorization-receipt/v1''),
       gr_State = ''VERIFIED'', gr_AuthorizationDigest = SHA256 raw, gr_GrantID = sp_GrantID p,
       gr_KeyID = keyID, gr_PlanDigest = b_PlanDigest plan, gr_StageID = s_ID stage,
       gr_StageDigest = stageDigest, gr_Operation = s_GrantOperation stage,
       gr_Authority = s_Authority stage, gr_PredecessorDigest = predecessorDigest,
       gr_NotAfter = sp_NotAfter p, gr_MaxUses = sp_MaxUses p, gr_ExecutionAttempt = sp_ExecutionAttempt p\<rparr>,
     vg_binding = \<lparr>
       sc_AuthorizationDigest = SHA256 raw, sc_GrantID = sp_GrantID p, sc_KeyID = keyID,
       sc_PlanDigest = b_PlanDigest plan, sc_StageID = s_ID stage, sc_StageDigest = stageDigest,
       sc_Operation = s_GrantOperation stage, sc_Authority = s_Authority stage,
       sc_PredecessorDigest = predecessorDigest, sc_ContractRevision = b_IntentRevision plan,
       sc_NotBefore = sp_NotBefore p, sc_NotAfter = sp_NotAfter p, sc_ExecutionAttempt = sp_ExecutionAttempt p\<rparr>,
     vg_envelope = raw, vg_verified = True\<rparr>"

definition VerifyStage ::
  "(string \<Rightarrow> string \<Rightarrow> string \<Rightarrow> bool) \<Rightarrow> string \<Rightarrow> string \<Rightarrow> Binding \<Rightarrow> string \<Rightarrow> Verified slice \<Rightarrow> time
    \<Rightarrow> VerifiedStageGrant result" where
  "VerifyStage sigcheck raw publicKeyRaw plan stageID expected at =
     bindE (Binding_Stage plan stageID) (\<lambda>(stage, stageDigest).
     if \<not> IsMutating stage then Inl (New ''read-only stages do not accept mutation grants'')
     else bindE (wrapE ''decode stage authorization'' (strict_decode dec_envelope raw)) (\<lambda>doc.
       if ev_Format doc \<noteq> StageFormat \<and> ev_Format doc \<noteq> StageFormatV2 then
         Inl (Errf ''stage authorization format %q is not supported'' [ev_Format doc])
       else if b_Format plan = BindingFormat \<and> ev_Format doc \<noteq> StageFormat
          \<or> b_Format plan = BindingFormatV2 \<and> ev_Format doc \<noteq> StageFormatV2 then
         Inl (New ''stage authorization format differs from the staged plan'')
       else bindE (parsePublicKey publicKeyRaw) (\<lambda>(publicKey, keyID).
         if sg_Algorithm (ev_Signature doc) \<noteq> ''Ed25519'' \<or> sg_KeyID (ev_Signature doc) \<noteq> keyID then
           Inl (New ''stage authorization signature metadata is not accepted'')
         else (case base64_decode (sg_Value (ev_Signature doc)) of
             None \<Rightarrow> Inl (New ''decode stage authorization signature'')
           | Some signatureBytes \<Rightarrow>
               bindE (StageSigningBytes (ev_Payload doc)) (\<lambda>signingBytes.
                 if \<not> sigcheck publicKey signingBytes signatureBytes then
                   Inl (New ''stage authorization signature verification failed'')
                 else bindE (verifyStagePayload (ev_Payload doc) plan stage stageDigest expected at)
                   (\<lambda>predecessorDigest.
                     Inr (grant_of (ev_Payload doc) (ev_Format doc) raw keyID plan stage stageDigest
                           predecessorDigest)))))))"

definition ConsumptionBinding :: "VerifiedStageGrant \<Rightarrow> StageConsumptionBinding result" where
  "ConsumptionBinding g = (if \<not> vg_verified g then
       Inl (New ''stage authorization was not produced by verification'') else Inr (vg_binding g))"

definition SignedEnvelope :: "VerifiedStageGrant \<Rightarrow> string" where
  "SignedEnvelope g = vg_envelope g"

definition BindStageGrant ::
  "VerifiedStageGrant \<Rightarrow> Binding \<Rightarrow> string \<Rightarrow> Verified slice \<Rightarrow> StageConsumptionBinding result" where
  "BindStageGrant g plan stageID expected =
     bindE (ConsumptionBinding g) (\<lambda>b.
     bindE (Binding_Stage plan stageID) (\<lambda>(stage, stageDigest).
     if \<not> IsMutating stage then Inl (New ''read-only stage cannot bind a mutation grant'')
     else bindE (verifiedStagePredecessors expected (elems (s_Requires stage)) (b_PlanDigest plan))
       (\<lambda>(_, predecessorDigest).
         if sc_PlanDigest b \<noteq> b_PlanDigest plan \<or> sc_StageID b \<noteq> s_ID stage \<or> sc_StageDigest b \<noteq> stageDigest
            \<or> sc_Operation b \<noteq> s_GrantOperation stage \<or> sc_Authority b \<noteq> s_Authority stage
            \<or> sc_PredecessorDigest b \<noteq> predecessorDigest \<or> sc_ContractRevision b \<noteq> b_IntentRevision plan
            \<or> sc_ExecutionAttempt b \<noteq> b_ExecutionAttempt plan then
           Inl (New ''verified stage grant differs from the selected stage cursor'')
         else Inr b)))"

definition readStageAuthorizationFile ::
  "string \<Rightarrow> file_info option \<Rightarrow> string option \<Rightarrow> nat \<Rightarrow> string \<Rightarrow> string result" where
  "readStageAuthorizationFile path info content maximum label =
     (if path = '''' then Inl (Errf ''%s path is required'' [label])
      else (case info of None \<Rightarrow> Inl (Errf ''inspect %s'' [label])
      | Some i \<Rightarrow>
          if \<not> f_regular i \<or> f_symlink i \<or> f_size i \<le> 0 \<or> f_size i > int maximum then
            Inl (Errf ''%s metadata is invalid'' [label])
          else (case content of None \<Rightarrow> Inl (Errf ''open %s'' [label])
          | Some c \<Rightarrow>
              if length (take (maximum + 1) c) = 0 \<or> length (take (maximum + 1) c) > maximum then
                Inl (Errf ''read bounded %s'' [label])
              else Inr (take (maximum + 1) c))))"

text \<open>\<open>files\<close> gives what \<open>Lstat\<close> and the bounded read see at a path.\<close>

definition LoadStage ::
  "(string \<Rightarrow> string \<Rightarrow> string \<Rightarrow> bool) \<Rightarrow> (string \<Rightarrow> file_info option \<times> string option) \<Rightarrow> string \<Rightarrow> string
    \<Rightarrow> Binding \<Rightarrow> string \<Rightarrow> Verified slice \<Rightarrow> time \<Rightarrow> VerifiedStageGrant result" where
  "LoadStage sigcheck files grantPath publicKeyPath plan stageID expected at =
     bindE (readStageAuthorizationFile grantPath (fst (files grantPath)) (snd (files grantPath))
              maximumStageGrantBytes ''stage authorization'') (\<lambda>raw.
     bindE (readStageAuthorizationFile publicKeyPath (fst (files publicKeyPath)) (snd (files publicKeyPath))
              maximumPublicKeyBytes ''stage authorization public key'') (\<lambda>publicKeyRaw.
       VerifyStage sigcheck raw publicKeyRaw plan stageID expected at))"

section \<open>The delegated receiver\<close>

record StageDispatchExpectation =
  dx_AuthorizationDigest :: string
  dx_AuthorizationKeyID :: string
  dx_GrantID :: string
  dx_PlanDigest :: string
  dx_ContractIdentity :: Identity
  dx_ContractRevision :: string
  dx_EnablementRevision :: string
  dx_PlatformRevision :: string
  dx_ExecutionFixture :: string
  dx_ExecutionAttempt :: string
  dx_StageID :: string
  dx_StageOrder :: int
  dx_StageDigest :: string
  dx_Operation :: string
  dx_Authority :: string
  dx_PredecessorDigest :: string
  dx_RequiredPredecessors :: "string slice"

definition validDispatchExpectation :: "StageDispatchExpectation \<Rightarrow> string \<Rightarrow> bool" where
  "validDispatchExpectation x trustedKeyID \<longleftrightarrow>
     list_all digestPattern [dx_AuthorizationDigest x, dx_AuthorizationKeyID x, dx_PlanDigest x,
       dx_StageDigest x, dx_PredecessorDigest x]
     \<and> dx_AuthorizationKeyID x = trustedKeyID \<and> stageGrantIDPattern (dx_GrantID x)
     \<and> i_Namespace (dx_ContractIdentity x) \<noteq> '''' \<and> i_Name (dx_ContractIdentity x) \<noteq> ''''
     \<and> dx_ContractRevision x \<noteq> '''' \<and> dx_EnablementRevision x \<noteq> '''' \<and> dx_PlatformRevision x \<noteq> ''''
     \<and> dx_ExecutionFixture x \<noteq> '''' \<and> dx_StageID x \<noteq> '''' \<and> dx_StageOrder x > 0
     \<and> dx_Operation x \<noteq> '''' \<and> dx_Authority x \<noteq> '''' \<and> dx_RequiredPredecessors x \<noteq> None"

definition dispatchPredecessorDigest :: "StagePredecessor slice \<Rightarrow> string slice \<Rightarrow> string result" where
  "dispatchPredecessorDigest actual required =
     (if actual = None \<or> required = None \<or> length (elems actual) \<noteq> length (elems required) then
        Inl (New ''dispatch predecessor set is incomplete'')
      else if \<not> list_all2 (\<lambda>p q. sq_StageID p = q \<and> digestPattern (sq_OutcomeDigest p))
          (elems actual) (elems required) then
        Inl (New ''dispatch predecessor set differs'')
      else predecessor_digest (elems actual))"

definition DispatchRefused :: goerror where
  "DispatchRefused = New ''stage dispatch authorization is not accepted''"

definition VerifyStageDispatchAuthorization ::
  "(string \<Rightarrow> string \<Rightarrow> string \<Rightarrow> bool) \<Rightarrow> string \<Rightarrow> string \<Rightarrow> StageDispatchExpectation \<Rightarrow> time \<Rightarrow> unit result" where
  "VerifyStageDispatchAuthorization sigcheck raw trustedPublicKey x at =
     (case parsePublicKey trustedPublicKey of
        Inl _ \<Rightarrow> Inl DispatchRefused
      | Inr (publicKey, keyID) \<Rightarrow>
     if length publicKey \<noteq> 32 \<or> is_zero_time at \<or> \<not> validDispatchExpectation x keyID \<or> length raw = 0
        \<or> length raw > maximumStageGrantBytes \<or> SHA256 raw \<noteq> dx_AuthorizationDigest x then Inl DispatchRefused
     else (case strict_decode dec_envelope raw of
        Inl _ \<Rightarrow> Inl DispatchRefused
      | Inr envelope \<Rightarrow>
     if ev_Format envelope \<noteq> StageFormat \<and> ev_Format envelope \<noteq> StageFormatV2
        \<or> sg_Algorithm (ev_Signature envelope) \<noteq> ''Ed25519'' \<or> sg_KeyID (ev_Signature envelope) \<noteq> keyID
        \<or> sg_KeyID (ev_Signature envelope) \<noteq> dx_AuthorizationKeyID x then Inl DispatchRefused
     else (case base64_decode (sg_Value (ev_Signature envelope)) of
        None \<Rightarrow> Inl DispatchRefused
      | Some signatureBytes \<Rightarrow>
     if length signatureBytes \<noteq> 64 then Inl DispatchRefused
     else (case StageSigningBytes (ev_Payload envelope) of
        Inl _ \<Rightarrow> Inl DispatchRefused
      | Inr signingBytes \<Rightarrow>
     if \<not> sigcheck publicKey signingBytes signatureBytes then Inl DispatchRefused
     else let p = ev_Payload envelope in
     if sp_Audience p \<noteq> StageAudience \<or> sp_Decision p \<noteq> ''ALLOW'' \<or> sp_MaxUses p \<noteq> 1
        \<or> sp_GrantID p \<noteq> dx_GrantID x \<or> sp_PlanDigest p \<noteq> dx_PlanDigest x
        \<or> sp_ContractIdentity p \<noteq> dx_ContractIdentity x \<or> sp_ContractRevision p \<noteq> dx_ContractRevision x
        \<or> sp_EnablementRevision p \<noteq> dx_EnablementRevision x \<or> sp_PlatformRevision p \<noteq> dx_PlatformRevision x
        \<or> sp_ExecutionFixture p \<noteq> dx_ExecutionFixture x \<or> sp_ExecutionAttempt p \<noteq> dx_ExecutionAttempt x
        \<or> sp_StageID p \<noteq> dx_StageID x \<or> sp_StageOrder p \<noteq> dx_StageOrder x
        \<or> sp_StageDigest p \<noteq> dx_StageDigest x \<or> sp_Operation p \<noteq> dx_Operation x
        \<or> sp_Authority p \<noteq> dx_Authority x then Inl DispatchRefused
     else (case (parse_rfc3339 (sp_NotBefore p), parse_rfc3339 (sp_NotAfter p)) of
        (Some notBefore, Some notAfter) \<Rightarrow>
     if \<not> after notAfter notBefore \<or> sub_time notAfter notBefore > MaximumWindow
        \<or> before at notBefore \<or> \<not> before at notAfter then Inl DispatchRefused
     else (case dispatchPredecessorDigest (sp_Predecessors p) (dx_RequiredPredecessors x) of
        Inl _ \<Rightarrow> Inl DispatchRefused
      | Inr d \<Rightarrow> if d \<noteq> dx_PredecessorDigest x then Inl DispatchRefused else Inr ())
      | _ \<Rightarrow> Inl DispatchRefused)))))"

end
