(* ===== verification/TextSize.thy ===== *)
theory TextSize
  imports Codec
begin

text \<open>
  How long a canonical text can be: an executable bound on the printed form of a JSON value, which
  sorting the members of its objects does not change.
\<close>

fun text_bound :: "json \<Rightarrow> nat" where
  "text_bound JNull = 4"
| "text_bound (JBool b) = 5"
| "text_bound (JNum n) = length n"
| "text_bound (JStr s) = 6 * length s + 2"
| "text_bound (JArr vs) = 2 + sum_list (map (\<lambda>v. 1 + text_bound v) vs)"
| "text_bound (JObj kvs) = 2 + sum_list (map (\<lambda>kv. 6 * length (fst kv) + 4 + text_bound (snd kv)) kvs)"

lemma length_u_escape [simp]: "length (u_escape n) = 6"
  by (simp add: u_escape_def)

lemma length_quote_ascii: "length (quote_ascii html c) \<le> 6"
  by (simp add: quote_ascii_def)

lemma length_quote_body: "length (quote_body html s) \<le> 6 * length s"
proof (induction html s rule: quote_body.induct)
  case (1 html s)
  show ?case
  proof (cases s)
    case Nil
    then show ?thesis by (simp add: quote_body.simps)
  next
    case (Cons c cs)
    show ?thesis
    proof (cases "decode_rune s")
      case None
      with 1(1) Cons show ?thesis by (simp add: quote_body.simps [of html "c # cs"])
    next
      case (Some p)
      obtain r n where p: "p = (r, n)" by (cases p)
      have n: "0 < n" "n \<le> length s" using decode_rune_width [of s r n] Some p by auto
      have "length (quote_body html (drop n s)) \<le> 6 * (length s - n)"
        using 1(2) [OF Cons Some p [symmetric]] by simp
      moreover have "length (if n = 1 then quote_ascii html c
          else if r = 0x2028 \<or> r = 0x2029 then u_escape r else take n (c # cs)) \<le> 6 * n"
        using length_quote_ascii [of html c] n by (auto simp: Cons)
      ultimately show ?thesis
        using n by (simp add: quote_body.simps [of html "c # cs"] Cons Some [unfolded Cons] p split del: if_split)
    qed
  qed
qed

lemma length_quote: "length (quote html s) \<le> 6 * length s + 2"
  using length_quote_body [of html s] by (simp add: quote_def)

lemma length_sep: "length (sep s xs) \<le> sum_list (map (\<lambda>x. 1 + length x) xs)"
proof -
  have "length (led s xs) = sum_list (map (\<lambda>x. 1 + length x) xs)" for xs
    by (induction xs) simp_all
  then show ?thesis by (cases xs) simp_all
qed

lemma length_print: "length (print_json html j) \<le> text_bound j"
proof (induction j)
  case (JStr s)
  then show ?case using length_quote by simp
next
  case (JArr vs)
  have "sum_list (map (\<lambda>x. 1 + length x) (map (print_json html) vs)) \<le> sum_list (map (\<lambda>v. 1 + text_bound v) vs)"
    using JArr by (simp add: comp_def sum_list_mono)
  then show ?case using length_sep [of "CHR '',''" "map (print_json html) vs"] by simp
next
  case (JObj kvs)
  let ?ps = "map (\<lambda>kv. quote html (fst kv) @ '':'' @ print_json html (snd kv)) kvs"
  have "1 + length (quote html (fst kv) @ '':'' @ print_json html (snd kv))
      \<le> 6 * length (fst kv) + 4 + text_bound (snd kv)" if "kv \<in> set kvs" for kv
    using JObj [of kv "snd kv"] that length_quote [of html "fst kv"] by (cases kv) auto
  then have "sum_list (map (\<lambda>x. 1 + length x) ?ps)
      \<le> sum_list (map (\<lambda>kv. 6 * length (fst kv) + 4 + text_bound (snd kv)) kvs)"
    by (simp only: map_map comp_def sum_list_mono)
  then show ?case using length_sep [of "CHR '',''" ?ps] by simp
qed simp_all

lemma sum_list_sort: "sum_list (map f (sort_key g xs)) = (sum_list (map f xs) :: nat)"
  by (metis mset_map mset_sort sum_mset_sum_list)

lemma text_bound_canon: "fits d j \<Longrightarrow> text_bound (canon j) = text_bound j"
proof (induction d j rule: fits_induct)
  case (arr d vs)
  then show ?case by (simp add: comp_def cong: map_cong)
next
  case (obj d kvs)
  then show ?case by (simp add: sum_list_sort comp_def cong: map_cong)
qed simp_all

theorem length_canonical_text: "fits d j \<Longrightarrow> length (canonical_text j) \<le> text_bound j"
  using length_print [of False "canon j"] by (simp add: canonical_text_def text_bound_canon)

text \<open>The bound of a struct, member by member.\<close>

lemma text_bound_struct [simp]:
  "text_bound (struct fs) \<le> 2 + sum_list (map (\<lambda>f. 6 * length (fst f) + 4 + text_bound (snd (snd f))) fs)"
proof -
  have "sum_list (map (\<lambda>kv. 6 * length (fst kv) + 4 + text_bound (snd kv)) (members fs))
      \<le> sum_list (map (\<lambda>f. 6 * length (fst f) + 4 + text_bound (snd (snd f))) fs)"
    by (induction fs) (auto simp: members_def)
  then show ?thesis by (simp add: struct_def)
qed


lemma length_show_nat: "n < 10 ^ Suc k \<Longrightarrow> length (show_nat n) \<le> Suc k"
proof (induction n arbitrary: k rule: show_nat.induct)
  case (1 n)
  show ?case
  proof (cases "n < 10")
    case True
    then show ?thesis by (simp add: show_nat.simps [of n])
  next
    case False
    then obtain m where k: "k = Suc m" using "1.prems" by (cases k) auto
    have "length (show_nat (n div 10)) \<le> Suc m"
      using 1 False by (simp add: k less_mult_imp_div_less)
    with False k show ?thesis by (simp add: show_nat.simps [of n])
  qed
qed

lemma length_show_int: "in_int64 i \<Longrightarrow> length (show_int i) \<le> 20"
proof -
  assume "in_int64 i"
  then have "nat \<bar>i\<bar> < 10 ^ Suc 18" by (auto simp: in_int64_def)
  from length_show_nat [OF this] show ?thesis by (auto simp: show_int_def)
qed

lemma text_bound_JInt: "in_int64 i \<Longrightarrow> text_bound (JInt i) \<le> 20"
  by (simp add: JInt_def length_show_int)

end
