(* ===== verification/AuthorizationFacts.thy ===== *)
theory AuthorizationFacts
  imports Authorization TextSize
begin

text \<open>
  Stage grants: the codec of the signed envelope, what a verified grant establishes, and the
  agreement of verification with the later rebinding and with the delegated receiver.
\<close>

section \<open>The codec\<close>

definition ok_grant_link :: "StagePredecessor \<Rightarrow> bool" where
  "ok_grant_link p \<longleftrightarrow> valid_utf8 (sq_StageID p) \<and> valid_utf8 (sq_OutcomeDigest p)"

definition ok_payload :: "StagePayload \<Rightarrow> bool" where
  "ok_payload p \<longleftrightarrow> list_all valid_utf8 [sp_Audience p, sp_GrantID p, sp_Decision p, sp_PlanDigest p,
       sp_ContractRevision p, sp_EnablementRevision p, sp_PlatformRevision p, sp_ExecutionFixture p,
       sp_ExecutionAttempt p, sp_StageID p, sp_StageDigest p, sp_Operation p, sp_Authority p,
       sp_NotBefore p, sp_NotAfter p]
     \<and> ok_identity (sp_ContractIdentity p) \<and> list_all ok_grant_link (elems (sp_Predecessors p))
     \<and> in_int64 (sp_StageOrder p) \<and> in_int64 (sp_MaxUses p)"

definition ok_envelope :: "stageEnvelope \<Rightarrow> bool" where
  "ok_envelope e \<longleftrightarrow> valid_utf8 (ev_Format e) \<and> ok_payload (ev_Payload e)
     \<and> list_all valid_utf8 [sg_Algorithm (ev_Signature e), sg_KeyID (ev_Signature e), sg_Value (ev_Signature e)]"

lemma dec_grant_link_canon [simp]:
  "dec_stage_predecessor zero_stage_predecessor (canon (enc_stage_predecessor p)) = Some p"
  by (simp add: dec_stage_predecessor_def enc_stage_predecessor_def zero_stage_predecessor_def struct_codec)

lemma fits_grant_link: "ok_grant_link p \<Longrightarrow> 0 < d \<Longrightarrow> fits d (enc_stage_predecessor p)"
  by (simp add: enc_stage_predecessor_def ok_grant_link_def fits_codec)

lemma dec_payload_canon:
  assumes "in_int64 (sp_StageOrder p)" and "in_int64 (sp_MaxUses p)"
  shows "dec_payload zero_payload (canon (enc_payload p)) = Some p"
proof -
  have "dec_slice dec_stage_predecessor zero_stage_predecessor None
      (canon (JSlice enc_stage_predecessor (sp_Predecessors p))) = Some (sp_Predecessors p)"
    by (rule dec_slice_canon) simp
  with assms show ?thesis
    by (simp add: dec_payload_def enc_payload_def payload_fields_def zero_payload_def struct_codec)
qed

lemma dec_signature_canon [simp]: "dec_signature zero_signature (canon (enc_signature g)) = Some g"
  by (simp add: dec_signature_def enc_signature_def zero_signature_def struct_codec)

lemma dec_envelope_canon: "ok_envelope e \<Longrightarrow> dec_envelope (canon (enc_envelope e)) = Some e"
  by (simp add: dec_envelope_def enc_envelope_def ok_envelope_def ok_payload_def dec_payload_canon struct_codec)

lemma fits_payload:
  assumes "ok_payload p" and "4 \<le> k"
  shows "fits k (enc_payload p)"
proof -
  have "fits (k - 1) (JSlice enc_stage_predecessor (sp_Predecessors p))"
    using assms by (auto simp: fits_JSlice ok_payload_def list_all_iff intro!: fits_grant_link)
  moreover have "fits (k - 1) (enc_identity (sp_ContractIdentity p))"
    using assms by (simp add: ok_payload_def fits_identity)
  ultimately show ?thesis
    using assms by (simp add: enc_payload_def ok_payload_def fits_struct valid_utf8_ascii is_ascii_def)
qed

lemma fits_envelope: "ok_envelope e \<Longrightarrow> fits 16 (enc_envelope e)"
  by (simp add: enc_envelope_def enc_signature_def ok_envelope_def fits_codec fits_payload)

interpretation envelope_codec: json_codec enc_envelope dec_envelope ok_envelope
  by unfold_locales (simp_all add: fits_envelope dec_envelope_canon)

interpretation payload_codec: json_codec enc_payload "dec_payload zero_payload" ok_payload
  by unfold_locales (simp_all add: fits_payload dec_payload_canon ok_payload_def)

section \<open>Predecessors\<close>

definition grants_after :: "string \<Rightarrow> string \<Rightarrow> Verified \<Rightarrow> bool" where
  "grants_after planDigest q p \<longleftrightarrow> v_verified p \<and> digestPattern (v_digest p)
     \<and> rc_PlanDigest (v_receipt p) = planDigest \<and> rc_State (v_receipt p) = ''SUCCEEDED''
     \<and> rc_StageID (v_receipt p) = q"

definition grant_link :: "Verified \<Rightarrow> StagePredecessor" where
  "grant_link p = \<lparr>sq_StageID = rc_StageID (v_receipt p), sq_OutcomeDigest = v_digest p\<rparr>"

lemma stage_predecessor_bindings_iff:
  "length qs = length ps \<Longrightarrow> stage_predecessor_bindings pd qs ps = Inr bs \<longleftrightarrow>
    list_all2 (grants_after pd) qs ps \<and> bs = map grant_link ps"
proof (induction qs ps arbitrary: bs rule: list_induct2)
  case (Cons q qs p ps)
  have "stage_predecessor_bindings pd (q # qs) (p # ps) = Inr bs \<longleftrightarrow>
      grants_after pd q p \<and> (\<exists>ks. stage_predecessor_bindings pd qs ps = Inr ks \<and> bs = grant_link p # ks)"
    by (auto simp: Verified_Receipt_def Verified_Digest_def grants_after_def grant_link_def bindE_eq_Inr)
  with Cons.IH show ?case by auto
qed auto

lemma verifiedStagePredecessors_iff:
  "verifiedStagePredecessors expected required pd = Inr (bs, d) \<longleftrightarrow>
    (\<exists>ps. expected = Some ps \<and> list_all2 (grants_after pd) required ps \<and> bs = map grant_link ps
      \<and> predecessor_digest bs = Inr d)"
proof (cases expected)
  case (Some ps)
  show ?thesis
  proof (cases "length ps = length required")
    case True
    then show ?thesis
      using stage_predecessor_bindings_iff [of required ps pd]
      by (auto simp: Some verifiedStagePredecessors_def bindE_eq_Inr)
  next
    case False
    then show ?thesis by (auto simp: Some verifiedStagePredecessors_def dest: list_all2_lengthD)
  qed
qed (simp add: verifiedStagePredecessors_def)

lemma equal_links: "list_all2 (\<lambda>p b. p = b \<and> digestPattern (sq_OutcomeDigest p)) xs ys \<longleftrightarrow>
    xs = ys \<and> list_all (\<lambda>p. digestPattern (sq_OutcomeDigest p)) ys"
proof (induction xs arbitrary: ys)
  case (Cons x xs)
  then show ?case by (cases ys) (simp_all, blast)
qed auto

lemma verifyStagePredecessors_iff:
  "verifyStagePredecessors payload expected required pd = Inr d \<longleftrightarrow>
    (\<exists>ps. expected = Some ps \<and> list_all2 (grants_after pd) required ps
      \<and> payload = Some (map grant_link ps) \<and> predecessor_digest (map grant_link ps) = Inr d)"
proof -
  have digests: "list_all2 (grants_after pd) required ps \<Longrightarrow>
      list_all (\<lambda>p. digestPattern (sq_OutcomeDigest p)) (map grant_link ps)" for ps
    by (induction rule: list_all2_induct) (auto simp: grants_after_def grant_link_def)
  have len: "list_all2 (grants_after pd) required ps \<Longrightarrow> length ps = length required" for ps
    by (metis list_all2_lengthD)
  have pay: "payload \<noteq> None \<and> elems payload = xs \<longleftrightarrow> payload = Some xs" for xs
    by (cases payload) simp_all
  have "verifyStagePredecessors payload expected required pd = Inr d \<longleftrightarrow>
      (payload \<noteq> None \<and> expected \<noteq> None \<and> length (elems payload) = length required
       \<and> length (elems expected) = length required
       \<and> (\<exists>ps. expected = Some ps \<and> list_all2 (grants_after pd) required ps
           \<and> elems payload = map grant_link ps
           \<and> list_all (\<lambda>p. digestPattern (sq_OutcomeDigest p)) (map grant_link ps)
           \<and> predecessor_digest (map grant_link ps) = Inr d))"
    unfolding verifyStagePredecessors_def Inr_conv equal_links split_paired_Ex prod.case
      verifiedStagePredecessors_iff by blast
  also have "\<dots> \<longleftrightarrow> (\<exists>ps. expected = Some ps \<and> list_all2 (grants_after pd) required ps
      \<and> payload = Some (map grant_link ps) \<and> predecessor_digest (map grant_link ps) = Inr d)"
    (is "?l \<longleftrightarrow> ?r")
  proof
    assume ?l
    then obtain ps where "payload \<noteq> None" "expected = Some ps" "list_all2 (grants_after pd) required ps"
      "elems payload = map grant_link ps" "predecessor_digest (map grant_link ps) = Inr d" by blast
    moreover from this have "payload = Some (map grant_link ps)" by (cases payload) simp_all
    ultimately show ?r by blast
  next
    assume ?r
    then obtain ps where ps: "expected = Some ps" "list_all2 (grants_after pd) required ps"
      "payload = Some (map grant_link ps)" "predecessor_digest (map grant_link ps) = Inr d" by blast
    with digests [OF ps(2)] len [OF ps(2)] show ?l by simp
  qed
  finally show ?thesis .
qed

section \<open>What a verified grant establishes\<close>

text \<open>The window of a grant: well formed, at most thirty minutes, and open at the evaluation time.\<close>

definition active_window :: "string \<Rightarrow> string \<Rightarrow> time \<Rightarrow> bool" where
  "active_window nb na at \<longleftrightarrow> (\<exists>b a. parse_rfc3339 nb = Some b \<and> parse_rfc3339 na = Some a
     \<and> after a b \<and> sub_time a b \<le> MaximumWindow \<and> \<not> before at b \<and> before at a)"

definition decides :: "StagePayload \<Rightarrow> Binding \<Rightarrow> Stage \<Rightarrow> string \<Rightarrow> bool" where
  "decides p plan s d \<longleftrightarrow> sp_Audience p = StageAudience \<and> sp_Decision p = ''ALLOW'' \<and> sp_MaxUses p = 1
     \<and> stageGrantIDPattern (sp_GrantID p)
     \<and> sp_PlanDigest p = b_PlanDigest plan \<and> sp_ContractIdentity p = b_ContractIdentity plan
     \<and> sp_ContractRevision p = b_IntentRevision plan \<and> sp_EnablementRevision p = b_EnablementRevision plan
     \<and> sp_PlatformRevision p = b_PlatformRevision plan \<and> sp_ExecutionFixture p = b_ExecutionFixture plan
     \<and> sp_ExecutionAttempt p = b_ExecutionAttempt plan
     \<and> sp_StageID p = s_ID s \<and> sp_StageOrder p = s_Order s \<and> sp_StageDigest p = d
     \<and> sp_Operation p = s_GrantOperation s \<and> sp_Authority p = s_Authority s"

lemma verifyStagePayload_iff:
  "verifyStagePayload p plan s sd expected at = Inr d \<longleftrightarrow> decides p plan s sd
     \<and> (\<exists>ps. expected = Some ps \<and> list_all2 (grants_after (b_PlanDigest plan)) (elems (s_Requires s)) ps
         \<and> sp_Predecessors p = Some (map grant_link ps) \<and> predecessor_digest (map grant_link ps) = Inr d)
     \<and> active_window (sp_NotBefore p) (sp_NotAfter p) at"
  unfolding verifyStagePayload_def Inr_conv verifyStagePredecessors_iff decides_def active_window_def
    not_less
  by (rule iffI; (elim conjE exE); hypsubst?; (intro conjI exI; (assumption | rule refl)))

definition format_matches :: "string \<Rightarrow> string \<Rightarrow> bool" where
  "format_matches plan grant \<longleftrightarrow> (grant = StageFormat \<or> grant = StageFormatV2)
     \<and> (plan = BindingFormat \<longrightarrow> grant = StageFormat) \<and> (plan = BindingFormatV2 \<longrightarrow> grant = StageFormatV2)"

definition signed_by :: "(string \<Rightarrow> string \<Rightarrow> string \<Rightarrow> bool) \<Rightarrow> string \<Rightarrow> string \<Rightarrow> stageEnvelope \<Rightarrow> bool" where
  "signed_by sigcheck pk keyID e \<longleftrightarrow> sg_Algorithm (ev_Signature e) = ''Ed25519''
     \<and> sg_KeyID (ev_Signature e) = keyID
     \<and> (\<exists>sig m. base64_decode (sg_Value (ev_Signature e)) = Some sig
         \<and> StageSigningBytes (ev_Payload e) = Inr m \<and> sigcheck pk m sig)"

lemma VerifyStage_iff:
  "VerifyStage sigcheck raw keyRaw plan sid expected at = Inr g \<longleftrightarrow>
    (\<exists>s sd e pk keyID d. Binding_Stage plan sid = Inr (s, sd) \<and> IsMutating s
      \<and> strict_decode dec_envelope raw = Inr e \<and> format_matches (b_Format plan) (ev_Format e)
      \<and> parsePublicKey keyRaw = Inr (pk, keyID) \<and> signed_by sigcheck pk keyID e
      \<and> verifyStagePayload (ev_Payload e) plan s sd expected at = Inr d
      \<and> g = grant_of (ev_Payload e) (ev_Format e) raw keyID plan s sd d)"
  unfolding VerifyStage_def Inr_conv signed_by_def format_matches_def by auto


text \<open>
  C4: a verified grant is an exact, signed, single-use decision. The envelope decodes strictly, its
  format fits the plan, the trusted key whose digest is the key id accepts the signature over the
  canonical payload, the payload allows exactly one use of exactly this mutating stage of exactly this
  plan, its predecessors are the verified successful receipts the stage requires, in order, and its
  window of at most thirty minutes is open. The grant records the digest of the very bytes verified.
\<close>

theorem VerifyStage_sound:
  assumes "VerifyStage sigcheck raw keyRaw plan sid expected at = Inr g"
  shows "vg_verified g \<and> SignedEnvelope g = raw \<and> sc_AuthorizationDigest (vg_binding g) = SHA256 raw
    \<and> (\<exists>s sd e pk ps. Binding_Stage plan sid = Inr (s, sd) \<and> IsMutating s
        \<and> strict_decode dec_envelope raw = Inr e \<and> format_matches (b_Format plan) (ev_Format e)
        \<and> parsePublicKey keyRaw = Inr (pk, sc_KeyID (vg_binding g)) \<and> sc_KeyID (vg_binding g) = SHA256 pk
        \<and> signed_by sigcheck pk (sc_KeyID (vg_binding g)) e
        \<and> decides (ev_Payload e) plan s sd \<and> active_window (sp_NotBefore (ev_Payload e)) (sp_NotAfter (ev_Payload e)) at
        \<and> expected = Some ps \<and> list_all2 (grants_after (b_PlanDigest plan)) (elems (s_Requires s)) ps
        \<and> sp_Predecessors (ev_Payload e) = Some (map grant_link ps)
        \<and> predecessor_digest (map grant_link ps) = Inr (sc_PredecessorDigest (vg_binding g)))"
proof -
  from assms obtain s sd e pk keyID d where f: "Binding_Stage plan sid = Inr (s, sd)" "IsMutating s"
    "strict_decode dec_envelope raw = Inr e" "format_matches (b_Format plan) (ev_Format e)"
    "parsePublicKey keyRaw = Inr (pk, keyID)" "signed_by sigcheck pk keyID e"
    and v: "verifyStagePayload (ev_Payload e) plan s sd expected at = Inr d"
    and g: "g = grant_of (ev_Payload e) (ev_Format e) raw keyID plan s sd d"
    unfolding VerifyStage_iff by blast
  have "keyID = SHA256 pk"
    using f(5) by (auto simp: parsePublicKey_def split: option.splits if_splits)
  with f v [unfolded verifyStagePayload_iff] show ?thesis
    by (auto simp: g grant_of_def SignedEnvelope_def)
qed

section \<open>Rebinding before the claim\<close>

lemma grant_of_simps [simp]:
  "vg_verified (grant_of p f raw k plan s sd d)"
  "sc_PlanDigest (vg_binding (grant_of p f raw k plan s sd d)) = b_PlanDigest plan"
  "sc_StageID (vg_binding (grant_of p f raw k plan s sd d)) = s_ID s"
  "sc_StageDigest (vg_binding (grant_of p f raw k plan s sd d)) = sd"
  "sc_Operation (vg_binding (grant_of p f raw k plan s sd d)) = s_GrantOperation s"
  "sc_Authority (vg_binding (grant_of p f raw k plan s sd d)) = s_Authority s"
  "sc_PredecessorDigest (vg_binding (grant_of p f raw k plan s sd d)) = d"
  "sc_ContractRevision (vg_binding (grant_of p f raw k plan s sd d)) = b_IntentRevision plan"
  "sc_ExecutionAttempt (vg_binding (grant_of p f raw k plan s sd d)) = sp_ExecutionAttempt p"
  "sc_AuthorizationDigest (vg_binding (grant_of p f raw k plan s sd d)) = SHA256 raw"
  "sc_KeyID (vg_binding (grant_of p f raw k plan s sd d)) = k"
  "sc_GrantID (vg_binding (grant_of p f raw k plan s sd d)) = sp_GrantID p"
  "sc_NotBefore (vg_binding (grant_of p f raw k plan s sd d)) = sp_NotBefore p"
  "sc_NotAfter (vg_binding (grant_of p f raw k plan s sd d)) = sp_NotAfter p"
  by (simp_all add: grant_of_def)

lemma BindStageGrant_iff:
  "BindStageGrant g plan sid expected = Inr b \<longleftrightarrow> vg_verified g \<and> b = vg_binding g
     \<and> (\<exists>s sd bs. Binding_Stage plan sid = Inr (s, sd) \<and> IsMutating s
         \<and> verifiedStagePredecessors expected (elems (s_Requires s)) (b_PlanDigest plan)
             = Inr (bs, sc_PredecessorDigest b)
         \<and> sc_PlanDigest b = b_PlanDigest plan \<and> sc_StageID b = s_ID s \<and> sc_StageDigest b = sd
         \<and> sc_Operation b = s_GrantOperation s \<and> sc_Authority b = s_Authority s
         \<and> sc_ContractRevision b = b_IntentRevision plan \<and> sc_ExecutionAttempt b = b_ExecutionAttempt plan)"
  unfolding BindStageGrant_def ConsumptionBinding_def Inr_conv by auto

lemma verified_grant_binds:
  assumes "VerifyStage sigcheck raw keyRaw plan sid expected at = Inr g"
  shows "BindStageGrant g plan sid expected = Inr (vg_binding g)"
  using assms unfolding VerifyStage_iff verifyStagePayload_iff BindStageGrant_iff verifiedStagePredecessors_iff
  by (auto simp: decides_def)

text \<open>
  A verified grant binds again to the stage, plan and predecessors it was verified for, and to
  no other: rebinding succeeds there with the same consumption binding, and wherever it succeeds the
  plan digest, the contract revision and the stage are those of the verification.
\<close>

theorem grant_binds_only_its_stage:
  assumes "VerifyStage sigcheck raw keyRaw plan sid expected at = Inr g"
  shows "BindStageGrant g plan sid expected = Inr (vg_binding g)
    \<and> (\<forall>plan' sid' expected' b. BindStageGrant g plan' sid' expected' = Inr b \<longrightarrow>
        b = vg_binding g \<and> sid' = sid \<and> b_PlanDigest plan' = b_PlanDigest plan
        \<and> b_IntentRevision plan' = b_IntentRevision plan)"
proof -
  from assms obtain s sd e keyID d where "strict_decode dec_envelope raw = Inr e" and f: "Binding_Stage plan sid = Inr (s, sd)"
    and g: "g = grant_of (ev_Payload e) (ev_Format e) raw keyID plan s sd d"
    unfolding VerifyStage_iff by blast
  show ?thesis
    using verified_grant_binds [OF assms] Binding_Stage_facts(2) [OF f]
    by (auto simp: BindStageGrant_iff g dest: Binding_Stage_facts(2))
qed


section \<open>The delegated receiver\<close>

text \<open>The expectation a receiver derives from the plan it trusts and the grant it was promised.\<close>

definition expectation_of :: "Binding \<Rightarrow> Stage \<Rightarrow> StageConsumptionBinding \<Rightarrow> StageDispatchExpectation" where
  "expectation_of plan s b = \<lparr>
     dx_AuthorizationDigest = sc_AuthorizationDigest b, dx_AuthorizationKeyID = sc_KeyID b,
     dx_GrantID = sc_GrantID b, dx_PlanDigest = sc_PlanDigest b,
     dx_ContractIdentity = b_ContractIdentity plan, dx_ContractRevision = sc_ContractRevision b,
     dx_EnablementRevision = b_EnablementRevision plan, dx_PlatformRevision = b_PlatformRevision plan,
     dx_ExecutionFixture = b_ExecutionFixture plan, dx_ExecutionAttempt = sc_ExecutionAttempt b,
     dx_StageID = sc_StageID b, dx_StageOrder = s_Order s, dx_StageDigest = sc_StageDigest b,
     dx_Operation = sc_Operation b, dx_Authority = sc_Authority b,
     dx_PredecessorDigest = sc_PredecessorDigest b, dx_RequiredPredecessors = Some (elems (s_Requires s))\<rparr>"

lemma case_both_eq_Inr:
  "(case (x, y) of (Some a, Some b) \<Rightarrow> f a b | _ \<Rightarrow> Inl e) = Inr z
    \<longleftrightarrow> (\<exists>a b. x = Some a \<and> y = Some b \<and> f a b = Inr z)"
  by (cases x; cases y) simp_all

definition expects :: "StageDispatchExpectation \<Rightarrow> StagePayload \<Rightarrow> bool" where
  "expects x p \<longleftrightarrow> sp_Audience p = StageAudience \<and> sp_Decision p = ''ALLOW'' \<and> sp_MaxUses p = 1
     \<and> sp_GrantID p = dx_GrantID x \<and> sp_PlanDigest p = dx_PlanDigest x
     \<and> sp_ContractIdentity p = dx_ContractIdentity x \<and> sp_ContractRevision p = dx_ContractRevision x
     \<and> sp_EnablementRevision p = dx_EnablementRevision x \<and> sp_PlatformRevision p = dx_PlatformRevision x
     \<and> sp_ExecutionFixture p = dx_ExecutionFixture x \<and> sp_ExecutionAttempt p = dx_ExecutionAttempt x
     \<and> sp_StageID p = dx_StageID x \<and> sp_StageOrder p = dx_StageOrder x
     \<and> sp_StageDigest p = dx_StageDigest x \<and> sp_Operation p = dx_Operation x
     \<and> sp_Authority p = dx_Authority x"

lemma dispatch_iff:
  "VerifyStageDispatchAuthorization sigcheck raw keyRaw x at = Inr () \<longleftrightarrow>
    (\<exists>pk keyID e sig m. parsePublicKey keyRaw = Inr (pk, keyID) \<and> length pk = 32 \<and> \<not> is_zero_time at
      \<and> validDispatchExpectation x keyID \<and> raw \<noteq> [] \<and> length raw \<le> maximumStageGrantBytes
      \<and> SHA256 raw = dx_AuthorizationDigest x \<and> strict_decode dec_envelope raw = Inr e
      \<and> (ev_Format e = StageFormat \<or> ev_Format e = StageFormatV2)
      \<and> sg_Algorithm (ev_Signature e) = ''Ed25519'' \<and> sg_KeyID (ev_Signature e) = keyID
      \<and> sg_KeyID (ev_Signature e) = dx_AuthorizationKeyID x
      \<and> base64_decode (sg_Value (ev_Signature e)) = Some sig \<and> length sig = 64
      \<and> StageSigningBytes (ev_Payload e) = Inr m \<and> sigcheck pk m sig \<and> expects x (ev_Payload e)
      \<and> active_window (sp_NotBefore (ev_Payload e)) (sp_NotAfter (ev_Payload e)) at
      \<and> dispatchPredecessorDigest (sp_Predecessors (ev_Payload e)) (dx_RequiredPredecessors x)
          = Inr (dx_PredecessorDigest x))"
  unfolding VerifyStageDispatchAuthorization_def Inr_conv case_both_eq_Inr expects_def active_window_def
    not_less length_0_conv
  by ((rule iffI; elim conjE exE; hypsubst?), (intro conjI exI, (assumption | rule refl)+)+)


lemma strict_decode_empty: "strict_decode dec [] \<noteq> Inr a"
  by (simp add: strict_decode_def parse_json_def lex.simps parse_tokens_def)

lemma dispatch_predecessors:
  assumes "list_all2 (grants_after pd) qs ps" and "predecessor_digest (map grant_link ps) = Inr d"
  shows "dispatchPredecessorDigest (Some (map grant_link ps)) (Some qs) = Inr d"
proof -
  have "list_all2 (\<lambda>p q. sq_StageID p = q \<and> digestPattern (sq_OutcomeDigest p)) (map grant_link ps) qs"
    using assms(1) by (induction rule: list_all2_induct) (auto simp: grants_after_def grant_link_def)
  with assms(2) show ?thesis
    by (auto simp: dispatchPredecessorDigest_def dest: list_all2_lengthD)
qed

lemma stage_fields_nonempty:
  assumes v: "Verify rawPlan ex = Inr plan" and s: "s \<in> set (elems (b_Stages plan))"
  shows "0 < s_Order s" "s_ID s \<noteq> []" "s_Authority s \<noteq> []"
proof -
  have r: "list_all (\<lambda>r. r_id r \<noteq> [] \<and> r_authority r \<noteq> []) requiredSequence"
    by (simp add: requiredSequence_def rule_def)
  from s obtain i where i: "i < length (elems (b_Stages plan))" "s = elems (b_Stages plan) ! i"
    by (auto simp: in_set_conv_nth)
  with plan_sequence [OF v] have "rule_matches i (requiredSequence ! i) s" "i < length requiredSequence"
    by (auto simp: Let_def length_requiredSequence)
  with r show "0 < s_Order s" "s_ID s \<noteq> []" "s_Authority s \<noteq> []"
    by (auto simp: rule_matches_def list_all_length)
qed

text \<open>
  C34: the two verifiers agree. Every grant that the executor verified for a stage of a verified plan
  is accepted at the same time by a delegated receiver that trusts the same key and expects that
  plan, stage and grant. The receiver needs the 64-byte signature length that Ed25519 itself checks
  (hypothesis \<open>len\<close>) and its own size bound on the envelope.
\<close>

theorem dispatch_agrees:
  assumes len: "\<And>k m sig. sigcheck k m sig \<Longrightarrow> length sig = 64"
    and plan: "Verify rawPlan ex = Inr plan"
    and grant: "VerifyStage sigcheck raw keyRaw plan sid expected at = Inr g"
    and bounds: "length raw \<le> maximumStageGrantBytes" "\<not> is_zero_time at"
  shows "\<exists>s sd. Binding_Stage plan sid = Inr (s, sd)
    \<and> VerifyStageDispatchAuthorization sigcheck raw keyRaw (expectation_of plan s (vg_binding g)) at = Inr ()"
proof -
  from grant obtain s sd e pk keyID d where f: "Binding_Stage plan sid = Inr (s, sd)" "IsMutating s"
    "strict_decode dec_envelope raw = Inr e" "format_matches (b_Format plan) (ev_Format e)"
    and key: "parsePublicKey keyRaw = Inr (pk, keyID)" and sg: "signed_by sigcheck pk keyID e"
    and v: "verifyStagePayload (ev_Payload e) plan s sd expected at = Inr d"
    and g: "g = grant_of (ev_Payload e) (ev_Format e) raw keyID plan s sd d"
    unfolding VerifyStage_iff by blast
  let ?p = "ev_Payload e" and ?x = "expectation_of plan s (vg_binding g)"
  from v [unfolded verifyStagePayload_iff] obtain ps where p: "decides ?p plan s sd"
    "list_all2 (grants_after (b_PlanDigest plan)) (elems (s_Requires s)) ps"
    "sp_Predecessors ?p = Some (map grant_link ps)" "predecessor_digest (map grant_link ps) = Inr d"
    "active_window (sp_NotBefore ?p) (sp_NotAfter ?p) at" by blast
  from key have pk: "length pk = 32" "keyID = SHA256 pk"
    by (auto simp: parsePublicKey_def split: option.splits if_splits)
  from sg obtain sig m where sig: "sg_Algorithm (ev_Signature e) = ''Ed25519''"
    "sg_KeyID (ev_Signature e) = keyID" "base64_decode (sg_Value (ev_Signature e)) = Some sig"
    "StageSigningBytes ?p = Inr m" "sigcheck pk m sig" by (auto simp: signed_by_def)
  from plan have ex: "i_Name (b_ContractIdentity plan) \<noteq> []" "i_Namespace (b_ContractIdentity plan) \<noteq> []"
    by (auto simp: plan_digests(6) [OF plan] Verify_eq_Inr ValidateExpected_iff)
  have pd: "digestPattern d" using p(4) by (auto simp: predecessor_digest_def dest: canonical_digest_pattern)
  have x: "validDispatchExpectation ?x keyID"
    using p(1) pk ex pd plan_digests(1-5) [OF plan] Binding_Stage_facts(2,4) [OF f(1)]
      stage_fields_nonempty [OF plan Binding_Stage_facts(1) [OF f(1)]] f(2) IsMutating_iff_operation [of s]
    by (auto simp: validDispatchExpectation_def expectation_of_def g decides_def digest_pattern_nonempty)
  have raw: "raw \<noteq> []" using f(3) by (auto simp: strict_decode_empty)
  have "expects ?x ?p" using p(1) by (simp add: expects_def expectation_of_def g decides_def)
  moreover have "dispatchPredecessorDigest (sp_Predecessors ?p) (dx_RequiredPredecessors ?x) = Inr (dx_PredecessorDigest ?x)"
    using dispatch_predecessors [OF p(2,4)] by (simp add: p(3) expectation_of_def g)
  moreover have "SHA256 raw = dx_AuthorizationDigest ?x" "dx_AuthorizationKeyID ?x = keyID"
    by (simp_all add: expectation_of_def g)
  ultimately have "VerifyStageDispatchAuthorization sigcheck raw keyRaw ?x at = Inr ()"
    unfolding dispatch_iff using key pk(1) bounds x raw f(3,4) sig len [OF sig(5)] p(5)
    by (auto simp: format_matches_def)
  with f(1) show ?thesis by blast
qed


section \<open>A concrete grant\<close>

definition sample_sigcheck :: "string \<Rightarrow> string \<Rightarrow> string \<Rightarrow> bool" where
  "sample_sigcheck k m sig \<longleftrightarrow> length sig = 64"

definition sample_key :: string where "sample_key = replicate 32 (CHR 0x00)"

definition sample_payload :: StagePayload where
  "sample_payload = \<lparr>sp_Audience = StageAudience, sp_GrantID = ''grant-1'', sp_Decision = ''ALLOW'',
     sp_PlanDigest = b_PlanDigest sample_binding, sp_ContractIdentity = b_ContractIdentity sample_binding,
     sp_ContractRevision = b_IntentRevision sample_binding,
     sp_EnablementRevision = b_EnablementRevision sample_binding,
     sp_PlatformRevision = b_PlatformRevision sample_binding,
     sp_ExecutionFixture = b_ExecutionFixture sample_binding,
     sp_ExecutionAttempt = b_ExecutionAttempt sample_binding, sp_StageID = s_ID sample_stage1,
     sp_StageOrder = s_Order sample_stage1,
     sp_StageDigest = SHA256 (canonical_text (enc_stage sample_stage1)),
     sp_Operation = s_GrantOperation sample_stage1, sp_Authority = s_Authority sample_stage1,
     sp_Predecessors = Some [], sp_NotBefore = format_rfc3339nano 0,
     sp_NotAfter = format_rfc3339nano (10 * minute), sp_MaxUses = 1\<rparr>"

definition sample_envelope :: stageEnvelope where
  "sample_envelope = \<lparr>ev_Format = StageFormat, ev_Payload = sample_payload,
     ev_Signature = \<lparr>sg_Algorithm = ''Ed25519'', sg_KeyID = SHA256 sample_key,
       sg_Value = base64_encode (replicate 64 (CHR 0x00))\<rparr>\<rparr>"

definition sample_grant_raw :: string where
  "sample_grant_raw = canonical_text (enc_envelope sample_envelope)"

definition sample_public :: string where
  "sample_public = base64_encode sample_key"

definition sample_grant_result :: "VerifiedStageGrant result" where
  "sample_grant_result = VerifyStage sample_sigcheck sample_grant_raw sample_public sample_binding
     ''provider-prerequisites'' (Some []) minute"

definition sample_grant :: VerifiedStageGrant where
  "sample_grant = grant_of sample_payload StageFormat sample_grant_raw (SHA256 sample_key)
     sample_binding sample_stage1 (SHA256 (canonical_text (enc_stage sample_stage1)))
     (SHA256 (canonical_text (JArr [])))"

lemma sample_public_key: "parsePublicKey sample_public = Inr (sample_key, SHA256 sample_key)"
proof -
  have "trim_space sample_public = sample_public"
    unfolding sample_public_def by (rule trim_space_visible [OF base64_visible])
  then show ?thesis
    by (simp add: parsePublicKey_def sample_public_def base64_decode_encode sample_key_def)
qed

lemma sample_envelope_ok: "ok_envelope sample_envelope"
proof -
  have s: "ok_stage sample_stage1"
    using stage_lookup [OF sample_verified(1)] sample_stage1_member Binding_Stage_facts(3) by blast
  have b: "valid_utf8 (base64_encode (replicate 64 (CHR 0x00)))"
    using base64_visible [of "replicate 64 (CHR 0x00)"] by (intro valid_utf8_ascii) (simp add: list_all_iff)
  have l: "valid_utf8 StageFormat" "valid_utf8 StageAudience" "valid_utf8 ''grant-1''" "valid_utf8 ''ALLOW''"
    "valid_utf8 ''Ed25519''" "valid_utf8 (x_ExecutionAttemptDigest sample_expected)"
    by (simp_all add: valid_utf8_ascii is_ascii_def StageFormat_def StageAudience_def sample_expected_def)
  have p: "ok_payload sample_payload"
    unfolding ok_payload_def sample_payload_def
    using s sample_identity l plan_digests(1-5) [OF sample_verified(1)]
    by (simp add: valid_utf8_digest valid_utf8_ascii format_ascii plan_digests(6,8) [OF sample_verified(1)]
        ok_stage_def in_int64_def)
  show ?thesis
    unfolding ok_envelope_def sample_envelope_def using b l p by (simp add: valid_utf8_digest)
qed

lemma sample_predecessors: "predecessor_digest (map grant_link []) = Inr (SHA256 (canonical_text (JArr [])))"
  by (simp add: predecessor_digest_def canonical_digest_eq max_nesting_depth_def)

lemma sample_window: "active_window (format_rfc3339nano 0) (format_rfc3339nano (10 * minute)) minute"
  by (simp add: active_window_def parse_format valid_time_def nanosecond_per_second_def minute_def after_def
      before_def sub_time_def MaximumWindow_def)

lemma sample_stage1_lookup: "Binding_Stage sample_binding ''provider-prerequisites''
    = Inr (sample_stage1, SHA256 (canonical_text (enc_stage sample_stage1)))"
  using stage_lookup [OF sample_verified(1)] sample_stage1_member sample_stage1_fields(1) by metis

lemma sample_format: "b_Format sample_binding = BindingFormat"
proof -
  from sample_verified(1) obtain s pd dg where c: "check_document s sample_expected = Inr ()"
    and b: "sample_binding = bind_document s pd dg" unfolding Verify_eq_Inr by blast
  have "x_ExecutionAttemptDigest sample_expected = ''''" by (simp add: sample_expected_def)
  with c have "d_Format s \<noteq> FormatV2"
    unfolding check_document_def Inr_conv
    by (auto simp: Format_def FormatV2_def FormatRecovery_def)
  then show ?thesis unfolding b by (simp add: bind_document_def)
qed

lemma sample_grant_verified:
  "VerifyStage sample_sigcheck sample_grant_raw sample_public sample_binding ''provider-prerequisites''
     (Some []) minute = Inr sample_grant"
proof -
  have "strict_decode dec_envelope sample_grant_raw = Inr sample_envelope"
    unfolding sample_grant_raw_def by (rule envelope_codec.strict [OF sample_envelope_ok])
  moreover have "format_matches (b_Format sample_binding) (ev_Format sample_envelope)"
    by (simp add: format_matches_def sample_envelope_def sample_format StageFormat_def StageFormatV2_def
        BindingFormat_def BindingFormatV2_def)
  moreover have "signed_by sample_sigcheck sample_key (SHA256 sample_key) sample_envelope"
    using payload_codec.canonical [of sample_payload] sample_envelope_ok
    by (simp add: signed_by_def sample_envelope_def ok_envelope_def base64_decode_encode StageSigningBytes_def
        sample_sigcheck_def)
  moreover have "verifyStagePayload sample_payload sample_binding sample_stage1
      (SHA256 (canonical_text (enc_stage sample_stage1))) (Some []) minute = Inr (SHA256 (canonical_text (JArr [])))"
    unfolding verifyStagePayload_iff
    using sample_predecessors sample_window
    by (simp add: sample_payload_def decides_def sample_stage1_fields lower_name_def is_lower_alnum_def is_digit_def)
  ultimately show ?thesis
    unfolding VerifyStage_iff using sample_stage1_lookup sample_mutating sample_public_key
    by (auto simp: sample_envelope_def sample_grant_def)
qed

lemma VerifyStage_sound_witness:
  "vg_verified sample_grant \<and> sc_AuthorizationDigest (vg_binding sample_grant) = SHA256 sample_grant_raw"
  using VerifyStage_sound [OF sample_grant_verified] by simp

lemma grant_binds_only_its_stage_witness:
  "BindStageGrant sample_grant sample_binding ''provider-prerequisites'' (Some []) = Inr (vg_binding sample_grant)"
  using grant_binds_only_its_stage [OF sample_grant_verified] by simp

lemma digest_length: "digest_pattern s \<Longrightarrow> length s = 71"
proof -
  assume d: "digest_pattern s"
  then have "length (take 7 s) = 7" by (simp add: digest_pattern_def)
  with d show ?thesis by (auto simp: digest_pattern_def hex64_def min_def split: if_splits)
qed

lemma length_base64: "length (base64_encode s) \<le> 4 * length s"
  by (induction s rule: base64_encode.induct) simp_all

lemma sample_times: "length (format_rfc3339nano 0) \<le> 40" "length (format_rfc3339nano (10 * minute)) \<le> 40"
  by code_simp+

lemma sample_grant_size: "length sample_grant_raw \<le> maximumStageGrantBytes"
proof -
  note plan = plan_digests [OF sample_verified(1)]
  have i: "text_bound (enc_identity (x_ContractIdentity sample_expected)) \<le> 500"
    unfolding enc_identity_def
    by (rule order_trans [OF text_bound_struct]) (simp add: sample_expected_def)
  have s: "length (s_ID sample_stage1) \<le> 100" "length (s_Authority sample_stage1) \<le> 100"
    "length (s_GrantOperation sample_stage1) \<le> 100" "s_Order sample_stage1 = 1"
    by (simp_all add: sample_stage1_def bare_stage_def requiredSequence_def rule_def)
  have "text_bound (enc_payload sample_payload) \<le> 100000"
    unfolding enc_payload_def
    by (rule order_trans [OF text_bound_struct])
      (use i s sample_times text_bound_JInt [of 1] plan in
        \<open>simp add: sample_payload_def digest_length JSlice_def in_int64_def
          StageAudience_def sample_expected_def\<close>)
  moreover have "text_bound (enc_signature (ev_Signature sample_envelope)) \<le> 10000"
    unfolding enc_signature_def
    by (rule order_trans [OF text_bound_struct])
      (use length_base64 [of "replicate 64 (CHR 0x00)"] in \<open>simp add: sample_envelope_def digest_length\<close>)
  ultimately have "text_bound (enc_envelope sample_envelope) \<le> 120000"
    unfolding enc_envelope_def
    by (intro order_trans [OF text_bound_struct]) (simp add: sample_envelope_def StageFormat_def)
  with length_canonical_text [OF fits_envelope [OF sample_envelope_ok]] show ?thesis
    by (simp add: sample_grant_raw_def maximumStageGrantBytes_def)
qed

lemma dispatch_agrees_witness:
  "\<exists>s sd. Binding_Stage sample_binding ''provider-prerequisites'' = Inr (s, sd)
    \<and> VerifyStageDispatchAuthorization sample_sigcheck sample_grant_raw sample_public
        (expectation_of sample_binding s (vg_binding sample_grant)) minute = Inr ()"
  using dispatch_agrees [OF _ sample_verified(1) sample_grant_verified sample_grant_size]
  by (simp add: sample_sigcheck_def is_zero_time_def minute_def nanosecond_per_second_def)

end
