(* ===== verification/Projection.thy ===== *)
theory Projection
  imports StagePlanFacts "HOL-Library.AList" "HOL-Library.Multiset"
begin

text \<open>
  Verified projections (\<open>internal/projection/projection.go\<close>): the renderer's manifest, the
  artifacts it binds by digest and the authority map among them, checked once by \<open>Verify\<close> and
  again immediately before use by \<open>ReverifyAtUse\<close>. The file system is the argument
  \<open>files\<close> (what \<open>os.ReadFile\<close> gives at a path) and the working directory \<open>cwd\<close>; the order in
  which Go ranges over a map is the argument \<open>arrange\<close>.
\<close>

section \<open>Paths\<close>

fun split_slash :: "string \<Rightarrow> string list" where
  "split_slash [] = [[]]"
| "split_slash (c # cs) = (if c = CHR ''/'' then [] # split_slash cs
     else (case split_slash cs of [] \<Rightarrow> [[c]] | p # ps \<Rightarrow> (c # p) # ps))"

text \<open>\<open>filepath.Clean\<close>: no empty or \<open>.\<close> elements, \<open>..\<close> takes its predecessor away.\<close>

fun clean_parts :: "bool \<Rightarrow> string list \<Rightarrow> string list \<Rightarrow> string list" where
  "clean_parts rooted acc [] = rev acc"
| "clean_parts rooted acc (p # ps) =
     (if p = [] \<or> p = ''.'' then clean_parts rooted acc ps
      else if p = ''..'' then
        (case acc of
           q # qs \<Rightarrow> if q = ''..'' then clean_parts rooted (p # acc) ps else clean_parts rooted qs ps
         | [] \<Rightarrow> if rooted then clean_parts rooted acc ps else clean_parts rooted [p] ps)
      else clean_parts rooted (p # acc) ps)"

definition slash_join :: "string list \<Rightarrow> string" where
  "slash_join ps = sep CHR ''/'' ps"

definition clean_path :: "string \<Rightarrow> string" where
  "clean_path p =
     (let rooted = (take 1 p = ''/''); body = slash_join (clean_parts rooted [] (split_slash p))
      in if rooted then CHR ''/'' # body else if body = [] then ''.'' else body)"

definition path_join :: "string list \<Rightarrow> string" where
  "path_join ps = (let qs = filter (\<lambda>p. p \<noteq> []) ps in if qs = [] then [] else clean_path (slash_join qs))"

definition path_base :: "string \<Rightarrow> string" where
  "path_base p =
     (if p = [] then ''.''
      else let q = rev (dropWhile (\<lambda>c. c = CHR ''/'') (rev p))
           in if q = [] then ''/'' else rev (takeWhile (\<lambda>c. c \<noteq> CHR ''/'') (rev q)))"

definition path_dir :: "string \<Rightarrow> string" where
  "path_dir p = clean_path (rev (dropWhile (\<lambda>c. c \<noteq> CHR ''/'') (rev p)))"

definition path_abs :: "string option \<Rightarrow> string \<Rightarrow> string option" where
  "path_abs cwd p = (if take 1 p = ''/'' then Some (clean_path p)
     else map_option (\<lambda>d. path_join [d, p]) cwd)"

section \<open>Data\<close>

record objectSet =
  os_Count :: int
  os_Digest :: string

record resource =
  re_APIVersion :: string
  re_Kind :: string
  re_Name :: string
  re_Namespace :: string

record plane =
  pl_Identity :: string
  pl_Role :: string
  pl_Resources :: "resource slice"

record authorityMap =
  am_Format :: string
  am_ContractIdentity :: Identity
  am_IntentRevision :: string
  am_InfrastructurePlane :: plane
  am_ManagementPlane :: plane
  am_ProviderAccess :: json
  am_ExcludedRendererArtifacts :: json

record manifest =
  mf_Format :: string
  mf_R :: string
  mf_AuthorizationState :: string
  mf_Artifacts :: "(string \<times> string) list"
  mf_ObjectSets :: "(string \<times> objectSet) list"
  mf_ProviderAccess :: json
  mf_Source :: json

record Artifact =
  ar_Name :: string
  ar_Digest :: string

record ResourceIdentity =
  ri_APIVersion :: string
  ri_Kind :: string
  ri_Name :: string
  ri_Namespace :: string

record Plane =
  pn_Identity :: string
  pn_Role :: string
  pn_ResourceCount :: int
  pn_Resources :: "ResourceIdentity list"

record ProjectionBinding =
  pb_Format :: string
  pb_SourceFormat :: string
  pb_ManifestDigest :: string
  pb_AuthorityMapDigest :: string
  pb_IntentRevision :: string
  pb_ContractIdentity :: Identity
  pb_InfrastructurePlane :: Plane
  pb_ManagementPlane :: Plane
  pb_Artifacts :: "Artifact slice"

definition ProjectionBindingFormat :: string where
  "ProjectionBindingFormat = ''ok147-verified-projection/v1''"

section \<open>JSON form\<close>

text \<open>A Go map: every element is decoded over a zero value, a later key replaces an earlier one.\<close>

definition dec_map :: "('a \<Rightarrow> json \<Rightarrow> 'a option) \<Rightarrow> 'a \<Rightarrow> (string \<times> 'a) list \<Rightarrow> json \<Rightarrow> (string \<times> 'a) list option" where
  "dec_map d z old j = (case j of
       JNull \<Rightarrow> Some []
     | JObj kvs \<Rightarrow> fold (\<lambda>kv acc. Option.bind acc (\<lambda>m.
         Option.bind (d z (snd kv)) (\<lambda>x. Some (AList.update (fst kv) x m)))) kvs (Some old)
     | _ \<Rightarrow> None)"

text \<open>\<open>json.RawMessage\<close> keeps the value.\<close>

definition dec_raw :: "json \<Rightarrow> json \<Rightarrow> json option" where
  "dec_raw old j = Some j"

definition enc_object_set :: "objectSet \<Rightarrow> json" where
  "enc_object_set x = struct [
     key ''count'' (JInt (os_Count x)), key ''digest'' (JStr (os_Digest x))]"

definition zero_object_set :: objectSet where
  "zero_object_set = \<lparr>os_Count = 0, os_Digest = []\<rparr>"

definition object_set_fields :: "string list" where
  "object_set_fields = [''count'', ''digest'']"

definition dec_object_set :: "objectSet \<Rightarrow> json \<Rightarrow> objectSet option" where
  "dec_object_set old = (let ns = object_set_fields in dec_struct ns (\<lambda>kvs. do {
     f1 \<leftarrow> dec_field ns kvs ''count'' dec_int (os_Count old);
     f2 \<leftarrow> dec_field ns kvs ''digest'' dec_string (os_Digest old);
     Some \<lparr>os_Count = f1, os_Digest = f2\<rparr> }) old)"

definition enc_resource :: "resource \<Rightarrow> json" where
  "enc_resource x = struct [
     key ''apiVersion'' (JStr (re_APIVersion x)), key ''kind'' (JStr (re_Kind x)),
     key ''name'' (JStr (re_Name x)), optkey ''namespace'' (JStr (re_Namespace x))]"

definition zero_resource :: resource where
  "zero_resource = \<lparr>re_APIVersion = [], re_Kind = [], re_Name = [], re_Namespace = []\<rparr>"

definition resource_fields :: "string list" where
  "resource_fields = [''apiVersion'', ''kind'', ''name'', ''namespace'']"

definition dec_resource :: "resource \<Rightarrow> json \<Rightarrow> resource option" where
  "dec_resource old = (let ns = resource_fields in dec_struct ns (\<lambda>kvs. do {
     f1 \<leftarrow> dec_field ns kvs ''apiVersion'' dec_string (re_APIVersion old);
     f2 \<leftarrow> dec_field ns kvs ''kind'' dec_string (re_Kind old);
     f3 \<leftarrow> dec_field ns kvs ''name'' dec_string (re_Name old);
     f4 \<leftarrow> dec_field ns kvs ''namespace'' dec_string (re_Namespace old);
     Some \<lparr>re_APIVersion = f1, re_Kind = f2, re_Name = f3, re_Namespace = f4\<rparr> }) old)"

definition enc_plane :: "plane \<Rightarrow> json" where
  "enc_plane x = struct [
     key ''identity'' (JStr (pl_Identity x)), key ''role'' (JStr (pl_Role x)),
     key ''resources'' (JSlice enc_resource (pl_Resources x))]"

definition zero_plane :: plane where
  "zero_plane = \<lparr>pl_Identity = [], pl_Role = [], pl_Resources = None\<rparr>"

definition plane_fields :: "string list" where
  "plane_fields = [''identity'', ''role'', ''resources'']"

definition dec_plane :: "plane \<Rightarrow> json \<Rightarrow> plane option" where
  "dec_plane old = (let ns = plane_fields in dec_struct ns (\<lambda>kvs. do {
     f1 \<leftarrow> dec_field ns kvs ''identity'' dec_string (pl_Identity old);
     f2 \<leftarrow> dec_field ns kvs ''role'' dec_string (pl_Role old);
     f3 \<leftarrow> dec_field ns kvs ''resources'' (dec_slice dec_resource zero_resource) (pl_Resources old);
     Some \<lparr>pl_Identity = f1, pl_Role = f2, pl_Resources = f3\<rparr> }) old)"

definition zero_authority_map :: authorityMap where
  "zero_authority_map = \<lparr>am_Format = [], am_ContractIdentity = zero_identity, am_IntentRevision = [],
     am_InfrastructurePlane = zero_plane, am_ManagementPlane = zero_plane, am_ProviderAccess = JNull,
     am_ExcludedRendererArtifacts = JNull\<rparr>"

definition dec_authority_map :: "authorityMap \<Rightarrow> json \<Rightarrow> authorityMap option" where
  "dec_authority_map old = (let ns = [''format'', ''contractIdentity'', ''intentRevision'',
       ''infrastructurePlane'', ''managementPlane'', ''providerAccess'', ''excludedRendererArtifacts'']
     in dec_struct ns (\<lambda>kvs. do {
     f1 \<leftarrow> dec_field ns kvs ''format'' dec_string (am_Format old);
     f2 \<leftarrow> dec_field ns kvs ''contractIdentity'' dec_identity (am_ContractIdentity old);
     f3 \<leftarrow> dec_field ns kvs ''intentRevision'' dec_string (am_IntentRevision old);
     f4 \<leftarrow> dec_field ns kvs ''infrastructurePlane'' dec_plane (am_InfrastructurePlane old);
     f5 \<leftarrow> dec_field ns kvs ''managementPlane'' dec_plane (am_ManagementPlane old);
     f6 \<leftarrow> dec_field ns kvs ''providerAccess'' dec_raw (am_ProviderAccess old);
     f7 \<leftarrow> dec_field ns kvs ''excludedRendererArtifacts'' dec_raw (am_ExcludedRendererArtifacts old);
     Some \<lparr>am_Format = f1, am_ContractIdentity = f2, am_IntentRevision = f3, am_InfrastructurePlane = f4,
       am_ManagementPlane = f5, am_ProviderAccess = f6, am_ExcludedRendererArtifacts = f7\<rparr> }) old)"

definition zero_manifest :: manifest where
  "zero_manifest = \<lparr>mf_Format = [], mf_R = [], mf_AuthorizationState = [], mf_Artifacts = [],
     mf_ObjectSets = [], mf_ProviderAccess = JNull, mf_Source = JNull\<rparr>"

definition dec_manifest :: "manifest \<Rightarrow> json \<Rightarrow> manifest option" where
  "dec_manifest old = (let ns = [''format'', ''R'', ''authorizationState'', ''artifacts'', ''objectSets'',
       ''providerAccess'', ''source''] in dec_struct ns (\<lambda>kvs. do {
     f1 \<leftarrow> dec_field ns kvs ''format'' dec_string (mf_Format old);
     f2 \<leftarrow> dec_field ns kvs ''R'' dec_string (mf_R old);
     f3 \<leftarrow> dec_field ns kvs ''authorizationState'' dec_string (mf_AuthorizationState old);
     f4 \<leftarrow> dec_field ns kvs ''artifacts'' (dec_map dec_string []) (mf_Artifacts old);
     f5 \<leftarrow> dec_field ns kvs ''objectSets'' (dec_map dec_object_set zero_object_set) (mf_ObjectSets old);
     f6 \<leftarrow> dec_field ns kvs ''providerAccess'' dec_raw (mf_ProviderAccess old);
     f7 \<leftarrow> dec_field ns kvs ''source'' dec_raw (mf_Source old);
     Some \<lparr>mf_Format = f1, mf_R = f2, mf_AuthorizationState = f3, mf_Artifacts = f4, mf_ObjectSets = f5,
       mf_ProviderAccess = f6, mf_Source = f7\<rparr> }) old)"

definition enc_artifact :: "Artifact \<Rightarrow> json" where
  "enc_artifact x = struct [key ''name'' (JStr (ar_Name x)), key ''digest'' (JStr (ar_Digest x))]"

text \<open>The resources of a plane carry the tag \<open>json:"-"\<close>.\<close>

definition enc_bound_plane :: "Plane \<Rightarrow> json" where
  "enc_bound_plane x = struct [key ''identity'' (JStr (pn_Identity x)), key ''role'' (JStr (pn_Role x)),
     key ''resourceCount'' (JInt (pn_ResourceCount x))]"

definition enc_projection_binding :: "ProjectionBinding \<Rightarrow> json" where
  "enc_projection_binding x = struct [
     key ''format'' (JStr (pb_Format x)), key ''sourceFormat'' (JStr (pb_SourceFormat x)),
     key ''manifestDigest'' (JStr (pb_ManifestDigest x)),
     key ''authorityMapDigest'' (JStr (pb_AuthorityMapDigest x)),
     key ''intentRevision'' (JStr (pb_IntentRevision x)),
     key ''contractIdentity'' (enc_identity (pb_ContractIdentity x)),
     key ''infrastructurePlane'' (enc_bound_plane (pb_InfrastructurePlane x)),
     key ''managementPlane'' (enc_bound_plane (pb_ManagementPlane x)),
     key ''artifacts'' (JSlice enc_artifact (pb_Artifacts x))]"

section \<open>Checks\<close>

definition validateArtifactName :: "string \<Rightarrow> unit result" where
  "validateArtifactName name =
     (if name = '''' \<or> path_base name \<noteq> name \<or> name = ''.''
        \<or> list_ex (\<lambda>c. c = CHR ''/'' \<or> c = CHR 0x5C) name then
        Inl (Errf ''projection artifact path %q is not a plain file name'' [name])
      else Inr ())"

definition resource_key :: "resource \<Rightarrow> string" where
  "resource_key r = sep CHR ''|'' [re_APIVersion r, re_Kind r, re_Namespace r, re_Name r]"

fun check_resources :: "string list \<Rightarrow> resource list \<Rightarrow> unit result" where
  "check_resources seen [] = Inr ()"
| "check_resources seen (r # rs) =
     (if re_APIVersion r = '''' \<or> re_Kind r = '''' \<or> re_Name r = '''' then
        Inl (New ''resource identity is incomplete'')
      else if resource_key r \<in> set seen then Inl (Errf ''duplicate resource identity %s'' [resource_key r])
      else check_resources (resource_key r # seen) rs)"

definition validatePlane :: "plane \<Rightarrow> string \<Rightarrow> unit result" where
  "validatePlane v role =
     (if pl_Identity v = '''' then Inl (New ''identity is empty'')
      else if pl_Role v \<noteq> role then Inl (Errf ''role %q does not match required %q'' [pl_Role v, role])
      else if elems (pl_Resources v) = [] then Inl (New ''resource set is empty'')
      else check_resources [] (elems (pl_Resources v)))"

definition matchCount :: "(string \<times> objectSet) list \<Rightarrow> string \<Rightarrow> int \<Rightarrow> unit result" where
  "matchCount sets name resources =
     (case map_of sets name of
        None \<Rightarrow> Inl (Errf ''projection object set %s is missing'' [name])
      | Some s \<Rightarrow>
          if os_Count s \<noteq> resources then
            Inl (Errf ''projection object set %s count %d differs from authority resource count %d''
              [name, show_int (os_Count s), show_int resources])
          else if take 7 (os_Digest s) \<noteq> ''sha256:'' \<or> length (os_Digest s) \<noteq> 71 then
            Inl (Errf ''projection object set %s has invalid digest'' [name])
          else Inr ())"

definition exportResources :: "resource list \<Rightarrow> ResourceIdentity list" where
  "exportResources rs = map (\<lambda>r. \<lparr>ri_APIVersion = re_APIVersion r, ri_Kind = re_Kind r,
     ri_Name = re_Name r, ri_Namespace = re_Namespace r\<rparr>) rs"

definition infrastructureRole :: string where
  "infrastructureRole = ''provider-runtime-and-golden-image-prerequisites''"

definition managementRole :: string where
  "managementRole = ''single-lifecycle-writer''"

definition requiredArtifacts :: "string list" where
  "requiredArtifacts = [''authority-map.json'', ''ok-infra-prerequisites.yaml'', ''ok-mgmt-lifecycle.yaml'']"

definition require_artifacts :: "string \<Rightarrow> string list \<Rightarrow> unit result" where
  "require_artifacts message names =
     (case find (\<lambda>q. q \<notin> set names) requiredArtifacts of
        None \<Rightarrow> Inr () | Some q \<Rightarrow> Inl (Errf message [q]))"

section \<open>Verify\<close>

fun read_artifacts ::
  "(string \<Rightarrow> string option) \<Rightarrow> string \<Rightarrow> (string \<times> string) list \<Rightarrow> (Artifact list \<times> string option) result" where
  "read_artifacts files root [] = Inr ([], None)"
| "read_artifacts files root ((name, expected) # rest) =
     bindE (validateArtifactName name) (\<lambda>_.
     bindE (of_option (Errf ''read projection artifact %s'' [name]) (files (path_join [root, name]))) (\<lambda>raw.
       if SHA256 raw \<noteq> expected then
         Inl (Errf ''projection artifact %s digest %s does not match %s'' [name, SHA256 raw, expected])
       else bindE (read_artifacts files root rest) (\<lambda>(arts, authority).
         Inr (\<lparr>ar_Name = name, ar_Digest = SHA256 raw\<rparr> # arts,
           if name = ''authority-map.json'' then Some raw else authority))))"

definition bound_plane :: "plane \<Rightarrow> Plane" where
  "bound_plane v = \<lparr>pn_Identity = pl_Identity v, pn_Role = pl_Role v,
     pn_ResourceCount = int (length (elems (pl_Resources v))),
     pn_Resources = exportResources (elems (pl_Resources v))\<rparr>"

definition check_authority ::
  "manifest \<Rightarrow> authorityMap \<Rightarrow> string \<Rightarrow> Identity \<Rightarrow> unit result" where
  "check_authority source a expectedRevision expectedIdentity =
     (if am_Format a \<noteq> mf_Format source then
        Inl (New ''authority map format differs from projection format'')
      else if am_IntentRevision a \<noteq> expectedRevision then
        Inl (New ''authority map intent revision differs from contract revision'')
      else if am_ContractIdentity a \<noteq> expectedIdentity then
        Inl (New ''authority map identity differs from contract identity'')
      else bindE (wrapE ''infrastructure plane'' (validatePlane (am_InfrastructurePlane a) infrastructureRole)) (\<lambda>_.
      bindE (wrapE ''management plane'' (validatePlane (am_ManagementPlane a) managementRole)) (\<lambda>_.
      if pl_Identity (am_InfrastructurePlane a) = pl_Identity (am_ManagementPlane a) then
        Inl (New ''infrastructure and management authority identities must differ'')
      else bindE (matchCount (mf_ObjectSets source) ''okInfraPrerequisites''
          (int (length (elems (pl_Resources (am_InfrastructurePlane a)))))) (\<lambda>_.
        matchCount (mf_ObjectSets source) ''okMgmtLifecycle''
          (int (length (elems (pl_Resources (am_ManagementPlane a)))))))))"

definition projection_Verify ::
  "((string \<times> string) list \<Rightarrow> (string \<times> string) list) \<Rightarrow> (string \<Rightarrow> string option) \<Rightarrow> string option
    \<Rightarrow> string \<Rightarrow> string \<Rightarrow> string \<Rightarrow> Identity \<Rightarrow> ProjectionBinding result" where
  "projection_Verify arrange files cwd manifestPath root expectedRevision expectedIdentity =
     bindE (of_option (New ''read projection manifest'') (files manifestPath)) (\<lambda>raw.
     bindE (wrapE ''decode projection manifest'' (strict_decode (dec_manifest zero_manifest) raw)) (\<lambda>source.
     if mf_Format source \<noteq> ''ok141-contract-to-capi-projection/v2'' then
       Inl (Errf ''projection format %q is not supported'' [mf_Format source])
     else if mf_R source \<noteq> expectedRevision then
       Inl (Errf ''projection revision %s does not match contract revision %s'' [mf_R source, expectedRevision])
     else if mf_AuthorizationState source \<noteq> ''NO-GO'' then
       Inl (New ''projection artifact must remain non-authorizing (authorizationState NO-GO)'')
     else if mf_Artifacts source = [] then Inl (New ''projection manifest has no artifacts'')
     else bindE (of_option (New ''resolve projection root'')
         (path_abs cwd (if root = '''' then path_dir manifestPath else root))) (\<lambda>absRoot.
     bindE (read_artifacts files absRoot (arrange (mf_Artifacts source))) (\<lambda>(artifacts, found).
     bindE (require_artifacts ''projection manifest does not bind %s'' (map fst (mf_Artifacts source))) (\<lambda>_.
     bindE (of_option (New ''projection manifest does not bind authority-map.json'') found) (\<lambda>authorityRaw.
     bindE (wrapE ''decode authority map'' (strict_decode (dec_authority_map zero_authority_map) authorityRaw)) (\<lambda>a.
     bindE (check_authority source a expectedRevision expectedIdentity) (\<lambda>_.
       Inr \<lparr>pb_Format = ProjectionBindingFormat, pb_SourceFormat = mf_Format source,
         pb_ManifestDigest = SHA256 raw, pb_AuthorityMapDigest = SHA256 authorityRaw,
         pb_IntentRevision = expectedRevision, pb_ContractIdentity = expectedIdentity,
         pb_InfrastructurePlane = bound_plane (am_InfrastructurePlane a),
         pb_ManagementPlane = bound_plane (am_ManagementPlane a),
         pb_Artifacts = Some (sort_key ar_Name artifacts)\<rparr>))))))))"

section \<open>ReverifyAtUse\<close>

fun artifact_digests :: "Artifact list \<Rightarrow> (string \<times> string) list \<Rightarrow> (string \<times> string) list result" where
  "artifact_digests [] m = Inr m"
| "artifact_digests (a # rest) m =
     bindE (validateArtifactName (ar_Name a)) (\<lambda>_.
       if ar_Name a \<in> fst ` set m then
         Inl (Errf ''verified projection repeats artifact %s'' [ar_Name a])
       else artifact_digests rest (m @ [(ar_Name a, ar_Digest a)]))"

fun reread_artifacts ::
  "(string \<Rightarrow> string option) \<Rightarrow> string \<Rightarrow> (string \<times> string) list \<Rightarrow> string option \<Rightarrow> string option result" where
  "reread_artifacts files root [] authority = Inr authority"
| "reread_artifacts files root ((name, expected) # rest) authority =
     bindE (of_option (Errf ''read projection artifact %s'' [name]) (files (path_join [root, name]))) (\<lambda>raw.
       if SHA256 raw \<noteq> expected then
         Inl (Errf ''projection artifact %s changed after verification'' [name])
       else reread_artifacts files root rest (if name = ''authority-map.json'' then Some raw else authority))"

definition plane_matches :: "plane \<Rightarrow> Plane \<Rightarrow> bool" where
  "plane_matches v b \<longleftrightarrow> pl_Identity v = pn_Identity b \<and> pl_Role v = pn_Role b
     \<and> int (length (elems (pl_Resources v))) = pn_ResourceCount b"

definition ReverifyAtUse ::
  "((string \<times> string) list \<Rightarrow> (string \<times> string) list) \<Rightarrow> (string \<Rightarrow> string option) \<Rightarrow> string option
    \<Rightarrow> string \<Rightarrow> ProjectionBinding \<Rightarrow> ProjectionBinding result" where
  "ReverifyAtUse arrange files cwd root b =
     (if pb_Format b \<noteq> ProjectionBindingFormat \<or> root = '''' then
        Inl (New ''verified projection binding and root are required'')
      else bindE (of_option (New ''resolve projection root'') (path_abs cwd root)) (\<lambda>absRoot.
      bindE (artifact_digests (elems (pb_Artifacts b)) []) (\<lambda>digests.
      bindE (require_artifacts ''verified projection does not bind %s'' (map fst digests)) (\<lambda>_.
      bindE (reread_artifacts files absRoot (arrange digests) None) (\<lambda>found.
      let authorityRaw = (case found of None \<Rightarrow> [] | Some raw \<Rightarrow> raw) in
      if SHA256 authorityRaw \<noteq> pb_AuthorityMapDigest b then
        Inl (New ''authority map digest differs from verified binding'')
      else bindE (wrapE ''decode authority map'' (strict_decode (dec_authority_map zero_authority_map) authorityRaw)) (\<lambda>a.
      if am_IntentRevision a \<noteq> pb_IntentRevision b \<or> am_ContractIdentity a \<noteq> pb_ContractIdentity b then
        Inl (New ''authority map intent or Contract identity differs from verified binding'')
      else if am_Format a \<noteq> pb_SourceFormat b then
        Inl (New ''authority map format differs from verified binding'')
      else bindE (wrapE ''infrastructure plane'' (validatePlane (am_InfrastructurePlane a) infrastructureRole)) (\<lambda>_.
      bindE (wrapE ''management plane'' (validatePlane (am_ManagementPlane a) managementRole)) (\<lambda>_.
      if \<not> plane_matches (am_InfrastructurePlane a) (pb_InfrastructurePlane b) then
        Inl (New ''infrastructure authority differs from verified binding'')
      else if \<not> plane_matches (am_ManagementPlane a) (pb_ManagementPlane b) then
        Inl (New ''management authority differs from verified binding'')
      else Inr (b\<lparr>
        pb_InfrastructurePlane := (pb_InfrastructurePlane b)\<lparr>pn_Resources :=
          exportResources (elems (pl_Resources (am_InfrastructurePlane a)))\<rparr>,
        pb_ManagementPlane := (pb_ManagementPlane b)\<lparr>pn_Resources :=
          exportResources (elems (pl_Resources (am_ManagementPlane a)))\<rparr>\<rparr>)))))))))"

end
