(* ===== verification/CreateAuthorization.thy ===== *)
theory CreateAuthorization
  imports Authorization Projection
begin

text \<open>
  The typed create request (\<open>internal/executor/request.go\<close>) and the grant that authorises it
  (\<open>internal/authorization/authorization.go\<close>).
\<close>

section \<open>The request\<close>

text \<open>\<open>contract.Result\<close>: the identities of a canonicalised contract.\<close>

record ContractResult =
  cr_CanonicalizationProfile :: string
  cr_RawArtifactDigest :: string
  cr_SchemaDigest :: string
  cr_NormalizedDigest :: string
  cr_CanonicalJSON :: string
  cr_Normalized :: json

record CreateRequest =
  rq_Format :: string
  rq_Operation :: string
  rq_ContractIdentity :: Identity
  rq_ContractRevision :: string
  rq_CanonicalizationProfile :: string
  rq_RawArtifactDigest :: string
  rq_SchemaDigest :: string
  rq_Projection :: ProjectionBinding

definition RequestFormat :: string where "RequestFormat = ''ok147-create-request/v1''"

definition enc_request :: "CreateRequest \<Rightarrow> json" where
  "enc_request r = struct [
     key ''format'' (JStr (rq_Format r)), key ''operation'' (JStr (rq_Operation r)),
     key ''contractIdentity'' (enc_identity (rq_ContractIdentity r)),
     key ''contractRevision'' (JStr (rq_ContractRevision r)),
     key ''canonicalizationProfile'' (JStr (rq_CanonicalizationProfile r)),
     key ''rawArtifactDigest'' (JStr (rq_RawArtifactDigest r)),
     key ''schemaDigest'' (JStr (rq_SchemaDigest r)),
     key ''projection'' (enc_projection_binding (rq_Projection r))]"

definition NewCreateRequest :: "ContractResult \<Rightarrow> Identity \<Rightarrow> ProjectionBinding \<Rightarrow> CreateRequest result" where
  "NewCreateRequest res ident b =
     (if pb_IntentRevision b \<noteq> cr_NormalizedDigest res then
        Inl (Errf ''projection revision %s differs from contract revision %s''
          [pb_IntentRevision b, cr_NormalizedDigest res])
      else if pb_ContractIdentity b \<noteq> ident then
        Inl (New ''projection identity differs from contract identity'')
      else Inr \<lparr>rq_Format = RequestFormat, rq_Operation = ''CreateCluster'', rq_ContractIdentity = ident,
        rq_ContractRevision = cr_NormalizedDigest res,
        rq_CanonicalizationProfile = cr_CanonicalizationProfile res,
        rq_RawArtifactDigest = cr_RawArtifactDigest res, rq_SchemaDigest = cr_SchemaDigest res,
        rq_Projection = b\<rparr>)"

definition request_Digest :: "CreateRequest \<Rightarrow> string result" where
  "request_Digest r = canonical_digest (enc_request r)"

section \<open>The grant\<close>

record Payload =
  cp_Audience :: string
  cp_GrantID :: string
  cp_Decision :: string
  cp_Operation :: string
  cp_RequestDigest :: string
  cp_ContractIdentity :: Identity
  cp_ContractRevision :: string
  cp_ProjectionManifestDigest :: string
  cp_NotBefore :: string
  cp_NotAfter :: string
  cp_MaxUses :: int

record CreateEnvelope =
  ce_Format :: string
  ce_Payload :: Payload
  ce_Signature :: signature

record AuthorizationReceipt =
  at_Format :: string
  at_State :: string
  at_AuthorizationDigest :: string
  at_GrantID :: string
  at_KeyID :: string
  at_NotAfter :: string
  at_MaxUses :: int

record CreateConsumptionBinding =
  cb_AuthorizationDigest :: string
  cb_GrantID :: string
  cb_KeyID :: string
  cb_Operation :: string
  cb_RequestDigest :: string
  cb_ContractRevision :: string
  cb_ProjectionManifestDigest :: string
  cb_NotBefore :: string
  cb_NotAfter :: string

record VerifiedGrant =
  vc_receipt :: AuthorizationReceipt
  vc_binding :: CreateConsumptionBinding
  vc_verified :: bool

definition CreateFormat :: string where "CreateFormat = ''ok147-create-authorization/v1''"
definition CreateAudience :: string where "CreateAudience = ''ok-cluster-contract-executor''"

definition enc_create_payload :: "Payload \<Rightarrow> json" where
  "enc_create_payload x = struct [
     key ''audience'' (JStr (cp_Audience x)), key ''grantId'' (JStr (cp_GrantID x)),
     key ''decision'' (JStr (cp_Decision x)), key ''operation'' (JStr (cp_Operation x)),
     key ''requestDigest'' (JStr (cp_RequestDigest x)),
     key ''contractIdentity'' (enc_identity (cp_ContractIdentity x)),
     key ''contractRevision'' (JStr (cp_ContractRevision x)),
     key ''projectionManifestDigest'' (JStr (cp_ProjectionManifestDigest x)),
     key ''notBefore'' (JStr (cp_NotBefore x)), key ''notAfter'' (JStr (cp_NotAfter x)),
     key ''maxUses'' (JInt (cp_MaxUses x))]"

definition zero_create_payload :: Payload where
  "zero_create_payload = \<lparr>cp_Audience = [], cp_GrantID = [], cp_Decision = [], cp_Operation = [], cp_RequestDigest = [],
     cp_ContractIdentity = zero_identity, cp_ContractRevision = [],
     cp_ProjectionManifestDigest = [], cp_NotBefore = [], cp_NotAfter = [], cp_MaxUses = 0\<rparr>"

definition create_payload_fields :: "string list" where
  "create_payload_fields = [''audience'', ''grantId'', ''decision'', ''operation'', ''requestDigest'',
     ''contractIdentity'', ''contractRevision'', ''projectionManifestDigest'', ''notBefore'',
     ''notAfter'', ''maxUses'']"

definition dec_create_payload :: "Payload \<Rightarrow> json \<Rightarrow> Payload option" where
  "dec_create_payload old = (let ns = create_payload_fields in dec_struct ns (\<lambda>kvs. do {
     f1 \<leftarrow> dec_field ns kvs ''audience'' dec_string (cp_Audience old);
     f2 \<leftarrow> dec_field ns kvs ''grantId'' dec_string (cp_GrantID old);
     f3 \<leftarrow> dec_field ns kvs ''decision'' dec_string (cp_Decision old);
     f4 \<leftarrow> dec_field ns kvs ''operation'' dec_string (cp_Operation old);
     f5 \<leftarrow> dec_field ns kvs ''requestDigest'' dec_string (cp_RequestDigest old);
     f6 \<leftarrow> dec_field ns kvs ''contractIdentity'' dec_identity (cp_ContractIdentity old);
     f7 \<leftarrow> dec_field ns kvs ''contractRevision'' dec_string (cp_ContractRevision old);
     f8 \<leftarrow> dec_field ns kvs ''projectionManifestDigest'' dec_string (cp_ProjectionManifestDigest old);
     f9 \<leftarrow> dec_field ns kvs ''notBefore'' dec_string (cp_NotBefore old);
     f10 \<leftarrow> dec_field ns kvs ''notAfter'' dec_string (cp_NotAfter old);
     f11 \<leftarrow> dec_field ns kvs ''maxUses'' dec_int (cp_MaxUses old);
     Some \<lparr>cp_Audience = f1, cp_GrantID = f2, cp_Decision = f3, cp_Operation = f4,
       cp_RequestDigest = f5, cp_ContractIdentity = f6, cp_ContractRevision = f7,
       cp_ProjectionManifestDigest = f8, cp_NotBefore = f9, cp_NotAfter = f10, cp_MaxUses = f11\<rparr> }) old)"

definition enc_create_envelope :: "CreateEnvelope \<Rightarrow> json" where
  "enc_create_envelope x = struct [
     key ''format'' (JStr (ce_Format x)), key ''payload'' (enc_create_payload (ce_Payload x)),
     key ''signature'' (enc_signature (ce_Signature x))]"

definition zero_create_envelope :: CreateEnvelope where
  "zero_create_envelope = \<lparr>ce_Format = [], ce_Payload = zero_create_payload, ce_Signature = zero_signature\<rparr>"

definition create_envelope_fields :: "string list" where
  "create_envelope_fields = [''format'', ''payload'', ''signature'']"

definition dec_create_envelope :: "CreateEnvelope \<Rightarrow> json \<Rightarrow> CreateEnvelope option" where
  "dec_create_envelope old = (let ns = create_envelope_fields in dec_struct ns (\<lambda>kvs. do {
     f1 \<leftarrow> dec_field ns kvs ''format'' dec_string (ce_Format old);
     f2 \<leftarrow> dec_field ns kvs ''payload'' dec_create_payload (ce_Payload old);
     f3 \<leftarrow> dec_field ns kvs ''signature'' dec_signature (ce_Signature old);
     Some \<lparr>ce_Format = f1, ce_Payload = f2, ce_Signature = f3\<rparr> }) old)"

definition SigningBytes :: "Payload \<Rightarrow> string result" where
  "SigningBytes p = canonical_record (enc_create_payload p)"

definition verifyPayload :: "Payload \<Rightarrow> CreateRequest \<Rightarrow> time \<Rightarrow> unit result" where
  "verifyPayload p r at =
     (if cp_Audience p \<noteq> CreateAudience then
        Inl (Errf ''authorization audience %q is not accepted'' [cp_Audience p])
      else if \<not> stageGrantIDPattern (cp_GrantID p) then Inl (New ''authorization grantId is invalid'')
      else if cp_Decision p \<noteq> ''ALLOW'' then
        Inl (Errf ''authorization decision is %q, not ALLOW'' [cp_Decision p])
      else if cp_Operation p \<noteq> rq_Operation r then
        Inl (New ''authorization operation differs from request'')
      else bindE (request_Digest r) (\<lambda>requestDigest.
      if cp_RequestDigest p \<noteq> requestDigest then
        Inl (New ''authorization request digest differs from request'')
      else if cp_ContractIdentity p \<noteq> rq_ContractIdentity r then
        Inl (New ''authorization contract identity differs from request'')
      else if cp_ContractRevision p \<noteq> rq_ContractRevision r then
        Inl (New ''authorization contract revision differs from request'')
      else if cp_ProjectionManifestDigest p \<noteq> pb_ManifestDigest (rq_Projection r) then
        Inl (New ''authorization projection manifest digest differs from request'')
      else if cp_MaxUses p \<noteq> 1 then Inl (New ''authorization must declare exactly one use'')
      else (case parse_rfc3339 (cp_NotBefore p) of
          None \<Rightarrow> Inl (New ''authorization notBefore'')
        | Some notBefore \<Rightarrow>
      (case parse_rfc3339 (cp_NotAfter p) of
          None \<Rightarrow> Inl (New ''authorization notAfter'')
        | Some notAfter \<Rightarrow>
      if \<not> after notAfter notBefore then Inl (New ''authorization time window is empty'')
      else if sub_time notAfter notBefore > MaximumWindow then
        Inl (New ''authorization time window exceeds 30m0s'')
      else if before at notBefore \<or> \<not> before at notAfter then
        Inl (New ''authorization is not active at the evaluation time'')
      else Inr ()))))"

definition create_grant :: "Payload \<Rightarrow> string \<Rightarrow> string \<Rightarrow> VerifiedGrant" where
  "create_grant p raw keyID = \<lparr>
     vc_receipt = \<lparr>at_Format = ''ok147-authorization-receipt/v1'', at_State = ''VERIFIED'',
       at_AuthorizationDigest = SHA256 raw, at_GrantID = cp_GrantID p, at_KeyID = keyID,
       at_NotAfter = cp_NotAfter p, at_MaxUses = cp_MaxUses p\<rparr>,
     vc_binding = \<lparr>cb_AuthorizationDigest = SHA256 raw, cb_GrantID = cp_GrantID p, cb_KeyID = keyID,
       cb_Operation = cp_Operation p, cb_RequestDigest = cp_RequestDigest p,
       cb_ContractRevision = cp_ContractRevision p,
       cb_ProjectionManifestDigest = cp_ProjectionManifestDigest p, cb_NotBefore = cp_NotBefore p,
       cb_NotAfter = cp_NotAfter p\<rparr>,
     vc_verified = True\<rparr>"

definition create_Verify ::
  "(string \<Rightarrow> string \<Rightarrow> string \<Rightarrow> bool) \<Rightarrow> string \<Rightarrow> string \<Rightarrow> CreateRequest \<Rightarrow> time \<Rightarrow> VerifiedGrant result" where
  "create_Verify sigcheck raw publicKeyRaw r at =
     bindE (wrapE ''decode authorization'' (strict_decode (dec_create_envelope zero_create_envelope) raw)) (\<lambda>doc.
     if ce_Format doc \<noteq> CreateFormat then
       Inl (Errf ''authorization format %q is not supported'' [ce_Format doc])
     else bindE (parsePublicKey publicKeyRaw) (\<lambda>(publicKey, keyID).
     if sg_Algorithm (ce_Signature doc) \<noteq> ''Ed25519'' then
       Inl (Errf ''signature algorithm %q is not supported'' [sg_Algorithm (ce_Signature doc)])
     else if sg_KeyID (ce_Signature doc) \<noteq> keyID then
       Inl (Errf ''authorization keyId %s does not match trusted key %s'' [sg_KeyID (ce_Signature doc), keyID])
     else bindE (of_option (New ''decode authorization signature'') (base64_decode (sg_Value (ce_Signature doc))))
       (\<lambda>signatureBytes.
     bindE (SigningBytes (ce_Payload doc)) (\<lambda>signingBytes.
     if \<not> sigcheck publicKey signingBytes signatureBytes then
       Inl (New ''authorization signature verification failed'')
     else bindE (verifyPayload (ce_Payload doc) r at) (\<lambda>_.
       Inr (create_grant (ce_Payload doc) raw keyID))))))"

definition CreateConsumption :: "VerifiedGrant \<Rightarrow> CreateConsumptionBinding result" where
  "CreateConsumption g = (if \<not> vc_verified g then
       Inl (New ''authorization grant was not produced by verification'') else Inr (vc_binding g))"

section \<open>What a verified create grant establishes\<close>

lemma verifyPayload_iff:
  "verifyPayload p r at = Inr () \<longleftrightarrow> cp_Audience p = CreateAudience \<and> stageGrantIDPattern (cp_GrantID p)
     \<and> cp_Decision p = ''ALLOW'' \<and> cp_Operation p = rq_Operation r
     \<and> request_Digest r = Inr (cp_RequestDigest p) \<and> cp_ContractIdentity p = rq_ContractIdentity r
     \<and> cp_ContractRevision p = rq_ContractRevision r
     \<and> cp_ProjectionManifestDigest p = pb_ManifestDigest (rq_Projection r) \<and> cp_MaxUses p = 1
     \<and> (\<exists>b a. parse_rfc3339 (cp_NotBefore p) = Some b \<and> parse_rfc3339 (cp_NotAfter p) = Some a
         \<and> after a b \<and> sub_time a b \<le> MaximumWindow \<and> \<not> before at b \<and> before at a)"
  unfolding verifyPayload_def Inr_conv not_less by auto

end
