(* ===== verification/RecordStore.thy ===== *)
theory RecordStore
  imports Digest
begin

text \<open>
  The persistence interface of the ledger (\<open>internal/ledger/ledger.go\<close>: \<open>RecordStore\<close>,
  \<open>fileStore\<close> and the functions below it). Operations pass their state explicitly. The locale
  \<open>record_store\<close> states what the package comment asks of a store, atomic create-if-absent and
  exact-name reads, also when calls fail half-way; the file store is its instance.
\<close>

section \<open>Operations that fail and change state\<close>

type_synonym ('s, 'a) op = "'s \<Rightarrow> 'a result \<times> 's"

definition bindS :: "('s, 'a) op \<Rightarrow> ('a \<Rightarrow> ('s, 'b) op) \<Rightarrow> ('s, 'b) op" where
  "bindS m f s = (case m s of (Inl e, t) \<Rightarrow> (Inl e, t) | (Inr x, t) \<Rightarrow> f x t)"

text \<open>The result of a call, error or value, given to the code that inspects it.\<close>

definition tryS :: "('s, 'a) op \<Rightarrow> ('a result \<Rightarrow> ('s, 'b) op) \<Rightarrow> ('s, 'b) op" where
  "tryS m f s = (case m s of (r, t) \<Rightarrow> f r t)"

text \<open>A computation that leaves the state alone.\<close>

definition liftE :: "'a result \<Rightarrow> ('s, 'a) op" where
  "liftE r s = (r, s)"

definition wrapS :: "string \<Rightarrow> ('s, 'a) op \<Rightarrow> ('s, 'a) op" where
  "wrapS m f s = (case f s of (r, t) \<Rightarrow> (wrapE m r, t))"

lemma bindS_eq_Inr: "bindS m f s = (Inr y, u) \<longleftrightarrow> (\<exists>x t. m s = (Inr x, t) \<and> f x t = (Inr y, u))"
  by (auto simp: bindS_def split: prod.splits sum.splits)

lemma tryS_eq: "tryS m f s = p \<longleftrightarrow> (\<exists>r t. m s = (r, t) \<and> f r t = p)"
  by (auto simp: tryS_def split: prod.splits)

lemma liftE_eq: "liftE r s = (q, t) \<longleftrightarrow> r = q \<and> t = s"
  by (auto simp: liftE_def)

lemma wrapS_eq_Inr [simp]: "wrapS m f s = (Inr x, t) \<longleftrightarrow> f s = (Inr x, t)"
  by (auto simp: wrapS_def split: prod.splits)

lemmas op_conv = bindS_eq_Inr tryS_eq liftE_eq wrapS_eq_Inr split_paired_Ex prod.case

section \<open>The interface\<close>

record 's RecordStore =
  rs_Create :: "string \<Rightarrow> string \<Rightarrow> string \<Rightarrow> ('s, unit) op"
  rs_Get :: "string \<Rightarrow> string \<Rightarrow> ('s, string) op"

definition ErrRecordExists :: goerror where "ErrRecordExists = Sentinel ''ledger record already exists''"
definition ErrRecordNotFound :: goerror where "ErrRecordNotFound = Sentinel ''ledger record not found''"

definition categories :: "string list" where
  "categories = [''claims'', ''outcomes'', ''stage-receipts'']"

definition valid_slot :: "string \<Rightarrow> string \<Rightarrow> bool" where
  "valid_slot category k \<longleftrightarrow> hex64 k \<and> category \<in> set categories"

text \<open>What any process may do to a store: a create or a read, in any order and with any outcome.\<close>

inductive store_step :: "'s RecordStore \<Rightarrow> 's \<Rightarrow> 's \<Rightarrow> bool" for store where
  create: "rs_Create store c k raw s = (r, t) \<Longrightarrow> store_step store s t"
| get: "rs_Get store c k s = (r, t) \<Longrightarrow> store_step store s t"

abbreviation store_runs :: "'s RecordStore \<Rightarrow> 's \<Rightarrow> 's \<Rightarrow> bool" where
  "store_runs store \<equiv> (store_step store)\<^sup>*\<^sup>*"

inductive_cases store_stepE: "store_step store s t"

lemma runs_create: "rs_Create store c k raw s = (r, t) \<Longrightarrow> store_runs store s t"
  by (blast intro: store_step.create)

lemma runs_get: "rs_Get store c k s = (r, t) \<Longrightarrow> store_runs store s t"
  by (blast intro: store_step.get)

text \<open>
  \<open>contents s c k\<close> is the record at a name, if any; \<open>capacity\<close> bounds the records the store keeps
  unabridged; \<open>healthy\<close> holds when no call is going to fail by itself.
\<close>

locale record_store =
  fixes store :: "'s RecordStore"
    and contents :: "'s \<Rightarrow> string \<Rightarrow> string \<Rightarrow> string option"
    and capacity :: nat
    and healthy :: "'s \<Rightarrow> bool"
  assumes create_ok: "rs_Create store c k raw s = (Inr u, t) \<Longrightarrow> contents s c k = None \<and> contents t c k \<noteq> None"
    and create_exact: "rs_Create store c k raw s = (Inr u, t) \<Longrightarrow> length raw \<le> capacity \<Longrightarrow> contents t c k = Some raw"
    and create_exists: "rs_Create store c k raw s = (Inl e, t) \<Longrightarrow> errors_is e ErrRecordExists \<Longrightarrow> contents s c k \<noteq> None"
    and create_keeps: "rs_Create store c k raw s = (r, t) \<Longrightarrow> contents s c' k' \<noteq> None \<Longrightarrow> contents t c' k' = contents s c' k'"
    and create_frame: "rs_Create store c k raw s = (r, t) \<Longrightarrow> (c', k') \<noteq> (c, k) \<Longrightarrow> contents t c' k' = contents s c' k'"
    and get_reads: "rs_Get store c k s = (Inr raw, t) \<Longrightarrow> contents s c k = Some raw"
    and get_missing: "rs_Get store c k s = (Inl e, t) \<Longrightarrow> errors_is e ErrRecordNotFound \<Longrightarrow> contents s c k = None"
    and get_pure: "rs_Get store c k s = (q, t) \<Longrightarrow> contents t = contents s"
    and create_works: "healthy s \<Longrightarrow> valid_slot c k \<Longrightarrow> contents s c k = None \<Longrightarrow>
      \<exists>t. rs_Create store c k raw s = (Inr (), t) \<and> healthy t"
    and create_refuses: "healthy s \<Longrightarrow> valid_slot c k \<Longrightarrow> contents s c k \<noteq> None \<Longrightarrow>
      \<exists>t. rs_Create store c k raw s = (Inl ErrRecordExists, t) \<and> healthy t"
    and get_works: "healthy s \<Longrightarrow> valid_slot c k \<Longrightarrow>
      \<exists>t. rs_Get store c k s = (of_option ErrRecordNotFound (contents s c k), t) \<and> healthy t"
begin

lemma step_keeps: "store_step store s t \<Longrightarrow> contents s c k \<noteq> None \<Longrightarrow> contents t c k = contents s c k"
  by (auto elim!: store_stepE dest: create_keeps get_pure)

text \<open>A record stays as it is, whatever is done afterwards.\<close>

lemma persists: "store_runs store s t \<Longrightarrow> contents s c k \<noteq> None \<Longrightarrow> contents t c k = contents s c k"
proof (induction rule: rtranclp_induct)
  case (step t u)
  then show ?case using step_keeps [of t u c k] by simp
qed simp

lemma no_second_create:
  assumes "contents s c k \<noteq> None" and "store_runs store s t"
  shows "rs_Create store c k raw t \<noteq> (Inr u, v)"
  using persists [OF assms(2,1)] assms(1) create_ok by force

end


section \<open>Files\<close>

text \<open>
  What \<open>Lstat\<close> and a read show of a path; \<open>en_private\<close> says that group and others have no
  permission. Each call of the store consumes one \<open>fault\<close>, the step at which the surroundings let
  it down: a cancelled context, a failing system call, or a write that stops after some bytes.
\<close>

record entry =
  en_regular :: bool
  en_symlink :: bool
  en_private :: bool
  en_content :: string

datatype fault = Works | Cancelled | OpenFails | WriteStops nat | SyncFails | CloseFails
  | DirectoryFails | ReadFails

record disk =
  dk_entries :: "string \<Rightarrow> entry option"
  dk_faults :: "fault list"

definition ErrExist :: goerror where "ErrExist = Sentinel ''file already exists''"
definition ErrNotExist :: goerror where "ErrNotExist = Sentinel ''file does not exist''"

definition next_fault :: "disk \<Rightarrow> fault \<times> disk" where
  "next_fault d = (case dk_faults d of [] \<Rightarrow> (Works, d) | f # fs \<Rightarrow> (f, d\<lparr>dk_faults := fs\<rparr>))"

definition new_file :: "string \<Rightarrow> entry" where
  "new_file raw = \<lparr>en_regular = True, en_symlink = False, en_private = True, en_content = raw\<rparr>"

definition write_file :: "string \<Rightarrow> string \<Rightarrow> disk \<Rightarrow> disk" where
  "write_file path raw d = d\<lparr>dk_entries := (dk_entries d)(path \<mapsto> new_file raw)\<rparr>"

text \<open>\<open>O_CREATE|O_EXCL\<close> refuses any existing entry, a symbolic link included.\<close>

definition writeExclusive :: "string \<Rightarrow> string \<Rightarrow> fault \<Rightarrow> (disk, unit) op" where
  "writeExclusive path raw f d =
     (if f = OpenFails then (Inl (New ''open''), d)
      else if dk_entries d path \<noteq> None then (Inl ErrExist, d)
      else (case f of
          WriteStops n \<Rightarrow> (Inl (New ''write''), write_file path (take n raw) d)
        | SyncFails \<Rightarrow> (Inl (New ''sync''), write_file path raw d)
        | DirectoryFails \<Rightarrow> (Inl (New ''sync directory''), write_file path raw d)
        | CloseFails \<Rightarrow> (Inl (New ''close''), write_file path raw d)
        | _ \<Rightarrow> (Inr (), write_file path raw d)))"

definition readLimit :: nat where "readLimit = 1048576"

definition readRegular :: "string \<Rightarrow> fault \<Rightarrow> (disk, string) op" where
  "readRegular path f d = ((case dk_entries d path of
       None \<Rightarrow> Inl ErrNotExist
     | Some e \<Rightarrow>
         if en_symlink e \<or> \<not> en_regular e then Inl (Errf ''ledger record %s is not a regular file'' [path])
         else if \<not> en_private e then
           Inl (Errf ''ledger record %s permissions are broader than 0600'' [path])
         else if f = OpenFails \<or> f = ReadFails then Inl (New ''open'')
         else Inr (take readLimit (en_content e))), d)"

record fileStore =
  fs_claims :: string
  fs_outcomes :: string
  fs_stageReceipts :: string

definition join_path :: "string \<Rightarrow> string \<Rightarrow> string" where
  "join_path a b = a @ ''/'' @ b"

definition store_path :: "fileStore \<Rightarrow> string \<Rightarrow> string \<Rightarrow> string result" where
  "store_path fs category k =
     (if \<not> hex64 k then Inl (New ''ledger record key is invalid'')
      else let in_dir = (\<lambda>dir. Inr (join_path dir (k @ ''.json''))) in
        if category = ''claims'' then in_dir (fs_claims fs)
        else if category = ''outcomes'' then in_dir (fs_outcomes fs)
        else if category = ''stage-receipts'' then in_dir (fs_stageReceipts fs)
        else Inl (Errf ''ledger record category %q is invalid'' [category]))"

definition file_Create :: "fileStore \<Rightarrow> string \<Rightarrow> string \<Rightarrow> string \<Rightarrow> (disk, unit) op" where
  "file_Create fs category k raw d0 = (let (f, d) = next_fault d0 in
     if f = Cancelled then (Inl (New ''context canceled''), d)
     else (case store_path fs category k of
         Inl e \<Rightarrow> (Inl e, d)
       | Inr path \<Rightarrow> (case writeExclusive path raw f d of
             (Inl e, t) \<Rightarrow> (Inl (if errors_is e ErrExist then ErrRecordExists else e), t)
           | (Inr u, t) \<Rightarrow> (Inr u, t))))"

definition file_Get :: "fileStore \<Rightarrow> string \<Rightarrow> string \<Rightarrow> (disk, string) op" where
  "file_Get fs category k d0 = (let (f, d) = next_fault d0 in
     if f = Cancelled then (Inl (New ''context canceled''), d)
     else (case store_path fs category k of
         Inl e \<Rightarrow> (Inl e, d)
       | Inr path \<Rightarrow> (case readRegular path f d of
             (Inl e, t) \<Rightarrow> (Inl (if errors_is e ErrNotExist then ErrRecordNotFound else e), t)
           | (Inr raw, t) \<Rightarrow> (Inr raw, t))))"

definition file_store :: "fileStore \<Rightarrow> disk RecordStore" where
  "file_store fs = \<lparr>rs_Create = file_Create fs, rs_Get = file_Get fs\<rparr>"

text \<open>Opening: three private directories below an absolute root.\<close>

record dir_info =
  di_symlink :: bool
  di_directory :: bool
  di_private :: bool

definition secureDirectory :: "bool \<Rightarrow> dir_info option \<Rightarrow> string \<Rightarrow> unit result" where
  "secureDirectory made info path =
     (if \<not> made then Inl (New ''create private ledger directory'')
      else (case info of
          None \<Rightarrow> Inl (New ''lstat'')
        | Some i \<Rightarrow>
            if di_symlink i \<or> \<not> di_directory i then
              Inl (Errf ''ledger path %s is not a real directory'' [path])
            else if \<not> di_private i then
              Inl (Errf ''ledger directory %s permissions are broader than 0700'' [path])
            else Inr ()))"

definition store_of :: "string \<Rightarrow> fileStore" where
  "store_of root = \<lparr>fs_claims = join_path root ''claims'', fs_outcomes = join_path root ''outcomes'',
     fs_stageReceipts = join_path root ''stage-receipts''\<rparr>"

text \<open>
  \<open>absolute\<close> is \<open>filepath.Abs\<close>; \<open>probe path\<close> is whether \<open>MkdirAll\<close> succeeded there and what
  \<open>Lstat\<close> then saw.
\<close>

definition Open ::
  "(string \<Rightarrow> string option) \<Rightarrow> (string \<Rightarrow> bool \<times> dir_info option) \<Rightarrow> string \<Rightarrow> disk RecordStore result" where
  "Open absolute probe root =
     (if root = '''' then Inl (New ''ledger root is required'')
      else (case absolute root of
          None \<Rightarrow> Inl (New ''resolve ledger root'')
        | Some r \<Rightarrow>
            bindE (mapE (\<lambda>path. secureDirectory (fst (probe path)) (snd (probe path)) path)
                [r, fs_claims (store_of r), fs_outcomes (store_of r), fs_stageReceipts (store_of r)])
              (\<lambda>_. Inr (file_store (store_of r)))))"


section \<open>The file store keeps the contract\<close>

definition slot_path :: "fileStore \<Rightarrow> string \<Rightarrow> string \<Rightarrow> string" where
  "slot_path fs c k = join_path (if c = ''claims'' then fs_claims fs else if c = ''outcomes'' then fs_outcomes fs
     else fs_stageReceipts fs) (k @ ''.json'')"

definition file_contents :: "fileStore \<Rightarrow> disk \<Rightarrow> string \<Rightarrow> string \<Rightarrow> string option" where
  "file_contents fs d c k = (if valid_slot c k
     then map_option (\<lambda>e. take readLimit (en_content e)) (dk_entries d (slot_path fs c k)) else None)"

text \<open>Nothing is going to fail, and every record is a private regular file.\<close>

definition file_healthy :: "fileStore \<Rightarrow> disk \<Rightarrow> bool" where
  "file_healthy fs d \<longleftrightarrow> list_all (\<lambda>f. f = Works) (dk_faults d)
     \<and> (\<forall>c k e. valid_slot c k \<longrightarrow> dk_entries d (slot_path fs c k) = Some e \<longrightarrow>
          en_regular e \<and> \<not> en_symlink e \<and> en_private e)"

lemma store_path_eq: "store_path fs c k = (if \<not> hex64 k then Inl (New ''ledger record key is invalid'')
    else if c \<notin> set categories then Inl (Errf ''ledger record category %q is invalid'' [c])
    else Inr (slot_path fs c k))"
  by (simp add: store_path_def slot_path_def categories_def Let_def)

lemma slot_path_inject:
  assumes "valid_slot c k" and "valid_slot c' k'"
  shows "slot_path (store_of root) c k = slot_path (store_of root) c' k' \<longleftrightarrow> c = c' \<and> k = k'"
proof -
  have n: "length k = 64" "length k' = 64" using assms by (simp_all add: valid_slot_def hex64_def)
  have c: "c \<in> set categories" "c' \<in> set categories" using assms by (simp_all add: valid_slot_def)
  have "slot_path (store_of root) c k = (root @ ''/'' @ c) @ (''/'' @ k @ ''.json'')"
    if "c \<in> set categories" for c k
    using that by (auto simp: slot_path_def store_of_def join_path_def categories_def)
  with c n show ?thesis by auto
qed


lemma next_fault_entries: "next_fault d = (f, d') \<Longrightarrow> dk_entries d' = dk_entries d"
  by (auto simp: next_fault_def split: list.splits)

lemma next_fault_healthy:
  "file_healthy fs d \<Longrightarrow> next_fault d = (f, d') \<Longrightarrow> f = Works \<and> file_healthy fs d'"
  by (auto simp: next_fault_def file_healthy_def split: list.splits)

lemma file_CreateE:
  assumes "file_Create fs c k raw d = (r, t)"
  obtains (same) e where "dk_entries t = dk_entries d" "r = Inl e"
      "errors_is e ErrRecordExists \<Longrightarrow> valid_slot c k \<and> dk_entries d (slot_path fs c k) \<noteq> None"
  | (new) w where "valid_slot c k" "dk_entries d (slot_path fs c k) = None"
      "dk_entries t = (dk_entries d)(slot_path fs c k \<mapsto> new_file w)" "r = Inr () \<Longrightarrow> w = raw"
      "\<And>e. r = Inl e \<Longrightarrow> \<not> errors_is e ErrRecordExists"
proof -
  obtain f d' where n: "next_fault d = (f, d')" by (cases "next_fault d")
  note e = next_fault_entries [OF n]
  show thesis
  proof (cases "f = Cancelled \<or> \<not> valid_slot c k \<or> f = OpenFails \<or> dk_entries d (slot_path fs c k) \<noteq> None")
    case True
    show thesis
      by (rule same [of "projl r"])
        (use True assms e in \<open>auto simp: file_Create_def n store_path_eq valid_slot_def writeExclusive_def
          ErrExist_def ErrRecordExists_def split: if_splits\<close>)
  next
    case False
    show thesis
      by (rule new [of "case f of WriteStops n \<Rightarrow> take n raw | _ \<Rightarrow> raw"])
        (use False assms e in \<open>auto simp: file_Create_def n store_path_eq valid_slot_def writeExclusive_def
          write_file_def ErrExist_def ErrRecordExists_def split: if_splits fault.splits\<close>)
  qed
qed

lemma get_cases:
  assumes "file_Get fs c k d = (r, t)"
  shows "dk_entries t = dk_entries d"
    and "r = Inr raw \<Longrightarrow> file_contents fs d c k = Some raw"
    and "r = Inl e \<Longrightarrow> errors_is e ErrRecordNotFound \<Longrightarrow> file_contents fs d c k = None"
proof -
  obtain f d' where n: "next_fault d = (f, d')" by (cases "next_fault d")
  note en = next_fault_entries [OF n]
  show "dk_entries t = dk_entries d"
    using assms en
    by (auto simp: file_Get_def n readRegular_def split: if_splits sum.splits option.splits)
  show "r = Inr raw \<Longrightarrow> file_contents fs d c k = Some raw"
    using assms en
    by (auto simp: file_Get_def n readRegular_def store_path_eq valid_slot_def file_contents_def
        split: if_splits sum.splits option.splits)
  show "r = Inl e \<Longrightarrow> errors_is e ErrRecordNotFound \<Longrightarrow> file_contents fs d c k = None"
    using assms en
    by (auto simp: file_Get_def n readRegular_def store_path_eq valid_slot_def file_contents_def
        ErrNotExist_def ErrRecordNotFound_def split: if_splits sum.splits option.splits)
qed


lemma file_contents_slot:
  "valid_slot c k \<Longrightarrow> file_contents fs d c k = map_option (\<lambda>e. take readLimit (en_content e)) (dk_entries d (slot_path fs c k))"
  by (simp add: file_contents_def)

lemma file_contents_invalid: "\<not> valid_slot c k \<Longrightarrow> file_contents fs d c k = None"
  by (simp add: file_contents_def)

lemma file_contents_cong: "dk_entries t = dk_entries d \<Longrightarrow> file_contents fs t = file_contents fs d"
  by (rule ext)+ (simp add: file_contents_def)

lemma create_frame_files:
  assumes "file_Create (store_of root) c k raw d = (r, t)" and "(c', k') \<noteq> (c, k)"
  shows "file_contents (store_of root) t c' k' = file_contents (store_of root) d c' k'"
proof (cases "valid_slot c' k'")
  case True
  from assms(1) show ?thesis
  proof (cases rule: file_CreateE)
    case (same e)
    then show ?thesis by (simp only: file_contents_cong [OF same(1)])
  next
    case (new w)
    with True assms(2) slot_path_inject [OF True new(1), of root] show ?thesis
      by (simp add: file_contents_slot)
  qed
qed (simp add: file_contents_invalid)

lemma file_create_healthy:
  assumes h: "file_healthy fs d" and v: "valid_slot c k"
  shows "file_Create fs c k raw d =
    (if dk_entries d (slot_path fs c k) \<noteq> None then (Inl ErrRecordExists, snd (next_fault d))
     else (Inr (), write_file (slot_path fs c k) raw (snd (next_fault d))))"
proof -
  obtain f d' where n: "next_fault d = (f, d')" by (cases "next_fault d")
  with next_fault_healthy [OF h n] next_fault_entries [OF n] v show ?thesis
    by (auto simp: file_Create_def store_path_eq valid_slot_def writeExclusive_def ErrExist_def)
qed

lemma file_get_healthy:
  assumes h: "file_healthy fs d" and v: "valid_slot c k"
  shows "file_Get fs c k d = (of_option ErrRecordNotFound (file_contents fs d c k), snd (next_fault d))"
proof -
  obtain f d' where n: "next_fault d = (f, d')" by (cases "next_fault d")
  with next_fault_healthy [OF h n] next_fault_entries [OF n] h v show ?thesis
    by (auto simp: file_Get_def store_path_eq valid_slot_def readRegular_def file_contents_def
        file_healthy_def ErrNotExist_def of_option_def split: option.splits)
qed

lemma write_file_healthy:
  assumes "file_healthy (store_of root) d" and "valid_slot c k"
  shows "file_healthy (store_of root) (write_file (slot_path (store_of root) c k) raw d)"
  using assms slot_path_inject [OF _ assms(2), of _ _ root]
  by (auto simp: file_healthy_def write_file_def new_file_def)

lemma healthy_next: "file_healthy fs d \<Longrightarrow> file_healthy fs (snd (next_fault d))"
  using next_fault_healthy by (cases "next_fault d") auto

interpretation files: record_store "file_store (store_of root)" "file_contents (store_of root)" readLimit
  "file_healthy (store_of root)" for root
proof unfold_locales
  fix c k raw c' k' and s t :: disk and r :: "unit result" and u
  { assume a: "rs_Create (file_store (store_of root)) c k raw s = (Inr u, t)"
    then have "file_Create (store_of root) c k raw s = (Inr (), t)" by (simp add: file_store_def)
    then show "file_contents (store_of root) s c k = None \<and> file_contents (store_of root) t c k \<noteq> None"
      by (cases rule: file_CreateE) (simp_all add: file_contents_slot) }
  { assume a: "rs_Create (file_store (store_of root)) c k raw s = (Inr u, t)" "length raw \<le> readLimit"
    then have "file_Create (store_of root) c k raw s = (Inr (), t)" by (simp add: file_store_def)
    then show "file_contents (store_of root) t c k = Some raw"
      by (cases rule: file_CreateE) (use a(2) in \<open>simp_all add: file_contents_slot new_file_def\<close>) }
  { assume "rs_Create (file_store (store_of root)) c k raw s = (r, t)" "file_contents (store_of root) s c' k' \<noteq> None"
    then have "file_Create (store_of root) c k raw s = (r, t)"
      and n: "file_contents (store_of root) s c' k' \<noteq> None" by (simp_all add: file_store_def)
    then show "file_contents (store_of root) t c' k' = file_contents (store_of root) s c' k'"
    proof (cases "(c', k') = (c, k)")
      case True
      from \<open>file_Create (store_of root) c k raw s = (r, t)\<close> show ?thesis
      proof (cases rule: file_CreateE)
        case (same e)
        then show ?thesis by (simp only: file_contents_cong [OF same(1)])
      next
        case (new w)
        with n True show ?thesis by (simp add: file_contents_slot)
      qed
    qed (rule create_frame_files) }
  { assume "rs_Create (file_store (store_of root)) c k raw s = (r, t)" "(c', k') \<noteq> (c, k)"
    then show "file_contents (store_of root) t c' k' = file_contents (store_of root) s c' k'"
      by (intro create_frame_files) (simp_all add: file_store_def) }
next
  fix c k raw and s t :: disk and e
  assume a: "rs_Create (file_store (store_of root)) c k raw s = (Inl e, t)" "errors_is e ErrRecordExists"
  then have "file_Create (store_of root) c k raw s = (Inl e, t)" by (simp add: file_store_def)
  then show "file_contents (store_of root) s c k \<noteq> None"
    by (cases rule: file_CreateE) (use a(2) in \<open>auto simp: file_contents_slot\<close>)
next
  fix c k raw and s t :: disk
  assume "rs_Get (file_store (store_of root)) c k s = (Inr raw, t)"
  then show "file_contents (store_of root) s c k = Some raw"
    using get_cases(2) by (simp add: file_store_def)
next
  fix c k and s t :: disk and e
  assume "rs_Get (file_store (store_of root)) c k s = (Inl e, t)" "errors_is e ErrRecordNotFound"
  then show "file_contents (store_of root) s c k = None"
    using get_cases(3) by (simp add: file_store_def)
next
  fix c k and s t :: disk and q
  assume "rs_Get (file_store (store_of root)) c k s = (q, t)"
  then show "file_contents (store_of root) t = file_contents (store_of root) s"
    using get_cases(1) by (intro file_contents_cong) (simp add: file_store_def)
next
  fix c k raw and s :: disk
  assume h: "file_healthy (store_of root) s" "valid_slot c k"
  { assume "file_contents (store_of root) s c k = None"
    with h show "\<exists>t. rs_Create (file_store (store_of root)) c k raw s = (Inr (), t) \<and> file_healthy (store_of root) t"
      by (simp add: file_store_def file_create_healthy file_contents_slot write_file_healthy healthy_next) }
  { assume "file_contents (store_of root) s c k \<noteq> None"
    with h show "\<exists>t. rs_Create (file_store (store_of root)) c k raw s = (Inl ErrRecordExists, t)
        \<and> file_healthy (store_of root) t"
      by (simp add: file_store_def file_create_healthy file_contents_slot healthy_next) }
  from h show "\<exists>t. rs_Get (file_store (store_of root)) c k s
      = (of_option ErrRecordNotFound (file_contents (store_of root) s c k), t) \<and> file_healthy (store_of root) t"
    by (simp add: file_store_def file_get_healthy healthy_next)
qed

end
