(* ===== verification/Ledger.thy ===== *)
theory Ledger
  imports CreateAuthorization AuthorizationFacts RecordStore
begin

text \<open>
  The single-use ledger (\<open>internal/ledger\<close>): claims and outcomes of create grants
  (\<open>ledger.go\<close>) and of stage grants (\<open>stage.go\<close>, \<open>stage_claim_read.go\<close>), persisted stage
  receipts (\<open>stage_receipt.go\<close>) and their derivation from a durable outcome
  (\<open>stage_finalize.go\<close>). Every operation is a state transformer of the record store it is given.
\<close>

section \<open>Data\<close>

record ClaimReceipt =
  cl_Format :: string
  cl_State :: string
  cl_AuthorizationDigest :: string
  cl_GrantID :: string
  cl_KeyID :: string
  cl_Operation :: string
  cl_RequestDigest :: string
  cl_ContractRevision :: string
  cl_ProjectionManifestDigest :: string
  cl_ClaimedAt :: string

record OutcomeReceipt =
  oc_Format :: string
  oc_State :: string
  oc_GrantID :: string
  oc_Operation :: string
  oc_RequestDigest :: string
  oc_ClaimDigest :: string
  oc_Outcome :: string
  oc_MutationState :: string
  oc_EvidenceDigest :: string
  oc_CompletedAt :: string

record StageClaimReceipt =
  sl_Format :: string
  sl_State :: string
  sl_AuthorizationDigest :: string
  sl_GrantID :: string
  sl_KeyID :: string
  sl_PlanDigest :: string
  sl_StageID :: string
  sl_StageDigest :: string
  sl_Operation :: string
  sl_Authority :: string
  sl_PredecessorDigest :: string
  sl_ContractRevision :: string
  sl_ClaimedAt :: string

record StageOutcomeReceipt =
  so_Format :: string
  so_State :: string
  so_GrantID :: string
  so_PlanDigest :: string
  so_StageID :: string
  so_StageDigest :: string
  so_Operation :: string
  so_ClaimDigest :: string
  so_Outcome :: string
  so_MutationState :: string
  so_EvidenceDigest :: string
  so_TargetClusterUIDDigest :: string
  so_CompletedAt :: string

record Inspection =
  is_State :: string
  is_ClaimAllowed :: bool
  is_ClaimDigest :: string
  is_OutcomeDigest :: string
  is_Outcome :: "OutcomeReceipt option"

record StageInspection =
  si_State :: string
  si_ClaimAllowed :: bool
  si_ClaimDigest :: string
  si_OutcomeDigest :: string
  si_Outcome :: "StageOutcomeReceipt option"

definition ClaimFormat :: string where "ClaimFormat = ''ok147-grant-claim/v1''"
definition OutcomeFormat :: string where "OutcomeFormat = ''ok147-operation-receipt/v1''"
definition StageClaimFormat :: string where "StageClaimFormat = ''ok147-stage-grant-claim/v1''"
definition StageOutcomeFormat :: string where "StageOutcomeFormat = ''ok147-stage-operation-receipt/v1''"
definition stageReceiptSlotFormat :: string where
  "stageReceiptSlotFormat = ''ok147-stage-receipt-slot/v1''"
definition stageReceiptAttemptSlotFormat :: string where
  "stageReceiptAttemptSlotFormat = ''ok147-stage-receipt-attempt-slot/v1''"

definition ErrGrantConsumed :: goerror where
  "ErrGrantConsumed = Sentinel ''authorization grant is already consumed''"
definition ErrStageReceiptConflict :: goerror where
  "ErrStageReceiptConflict = Sentinel ''a different stage receipt already occupies the immutable slot''"

definition enc_claim :: "ClaimReceipt \<Rightarrow> json" where
  "enc_claim x = struct [
     key ''format'' (JStr (cl_Format x)), key ''state'' (JStr (cl_State x)),
     key ''authorizationDigest'' (JStr (cl_AuthorizationDigest x)),
     key ''grantId'' (JStr (cl_GrantID x)), key ''keyId'' (JStr (cl_KeyID x)),
     key ''operation'' (JStr (cl_Operation x)), key ''requestDigest'' (JStr (cl_RequestDigest x)),
     key ''contractRevision'' (JStr (cl_ContractRevision x)),
     key ''projectionManifestDigest'' (JStr (cl_ProjectionManifestDigest x)),
     key ''claimedAt'' (JStr (cl_ClaimedAt x))]"

definition zero_claim :: ClaimReceipt where
  "zero_claim = \<lparr>cl_Format = [], cl_State = [], cl_AuthorizationDigest = [], cl_GrantID = [], cl_KeyID = [],
     cl_Operation = [], cl_RequestDigest = [], cl_ContractRevision = [],
     cl_ProjectionManifestDigest = [], cl_ClaimedAt = []\<rparr>"

definition claim_fields :: "string list" where
  "claim_fields = [''format'', ''state'', ''authorizationDigest'', ''grantId'', ''keyId'', ''operation'',
     ''requestDigest'', ''contractRevision'', ''projectionManifestDigest'', ''claimedAt'']"

definition dec_claim :: "ClaimReceipt \<Rightarrow> json \<Rightarrow> ClaimReceipt option" where
  "dec_claim old = (let ns = claim_fields in dec_struct ns (\<lambda>kvs. do {
     f1 \<leftarrow> dec_field ns kvs ''format'' dec_string (cl_Format old);
     f2 \<leftarrow> dec_field ns kvs ''state'' dec_string (cl_State old);
     f3 \<leftarrow> dec_field ns kvs ''authorizationDigest'' dec_string (cl_AuthorizationDigest old);
     f4 \<leftarrow> dec_field ns kvs ''grantId'' dec_string (cl_GrantID old);
     f5 \<leftarrow> dec_field ns kvs ''keyId'' dec_string (cl_KeyID old);
     f6 \<leftarrow> dec_field ns kvs ''operation'' dec_string (cl_Operation old);
     f7 \<leftarrow> dec_field ns kvs ''requestDigest'' dec_string (cl_RequestDigest old);
     f8 \<leftarrow> dec_field ns kvs ''contractRevision'' dec_string (cl_ContractRevision old);
     f9 \<leftarrow> dec_field ns kvs ''projectionManifestDigest'' dec_string (cl_ProjectionManifestDigest old);
     f10 \<leftarrow> dec_field ns kvs ''claimedAt'' dec_string (cl_ClaimedAt old);
     Some \<lparr>cl_Format = f1, cl_State = f2, cl_AuthorizationDigest = f3, cl_GrantID = f4, cl_KeyID = f5,
       cl_Operation = f6, cl_RequestDigest = f7, cl_ContractRevision = f8,
       cl_ProjectionManifestDigest = f9, cl_ClaimedAt = f10\<rparr> }) old)"

definition enc_outcome :: "OutcomeReceipt \<Rightarrow> json" where
  "enc_outcome x = struct [
     key ''format'' (JStr (oc_Format x)), key ''state'' (JStr (oc_State x)),
     key ''grantId'' (JStr (oc_GrantID x)), key ''operation'' (JStr (oc_Operation x)),
     key ''requestDigest'' (JStr (oc_RequestDigest x)),
     key ''claimDigest'' (JStr (oc_ClaimDigest x)), key ''outcome'' (JStr (oc_Outcome x)),
     key ''mutationState'' (JStr (oc_MutationState x)),
     key ''evidenceDigest'' (JStr (oc_EvidenceDigest x)),
     key ''completedAt'' (JStr (oc_CompletedAt x))]"

definition zero_outcome :: OutcomeReceipt where
  "zero_outcome = \<lparr>oc_Format = [], oc_State = [], oc_GrantID = [], oc_Operation = [], oc_RequestDigest = [],
     oc_ClaimDigest = [], oc_Outcome = [], oc_MutationState = [], oc_EvidenceDigest = [],
     oc_CompletedAt = []\<rparr>"

definition outcome_fields :: "string list" where
  "outcome_fields = [''format'', ''state'', ''grantId'', ''operation'', ''requestDigest'', ''claimDigest'',
     ''outcome'', ''mutationState'', ''evidenceDigest'', ''completedAt'']"

definition dec_outcome :: "OutcomeReceipt \<Rightarrow> json \<Rightarrow> OutcomeReceipt option" where
  "dec_outcome old = (let ns = outcome_fields in dec_struct ns (\<lambda>kvs. do {
     f1 \<leftarrow> dec_field ns kvs ''format'' dec_string (oc_Format old);
     f2 \<leftarrow> dec_field ns kvs ''state'' dec_string (oc_State old);
     f3 \<leftarrow> dec_field ns kvs ''grantId'' dec_string (oc_GrantID old);
     f4 \<leftarrow> dec_field ns kvs ''operation'' dec_string (oc_Operation old);
     f5 \<leftarrow> dec_field ns kvs ''requestDigest'' dec_string (oc_RequestDigest old);
     f6 \<leftarrow> dec_field ns kvs ''claimDigest'' dec_string (oc_ClaimDigest old);
     f7 \<leftarrow> dec_field ns kvs ''outcome'' dec_string (oc_Outcome old);
     f8 \<leftarrow> dec_field ns kvs ''mutationState'' dec_string (oc_MutationState old);
     f9 \<leftarrow> dec_field ns kvs ''evidenceDigest'' dec_string (oc_EvidenceDigest old);
     f10 \<leftarrow> dec_field ns kvs ''completedAt'' dec_string (oc_CompletedAt old);
     Some \<lparr>oc_Format = f1, oc_State = f2, oc_GrantID = f3, oc_Operation = f4, oc_RequestDigest = f5,
       oc_ClaimDigest = f6, oc_Outcome = f7, oc_MutationState = f8, oc_EvidenceDigest = f9,
       oc_CompletedAt = f10\<rparr> }) old)"

definition enc_stage_claim :: "StageClaimReceipt \<Rightarrow> json" where
  "enc_stage_claim x = struct [
     key ''format'' (JStr (sl_Format x)), key ''state'' (JStr (sl_State x)),
     key ''authorizationDigest'' (JStr (sl_AuthorizationDigest x)),
     key ''grantId'' (JStr (sl_GrantID x)), key ''keyId'' (JStr (sl_KeyID x)),
     key ''planDigest'' (JStr (sl_PlanDigest x)), key ''stageId'' (JStr (sl_StageID x)),
     key ''stageDigest'' (JStr (sl_StageDigest x)), key ''operation'' (JStr (sl_Operation x)),
     key ''authority'' (JStr (sl_Authority x)),
     key ''predecessorDigest'' (JStr (sl_PredecessorDigest x)),
     key ''contractRevision'' (JStr (sl_ContractRevision x)),
     key ''claimedAt'' (JStr (sl_ClaimedAt x))]"

definition zero_stage_claim :: StageClaimReceipt where
  "zero_stage_claim = \<lparr>sl_Format = [], sl_State = [], sl_AuthorizationDigest = [], sl_GrantID = [], sl_KeyID = [],
     sl_PlanDigest = [], sl_StageID = [], sl_StageDigest = [], sl_Operation = [], sl_Authority = [],
     sl_PredecessorDigest = [], sl_ContractRevision = [], sl_ClaimedAt = []\<rparr>"

definition stage_claim_fields :: "string list" where
  "stage_claim_fields = [''format'', ''state'', ''authorizationDigest'', ''grantId'', ''keyId'', ''planDigest'',
     ''stageId'', ''stageDigest'', ''operation'', ''authority'', ''predecessorDigest'',
     ''contractRevision'', ''claimedAt'']"

definition dec_stage_claim :: "StageClaimReceipt \<Rightarrow> json \<Rightarrow> StageClaimReceipt option" where
  "dec_stage_claim old = (let ns = stage_claim_fields in dec_struct ns (\<lambda>kvs. do {
     f1 \<leftarrow> dec_field ns kvs ''format'' dec_string (sl_Format old);
     f2 \<leftarrow> dec_field ns kvs ''state'' dec_string (sl_State old);
     f3 \<leftarrow> dec_field ns kvs ''authorizationDigest'' dec_string (sl_AuthorizationDigest old);
     f4 \<leftarrow> dec_field ns kvs ''grantId'' dec_string (sl_GrantID old);
     f5 \<leftarrow> dec_field ns kvs ''keyId'' dec_string (sl_KeyID old);
     f6 \<leftarrow> dec_field ns kvs ''planDigest'' dec_string (sl_PlanDigest old);
     f7 \<leftarrow> dec_field ns kvs ''stageId'' dec_string (sl_StageID old);
     f8 \<leftarrow> dec_field ns kvs ''stageDigest'' dec_string (sl_StageDigest old);
     f9 \<leftarrow> dec_field ns kvs ''operation'' dec_string (sl_Operation old);
     f10 \<leftarrow> dec_field ns kvs ''authority'' dec_string (sl_Authority old);
     f11 \<leftarrow> dec_field ns kvs ''predecessorDigest'' dec_string (sl_PredecessorDigest old);
     f12 \<leftarrow> dec_field ns kvs ''contractRevision'' dec_string (sl_ContractRevision old);
     f13 \<leftarrow> dec_field ns kvs ''claimedAt'' dec_string (sl_ClaimedAt old);
     Some \<lparr>sl_Format = f1, sl_State = f2, sl_AuthorizationDigest = f3, sl_GrantID = f4, sl_KeyID = f5,
       sl_PlanDigest = f6, sl_StageID = f7, sl_StageDigest = f8, sl_Operation = f9,
       sl_Authority = f10, sl_PredecessorDigest = f11, sl_ContractRevision = f12, sl_ClaimedAt = f13\<rparr> }) old)"

definition enc_stage_outcome :: "StageOutcomeReceipt \<Rightarrow> json" where
  "enc_stage_outcome x = struct [
     key ''format'' (JStr (so_Format x)), key ''state'' (JStr (so_State x)),
     key ''grantId'' (JStr (so_GrantID x)), key ''planDigest'' (JStr (so_PlanDigest x)),
     key ''stageId'' (JStr (so_StageID x)), key ''stageDigest'' (JStr (so_StageDigest x)),
     key ''operation'' (JStr (so_Operation x)), key ''claimDigest'' (JStr (so_ClaimDigest x)),
     key ''outcome'' (JStr (so_Outcome x)), key ''mutationState'' (JStr (so_MutationState x)),
     key ''evidenceDigest'' (JStr (so_EvidenceDigest x)),
     optkey ''targetClusterUidDigest'' (JStr (so_TargetClusterUIDDigest x)),
     key ''completedAt'' (JStr (so_CompletedAt x))]"

definition zero_stage_outcome :: StageOutcomeReceipt where
  "zero_stage_outcome = \<lparr>so_Format = [], so_State = [], so_GrantID = [], so_PlanDigest = [], so_StageID = [],
     so_StageDigest = [], so_Operation = [], so_ClaimDigest = [], so_Outcome = [],
     so_MutationState = [], so_EvidenceDigest = [], so_TargetClusterUIDDigest = [],
     so_CompletedAt = []\<rparr>"

definition stage_outcome_fields :: "string list" where
  "stage_outcome_fields = [''format'', ''state'', ''grantId'', ''planDigest'', ''stageId'', ''stageDigest'',
     ''operation'', ''claimDigest'', ''outcome'', ''mutationState'', ''evidenceDigest'',
     ''targetClusterUidDigest'', ''completedAt'']"

definition dec_stage_outcome :: "StageOutcomeReceipt \<Rightarrow> json \<Rightarrow> StageOutcomeReceipt option" where
  "dec_stage_outcome old = (let ns = stage_outcome_fields in dec_struct ns (\<lambda>kvs. do {
     f1 \<leftarrow> dec_field ns kvs ''format'' dec_string (so_Format old);
     f2 \<leftarrow> dec_field ns kvs ''state'' dec_string (so_State old);
     f3 \<leftarrow> dec_field ns kvs ''grantId'' dec_string (so_GrantID old);
     f4 \<leftarrow> dec_field ns kvs ''planDigest'' dec_string (so_PlanDigest old);
     f5 \<leftarrow> dec_field ns kvs ''stageId'' dec_string (so_StageID old);
     f6 \<leftarrow> dec_field ns kvs ''stageDigest'' dec_string (so_StageDigest old);
     f7 \<leftarrow> dec_field ns kvs ''operation'' dec_string (so_Operation old);
     f8 \<leftarrow> dec_field ns kvs ''claimDigest'' dec_string (so_ClaimDigest old);
     f9 \<leftarrow> dec_field ns kvs ''outcome'' dec_string (so_Outcome old);
     f10 \<leftarrow> dec_field ns kvs ''mutationState'' dec_string (so_MutationState old);
     f11 \<leftarrow> dec_field ns kvs ''evidenceDigest'' dec_string (so_EvidenceDigest old);
     f12 \<leftarrow> dec_field ns kvs ''targetClusterUidDigest'' dec_string (so_TargetClusterUIDDigest old);
     f13 \<leftarrow> dec_field ns kvs ''completedAt'' dec_string (so_CompletedAt old);
     Some \<lparr>so_Format = f1, so_State = f2, so_GrantID = f3, so_PlanDigest = f4, so_StageID = f5,
       so_StageDigest = f6, so_Operation = f7, so_ClaimDigest = f8, so_Outcome = f9,
       so_MutationState = f10, so_EvidenceDigest = f11, so_TargetClusterUIDDigest = f12,
       so_CompletedAt = f13\<rparr> }) old)"

section \<open>Records\<close>

definition recordKey :: "string \<Rightarrow> string" where
  "recordKey grantID = drop 7 (SHA256 grantID)"

definition canonicalRecord :: "json \<Rightarrow> (string \<times> string) result" where
  "canonicalRecord j = bindE (canonical_record j) (\<lambda>canonical. Inr (canonical, SHA256 canonical))"

definition validateClaim :: "ClaimReceipt \<Rightarrow> unit result" where
  "validateClaim c =
     (if cl_Format c \<noteq> ClaimFormat \<or> cl_State c \<noteq> ''CLAIMED'' \<or> cl_GrantID c = '''' \<or> cl_Operation c = '''' then
        Inl (New ''grant claim is incomplete'')
      else if \<not> list_all digestPattern [cl_AuthorizationDigest c, cl_KeyID c, cl_RequestDigest c,
          cl_ContractRevision c, cl_ProjectionManifestDigest c] then
        Inl (New ''grant claim contains an invalid digest'')
      else if parse_rfc3339 (cl_ClaimedAt c) = None then Inl (New ''grant claim has an invalid timestamp'')
      else Inr ())"

definition validateOutcome :: "OutcomeReceipt \<Rightarrow> unit result" where
  "validateOutcome v =
     (if oc_Format v \<noteq> OutcomeFormat \<or> oc_State v \<noteq> ''COMPLETED'' \<or> oc_GrantID v = '''' \<or> oc_Operation v = '''' then
        Inl (New ''operation outcome is incomplete'')
      else if \<not> allowed (oc_Outcome v) [''SUCCEEDED'', ''FAILED'', ''STOPPED'']
          \<or> \<not> allowed (oc_MutationState v) [''NOT_ATTEMPTED'', ''ATTEMPTED'', ''UNKNOWN''] then
        Inl (New ''operation outcome contains an invalid state'')
      else if \<not> list_all digestPattern [oc_RequestDigest v, oc_ClaimDigest v, oc_EvidenceDigest v] then
        Inl (New ''operation outcome contains an invalid digest'')
      else if parse_rfc3339 (oc_CompletedAt v) = None then
        Inl (New ''operation outcome has an invalid timestamp'')
      else if oc_Operation v = ''CreateCluster'' \<and> oc_Outcome v = ''SUCCEEDED''
          \<and> oc_MutationState v \<noteq> ''ATTEMPTED'' then
        Inl (New ''successful CreateCluster outcome lacks attempted mutation state'')
      else Inr ())"

definition validateStageClaim :: "StageClaimReceipt \<Rightarrow> unit result" where
  "validateStageClaim c =
     (if sl_Format c \<noteq> StageClaimFormat \<or> sl_State c \<noteq> ''CLAIMED'' \<or> sl_GrantID c = '''' \<or> sl_StageID c = ''''
         \<or> sl_Operation c = '''' \<or> sl_Authority c = '''' then
        Inl (New ''stage grant claim is incomplete'')
      else if \<not> list_all digestPattern [sl_AuthorizationDigest c, sl_KeyID c, sl_PlanDigest c,
          sl_StageDigest c, sl_PredecessorDigest c, sl_ContractRevision c] then
        Inl (New ''stage grant claim contains an invalid digest'')
      else if parse_rfc3339 (sl_ClaimedAt c) = None then
        Inl (New ''stage grant claim has an invalid timestamp'')
      else Inr ())"

text \<open>The two rules that both completion and validation of a stage outcome apply.\<close>

abbreviation lacks_mutation :: "string \<Rightarrow> string \<Rightarrow> string \<Rightarrow> bool" where
  "lacks_mutation stageID outcome mutation \<equiv> outcome = ''SUCCEEDED'' \<and> mutation \<noteq> ''ATTEMPTED''
     \<and> \<not> (stageID = ''provider-prerequisites'' \<and> mutation = ''NOT_ATTEMPTED'')"

abbreviation bad_target :: "string \<Rightarrow> string \<Rightarrow> string \<Rightarrow> bool" where
  "bad_target stageID outcome target \<equiv> target \<noteq> ''''
     \<and> (stageID \<noteq> ''cluster-lifecycle'' \<or> outcome \<noteq> ''SUCCEEDED'' \<or> \<not> digestPattern target)"

definition validateStageOutcome :: "StageOutcomeReceipt \<Rightarrow> unit result" where
  "validateStageOutcome v =
     (if so_Format v \<noteq> StageOutcomeFormat \<or> so_State v \<noteq> ''COMPLETED'' \<or> so_GrantID v = '''' \<or> so_StageID v = ''''
         \<or> so_Operation v = '''' then
        Inl (New ''stage outcome is incomplete'')
      else if \<not> allowed (so_Outcome v) [''SUCCEEDED'', ''FAILED'', ''STOPPED'']
          \<or> \<not> allowed (so_MutationState v) [''NOT_ATTEMPTED'', ''ATTEMPTED'', ''UNKNOWN''] then
        Inl (New ''stage outcome contains an invalid state'')
      else if \<not> list_all digestPattern [so_PlanDigest v, so_StageDigest v, so_ClaimDigest v, so_EvidenceDigest v] then
        Inl (New ''stage outcome contains an invalid digest'')
      else if bad_target (so_StageID v) (so_Outcome v) (so_TargetClusterUIDDigest v) then
        Inl (New ''stage outcome contains an invalid target Cluster identity binding'')
      else if parse_rfc3339 (so_CompletedAt v) = None then
        Inl (New ''stage outcome has an invalid timestamp'')
      else if lacks_mutation (so_StageID v) (so_Outcome v) (so_MutationState v) then
        Inl (New ''successful stage outcome lacks attempted mutation state'')
      else Inr ())"

definition matchBinding :: "ClaimReceipt \<Rightarrow> CreateConsumptionBinding \<Rightarrow> unit result" where
  "matchBinding c b =
     (if cl_AuthorizationDigest c \<noteq> cb_AuthorizationDigest b \<or> cl_GrantID c \<noteq> cb_GrantID b
         \<or> cl_KeyID c \<noteq> cb_KeyID b \<or> cl_Operation c \<noteq> cb_Operation b
         \<or> cl_RequestDigest c \<noteq> cb_RequestDigest b \<or> cl_ContractRevision c \<noteq> cb_ContractRevision b
         \<or> cl_ProjectionManifestDigest c \<noteq> cb_ProjectionManifestDigest b then
        Inl (New ''stored grant claim differs from verified authorization'')
      else Inr ())"

definition matchStageBinding :: "StageClaimReceipt \<Rightarrow> StageConsumptionBinding \<Rightarrow> unit result" where
  "matchStageBinding c b =
     (if sl_AuthorizationDigest c \<noteq> sc_AuthorizationDigest b \<or> sl_GrantID c \<noteq> sc_GrantID b
         \<or> sl_KeyID c \<noteq> sc_KeyID b \<or> sl_PlanDigest c \<noteq> sc_PlanDigest b \<or> sl_StageID c \<noteq> sc_StageID b
         \<or> sl_StageDigest c \<noteq> sc_StageDigest b \<or> sl_Operation c \<noteq> sc_Operation b
         \<or> sl_Authority c \<noteq> sc_Authority b \<or> sl_PredecessorDigest c \<noteq> sc_PredecessorDigest b
         \<or> sl_ContractRevision c \<noteq> sc_ContractRevision b then
        Inl (New ''stored stage claim differs from verified authorization'')
      else Inr ())"

section \<open>Reading records\<close>

text \<open>
  The common shape of the four readers: the exact record, decoded strictly, whose canonical form is
  the stored text; the value and its digest after validation.
\<close>

definition read_record ::
  "'s RecordStore \<Rightarrow> string \<Rightarrow> (json \<Rightarrow> 'a option) \<Rightarrow> ('a \<Rightarrow> json) \<Rightarrow> ('a \<Rightarrow> unit result) \<Rightarrow> string \<Rightarrow> string
    \<Rightarrow> string \<Rightarrow> ('s, 'a \<times> string) op" where
  "read_record store category decode enc check label modified grantID =
     bindS (rs_Get store category (recordKey grantID)) (\<lambda>raw. liftE (
       bindE (wrapE label (strict_decode decode raw)) (\<lambda>v.
       bindE (canonicalRecord (enc v)) (\<lambda>(canonical, identity).
         if raw \<noteq> canonical then Inl (New modified)
         else bindE (check v) (\<lambda>_. Inr (v, identity))))))"

definition readClaim :: "'s RecordStore \<Rightarrow> string \<Rightarrow> ('s, ClaimReceipt \<times> string) op" where
  "readClaim store = read_record store ''claims'' (dec_claim zero_claim) enc_claim validateClaim
     ''decode grant claim'' ''grant claim is not canonical or was modified''"

definition readOutcome :: "'s RecordStore \<Rightarrow> string \<Rightarrow> ('s, OutcomeReceipt \<times> string) op" where
  "readOutcome store = read_record store ''outcomes'' (dec_outcome zero_outcome) enc_outcome validateOutcome
     ''decode operation outcome'' ''operation outcome is not canonical or was modified''"

definition readStageClaim :: "'s RecordStore \<Rightarrow> string \<Rightarrow> ('s, StageClaimReceipt \<times> string) op" where
  "readStageClaim store = read_record store ''claims'' (dec_stage_claim zero_stage_claim) enc_stage_claim
     validateStageClaim ''decode stage grant claim'' ''stage grant claim is not canonical or was modified''"

definition readStageOutcome :: "'s RecordStore \<Rightarrow> string \<Rightarrow> ('s, StageOutcomeReceipt \<times> string) op" where
  "readStageOutcome store = read_record store ''outcomes'' (dec_stage_outcome zero_stage_outcome)
     enc_stage_outcome validateStageOutcome ''decode stage outcome''
     ''stage outcome is not canonical or was modified''"

section \<open>Create grants\<close>

text \<open>The window check and the atomic create that both claims share.\<close>

definition check_window :: "string \<Rightarrow> string \<Rightarrow> time \<Rightarrow> string \<Rightarrow> string \<Rightarrow> string \<Rightarrow> unit result" where
  "check_window notBefore notAfter at m1 m2 m3 =
     (case parse_rfc3339 notBefore of
        None \<Rightarrow> Inl (New m1)
      | Some starts \<Rightarrow> (case parse_rfc3339 notAfter of
            None \<Rightarrow> Inl (New m2)
          | Some expires \<Rightarrow> if before at starts \<or> \<not> before at expires then Inl (New m3) else Inr ()))"

definition consume :: "'s RecordStore \<Rightarrow> string \<Rightarrow> string \<Rightarrow> string \<Rightarrow> ('s, unit) op" where
  "consume store grantID raw label =
     tryS (rs_Create store ''claims'' (recordKey grantID) raw) (\<lambda>r. liftE (case r of
       Inl e \<Rightarrow> Inl (if errors_is e ErrRecordExists then ErrGrantConsumed else Wrap label e)
     | Inr _ \<Rightarrow> Inr ()))"

definition Claim :: "'s RecordStore \<Rightarrow> VerifiedGrant \<Rightarrow> time \<Rightarrow> ('s, ClaimReceipt) op" where
  "Claim store g at =
     bindS (liftE (CreateConsumption g)) (\<lambda>b.
     bindS (liftE (check_window (cb_NotBefore b) (cb_NotAfter b) at ''grant start'' ''grant expiration''
         ''grant is not active at consumption time'')) (\<lambda>_.
     let receipt = \<lparr>cl_Format = ClaimFormat, cl_State = ''CLAIMED'',
       cl_AuthorizationDigest = cb_AuthorizationDigest b, cl_GrantID = cb_GrantID b, cl_KeyID = cb_KeyID b,
       cl_Operation = cb_Operation b, cl_RequestDigest = cb_RequestDigest b,
       cl_ContractRevision = cb_ContractRevision b,
       cl_ProjectionManifestDigest = cb_ProjectionManifestDigest b,
       cl_ClaimedAt = format_rfc3339nano at\<rparr> in
     bindS (liftE (canonicalRecord (enc_claim receipt))) (\<lambda>(raw, _).
     bindS (consume store (cb_GrantID b) raw ''write grant claim'') (\<lambda>_. liftE (Inr receipt)))))"

text \<open>
  Writing an outcome: a record that is already there must be the very same outcome. \<open>read\<close> reads
  the existing one.
\<close>

definition write_outcome ::
  "'s RecordStore \<Rightarrow> string \<Rightarrow> ('s, 'a \<times> string) op \<Rightarrow> 'a \<Rightarrow> string \<Rightarrow> string \<Rightarrow> string \<Rightarrow> string \<Rightarrow> ('s, 'a) op" where
  "write_outcome store grantID read receipt raw expectedDigest label conflict =
     tryS (rs_Create store ''outcomes'' (recordKey grantID) raw) (\<lambda>r. case r of
       Inr _ \<Rightarrow> liftE (Inr receipt)
     | Inl e \<Rightarrow>
         if \<not> errors_is e ErrRecordExists then liftE (Inl (Wrap label e))
         else bindS read (\<lambda>(existing, existingDigest).
           liftE (if existingDigest = expectedDigest \<and> existing = receipt then Inr existing
             else Inl (New conflict))))"

definition Complete ::
  "'s RecordStore \<Rightarrow> ClaimReceipt \<Rightarrow> string \<Rightarrow> string \<Rightarrow> string \<Rightarrow> time \<Rightarrow> ('s, OutcomeReceipt) op" where
  "Complete store claim outcome mutationState evidenceDigest at =
     (if \<not> allowed outcome [''SUCCEEDED'', ''FAILED'', ''STOPPED''] then
        liftE (Inl (Errf ''unsupported outcome %q'' [outcome]))
      else if \<not> allowed mutationState [''NOT_ATTEMPTED'', ''ATTEMPTED'', ''UNKNOWN''] then
        liftE (Inl (Errf ''unsupported mutation state %q'' [mutationState]))
      else if cl_Operation claim = ''CreateCluster'' \<and> outcome = ''SUCCEEDED'' \<and> mutationState \<noteq> ''ATTEMPTED'' then
        liftE (Inl (New ''successful CreateCluster outcome requires mutationState ATTEMPTED''))
      else if \<not> digestPattern evidenceDigest then liftE (Inl (New ''evidence digest is invalid''))
      else bindS (readClaim store (cl_GrantID claim)) (\<lambda>(stored, claimDigest).
        bindS (liftE (canonicalRecord (enc_claim claim))) (\<lambda>(_, providedDigest).
        if claimDigest \<noteq> providedDigest \<or> stored \<noteq> claim then
          liftE (Inl (New ''provided claim differs from immutable ledger claim''))
        else if (case parse_rfc3339 (cl_ClaimedAt claim) of None \<Rightarrow> True | Some c \<Rightarrow> before at c) then
          liftE (Inl (New ''completion time precedes claim''))
        else let receipt = \<lparr>oc_Format = OutcomeFormat, oc_State = ''COMPLETED'',
            oc_GrantID = cl_GrantID claim, oc_Operation = cl_Operation claim,
            oc_RequestDigest = cl_RequestDigest claim, oc_ClaimDigest = claimDigest, oc_Outcome = outcome,
            oc_MutationState = mutationState, oc_EvidenceDigest = evidenceDigest,
            oc_CompletedAt = format_rfc3339nano at\<rparr> in
          bindS (liftE (canonicalRecord (enc_outcome receipt))) (\<lambda>(raw, expectedDigest).
            write_outcome store (cl_GrantID claim) (readOutcome store (cl_GrantID claim)) receipt raw
              expectedDigest ''write operation outcome'' ''conflicting operation outcome already exists''))))"

definition Inspect :: "'s RecordStore \<Rightarrow> VerifiedGrant \<Rightarrow> ('s, Inspection) op" where
  "Inspect store g =
     bindS (liftE (CreateConsumption g)) (\<lambda>b.
     tryS (readClaim store (cb_GrantID b)) (\<lambda>rc. case rc of
       Inl e \<Rightarrow> liftE (if errors_is e ErrRecordNotFound
         then Inr \<lparr>is_State = ''AVAILABLE'', is_ClaimAllowed = True, is_ClaimDigest = '''',
           is_OutcomeDigest = '''', is_Outcome = None\<rparr> else Inl e)
     | Inr (claim, claimDigest) \<Rightarrow>
         bindS (liftE (matchBinding claim b)) (\<lambda>_.
         tryS (readOutcome store (cb_GrantID b)) (\<lambda>ro. liftE (case ro of
           Inl e \<Rightarrow> if errors_is e ErrRecordNotFound
             then Inr \<lparr>is_State = ''CLAIMED_INDETERMINATE_STOP'', is_ClaimAllowed = False,
               is_ClaimDigest = claimDigest, is_OutcomeDigest = '''', is_Outcome = None\<rparr> else Inl e
         | Inr (v, outcomeDigest) \<Rightarrow>
             if oc_ClaimDigest v \<noteq> claimDigest \<or> oc_GrantID v \<noteq> cl_GrantID claim
                \<or> oc_RequestDigest v \<noteq> cl_RequestDigest claim \<or> oc_Operation v \<noteq> cl_Operation claim then
               Inl (New ''operation outcome does not match immutable claim'')
             else Inr \<lparr>is_State = ''COMPLETED'', is_ClaimAllowed = False, is_ClaimDigest = claimDigest,
               is_OutcomeDigest = outcomeDigest, is_Outcome = Some v\<rparr>)))))"

section \<open>Stage grants\<close>

definition stage_claim_of :: "StageConsumptionBinding \<Rightarrow> time \<Rightarrow> StageClaimReceipt" where
  "stage_claim_of b at = \<lparr>sl_Format = StageClaimFormat, sl_State = ''CLAIMED'',
     sl_AuthorizationDigest = sc_AuthorizationDigest b, sl_GrantID = sc_GrantID b, sl_KeyID = sc_KeyID b,
     sl_PlanDigest = sc_PlanDigest b, sl_StageID = sc_StageID b, sl_StageDigest = sc_StageDigest b,
     sl_Operation = sc_Operation b, sl_Authority = sc_Authority b,
     sl_PredecessorDigest = sc_PredecessorDigest b, sl_ContractRevision = sc_ContractRevision b,
     sl_ClaimedAt = format_rfc3339nano at\<rparr>"

definition ClaimStage :: "'s RecordStore \<Rightarrow> VerifiedStageGrant \<Rightarrow> time \<Rightarrow> ('s, StageClaimReceipt) op" where
  "ClaimStage store g at =
     bindS (liftE (ConsumptionBinding g)) (\<lambda>b.
     bindS (liftE (check_window (sc_NotBefore b) (sc_NotAfter b) at ''stage grant start''
         ''stage grant expiration'' ''stage grant is not active at consumption time'')) (\<lambda>_.
     bindS (liftE (canonicalRecord (enc_stage_claim (stage_claim_of b at)))) (\<lambda>(raw, _).
     bindS (consume store (sc_GrantID b) raw ''write stage grant claim'') (\<lambda>_.
       liftE (Inr (stage_claim_of b at))))))"

definition stage_outcome_of ::
  "StageClaimReceipt \<Rightarrow> string \<Rightarrow> string \<Rightarrow> string \<Rightarrow> string \<Rightarrow> string \<Rightarrow> time \<Rightarrow> StageOutcomeReceipt" where
  "stage_outcome_of claim claimDigest outcome mutationState evidenceDigest target at = \<lparr>
     so_Format = StageOutcomeFormat, so_State = ''COMPLETED'', so_GrantID = sl_GrantID claim,
     so_PlanDigest = sl_PlanDigest claim, so_StageID = sl_StageID claim, so_StageDigest = sl_StageDigest claim,
     so_Operation = sl_Operation claim, so_ClaimDigest = claimDigest, so_Outcome = outcome,
     so_MutationState = mutationState, so_EvidenceDigest = evidenceDigest,
     so_TargetClusterUIDDigest = target, so_CompletedAt = format_rfc3339nano at\<rparr>"

definition CompleteStageWithTarget ::
  "'s RecordStore \<Rightarrow> StageClaimReceipt \<Rightarrow> string \<Rightarrow> string \<Rightarrow> string \<Rightarrow> string \<Rightarrow> time
    \<Rightarrow> ('s, StageOutcomeReceipt) op" where
  "CompleteStageWithTarget store claim outcome mutationState evidenceDigest target at =
     (if \<not> allowed outcome [''SUCCEEDED'', ''FAILED'', ''STOPPED'']
         \<or> \<not> allowed mutationState [''NOT_ATTEMPTED'', ''ATTEMPTED'', ''UNKNOWN''] then
        liftE (Inl (New ''stage completion state is invalid''))
      else if lacks_mutation (sl_StageID claim) outcome mutationState then
        liftE (Inl (New ''successful mutating stage requires mutationState ATTEMPTED''))
      else if \<not> digestPattern evidenceDigest then liftE (Inl (New ''stage evidence digest is invalid''))
      else if bad_target (sl_StageID claim) outcome target then
        liftE (Inl (New ''stage target Cluster identity binding is invalid''))
      else bindS (readStageClaim store (sl_GrantID claim)) (\<lambda>(stored, claimDigest).
        if (case canonicalRecord (enc_stage_claim claim) of Inl _ \<Rightarrow> True
            | Inr (_, providedDigest) \<Rightarrow> claimDigest \<noteq> providedDigest \<or> stored \<noteq> claim) then
          liftE (Inl (New ''provided stage claim differs from immutable ledger claim''))
        else if (case parse_rfc3339 (sl_ClaimedAt claim) of None \<Rightarrow> True | Some c \<Rightarrow> before at c) then
          liftE (Inl (New ''stage completion time precedes claim''))
        else let receipt = stage_outcome_of claim claimDigest outcome mutationState evidenceDigest target at in
          bindS (liftE (canonicalRecord (enc_stage_outcome receipt))) (\<lambda>(raw, expectedDigest).
            write_outcome store (sl_GrantID claim) (readStageOutcome store (sl_GrantID claim)) receipt raw
              expectedDigest ''write stage outcome'' ''conflicting stage outcome already exists'')))"

definition CompleteStage ::
  "'s RecordStore \<Rightarrow> StageClaimReceipt \<Rightarrow> string \<Rightarrow> string \<Rightarrow> string \<Rightarrow> time \<Rightarrow> ('s, StageOutcomeReceipt) op" where
  "CompleteStage store claim outcome mutationState evidenceDigest at =
     CompleteStageWithTarget store claim outcome mutationState evidenceDigest '''' at"

definition InspectStage :: "'s RecordStore \<Rightarrow> VerifiedStageGrant \<Rightarrow> ('s, StageInspection) op" where
  "InspectStage store g =
     bindS (liftE (ConsumptionBinding g)) (\<lambda>b.
     tryS (readStageClaim store (sc_GrantID b)) (\<lambda>rc. case rc of
       Inl e \<Rightarrow> liftE (if errors_is e ErrRecordNotFound
         then Inr \<lparr>si_State = ''AVAILABLE'', si_ClaimAllowed = True, si_ClaimDigest = '''',
           si_OutcomeDigest = '''', si_Outcome = None\<rparr> else Inl e)
     | Inr (claim, claimDigest) \<Rightarrow>
         bindS (liftE (matchStageBinding claim b)) (\<lambda>_.
         tryS (readStageOutcome store (sc_GrantID b)) (\<lambda>ro. liftE (case ro of
           Inl e \<Rightarrow> if errors_is e ErrRecordNotFound
             then Inr \<lparr>si_State = ''CLAIMED_INDETERMINATE_STOP'', si_ClaimAllowed = False,
               si_ClaimDigest = claimDigest, si_OutcomeDigest = '''', si_Outcome = None\<rparr> else Inl e
         | Inr (v, outcomeDigest) \<Rightarrow>
             if so_ClaimDigest v \<noteq> claimDigest \<or> so_GrantID v \<noteq> sl_GrantID claim
                \<or> so_PlanDigest v \<noteq> sl_PlanDigest claim \<or> so_StageDigest v \<noteq> sl_StageDigest claim
                \<or> so_Operation v \<noteq> sl_Operation claim then
               Inl (New ''stage outcome does not match immutable claim'')
             else Inr \<lparr>si_State = ''COMPLETED'', si_ClaimAllowed = False, si_ClaimDigest = claimDigest,
               si_OutcomeDigest = outcomeDigest, si_Outcome = Some v\<rparr>)))))"

text \<open>A nil ledger or store cannot occur here; the third guard remains.\<close>

definition VerifyStageClaim :: "'s RecordStore \<Rightarrow> StageClaimReceipt \<Rightarrow> ('s, string) op" where
  "VerifyStageClaim store expected =
     (if sl_GrantID expected = '''' then liftE (Inl (New ''stage claim grant identity is required''))
      else bindS (readStageClaim store (sl_GrantID expected)) (\<lambda>(stored, identity). liftE (
        case (canonicalRecord (enc_stage_claim expected), canonicalRecord (enc_stage_claim stored)) of
          (Inr (provided, _), Inr (canonicalStored, _)) \<Rightarrow>
            if provided \<noteq> canonicalStored then
              Inl (New ''provided stage claim differs from immutable ledger claim'')
            else Inr identity
        | _ \<Rightarrow> Inl (New ''provided stage claim differs from immutable ledger claim''))))"

definition VerifyPendingStageClaim :: "'s RecordStore \<Rightarrow> StageClaimReceipt \<Rightarrow> ('s, string) op" where
  "VerifyPendingStageClaim store expected =
     bindS (VerifyStageClaim store expected) (\<lambda>identity.
     tryS (readStageOutcome store (sl_GrantID expected)) (\<lambda>r. liftE (case r of
       Inr _ \<Rightarrow> Inl (New ''stage claim already has a durable terminal outcome'')
     | Inl e \<Rightarrow> if errors_is e ErrRecordNotFound then Inr identity else Inl e)))"

section \<open>Stage receipts\<close>

definition stageReceiptKey :: "Binding \<Rightarrow> string \<Rightarrow> string result" where
  "stageReceiptKey plan stageID =
     bindE (Binding_Stage plan stageID) (\<lambda>_.
     bindE (canonicalRecord (struct [key ''format'' (JStr stageReceiptSlotFormat),
         key ''planDigest'' (JStr (b_PlanDigest plan)), key ''stageId'' (JStr stageID)])) (\<lambda>(_, d).
       Inr (drop 7 d)))"

definition stageReceiptAttemptKey :: "Binding \<Rightarrow> string \<Rightarrow> string \<Rightarrow> string result" where
  "stageReceiptAttemptKey plan stageID receiptDigest =
     bindE (Binding_Stage plan stageID) (\<lambda>_.
     if \<not> digestPattern receiptDigest then Inl (New ''retry stage receipt digest is invalid'')
     else bindE (canonicalRecord (struct [key ''format'' (JStr stageReceiptAttemptSlotFormat),
         key ''planDigest'' (JStr (b_PlanDigest plan)), key ''stageId'' (JStr stageID),
         key ''receiptDigest'' (JStr receiptDigest)])) (\<lambda>(_, d).
       Inr (drop 7 d)))"

text \<open>The digest-addressed slot of a receipt that did not get the deterministic one.\<close>

definition store_attempt ::
  "'s RecordStore \<Rightarrow> Binding \<Rightarrow> string \<Rightarrow> string \<Rightarrow> string \<Rightarrow> Verified slice \<Rightarrow> ('s, string) op" where
  "store_attempt store plan stageID raw receiptDigest predecessors =
     bindS (liftE (stageReceiptAttemptKey plan stageID receiptDigest)) (\<lambda>attemptSlot.
     tryS (rs_Create store ''stage-receipts'' attemptSlot raw) (\<lambda>r. case r of
       Inr _ \<Rightarrow> liftE (Inr receiptDigest)
     | Inl e \<Rightarrow>
         if \<not> errors_is e ErrRecordExists then liftE (Inl (Wrap ''write immutable retry stage receipt'' e))
         else bindS (wrapS ''read existing retry stage receipt'' (rs_Get store ''stage-receipts'' attemptSlot))
           (\<lambda>attempt.
             if attempt \<noteq> raw then liftE (Inl ErrStageReceiptConflict)
             else bindS (liftE (wrapE ''verify existing retry stage receipt''
                 (receipt_Verify attempt receiptDigest plan predecessors)))
               (\<lambda>_. liftE (Inr receiptDigest)))))"

definition StoreStageReceipt ::
  "'s RecordStore \<Rightarrow> Binding \<Rightarrow> Verified \<Rightarrow> Verified slice \<Rightarrow> ('s, string) op" where
  "StoreStageReceipt store plan verified predecessors =
     bindS (liftE (Verified_Receipt verified)) (\<lambda>receipt.
     bindS (liftE (Verified_Bytes verified)) (\<lambda>raw.
     bindS (liftE (Verified_Digest verified)) (\<lambda>receiptDigest.
     bindS (liftE (wrapE ''verify stage receipt before persistence''
         (receipt_Verify raw receiptDigest plan predecessors))) (\<lambda>_.
     bindS (liftE (stageReceiptKey plan (rc_StageID receipt))) (\<lambda>slot.
     tryS (rs_Create store ''stage-receipts'' slot raw) (\<lambda>r. case r of
       Inr _ \<Rightarrow> liftE (Inr receiptDigest)
     | Inl e \<Rightarrow>
         if \<not> errors_is e ErrRecordExists then liftE (Inl (Wrap ''write immutable stage receipt'' e))
         else bindS (wrapS ''read existing stage receipt'' (rs_Get store ''stage-receipts'' slot)) (\<lambda>existing.
           if existing = raw then
             bindS (liftE (wrapE ''verify existing stage receipt''
                 (receipt_Verify existing receiptDigest plan predecessors))) (\<lambda>_. liftE (Inr receiptDigest))
           else store_attempt store plan (rc_StageID receipt) raw receiptDigest predecessors)))))))"

text \<open>The receipt of a stage, or \<open>None\<close> when its slot is empty.\<close>

definition InspectStageReceipt ::
  "'s RecordStore \<Rightarrow> Binding \<Rightarrow> string \<Rightarrow> Verified slice \<Rightarrow> ('s, Verified option) op" where
  "InspectStageReceipt store plan stageID predecessors =
     bindS (liftE (stageReceiptKey plan stageID)) (\<lambda>slot.
     tryS (rs_Get store ''stage-receipts'' slot) (\<lambda>r. liftE (case r of
       Inl e \<Rightarrow> if errors_is e ErrRecordNotFound then Inr None
         else Inl (Wrap ''read immutable stage receipt'' e)
     | Inr raw \<Rightarrow>
         bindE (wrapE ''verify immutable stage receipt''
             (receipt_Verify raw (SHA256 raw) plan predecessors)) (\<lambda>verified.
           case Verified_Receipt verified of
             Inl _ \<Rightarrow> Inl (New ''immutable stage receipt occupies a different stage'')
           | Inr receipt \<Rightarrow>
               if rc_StageID receipt \<noteq> stageID then
                 Inl (New ''immutable stage receipt occupies a different stage'')
               else Inr (Some verified)))))"

definition verifyLoadedStageReceipt ::
  "string \<Rightarrow> string \<Rightarrow> Binding \<Rightarrow> string \<Rightarrow> Verified slice \<Rightarrow> Verified result" where
  "verifyLoadedStageReceipt raw expectedDigest plan stageID predecessors =
     bindE (wrapE ''verify persisted stage receipt''
         (receipt_Verify raw expectedDigest plan predecessors)) (\<lambda>verified.
       case Verified_Receipt verified of
         Inl _ \<Rightarrow> Inl (New ''persisted stage receipt occupies a different stage'')
       | Inr receipt \<Rightarrow>
           if rc_StageID receipt \<noteq> stageID then
             Inl (New ''persisted stage receipt occupies a different stage'')
           else Inr verified)"

definition LoadStageReceipt ::
  "'s RecordStore \<Rightarrow> Binding \<Rightarrow> string \<Rightarrow> string \<Rightarrow> Verified slice \<Rightarrow> ('s, Verified) op" where
  "LoadStageReceipt store plan stageID expectedDigest predecessors =
     bindS (liftE (stageReceiptKey plan stageID)) (\<lambda>slot.
     tryS (rs_Get store ''stage-receipts'' slot) (\<lambda>r.
       let retry = bindS (liftE (stageReceiptAttemptKey plan stageID expectedDigest)) (\<lambda>attemptSlot.
           bindS (rs_Get store ''stage-receipts'' attemptSlot) (\<lambda>raw.
             liftE (verifyLoadedStageReceipt raw expectedDigest plan stageID predecessors)))
       in case r of
         Inr raw \<Rightarrow> if SHA256 raw = expectedDigest
           then liftE (verifyLoadedStageReceipt raw expectedDigest plan stageID predecessors) else retry
       | Inl e \<Rightarrow> if \<not> errors_is e ErrRecordNotFound then liftE (Inl e) else retry))"

section \<open>Finalisation\<close>

definition finalizedPredecessorDigest :: "Verified slice \<Rightarrow> string result" where
  "finalizedPredecessorDigest predecessors =
     (case predecessors of
        None \<Rightarrow> Inl (New ''stage finalization predecessor set must be explicit'')
      | Some ps \<Rightarrow>
          bindE (mapE (\<lambda>p. bindE (Verified_Receipt p) (\<lambda>receipt. bindE (Verified_Digest p) (\<lambda>d.
            Inr \<lparr>sq_StageID = rc_StageID receipt, sq_OutcomeDigest = d\<rparr>))) ps) predecessor_digest)"

definition FinalizeStageReceipt ::
  "'s RecordStore \<Rightarrow> Binding \<Rightarrow> VerifiedStageGrant \<Rightarrow> Verified slice \<Rightarrow> ('s, Verified) op" where
  "FinalizeStageReceipt store plan g predecessors =
     bindS (liftE (ConsumptionBinding g)) (\<lambda>b.
     bindS (liftE (Binding_Stage plan (sc_StageID b))) (\<lambda>(stage, stageDigest).
     if \<not> IsMutating stage \<or> sc_PlanDigest b \<noteq> b_PlanDigest plan \<or> sc_StageDigest b \<noteq> stageDigest
        \<or> sc_Operation b \<noteq> s_GrantOperation stage \<or> sc_Authority b \<noteq> s_Authority stage
        \<or> sc_ContractRevision b \<noteq> b_IntentRevision plan then
       liftE (Inl (New ''stage grant does not bind the mutating stage plan''))
     else bindS (liftE (finalizedPredecessorDigest predecessors)) (\<lambda>predecessorDigest.
     if predecessorDigest \<noteq> sc_PredecessorDigest b then
       liftE (Inl (New ''stage finalization predecessor receipts differ from authorization''))
     else bindS (InspectStage store g) (\<lambda>inspection.
     (case si_Outcome inspection of
        None \<Rightarrow> liftE (Inl (New ''mutating stage has no durable completed outcome''))
      | Some v \<Rightarrow>
     if si_State inspection \<noteq> ''COMPLETED'' \<or> si_OutcomeDigest inspection = '''' then
       liftE (Inl (New ''mutating stage has no durable completed outcome''))
     else (case parse_rfc3339 (so_CompletedAt v) of
        None \<Rightarrow> liftE (Inl (New ''mutating stage completion time is invalid''))
      | Some completedAt \<Rightarrow>
     bindS (liftE (wrapE ''derive stage receipt from durable outcome''
         (receipt_New_target plan (s_ID stage) predecessors (so_Outcome v) (so_MutationState v)
           (si_OutcomeDigest inspection) (so_EvidenceDigest v) (so_TargetClusterUIDDigest v) completedAt)))
       (\<lambda>verified.
     bindS (StoreStageReceipt store plan verified predecessors) (\<lambda>_. liftE (Inr verified)))))))))"

end
