(* ===== verification/LedgerFacts.thy ===== *)
theory LedgerFacts
  imports Ledger
begin

text \<open>
  The ledger: codecs of its records, single use of a grant over everything that can happen to the
  store, and the refinement of the stage operations to a status per grant (available, claimed,
  completed). The lemmas are proved for any store that keeps the contract \<open>record_store\<close> and read
  off for the file store.
\<close>

section \<open>The codecs\<close>

definition ok_claim :: "ClaimReceipt \<Rightarrow> bool" where
  "ok_claim x \<longleftrightarrow> list_all valid_utf8 [cl_Format x, cl_State x, cl_AuthorizationDigest x, cl_GrantID x, cl_KeyID x, cl_Operation x,
       cl_RequestDigest x, cl_ContractRevision x, cl_ProjectionManifestDigest x, cl_ClaimedAt x]"

lemma dec_claim_canon: "ok_claim x \<Longrightarrow> dec_claim zero_claim (canon (enc_claim x)) = Some x"
  by (simp add: dec_claim_def enc_claim_def claim_fields_def zero_claim_def ok_claim_def
      struct_codec )

lemma fits_claim: "ok_claim x \<Longrightarrow> 2 \<le> d \<Longrightarrow> fits d (enc_claim x)"
  by (simp add: enc_claim_def ok_claim_def fits_codec )

interpretation claim_codec: json_codec enc_claim "dec_claim zero_claim" ok_claim
  by unfold_locales (simp_all add: fits_claim dec_claim_canon)

definition ok_outcome :: "OutcomeReceipt \<Rightarrow> bool" where
  "ok_outcome x \<longleftrightarrow> list_all valid_utf8 [oc_Format x, oc_State x, oc_GrantID x, oc_Operation x, oc_RequestDigest x, oc_ClaimDigest x,
       oc_Outcome x, oc_MutationState x, oc_EvidenceDigest x, oc_CompletedAt x]"

lemma dec_outcome_canon: "ok_outcome x \<Longrightarrow> dec_outcome zero_outcome (canon (enc_outcome x)) = Some x"
  by (simp add: dec_outcome_def enc_outcome_def outcome_fields_def zero_outcome_def ok_outcome_def
      struct_codec )

lemma fits_outcome: "ok_outcome x \<Longrightarrow> 2 \<le> d \<Longrightarrow> fits d (enc_outcome x)"
  by (simp add: enc_outcome_def ok_outcome_def fits_codec )

interpretation outcome_codec: json_codec enc_outcome "dec_outcome zero_outcome" ok_outcome
  by unfold_locales (simp_all add: fits_outcome dec_outcome_canon)

definition ok_stage_claim :: "StageClaimReceipt \<Rightarrow> bool" where
  "ok_stage_claim x \<longleftrightarrow> list_all valid_utf8 [sl_Format x, sl_State x, sl_AuthorizationDigest x, sl_GrantID x, sl_KeyID x, sl_PlanDigest x,
       sl_StageID x, sl_StageDigest x, sl_Operation x, sl_Authority x, sl_PredecessorDigest x,
       sl_ContractRevision x, sl_ClaimedAt x]"

lemma dec_stage_claim_canon: "ok_stage_claim x \<Longrightarrow> dec_stage_claim zero_stage_claim (canon (enc_stage_claim x)) = Some x"
  by (simp add: dec_stage_claim_def enc_stage_claim_def stage_claim_fields_def zero_stage_claim_def ok_stage_claim_def
      struct_codec )

lemma fits_stage_claim: "ok_stage_claim x \<Longrightarrow> 2 \<le> d \<Longrightarrow> fits d (enc_stage_claim x)"
  by (simp add: enc_stage_claim_def ok_stage_claim_def fits_codec )

interpretation stage_claim_codec: json_codec enc_stage_claim "dec_stage_claim zero_stage_claim" ok_stage_claim
  by unfold_locales (simp_all add: fits_stage_claim dec_stage_claim_canon)

definition ok_stage_outcome :: "StageOutcomeReceipt \<Rightarrow> bool" where
  "ok_stage_outcome x \<longleftrightarrow> list_all valid_utf8 [so_Format x, so_State x, so_GrantID x, so_PlanDigest x, so_StageID x, so_StageDigest x,
       so_Operation x, so_ClaimDigest x, so_Outcome x, so_MutationState x, so_EvidenceDigest x,
       so_TargetClusterUIDDigest x, so_CompletedAt x]"

lemma dec_stage_outcome_canon: "ok_stage_outcome x \<Longrightarrow> dec_stage_outcome zero_stage_outcome (canon (enc_stage_outcome x)) = Some x"
  by (simp add: dec_stage_outcome_def enc_stage_outcome_def stage_outcome_fields_def zero_stage_outcome_def ok_stage_outcome_def
      struct_codec )

lemma fits_stage_outcome: "ok_stage_outcome x \<Longrightarrow> 2 \<le> d \<Longrightarrow> fits d (enc_stage_outcome x)"
  by (simp add: enc_stage_outcome_def ok_stage_outcome_def fits_codec )

interpretation stage_outcome_codec: json_codec enc_stage_outcome "dec_stage_outcome zero_stage_outcome" ok_stage_outcome
  by unfold_locales (simp_all add: fits_stage_outcome dec_stage_outcome_canon)

lemma canonicalRecord_claim: "ok_stage_claim c \<Longrightarrow> canonicalRecord (enc_stage_claim c)
    = Inr (canonical_text (enc_stage_claim c), SHA256 (canonical_text (enc_stage_claim c)))"
  by (simp add: canonicalRecord_def stage_claim_codec.canonical)

lemma canonicalRecord_outcome: "ok_stage_outcome v \<Longrightarrow> canonicalRecord (enc_stage_outcome v)
    = Inr (canonical_text (enc_stage_outcome v), SHA256 (canonical_text (enc_stage_outcome v)))"
  by (simp add: canonicalRecord_def stage_outcome_codec.canonical)

section \<open>Everything an operation does to the store is creates and reads\<close>

definition steps :: "'s RecordStore \<Rightarrow> ('s, 'a) op \<Rightarrow> bool" where
  "steps store m \<longleftrightarrow> (\<forall>s r t. m s = (r, t) \<longrightarrow> store_runs store s t)"

named_theorems steps_intros

lemma stepsD: "steps store m \<Longrightarrow> m s = (r, t) \<Longrightarrow> store_runs store s t"
  by (simp add: steps_def)

lemma steps_liftE [steps_intros]: "steps store (liftE r)"
  by (simp add: steps_def liftE_def)

lemma steps_create [steps_intros]: "steps store (rs_Create store c k raw)"
  by (simp add: steps_def runs_create)

lemma steps_get [steps_intros]: "steps store (rs_Get store c k)"
  by (simp add: steps_def runs_get)

lemma steps_bindS [steps_intros]:
  assumes "steps store m" and "\<And>x. steps store (f x)"
  shows "steps store (bindS m f)"
  unfolding steps_def
proof (intro allI impI)
  fix s r t assume r: "bindS m f s = (r, t)"
  obtain q u where m: "m s = (q, u)" by (cases "m s")
  have su: "store_runs store s u" using assms(1) m by (rule stepsD)
  show "store_runs store s t"
  proof (cases q)
    case (Inr x)
    then have "f x u = (r, t)" using r m by (simp add: bindS_def)
    with assms(2) have "store_runs store u t" by (rule stepsD)
    with su show ?thesis by (rule rtranclp_trans)
  qed (use r m su in \<open>simp add: bindS_def\<close>)
qed

lemma steps_tryS [steps_intros]:
  assumes "steps store m" and "\<And>x. steps store (f x)"
  shows "steps store (tryS m f)"
  using assms unfolding steps_def tryS_eq by (meson rtranclp_trans)

lemma steps_wrapS [steps_intros]: "steps store m \<Longrightarrow> steps store (wrapS l m)"
  by (auto simp: steps_def wrapS_def split: prod.splits)

lemma steps_if [steps_intros]: "steps store m \<Longrightarrow> steps store n \<Longrightarrow> steps store (if b then m else n)"
  by simp

lemma steps_case_sum [steps_intros]:
  "(\<And>e. steps store (f e)) \<Longrightarrow> (\<And>x. steps store (g x)) \<Longrightarrow> steps store (case r of Inl e \<Rightarrow> f e | Inr x \<Rightarrow> g x)"
  by (simp split: sum.split)

lemma steps_case_prod [steps_intros]:
  "(\<And>a b. steps store (f a b)) \<Longrightarrow> steps store (case p of (a, b) \<Rightarrow> f a b)"
  by (simp split: prod.split)

lemma steps_case_option [steps_intros]:
  "steps store n \<Longrightarrow> (\<And>x. steps store (f x)) \<Longrightarrow> steps store (case r of None \<Rightarrow> n | Some x \<Rightarrow> f x)"
  by (simp split: option.split)

lemma steps_readers [steps_intros]:
  "steps store (readClaim store k)" "steps store (readOutcome store k)"
  "steps store (readStageClaim store k)" "steps store (readStageOutcome store k)"
  unfolding readClaim_def readOutcome_def readStageClaim_def readStageOutcome_def read_record_def
  by (intro steps_intros)+

lemma steps_consume [steps_intros]: "steps store (consume store k raw l)"
  unfolding consume_def by (intro steps_intros)

lemma steps_Claim [steps_intros]: "steps store (Claim store g at)"
  unfolding Claim_def Let_def by (intro steps_intros)

lemma steps_write_outcome [steps_intros]: "steps store read \<Longrightarrow> steps store (write_outcome store k read v raw d l m)"
  unfolding write_outcome_def by (intro steps_intros)

lemma steps_Complete [steps_intros]: "steps store (Complete store c v m e at)"
  unfolding Complete_def Let_def by (intro steps_intros)

lemma steps_Inspect [steps_intros]: "steps store (Inspect store g)"
  unfolding Inspect_def by (intro steps_intros)

lemma steps_ClaimStage [steps_intros]: "steps store (ClaimStage store g at)"
  unfolding ClaimStage_def by (intro steps_intros)

lemma steps_CompleteStageWithTarget [steps_intros]:
  "steps store (CompleteStageWithTarget store c v m e tg at)"
  unfolding CompleteStageWithTarget_def Let_def by (intro steps_intros)

lemma steps_CompleteStage [steps_intros]: "steps store (CompleteStage store c v m e at)"
  unfolding CompleteStage_def by (intro steps_intros)

lemma steps_InspectStage [steps_intros]: "steps store (InspectStage store g)"
  unfolding InspectStage_def by (intro steps_intros)

lemma steps_VerifyStageClaim [steps_intros]: "steps store (VerifyStageClaim store c)"
  unfolding VerifyStageClaim_def by (intro steps_intros)

lemma steps_VerifyPendingStageClaim [steps_intros]: "steps store (VerifyPendingStageClaim store c)"
  unfolding VerifyPendingStageClaim_def by (intro steps_intros)

lemma steps_StoreStageReceipt [steps_intros]: "steps store (StoreStageReceipt store plan v ps)"
  unfolding StoreStageReceipt_def store_attempt_def by (intro steps_intros)

lemma steps_InspectStageReceipt [steps_intros]: "steps store (InspectStageReceipt store plan i ps)"
  unfolding InspectStageReceipt_def by (intro steps_intros)

lemma steps_LoadStageReceipt [steps_intros]: "steps store (LoadStageReceipt store plan i d ps)"
  unfolding LoadStageReceipt_def Let_def by (intro steps_intros)

lemma steps_FinalizeStageReceipt [steps_intros]: "steps store (FinalizeStageReceipt store plan g ps)"
  unfolding FinalizeStageReceipt_def by (intro steps_intros)


section \<open>Single use\<close>

lemma ClaimStage_eq_Inr:
  "ClaimStage store g at s = (Inr c, t) \<longleftrightarrow> vg_verified g
     \<and> check_window (sc_NotBefore (vg_binding g)) (sc_NotAfter (vg_binding g)) at ''stage grant start''
         ''stage grant expiration'' ''stage grant is not active at consumption time'' = Inr ()
     \<and> c = stage_claim_of (vg_binding g) at
     \<and> (\<exists>raw d. canonicalRecord (enc_stage_claim c) = Inr (raw, d)
         \<and> consume store (sc_GrantID (vg_binding g)) raw ''write stage grant claim'' s = (Inr (), t))"
  unfolding ClaimStage_def ConsumptionBinding_def op_conv by (auto split: if_splits)

lemma Claim_eq_Inr:
  assumes "Claim store g at s = (Inr c, t)"
  shows "\<exists>raw l. consume store (cb_GrantID (vc_binding g)) raw l s = (Inr (), t)"
  using assms unfolding Claim_def CreateConsumption_def Let_def op_conv by (auto split: if_splits)

lemma consume_eq_Inr:
  "consume store k raw l s = (Inr (), t) \<longleftrightarrow> rs_Create store ''claims'' (recordKey k) raw s = (Inr (), t)"
  by (auto simp: consume_def tryS_def liftE_def split: prod.splits sum.splits)

context record_store
begin

lemma consume_taken:
  assumes "consume store k raw l s = (Inr (), t)"
  shows "contents s ''claims'' (recordKey k) = None" "contents t ''claims'' (recordKey k) \<noteq> None"
  using assms create_ok by (auto simp: consume_eq_Inr)

lemma consume_once:
  assumes "contents s ''claims'' (recordKey k) \<noteq> None" and "store_runs store s t"
  shows "consume store k raw l t \<noteq> (Inr (), u)"
  using no_second_create [OF assms] by (auto simp: consume_eq_Inr)

lemma claimed_never_again:
  assumes "contents s ''claims'' (recordKey k) \<noteq> None" and "store_runs store s t"
  shows "sc_GrantID (vg_binding g) = k \<Longrightarrow> ClaimStage store g at t \<noteq> (Inr c, u)"
    and "cb_GrantID (vc_binding h) = k \<Longrightarrow> Claim store h at t \<noteq> (Inr d, u)"
proof -
  have no: "consume store k raw l t \<noteq> (Inr (), u)" for raw l by (rule consume_once [OF assms])
  show "sc_GrantID (vg_binding g) = k \<Longrightarrow> ClaimStage store g at t \<noteq> (Inr c, u)"
    using no unfolding ClaimStage_eq_Inr by blast
  show "cb_GrantID (vc_binding h) = k \<Longrightarrow> Claim store h at t \<noteq> (Inr d, u)"
    using no Claim_eq_Inr [of store h at t d u] by blast
qed

lemma claim_takes:
  "ClaimStage store g at s = (Inr c, t) \<Longrightarrow> contents t ''claims'' (recordKey (sc_GrantID (vg_binding g))) \<noteq> None"
  "Claim store h at s = (Inr d, t) \<Longrightarrow> contents t ''claims'' (recordKey (cb_GrantID (vc_binding h))) \<noteq> None"
  using consume_taken(2) by (auto simp: ClaimStage_eq_Inr dest!: Claim_eq_Inr)

lemma consume_healthy:
  assumes "healthy s" and "contents s ''claims'' (recordKey k) \<noteq> None"
  shows "fst (consume store k raw l s) = Inl ErrGrantConsumed"
proof -
  have "valid_slot ''claims'' (recordKey k)"
    by (simp add: valid_slot_def recordKey_def drop7_SHA256 categories_def)
  from create_refuses [OF assms(1) this assms(2)]
  obtain t where "rs_Create store ''claims'' (recordKey k) raw s = (Inl ErrRecordExists, t)" by blast
  then show ?thesis by (simp add: consume_def tryS_def liftE_def ErrRecordExists_def)
qed

end

end
