(* ===== verification/LedgerRefinement.thy ===== *)
theory LedgerRefinement
  imports LedgerFacts
begin

text \<open>
  The stage ledger as a status per grant. \<open>status_at\<close> relates the two records of a grant to a
  status; on a healthy store each operation computes the step of the status that the specification
  gives, for every store that keeps the contract.
\<close>

section \<open>The specification\<close>

datatype stage_status = Available | Claimed StageClaimReceipt | Completed StageClaimReceipt StageOutcomeReceipt

abbreviation claim_bytes :: "StageClaimReceipt \<Rightarrow> string" where
  "claim_bytes c \<equiv> canonical_text (enc_stage_claim c)"

abbreviation outcome_bytes :: "StageOutcomeReceipt \<Rightarrow> string" where
  "outcome_bytes v \<equiv> canonical_text (enc_stage_outcome v)"

definition sound_claim :: "string \<Rightarrow> StageClaimReceipt \<Rightarrow> bool" where
  "sound_claim gid c \<longleftrightarrow> ok_stage_claim c \<and> validateStageClaim c = Inr () \<and> sl_GrantID c = gid"

definition sound_outcome :: "StageClaimReceipt \<Rightarrow> StageOutcomeReceipt \<Rightarrow> bool" where
  "sound_outcome c v \<longleftrightarrow> ok_stage_outcome v \<and> validateStageOutcome v = Inr ()
     \<and> so_ClaimDigest v = SHA256 (claim_bytes c) \<and> so_GrantID v = sl_GrantID c
     \<and> so_PlanDigest v = sl_PlanDigest c \<and> so_StageDigest v = sl_StageDigest c
     \<and> so_Operation v = sl_Operation c"

fun status_at :: "(string \<Rightarrow> string \<Rightarrow> string option) \<Rightarrow> string \<Rightarrow> stage_status \<Rightarrow> bool" where
  "status_at cs gid Available \<longleftrightarrow> cs ''claims'' (recordKey gid) = None \<and> cs ''outcomes'' (recordKey gid) = None"
| "status_at cs gid (Claimed c) \<longleftrightarrow> sound_claim gid c
     \<and> cs ''claims'' (recordKey gid) = Some (claim_bytes c) \<and> cs ''outcomes'' (recordKey gid) = None"
| "status_at cs gid (Completed c v) \<longleftrightarrow> sound_claim gid c \<and> sound_outcome c v
     \<and> cs ''claims'' (recordKey gid) = Some (claim_bytes c)
     \<and> cs ''outcomes'' (recordKey gid) = Some (outcome_bytes v)"

fun inspection_of :: "stage_status \<Rightarrow> StageInspection" where
  "inspection_of Available = \<lparr>si_State = ''AVAILABLE'', si_ClaimAllowed = True, si_ClaimDigest = '''',
     si_OutcomeDigest = '''', si_Outcome = None\<rparr>"
| "inspection_of (Claimed c) = \<lparr>si_State = ''CLAIMED_INDETERMINATE_STOP'', si_ClaimAllowed = False,
     si_ClaimDigest = SHA256 (claim_bytes c), si_OutcomeDigest = '''', si_Outcome = None\<rparr>"
| "inspection_of (Completed c v) = \<lparr>si_State = ''COMPLETED'', si_ClaimAllowed = False,
     si_ClaimDigest = SHA256 (claim_bytes c), si_OutcomeDigest = SHA256 (outcome_bytes v), si_Outcome = Some v\<rparr>"

fun claim_in :: "stage_status \<Rightarrow> StageClaimReceipt option" where
  "claim_in Available = None"
| "claim_in (Claimed c) = Some c"
| "claim_in (Completed c v) = Some c"

text \<open>A claim is completed once; the same outcome again changes nothing, another one is refused.\<close>

fun complete_status :: "stage_status \<Rightarrow> StageOutcomeReceipt \<Rightarrow> StageOutcomeReceipt result \<times> stage_status" where
  "complete_status (Claimed c) v = (Inr v, Completed c v)"
| "complete_status (Completed c w) v =
     (if v = w then Inr w else Inl (New ''conflicting stage outcome already exists''), Completed c w)"
| "complete_status Available v = (Inl ErrRecordNotFound, Available)"

text \<open>The guards of a completion.\<close>

definition outcome_rules :: "StageClaimReceipt \<Rightarrow> string \<Rightarrow> string \<Rightarrow> string \<Rightarrow> string \<Rightarrow> time \<Rightarrow> bool" where
  "outcome_rules c outcome mutation evidence target at \<longleftrightarrow>
     outcome \<in> {''SUCCEEDED'', ''FAILED'', ''STOPPED''} \<and> mutation \<in> {''NOT_ATTEMPTED'', ''ATTEMPTED'', ''UNKNOWN''}
     \<and> \<not> lacks_mutation (sl_StageID c) outcome mutation \<and> digestPattern evidence
     \<and> \<not> bad_target (sl_StageID c) outcome target
     \<and> (\<exists>t. parse_rfc3339 (sl_ClaimedAt c) = Some t \<and> \<not> before at t)"

section \<open>Every store refines it\<close>

context record_store
begin

lemma record_slot [simp]: "valid_slot ''claims'' (recordKey k)" "valid_slot ''outcomes'' (recordKey k)"
  by (simp_all add: valid_slot_def recordKey_def drop7_SHA256 categories_def)

text \<open>A step that keeps the store healthy and its records as they are.\<close>

definition quiet :: "'s \<Rightarrow> 's \<Rightarrow> bool" where
  "quiet s t \<longleftrightarrow> healthy t \<and> contents t = contents s"

lemma quietD: "quiet s t \<Longrightarrow> healthy t" "quiet s t \<Longrightarrow> contents t = contents s"
  by (simp_all add: quiet_def)

lemma quiet_trans: "quiet s t \<Longrightarrow> quiet t u \<Longrightarrow> quiet s u"
  by (simp add: quiet_def)

lemma get_quiet:
  assumes "healthy s" and "valid_slot c k"
  shows "\<exists>t. rs_Get store c k s = (of_option ErrRecordNotFound (contents s c k), t) \<and> quiet s t"
  using get_works [OF assms] get_pure unfolding quiet_def by metis

lemma create_quiet:
  assumes "healthy s" and "valid_slot c k" and "contents s c k \<noteq> None"
  shows "\<exists>t. rs_Create store c k raw s = (Inl ErrRecordExists, t) \<and> quiet s t"
proof -
  from create_refuses [OF assms] obtain t
    where t: "rs_Create store c k raw s = (Inl ErrRecordExists, t)" "healthy t" by blast
  have "contents t c' k' = contents s c' k'" for c' k'
    using create_keeps [OF t(1) assms(3)] create_frame [OF t(1), of c' k'] by (cases "(c', k') = (c, k)") simp_all
  with t show ?thesis by (auto simp: quiet_def)
qed

lemma read_held:
  assumes "healthy s" and "valid_slot cat (recordKey k)"
    and "contents s cat (recordKey k) = Some (canonical_text (enc v))"
    and "canonicalRecord (enc v) = Inr (canonical_text (enc v), d)"
    and "strict_decode decode (canonical_text (enc v)) = Inr v" and "check v = Inr ()"
  shows "\<exists>t. read_record store cat decode enc check l m k s = (Inr (v, d), t) \<and> quiet s t"
  using get_quiet [OF assms(1,2)] assms(3-6) by (auto simp: read_record_def bindS_def liftE_def)

lemma read_absent:
  assumes "healthy s" and "valid_slot cat (recordKey k)" and "contents s cat (recordKey k) = None"
  shows "\<exists>t. read_record store cat decode enc check l m k s = (Inl ErrRecordNotFound, t) \<and> quiet s t"
  using get_quiet [OF assms(1,2)] assms(3) by (auto simp: read_record_def bindS_def of_option_def)

lemma read_claim:
  assumes "healthy s" and "sound_claim k c" and "contents s ''claims'' (recordKey k) = Some (claim_bytes c)"
  shows "\<exists>t. readStageClaim store k s = (Inr (c, SHA256 (claim_bytes c)), t) \<and> quiet s t"
  unfolding readStageClaim_def
  by (rule read_held) (use assms in \<open>simp_all add: sound_claim_def canonicalRecord_claim stage_claim_codec.strict\<close>)

lemma read_outcome:
  assumes "healthy s" and "sound_outcome c v" and "contents s ''outcomes'' (recordKey k) = Some (outcome_bytes v)"
  shows "\<exists>t. readStageOutcome store k s = (Inr (v, SHA256 (outcome_bytes v)), t) \<and> quiet s t"
  unfolding readStageOutcome_def
  by (rule read_held) (use assms in \<open>simp_all add: sound_outcome_def canonicalRecord_outcome stage_outcome_codec.strict\<close>)

lemma no_claim:
  "healthy s \<Longrightarrow> contents s ''claims'' (recordKey k) = None \<Longrightarrow>
    \<exists>t. readStageClaim store k s = (Inl ErrRecordNotFound, t) \<and> quiet s t"
  unfolding readStageClaim_def by (rule read_absent) simp_all

lemma no_outcome:
  "healthy s \<Longrightarrow> contents s ''outcomes'' (recordKey k) = None \<Longrightarrow>
    \<exists>t. readStageOutcome store k s = (Inl ErrRecordNotFound, t) \<and> quiet s t"
  unfolding readStageOutcome_def by (rule read_absent) simp_all

lemma inspect_refines:
  assumes h: "healthy s" and st: "status_at (contents s) (sc_GrantID (vg_binding g)) st"
    and v: "vg_verified g" and m: "\<And>c. claim_in st = Some c \<Longrightarrow> matchStageBinding c (vg_binding g) = Inr ()"
  shows "\<exists>t. InspectStage store g s = (Inr (inspection_of st), t) \<and> quiet s t"
proof (cases st)
  case Available
  with st no_claim [OF h] obtain t
    where "readStageClaim store (sc_GrantID (vg_binding g)) s = (Inl ErrRecordNotFound, t)" "quiet s t" by force
  with v Available show ?thesis
    by (simp add: InspectStage_def ConsumptionBinding_def bindS_def tryS_def liftE_def ErrRecordNotFound_def)
next
  case (Claimed c)
  with st read_claim [OF h] obtain t where t: "quiet s t"
    "readStageClaim store (sc_GrantID (vg_binding g)) s = (Inr (c, SHA256 (claim_bytes c)), t)" by force
  with Claimed st no_outcome [OF quietD(1) [OF t(1)]] obtain u where u: "quiet t u"
    "readStageOutcome store (sc_GrantID (vg_binding g)) t = (Inl ErrRecordNotFound, u)" by (force simp: quiet_def)
  have "InspectStage store g s = (Inr (inspection_of st), u)"
    using v t u m Claimed
    by (simp add: InspectStage_def ConsumptionBinding_def bindS_def tryS_def liftE_def ErrRecordNotFound_def)
  with quiet_trans [OF t(1) u(1)] show ?thesis by blast
next
  case (Completed c w)
  with st read_claim [OF h] obtain t where t: "quiet s t"
    "readStageClaim store (sc_GrantID (vg_binding g)) s = (Inr (c, SHA256 (claim_bytes c)), t)" by force
  with Completed st read_outcome [OF quietD(1) [OF t(1)]] obtain u where u: "quiet t u"
    "readStageOutcome store (sc_GrantID (vg_binding g)) t = (Inr (w, SHA256 (outcome_bytes w)), u)"
    by (force simp: quiet_def)
  have "InspectStage store g s = (Inr (inspection_of st), u)"
    using v t u m Completed st
    by (simp add: InspectStage_def ConsumptionBinding_def bindS_def tryS_def liftE_def sound_outcome_def)
  with quiet_trans [OF t(1) u(1)] show ?thesis by blast
qed

lemma claim_refines:
  fixes g :: VerifiedStageGrant and at :: time
  defines "c \<equiv> stage_claim_of (vg_binding g) at"
  assumes h: "healthy s" and st: "status_at (contents s) (sc_GrantID (vg_binding g)) Available"
    and v: "vg_verified g"
    and w: "check_window (sc_NotBefore (vg_binding g)) (sc_NotAfter (vg_binding g)) at ''stage grant start''
      ''stage grant expiration'' ''stage grant is not active at consumption time'' = Inr ()"
    and c: "sound_claim (sc_GrantID (vg_binding g)) c" "length (claim_bytes c) \<le> capacity"
  shows "\<exists>t. ClaimStage store g at s = (Inr c, t) \<and> healthy t
    \<and> status_at (contents t) (sc_GrantID (vg_binding g)) (Claimed c)
    \<and> (\<forall>c' k'. (c', k') \<noteq> (''claims'', recordKey (sc_GrantID (vg_binding g))) \<longrightarrow> contents t c' k' = contents s c' k')"
proof -
  let ?k = "recordKey (sc_GrantID (vg_binding g))"
  from create_works [OF h record_slot(1)] st obtain t
    where t: "rs_Create store ''claims'' ?k (claim_bytes c) s = (Inr (), t)" "healthy t" by (metis status_at.simps(1))
  have "canonicalRecord (enc_stage_claim c) = Inr (claim_bytes c, SHA256 (claim_bytes c))"
    using c(1) by (simp add: sound_claim_def canonicalRecord_claim)
  with t v w have "ClaimStage store g at s = (Inr c, t)"
    unfolding ClaimStage_eq_Inr consume_eq_Inr by (simp add: c_def)
  moreover have "contents t ''outcomes'' ?k = contents s ''outcomes'' ?k"
    by (rule create_frame [OF t(1)]) simp
  then have "status_at (contents t) (sc_GrantID (vg_binding g)) (Claimed c)"
    using create_exact [OF t(1) c(2)] c(1) st by simp
  ultimately show ?thesis using t(2) create_frame [OF t(1)] by blast
qed

lemma write_outcome_refines:
  assumes h: "healthy s" and st: "status_at (contents s) k st" and n: "st \<noteq> Available"
    and new: "claim_in st = Some c" "sound_outcome c v" "length (outcome_bytes v) \<le> capacity"
  shows "\<exists>t. write_outcome store k (readStageOutcome store k) v (outcome_bytes v) (SHA256 (outcome_bytes v)) l
      ''conflicting stage outcome already exists'' s = (fst (complete_status st v), t)
    \<and> healthy t \<and> status_at (contents t) k (snd (complete_status st v))
    \<and> (\<forall>c' k'. (c', k') \<noteq> (''outcomes'', recordKey k) \<longrightarrow> contents t c' k' = contents s c' k')"
proof (cases st)
  case (Claimed c')
  with st new(1) have o: "contents s ''outcomes'' (recordKey k) = None" and c: "c' = c" by simp_all
  from create_works [OF h record_slot(2) o] obtain t
    where t: "rs_Create store ''outcomes'' (recordKey k) (outcome_bytes v) s = (Inr (), t)" "healthy t" by blast
  have "contents t ''claims'' (recordKey k) = contents s ''claims'' (recordKey k)"
    by (rule create_frame [OF t(1)]) simp
  with Claimed st new c create_exact [OF t(1) new(3)] t create_frame [OF t(1)] show ?thesis
    by (simp add: write_outcome_def tryS_def liftE_def)
next
  case (Completed c' w)
  with st new(1) have o: "contents s ''outcomes'' (recordKey k) = Some (outcome_bytes w)"
    and c: "c' = c" "sound_outcome c w" by simp_all
  from create_quiet [OF h record_slot(2)] o obtain t
    where t: "rs_Create store ''outcomes'' (recordKey k) (outcome_bytes v) s = (Inl ErrRecordExists, t)" "quiet s t"
    by (metis option.distinct(1))
  from read_outcome [OF quietD(1) [OF t(2)] c(2), of k] o obtain u
    where u: "readStageOutcome store k t = (Inr (w, SHA256 (outcome_bytes w)), u)" "quiet t u"
    by (auto simp: quietD(2) [OF t(2)])
  have "write_outcome store k (readStageOutcome store k) v (outcome_bytes v) (SHA256 (outcome_bytes v)) l
      ''conflicting stage outcome already exists'' s = (fst (complete_status st v), u)"
    using t u Completed by (auto simp: write_outcome_def tryS_def liftE_def bindS_def ErrRecordExists_def)
  moreover have "quiet s u" using t(2) u(2) by (rule quiet_trans)
  ultimately show ?thesis using Completed st c by (auto simp: quiet_def)
qed (use n in simp)

lemma complete_refines:
  assumes h: "healthy s" and st: "status_at (contents s) (sl_GrantID c) st" and c: "claim_in st = Some c"
    and ok: "outcome_rules c outcome mutation evidence target at"
    and v: "v = stage_outcome_of c (SHA256 (claim_bytes c)) outcome mutation evidence target at"
      "sound_outcome c v" "length (outcome_bytes v) \<le> capacity"
  shows "\<exists>t. CompleteStageWithTarget store c outcome mutation evidence target at s
      = (fst (complete_status st v), t)
    \<and> healthy t \<and> status_at (contents t) (sl_GrantID c) (snd (complete_status st v))
    \<and> (\<forall>c' k'. (c', k') \<noteq> (''outcomes'', recordKey (sl_GrantID c)) \<longrightarrow> contents t c' k' = contents s c' k')"
proof -
  have n: "st \<noteq> Available" using c by auto
  have sc: "sound_claim (sl_GrantID c) c" and b: "contents s ''claims'' (recordKey (sl_GrantID c)) = Some (claim_bytes c)"
    using st c by (cases st; simp)+
  from read_claim [OF h sc b] obtain t
    where t: "readStageClaim store (sl_GrantID c) s = (Inr (c, SHA256 (claim_bytes c)), t)" "quiet s t" by blast
  have st': "status_at (contents t) (sl_GrantID c) st" using st by (simp add: quietD(2) [OF t(2)])
  have "CompleteStageWithTarget store c outcome mutation evidence target at s
      = write_outcome store (sl_GrantID c) (readStageOutcome store (sl_GrantID c)) v (outcome_bytes v)
          (SHA256 (outcome_bytes v)) ''write stage outcome'' ''conflicting stage outcome already exists'' t"
    using ok t(1) sc v(2)
    by (auto simp: CompleteStageWithTarget_def outcome_rules_def bindS_def liftE_def canonicalRecord_claim
        canonicalRecord_outcome sound_claim_def sound_outcome_def v(1) [symmetric] Let_def split: option.splits)
  with write_outcome_refines [OF quietD(1) [OF t(2)] st' n c v(2,3), of "''write stage outcome''"]
  show ?thesis by (simp add: quietD(2) [OF t(2)])
qed

end

end
