(* ===== verification/LedgerProps.thy ===== *)
theory LedgerProps
  imports LedgerRefinement
begin

text \<open>
  The ledger on verified grants and on the file store: the records of a verified grant satisfy what
  the refinement asks of them, and the properties of the ledger are read off the interpretation of
  the store contract.
\<close>

section \<open>The records are small and sound\<close>

lemma length_trim_zeros: "length (trim_zeros s) \<le> length s"
  using length_dropWhile_le [of "(=) (CHR ''0'')" "rev s"] by (simp add: trim_zeros_def)

lemma length_format:
  assumes "valid_time t"
  shows "length (format_rfc3339nano t) \<le> 40"
proof -
  define day where "day = t div (86400 * nanosecond_per_second)"
  define ns where "ns = t mod (86400 * nanosecond_per_second)"
  define s where "s = ns div nanosecond_per_second"
  obtain y m k where c: "civil_of_days day = (y, m, k)" by (cases "civil_of_days day") auto
  note cc = civil_of_days_correct [OF c]
  have day: "0 \<le> day" "day < 3652059"
    using assms div_bracket [of "86400 * nanosecond_per_second" t]
    unfolding day_def valid_time_def nanosecond_per_second_def by linarith+
  have y: "0 \<le> y" "y < 10000" using year_of_range [OF day] cc(6) by simp_all
  have k: "0 \<le> k" "k < 100" "int m < 100" using cc(1-4) days_in_bound [of y m] by linarith+
  have "0 \<le> ns" "ns < 86400 * nanosecond_per_second" by (simp_all add: ns_def nanosecond_per_second_def)
  then have s: "0 \<le> s" "s < 86400" by (simp_all add: s_def nanosecond_per_second_def)
  have mod60: "x mod 60 < 100" for x :: int
    using pos_mod_bound [of 60 x] by linarith
  from s have hms: "0 \<le> s div 3600" "s div 3600 < 100" "0 \<le> s div 60 mod 60" "s div 60 mod 60 < 100"
    "0 \<le> s mod 60" "s mod 60 < 100"
    by (simp_all add: mod60)
  have f: "length (frac_seconds n) \<le> 10" for n
    using length_trim_zeros [of "fixed_digits 9 n"] by (simp add: frac_seconds_def)
  have "format_rfc3339nano t = append_int 4 y @ ''-'' @ append_int 2 (int m) @ ''-'' @ append_int 2 k
      @ ''T'' @ append_int 2 (s div 3600) @ '':'' @ append_int 2 (s div 60 mod 60) @ '':''
      @ append_int 2 (s mod 60) @ frac_seconds (nat (ns mod nanosecond_per_second)) @ ''Z''"
    by (simp add: format_rfc3339nano_def Let_def day_def [symmetric] ns_def [symmetric]
        s_def [symmetric] c)
  moreover have "length (append_int 4 y) = 4" using y by (simp add: append_int_fixed)
  moreover have two: "length (append_int 2 i) = 2" if "0 \<le> i" "i < 100" for i
    using that by (simp add: append_int_fixed)
  ultimately show ?thesis
    using f [of "nat (ns mod nanosecond_per_second)"] two [OF k(1,2)] two [of "int m"] k(3) two [OF hms(1,2)]
      two [OF hms(3,4)] two [OF hms(5,6)] by simp
qed

lemma valid_utf8_format: "valid_utf8 (format_rfc3339nano t)"
  by (rule valid_utf8_ascii [OF format_ascii])

lemma stage_sizes:
  assumes v: "Verify rawPlan ex = Inr plan" and s: "s \<in> set (elems (b_Stages plan))"
  shows "length (s_ID s) \<le> 100" "length (s_GrantOperation s) \<le> 100" "length (s_Authority s) \<le> 100"
proof -
  have r: "list_all (\<lambda>r. length (r_id r) \<le> 100 \<and> length (r_authority r) \<le> 100
      \<and> length (r_grantOperation r) \<le> 100) requiredSequence"
    by (simp add: requiredSequence_def rule_def)
  from s obtain i where i: "i < length (elems (b_Stages plan))" "s = elems (b_Stages plan) ! i"
    by (auto simp: in_set_conv_nth)
  with plan_sequence [OF v] have "rule_matches i (requiredSequence ! i) s" "i < length requiredSequence"
    by (auto simp: Let_def length_requiredSequence)
  with r show "length (s_ID s) \<le> 100" "length (s_GrantOperation s) \<le> 100" "length (s_Authority s) \<le> 100"
    by (auto simp: rule_matches_def list_all_length)
qed

lemma ledger_literals:
  "valid_utf8 StageClaimFormat" "valid_utf8 StageOutcomeFormat" "valid_utf8 ''CLAIMED''" "valid_utf8 ''COMPLETED''"
  "length StageClaimFormat \<le> 100" "length StageOutcomeFormat \<le> 100"
  by (simp_all add: valid_utf8_ascii is_ascii_def StageClaimFormat_def StageOutcomeFormat_def)

text \<open>What a verified grant says of itself, in the words of its consumption binding.\<close>

lemma verified_binding:
  assumes p: "Verify rawPlan ex = Inr plan" and g: "VerifyStage sigcheck raw keyRaw plan sid expected at = Inr g"
  obtains s sd where "Binding_Stage plan sid = Inr (s, sd)" "IsMutating s"
    "sc_StageID (vg_binding g) = s_ID s" "sc_Operation (vg_binding g) = s_GrantOperation s"
    "sc_Authority (vg_binding g) = s_Authority s" "sc_StageDigest (vg_binding g) = sd"
    "sc_PlanDigest (vg_binding g) = b_PlanDigest plan" "sc_ContractRevision (vg_binding g) = b_IntentRevision plan"
    "digestPattern (sc_AuthorizationDigest (vg_binding g))" "digestPattern (sc_KeyID (vg_binding g))"
    "digestPattern (sc_PredecessorDigest (vg_binding g))" "stageGrantIDPattern (sc_GrantID (vg_binding g))"
    "vg_verified g" "active_window (sc_NotBefore (vg_binding g)) (sc_NotAfter (vg_binding g)) at"
proof -
  from g obtain s sd e pk keyID d where f: "Binding_Stage plan sid = Inr (s, sd)" "IsMutating s"
    and key: "parsePublicKey keyRaw = Inr (pk, keyID)"
    and v: "verifyStagePayload (ev_Payload e) plan s sd expected at = Inr d"
    and e: "strict_decode dec_envelope raw = Inr e"
    and g: "g = grant_of (ev_Payload e) (ev_Format e) raw keyID plan s sd d"
    unfolding VerifyStage_iff by blast
  from key have "digestPattern keyID" by (auto simp: parsePublicKey_def split: option.splits if_splits)
  moreover from v have "digestPattern d" "decides (ev_Payload e) plan s sd"
    "active_window (sp_NotBefore (ev_Payload e)) (sp_NotAfter (ev_Payload e)) at"
    unfolding verifyStagePayload_iff by (auto simp: predecessor_digest_def dest: canonical_digest_pattern)
  ultimately show thesis by (intro that [OF f]) (simp_all add: g decides_def)
qed

lemma grant_id_facts: "stageGrantIDPattern k \<Longrightarrow> k \<noteq> [] \<and> length k \<le> 128 \<and> valid_utf8 k"
  by (cases k) (auto simp: lower_name_def intro!: valid_utf8_ascii lower_name_ascii [of 2 127])

text \<open>Names of the sizes that verified plans and grants have.\<close>

definition small_claim :: "StageClaimReceipt \<Rightarrow> bool" where
  "small_claim c \<longleftrightarrow> list_all (\<lambda>x. length x \<le> 128) [sl_GrantID c, sl_StageID c, sl_Operation c, sl_Authority c]"

lemma verified_claim_sound:
  assumes p: "Verify rawPlan ex = Inr plan" and g: "VerifyStage sigcheck raw keyRaw plan sid expected at0 = Inr g"
    and at: "valid_time at"
  defines "c \<equiv> stage_claim_of (vg_binding g) at"
  shows "sound_claim (sc_GrantID (vg_binding g)) c" "length (claim_bytes c) \<le> readLimit" "small_claim c"
proof -
  from verified_binding [OF p g] obtain s sd where b: "Binding_Stage plan sid = Inr (s, sd)" "IsMutating s"
    "sc_StageID (vg_binding g) = s_ID s" "sc_Operation (vg_binding g) = s_GrantOperation s"
    "sc_Authority (vg_binding g) = s_Authority s" "sc_StageDigest (vg_binding g) = sd"
    "sc_PlanDigest (vg_binding g) = b_PlanDigest plan" "sc_ContractRevision (vg_binding g) = b_IntentRevision plan"
    "digestPattern (sc_AuthorizationDigest (vg_binding g))" "digestPattern (sc_KeyID (vg_binding g))"
    "digestPattern (sc_PredecessorDigest (vg_binding g))" "stageGrantIDPattern (sc_GrantID (vg_binding g))"
    "vg_verified g" "active_window (sc_NotBefore (vg_binding g)) (sc_NotAfter (vg_binding g)) at0" by blast
  note s = Binding_Stage_facts [OF b(1)]
  note sizes = stage_sizes [OF p s(1)] and names = stage_fields_nonempty [OF p s(1)]
  note plan = plan_digests(1-5) [OF p]
  note gid = grant_id_facts [OF b(12)]
  have op: "s_GrantOperation s \<noteq> []" using b(2) IsMutating_iff_operation [of s] by auto
  have ok: "ok_stage_claim c"
    using b(3-11) s(3,4) plan gid ledger_literals
    by (simp add: ok_stage_claim_def c_def stage_claim_of_def valid_utf8_digest valid_utf8_format ok_stage_def)
  moreover have "validateStageClaim c = Inr ()"
    using b(3-11) s(2,4) plan gid names op
    by (simp add: validateStageClaim_def c_def stage_claim_of_def parse_format [OF at])
  ultimately show "sound_claim (sc_GrantID (vg_binding g)) c"
    by (simp add: sound_claim_def c_def stage_claim_of_def)
  have "text_bound (enc_stage_claim c) \<le> readLimit"
    unfolding enc_stage_claim_def
    by (rule order_trans [OF text_bound_struct])
      (use b(3-11) s(4) plan gid sizes ledger_literals length_format [OF at] in
        \<open>simp add: c_def stage_claim_of_def digest_length readLimit_def\<close>)
  with length_canonical_text [OF fits_stage_claim [OF ok order_refl]]
  show "length (claim_bytes c) \<le> readLimit" by linarith
  show "small_claim c"
    using b(3-5) gid sizes by (simp add: small_claim_def c_def stage_claim_of_def)
qed

lemma outcome_sound:
  assumes c: "sound_claim gid c" and small: "small_claim c"
    and ok: "outcome_rules c outcome mutation evidence target at" and at: "valid_time at"
  defines "v \<equiv> stage_outcome_of c (SHA256 (claim_bytes c)) outcome mutation evidence target at"
  shows "sound_outcome c v" "length (outcome_bytes v) \<le> readLimit"
proof -
  have words: "valid_utf8 outcome" "valid_utf8 mutation" "length outcome \<le> 100" "length mutation \<le> 100"
    using ok by (auto simp: outcome_rules_def valid_literals)
  have tg: "target = '''' \<or> digestPattern target" using ok by (auto simp: outcome_rules_def)
  have cl: "validateStageClaim c = Inr ()" "ok_stage_claim c" using c by (simp_all add: sound_claim_def)
  then have d: "digestPattern (sl_PlanDigest c)" "digestPattern (sl_StageDigest c)" "sl_GrantID c \<noteq> ''''"
    "sl_StageID c \<noteq> ''''" "sl_Operation c \<noteq> ''''"
    by (simp_all add: validateStageClaim_def split: if_splits)
  have e: "digestPattern evidence" using ok by (simp add: outcome_rules_def)
  have okv: "ok_stage_outcome v"
    using cl(2) words tg e d
    by (auto simp: ok_stage_outcome_def ok_stage_claim_def v_def stage_outcome_of_def ledger_literals
        valid_utf8_digest valid_utf8_format)
  moreover have "validateStageOutcome v = Inr ()"
    using ok d by (auto simp: validateStageOutcome_def v_def stage_outcome_of_def outcome_rules_def parse_format [OF at])
  ultimately show "sound_outcome c v"
    by (simp add: sound_outcome_def v_def stage_outcome_of_def)
  have "length target \<le> 71" using tg by (auto simp: digest_length)
  then have "text_bound (enc_stage_outcome v) \<le> readLimit"
    unfolding enc_stage_outcome_def
    by (intro order_trans [OF text_bound_struct])
      (use small words d e ledger_literals length_format [OF at] in
        \<open>simp add: small_claim_def v_def stage_outcome_of_def digest_length readLimit_def\<close>)
  with length_canonical_text [OF fits_stage_outcome [OF okv order_refl]]
  show "length (outcome_bytes v) \<le> readLimit" by linarith
qed

lemma active_check_window:
  "active_window nb na at \<Longrightarrow> check_window nb na at m1 m2 m3 = Inr ()"
  by (auto simp: active_window_def check_window_def)

end
