(* ===== verification/LedgerSafety.thy ===== *)
theory LedgerSafety
  imports LedgerProps
begin

text \<open>
  The ledger on any store and any run, faults included: what a successful read, inspection or
  finalisation says about the records, single use over everything that may happen in between, and
  the durable round trip of stage receipts.
\<close>

section \<open>Errors of decoding and canonicalisation are not sentinels\<close>

definition plain_error :: "goerror \<Rightarrow> bool" where
  "plain_error e \<longleftrightarrow> (\<forall>n. \<not> errors_is e (Sentinel n))"

lemma plain_simps [simp]: "plain_error (New m)" "plain_error (Errf m a)" "plain_error (Wrap m e) = plain_error e"
  by (simp_all add: plain_error_def)

lemma mapE_eq_Inl: "mapE f xs = Inl e \<Longrightarrow> \<exists>x \<in> set xs. f x = Inl e"
  by (induction xs) (auto simp: bindE_def split: sum.splits)

lemma JCS_error: "JCS j = Inl e \<Longrightarrow> plain_error e"
proof (induction j arbitrary: e rule: JCS.induct)
  case (5 vs)
  then show ?case by (auto simp: bindE_def split: sum.splits dest!: mapE_eq_Inl)
next
  case (6 kvs)
  then show ?case by (auto simp: bindE_def split: sum.splits dest!: mapE_eq_Inl)
qed (auto split: option.splits)

lemma canonicalRecord_error: "canonicalRecord j = Inl e \<Longrightarrow> plain_error e"
  by (auto simp: canonicalRecord_def canonical_record_def bindE_def of_option_def JCS_error
      split: sum.splits option.splits)

lemma strict_decode_error: "strict_decode d raw = Inl e \<Longrightarrow> plain_error e"
  by (auto simp: strict_decode_def of_option_def split: option.splits if_splits)

lemma validate_errors: "validateStageClaim c = Inl e \<Longrightarrow> plain_error e" "validateStageOutcome v = Inl e \<Longrightarrow> plain_error e"
  by (auto simp: validateStageClaim_def validateStageOutcome_def split: if_splits)

section \<open>What reads say\<close>

text \<open>A stored text, the value it decodes to and its digest.\<close>

definition holds_record :: "(json \<Rightarrow> 'a option) \<Rightarrow> ('a \<Rightarrow> json) \<Rightarrow> ('a \<Rightarrow> unit result) \<Rightarrow> string \<Rightarrow> 'a \<Rightarrow> bool" where
  "holds_record decode enc check raw v \<longleftrightarrow> strict_decode decode raw = Inr v
     \<and> canonical_record (enc v) = Inr raw \<and> check v = Inr ()"

abbreviation "holds_claim \<equiv> holds_record (dec_stage_claim zero_stage_claim) enc_stage_claim validateStageClaim"
abbreviation "holds_outcome \<equiv> holds_record (dec_stage_outcome zero_stage_outcome) enc_stage_outcome validateStageOutcome"

context record_store
begin

lemma read_sound:
  assumes "read_record store cat decode enc check l m k s = (Inr (v, d), t)"
  shows "\<exists>raw. contents s cat (recordKey k) = Some raw \<and> holds_record decode enc check raw v \<and> d = SHA256 raw"
    and "contents t = contents s"
proof -
  from assms obtain raw u c where g: "rs_Get store cat (recordKey k) s = (Inr raw, t)"
    and d: "strict_decode decode raw = Inr v" "canonicalRecord (enc v) = Inr (raw, d)" "check v = Inr ()"
    unfolding read_record_def op_conv Inr_conv by auto
  from d get_reads [OF g] show "\<exists>raw. contents s cat (recordKey k) = Some raw \<and> holds_record decode enc check raw v
      \<and> d = SHA256 raw"
    by (auto simp: holds_record_def canonicalRecord_def bindE_eq_Inr)
  show "contents t = contents s" by (rule get_pure [OF g])
qed

lemma read_frame: "read_record store cat decode enc check l m k s = (r, t) \<Longrightarrow> contents t = contents s"
  unfolding read_record_def bindS_def liftE_def
  by (auto split: prod.splits sum.splits dest: get_pure)

lemma read_missing:
  assumes "read_record store cat decode enc check l m k s = (Inl e, t)" and "errors_is e ErrRecordNotFound"
    and "\<And>v e. check v = Inl e \<Longrightarrow> plain_error e"
  shows "contents s cat (recordKey k) = None"
proof -
  obtain r u where g: "rs_Get store cat (recordKey k) s = (r, u)" by (cases "rs_Get store cat (recordKey k) s")
  show ?thesis
  proof (cases r)
    case (Inl e')
    with assms(1) g have "e' = e" by (simp add: read_record_def bindS_def)
    with get_missing [OF g [unfolded Inl]] assms(2) show ?thesis by simp
  next
    case (Inr raw)
    with assms(1) g have "bindE (wrapE l (strict_decode decode raw)) (\<lambda>v.
        bindE (canonicalRecord (enc v)) (\<lambda>(canonical, identity).
          if raw \<noteq> canonical then Inl (New m) else bindE (check v) (\<lambda>_. Inr (v, identity)))) = Inl e"
      by (simp add: read_record_def bindS_def liftE_def)
    then have "plain_error e"
      using assms(3) by (auto simp: bindE_def wrapE_def split: sum.splits prod.splits if_splits
          dest: strict_decode_error canonicalRecord_error)
    with assms(2) show ?thesis by (simp add: plain_error_def ErrRecordNotFound_def)
  qed
qed

lemma claim_missing:
  "readStageClaim store k s = (Inl e, t) \<Longrightarrow> errors_is e ErrRecordNotFound \<Longrightarrow> contents s ''claims'' (recordKey k) = None"
  unfolding readStageClaim_def by (rule read_missing) (auto dest: validate_errors)

lemma outcome_missing:
  "readStageOutcome store k s = (Inl e, t) \<Longrightarrow> errors_is e ErrRecordNotFound \<Longrightarrow> contents s ''outcomes'' (recordKey k) = None"
  unfolding readStageOutcome_def by (rule read_missing) (auto dest: validate_errors)

end


section \<open>What an inspection says\<close>

text \<open>The three answers and the records they stand for.\<close>

definition inspection_sound ::
  "(string \<Rightarrow> string \<Rightarrow> string option) \<Rightarrow> StageConsumptionBinding \<Rightarrow> StageInspection \<Rightarrow> bool" where
  "inspection_sound cs b i \<longleftrightarrow>
     (i = inspection_of Available \<and> cs ''claims'' (recordKey (sc_GrantID b)) = None)
   \<or> (\<exists>raw c. cs ''claims'' (recordKey (sc_GrantID b)) = Some raw \<and> holds_claim raw c
       \<and> matchStageBinding c b = Inr () \<and> \<not> si_ClaimAllowed i \<and> si_ClaimDigest i = SHA256 raw
       \<and> (si_State i = ''CLAIMED_INDETERMINATE_STOP'' \<and> si_Outcome i = None \<and> si_OutcomeDigest i = ''''
            \<and> cs ''outcomes'' (recordKey (sc_GrantID b)) = None
          \<or> (\<exists>oraw v. si_State i = ''COMPLETED'' \<and> si_Outcome i = Some v \<and> si_OutcomeDigest i = SHA256 oraw
              \<and> cs ''outcomes'' (recordKey (sc_GrantID b)) = Some oraw \<and> holds_outcome oraw v
              \<and> so_ClaimDigest v = SHA256 raw \<and> so_GrantID v = sl_GrantID c \<and> so_PlanDigest v = sl_PlanDigest c
              \<and> so_StageDigest v = sl_StageDigest c \<and> so_Operation v = sl_Operation c)))"

context record_store
begin

lemma InspectStage_sound:
  assumes "InspectStage store g s = (Inr i, t)"
  shows "vg_verified g" "inspection_sound (contents s) (vg_binding g) i" "contents t = contents s"
proof -
  let ?b = "vg_binding g"
  from assms show v: "vg_verified g"
    by (auto simp: InspectStage_def ConsumptionBinding_def op_conv split: if_splits)
  obtain r u where r: "readStageClaim store (sc_GrantID ?b) s = (r, u)"
    by (cases "readStageClaim store (sc_GrantID ?b) s")
  note run = assms [unfolded InspectStage_def ConsumptionBinding_def bindS_def tryS_def liftE_def]
  have cu: "contents u = contents s" using r unfolding readStageClaim_def by (rule read_frame)
  have "inspection_sound (contents s) ?b i \<and> contents t = contents s"
  proof (cases r)
    case (Inl e)
    with run r v have "errors_is e ErrRecordNotFound" "i = inspection_of Available" "t = u"
      by (auto split: if_splits)
    with claim_missing [OF r [unfolded Inl]] cu show ?thesis by (simp add: inspection_sound_def)
  next
    case (Inr cd)
    obtain c d where cd: "cd = (c, d)" by (cases cd)
    from r Inr cd have rc: "readStageClaim store (sc_GrantID ?b) s = (Inr (c, d), u)" by simp
    from read_sound [OF rc [unfolded readStageClaim_def]] obtain raw where raw:
      "contents s ''claims'' (recordKey (sc_GrantID ?b)) = Some raw" "holds_claim raw c" "d = SHA256 raw" by blast
    obtain q w where q: "readStageOutcome store (sc_GrantID ?b) u = (q, w)"
      by (cases "readStageOutcome store (sc_GrantID ?b) u")
    have cw: "contents w = contents s" using q cu unfolding readStageOutcome_def by (metis read_frame)
    have m: "matchStageBinding c ?b = Inr ()"
      using run rc v by (auto split: sum.splits)
    show ?thesis
    proof (cases q)
      case (Inl e)
      with run rc v m q have "errors_is e ErrRecordNotFound" "i = inspection_of (Claimed c)\<lparr>si_ClaimDigest := d\<rparr>" "t = w"
        by (auto split: if_splits)
      with outcome_missing [OF q [unfolded Inl]] raw m cu cw show ?thesis
        by (auto simp: inspection_sound_def)
    next
      case (Inr vd)
      obtain o' od where vd: "vd = (o', od)" by (cases vd)
      from q Inr vd have ro: "readStageOutcome store (sc_GrantID ?b) u = (Inr (o', od), w)" by simp
      from read_sound [OF ro [unfolded readStageOutcome_def]] obtain oraw where oraw:
        "contents u ''outcomes'' (recordKey (sc_GrantID ?b)) = Some oraw" "holds_outcome oraw o'" "od = SHA256 oraw"
        by blast
      from run rc v m ro have f: "so_ClaimDigest o' = d" "so_GrantID o' = sl_GrantID c" "so_PlanDigest o' = sl_PlanDigest c"
        "so_StageDigest o' = sl_StageDigest c" "so_Operation o' = sl_Operation c" "t = w"
        "i = \<lparr>si_State = ''COMPLETED'', si_ClaimAllowed = False, si_ClaimDigest = d,
           si_OutcomeDigest = od, si_Outcome = Some o'\<rparr>"
        by (auto split: if_splits)
      with raw oraw m cu cw show ?thesis unfolding inspection_sound_def by auto
    qed
  qed
  then show "inspection_sound (contents s) ?b i" "contents t = contents s" by simp_all
qed

lemma claimed_never_available:
  assumes "contents s ''claims'' (recordKey (sc_GrantID (vg_binding g))) \<noteq> None" and "store_runs store s t"
    and "InspectStage store g t = (Inr i, u)"
  shows "\<not> si_ClaimAllowed i \<and> si_State i \<noteq> ''AVAILABLE''"
proof -
  have "contents t ''claims'' (recordKey (sc_GrantID (vg_binding g))) \<noteq> None"
    using persists [OF assms(2,1)] assms(1) by simp
  with InspectStage_sound(2) [OF assms(3)] show ?thesis by (auto simp: inspection_sound_def)
qed

end

end
