(* ===== verification/LedgerReceipts.thy ===== *)
theory LedgerReceipts
  imports LedgerSafety
begin

text \<open>
  Stage receipts in the ledger: what a successful store leaves behind, loading by digest, and the
  evidence chain from claim over outcome to receipt that a finalisation builds.
\<close>

section \<open>Slots\<close>

lemma receipt_slot: "stageReceiptKey plan i = Inr k \<Longrightarrow> valid_slot ''stage-receipts'' k"
  by (auto simp: stageReceiptKey_def Inr_conv canonicalRecord_def valid_slot_def drop7_SHA256 categories_def)

lemma attempt_slot: "stageReceiptAttemptKey plan i d = Inr k \<Longrightarrow> valid_slot ''stage-receipts'' k"
  by (auto simp: stageReceiptAttemptKey_def Inr_conv canonicalRecord_def valid_slot_def drop7_SHA256 categories_def)

lemma Verified_parts:
  "Verified_Receipt v = Inr r \<Longrightarrow> rc_StageID r = rc_StageID (v_receipt v)"
  "Verified_Bytes v = Inr raw \<Longrightarrow> raw = v_raw v"
  "Verified_Digest v = Inr d \<Longrightarrow> d = v_digest v \<and> digestPattern d"
  by (auto simp: Verified_Receipt_def Verified_Bytes_def Verified_Digest_def split: if_splits)

lemma loaded_ok:
  assumes "receipt_Verify raw d plan preds = Inr v" and "rc_StageID (v_receipt v) = i"
  shows "verifyLoadedStageReceipt raw d plan i preds = Inr v"
proof -
  have "v_verified v" using assms(1) by (auto simp: receipt_Verify_eq_Inr verifyReceipt_eq_Inr)
  with assms show ?thesis by (simp add: verifyLoadedStageReceipt_def Verified_Receipt_def)
qed

context record_store
begin

text \<open>Where a stored receipt is: in the deterministic slot, or else in the slot of its digest.\<close>

definition stored_at :: "'s \<Rightarrow> Binding \<Rightarrow> string \<Rightarrow> string \<Rightarrow> string \<Rightarrow> bool" where
  "stored_at s plan i d raw \<longleftrightarrow> (\<exists>k. stageReceiptKey plan i = Inr k
     \<and> (contents s ''stage-receipts'' k = Some raw
        \<or> (\<exists>k'. stageReceiptAttemptKey plan i d = Inr k' \<and> contents s ''stage-receipts'' k' = Some raw
             \<and> contents s ''stage-receipts'' k \<noteq> None)))"

lemma store_attempt_sound:
  assumes r: "store_attempt store plan i raw d preds s = (Inr e, t)" and l: "length raw \<le> capacity"
  shows "e = d \<and> (\<exists>k'. stageReceiptAttemptKey plan i d = Inr k' \<and> contents t ''stage-receipts'' k' = Some raw)"
proof -
  from r obtain k' q u where k: "stageReceiptAttemptKey plan i d = Inr k'"
    and c: "rs_Create store ''stage-receipts'' k' raw s = (q, u)"
    and f: "(case q of Inr _ \<Rightarrow> liftE (Inr d)
      | Inl e \<Rightarrow> if \<not> errors_is e ErrRecordExists then liftE (Inl (Wrap ''write immutable retry stage receipt'' e))
          else bindS (wrapS ''read existing retry stage receipt'' (rs_Get store ''stage-receipts'' k')) (\<lambda>attempt.
            if attempt \<noteq> raw then liftE (Inl ErrStageReceiptConflict)
            else bindS (liftE (wrapE ''verify existing retry stage receipt'' (receipt_Verify attempt d plan preds)))
              (\<lambda>_. liftE (Inr d)))) u = (Inr e, t)"
    unfolding store_attempt_def op_conv by blast
  show ?thesis
  proof (cases q)
    case (Inr x)
    with f c k create_exact [OF c [unfolded Inr] l] show ?thesis by (simp add: liftE_def)
  next
    case (Inl e')
    with f obtain v where g: "rs_Get store ''stage-receipts'' k' u = (Inr raw, v)" and e: "e = d" "t = v"
      by (auto simp: op_conv split: if_splits)
    from get_reads [OF g] get_pure [OF g] k e show ?thesis by simp
  qed
qed

lemma StoreStageReceipt_sound:
  assumes r: "StoreStageReceipt store plan v preds s = (Inr d, t)" and l: "length (v_raw v) \<le> capacity"
  shows "d = v_digest v" "\<exists>w. receipt_Verify (v_raw v) d plan preds = Inr w"
    "stored_at t plan (rc_StageID (v_receipt v)) d (v_raw v)"
proof -
  let ?i = "rc_StageID (v_receipt v)" and ?raw = "v_raw v"
  from r obtain rc raw d' w k q u where vp: "Verified_Receipt v = Inr rc" "Verified_Bytes v = Inr raw" "Verified_Digest v = Inr d'"
    and v0: "receipt_Verify raw d' plan preds = Inr w" and k0: "stageReceiptKey plan (rc_StageID rc) = Inr k"
    and c0: "rs_Create store ''stage-receipts'' k raw s = (q, u)"
    and f0: "(case q of Inr _ \<Rightarrow> liftE (Inr d')
      | Inl e \<Rightarrow> if \<not> errors_is e ErrRecordExists then liftE (Inl (Wrap ''write immutable stage receipt'' e))
          else bindS (wrapS ''read existing stage receipt'' (rs_Get store ''stage-receipts'' k)) (\<lambda>existing.
            if existing = raw then bindS (liftE (wrapE ''verify existing stage receipt''
                (receipt_Verify existing d' plan preds))) (\<lambda>_. liftE (Inr d'))
            else store_attempt store plan (rc_StageID rc) raw d' preds)) u = (Inr d, t)"
    unfolding StoreStageReceipt_def op_conv wrapE_eq_Inr by blast
  note parts = Verified_parts(1) [OF vp(1)] Verified_parts(2) [OF vp(2)]
  note v = Verified_parts(3) [OF vp(3)] and w = v0 [unfolded parts] and k = k0 [unfolded parts]
    and c = c0 [unfolded parts] and f = f0 [unfolded parts]
  have "d = d' \<and> stored_at t plan ?i d' ?raw"
  proof (cases q)
    case (Inr x)
    with f c k create_exact [OF c [unfolded Inr] l] show ?thesis by (auto simp: liftE_def stored_at_def)
  next
    case (Inl e)
    with f obtain existing y where g: "rs_Get store ''stage-receipts'' k u = (Inr existing, y)"
      and h: "(if existing = ?raw then bindS (liftE (wrapE ''verify existing stage receipt''
                (receipt_Verify existing d' plan preds))) (\<lambda>_. liftE (Inr d'))
            else store_attempt store plan ?i ?raw d' preds) y = (Inr d, t)"
      by (auto simp: bindS_eq_Inr liftE_def split: if_splits)
    note y = get_reads [OF g] get_pure [OF g]
    show ?thesis
    proof (cases "existing = ?raw")
      case True
      with h y k show ?thesis by (auto simp: op_conv stored_at_def)
    next
      case False
      with h have a: "store_attempt store plan ?i ?raw d' preds y = (Inr d, t)" by simp
      have "steps store (store_attempt store plan ?i ?raw d' preds)"
        unfolding store_attempt_def by (intro steps_intros)
      then have "store_runs store y t" using a by (rule stepsD)
      then have "contents t ''stage-receipts'' k \<noteq> None" using persists [of y t] y by simp
      with store_attempt_sound [OF a l] k show ?thesis by (auto simp: stored_at_def)
    qed
  qed
  with v w show "d = v_digest v" "\<exists>w. receipt_Verify ?raw d plan preds = Inr w" "stored_at t plan ?i d ?raw" by auto
qed

text \<open>Loading finds it, unless the slot was given to another text of the same digest.\<close>

lemma load_stored:
  assumes h: "healthy s" and st: "stored_at s plan i d (v_raw v)"
    and v: "receipt_Verify (v_raw v) d plan preds = Inr v" "rc_StageID (v_receipt v) = i"
    and inj: "\<And>c k raw. contents s c k = Some raw \<Longrightarrow> SHA256 raw = SHA256 (v_raw v) \<Longrightarrow> raw = v_raw v"
  shows "\<exists>t. LoadStageReceipt store plan i d preds s = (Inr v, t) \<and> quiet s t"
proof -
  from v(1) have d: "SHA256 (v_raw v) = d" by (auto simp: receipt_Verify_eq_Inr verifyReceipt_eq_Inr)
  from st obtain k raw where k: "stageReceiptKey plan i = Inr k" "contents s ''stage-receipts'' k = Some raw"
    and at: "raw = v_raw v \<or> (\<exists>k'. stageReceiptAttemptKey plan i d = Inr k'
      \<and> contents s ''stage-receipts'' k' = Some (v_raw v))"
    unfolding stored_at_def by (metis option.exhaust)
  from get_quiet [OF h receipt_slot [OF k(1)]] k(2) obtain t
    where t: "rs_Get store ''stage-receipts'' k s = (Inr raw, t)" "quiet s t" by auto
  show ?thesis
  proof (cases "SHA256 raw = d")
    case True
    with inj [OF k(2)] d have "raw = v_raw v" by simp
    with k(1) t True loaded_ok [OF v] show ?thesis
      by (auto simp: LoadStageReceipt_def bindS_def tryS_def liftE_def)
  next
    case False
    with at d obtain k' where k': "stageReceiptAttemptKey plan i d = Inr k'"
      "contents s ''stage-receipts'' k' = Some (v_raw v)" by auto
    from get_quiet [OF quietD(1) [OF t(2)] attempt_slot [OF k'(1)]] k'(2) quietD(2) [OF t(2)] obtain u
      where u: "rs_Get store ''stage-receipts'' k' t = (Inr (v_raw v), u)" "quiet t u" by auto
    from k(1) k'(1) t(1) u(1) False loaded_ok [OF v]
    have "LoadStageReceipt store plan i d preds s = (Inr v, u)"
      by (simp add: LoadStageReceipt_def bindS_def tryS_def liftE_def)
    with quiet_trans [OF t(2) u(2)] show ?thesis by blast
  qed
qed

end


section \<open>The evidence chain of a finalised stage\<close>

text \<open>
  From the durable claim over the durable outcome to the receipt: each names the digest of the one
  before, and the receipt repeats the outcome.
\<close>

definition evidence_chain ::
  "(string \<Rightarrow> string \<Rightarrow> string option) \<Rightarrow> Binding \<Rightarrow> StageConsumptionBinding \<Rightarrow> Verified slice \<Rightarrow> Verified \<Rightarrow> bool" where
  "evidence_chain cs plan b preds v \<longleftrightarrow> (\<exists>raw c oraw w.
     cs ''claims'' (recordKey (sc_GrantID b)) = Some raw \<and> holds_claim raw c \<and> matchStageBinding c b = Inr ()
     \<and> cs ''outcomes'' (recordKey (sc_GrantID b)) = Some oraw \<and> holds_outcome oraw w
     \<and> so_ClaimDigest w = SHA256 raw
     \<and> rc_StageID (v_receipt v) = sc_StageID b \<and> rc_PlanDigest (v_receipt v) = sc_PlanDigest b
     \<and> rc_State (v_receipt v) = so_Outcome w \<and> rc_MutationState (v_receipt v) = so_MutationState w
     \<and> rc_OperationOutcomeDigest (v_receipt v) = SHA256 oraw
     \<and> rc_EvidenceDigest (v_receipt v) = so_EvidenceDigest w
     \<and> rc_TargetClusterUIDDigest (v_receipt v) = so_TargetClusterUIDDigest w
     \<and> finalizedPredecessorDigest preds = Inr (sc_PredecessorDigest b))"

definition new_receipt ::
  "Binding \<Rightarrow> Stage \<Rightarrow> string \<Rightarrow> StageReceipt.Predecessor slice \<Rightarrow> string \<Rightarrow> string \<Rightarrow> string \<Rightarrow> string \<Rightarrow> string \<Rightarrow> time \<Rightarrow> Receipt" where
  "new_receipt plan stage stageDigest links state mutationState outcome evidence target completedAt =
     \<lparr>rc_Format = ReceiptFormat, rc_PlanDigest = b_PlanDigest plan,
      rc_ContractIdentity = b_ContractIdentity plan, rc_ContractRevision = b_IntentRevision plan,
      rc_EnablementRevision = b_EnablementRevision plan, rc_PlatformRevision = b_PlatformRevision plan,
      rc_ExecutionFixture = b_ExecutionFixture plan, rc_StageID = s_ID stage, rc_StageOrder = s_Order stage,
      rc_StageDigest = stageDigest, rc_Kind = s_Kind stage, rc_Authority = s_Authority stage,
      rc_Operation = s_GrantOperation stage, rc_Predecessors = links, rc_State = state,
      rc_MutationState = mutationState, rc_OperationOutcomeDigest = outcome, rc_EvidenceDigest = evidence,
      rc_TargetClusterUIDDigest = target, rc_CompletedAt = format_rfc3339nano completedAt,
      rc_RecoveryBindingDigest = ''''\<rparr>"

lemma receipt_New_parts:
  assumes "receipt_New_target plan sid preds state mutation od ed target at = Inr v"
  shows "rc_StageID (v_receipt v) = sid" "rc_PlanDigest (v_receipt v) = b_PlanDigest plan"
    "rc_State (v_receipt v) = state" "rc_MutationState (v_receipt v) = mutation"
    "rc_OperationOutcomeDigest (v_receipt v) = od" "rc_EvidenceDigest (v_receipt v) = ed"
    "rc_TargetClusterUIDDigest (v_receipt v) = target"
proof -
  have w: "verifyReceipt r plan preds = Inr v \<Longrightarrow> v_receipt v = r" for r
    by (auto simp: verifyReceipt_eq_Inr)
  from assms [unfolded receipt_New_target_def Let_def Inr_conv split_paired_Ex prod.case]
  obtain stage d links where b: "Binding_Stage plan sid = Inr (stage, d)" and r: "v_receipt v = (case elems preds of
      [p] \<Rightarrow> if v_recoveryPlan p = b_PlanDigest plan
        then (new_receipt plan stage d links state mutation od ed target at)\<lparr>rc_Format := RecoveryFormat,
               rc_RecoveryBindingDigest := v_recoveryDigest p\<rparr>
        else new_receipt plan stage d links state mutation od ed target at
    | _ \<Rightarrow> new_receipt plan stage d links state mutation od ed target at)"
    unfolding new_receipt_def by (blast dest: w)
  from r Binding_Stage_facts(2) [OF b]
  show "rc_StageID (v_receipt v) = sid" "rc_PlanDigest (v_receipt v) = b_PlanDigest plan"
    "rc_State (v_receipt v) = state" "rc_MutationState (v_receipt v) = mutation"
    "rc_OperationOutcomeDigest (v_receipt v) = od" "rc_EvidenceDigest (v_receipt v) = ed"
    "rc_TargetClusterUIDDigest (v_receipt v) = target"
    by (simp_all add: new_receipt_def split: list.split)
qed

lemma guard_eq_Inr:
  "(if c then liftE (Inl e) else f) s = (Inr y, t) \<longleftrightarrow> \<not> c \<and> f s = (Inr y, t)"
  "(case x of None \<Rightarrow> liftE (Inl e) | Some v \<Rightarrow> h v) s = (Inr y, t) \<longleftrightarrow> (\<exists>v. x = Some v \<and> h v s = (Inr y, t))"
  by (auto simp: liftE_eq split: option.splits)

context record_store
begin

lemma Finalize_sound:
  assumes r: "FinalizeStageReceipt store plan g preds s = (Inr v, t)" and l: "length (v_raw v) \<le> capacity"
  shows "evidence_chain (contents t) plan (vg_binding g) preds v"
    "stored_at t plan (rc_StageID (v_receipt v)) (v_digest v) (v_raw v)"
    "\<exists>w. receipt_Verify (v_raw v) (v_digest v) plan preds = Inr w"
proof -
  let ?b = "vg_binding g"
  from r obtain stage sd i u w at d where b: "vg_verified g"
    and s: "Binding_Stage plan (sc_StageID ?b) = Inr (stage, sd)" "sc_PlanDigest ?b = b_PlanDigest plan"
    and p: "finalizedPredecessorDigest preds = Inr (sc_PredecessorDigest ?b)"
    and i: "InspectStage store g s = (Inr i, u)" "si_Outcome i = Some w" "si_State i = ''COMPLETED''"
    and n: "receipt_New_target plan (s_ID stage) preds (so_Outcome w) (so_MutationState w)
      (si_OutcomeDigest i) (so_EvidenceDigest w) (so_TargetClusterUIDDigest w) at = Inr v"
    and st: "StoreStageReceipt store plan v preds u = (Inr d, t)"
    unfolding FinalizeStageReceipt_def ConsumptionBinding_def op_conv guard_eq_Inr Inr_conv de_Morgan_disj not_not
    by blast
  note store = StoreStageReceipt_sound [OF st l]
  note insp = InspectStage_sound [OF i(1)]
  have ut: "store_runs store u t" using st by (rule stepsD [OF steps_StoreStageReceipt])
  have keep: "contents u c k \<noteq> None \<Longrightarrow> contents t c k = contents u c k" for c k
    by (rule persists [OF ut])
  from insp(2) i(2,3) obtain raw c oraw where chain:
    "contents s ''claims'' (recordKey (sc_GrantID ?b)) = Some raw" "holds_claim raw c"
    "matchStageBinding c ?b = Inr ()" "contents s ''outcomes'' (recordKey (sc_GrantID ?b)) = Some oraw"
    "holds_outcome oraw w" "so_ClaimDigest w = SHA256 raw" "si_OutcomeDigest i = SHA256 oraw"
    by (auto simp: inspection_sound_def)
  have "contents t ''claims'' (recordKey (sc_GrantID ?b)) = Some raw"
    "contents t ''outcomes'' (recordKey (sc_GrantID ?b)) = Some oraw"
    using keep chain(1,4) insp(3) by simp_all
  with chain receipt_New_parts [OF n] p s Binding_Stage_facts(2) [OF s(1)]
  show "evidence_chain (contents t) plan ?b preds v" by (auto simp: evidence_chain_def)
  show "stored_at t plan (rc_StageID (v_receipt v)) (v_digest v) (v_raw v)"
    "\<exists>w. receipt_Verify (v_raw v) (v_digest v) plan preds = Inr w"
    using store by simp_all
qed

end

end
