(* ===== verification/ReceiptSize.thy ===== *)
theory ReceiptSize
  imports LedgerProps StageCursor
begin

text \<open>
  A size bound for stage receipts: a receipt made for a verified plan is far below the limit under
  which the ledger reads records back, so what is stored is read in full.
\<close>

lemma stage_shape:
  assumes v: "Verify rawPlan ex = Inr plan" and s: "s \<in> set (elems (b_Stages plan))"
  shows "length (s_Kind s) \<le> 100" "length (elems (s_Requires s)) \<le> 12"
    "\<forall>q \<in> set (elems (s_Requires s)). length q \<le> 100" "in_int64 (s_Order s)"
proof -
  have r: "list_all (\<lambda>r. length (r_kind r) \<le> 100 \<and> length (elems (r_requires r)) \<le> 12
      \<and> (\<forall>q \<in> set (elems (r_requires r)). length q \<le> 100)) requiredSequence"
    by (simp add: requiredSequence_def rule_def)
  from s obtain i where i: "i < length (elems (b_Stages plan))" "s = elems (b_Stages plan) ! i"
    by (auto simp: in_set_conv_nth)
  with plan_sequence [OF v] have "rule_matches i (requiredSequence ! i) s" "i < length requiredSequence"
    by (auto simp: Let_def length_requiredSequence)
  with r show "length (s_Kind s) \<le> 100" "length (elems (s_Requires s)) \<le> 12"
    "\<forall>q \<in> set (elems (s_Requires s)). length q \<le> 100" "in_int64 (s_Order s)"
    by (auto simp: rule_matches_def list_all_length length_requiredSequence in_int64_def)
qed

lemma links_bound:
  assumes "list_all2 (links_to plan s t) qs ps" and "\<forall>q \<in> set qs. length q \<le> 100"
  shows "sum_list (map (\<lambda>p. 1 + text_bound (enc_predecessor (link_of p))) ps) \<le> 2000 * length qs"
  using assms
proof (induction rule: list_all2_induct)
  case (Cons q qs p ps)
  then have "length (p_StageID (link_of p)) \<le> 100" "length (p_ReceiptDigest (link_of p)) \<le> 71"
    by (auto simp: links_to_def link_of_def digest_length)
  then have "text_bound (enc_predecessor (link_of p)) \<le> 1999"
    unfolding enc_predecessor_def by (intro order_trans [OF text_bound_struct]) simp
  with Cons show ?case by simp
qed simp

lemma optional_digest: "d = '''' \<or> digest_pattern d \<Longrightarrow> length d \<le> 71"
  by (auto simp: digest_length)

lemma receipt_small:
  assumes p: "Verify rawPlan ex = Inr plan" and idn: "ok_identity (x_ContractIdentity ex)"
    and n: "receipt_New_target plan sid preds st ms oc ev tg at = Inr v" and at: "valid_time at"
    and small: "length (i_Name (x_ContractIdentity ex)) \<le> 1000" "length (i_Namespace (x_ContractIdentity ex)) \<le> 1000"
  shows "length (v_raw v) \<le> 100000"
proof -
  from receipt_New_target_eq_Inr [OF n] obtain r where r: "verifyReceipt r plan preds = Inr v"
    "rc_CompletedAt r = format_rfc3339nano at" by blast
  have ok: "ok_receipt r" using verifyReceipt_ok [OF p idn r(1)] r(2) format_ascii by simp
  from r(1) obtain s d fm wr t ps raw where f: "Binding_Stage plan (rc_StageID r) = Inr (s, d)"
    "wanted_recovery plan s preds = Inr (fm, wr)" "rc_Format r = fm" "rc_RecoveryBindingDigest r = wr"
    "binds_stage r plan s d" "list_all2 (links_to plan s t) (elems (s_Requires s)) ps"
    "rc_Predecessors r = Some (map link_of ps)" "outcome_allowed r s"
    "canonical_record (enc_receipt r) = Inr raw" "v = verified_as r raw plan wr"
    unfolding verifyReceipt_eq_Inr by blast
  note sf = Binding_Stage_facts [OF f(1)]
  note sz = stage_sizes [OF p sf(1)] stage_shape [OF p sf(1)]
  have "length fm \<le> 100" "wr = '''' \<or> digest_pattern wr"
    using f(2) by (auto simp: wanted_recovery_def Inr_conv ReceiptFormat_def RecoveryFormat_def split: if_splits list.splits)
  then have fm: "length (rc_Format r) \<le> 100" "length (rc_RecoveryBindingDigest r) \<le> 71"
    by (auto simp: f digest_length)
  have sm: "length (rc_State r) \<le> 100" "length (rc_MutationState r) \<le> 100" "length (rc_EvidenceDigest r) \<le> 71"
    "length (rc_OperationOutcomeDigest r) \<le> 71" "length (rc_TargetClusterUIDDigest r) \<le> 71"
    using f(8) by (auto simp: outcome_allowed_def digest_length split: if_splits)
  have ident: "text_bound (enc_identity (rc_ContractIdentity r)) \<le> 20000"
    unfolding enc_identity_def
    by (rule order_trans [OF text_bound_struct]) (use small f(5) plan_digests(6) [OF p] in \<open>simp add: binds_stage_def\<close>)
  have links: "text_bound (JSlice enc_predecessor (rc_Predecessors r)) \<le> 24002"
    using links_bound [OF f(6) sz(6)] sz(5) by (simp add: f(7) JSlice_def o_def)
  have order: "text_bound (JInt (rc_StageOrder r)) \<le> 20"
    using f(5) sz(7) by (intro text_bound_JInt) (simp add: binds_stage_def)
  have rest: "length (rc_PlanDigest r) = 71" "length (rc_ContractRevision r) = 71" "length (rc_EnablementRevision r) = 71"
    "length (rc_PlatformRevision r) = 71" "length (rc_ExecutionFixture r) = 71" "length (rc_StageDigest r) = 71"
    "length (rc_StageID r) \<le> 100" "length (rc_Kind r) \<le> 100" "length (rc_Authority r) \<le> 100"
    "length (rc_Operation r) \<le> 100" "length (rc_CompletedAt r) \<le> 40"
    using f(5) sz plan_digests(1-5) [OF p] sf(2,4) length_format [OF at] r(2)
    by (auto simp: binds_stage_def digest_length)
  have "text_bound (enc_receipt r) \<le> 100000"
    unfolding enc_receipt_def
    by (rule order_trans [OF text_bound_struct]) (use fm sm ident links order rest in simp)
  moreover have "raw = canonical_text (enc_receipt r)" using receipt_codec.canonical [OF ok] f(9) by simp
  ultimately show ?thesis
    using length_canonical_text [OF fits_receipt [OF ok order_refl]] f(10) by (simp add: verified_as_def)
qed

end
