(* ===== verification/LedgerTheorems.thy ===== *)
theory LedgerTheorems
  imports LedgerReceipts ReceiptSize
begin

text \<open>
  The ledger on the file store: single use of a grant across faults and interleavings, the stage
  status that the operations compute, receipts that come back as stored, and the evidence chain of
  a finalised stage. The laws of the store are those of the interpretation \<open>files\<close>.
\<close>

abbreviation ledger :: "string \<Rightarrow> disk RecordStore" where
  "ledger root \<equiv> file_store (store_of root)"

abbreviation held :: "string \<Rightarrow> disk \<Rightarrow> string \<Rightarrow> string \<Rightarrow> string option" where
  "held root \<equiv> file_contents (store_of root)"

abbreviation grant_of_id :: "VerifiedStageGrant \<Rightarrow> string" where
  "grant_of_id g \<equiv> sc_GrantID (vg_binding g)"

definition empty_disk :: disk where
  "empty_disk = \<lparr>dk_entries = Map.empty, dk_faults = []\<rparr>"

lemma empty_disk_facts: "file_healthy fs empty_disk" "held root empty_disk c k = None"
  by (simp_all add: empty_disk_def file_healthy_def file_contents_def)

lemma sample_at: "valid_time minute" "valid_time (2 * minute)"
  by (simp_all add: valid_time_def minute_def nanosecond_per_second_def)

lemma window_of: "active_window (sc_NotBefore (vg_binding g)) (sc_NotAfter (vg_binding g)) at \<Longrightarrow>
  check_window (sc_NotBefore (vg_binding g)) (sc_NotAfter (vg_binding g)) at ''stage grant start''
      ''stage grant expiration'' ''stage grant is not active at consumption time'' = Inr ()"
  by (rule active_check_window)

text \<open>A verified grant can be claimed on a healthy disk that does not hold it.\<close>

lemma verified_claim:
  assumes "Verify rawPlan ex = Inr plan" and "VerifyStage sigcheck raw keyRaw plan sid expected at0 = Inr g"
    and "valid_time at" and "active_window (sc_NotBefore (vg_binding g)) (sc_NotAfter (vg_binding g)) at"
    and "file_healthy (store_of root) d" and "status_at (held root d) (grant_of_id g) Available"
  obtains d1 where "ClaimStage (ledger root) g at d = (Inr (stage_claim_of (vg_binding g) at), d1)"
    "file_healthy (store_of root) d1"
    "status_at (held root d1) (grant_of_id g) (Claimed (stage_claim_of (vg_binding g) at))"
    "\<forall>c k. (c, k) \<noteq> (''claims'', recordKey (grant_of_id g)) \<longrightarrow> held root d1 c k = held root d c k"
proof -
  note s = verified_claim_sound [OF assms(1-3)]
  have "vg_verified g" using verified_binding [OF assms(1,2)] by metis
  from files.claim_refines [OF assms(5,6) this window_of [OF assms(4)] s(1,2)] that show thesis by blast
qed

lemma sample_claim:
  obtains d1 where "ClaimStage (ledger root) sample_grant minute empty_disk
      = (Inr (stage_claim_of (vg_binding sample_grant) minute), d1)"
    "file_healthy (store_of root) d1"
    "status_at (held root d1) (grant_of_id sample_grant) (Claimed (stage_claim_of (vg_binding sample_grant) minute))"
    "\<And>k. held root d1 ''stage-receipts'' k = None"
proof -
  have "active_window (sc_NotBefore (vg_binding sample_grant)) (sc_NotAfter (vg_binding sample_grant)) minute"
    using sample_window by (simp add: sample_grant_def sample_payload_def)
  moreover have "status_at (held root empty_disk) (grant_of_id sample_grant) Available"
    by (simp add: empty_disk_facts)
  ultimately obtain d1 where r: "ClaimStage (ledger root) sample_grant minute empty_disk
      = (Inr (stage_claim_of (vg_binding sample_grant) minute), d1)" "file_healthy (store_of root) d1"
    "status_at (held root d1) (grant_of_id sample_grant) (Claimed (stage_claim_of (vg_binding sample_grant) minute))"
    and f: "\<forall>c k. (c, k) \<noteq> (''claims'', recordKey (grant_of_id sample_grant)) \<longrightarrow> held root d1 c k = held root empty_disk c k"
    using verified_claim [OF sample_verified(1) sample_grant_verified sample_at(1) _ empty_disk_facts(1), of root] by blast
  from f have "held root d1 ''stage-receipts'' k = None" for k by (simp add: empty_disk_facts)
  from that [OF r this] show thesis .
qed

text \<open>
  C3: a grant is used at most once. After one successful claim, no claim with the same grant
  identity succeeds in any later state, whatever creates and reads happened in between, whatever of
  them failed or was torn, and whichever of the two kinds of grant carries the identity.
\<close>

theorem grant_single_use:
  assumes "ClaimStage (ledger root) g at d = (Inr c, d1)" and "store_runs (ledger root) d1 d2"
  shows "(sc_GrantID (vg_binding h) = grant_of_id g \<longrightarrow> fst (ClaimStage (ledger root) h at' d2) \<noteq> Inr c')
    \<and> (cb_GrantID (vc_binding h') = grant_of_id g \<longrightarrow> fst (Claim (ledger root) h' at' d2) \<noteq> Inr c'')"
  using files.claimed_never_again [OF files.claim_takes(1) [OF assms(1)] assms(2)]
  by (metis prod.collapse)

lemma grant_single_use_witness:
  "\<exists>d1. fst (ClaimStage (ledger ''/l'') sample_grant (2 * minute) d1)
      \<noteq> Inr (stage_claim_of (vg_binding sample_grant) (2 * minute)) \<and> file_healthy (store_of ''/l'') d1"
proof -
  from sample_claim obtain d1 where d: "ClaimStage (ledger ''/l'') sample_grant minute empty_disk
      = (Inr (stage_claim_of (vg_binding sample_grant) minute), d1)" "file_healthy (store_of ''/l'') d1" by blast
  from grant_single_use [OF d(1) rtranclp.rtrancl_refl] d(2) show ?thesis by blast
qed

text \<open>
  A claimed grant never becomes available again. Once anything is held in the claim slot of a
  grant, also the torn record that a failed claim leaves, every later inspection that answers says
  that a claim is not allowed and that the stage is not available.
\<close>

theorem claimed_stays_closed:
  assumes "held root d ''claims'' (recordKey (grant_of_id g)) \<noteq> None" and "store_runs (ledger root) d d1"
    and "InspectStage (ledger root) g d1 = (Inr i, d2)"
  shows "\<not> si_ClaimAllowed i \<and> si_State i \<noteq> ''AVAILABLE''"
  by (rule files.claimed_never_available [OF assms])

lemma claimed_stays_closed_witness:
  "\<exists>d1 d2 i. InspectStage (ledger ''/l'') sample_grant d1 = (Inr i, d2) \<and> \<not> si_ClaimAllowed i"
proof -
  let ?c = "stage_claim_of (vg_binding sample_grant) minute"
  from sample_claim obtain d1 where d: "ClaimStage (ledger ''/l'') sample_grant minute empty_disk = (Inr ?c, d1)"
    "file_healthy (store_of ''/l'') d1" "status_at (held ''/l'' d1) (grant_of_id sample_grant) (Claimed ?c)" by blast
  have "matchStageBinding ?c (vg_binding sample_grant) = Inr ()"
    by (simp add: matchStageBinding_def stage_claim_of_def)
  then obtain d2 where i: "InspectStage (ledger ''/l'') sample_grant d1 = (Inr (inspection_of (Claimed ?c)), d2)"
    using files.inspect_refines [OF d(2,3)] by (auto simp: sample_grant_def grant_of_def)
  have "held ''/l'' d1 ''claims'' (recordKey (grant_of_id sample_grant)) \<noteq> None" using d(3) by simp
  from claimed_stays_closed [OF this rtranclp.rtrancl_refl i] i show ?thesis by blast
qed

text \<open>
  Inspection reports the status. When the two records of a verified grant stand for a status of
  the specification and the disk is healthy, \<open>InspectStage\<close> answers exactly what that status says and
  changes no record.
\<close>

theorem inspection_reports_status:
  assumes "vg_verified g" and "file_healthy (store_of root) d" and "status_at (held root d) (grant_of_id g) st"
    and "claim_in st \<noteq> None \<longrightarrow> matchStageBinding (the (claim_in st)) (vg_binding g) = Inr ()"
  shows "\<exists>d1. InspectStage (ledger root) g d = (Inr (inspection_of st), d1) \<and> held root d1 = held root d
    \<and> file_healthy (store_of root) d1"
proof -
  have "matchStageBinding c (vg_binding g) = Inr ()" if "claim_in st = Some c" for c
    using assms(4) that by simp
  from files.inspect_refines [OF assms(2,3,1) this] show ?thesis by (auto simp: files.quiet_def)
qed

lemma inspection_reports_status_witness:
  "\<exists>d1. InspectStage (ledger ''/l'') sample_grant empty_disk = (Inr (inspection_of Available), d1)"
proof -
  have st: "status_at (held ''/l'' empty_disk) (grant_of_id sample_grant) Available" by (simp add: empty_disk_facts)
  have v: "vg_verified sample_grant" by (simp add: sample_grant_def grant_of_def)
  from inspection_reports_status [OF v empty_disk_facts(1) st] show ?thesis by auto
qed

text \<open>
  C35: claiming refines the status. For a grant that was verified against a verified plan, inside its
  window and on a healthy disk where it is available, the claim succeeds, leaves the status claimed
  with exactly the claim of the grant, and touches no other record.
\<close>

theorem claim_refines_status:
  assumes "Verify rawPlan ex = Inr plan" and "VerifyStage sigcheck raw keyRaw plan sid expected at0 = Inr g"
    and "valid_time at" and "active_window (sc_NotBefore (vg_binding g)) (sc_NotAfter (vg_binding g)) at"
    and "file_healthy (store_of root) d" and "status_at (held root d) (grant_of_id g) Available"
  shows "\<exists>d1. ClaimStage (ledger root) g at d = (Inr (stage_claim_of (vg_binding g) at), d1)
    \<and> status_at (held root d1) (grant_of_id g) (Claimed (stage_claim_of (vg_binding g) at))
    \<and> file_healthy (store_of root) d1
    \<and> (\<forall>c k. (c, k) \<noteq> (''claims'', recordKey (grant_of_id g)) \<longrightarrow> held root d1 c k = held root d c k)"
proof -
  show ?thesis by (rule verified_claim [OF assms], intro exI conjI, assumption+)
qed

lemma claim_refines_status_witness:
  "\<exists>d1. ClaimStage (ledger ''/l'') sample_grant minute empty_disk
       = (Inr (stage_claim_of (vg_binding sample_grant) minute), d1)
    \<and> status_at (held ''/l'' d1) (grant_of_id sample_grant) (Claimed (stage_claim_of (vg_binding sample_grant) minute))
    \<and> file_healthy (store_of ''/l'') d1
    \<and> (\<forall>c k. (c, k) \<noteq> (''claims'', recordKey (grant_of_id sample_grant)) \<longrightarrow>
         held ''/l'' d1 c k = held ''/l'' empty_disk c k)"
proof -
  have w: "active_window (sc_NotBefore (vg_binding sample_grant)) (sc_NotAfter (vg_binding sample_grant)) minute"
    using sample_window by (simp add: sample_grant_def sample_payload_def)
  have st: "status_at (held ''/l'' empty_disk) (grant_of_id sample_grant) Available" by (simp add: empty_disk_facts)
  show ?thesis
    by (rule claim_refines_status [OF sample_verified(1) sample_grant_verified sample_at(1) w empty_disk_facts(1) st])
qed

text \<open>
  C36: completing refines the status. For the claim of a verified grant and an outcome within the
  rules, \<open>CompleteStageWithTarget\<close> returns what the specification returns and leaves the status of
  the specification: the first outcome is written, the same one again is confirmed, and another one
  is refused. No record but the outcome of this grant changes.
\<close>

theorem completion_refines_status:
  assumes "Verify rawPlan ex = Inr plan" and "VerifyStage sigcheck raw keyRaw plan sid expected at0 = Inr g"
    and "valid_time at" and "valid_time at'" and "c = stage_claim_of (vg_binding g) at"
    and "file_healthy (store_of root) d" and "status_at (held root d) (grant_of_id g) st" and "claim_in st = Some c"
    and "outcome_rules c outcome mutation evidence target at'"
    and "v = stage_outcome_of c (SHA256 (claim_bytes c)) outcome mutation evidence target at'"
  shows "\<exists>d1. CompleteStageWithTarget (ledger root) c outcome mutation evidence target at' d
      = (fst (complete_status st v), d1)
    \<and> status_at (held root d1) (grant_of_id g) (snd (complete_status st v)) \<and> file_healthy (store_of root) d1
    \<and> (\<forall>x k. (x, k) \<noteq> (''outcomes'', recordKey (grant_of_id g)) \<longrightarrow> held root d1 x k = held root d x k)"
proof -
  note s = verified_claim_sound [OF assms(1-3), folded assms(5)]
  have gid: "sl_GrantID c = grant_of_id g" using s(1) by (simp add: sound_claim_def)
  note o = outcome_sound [OF s(1,3) assms(9,4), folded assms(10)]
  from files.complete_refines [OF assms(6) _ assms(8,9,10) o, folded gid] assms(7) gid show ?thesis
    by auto
qed

lemma completion_refines_status_witness:
  "\<exists>d1 d2 c v. CompleteStageWithTarget (ledger ''/l'') c ''FAILED'' ''ATTEMPTED'' (sample_digest CHR ''c'') '''' (2 * minute) d1
     = (Inr v, d2) \<and> status_at (held ''/l'' d2) (grant_of_id sample_grant) (Completed c v)"
proof -
  let ?c = "stage_claim_of (vg_binding sample_grant) minute"
  from sample_claim obtain d1 where d: "file_healthy (store_of ''/l'') d1"
    "status_at (held ''/l'' d1) (grant_of_id sample_grant) (Claimed ?c)" by blast
  have "outcome_rules ?c ''FAILED'' ''ATTEMPTED'' (sample_digest CHR ''c'') '''' (2 * minute)"
    using sample_at by (simp add: outcome_rules_def stage_claim_of_def
        sample_digest_pattern is_lower_hex_def is_digit_def parse_format before_def minute_def nanosecond_per_second_def)
  from completion_refines_status [OF sample_verified(1) sample_grant_verified sample_at refl d _ this refl]
  show ?thesis by auto
qed


text \<open>
  A second claim is told so. On a healthy disk where the claim slot of a verified, active grant is
  taken, \<open>ClaimStage\<close> fails with exactly \<open>ErrGrantConsumed\<close>.
\<close>

theorem second_claim_error:
  assumes "vg_verified g" and "active_window (sc_NotBefore (vg_binding g)) (sc_NotAfter (vg_binding g)) at"
    and "ok_stage_claim (stage_claim_of (vg_binding g) at)"
    and "file_healthy (store_of root) d" and "held root d ''claims'' (recordKey (grant_of_id g)) \<noteq> None"
  shows "fst (ClaimStage (ledger root) g at d) = Inl ErrGrantConsumed"
proof -
  obtain t where "consume (ledger root) (grant_of_id g) (claim_bytes (stage_claim_of (vg_binding g) at))
      ''write stage grant claim'' d = (Inl ErrGrantConsumed, t)"
    using files.consume_healthy [OF assms(4,5)] by (metis prod.collapse)
  then show ?thesis
    using assms(1) window_of [OF assms(2)] canonicalRecord_claim [OF assms(3)]
    by (simp add: ClaimStage_def ConsumptionBinding_def bindS_def liftE_def)
qed

lemma second_claim_error_witness:
  "\<exists>d1. fst (ClaimStage (ledger ''/l'') sample_grant minute d1) = Inl ErrGrantConsumed"
proof -
  let ?c = "stage_claim_of (vg_binding sample_grant) minute"
  from sample_claim obtain d1 where d: "file_healthy (store_of ''/l'') d1"
    "status_at (held ''/l'' d1) (grant_of_id sample_grant) (Claimed ?c)" by blast
  have w: "active_window (sc_NotBefore (vg_binding sample_grant)) (sc_NotAfter (vg_binding sample_grant)) minute"
    using sample_window by (simp add: sample_grant_def sample_payload_def)
  have h: "held ''/l'' d1 ''claims'' (recordKey (grant_of_id sample_grant)) \<noteq> None" using d(2) by simp
  have ok: "ok_stage_claim ?c" using d(2) by (simp add: sound_claim_def)
  have v: "vg_verified sample_grant" by (simp add: sample_grant_def grant_of_def)
  from second_claim_error [OF v w ok d(1) h] show ?thesis by blast
qed


section \<open>Receipts\<close>

lemma stored_persists:
  assumes "files.stored_at root d plan i dg raw" and "store_runs (ledger root) d d1"
  shows "files.stored_at root d1 plan i dg raw"
proof -
  have keep: "held root d c k = Some r \<Longrightarrow> held root d1 c k = Some r" for c k r
    using files.persists [OF assms(2)] by simp
  from assms(1) show ?thesis unfolding files.stored_at_def by (auto dest: keep)
qed

text \<open>
  C37: a stored receipt loads back. When storing a receipt reported success, then in every later
  state of the ledger in which the disk is healthy and no text with the same SHA-256 as the receipt
  but different bytes was stored, loading by the returned digest gives back that receipt; this
  covers both the slot of the stage and the slot of a retry attempt.
\<close>

theorem stored_receipt_loads:
  assumes "StoreStageReceipt (ledger root) plan v preds d = (Inr dg, d1)" and "length (v_raw v) \<le> readLimit"
    and "receipt_Verify (v_raw v) (v_digest v) plan preds = Inr v"
    and "store_runs (ledger root) d1 d2" and "file_healthy (store_of root) d2"
    and "\<And>c k raw. held root d2 c k = Some raw \<Longrightarrow> SHA256 raw = SHA256 (v_raw v) \<Longrightarrow> raw = v_raw v"
  shows "dg = v_digest v \<and> (\<exists>d3. LoadStageReceipt (ledger root) plan (rc_StageID (v_receipt v)) dg preds d2 = (Inr v, d3))"
proof -
  note s = files.StoreStageReceipt_sound [OF assms(1,2)]
  have "\<exists>d3. LoadStageReceipt (ledger root) plan (rc_StageID (v_receipt v)) dg preds d2 = (Inr v, d3) \<and> files.quiet root d2 d3"
    by (rule files.load_stored [OF assms(5) stored_persists [OF s(3) assms(4)] assms(3) [folded s(1)] refl])
      (rule assms(6))
  with s(1) show ?thesis by blast
qed

lemma slot_exists: "Binding_Stage plan i = Inr sd \<Longrightarrow> valid_utf8 i \<Longrightarrow> \<exists>k. stageReceiptKey plan i = Inr k"
proof -
  assume s: "Binding_Stage plan i = Inr sd" and i: "valid_utf8 i"
  have "valid_utf8 (b_PlanDigest plan)" "valid_utf8 stageReceiptSlotFormat"
    using Binding_Stage_facts(7) [of plan i "fst sd" "snd sd"] s
    by (simp_all add: valid_utf8_digest stageReceiptSlotFormat_def valid_utf8_ascii is_ascii_def)
  with i have "record_json (struct [key ''format'' (JStr stageReceiptSlotFormat),
      key ''planDigest'' (JStr (b_PlanDigest plan)), key ''stageId'' (JStr i)])"
    by (simp add: fits_codec max_nesting_depth_def)
  from canonical_record_eq [OF this] s show ?thesis
    by (simp add: stageReceiptKey_def canonicalRecord_def)
qed

lemma sample_receipt_size: "length (v_raw sample_receipt) \<le> readLimit"
  using receipt_small [OF sample_verified(1) sample_identity sample_receipt_new valid_time_0]
  by (simp add: sample_expected_def readLimit_def)

text \<open>Storing a verified receipt whose slot is empty works on a healthy disk.\<close>

lemma store_works:
  assumes "receipt_Verify (v_raw v) (v_digest v) plan preds = Inr v" and "length (v_raw v) \<le> readLimit"
    and "stageReceiptKey plan (rc_StageID (v_receipt v)) = Inr k"
    and "file_healthy (store_of root) d" and "held root d ''stage-receipts'' k = None"
  obtains d1 where "StoreStageReceipt (ledger root) plan v preds d = (Inr (v_digest v), d1)"
    "file_healthy (store_of root) d1" "held root d1 ''stage-receipts'' k = Some (v_raw v)"
    "\<And>c' k'. (c', k') \<noteq> (''stage-receipts'', k) \<Longrightarrow> held root d1 c' k' = held root d c' k'"
proof -
  have raw: "v_raw v \<noteq> []" using assms(1) by (auto simp: receipt_Verify_eq_Inr strict_decode_empty)
  have new: "v_verified v" "digestPattern (v_digest v)"
    using assms(1) by (auto simp: receipt_Verify_eq_Inr verifyReceipt_eq_Inr)
  from files.create_works [OF assms(4) receipt_slot [OF assms(3)] assms(5)] obtain d1 where
    c: "rs_Create (ledger root) ''stage-receipts'' k (v_raw v) d = (Inr (), d1)"
      "file_healthy (store_of root) d1" by blast
  have "StoreStageReceipt (ledger root) plan v preds d = (Inr (v_digest v), d1)"
    using new raw assms(1,3) c(1)
    by (simp add: StoreStageReceipt_def bindS_def tryS_def liftE_def Verified_Receipt_def Verified_Bytes_def
        Verified_Digest_def)
  from that [OF this c(2) files.create_exact [OF c(1) assms(2)] files.create_frame [OF c(1)]] show thesis .
qed

lemma sample_store:
  obtains d1 where "StoreStageReceipt (ledger root) sample_binding sample_receipt (Some []) empty_disk
      = (Inr (v_digest sample_receipt), d1)" "file_healthy (store_of root) d1"
    "\<And>c k raw. held root d1 c k = Some raw \<Longrightarrow> raw = v_raw sample_receipt"
proof -
  have "valid_utf8 ''provider-prerequisites''" by (simp add: valid_utf8_ascii is_ascii_def)
  with slot_exists [OF sample_stage1_lookup] receipt_New_facts(5) [OF sample_receipt_new] obtain k
    where k: "stageReceiptKey sample_binding (rc_StageID (v_receipt sample_receipt)) = Inr k" by auto
  obtain d1 where d: "StoreStageReceipt (ledger root) sample_binding sample_receipt (Some []) empty_disk
      = (Inr (v_digest sample_receipt), d1)" "file_healthy (store_of root) d1"
    "held root d1 ''stage-receipts'' k = Some (v_raw sample_receipt)"
    "\<And>c' k'. (c', k') \<noteq> (''stage-receipts'', k) \<Longrightarrow> held root d1 c' k' = held root empty_disk c' k'"
    by (rule store_works [OF sample_receipt_verifies sample_receipt_size k empty_disk_facts(1) empty_disk_facts(2)]) blast
  have "held root d1 c' k' = Some raw \<Longrightarrow> raw = v_raw sample_receipt" for c' k' raw
    using d(3) d(4) [of c' k'] by (cases "(c', k') = (''stage-receipts'', k)") (simp_all add: empty_disk_facts)
  with that d(1,2) show thesis by blast
qed

lemma stored_receipt_loads_witness:
  "\<exists>d1 d3. LoadStageReceipt (ledger ''/l'') sample_binding ''provider-prerequisites'' (v_digest sample_receipt) (Some []) d1
     = (Inr sample_receipt, d3)"
proof -
  obtain d1 where d: "StoreStageReceipt (ledger ''/l'') sample_binding sample_receipt (Some []) empty_disk
      = (Inr (v_digest sample_receipt), d1)" "file_healthy (store_of ''/l'') d1"
    "\<And>c k raw. held ''/l'' d1 c k = Some raw \<Longrightarrow> raw = v_raw sample_receipt"
    by (rule sample_store [of "''/l''"]) blast
  show ?thesis
    using stored_receipt_loads [OF d(1) sample_receipt_size sample_receipt_verifies rtranclp.rtrancl_refl d(2)] d(3)
      receipt_New_facts(5) [OF sample_receipt_new] by metis
qed

lemma finalized_digest:
  assumes "list_all2 (grants_after pd) qs ps" and "predecessor_digest (map grant_link ps) = Inr x"
  shows "finalizedPredecessorDigest (Some ps) = Inr x"
proof -
  from assms(1) have "mapE (\<lambda>p. bindE (Verified_Receipt p) (\<lambda>receipt. bindE (Verified_Digest p) (\<lambda>d.
            Inr \<lparr>sq_StageID = rc_StageID receipt, sq_OutcomeDigest = d\<rparr>))) ps = Inr (map grant_link ps)"
    by (induction rule: list_all2_induct)
      (simp_all add: grants_after_def Verified_Receipt_def Verified_Digest_def grant_link_def)
  with assms(2) show ?thesis by (simp add: finalizedPredecessorDigest_def)
qed

lemma outcome_allowed_rules:
  assumes "outcome_rules c outcome mutation evidence target t" and "IsMutating s" and "sl_StageID c = s_ID s"
  shows "outcome_allowed (outcome_receipt outcome mutation (SHA256 x) evidence target) s"
  using assms by (auto simp: outcome_rules_def outcome_allowed_def outcome_receipt_def)

lemma completed_finalizes:
  assumes p: "Verify rawPlan ex = Inr plan" and idn: "ok_identity (x_ContractIdentity ex)"
    and nr: "x_RecoverySourcePlanDigest ex = ''''"
    and small: "length (i_Name (x_ContractIdentity ex)) \<le> 1000" "length (i_Namespace (x_ContractIdentity ex)) \<le> 1000"
    and g: "VerifyStage sigcheck raw keyRaw plan sid (Some ps) at0 = Inr g"
    and c: "c = stage_claim_of (vg_binding g) at"
    and rules: "outcome_rules c outcome mutation evidence target t" and t: "valid_time t"
    and w: "w = stage_outcome_of c (SHA256 (claim_bytes c)) outcome mutation evidence target t"
    and h: "file_healthy (store_of root) d" and st: "status_at (held root d) (grant_of_id g) (Completed c w)"
    and links: "\<forall>s sd. Binding_Stage plan sid = Inr (s, sd) \<longrightarrow> list_all2 (links_to plan s t) (elems (s_Requires s)) ps"
    and nrp: "\<forall>p \<in> set ps. v_recoveryPlan p \<noteq> b_PlanDigest plan"
    and slot: "stageReceiptKey plan sid = Inr k" "held root d ''stage-receipts'' k = None"
  shows "\<exists>v d1. FinalizeStageReceipt (ledger root) plan g (Some ps) d = (Inr v, d1) \<and> length (v_raw v) \<le> readLimit
    \<and> receipt_New_target plan sid (Some ps) outcome mutation (SHA256 (outcome_bytes w)) evidence target t = Inr v
    \<and> held root d1 ''stage-receipts'' k = Some (v_raw v)"
proof -
  from g obtain s sd e pk keyID pd where f: "Binding_Stage plan sid = Inr (s, sd)" "IsMutating s"
    and "strict_decode dec_envelope raw = Inr e" "parsePublicKey keyRaw = Inr (pk, keyID)" and v0: "verifyStagePayload (ev_Payload e) plan s sd (Some ps) at0 = Inr pd"
    and g': "g = grant_of (ev_Payload e) (ev_Format e) raw keyID plan s sd pd"
    unfolding VerifyStage_iff by blast
  from v0 have fp: "finalizedPredecessorDigest (Some ps) = Inr pd" and dec: "decides (ev_Payload e) plan s sd"
    unfolding verifyStagePayload_iff by (auto intro: finalized_digest)
  note sf = Binding_Stage_facts [OF f(1)]
  have b: "vg_verified g" "sc_StageID (vg_binding g) = sid" "sc_PlanDigest (vg_binding g) = b_PlanDigest plan"
    "sc_StageDigest (vg_binding g) = sd" "sc_Operation (vg_binding g) = s_GrantOperation s"
    "sc_Authority (vg_binding g) = s_Authority s" "sc_ContractRevision (vg_binding g) = b_IntentRevision plan"
    "sc_PredecessorDigest (vg_binding g) = pd"
    using dec sf(2) by (simp_all add: g' grant_of_def decides_def)
  have sid: "sl_StageID c = s_ID s" using b(2) sf(2) by (simp add: c stage_claim_of_def)
  obtain v where v: "receipt_New_target plan sid (Some ps) outcome mutation (SHA256 (outcome_bytes w)) evidence target t = Inr v"
    using new_receipt_succeeds [OF p idn nr sf(1) t nrp, of outcome mutation "SHA256 (outcome_bytes w)" evidence target]
      links f(1) outcome_allowed_rules [OF rules f(2) sid] sf(2) by auto
  have len: "length (v_raw v) \<le> readLimit"
    using receipt_small [OF p idn v t small] by (simp add: readLimit_def)
  have "matchStageBinding c' (vg_binding g) = Inr ()" if "claim_in (Completed c w) = Some c'" for c'
    using that c by (auto simp: matchStageBinding_def stage_claim_of_def)
  from files.inspect_refines [OF h st b(1) this] obtain d2 where
    i: "InspectStage (ledger root) g d = (Inr (inspection_of (Completed c w)), d2)"
      "file_healthy (store_of root) d2" "held root d2 = held root d" by (auto simp: files.quiet_def)
  have k: "stageReceiptKey plan (rc_StageID (v_receipt v)) = Inr k" "held root d2 ''stage-receipts'' k = None"
    using receipt_New_facts(5) [OF v] slot i(3) by simp_all
  obtain d3 where d3: "StoreStageReceipt (ledger root) plan v (Some ps) d2 = (Inr (v_digest v), d3)"
    "held root d3 ''stage-receipts'' k = Some (v_raw v)"
    by (rule store_works [OF new_verifies [OF p idn v] len k(1) i(2) k(2)]) blast
  have "FinalizeStageReceipt (ledger root) plan g (Some ps) d = (Inr v, d3)"
    using i(1) f sf(2) b fp v d3(1) w parse_format [OF t]
    by (simp add: FinalizeStageReceipt_def bindS_def liftE_def ConsumptionBinding_def stage_outcome_of_def
        digest_pattern_nonempty)
  with len v d3(2) show ?thesis by blast
qed

text \<open>The whole life of a grant on an empty disk: claimed, completed, finalised.\<close>

lemma sample_completed:
  obtains d2 c w where "c = stage_claim_of (vg_binding sample_grant) minute"
    "outcome_rules c ''SUCCEEDED'' ''ATTEMPTED'' (sample_digest CHR ''c'') '''' (2 * minute)"
    "w = stage_outcome_of c (SHA256 (claim_bytes c)) ''SUCCEEDED'' ''ATTEMPTED'' (sample_digest CHR ''c'') '''' (2 * minute)"
    "file_healthy (store_of root) d2" "status_at (held root d2) (grant_of_id sample_grant) (Completed c w)"
    "\<And>k. held root d2 ''stage-receipts'' k = None"
proof -
  let ?g = "sample_grant" and ?b = "vg_binding sample_grant" and ?T = "2 * minute"
  let ?c = "stage_claim_of ?b minute"
  let ?w = "stage_outcome_of ?c (SHA256 (claim_bytes ?c)) ''SUCCEEDED'' ''ATTEMPTED'' (sample_digest CHR ''c'') '''' ?T"
  obtain d1 where d1: "file_healthy (store_of root) d1" "status_at (held root d1) (grant_of_id ?g) (Claimed ?c)"
    "\<And>k. held root d1 ''stage-receipts'' k = None" by (rule sample_claim [of root]) blast
  have rules: "outcome_rules ?c ''SUCCEEDED'' ''ATTEMPTED'' (sample_digest CHR ''c'') '''' ?T"
    using sample_at by (simp add: outcome_rules_def stage_claim_of_def sample_digest_pattern is_lower_hex_def
        is_digit_def parse_format before_def minute_def nanosecond_per_second_def)
  note cs = verified_claim_sound [OF sample_verified(1) sample_grant_verified sample_at(1)]
  note o = outcome_sound [OF cs(1,3) rules sample_at(2)]
  have gid: "sl_GrantID ?c = grant_of_id ?g" by (simp add: stage_claim_of_def)
  have "claim_in (Claimed ?c) = Some ?c" by simp
  from files.complete_refines [OF d1(1) d1(2) [folded gid] this rules refl o] gid obtain d2 where
    d2: "file_healthy (store_of root) d2" "status_at (held root d2) (grant_of_id ?g) (Completed ?c ?w)"
      "\<And>c' k'. (c', k') \<noteq> (''outcomes'', recordKey (grant_of_id ?g)) \<Longrightarrow> held root d2 c' k' = held root d1 c' k'" by auto
  have "held root d2 ''stage-receipts'' k = None" for k using d2(3) [of "''stage-receipts''" k] d1(3) by simp
  from that [OF refl rules refl d2(1,2) this] show thesis .
qed

text \<open>
  C17: the evidence of a finalised stage forms a chain. When \<open>FinalizeStageReceipt\<close> succeeds, the
  ledger holds the claim that the grant describes and an outcome that names the digest of that claim;
  the receipt is about that stage of that plan, repeats state, mutation state, evidence and target of
  the outcome and names its digest, the predecessors are the ones the grant was given for, and the
  receipt itself verifies and is held in its slot or in the slot of its digest.
\<close>

theorem finalized_evidence_chain:
  assumes "FinalizeStageReceipt (ledger root) plan g preds d = (Inr v, d1)" and "length (v_raw v) \<le> readLimit"
  shows "evidence_chain (held root d1) plan (vg_binding g) preds v
    \<and> files.stored_at root d1 plan (rc_StageID (v_receipt v)) (v_digest v) (v_raw v)
    \<and> (\<exists>w. receipt_Verify (v_raw v) (v_digest v) plan preds = Inr w)"
  using files.Finalize_sound [OF assms] by blast

lemma sample_finalized:
  "\<exists>d v d1. FinalizeStageReceipt (ledger root) sample_binding sample_grant (Some []) d = (Inr v, d1)
     \<and> length (v_raw v) \<le> readLimit \<and> held root d1 ''stage-receipts'' k = Some (v_raw v)"
  if "stageReceiptKey sample_binding ''provider-prerequisites'' = Inr k"
proof -
  obtain d2 c w where s: "c = stage_claim_of (vg_binding sample_grant) minute"
    "outcome_rules c ''SUCCEEDED'' ''ATTEMPTED'' (sample_digest CHR ''c'') '''' (2 * minute)"
    "w = stage_outcome_of c (SHA256 (claim_bytes c)) ''SUCCEEDED'' ''ATTEMPTED'' (sample_digest CHR ''c'') '''' (2 * minute)"
    "file_healthy (store_of root) d2" "status_at (held root d2) (grant_of_id sample_grant) (Completed c w)"
    "\<And>k. held root d2 ''stage-receipts'' k = None" by (rule sample_completed [of root]) blast
  have small: "length (i_Name (x_ContractIdentity sample_expected)) \<le> 1000"
    "length (i_Namespace (x_ContractIdentity sample_expected)) \<le> 1000" by (simp_all add: sample_expected_def)
  have links: "\<forall>s sd. Binding_Stage sample_binding ''provider-prerequisites'' = Inr (s, sd) \<longrightarrow>
      list_all2 (links_to sample_binding s (2 * minute)) (elems (s_Requires s)) []"
    using sample_stage1_lookup sample_stage1_fields by simp
  from completed_finalizes [OF sample_verified(1) sample_identity sample_no_recovery small sample_grant_verified s(1,2)
      sample_at(2) s(3-5) links _ that s(6)] show ?thesis by auto
qed

lemma sample_slot: "\<exists>k. stageReceiptKey sample_binding ''provider-prerequisites'' = Inr k"
  by (rule slot_exists [OF sample_stage1_lookup]) (simp add: valid_utf8_ascii is_ascii_def)

lemma finalized_evidence_chain_witness:
  "\<exists>d v. evidence_chain (held ''/l'' d) sample_binding (vg_binding sample_grant) (Some []) v"
proof -
  obtain k where k: "stageReceiptKey sample_binding ''provider-prerequisites'' = Inr k" using sample_slot by blast
  from sample_finalized [OF k, of "''/l''"] obtain d v d1
    where "FinalizeStageReceipt (ledger ''/l'') sample_binding sample_grant (Some []) d = (Inr v, d1)"
      "length (v_raw v) \<le> readLimit" by blast
  from finalized_evidence_chain [OF this] show ?thesis by blast
qed

text \<open>
  A completed stage can be finalised. For an ordinary verified plan, when the ledger is healthy
  and holds claim and outcome of a verified grant, the receipts of the required predecessors link and
  the receipt slot of the stage is empty, \<open>FinalizeStageReceipt\<close> succeeds: it returns the receipt that
  \<open>New\<close> derives from the outcome and leaves its bytes in the slot.
\<close>

theorem completed_stage_finalizes:
  assumes "Verify rawPlan ex = Inr plan" and "ok_identity (x_ContractIdentity ex)"
    and "x_RecoverySourcePlanDigest ex = ''''"
    and "length (i_Name (x_ContractIdentity ex)) \<le> 1000" "length (i_Namespace (x_ContractIdentity ex)) \<le> 1000"
    and "VerifyStage sigcheck raw keyRaw plan sid (Some ps) at0 = Inr g"
    and "c = stage_claim_of (vg_binding g) at"
    and "outcome_rules c outcome mutation evidence target t" and "valid_time t"
    and "w = stage_outcome_of c (SHA256 (claim_bytes c)) outcome mutation evidence target t"
    and "file_healthy (store_of root) d" and "status_at (held root d) (grant_of_id g) (Completed c w)"
    and "\<forall>s sd. Binding_Stage plan sid = Inr (s, sd) \<longrightarrow> list_all2 (links_to plan s t) (elems (s_Requires s)) ps"
    and "\<forall>p \<in> set ps. v_recoveryPlan p \<noteq> b_PlanDigest plan"
    and "stageReceiptKey plan sid = Inr k" "held root d ''stage-receipts'' k = None"
  shows "\<exists>v d1. FinalizeStageReceipt (ledger root) plan g (Some ps) d = (Inr v, d1)
    \<and> receipt_New_target plan sid (Some ps) outcome mutation (SHA256 (outcome_bytes w)) evidence target t = Inr v
    \<and> held root d1 ''stage-receipts'' k = Some (v_raw v)"
  using completed_finalizes [OF assms] by blast

lemma completed_stage_finalizes_witness:
  "\<exists>d v d1 k. FinalizeStageReceipt (ledger ''/l'') sample_binding sample_grant (Some []) d = (Inr v, d1)
     \<and> held ''/l'' d1 ''stage-receipts'' k = Some (v_raw v)"
proof -
  obtain d2 c w where s: "c = stage_claim_of (vg_binding sample_grant) minute"
    "outcome_rules c ''SUCCEEDED'' ''ATTEMPTED'' (sample_digest CHR ''c'') '''' (2 * minute)"
    "w = stage_outcome_of c (SHA256 (claim_bytes c)) ''SUCCEEDED'' ''ATTEMPTED'' (sample_digest CHR ''c'') '''' (2 * minute)"
    "file_healthy (store_of ''/l'') d2" "status_at (held ''/l'' d2) (grant_of_id sample_grant) (Completed c w)"
    "\<And>k. held ''/l'' d2 ''stage-receipts'' k = None" by (rule sample_completed [of "''/l''"]) blast
  obtain k where k: "stageReceiptKey sample_binding ''provider-prerequisites'' = Inr k" using sample_slot by blast
  have small: "length (i_Name (x_ContractIdentity sample_expected)) \<le> 1000"
    "length (i_Namespace (x_ContractIdentity sample_expected)) \<le> 1000" by (simp_all add: sample_expected_def)
  have links: "\<forall>s sd. Binding_Stage sample_binding ''provider-prerequisites'' = Inr (s, sd) \<longrightarrow>
      list_all2 (links_to sample_binding s (2 * minute)) (elems (s_Requires s)) []"
    using sample_stage1_lookup sample_stage1_fields by simp
  from completed_stage_finalizes [OF sample_verified(1) sample_identity sample_no_recovery small sample_grant_verified
      s(1,2) sample_at(2) s(3-5) links _ k s(6)] show ?thesis by auto
qed

text \<open>
  Records stay within the read limit. The claim of a verified grant, every outcome the rules
  allow for it and every receipt made for an ordinary identity are at most \<open>readLimit\<close> bytes long, so
  the bounded read of the file store gives back all that was written.
\<close>

theorem records_within_read_limit:
  assumes "Verify rawPlan ex = Inr plan" and "ok_identity (x_ContractIdentity ex)"
    and "length (i_Name (x_ContractIdentity ex)) \<le> 1000" "length (i_Namespace (x_ContractIdentity ex)) \<le> 1000"
    and "VerifyStage sigcheck raw keyRaw plan sid expected at0 = Inr g" and "valid_time at" and "valid_time t"
    and "c = stage_claim_of (vg_binding g) at"
    and "outcome_rules c outcome mutation evidence target t"
    and "receipt_New_target plan sid' preds st ms oc ev tg t = Inr v"
  shows "length (claim_bytes c) \<le> readLimit
    \<and> length (outcome_bytes (stage_outcome_of c (SHA256 (claim_bytes c)) outcome mutation evidence target t)) \<le> readLimit
    \<and> length (v_raw v) \<le> readLimit"
proof -
  note c = verified_claim_sound [OF assms(1,5,6), folded assms(8)]
  show ?thesis
    using c(2) outcome_sound(2) [OF c(1,3) assms(9,7)] receipt_small [OF assms(1,2,10,7,3,4)]
    by (simp add: readLimit_def)
qed

lemma records_within_read_limit_witness: "length (v_raw sample_receipt) \<le> readLimit"
proof -
  have at: "valid_time 0" by (rule valid_time_0)
  let ?c = "stage_claim_of (vg_binding sample_grant) 0"
  have "outcome_rules ?c ''FAILED'' ''UNKNOWN'' (sample_digest CHR ''c'') '''' 0"
    using valid_time_0 by (simp add: outcome_rules_def stage_claim_of_def sample_digest_pattern is_lower_hex_def
        is_digit_def parse_format before_def)
  from records_within_read_limit [OF sample_verified(1) sample_identity _ _ sample_grant_verified at at refl this
      sample_receipt_new] show ?thesis by (simp add: sample_expected_def)
qed

end
