(* ===== verification/Submission.thy ===== *)
theory Submission
  imports Projection Base64 GoTime
begin

text \<open>
  The exact-create client of \<open>src/internal/submission/kubernetes.go\<close> and the two-plane executor of
  \<open>executor.go\<close>. The API server, the network and the clock behind a wait are one environment:
  \<open>Transport\<close> answers a call and moves a world of any type. Everything the client decides from the
  answers is written out, including the bounded observation of a mismatching object.
\<close>

section \<open>Data\<close>

record SubmissionObject =
  ob_Identity :: ResourceIdentity
  ob_Digest :: string
  ob_CollectionPath :: string
  ob_ObjectPath :: string
  ob_Raw :: string

record SubmissionPlane =
  pe_Identity :: string
  pe_Role :: string
  pe_Objects :: "SubmissionObject list"

record SubmissionPlan =
  su_Format :: string
  su_IntentRevision :: string
  su_AuthorityMapDigest :: string
  su_Infrastructure :: SubmissionPlane
  su_Management :: SubmissionPlane

record ObjectIdentity =
  oi_APIVersion :: string
  oi_Kind :: string
  oi_Name :: string
  oi_Namespace :: string

record ObjectResult =
  or_Identity :: ObjectIdentity
  or_Digest :: string
  or_UID :: string
  or_State :: string

record SubmissionMismatchEvidence =
  me_FirstCategory :: string
  me_LastCategory :: string
  me_ObservationCount :: int
  me_ExpectedDigest :: string
  me_LastObservedDigest :: string
  me_RuntimeIdentityStable :: bool

record PlaneReceipt =
  pr_Format :: string
  pr_Authority :: string
  pr_Role :: string
  pr_State :: string
  pr_MutationState :: string
  pr_Results :: "ObjectResult slice"
  pr_MismatchEvidence :: "SubmissionMismatchEvidence option"

record SubmissionReceipt =
  sr_Format :: string
  sr_IntentRevision :: string
  sr_State :: string
  sr_MutationState :: string
  sr_Infrastructure :: "PlaneReceipt option"
  sr_Management :: "PlaneReceipt option"

definition SubmissionPlanFormat :: string where "SubmissionPlanFormat = ''ok147-bounded-submission-plan/v1''"
definition PlaneReceiptFormat :: string where "PlaneReceiptFormat = ''ok147-bounded-submission-receipt/v2''"
definition RunReceiptFormat :: string where "RunReceiptFormat = ''ok147-bounded-submission-run-receipt/v2''"

definition maximumAPIResponseBytes :: nat where "maximumAPIResponseBytes = 4 * 1024 * 1024"
definition objectMismatchMaximumAttempts :: nat where "objectMismatchMaximumAttempts = 900"
definition objectMismatchConfirmationDelay :: int where "objectMismatchConfirmationDelay = 2 * nanosecond_per_second"
definition maximumMismatchConfirmationDelay :: int where "maximumMismatchConfirmationDelay = 5 * nanosecond_per_second"

text \<open>
  The errors of the package: a plain one, or one that carries a redacted category and perhaps
  evidence. \<open>Panics\<close> is the \<open>panic\<close> at the end of the confirmation loop.
\<close>

datatype submission_fault =
    PlainFault string
  | Categorized string string "SubmissionMismatchEvidence option"
  | Panics string

record SubmissionError =
  se_Receipt :: PlaneReceipt
  se_Cause :: submission_fault
  se_Category :: string

fun redacted_category :: "submission_fault \<Rightarrow> string option" where
  "redacted_category (Categorized c m e) = Some c"
| "redacted_category _ = None"

fun redacted_evidence :: "submission_fault \<Rightarrow> SubmissionMismatchEvidence option" where
  "redacted_evidence (Categorized c m e) = e"
| "redacted_evidence _ = None"

definition categorizedSubmissionCategory :: "submission_fault \<Rightarrow> string" where
  "categorizedSubmissionCategory e =
     (case redacted_category e of Some c \<Rightarrow> c | None \<Rightarrow> ''SUBMISSION_OBJECT_MISMATCH'')"

section \<open>The environment\<close>

text \<open>
  A failed exchange, as the tests of \<open>submissionTransportStopCategory\<close> see it, and the two ways in
  which a response body cannot be used.
\<close>

record transport_error =
  te_deadline :: bool
  te_dns :: bool
  te_certificate :: bool
  te_timeout :: bool
  te_dial :: bool

datatype http_call = Get string | Post string string

datatype answer = Answer string int | NotConstructed | DoFails transport_error | ReadFails

text \<open>A wait ends, or fails because its own window closed while the caller is alive, or otherwise.\<close>

datatype pause = Waited | WindowClosed | Interrupted

record 'w Transport =
  tr_do :: "http_call \<Rightarrow> 'w \<Rightarrow> answer \<times> 'w"
  tr_wait :: "'w \<Rightarrow> pause \<times> 'w"
  tr_windowClosed :: "'w \<Rightarrow> bool"

record KubernetesClient =
  kc_authority :: string
  kc_mismatchConfirmationDelay :: int
  kc_mismatchConfirmationAttempts :: nat

definition submissionTransportStopCategory :: "transport_error \<Rightarrow> string" where
  "submissionTransportStopCategory e =
     (if te_deadline e then ''SUBMISSION_TIMEOUT_STOPPED''
      else if te_dns e then ''SUBMISSION_DNS_STOPPED''
      else if te_certificate e then ''SUBMISSION_TLS_STOPPED''
      else if te_timeout e then ''SUBMISSION_TIMEOUT_STOPPED''
      else if te_dial e then ''SUBMISSION_CONNECT_STOPPED''
      else ''SUBMISSION_TRANSPORT_STOPPED'')"

definition response_invalid :: submission_fault where
  "response_invalid = Categorized ''SUBMISSION_RESPONSE_INVALID'' ''bounded Kubernetes response exceeds accepted size'' None"

definition client_request ::
  "'w Transport \<Rightarrow> http_call \<Rightarrow> 'w \<Rightarrow> (submission_fault + string \<times> int) \<times> 'w" where
  "client_request tr call w =
     (case tr_do tr call w of (a, w') \<Rightarrow>
        ((case a of
            NotConstructed \<Rightarrow> Inl (PlainFault ''construct bounded Kubernetes request'')
          | DoFails e \<Rightarrow> Inl (Categorized (submissionTransportStopCategory e) ''bounded Kubernetes request failed'' None)
          | ReadFails \<Rightarrow> Inl response_invalid
          | Answer raw status \<Rightarrow>
              if length raw > maximumAPIResponseBytes then Inl response_invalid else Inr (raw, status)), w'))"

definition apiStatusError :: "int \<Rightarrow> submission_fault" where
  "apiStatusError status =
     Categorized (if status = 401 then ''SUBMISSION_HTTP_UNAUTHORIZED''
       else if status = 403 then ''SUBMISSION_HTTP_FORBIDDEN''
       else if status = 429 then ''SUBMISSION_HTTP_RATE_LIMITED''
       else if status \<in> {500, 502, 503, 504} then ''SUBMISSION_HTTP_SERVER_ERROR''
       else ''SUBMISSION_HTTP_REJECTED'') ''bounded Kubernetes request was rejected'' None"

section \<open>Comparing objects\<close>

text \<open>
  \<open>map[string]any\<close> decoded from the text; \<open>null\<close> decodes to the nil map, which has no keys and is
  written back as \<open>null\<close>.
\<close>

definition decodeJSONObject :: "string \<Rightarrow> json option" where
  "decodeJSONObject raw = (case parse_json raw of
       Some (JObj kvs) \<Rightarrow> Some (any_of (JObj kvs))
     | Some JNull \<Rightarrow> Some JNull
     | _ \<Rightarrow> None)"

fun fields_of :: "json \<Rightarrow> (string \<times> json) list" where
  "fields_of (JObj kvs) = kvs"
| "fields_of _ = []"

definition field :: "json \<Rightarrow> string \<Rightarrow> json" where
  "field j k = (case map_of (fields_of j) k of Some v \<Rightarrow> v | None \<Rightarrow> JNull)"

fun text_of :: "json \<Rightarrow> string" where
  "text_of (JStr s) = s"
| "text_of _ = []"

lemma member_size: "(k, v) \<in> set es \<Longrightarrow> size v < Suc (size_list (size_prod (\<lambda>x. 0) size) es)"
  by (induction es) auto

lemma element_size: "(v, u) \<in> set (zip es vs) \<Longrightarrow> size v < Suc (size_list size es)"
  by (drule set_zip_leftD) (induction es, auto)

function isSubset :: "json \<Rightarrow> json \<Rightarrow> bool" where
  "isSubset (JObj es) observed = (case observed of
       JObj os \<Rightarrow> list_all (\<lambda>kv. case map_of os (fst kv) of Some v \<Rightarrow> isSubset (snd kv) v | None \<Rightarrow> False) es
     | _ \<Rightarrow> False)"
| "isSubset (JArr es) observed = (case observed of
       JArr os \<Rightarrow> length es = length os \<and> list_all (\<lambda>p. isSubset (fst p) (snd p)) (zip es os)
     | _ \<Rightarrow> False)"
| "isSubset JNull observed = (observed = JNull)"
| "isSubset (JBool b) observed = (observed = JBool b)"
| "isSubset (JNum n) observed = (observed = JNum n)"
| "isSubset (JStr s) observed = (observed = JStr s)"
  by pat_completeness auto
termination
  by (relation "measure (\<lambda>(e, ob). size e)") (auto dest: member_size element_size simp del: size_list_conv_sum_list)

definition as_map :: "json \<Rightarrow> json" where
  "as_map j = JObj (fields_of j)"

definition mismatched_keys :: "json \<Rightarrow> json \<Rightarrow> string list" where
  "mismatched_keys expected observed = sort (map fst (filter
     (\<lambda>kv. fst kv \<notin> {''apiVersion'', ''kind'', ''metadata'', ''spec''} \<and> \<not> isSubset (snd kv) (field observed (fst kv)))
     (fields_of expected)))"

definition objectMismatchCategory :: "json \<Rightarrow> json \<Rightarrow> string" where
  "objectMismatchCategory expected observed =
     (if \<not> isSubset (field expected ''apiVersion'') (field observed ''apiVersion'')
         \<or> \<not> isSubset (field expected ''kind'') (field observed ''kind'') then ''SUBMISSION_OBJECT_IDENTITY_MISMATCH''
      else if \<not> isSubset (field expected ''metadata'') (field observed ''metadata'') then
        ''SUBMISSION_OBJECT_METADATA_MISMATCH''
      else if ''spec'' \<in> fst ` set (fields_of expected)
         \<and> \<not> isSubset (field expected ''spec'') (field observed ''spec'') then ''SUBMISSION_OBJECT_SPEC_MISMATCH''
      else (case mismatched_keys expected observed of
          [] \<Rightarrow> ''SUBMISSION_OBJECT_COMPARATOR_INCONSISTENT''
        | k # _ \<Rightarrow>
            if k = ''data'' then ''SUBMISSION_OBJECT_CONTENT_DATA_MISMATCH''
            else if k = ''stringData'' then ''SUBMISSION_OBJECT_CONTENT_STRING_DATA_MISMATCH''
            else if k = ''rules'' then ''SUBMISSION_OBJECT_CONTENT_RULES_MISMATCH''
            else if k = ''subjects'' then ''SUBMISSION_OBJECT_CONTENT_SUBJECTS_MISMATCH''
            else if k = ''roleRef'' then ''SUBMISSION_OBJECT_CONTENT_ROLE_REF_MISMATCH''
            else if k = ''type'' then ''SUBMISSION_OBJECT_CONTENT_TYPE_MISMATCH''
            else ''SUBMISSION_OBJECT_CONTENT_OTHER_MISMATCH''))"

definition verifyObservedObject :: "string \<Rightarrow> SubmissionObject \<Rightarrow> submission_fault + string" where
  "verifyObservedObject raw desired =
     (case decodeJSONObject raw of
        None \<Rightarrow> Inl (Categorized ''SUBMISSION_OBJECT_RESPONSE_INVALID'' ''Kubernetes API returned invalid object JSON'' None)
      | Some observed \<Rightarrow> (case decodeJSONObject (ob_Raw desired) of
          None \<Rightarrow> Inl (Categorized ''SUBMISSION_OBJECT_PROJECTION_INVALID'' ''verified projection object is invalid JSON'' None)
        | Some expected \<Rightarrow>
            if \<not> isSubset (as_map expected) (as_map observed) then
              Inl (Categorized (objectMismatchCategory expected observed)
                ''observed object does not contain the exact projected fields'' None)
            else let uid = text_of (field (field observed ''metadata'') ''uid'') in
              if uid = '''' \<or> text_of (field (field observed ''metadata'') ''resourceVersion'') = '''' then
                Inl (Categorized ''SUBMISSION_OBJECT_RUNTIME_IDENTITY_INVALID''
                  ''Kubernetes API response lacks UID or resourceVersion'' None)
              else Inr uid))"

definition observedRuntimeIdentity :: "string \<Rightarrow> string \<times> string" where
  "observedRuntimeIdentity raw = (case decodeJSONObject raw of
       None \<Rightarrow> ([], [])
     | Some ob \<Rightarrow> (text_of (field (field ob ''metadata'') ''uid''), text_of (field (field ob ''metadata'') ''resourceVersion'')))"

definition objectIsTerminating :: "string \<Rightarrow> bool" where
  "objectIsTerminating raw = (case decodeJSONObject raw of
       None \<Rightarrow> False
     | Some ob \<Rightarrow> text_of (field (field ob ''metadata'') ''deletionTimestamp'') \<noteq> '''')"

definition canonicalObservedDigest :: "string \<Rightarrow> string" where
  "canonicalObservedDigest raw = (case decodeJSONObject raw of
       None \<Rightarrow> []
     | Some ob \<Rightarrow> (case canonical_record ob of Inl _ \<Rightarrow> [] | Inr c \<Rightarrow> SHA256 c))"

section \<open>Confirming a mismatch\<close>

definition mismatchEvidence ::
  "SubmissionObject \<Rightarrow> submission_fault \<Rightarrow> submission_fault \<Rightarrow> nat \<Rightarrow> string \<Rightarrow> SubmissionMismatchEvidence" where
  "mismatchEvidence object firstErr lastErr seen lastObserved =
     \<lparr>me_FirstCategory = categorizedSubmissionCategory firstErr,
      me_LastCategory = categorizedSubmissionCategory lastErr, me_ObservationCount = int seen,
      me_ExpectedDigest = ob_Digest object, me_LastObservedDigest = canonicalObservedDigest lastObserved,
      me_RuntimeIdentityStable = True\<rparr>"

definition existingObjectMismatch :: "submission_fault \<Rightarrow> submission_fault" where
  "existingObjectMismatch e = Categorized
     (case redacted_category e of Some c \<Rightarrow> c | None \<Rightarrow> ''SUBMISSION_OBJECT_MISMATCH'')
     ''existing Kubernetes object differs from projection'' None"

definition mismatch_categories :: "string list" where
  "mismatch_categories = [''SUBMISSION_OBJECT_MISMATCH'', ''SUBMISSION_OBJECT_IDENTITY_MISMATCH'',
     ''SUBMISSION_OBJECT_METADATA_MISMATCH'', ''SUBMISSION_OBJECT_SPEC_MISMATCH'',
     ''SUBMISSION_OBJECT_CONTENT_MISMATCH'', ''SUBMISSION_OBJECT_CONTENT_DATA_MISMATCH'',
     ''SUBMISSION_OBJECT_CONTENT_STRING_DATA_MISMATCH'', ''SUBMISSION_OBJECT_CONTENT_RULES_MISMATCH'',
     ''SUBMISSION_OBJECT_CONTENT_SUBJECTS_MISMATCH'', ''SUBMISSION_OBJECT_CONTENT_ROLE_REF_MISMATCH'',
     ''SUBMISSION_OBJECT_CONTENT_TYPE_MISMATCH'', ''SUBMISSION_OBJECT_CONTENT_OTHER_MISMATCH'']"

definition existingObjectMismatchConvergenceExhausted ::
  "submission_fault \<Rightarrow> SubmissionMismatchEvidence \<Rightarrow> submission_fault" where
  "existingObjectMismatchConvergenceExhausted e evidence = Categorized
     (case redacted_category e of
        Some c \<Rightarrow> if c \<in> set mismatch_categories then c @ ''_CONVERGENCE_EXHAUSTED''
          else ''SUBMISSION_OBJECT_MISMATCH_CONVERGENCE_EXHAUSTED''
      | None \<Rightarrow> ''SUBMISSION_OBJECT_MISMATCH_CONVERGENCE_EXHAUSTED'')
     ''existing Kubernetes object mismatch did not converge within the bounded window'' (Some evidence)"

definition identity_changed :: submission_fault where
  "identity_changed = Categorized ''SUBMISSION_OBJECT_RUNTIME_IDENTITY_INVALID''
     ''existing Kubernetes object identity changed during confirmation'' None"

definition terminating_object :: submission_fault where
  "terminating_object = Categorized ''SUBMISSION_OBJECT_TERMINATING'' ''existing Kubernetes object is terminating'' None"

definition interrupted_confirmation :: submission_fault where
  "interrupted_confirmation = Categorized ''SUBMISSION_OBJECT_RESPONSE_INVALID''
     ''existing Kubernetes object confirmation was interrupted'' None"

text \<open>
  The loop of \<open>confirmObservedMismatch\<close>, counting the attempts that are left; the last one does not
  wait. \<open>Inr (Some uid)\<close> is an object found unchanged, \<open>Inr None\<close> one that disappeared and may be
  created.
\<close>

fun confirm_loop ::
  "'w Transport \<Rightarrow> SubmissionObject \<Rightarrow> string \<Rightarrow> submission_fault \<Rightarrow> submission_fault \<Rightarrow> string \<Rightarrow> nat \<Rightarrow> nat
    \<Rightarrow> 'w \<Rightarrow> (submission_fault + string option) \<times> 'w" where
  "confirm_loop tr object firstUID firstErr lastErr lastObserved seen 0 w =
     (Inl (Panics ''unreachable bounded mismatch convergence''), w)"
| "confirm_loop tr object firstUID firstErr lastErr lastObserved seen (Suc left) w =
     (let exhausted = (\<lambda>e n ob. existingObjectMismatchConvergenceExhausted e (mismatchEvidence object firstErr e n ob));
          (p, w1) = (if 0 < left then tr_wait tr w else (Waited, w))
      in case p of
        WindowClosed \<Rightarrow> (Inl (exhausted lastErr seen lastObserved), w1)
      | Interrupted \<Rightarrow> (Inl interrupted_confirmation, w1)
      | Waited \<Rightarrow> (case client_request tr (Get (ob_ObjectPath object)) w1 of
          (Inl e, w2) \<Rightarrow>
            (Inl (if tr_windowClosed tr w2 then exhausted lastErr seen lastObserved else e), w2)
        | (Inr (response, status), w2) \<Rightarrow>
            if status = 404 then (Inr None, w2)
            else if status \<noteq> 200 then (Inl (apiStatusError status), w2)
            else if objectIsTerminating response then (Inl terminating_object, w2)
            else (case verifyObservedObject response object of
                Inr uid \<Rightarrow> (if uid \<noteq> firstUID then Inl identity_changed else Inr (Some uid), w2)
              | Inl verifyErr \<Rightarrow>
                  (case observedRuntimeIdentity response of (confirmedUID, confirmedVersion) \<Rightarrow>
                    if confirmedUID = '''' \<or> confirmedVersion = '''' \<or> confirmedUID \<noteq> firstUID then
                      (Inl identity_changed, w2)
                    else if left = 0 then (Inl (exhausted verifyErr (Suc seen) response), w2)
                    else confirm_loop tr object firstUID firstErr verifyErr response (Suc seen) left w2))))"

definition confirmObservedMismatch ::
  "'w Transport \<Rightarrow> KubernetesClient \<Rightarrow> SubmissionObject \<Rightarrow> string \<Rightarrow> submission_fault
    \<Rightarrow> 'w \<Rightarrow> (submission_fault + string option) \<times> 'w" where
  "confirmObservedMismatch tr client object first firstErr w =
     (case observedRuntimeIdentity first of (firstUID, firstVersion) \<Rightarrow>
        if firstUID = '''' \<or> firstVersion = '''' then (Inl (existingObjectMismatch firstErr), w)
        else confirm_loop tr object firstUID firstErr firstErr first 0 (kc_mismatchConfirmationAttempts client) w)"

section \<open>Submitting\<close>

text \<open>\<open>strings.Replace(s, old, new, 1)\<close>\<close>

fun replace_first :: "string \<Rightarrow> string \<Rightarrow> string \<Rightarrow> string" where
  "replace_first old new [] = (if old = [] then new else [])"
| "replace_first old new (c # s) =
     (if take (length old) (c # s) = old then new @ drop (length old) (c # s) else c # replace_first old new s)"

text \<open>Whether a mutation was attempted, and the fault or the state and runtime identity of the object.\<close>

definition create_object ::
  "'w Transport \<Rightarrow> SubmissionObject \<Rightarrow> 'w \<Rightarrow> (submission_fault + string \<times> string) \<times> 'w" where
  "create_object tr object w =
     (case client_request tr (Post (ob_CollectionPath object) (ob_Raw object)) w of
        (Inl e, w1) \<Rightarrow> (Inl e, w1)
      | (Inr (response, status), w1) \<Rightarrow>
          ((if status = 409 then Inl (Categorized ''SUBMISSION_CONFLICT_STOPPED''
              ''Kubernetes create conflicted after exact absence observation'' None)
            else if status \<noteq> 201 then Inl (apiStatusError status)
            else (case verifyObservedObject response object of
                Inl e \<Rightarrow> Inl (Categorized (case redacted_category e of
                    None \<Rightarrow> ''SUBMISSION_CREATE_RESPONSE_INVALID''
                  | Some c \<Rightarrow> replace_first ''SUBMISSION_OBJECT_'' ''SUBMISSION_CREATE_RESPONSE_'' c)
                  ''created Kubernetes object response differs from projection'' None)
              | Inr uid \<Rightarrow> Inr (''CREATED'', uid))), w1))"

definition submitObject ::
  "'w Transport \<Rightarrow> KubernetesClient \<Rightarrow> SubmissionObject \<Rightarrow> 'w \<Rightarrow> (bool \<times> (submission_fault + string \<times> string)) \<times> 'w" where
  "submitObject tr client object w =
     (let create = (\<lambda>w. case create_object tr object w of (r, w') \<Rightarrow> ((True, r), w'))
      in case client_request tr (Get (ob_ObjectPath object)) w of
        (Inl e, w1) \<Rightarrow> ((False, Inl e), w1)
      | (Inr (response, status), w1) \<Rightarrow>
          if status = 404 then create w1
          else if status \<noteq> 200 then ((False, Inl (apiStatusError status)), w1)
          else if objectIsTerminating response then ((False, Inl terminating_object), w1)
          else (case verifyObservedObject response object of
              Inr uid \<Rightarrow> ((False, Inr (''UNCHANGED'', uid)), w1)
            | Inl e \<Rightarrow>
                if categorizedSubmissionCategory e = ''SUBMISSION_OBJECT_COMPARATOR_INCONSISTENT'' then ((False, Inl e), w1)
                else (case confirmObservedMismatch tr client object response e w1 of
                    (Inl f, w2) \<Rightarrow> ((False, Inl f), w2)
                  | (Inr (Some uid), w2) \<Rightarrow> ((False, Inr (''UNCHANGED'', uid)), w2)
                  | (Inr None, w2) \<Rightarrow> create w2)))"

text \<open>\<open>%02d\<close> of a position.\<close>

definition pad2 :: "nat \<Rightarrow> string" where
  "pad2 n = (if n < 10 then CHR ''0'' # show_nat n else show_nat n)"

definition has_prefix :: "string \<Rightarrow> string \<Rightarrow> bool" where
  "has_prefix s p \<longleftrightarrow> take (length p) s = p"

definition bindSubmissionObjectOrdinal :: "submission_fault \<Rightarrow> nat \<Rightarrow> submission_fault" where
  "bindSubmissionObjectOrdinal cause ordinal =
     (case redacted_category cause of
        None \<Rightarrow> cause
      | Some c \<Rightarrow>
          if \<not> has_prefix c ''SUBMISSION_OBJECT_'' \<and> \<not> has_prefix c ''SUBMISSION_CREATE_RESPONSE_'' then cause
          else Categorized (c @ ''_AT_'' @ pad2 ordinal) ''Kubernetes object failed bounded verification''
            (redacted_evidence cause))"

definition stopped :: "PlaneReceipt \<Rightarrow> submission_fault \<Rightarrow> PlaneReceipt \<times> SubmissionError option" where
  "stopped receipt cause =
     (let category = (case redacted_category cause of Some c \<Rightarrow> c | None \<Rightarrow> ''SUBMISSION_RESPONSE_INVALID'');
          receipt' = (case cause of
              Categorized _ _ evidence \<Rightarrow> receipt\<lparr>pr_State := ''STOPPED_PARTIAL_OR_UNKNOWN'', pr_MismatchEvidence := evidence\<rparr>
            | _ \<Rightarrow> receipt\<lparr>pr_State := ''STOPPED_PARTIAL_OR_UNKNOWN''\<rparr>)
      in (receipt', Some \<lparr>se_Receipt = receipt', se_Cause = cause, se_Category = category\<rparr>))"

definition object_result :: "SubmissionObject \<Rightarrow> string \<Rightarrow> string \<Rightarrow> ObjectResult" where
  "object_result object uid state =
     \<lparr>or_Identity = \<lparr>oi_APIVersion = ri_APIVersion (ob_Identity object), oi_Kind = ri_Kind (ob_Identity object),
        oi_Name = ri_Name (ob_Identity object), oi_Namespace = ri_Namespace (ob_Identity object)\<rparr>,
      or_Digest = ob_Digest object, or_UID = uid, or_State = state\<rparr>"

fun submit_objects ::
  "'w Transport \<Rightarrow> KubernetesClient \<Rightarrow> nat \<Rightarrow> SubmissionObject list \<Rightarrow> PlaneReceipt \<Rightarrow> 'w
    \<Rightarrow> (PlaneReceipt \<times> SubmissionError option) \<times> 'w" where
  "submit_objects tr client index [] receipt w = ((receipt\<lparr>pr_State := ''SUBMITTED''\<rparr>, None), w)"
| "submit_objects tr client index (object # rest) receipt w =
     (case submitObject tr client object w of ((attempted, r), w1) \<Rightarrow>
        let receipt' = (if attempted then receipt\<lparr>pr_MutationState := ''ATTEMPTED''\<rparr> else receipt)
        in (case r of
            Inl e \<Rightarrow> (stopped receipt' (bindSubmissionObjectOrdinal e (Suc index)), w1)
          | Inr (state, uid) \<Rightarrow> submit_objects tr client (Suc index) rest
              (receipt'\<lparr>pr_Results := Some (elems (pr_Results receipt') @ [object_result object uid state])\<rparr>) w1))"

definition Submit ::
  "'w Transport \<Rightarrow> KubernetesClient \<Rightarrow> SubmissionPlane \<Rightarrow> 'w \<Rightarrow> (PlaneReceipt \<times> SubmissionError option) \<times> 'w" where
  "Submit tr client plane w =
     (let receipt = \<lparr>pr_Format = PlaneReceiptFormat, pr_Authority = pe_Identity plane, pr_Role = pe_Role plane,
            pr_State = ''IN_PROGRESS'', pr_MutationState = ''NOT_ATTEMPTED'', pr_Results = Some [],
            pr_MismatchEvidence = None\<rparr>
      in if pe_Identity plane \<noteq> kc_authority client then
           (stopped receipt (PlainFault ''submission client authority differs from projection plane''), w)
         else if pe_Objects plane = [] then
           (stopped receipt (PlainFault ''submission plane has no objects''), w)
         else submit_objects tr client 0 (pe_Objects plane) receipt w)"

section \<open>The executor of both planes\<close>

definition combinedMutationState :: "string \<Rightarrow> string \<Rightarrow> string" where
  "combinedMutationState current following =
     (if current = ''ATTEMPTED'' \<or> following = ''ATTEMPTED'' then ''ATTEMPTED'' else ''NOT_ATTEMPTED'')"

text \<open>A client with the environment it talks to; \<open>None\<close> is a nil pointer.\<close>

record 'w Executor =
  xe_Infrastructure :: "('w Transport \<times> KubernetesClient) option"
  xe_Management :: "('w Transport \<times> KubernetesClient) option"

definition executor_Execute ::
  "'w Executor \<Rightarrow> SubmissionPlan \<Rightarrow> 'w \<Rightarrow> (SubmissionReceipt \<times> goerror option) \<times> 'w" where
  "executor_Execute executor plan w =
     (let receipt = \<lparr>sr_Format = RunReceiptFormat, sr_IntentRevision = su_IntentRevision plan,
            sr_State = ''IN_PROGRESS'', sr_MutationState = ''NOT_ATTEMPTED'', sr_Infrastructure = None, sr_Management = None\<rparr>
      in if su_Format plan \<noteq> SubmissionPlanFormat then
           ((receipt, Some (New ''submission plan format is not supported'')), w)
         else (case (xe_Infrastructure executor, xe_Management executor) of
             (Some (tri, ci), Some (trm, cm)) \<Rightarrow>
               (case Submit tri ci (su_Infrastructure plan) w of ((infra, e), w1) \<Rightarrow>
                  let receipt1 = receipt\<lparr>sr_Infrastructure := Some infra,
                        sr_MutationState := combinedMutationState (sr_MutationState receipt) (pr_MutationState infra)\<rparr>
                  in (case e of
                      Some _ \<Rightarrow> ((receipt1\<lparr>sr_State := ''STOPPED_PARTIAL_OR_UNKNOWN''\<rparr>,
                        Some (Wrap ''infrastructure authority submission'' (New ''bounded submission stopped''))), w1)
                    | None \<Rightarrow>
                        (case Submit trm cm (su_Management plan) w1 of ((mgmt, e'), w2) \<Rightarrow>
                           let receipt2 = receipt1\<lparr>sr_Management := Some mgmt,
                                 sr_MutationState := combinedMutationState (sr_MutationState receipt1) (pr_MutationState mgmt)\<rparr>
                           in (case e' of
                               Some _ \<Rightarrow> ((receipt2\<lparr>sr_State := ''STOPPED_PARTIAL_OR_UNKNOWN''\<rparr>,
                                 Some (Wrap ''management authority submission'' (New ''bounded submission stopped''))), w2)
                             | None \<Rightarrow> ((receipt2\<lparr>sr_State := ''SUBMITTED_OBSERVATION_PENDING''\<rparr>, None), w2)))))
           | _ \<Rightarrow> ((receipt, Some (New ''both authority-plane submission clients are required'')), w)))"

section \<open>Making a client\<close>

text \<open>
  \<open>url.Parse\<close> of the endpoint gives a \<open>parsed_url\<close> or nothing. A token text and an HTTP client with its
  timeout complete the configuration; waiting is part of the environment.
\<close>

record parsed_url =
  pu_Scheme :: string
  pu_Host :: string
  pu_Hostname :: string
  pu_Path :: string
  pu_HasUser :: bool
  pu_RawQuery :: string
  pu_Fragment :: string

record KubernetesClientConfig =
  kg_Endpoint :: "parsed_url option"
  kg_BearerToken :: string
  kg_ClientCertificate :: bool
  kg_AuthorityIdentity :: string
  kg_HasClient :: bool
  kg_MismatchConfirmationDelay :: int
  kg_MismatchConfirmationAttempts :: int

text \<open>\<open>^[a-z0-9](?:[-a-z0-9.]*[a-z0-9])?$\<close> within a maximal length.\<close>

definition validName :: "string \<Rightarrow> nat \<Rightarrow> bool" where
  "validName v maximum \<longleftrightarrow> v \<noteq> [] \<and> length v \<le> maximum \<and> is_lower_alnum (hd v) \<and> is_lower_alnum (last v)
     \<and> list_all (\<lambda>c. is_lower_alnum c \<or> c = CHR ''-'' \<or> c = CHR ''.'') v"

definition NewKubernetesClient :: "KubernetesClientConfig \<Rightarrow> KubernetesClient result" where
  "NewKubernetesClient config =
     (case kg_Endpoint config of
        None \<Rightarrow> Inl (New ''submission Kubernetes endpoint is invalid'')
      | Some u \<Rightarrow>
          if pu_Host u = '''' \<or> pu_HasUser u \<or> pu_RawQuery u \<noteq> '''' \<or> pu_Fragment u \<noteq> '''' then
            Inl (New ''submission Kubernetes endpoint is invalid'')
          else if pu_Path u \<noteq> '''' \<and> pu_Path u \<noteq> ''/'' then
            Inl (New ''submission Kubernetes endpoint must not contain a path'')
          else if pu_Scheme u \<noteq> ''https''
              \<and> \<not> (pu_Scheme u = ''http'' \<and> pu_Hostname u \<in> {''127.0.0.1'', ''::1'', ''localhost''}) then
            Inl (New ''submission Kubernetes endpoint must use HTTPS'')
          else if (kg_BearerToken config \<noteq> '''') = kg_ClientCertificate config
              \<or> trim_space (kg_BearerToken config) \<noteq> kg_BearerToken config
              \<or> list_ex (\<lambda>c. c = CHR 0x0D \<or> c = CHR 0x0A) (kg_BearerToken config) then
            Inl (New ''submission Kubernetes transport credential is invalid'')
          else if (\<not> validName (kg_AuthorityIdentity config) 63 \<or> CHR ''.'' \<in> set (kg_AuthorityIdentity config))
              \<and> \<not> digest_pattern (kg_AuthorityIdentity config) then
            Inl (New ''submission authority identity is invalid'')
          else if \<not> kg_HasClient config then
            Inl (New ''submission requires an explicitly configured HTTP client'')
          else if kg_MismatchConfirmationDelay config < 0
              \<or> kg_MismatchConfirmationDelay config > maximumMismatchConfirmationDelay then
            Inl (New ''submission mismatch confirmation delay is invalid'')
          else if kg_MismatchConfirmationAttempts config < 0
              \<or> kg_MismatchConfirmationAttempts config > int objectMismatchMaximumAttempts then
            Inl (New ''submission mismatch confirmation attempts are invalid'')
          else Inr \<lparr>kc_authority = kg_AuthorityIdentity config,
            kc_mismatchConfirmationDelay = (if kg_MismatchConfirmationDelay config = 0
              then objectMismatchConfirmationDelay else kg_MismatchConfirmationDelay config),
            kc_mismatchConfirmationAttempts = (if kg_MismatchConfirmationAttempts config = 0
              then objectMismatchMaximumAttempts else nat (kg_MismatchConfirmationAttempts config))\<rparr>)"

end
