(* ===== verification/SubmissionFacts.thy ===== *)
theory SubmissionFacts
  imports Submission "HOL-Library.Sublist"
begin

text \<open>
  What a submission sends. The environment is taken as an arbitrary function of everything that was
  sent so far, so the world of the client is the list of its calls and every property below is about
  that list.
\<close>

section \<open>Recording the calls\<close>

definition recording ::
  "(http_call list \<Rightarrow> answer) \<Rightarrow> (http_call list \<Rightarrow> pause) \<Rightarrow> (http_call list \<Rightarrow> bool) \<Rightarrow> http_call list Transport" where
  "recording server waits closed = \<lparr>tr_do = (\<lambda>c h. (server (h @ [c]), h @ [c])), tr_wait = (\<lambda>h. (waits h, h)),
     tr_windowClosed = closed\<rparr>"

fun is_post :: "http_call \<Rightarrow> bool" where
  "is_post (Post p b) = True"
| "is_post (Get p) = False"

abbreviation get_of :: "SubmissionObject \<Rightarrow> http_call" where
  "get_of ob \<equiv> Get (ob_ObjectPath ob)"

abbreviation post_of :: "SubmissionObject \<Rightarrow> http_call" where
  "post_of ob \<equiv> Post (ob_CollectionPath ob) (ob_Raw ob)"

lemma recording_simps [simp]:
  "tr_do (recording server waits closed) c h = (server (h @ [c]), h @ [c])"
  "tr_wait (recording server waits closed) h = (waits h, h)"
  by (simp_all add: recording_def)

lemma request_records:
  "client_request (recording server waits closed) c h = (r, h') \<Longrightarrow> h' = h @ [c]"
  by (simp add: client_request_def)

section \<open>One object\<close>

text \<open>One attempt: it ends at the wait, ends after the request, or goes on with one attempt less.\<close>

lemma confirm_step:
  assumes "confirm_loop tr ob uid e0 e l seen (Suc n) w = (r, w')"
  defines "w1 \<equiv> snd (if 0 < n then tr_wait tr w else (Waited, w))"
  shows "(w' = w1 \<and> (\<forall>m. r \<noteq> Inl (Panics m)))
    \<or> (\<exists>q. client_request tr (get_of ob) w1 = (q, w') \<and> (\<forall>m. r \<noteq> Inl (Panics m)))
    \<or> (\<exists>q w2 e' l'. client_request tr (get_of ob) w1 = (q, w2) \<and> 0 < n
         \<and> confirm_loop tr ob uid e0 e' l' (Suc seen) n w2 = (r, w'))"
proof -
  obtain p w1' where p: "(if 0 < n then tr_wait tr w else (Waited, w)) = (p, w1')"
    by (cases "if 0 < n then tr_wait tr w else (Waited, w)") blast
  obtain q w2 where q: "client_request tr (get_of ob) w1' = (q, w2)" by (cases "client_request tr (get_of ob) w1'")
  have w1: "w1 = w1'" by (simp add: w1_def p)
  have req: "q \<noteq> Inl (Panics m)" for m
    using q by (auto simp: client_request_def response_invalid_def split: prod.splits answer.splits if_splits)
  note eqs = assms(1) [unfolded confirm_loop.simps Let_def p prod.case q]
  show ?thesis
  proof (cases p)
    case Waited
    with eqs req q show ?thesis
      unfolding w1
      by (auto split: if_splits sum.splits prod.splits simp: existingObjectMismatchConvergenceExhausted_def
          apiStatusError_def terminating_object_def identity_changed_def)
  qed (use eqs in \<open>auto simp: w1 existingObjectMismatchConvergenceExhausted_def interrupted_confirmation_def\<close>)
qed

lemma confirm_loop_calls:
  assumes "confirm_loop (recording server waits closed) ob uid e0 e l seen n h = (r, h')"
  shows "\<exists>k \<le> n. h' = h @ replicate k (get_of ob)"
  using assms
proof (induction n arbitrary: e l seen h)
  case (Suc n)
  let ?tr = "recording server waits closed"
  have w: "snd (if 0 < n then tr_wait ?tr h else (Waited, h)) = h" by simp
  from confirm_step [OF Suc.prems, unfolded w] show ?case
  proof (elim disjE exE conjE)
    assume "h' = h" then show ?thesis by (intro exI [of _ 0]) simp
  next
    fix q assume "client_request ?tr (get_of ob) h = (q, h')"
    from request_records [OF this] show ?thesis by (intro exI [of _ 1]) simp
  next
    fix q h1 e' l' assume "client_request ?tr (get_of ob) h = (q, h1)"
      and "confirm_loop ?tr ob uid e0 e' l' (Suc seen) n h1 = (r, h')"
    then obtain k where "k \<le> n" "h' = (h @ [get_of ob]) @ replicate k (get_of ob)"
      using Suc.IH request_records by blast
    then show ?thesis by (intro exI [of _ "Suc k"]) simp
  qed
qed simp

lemma no_panic_loop:
  "0 < n \<Longrightarrow> confirm_loop tr ob uid e0 e l seen n w = (r, w') \<Longrightarrow> r \<noteq> Inl (Panics m)"
proof (induction n arbitrary: e l seen w)
  case (Suc n)
  from confirm_step [OF Suc.prems(2)] show ?case using Suc.IH by blast
qed simp

text \<open>
  Submitting an object observes it, perhaps more than once, and then creates it at most once; it
  reports an attempted mutation exactly when the create was sent.
\<close>

lemma submitObject_calls:
  assumes "submitObject (recording server waits closed) client ob h = ((attempted, r), h')"
  shows "\<exists>k. k \<le> Suc (kc_mismatchConfirmationAttempts client)
    \<and> h' = h @ replicate k (get_of ob) @ (if attempted then [post_of ob] else [])"
proof -
  let ?tr = "recording server waits closed"
  obtain q h1 where q: "client_request ?tr (get_of ob) h = (q, h1)" by (cases "client_request ?tr (get_of ob) h")
  have h1: "h1 = h @ [get_of ob]" by (rule request_records [OF q])
  have post: "y = x @ [post_of ob]" if "create_object ?tr ob x = (z, y)" for x y z
    using that request_records by (fastforce simp: create_object_def split: prod.splits sum.splits)
  have conf: "\<exists>k \<le> kc_mismatchConfirmationAttempts client. y = h1 @ replicate k (get_of ob)"
    if "confirmObservedMismatch ?tr client ob raw e h1 = (z, y)" for raw e z y
    using that confirm_loop_calls
    by (fastforce simp: confirmObservedMismatch_def split: prod.splits if_splits intro: exI [of _ 0])
  have one: ?thesis if "h' = h1" "\<not> attempted"
    using that by (intro exI [of _ 1]) (simp add: h1)
  have two: ?thesis if "h' = h1 @ [post_of ob]" attempted
    using that by (intro exI [of _ 1]) (simp add: h1)
  have three: ?thesis
    if "y = h1 @ replicate k (get_of ob)" "k \<le> kc_mismatchConfirmationAttempts client"
      "h' = y @ (if attempted then [post_of ob] else [])" for y k
    using that by (intro exI [of _ "Suc k"]) (simp add: h1)
  show ?thesis
  proof (cases q)
    case (Inl e)
    with assms q show ?thesis by (intro one) (simp_all add: submitObject_def)
  next
    case (Inr rs)
    obtain response status where rs: "rs = (response, status)" by (cases rs)
    note run = assms [unfolded submitObject_def Let_def q Inr rs prod.case sum.case]
    consider "status = 404" | "status \<noteq> 404 \<and> (status \<noteq> 200 \<or> objectIsTerminating response)"
      | uid where "status = 200" "\<not> objectIsTerminating response" "verifyObservedObject response ob = Inr uid"
      | e where "status = 200" "\<not> objectIsTerminating response" "verifyObservedObject response ob = Inl e"
      by (cases "verifyObservedObject response ob") auto
    then show ?thesis
    proof cases
      case 1
      with run post show ?thesis by (intro two) (auto split: prod.splits)
    next
      case 2
      with run show ?thesis by (intro one) (auto split: if_splits)
    next
      case 3
      with run show ?thesis by (intro one) auto
    next
      case 4
      show ?thesis
      proof (cases "categorizedSubmissionCategory e = ''SUBMISSION_OBJECT_COMPARATOR_INCONSISTENT''")
        case True
        with 4 run show ?thesis by (intro one) auto
      next
        case False
        obtain z y where z: "confirmObservedMismatch ?tr client ob response e h1 = (z, y)"
          by (cases "confirmObservedMismatch ?tr client ob response e h1")
        from conf [OF z] obtain k where k: "k \<le> kc_mismatchConfirmationAttempts client" "y = h1 @ replicate k (get_of ob)" by blast
        from 4 False run z have "h' = y @ (if attempted then [post_of ob] else [])"
          by (auto split: sum.splits option.splits prod.splits dest: post)
        with k show ?thesis by (intro three)
      qed
    qed
  qed
qed

lemma verified_uid: "verifyObservedObject raw ob = Inr uid \<Longrightarrow> uid \<noteq> ''''"
  by (auto simp: verifyObservedObject_def Let_def split: option.splits if_splits)

lemma confirm_uid:
  "confirm_loop tr ob u e0 e l seen n w = (Inr (Some uid), w') \<Longrightarrow> uid \<noteq> ''''"
proof (induction n arbitrary: e l seen w)
  case (Suc n)
  obtain p w1 where p: "(if 0 < n then tr_wait tr w else (Waited, w)) = (p, w1)"
    by (cases "if 0 < n then tr_wait tr w else (Waited, w)") blast
  obtain q w2 where q: "client_request tr (get_of ob) w1 = (q, w2)" by (cases "client_request tr (get_of ob) w1")
  have rec: "\<And>e l. confirm_loop tr ob u e0 e l (Suc seen) n w2 = (Inr (Some uid), w') \<Longrightarrow> uid \<noteq> ''''"
    by (rule Suc.IH)
  note run = Suc.prems [unfolded confirm_loop.simps Let_def p prod.case q]
  then have "p = Waited" by (cases p) simp_all
  with run obtain response status where "q = Inr (response, status)" by (auto split: sum.splits)
  with run \<open>p = Waited\<close> rec verified_uid [of response ob] show ?case
    by (auto split: if_splits sum.splits prod.splits)
qed simp

lemma submitObject_result:
  assumes "submitObject tr client ob w = ((attempted, Inr (state, uid)), w')"
  shows "state = (if attempted then ''CREATED'' else ''UNCHANGED'')" "uid \<noteq> ''''"
proof -
  have create: "state' = ''CREATED'' \<and> uid' \<noteq> ''''"
    if "create_object tr ob x = (Inr (state', uid'), y)" for x y state' uid'
    using that verified_uid by (auto simp: create_object_def split: prod.splits sum.splits if_splits)
  have confirm: "uid' \<noteq> ''''" if "confirmObservedMismatch tr client ob raw e x = (Inr (Some uid'), y)" for raw e x y uid'
    using that by (auto simp: confirmObservedMismatch_def split: prod.splits if_splits dest: confirm_uid)
  have "state = (if attempted then ''CREATED'' else ''UNCHANGED'') \<and> uid \<noteq> ''''"
    using assms verified_uid unfolding submitObject_def Let_def
    by (auto split: prod.splits sum.splits if_splits option.splits dest: create confirm)
  then show "state = (if attempted then ''CREATED'' else ''UNCHANGED'')" "uid \<noteq> ''''" by simp_all
qed

section \<open>A plane\<close>

text \<open>The creates that a list of results accounts for.\<close>

fun created :: "SubmissionObject list \<Rightarrow> ObjectResult list \<Rightarrow> http_call list" where
  "created (ob # obs) (r # rs) = (if or_State r = ''CREATED'' then [post_of ob] else []) @ created obs rs"
| "created obs rs = []"

text \<open>A result is about an object: its identity and digest, one of the two states, a runtime identity.\<close>

definition result_for :: "SubmissionObject \<Rightarrow> ObjectResult \<Rightarrow> bool" where
  "result_for ob r \<longleftrightarrow> (\<exists>uid state. uid \<noteq> '''' \<and> (state = ''CREATED'' \<or> state = ''UNCHANGED'') \<and> r = object_result ob uid state)"

lemma created_Nil [simp]: "created obs [] = []"
  by (cases obs) simp_all

lemma subseq_created: "length rs \<le> length obs \<Longrightarrow> subseq (created obs rs) (map post_of (take (length rs) obs))"
  by (induction obs rs rule: created.induct) auto

text \<open>
  The run over the objects: a prefix of them has results; after those, at most one create more was sent
  for the object at which it stopped.
\<close>

definition plane_run :: "nat \<Rightarrow> SubmissionObject list \<Rightarrow> ObjectResult list \<Rightarrow> http_call list \<Rightarrow> bool \<Rightarrow> bool" where
  "plane_run bound obs rs calls finished \<longleftrightarrow> length rs \<le> length obs
     \<and> list_all2 result_for (take (length rs) obs) rs
     \<and> set calls \<subseteq> get_of ` set obs \<union> post_of ` set obs \<and> length calls \<le> length obs * bound
     \<and> (if finished then length rs = length obs \<and> filter is_post calls = created obs rs
        else length rs < length obs
          \<and> (filter is_post calls = created obs rs
             \<or> filter is_post calls = created obs rs @ [post_of (obs ! length rs)]))"

lemma plane_run_Cons:
  assumes "plane_run bound obs rs calls finished" and "result_for ob r"
    and "calls' = replicate k (get_of ob) @ (if or_State r = ''CREATED'' then [post_of ob] else [])" and "k < bound"
  shows "plane_run bound (ob # obs) (r # rs) (calls' @ calls) finished"
  using assms by (auto simp: plane_run_def)

lemma submit_objects_run:
  assumes "submit_objects (recording server waits closed) client i obs receipt h = ((rc, e), h')"
  defines "bound \<equiv> kc_mismatchConfirmationAttempts client + 2"
  shows "\<exists>rs calls. h' = h @ calls \<and> elems (pr_Results rc) = elems (pr_Results receipt) @ rs
    \<and> plane_run bound obs rs calls (e = None)
    \<and> pr_MutationState rc = (if filter is_post calls = [] then pr_MutationState receipt else ''ATTEMPTED'')
    \<and> pr_State rc = (if e = None then ''SUBMITTED'' else ''STOPPED_PARTIAL_OR_UNKNOWN'')
    \<and> pr_Format rc = pr_Format receipt \<and> pr_Authority rc = pr_Authority receipt \<and> pr_Role rc = pr_Role receipt"
  using assms(1)
proof (induction obs arbitrary: i receipt h)
  case Nil
  then show ?case by (intro exI [of _ "[]"]) (auto simp: plane_run_def)
next
  case (Cons ob obs)
  let ?tr = "recording server waits closed"
  obtain att r h1 where s: "submitObject ?tr client ob h = ((att, r), h1)" by (metis prod.collapse)
  obtain k where k: "k \<le> Suc (kc_mismatchConfirmationAttempts client)"
    "h1 = h @ replicate k (get_of ob) @ (if att then [post_of ob] else [])"
    using submitObject_calls [OF s] by blast
  let ?c = "replicate k (get_of ob) @ (if att then [post_of ob] else [])"
  let ?rc = "if att then receipt\<lparr>pr_MutationState := ''ATTEMPTED''\<rparr> else receipt"
  have kb: "k < bound" using k(1) by (simp add: bound_def)
  show ?case
  proof (cases r)
    case (Inl f)
    with Cons.prems s have run: "(rc, e) = stopped ?rc (bindSubmissionObjectOrdinal f (Suc i))" "h' = h1"
      by (auto simp: Let_def)
    then obtain x where st: "e = Some x" "pr_State rc = ''STOPPED_PARTIAL_OR_UNKNOWN''" "pr_MutationState rc = pr_MutationState ?rc"
      "pr_Results rc = pr_Results receipt" "pr_Format rc = pr_Format receipt" "pr_Authority rc = pr_Authority receipt"
      "pr_Role rc = pr_Role receipt"
      by (auto simp: stopped_def Let_def split: submission_fault.splits)
    have "plane_run bound (ob # obs) [] ?c False" using kb by (auto simp: plane_run_def)
    moreover have "h' = h @ ?c" using run(2) k(2) by simp
    ultimately show ?thesis
      using st by - (rule exI [of _ "[]"], rule exI [of _ ?c], cases att; simp)
  next
    case (Inr su)
    obtain state uid where su: "su = (state, uid)" by (cases su)
    note res = submitObject_result [OF s [unfolded Inr su]]
    let ?r = "object_result ob uid state"
    let ?rc' = "?rc\<lparr>pr_Results := Some (elems (pr_Results ?rc) @ [?r])\<rparr>"
    from Cons.prems s Inr su have "submit_objects ?tr client (Suc i) obs ?rc' h1 = ((rc, e), h')" by (simp add: Let_def)
    from Cons.IH [OF this] obtain rs calls where ih: "h' = h1 @ calls"
      "elems (pr_Results rc) = elems (pr_Results ?rc') @ rs" "plane_run bound obs rs calls (e = None)"
      "pr_MutationState rc = (if filter is_post calls = [] then pr_MutationState ?rc' else ''ATTEMPTED'')"
      "pr_State rc = (if e = None then ''SUBMITTED'' else ''STOPPED_PARTIAL_OR_UNKNOWN'')"
      "pr_Format rc = pr_Format ?rc'" "pr_Authority rc = pr_Authority ?rc'" "pr_Role rc = pr_Role ?rc'" by blast
    have rf: "result_for ob ?r" using res by (auto simp: result_for_def)
    have "?c = replicate k (get_of ob) @ (if or_State ?r = ''CREATED'' then [post_of ob] else [])"
      using res(1) by (simp add: object_result_def)
    from plane_run_Cons [OF ih(3) rf this kb] have "plane_run bound (ob # obs) (?r # rs) (?c @ calls) (e = None)" .
    moreover have "h' = h @ (?c @ calls)" using ih(1) k(2) by simp
    moreover have "elems (pr_Results rc) = elems (pr_Results receipt) @ (?r # rs)" using ih(2) by simp
    ultimately show ?thesis using ih(4-8)
      by - (rule exI [of _ "?r # rs"], rule exI [of _ "?c @ calls"], cases att; simp)
  qed
qed


section \<open>The properties of a submission\<close>

lemma plane_run_posts:
  assumes "plane_run bound obs rs calls finished"
  shows "subseq (filter is_post calls) (map post_of obs)"
proof -
  have l: "length rs \<le> length obs" using assms by (simp add: plane_run_def)
  have split: "map post_of obs = map post_of (take (length rs) obs) @ map post_of (drop (length rs) obs)"
    by (metis append_take_drop_id map_append)
  have a: "subseq (created obs rs) (map post_of obs)"
    unfolding split using subseq_created [OF l] list_emb_append_mono [of "(=)" _ _ "[]" "map post_of (drop (length rs) obs)"]
    by simp
  have b: "subseq (created obs rs @ [post_of (obs ! length rs)]) (map post_of obs)" if "length rs < length obs"
  proof -
    have "drop (length rs) obs = obs ! length rs # drop (Suc (length rs)) obs" using that by (simp add: Cons_nth_drop_Suc)
    then have "subseq [post_of (obs ! length rs)] (map post_of (drop (length rs) obs))" by simp
    with subseq_created [OF l] show ?thesis unfolding split by (rule list_emb_append_mono)
  qed
  from assms a b show ?thesis by (auto simp: plane_run_def split: if_splits)
qed

lemma Submit_run:
  assumes "Submit (recording server waits closed) client plane h = ((rc, e), h')"
    and "pe_Objects plane \<noteq> []" and "pe_Identity plane = kc_authority client"
  shows "\<exists>calls. h' = h @ calls
    \<and> plane_run (kc_mismatchConfirmationAttempts client + 2) (pe_Objects plane) (elems (pr_Results rc)) calls (e = None)
    \<and> pr_MutationState rc = (if filter is_post calls = [] then ''NOT_ATTEMPTED'' else ''ATTEMPTED'')
    \<and> pr_State rc = (if e = None then ''SUBMITTED'' else ''STOPPED_PARTIAL_OR_UNKNOWN'')
    \<and> pr_Format rc = PlaneReceiptFormat \<and> pr_Authority rc = pe_Identity plane \<and> pr_Role rc = pe_Role plane"
proof -
  let ?r = "\<lparr>pr_Format = PlaneReceiptFormat, pr_Authority = pe_Identity plane, pr_Role = pe_Role plane,
      pr_State = ''IN_PROGRESS'', pr_MutationState = ''NOT_ATTEMPTED'', pr_Results = Some [],
      pr_MismatchEvidence = None\<rparr>"
  have "submit_objects (recording server waits closed) client 0 (pe_Objects plane) ?r h = ((rc, e), h')"
    using assms by (simp add: Submit_def Let_def)
  from submit_objects_run [OF this] show ?thesis by auto
qed

lemma Submit_refused:
  assumes "pe_Objects plane = [] \<or> pe_Identity plane \<noteq> kc_authority client"
  shows "\<exists>rc e. Submit tr client plane w = ((rc, Some e), w) \<and> pr_MutationState rc = ''NOT_ATTEMPTED''
    \<and> pr_State rc = ''STOPPED_PARTIAL_OR_UNKNOWN'' \<and> pr_Results rc = Some []"
  using assms by (auto simp: Submit_def stopped_def Let_def)

text \<open>Either way, with the creates in the order of the plane.\<close>

lemma Submit_calls:
  assumes "Submit (recording server waits closed) client plane h = ((rc, e), h')"
  shows "\<exists>calls. h' = h @ calls \<and> subseq (filter is_post calls) (map post_of (pe_Objects plane))
    \<and> set calls \<subseteq> get_of ` set (pe_Objects plane) \<union> post_of ` set (pe_Objects plane)
    \<and> length calls \<le> length (pe_Objects plane) * (kc_mismatchConfirmationAttempts client + 2)
    \<and> pr_MutationState rc = (if filter is_post calls = [] then ''NOT_ATTEMPTED'' else ''ATTEMPTED'')
    \<and> pr_State rc = (if e = None then ''SUBMITTED'' else ''STOPPED_PARTIAL_OR_UNKNOWN'')"
proof (cases "pe_Objects plane = [] \<or> pe_Identity plane \<noteq> kc_authority client")
  case True
  from Submit_refused [OF this, of "recording server waits closed" h] assms
  show ?thesis by (intro exI [of _ "[]"]) auto
next
  case False
  with Submit_run [OF assms] obtain calls where c: "h' = h @ calls"
    "plane_run (kc_mismatchConfirmationAttempts client + 2) (pe_Objects plane) (elems (pr_Results rc)) calls (e = None)"
    "pr_MutationState rc = (if filter is_post calls = [] then ''NOT_ATTEMPTED'' else ''ATTEMPTED'')"
    "pr_State rc = (if e = None then ''SUBMITTED'' else ''STOPPED_PARTIAL_OR_UNKNOWN'')" by blast
  have "set calls \<subseteq> get_of ` set (pe_Objects plane) \<union> post_of ` set (pe_Objects plane)"
    "length calls \<le> length (pe_Objects plane) * (kc_mismatchConfirmationAttempts client + 2)"
    using c(2) unfolding plane_run_def by blast+
  with c(1,3,4) plane_run_posts [OF c(2)] show ?thesis by (intro exI [of _ calls]) simp
qed


text \<open>
  C19: a submission never under-reports. Against any environment, the creates it sent are those of
  the plane, each at most once and in the order of the plane; nothing but reads and these creates was
  sent; and the receipt says ATTEMPTED exactly when a create was sent, also when the run stopped.
\<close>

theorem submission_accounts_for_creates:
  assumes "Submit (recording server waits closed) client plane h = ((rc, e), h')"
  shows "\<exists>calls. h' = h @ calls \<and> subseq (filter is_post calls) (map post_of (pe_Objects plane))
    \<and> set calls \<subseteq> get_of ` set (pe_Objects plane) \<union> post_of ` set (pe_Objects plane)
    \<and> pr_MutationState rc = (if filter is_post calls = [] then ''NOT_ATTEMPTED'' else ''ATTEMPTED'')"
  using Submit_calls [OF assms] by blast

text \<open>
  A submitted receipt is complete. When \<open>Submit\<close> returns no error, every object of the plane has
  one result in order, with its identity, its digest and a runtime identity, and the creates that were
  sent are exactly those of the objects reported as created.
\<close>

theorem submitted_is_complete:
  assumes "Submit (recording server waits closed) client plane h = ((rc, None), h')"
  shows "pr_State rc = ''SUBMITTED'' \<and> list_all2 result_for (pe_Objects plane) (elems (pr_Results rc))
    \<and> filter is_post (drop (length h) h') = created (pe_Objects plane) (elems (pr_Results rc))"
proof -
  have "\<not> (pe_Objects plane = [] \<or> pe_Identity plane \<noteq> kc_authority client)"
    using Submit_refused [of plane client "recording server waits closed" h] assms by auto
  with Submit_run [OF assms] show ?thesis by (auto simp: plane_run_def)
qed


section \<open>What a match means\<close>

text \<open>A path into a value, and the part of a value that \<open>isSubset\<close> compares at one place.\<close>

datatype path_step = InField string | AtIndex nat

fun at_path :: "path_step list \<Rightarrow> json \<Rightarrow> json option" where
  "at_path [] j = Some j"
| "at_path (InField k # p) (JObj kvs) = (case map_of kvs k of Some v \<Rightarrow> at_path p v | None \<Rightarrow> None)"
| "at_path (AtIndex i # p) (JArr vs) = (if i < length vs then at_path p (vs ! i) else None)"
| "at_path _ _ = None"

fun agree_here :: "json \<Rightarrow> json \<Rightarrow> bool" where
  "agree_here (JObj es) ob = (\<exists>os. ob = JObj os)"
| "agree_here (JArr es) ob = (\<exists>os. ob = JArr os \<and> length os = length es)"
| "agree_here e ob = (ob = e)"

fun distinct_fields :: "json \<Rightarrow> bool" where
  "distinct_fields (JObj kvs) = (distinct (map fst kvs) \<and> list_all (\<lambda>kv. distinct_fields (snd kv)) kvs)"
| "distinct_fields (JArr vs) = list_all distinct_fields vs"
| "distinct_fields _ = True"

definition projected_in :: "json \<Rightarrow> json \<Rightarrow> bool" where
  "projected_in e ob \<longleftrightarrow> (\<forall>p v. at_path p e = Some v \<longrightarrow> (\<exists>w. at_path p ob = Some w \<and> agree_here v w))"

lemma projected_scalar:
  assumes "\<And>p. p \<noteq> [] \<Longrightarrow> at_path p e = None"
  shows "projected_in e ob \<longleftrightarrow> agree_here e ob"
proof -
  have "at_path p e = (if p = [] then Some e else None)" for p using assms by (cases p) simp_all
  then show ?thesis by (auto simp: projected_in_def split: if_splits)
qed

lemma projected_object:
  assumes "distinct (map fst es)"
  shows "projected_in (JObj es) ob \<longleftrightarrow>
    (\<exists>os. ob = JObj os \<and> (\<forall>kv \<in> set es. \<exists>w. map_of os (fst kv) = Some w \<and> projected_in (snd kv) w))"
proof
  assume c: "projected_in (JObj es) ob"
  then have "agree_here (JObj es) ob" unfolding projected_in_def by (force dest: spec [of _ "[]"])
  then obtain os where os: "ob = JObj os" by auto
  have "\<exists>w. map_of os k = Some w \<and> projected_in v w" if "(k, v) \<in> set es" for k v
  proof -
    have k: "map_of es k = Some v" using that assms by simp
    have "\<exists>w. map_of os k = Some w"
      using c k unfolding projected_in_def os by (force dest!: spec [of _ "[InField k]"] split: option.splits)
    then obtain w where w: "map_of os k = Some w" by blast
    have "projected_in v w"
      unfolding projected_in_def
    proof (intro allI impI)
      fix p u assume "at_path p v = Some u"
      then have "at_path (InField k # p) (JObj es) = Some u" using k by simp
      then obtain x where "at_path (InField k # p) ob = Some x" "agree_here u x" using c unfolding projected_in_def by blast
      then show "\<exists>x. at_path p w = Some x \<and> agree_here u x" using w by (simp add: os)
    qed
    with w show ?thesis by blast
  qed
  with os show "\<exists>os. ob = JObj os \<and> (\<forall>kv \<in> set es. \<exists>w. map_of os (fst kv) = Some w \<and> projected_in (snd kv) w)"
    by (intro exI [of _ os]) auto
next
  assume "\<exists>os. ob = JObj os \<and> (\<forall>kv \<in> set es. \<exists>w. map_of os (fst kv) = Some w \<and> projected_in (snd kv) w)"
  then obtain os where os: "ob = JObj os"
    and m: "\<And>k v. (k, v) \<in> set es \<Longrightarrow> \<exists>w. map_of os k = Some w \<and> projected_in v w" by force
  show "projected_in (JObj es) ob"
    unfolding projected_in_def
  proof (intro allI impI)
    fix p u assume p: "at_path p (JObj es) = Some u"
    show "\<exists>x. at_path p ob = Some x \<and> agree_here u x"
    proof (cases "(p, JObj es)" rule: at_path.cases)
      case (2 k q kvs)
      with p obtain v where v: "map_of es k = Some v" "at_path q v = Some u" by (auto split: option.splits)
      with m [OF map_of_SomeD [OF v(1)]] 2 show ?thesis by (auto simp: os projected_in_def)
    qed (use p os in auto)
  qed
qed

lemma projected_array:
  "projected_in (JArr es) ob \<longleftrightarrow>
    (\<exists>os. ob = JArr os \<and> length es = length os \<and> (\<forall>i < length es. projected_in (es ! i) (os ! i)))"
proof
  assume c: "projected_in (JArr es) ob"
  then have "agree_here (JArr es) ob" unfolding projected_in_def by (force dest: spec [of _ "[]"])
  then obtain os where os: "ob = JArr os" "length os = length es" by auto
  have "projected_in (es ! i) (os ! i)" if "i < length es" for i
    unfolding projected_in_def
  proof (intro allI impI)
    fix p u assume "at_path p (es ! i) = Some u"
    then have "at_path (AtIndex i # p) (JArr es) = Some u" using that by simp
    then obtain x where "at_path (AtIndex i # p) ob = Some x" "agree_here u x" using c unfolding projected_in_def by blast
    then show "\<exists>x. at_path p (os ! i) = Some x \<and> agree_here u x" using os that by simp
  qed
  with os show "\<exists>os. ob = JArr os \<and> length es = length os \<and> (\<forall>i < length es. projected_in (es ! i) (os ! i))" by auto
next
  assume "\<exists>os. ob = JArr os \<and> length es = length os \<and> (\<forall>i < length es. projected_in (es ! i) (os ! i))"
  then obtain os where os: "ob = JArr os" "length es = length os"
    and m: "\<And>i. i < length es \<Longrightarrow> projected_in (es ! i) (os ! i)" by blast
  show "projected_in (JArr es) ob"
    unfolding projected_in_def
  proof (intro allI impI)
    fix p u assume p: "at_path p (JArr es) = Some u"
    show "\<exists>x. at_path p ob = Some x \<and> agree_here u x"
    proof (cases "(p, JArr es)" rule: at_path.cases)
      case (3 i q vs)
      with p have i: "i < length es" "at_path q (es ! i) = Some u" by (auto split: if_splits)
      with m [OF i(1)] 3 os show ?thesis by (auto simp: projected_in_def)
    qed (use p os in auto)
  qed
qed

lemma leaf_paths:
  "p \<noteq> [] \<Longrightarrow> at_path p JNull = None" "p \<noteq> [] \<Longrightarrow> at_path p (JBool b) = None"
  "p \<noteq> [] \<Longrightarrow> at_path p (JNum n) = None" "p \<noteq> [] \<Longrightarrow> at_path p (JStr s) = None"
  by (cases p; cases "hd p"; simp)+

lemma isSubset_projected: "distinct_fields e \<Longrightarrow> isSubset e ob \<longleftrightarrow> projected_in e ob"
proof (induction e ob rule: isSubset.induct)
  case (1 es ob)
  show ?case
  proof (cases ob)
    case (JObj os)
    have "isSubset (snd kv) v \<longleftrightarrow> projected_in (snd kv) v" if "kv \<in> set es" "map_of os (fst kv) = Some v" for kv v
      using 1 JObj that by (auto simp: list_all_iff)
    with 1(2) JObj show ?thesis
      unfolding projected_object [OF conjunct1 [OF 1(2) [unfolded distinct_fields.simps]]]
      by (auto simp: list_all_iff split: option.splits)
  qed (use 1(2) in \<open>simp_all add: projected_object\<close>)
next
  case (2 es ob)
  show ?case
  proof (cases ob)
    case (JArr os)
    have "isSubset (es ! i) (os ! i) \<longleftrightarrow> projected_in (es ! i) (os ! i)" if "i < length es" "length es = length os" for i
    proof -
      have "(es ! i, os ! i) \<in> set (zip es os)" using that by (auto simp: set_zip)
      moreover have "distinct_fields (es ! i)" using 2(2) that by (simp add: list_all_length)
      ultimately show ?thesis using 2(1) [OF JArr, of "(es ! i, os ! i)"] that by simp
    qed
    with JArr show ?thesis by (auto simp: projected_array list_all_length)
  qed (simp_all add: projected_array)
qed (simp_all add: projected_scalar leaf_paths)


lemma last_wins_fields:
  "distinct (map fst m) \<Longrightarrow> list_all (\<lambda>kv. P (snd kv)) m \<Longrightarrow> list_all (\<lambda>kv. P (snd kv)) kvs \<Longrightarrow>
   distinct (map fst (fold (\<lambda>kv m. filter (\<lambda>p. fst p \<noteq> fst kv) m @ [kv]) kvs m))
   \<and> list_all (\<lambda>kv. P (snd kv)) (fold (\<lambda>kv m. filter (\<lambda>p. fst p \<noteq> fst kv) m @ [kv]) kvs m)"
proof (induction kvs arbitrary: m)
  case (Cons kv kvs)
  have "distinct (map fst (filter (\<lambda>p. fst p \<noteq> fst kv) m @ [kv]))"
    using Cons.prems(1) by (auto simp: distinct_map inj_on_def)
  moreover have "list_all (\<lambda>kv. P (snd kv)) (filter (\<lambda>p. fst p \<noteq> fst kv) m @ [kv])"
    using Cons.prems(2,3) by (auto simp: list_all_iff)
  ultimately show ?case using Cons.IH Cons.prems(3) by simp
qed simp

lemma distinct_fields_any_of: "distinct_fields (any_of j)"
proof (induction j rule: any_of.induct)
  case (1 vs)
  then show ?case by (simp add: list_all_iff)
next
  case (2 kvs)
  have "list_all (\<lambda>kv. distinct_fields (snd kv)) (map (\<lambda>kv. (fst kv, any_of (snd kv))) kvs)"
    using 2 by (auto simp: list_all_iff)
  from last_wins_fields [OF _ _ this, of "[]"] show ?case by simp
qed simp_all

lemma decoded_distinct: "decodeJSONObject raw = Some e \<Longrightarrow> distinct_fields (as_map e)"
proof -
  assume d: "decodeJSONObject raw = Some e"
  then consider "e = JNull" | kvs where "e = any_of (JObj kvs)"
    by (auto simp: decodeJSONObject_def simp del: any_of.simps split: option.splits json.splits)
  then show ?thesis
  proof cases
    case 2
    then obtain os where os: "e = JObj os" by simp
    have "distinct_fields e" unfolding 2 by (rule distinct_fields_any_of)
    then show ?thesis by (simp add: as_map_def os)
  qed (simp add: as_map_def)
qed

text \<open>
  C39: an observed object is accepted exactly when it contains the projection. \<open>verifyObservedObject\<close>
  returns a runtime identity if and only if both texts decode to objects, every place of the projected
  object occurs in the observed one with the same scalar, the same kind of collection and, for arrays,
  the same length, and the observed object has the identity returned and a resource version.
\<close>

theorem accepted_contains_projection:
  "verifyObservedObject raw ob = Inr uid \<longleftrightarrow>
    (\<exists>o' e. decodeJSONObject raw = Some o' \<and> decodeJSONObject (ob_Raw ob) = Some e
      \<and> projected_in (as_map e) (as_map o')
      \<and> uid = text_of (field (field o' ''metadata'') ''uid'') \<and> uid \<noteq> ''''
      \<and> text_of (field (field o' ''metadata'') ''resourceVersion'') \<noteq> '''')"
proof -
  have c: "isSubset (as_map e) x \<longleftrightarrow> projected_in (as_map e) x" if "decodeJSONObject r = Some e" for r e x
    by (rule isSubset_projected [OF decoded_distinct [OF that]])
  show ?thesis
    by (auto simp: verifyObservedObject_def Let_def c split: option.splits if_splits)
qed

section \<open>A concrete submission\<close>

definition sample_object :: SubmissionObject where
  "sample_object = \<lparr>ob_Identity = \<lparr>ri_APIVersion = ''v1'', ri_Kind = ''Namespace'', ri_Name = ''a'', ri_Namespace = ''''\<rparr>,
     ob_Digest = ''d'', ob_CollectionPath = ''/c'', ob_ObjectPath = ''/c/a'', ob_Raw = ''{}''\<rparr>"

definition sample_plane :: SubmissionPlane where
  "sample_plane = \<lparr>pe_Identity = ''infra'', pe_Role = ''r'', pe_Objects = [sample_object]\<rparr>"

definition sample_observed :: string where
  "sample_observed = print_json False (JObj [(''metadata'', JObj [(''uid'', JStr ''u''), (''resourceVersion'', JStr ''1'')])])"

definition sample_server :: "http_call list \<Rightarrow> answer" where
  "sample_server h = (if is_post (last h) then Answer sample_observed 201 else Answer [] 404)"


definition sample_client :: KubernetesClient where
  "sample_client = \<lparr>kc_authority = ''infra'', kc_mismatchConfirmationDelay = objectMismatchConfirmationDelay,
     kc_mismatchConfirmationAttempts = 900\<rparr>"


lemma sample_verifies: "verifyObservedObject sample_observed sample_object = Inr ''u''"
  by code_simp

lemma sample_submit:
  "Submit (recording sample_server (\<lambda>h. Waited) (\<lambda>h. False)) sample_client sample_plane [] =
    ((\<lparr>pr_Format = PlaneReceiptFormat, pr_Authority = ''infra'', pr_Role = ''r'', pr_State = ''SUBMITTED'',
       pr_MutationState = ''ATTEMPTED'', pr_Results = Some [object_result sample_object ''u'' ''CREATED''],
       pr_MismatchEvidence = None\<rparr>, None), [get_of sample_object, post_of sample_object])"
proof -
  have "length sample_observed < 100" by code_simp
  then have small: "length sample_observed \<le> maximumAPIResponseBytes" by (simp add: maximumAPIResponseBytes_def)
  show ?thesis
    proof -
      let ?tr = "recording sample_server (\<lambda>h. Waited) (\<lambda>h. False)"
      have g: "client_request ?tr (get_of sample_object) [] = (Inr ([], 404), [get_of sample_object])"
        by (simp add: client_request_def sample_server_def)
      have p: "client_request ?tr (post_of sample_object) [get_of sample_object]
          = (Inr (sample_observed, 201), [get_of sample_object, post_of sample_object])"
        using small by (simp add: client_request_def sample_server_def)
      have "submitObject ?tr sample_client sample_object []
          = ((True, Inr (''CREATED'', ''u'')), [get_of sample_object, post_of sample_object])"
        using sample_verifies by (simp add: submitObject_def create_object_def g p)
      then show ?thesis by (simp add: Submit_def sample_plane_def sample_client_def)
    qed
qed


lemma submission_accounts_for_creates_witness:
  "\<exists>calls. [get_of sample_object, post_of sample_object] = [] @ calls
    \<and> subseq (filter is_post calls) (map post_of (pe_Objects sample_plane))"
  using submission_accounts_for_creates [OF sample_submit] by blast

lemma submitted_is_complete_witness:
  "list_all2 result_for (pe_Objects sample_plane) [object_result sample_object ''u'' ''CREATED'']"
  using submitted_is_complete [OF sample_submit] by simp


section \<open>Two planes\<close>





end
