(* ===== verification/ProjectionFacts.thy ===== *)
theory ProjectionFacts
  imports Projection "HOL-Library.Multiset"
begin

text \<open>
  Verified projections: what a successful verification establishes about the files, and that the
  re-verification at use accepts exactly the projection that was verified while the files are unchanged.
  \<open>arrange\<close> is the order in which a Go map is iterated; it only has to be a rearrangement.
\<close>

section \<open>The artifact names of a manifest are distinct\<close>

lemma fold_option_inv:
  assumes "fold (\<lambda>x acc. Option.bind acc (f x)) xs (Some a) = Some b" and "P a"
    and "\<And>x u v. P u \<Longrightarrow> f x u = Some v \<Longrightarrow> P v"
  shows "P b"
  using assms(1,2)
proof (induction xs arbitrary: a)
  case (Cons x xs)
  have none: "fold (\<lambda>x acc. Option.bind acc (f x)) ys None = None" for ys by (induction ys) simp_all
  from Cons.prems(1) obtain c where c: "f x a = Some c"
    by (cases "f x a") (simp_all add: none)
  with Cons assms(3) show ?case by simp
qed simp

lemma dec_map_distinct:
  "distinct (map fst old) \<Longrightarrow> dec_map d z old j = Some m \<Longrightarrow> distinct (map fst m)"
proof (cases j)
  case (JObj kvs)
  assume o: "distinct (map fst old)" and d: "dec_map d z old j = Some m"
  show ?thesis
    by (rule fold_option_inv [OF d [unfolded dec_map_def JObj json.case], where P = "\<lambda>m. distinct (map fst m)"])
      (auto simp: o distinct_update split: bind_splits)
qed (auto simp: dec_map_def)

lemma manifest_names_distinct:
  assumes "strict_decode (dec_manifest zero_manifest) raw = Inr source"
  shows "distinct (map fst (mf_Artifacts source))"
proof -
  from assms obtain j where "dec_manifest zero_manifest j = Some source" by (auto simp: strict_decode_eq_Inr)
  then consider "source = zero_manifest"
    | ns kvs where "dec_field ns kvs ''artifacts'' (dec_map dec_string []) [] = Some (mf_Artifacts source)"
    by (auto simp: dec_manifest_def dec_struct_def Let_def zero_manifest_def
        split: json.splits if_splits bind_splits)
  then show ?thesis
  proof cases
    case 2
    show ?thesis
      by (rule fold_option_inv [OF 2 [unfolded dec_field_def], where P = "\<lambda>m. distinct (map fst m)"])
        (auto intro: dec_map_distinct)
  qed (simp add: zero_manifest_def)
qed

section \<open>Reading\<close>

abbreviation artifact_of :: "string \<times> string \<Rightarrow> Artifact" where
  "artifact_of p \<equiv> \<lparr>ar_Name = fst p, ar_Digest = snd p\<rparr>"

text \<open>The file of an artifact has the digest the manifest gives.\<close>

definition artifact_holds :: "(string \<Rightarrow> string option) \<Rightarrow> string \<Rightarrow> string \<times> string \<Rightarrow> bool" where
  "artifact_holds files root p \<longleftrightarrow> (\<exists>raw. files (path_join [root, fst p]) = Some raw \<and> SHA256 raw = snd p)"

definition authority_text :: "(string \<Rightarrow> string option) \<Rightarrow> string \<Rightarrow> string list \<Rightarrow> string option" where
  "authority_text files root names = (if ''authority-map.json'' \<in> set names
     then files (path_join [root, ''authority-map.json'']) else None)"

lemma read_artifacts_iff:
  "distinct (map fst xs) \<Longrightarrow> read_artifacts files root xs = Inr (arts, found) \<longleftrightarrow>
     list_all (\<lambda>p. validateArtifactName (fst p) = Inr () \<and> artifact_holds files root p) xs
     \<and> arts = map artifact_of xs \<and> found = authority_text files root (map fst xs)"
proof (induction xs arbitrary: arts found)
  case (Cons x xs)
  obtain n d where x: "x = (n, d)" by (cases x)
  have "authority_text files root (map fst xs) = None" if "n = ''authority-map.json''"
    using Cons.prems that by (auto simp: x authority_text_def)
  with Cons show ?case
    by (auto simp: x bindE_eq_Inr artifact_holds_def authority_text_def split: if_splits)
qed (auto simp: authority_text_def)

lemma reread_artifacts_iff:
  "distinct (map fst xs) \<Longrightarrow> reread_artifacts files root xs found = Inr r \<longleftrightarrow>
     list_all (artifact_holds files root) xs
     \<and> r = (if ''authority-map.json'' \<in> fst ` set xs then files (path_join [root, ''authority-map.json'']) else found)"
proof (induction xs arbitrary: found)
  case (Cons x xs)
  obtain n d where x: "x = (n, d)" by (cases x)
  from Cons show ?case
    by (auto simp: x bindE_eq_Inr artifact_holds_def split: if_splits)
qed auto

lemma artifact_digests_iff:
  "artifact_digests as m = Inr ds \<longleftrightarrow> ds = m @ map (\<lambda>a. (ar_Name a, ar_Digest a)) as
     \<and> list_all (\<lambda>a. validateArtifactName (ar_Name a) = Inr ()) as
     \<and> distinct (map ar_Name as) \<and> set (map ar_Name as) \<inter> fst ` set m = {}"
proof (induction as arbitrary: m)
  case (Cons a as)
  then show ?case by (auto simp: bindE_eq_Inr)
qed auto

section \<open>Verification\<close>

lemma require_artifacts_iff: "require_artifacts m ns = Inr () \<longleftrightarrow> set requiredArtifacts \<subseteq> set ns"
proof -
  have "find (\<lambda>q. q \<notin> set ns) requiredArtifacts = None \<longleftrightarrow> set requiredArtifacts \<subseteq> set ns"
    by (simp add: find_None_iff subset_iff)
  then show ?thesis unfolding require_artifacts_def by (cases "find (\<lambda>q. q \<notin> set ns) requiredArtifacts") simp_all
qed

lemma Verify_facts:
  assumes v: "projection_Verify arrange files cwd manifestPath root revision identity = Inr b"
    and arrange: "\<And>xs. mset (arrange xs) = mset xs"
  obtains raw source absRoot authorityRaw a where
    "files manifestPath = Some raw" "strict_decode (dec_manifest zero_manifest) raw = Inr source"
    "mf_R source = revision" "mf_AuthorizationState source = ''NO-GO''"
    "path_abs cwd (if root = '''' then path_dir manifestPath else root) = Some absRoot"
    "list_all (\<lambda>p. validateArtifactName (fst p) = Inr () \<and> artifact_holds files absRoot p) (mf_Artifacts source)"
    "distinct (map fst (mf_Artifacts source))" "set requiredArtifacts \<subseteq> fst ` set (mf_Artifacts source)"
    "files (path_join [absRoot, ''authority-map.json'']) = Some authorityRaw"
    "strict_decode (dec_authority_map zero_authority_map) authorityRaw = Inr a"
    "check_authority source a revision identity = Inr ()"
    "b = \<lparr>pb_Format = ProjectionBindingFormat, pb_SourceFormat = mf_Format source,
         pb_ManifestDigest = SHA256 raw, pb_AuthorityMapDigest = SHA256 authorityRaw,
         pb_IntentRevision = revision, pb_ContractIdentity = identity,
         pb_InfrastructurePlane = bound_plane (am_InfrastructurePlane a),
         pb_ManagementPlane = bound_plane (am_ManagementPlane a),
         pb_Artifacts = Some (sort_key ar_Name (map artifact_of (arrange (mf_Artifacts source))))\<rparr>"
proof -
  from v obtain raw source absRoot artifacts authorityRaw a where f:
    "files manifestPath = Some raw" "strict_decode (dec_manifest zero_manifest) raw = Inr source"
    "mf_R source = revision" "mf_AuthorizationState source = ''NO-GO''"
    "path_abs cwd (if root = '''' then path_dir manifestPath else root) = Some absRoot"
    and r: "read_artifacts files absRoot (arrange (mf_Artifacts source)) = Inr (artifacts, Some authorityRaw)"
    and q: "require_artifacts ''projection manifest does not bind %s'' (map fst (mf_Artifacts source)) = Inr ()"
    and g: "strict_decode (dec_authority_map zero_authority_map) authorityRaw = Inr a"
      "check_authority source a revision identity = Inr ()"
    and b: "b = \<lparr>pb_Format = ProjectionBindingFormat, pb_SourceFormat = mf_Format source,
         pb_ManifestDigest = SHA256 raw, pb_AuthorityMapDigest = SHA256 authorityRaw,
         pb_IntentRevision = revision, pb_ContractIdentity = identity,
         pb_InfrastructurePlane = bound_plane (am_InfrastructurePlane a),
         pb_ManagementPlane = bound_plane (am_ManagementPlane a),
         pb_Artifacts = Some (sort_key ar_Name artifacts)\<rparr>"
    unfolding projection_Verify_def Inr_conv by auto
  note d = manifest_names_distinct [OF f(2)]
  have s: "set (arrange xs) = set xs" for xs using arrange [of xs] by (metis set_mset_mset)
  have "mset (map fst (arrange (mf_Artifacts source))) = mset (map fst (mf_Artifacts source))"
    by (simp add: arrange)
  with d have d': "distinct (map fst (arrange (mf_Artifacts source)))" by (metis mset_eq_imp_distinct_iff)
  from r [unfolded read_artifacts_iff [OF d']]
  have l: "list_all (\<lambda>p. validateArtifactName (fst p) = Inr () \<and> artifact_holds files absRoot p) (mf_Artifacts source)"
    and arts: "artifacts = map artifact_of (arrange (mf_Artifacts source))"
    and au: "Some authorityRaw = authority_text files absRoot (map fst (arrange (mf_Artifacts source)))"
    by (auto simp: list_all_iff s)
  from q have n: "set requiredArtifacts \<subseteq> fst ` set (mf_Artifacts source)"
    by (simp add: require_artifacts_iff)
  from au have "files (path_join [absRoot, ''authority-map.json'']) = Some authorityRaw"
    by (auto simp: authority_text_def split: if_splits)
  from that [OF f l d n this g b [unfolded arts]] show thesis .
qed

lemma reverify_facts:
  assumes "ReverifyAtUse arrange files cwd root b = Inr b'" and arrange: "\<And>xs. mset (arrange xs) = mset xs"
  shows "\<exists>r authorityRaw. path_abs cwd root = Some r
    \<and> list_all (\<lambda>a. artifact_holds files r (ar_Name a, ar_Digest a)) (elems (pb_Artifacts b))
    \<and> files (path_join [r, ''authority-map.json'']) = Some authorityRaw \<and> SHA256 authorityRaw = pb_AuthorityMapDigest b"
proof -
  from assms(1) obtain r ds found where p: "path_abs cwd root = Some r"
    and d: "artifact_digests (elems (pb_Artifacts b)) [] = Inr ds"
    and q: "require_artifacts ''verified projection does not bind %s'' (map fst ds) = Inr ()"
    and f: "reread_artifacts files r (arrange ds) None = Inr found"
    and a: "SHA256 (case found of None \<Rightarrow> [] | Some raw \<Rightarrow> raw) = pb_AuthorityMapDigest b"
    unfolding ReverifyAtUse_def Inr_conv by auto
  have s: "set (arrange ds) = set ds" using arrange [of ds] by (metis set_mset_mset)
  from d have ds: "ds = map (\<lambda>a. (ar_Name a, ar_Digest a)) (elems (pb_Artifacts b))" "distinct (map fst ds)"
    by (auto simp: artifact_digests_iff comp_def)
  have "mset (map fst (arrange ds)) = mset (map fst ds)" by (simp add: arrange)
  with ds(2) have d': "distinct (map fst (arrange ds))" by (metis mset_eq_imp_distinct_iff)
  from f [unfolded reread_artifacts_iff [OF d']] have l: "list_all (artifact_holds files r) ds"
    and fd: "found = (if ''authority-map.json'' \<in> fst ` set ds then files (path_join [r, ''authority-map.json'']) else None)"
    by (auto simp: list_all_iff s)
  from q have m: "''authority-map.json'' \<in> fst ` set ds"
    by (simp add: require_artifacts_iff requiredArtifacts_def)
  with l have "\<exists>raw. files (path_join [r, ''authority-map.json'']) = Some raw"
    by (auto simp: list_all_iff artifact_holds_def)
  with fd m a have "\<exists>raw. files (path_join [r, ''authority-map.json'']) = Some raw \<and> SHA256 raw = pb_AuthorityMapDigest b"
    by auto
  moreover have "list_all (\<lambda>a. artifact_holds files r (ar_Name a, ar_Digest a)) (elems (pb_Artifacts b))"
    using l by (simp add: ds(1) list_all_iff)
  ultimately show ?thesis using p by blast
qed

lemma reverify_unchanged_lemma:
  assumes v: "projection_Verify arrange files cwd manifestPath root revision identity = Inr b"
    and arrange: "\<And>xs. mset (arrange xs) = mset xs" and arrange': "\<And>xs. mset (arrange' xs) = mset xs"
    and root: "root \<noteq> ''''"
  shows "ReverifyAtUse arrange' files cwd root b = Inr b"
proof -
  obtain raw source r authorityRaw a where m: "files manifestPath = Some raw"
      "strict_decode (dec_manifest zero_manifest) raw = Inr source" "mf_R source = revision" "mf_AuthorizationState source = ''NO-GO''"
    and f0: "path_abs cwd (if root = '''' then path_dir manifestPath else root) = Some r"
    "list_all (\<lambda>p. validateArtifactName (fst p) = Inr () \<and> artifact_holds files r p) (mf_Artifacts source)"
    "distinct (map fst (mf_Artifacts source))" "set requiredArtifacts \<subseteq> fst ` set (mf_Artifacts source)"
    "files (path_join [r, ''authority-map.json'']) = Some authorityRaw"
    "strict_decode (dec_authority_map zero_authority_map) authorityRaw = Inr a"
    "check_authority source a revision identity = Inr ()"
    and b: "b = \<lparr>pb_Format = ProjectionBindingFormat, pb_SourceFormat = mf_Format source,
         pb_ManifestDigest = SHA256 raw, pb_AuthorityMapDigest = SHA256 authorityRaw,
         pb_IntentRevision = revision, pb_ContractIdentity = identity,
         pb_InfrastructurePlane = bound_plane (am_InfrastructurePlane a),
         pb_ManagementPlane = bound_plane (am_ManagementPlane a),
         pb_Artifacts = Some (sort_key ar_Name (map artifact_of (arrange (mf_Artifacts source))))\<rparr>"
    by (rule Verify_facts [OF v arrange])
  have "path_abs cwd root = Some r" using f0(1) root by simp
  note f = this f0(2-7)
  define as where "as = sort_key ar_Name (map artifact_of (arrange (mf_Artifacts source)))"
  define ds where "ds = map (\<lambda>a. (ar_Name a, ar_Digest a)) as"
  have "mset ds = mset (mf_Artifacts source)"
    unfolding ds_def as_def by (simp add: arrange multiset.map_comp comp_def)
  then have sd: "set ds = set (mf_Artifacts source)" and "mset (map fst ds) = mset (map fst (mf_Artifacts source))"
    by (metis set_mset_mset, simp)
  with f(3) have dd: "distinct (map fst ds)" by (metis mset_eq_imp_distinct_iff)
  have names: "map ar_Name as = map fst ds" by (simp add: ds_def comp_def)
  have "list_all (\<lambda>p. validateArtifactName (fst p) = Inr ()) ds" using f(2) by (auto simp: list_all_iff sd)
  then have "list_all (\<lambda>a. validateArtifactName (ar_Name a) = Inr ()) as" by (simp add: ds_def list_all_iff)
  moreover have "distinct (map ar_Name as)" unfolding names by (rule dd)
  ultimately have dg: "artifact_digests as [] = Inr ds" by (simp add: artifact_digests_iff ds_def)
  have rq: "require_artifacts m (map fst ds) = Inr ()" for m
    using f(4) by (simp add: require_artifacts_iff sd)
  have sa: "set (arrange' ds) = set ds" using arrange' [of ds] by (metis set_mset_mset)
  have "mset (map fst (arrange' ds)) = mset (map fst ds)" by (simp add: arrange')
  with dd have da: "distinct (map fst (arrange' ds))" by (metis mset_eq_imp_distinct_iff)
  have am: "''authority-map.json'' \<in> fst ` set (arrange' ds)" using f(4) by (auto simp: requiredArtifacts_def sa sd)
  have rr: "reread_artifacts files r (arrange' ds) None = Inr (Some authorityRaw)"
    using f(2,5) am by (auto simp: reread_artifacts_iff [OF da] list_all_iff sa sd)
  note ca = f(7) [unfolded check_authority_def Inr_conv]
  have same: "b\<lparr>pb_InfrastructurePlane := (pb_InfrastructurePlane b)\<lparr>pn_Resources :=
          exportResources (elems (pl_Resources (am_InfrastructurePlane a)))\<rparr>,
        pb_ManagementPlane := (pb_ManagementPlane b)\<lparr>pn_Resources :=
          exportResources (elems (pl_Resources (am_ManagementPlane a)))\<rparr>\<rparr> = b"
    by (simp add: b bound_plane_def)
  have pb: "elems (pb_Artifacts b) = as" "pb_Format b = ProjectionBindingFormat"
    "SHA256 authorityRaw = pb_AuthorityMapDigest b" "plane_matches (am_InfrastructurePlane a) (pb_InfrastructurePlane b)"
    "plane_matches (am_ManagementPlane a) (pb_ManagementPlane b)" "pb_IntentRevision b = revision"
    "pb_ContractIdentity b = identity" "pb_SourceFormat b = mf_Format source"
    by (simp_all add: b as_def bound_plane_def plane_matches_def)
  show ?thesis
    unfolding ReverifyAtUse_def Let_def
    using pb root f(1,6) dg rq rr ca same by simp
qed


section \<open>The properties of a verified projection\<close>


text \<open>
  Re-verification notices every change. When \<open>ReverifyAtUse\<close> accepts a binding, each artifact of
  the binding is a file below the root that still has the digest of the binding, and the authority map
  that is used has the digest that was verified.
\<close>

theorem reverification_checks_every_artifact:
  assumes "ReverifyAtUse arrange files cwd root b = Inr b'" and "\<And>xs. mset (arrange xs) = mset xs"
  shows "\<exists>r authorityRaw. path_abs cwd root = Some r
    \<and> list_all (\<lambda>a. artifact_holds files r (ar_Name a, ar_Digest a)) (elems (pb_Artifacts b))
    \<and> files (path_join [r, ''authority-map.json'']) = Some authorityRaw \<and> SHA256 authorityRaw = pb_AuthorityMapDigest b"
  by (rule reverify_facts [OF assms])

text \<open>
  Re-verification accepts what was verified. As long as the files are the same, \<open>ReverifyAtUse\<close>
  at the same root returns exactly the binding that \<open>Verify\<close> returned, in whatever order the maps are
  iterated.
\<close>

theorem reverify_returns_verified:
  assumes "projection_Verify arrange files cwd manifestPath root revision identity = Inr b"
    and "\<And>xs. mset (arrange xs) = mset xs" and "\<And>xs. mset (arrange' xs) = mset xs" and "root \<noteq> ''''"
  shows "ReverifyAtUse arrange' files cwd root b = Inr b"
  by (rule reverify_unchanged_lemma [OF assms])

section \<open>A concrete projection\<close>

definition sample_plane_json :: "string \<Rightarrow> string \<Rightarrow> string \<Rightarrow> string \<Rightarrow> json" where
  "sample_plane_json identity role kind name = JObj [(''identity'', JStr identity), (''role'', JStr role),
     (''resources'', JArr [JObj [(''apiVersion'', JStr ''v1''), (''kind'', JStr kind), (''name'', JStr name)]])]"

definition sample_authority_json :: json where
  "sample_authority_json = JObj [(''format'', JStr ''ok141-contract-to-capi-projection/v2''),
     (''contractIdentity'', JObj [(''namespace'', JStr ''n''), (''name'', JStr ''c'')]), (''intentRevision'', JStr ''r''),
     (''infrastructurePlane'', sample_plane_json ''infra'' infrastructureRole ''Namespace'' ''a''),
     (''managementPlane'', sample_plane_json ''mgmt'' managementRole ''Namespace'' ''b'')]"

definition sample_authority_raw :: string where
  "sample_authority_raw = print_json False sample_authority_json"

definition sample_authority :: authorityMap where
  "sample_authority = \<lparr>am_Format = ''ok141-contract-to-capi-projection/v2'',
     am_ContractIdentity = \<lparr>i_Namespace = ''n'', i_Name = ''c''\<rparr>, am_IntentRevision = ''r'',
     am_InfrastructurePlane = \<lparr>pl_Identity = ''infra'', pl_Role = infrastructureRole, pl_Resources = Some
       [\<lparr>re_APIVersion = ''v1'', re_Kind = ''Namespace'', re_Name = ''a'', re_Namespace = ''''\<rparr>]\<rparr>,
     am_ManagementPlane = \<lparr>pl_Identity = ''mgmt'', pl_Role = managementRole, pl_Resources = Some
       [\<lparr>re_APIVersion = ''v1'', re_Kind = ''Namespace'', re_Name = ''b'', re_Namespace = ''''\<rparr>]\<rparr>,
     am_ProviderAccess = JNull, am_ExcludedRendererArtifacts = JNull\<rparr>"

definition sample_manifest_json :: "string \<Rightarrow> string \<Rightarrow> string \<Rightarrow> json" where
  "sample_manifest_json da di dm = JObj [(''format'', JStr ''ok141-contract-to-capi-projection/v2''), (''R'', JStr ''r''),
     (''authorizationState'', JStr ''NO-GO''),
     (''artifacts'', JObj [(''authority-map.json'', JStr da), (''ok-infra-prerequisites.yaml'', JStr di),
        (''ok-mgmt-lifecycle.yaml'', JStr dm)]),
     (''objectSets'', JObj [(''okInfraPrerequisites'', JObj [(''count'', JNum ''1''), (''digest'', JStr di)]),
        (''okMgmtLifecycle'', JObj [(''count'', JNum ''1''), (''digest'', JStr dm)])])]"

definition sample_manifest :: "string \<Rightarrow> string \<Rightarrow> string \<Rightarrow> manifest" where
  "sample_manifest da di dm = \<lparr>mf_Format = ''ok141-contract-to-capi-projection/v2'', mf_R = ''r'',
     mf_AuthorizationState = ''NO-GO'', mf_Artifacts = [(''authority-map.json'', da),
       (''ok-infra-prerequisites.yaml'', di), (''ok-mgmt-lifecycle.yaml'', dm)],
     mf_ObjectSets = [(''okInfraPrerequisites'', \<lparr>os_Count = 1, os_Digest = di\<rparr>),
       (''okMgmtLifecycle'', \<lparr>os_Count = 1, os_Digest = dm\<rparr>)], mf_ProviderAccess = JNull, mf_Source = JNull\<rparr>"

lemma sample_decodes:
  "dec_authority_map zero_authority_map sample_authority_json = Some sample_authority"
  "dec_manifest zero_manifest (sample_manifest_json da di dm) = Some (sample_manifest da di dm)"
  by code_simp+

lemma sample_authority_decodes: "strict_decode (dec_authority_map zero_authority_map) sample_authority_raw = Inr sample_authority"
proof -
  have "nums_ok sample_authority_json" "depth sample_authority_json \<le> max_nesting_depth"
    "sanitize_json sample_authority_json = sample_authority_json" "\<not> duplicate_key sample_authority_json"
    by code_simp+
  with parse_print [of sample_authority_json False] sample_decodes(1) show ?thesis
    by (simp add: strict_decode_def sample_authority_raw_def)
qed


abbreviation sample_digests :: "(string \<Rightarrow> string \<Rightarrow> string \<Rightarrow> 'a) \<Rightarrow> 'a" where
  "sample_digests f \<equiv> f (SHA256 sample_authority_raw) (SHA256 ''infra'') (SHA256 ''mgmt'')"

definition sample_manifest_raw :: string where
  "sample_manifest_raw = print_json False (sample_digests sample_manifest_json)"

definition sample_files :: "string \<Rightarrow> string option" where
  "sample_files = [''/p/m.json'' \<mapsto> sample_manifest_raw, ''/p/authority-map.json'' \<mapsto> sample_authority_raw,
     ''/p/ok-infra-prerequisites.yaml'' \<mapsto> ''infra'', ''/p/ok-mgmt-lifecycle.yaml'' \<mapsto> ''mgmt'']"

definition sample_projection :: ProjectionBinding where
  "sample_projection = \<lparr>pb_Format = ProjectionBindingFormat, pb_SourceFormat = ''ok141-contract-to-capi-projection/v2'',
     pb_ManifestDigest = SHA256 sample_manifest_raw, pb_AuthorityMapDigest = SHA256 sample_authority_raw,
     pb_IntentRevision = ''r'', pb_ContractIdentity = \<lparr>i_Namespace = ''n'', i_Name = ''c''\<rparr>,
     pb_InfrastructurePlane = bound_plane (am_InfrastructurePlane sample_authority),
     pb_ManagementPlane = bound_plane (am_ManagementPlane sample_authority),
     pb_Artifacts = Some (sort_key ar_Name (map artifact_of (mf_Artifacts (sample_digests sample_manifest))))\<rparr>"

lemma sample_manifest_decodes:
  "strict_decode (dec_manifest zero_manifest) sample_manifest_raw = Inr (sample_digests sample_manifest)"
proof -
  have d: "valid_utf8 (SHA256 x)" for x by (rule valid_utf8_digest) simp
  have n: "nums_ok (sample_manifest_json da di dm)" "depth (sample_manifest_json da di dm) \<le> max_nesting_depth"
    "\<not> duplicate_key (sample_manifest_json da di dm)" for da di dm
    by code_simp+
  have lit: "sanitize x = x" if "x \<in> set [''format'', ''R'', ''authorityMap'', ''authorizationState'', ''artifacts'',
      ''authority-map.json'', ''ok-infra-prerequisites.yaml'', ''ok-mgmt-lifecycle.yaml'', ''objectSets'',
      ''okInfraPrerequisites'', ''okMgmtLifecycle'', ''count'', ''digest'', ''r'', ''NO-GO'',
      ''ok141-contract-to-capi-projection/v2'']" for x
    using that by (intro valid_utf8_ascii [unfolded valid_utf8_def]) (auto simp: is_ascii_def)
  have "sanitize_json (sample_digests sample_manifest_json) = sample_digests sample_manifest_json"
    using d by (simp add: sample_manifest_json_def lit valid_utf8_def)
  with parse_print [OF n(1,2), of False "SHA256 sample_authority_raw" "SHA256 ''infra''" "SHA256 ''mgmt''"]
    sample_decodes(2) n(3)
  show ?thesis by (simp add: strict_decode_def sample_manifest_raw_def)
qed

lemma sample_paths:
  "path_abs None ''/p'' = Some ''/p''" "path_join [''/p'', ''authority-map.json''] = ''/p/authority-map.json''"
  "path_join [''/p'', ''ok-infra-prerequisites.yaml''] = ''/p/ok-infra-prerequisites.yaml''"
  "path_join [''/p'', ''ok-mgmt-lifecycle.yaml''] = ''/p/ok-mgmt-lifecycle.yaml''"
  "validateArtifactName ''authority-map.json'' = Inr ()" "validateArtifactName ''ok-infra-prerequisites.yaml'' = Inr ()"
  "validateArtifactName ''ok-mgmt-lifecycle.yaml'' = Inr ()"
  by code_simp+

lemma sample_digest_shape: "take 7 (SHA256 x) = ''sha256:''" "length (SHA256 x) = 71"
proof -
  have d: "digest_pattern (SHA256 x)" by simp
  then show "take 7 (SHA256 x) = ''sha256:''" by (simp add: digest_pattern_def)
  have "length (take 7 (SHA256 x)) = 7" using d by (simp add: digest_pattern_def)
  with d show "length (SHA256 x) = 71" by (auto simp: digest_pattern_def hex64_def min_def split: if_splits)
qed

lemma sample_projection_verifies:
  "projection_Verify (\<lambda>xs. xs) sample_files None ''/p/m.json'' ''/p'' ''r'' \<lparr>i_Namespace = ''n'', i_Name = ''c''\<rparr>
     = Inr sample_projection"
proof -
  have f: "sample_files ''/p/m.json'' = Some sample_manifest_raw"
    "sample_files ''/p/authority-map.json'' = Some sample_authority_raw"
    "sample_files ''/p/ok-infra-prerequisites.yaml'' = Some ''infra''"
    "sample_files ''/p/ok-mgmt-lifecycle.yaml'' = Some ''mgmt''"
    by (simp_all add: sample_files_def)
  have r: "read_artifacts sample_files ''/p'' (mf_Artifacts (sample_digests sample_manifest))
      = Inr (map artifact_of (mf_Artifacts (sample_digests sample_manifest)), Some sample_authority_raw)"
    by (simp add: sample_manifest_def sample_paths f)
  have q: "require_artifacts m (map fst (mf_Artifacts (sample_digests sample_manifest))) = Inr ()" for m
    by (simp add: require_artifacts_iff requiredArtifacts_def sample_manifest_def)
  have c: "check_authority (sample_digests sample_manifest) sample_authority ''r'' \<lparr>i_Namespace = ''n'', i_Name = ''c''\<rparr> = Inr ()"
    by (simp add: check_authority_def sample_manifest_def sample_authority_def validatePlane_def matchCount_def
        sample_digest_shape)
  show ?thesis
    using sample_manifest_decodes sample_authority_decodes r q c
    by (simp add: projection_Verify_def f(1) sample_paths(1) sample_projection_def sample_manifest_def [of _ _ _])
qed



lemma sample_reverified: "ReverifyAtUse rev sample_files None ''/p'' sample_projection = Inr sample_projection"
  by (rule reverify_unchanged_lemma [OF sample_projection_verifies]) simp_all

lemma reverification_checks_every_artifact_witness:
  "\<exists>authorityRaw. sample_files ''/p/authority-map.json'' = Some authorityRaw
    \<and> SHA256 authorityRaw = pb_AuthorityMapDigest sample_projection"
  using reverification_checks_every_artifact [OF sample_reverified] by (auto simp: sample_paths)

lemma reverify_returns_verified_witness:
  "ReverifyAtUse rev sample_files None ''/p'' sample_projection = Inr sample_projection"
  by (rule reverify_returns_verified [OF sample_projection_verifies]) simp_all

end
