(* ===== verification/SubmissionPlan.thy ===== *)
theory SubmissionPlan
  imports Submission Authorization ProjectionFacts
begin

text \<open>
  Loading a submission plan from a verified projection (\<open>src/internal/submission/plan.go\<close>). The YAML
  reader is a parameter: a text gives a sequence of documents, each a node tree and the Go value that
  the node decodes to. Reading files and resolving paths are parameters as in \<open>Projection\<close>.
\<close>

definition maximumProjectionArtifactBytes :: nat where "maximumProjectionArtifactBytes = 4 * 1024 * 1024"

section \<open>YAML documents\<close>

datatype yaml_node = YamlNode bool string "yaml_node list"

text \<open>
  The dynamic Go values a node can decode to. A float carries its JSON text when it has one;
  \<open>YOther\<close> is a value of any other type, named for the error message.
\<close>

datatype yaml_value =
    YNil | YBool bool | YString string | YInteger int | YFloat "string option"
  | YList "yaml_value list" | YMap "(string \<times> yaml_value) list" | YAnyMap "(yaml_value \<times> yaml_value) list"
  | YOther string

datatype yaml_document = YamlFails | YamlEmpty | YamlContent yaml_node "yaml_value option"

fun rejectAliases :: "yaml_node \<Rightarrow> unit result" where
  "rejectAliases (YamlNode a k c) =
     (if a \<or> k \<noteq> '''' then Inl (New ''projection YAML aliases and anchors are not accepted'')
      else bindE (mapE rejectAliases c) (\<lambda>_. Inr ()))"

fun jsonValue :: "yaml_value \<Rightarrow> yaml_value result" where
  "jsonValue (YMap kvs) = bindE (mapE (\<lambda>kv. bindE (jsonValue (snd kv)) (\<lambda>v. Inr (fst kv, v))) kvs) (\<lambda>m. Inr (YMap m))"
| "jsonValue (YAnyMap kvs) = bindE (mapE (\<lambda>kv. case fst kv of
       YString k \<Rightarrow> bindE (jsonValue (snd kv)) (\<lambda>v. Inr (k, v))
     | _ \<Rightarrow> Inl (New ''projection YAML contains a non-string map key'')) kvs) (\<lambda>m. Inr (YMap m))"
| "jsonValue (YList vs) = bindE (mapE jsonValue vs) (\<lambda>m. Inr (YList m))"
| "jsonValue (YOther t) = Inl (Errf ''projection YAML value type %T is not JSON-compatible'' [t])"
| "jsonValue v = Inr v"

text \<open>\<open>json.Marshal\<close> of such a value.\<close>

fun marshal :: "yaml_value \<Rightarrow> json option" where
  "marshal YNil = Some JNull"
| "marshal (YBool b) = Some (JBool b)"
| "marshal (YString s) = Some (JStr s)"
| "marshal (YInteger i) = Some (JNum (show_int i))"
| "marshal (YFloat t) = map_option JNum t"
| "marshal (YList vs) = map_option JArr (those (map marshal vs))"
| "marshal (YMap kvs) = map_option JObj (those (map (\<lambda>kv. map_option (Pair (fst kv)) (marshal (snd kv))) kvs))"
| "marshal _ = None"

definition canonicalJSON :: "yaml_value \<Rightarrow> string result" where
  "canonicalJSON v = bindE (of_option (New ''encode projection object'') (marshal v)) canonical_record"

section \<open>Routes\<close>

record route =
  rt_group :: string
  rt_version :: string
  rt_resource :: string
  rt_namespaced :: bool

definition allowedRoutes :: "(string \<times> route) list" where
  "allowedRoutes = [
     (''v1|Namespace'', \<lparr>rt_group = '''', rt_version = ''v1'', rt_resource = ''namespaces'', rt_namespaced = False\<rparr>),
     (''rbac.authorization.k8s.io/v1|Role'', \<lparr>rt_group = ''rbac.authorization.k8s.io'', rt_version = ''v1'',
        rt_resource = ''roles'', rt_namespaced = True\<rparr>),
     (''rbac.authorization.k8s.io/v1|RoleBinding'', \<lparr>rt_group = ''rbac.authorization.k8s.io'', rt_version = ''v1'',
        rt_resource = ''rolebindings'', rt_namespaced = True\<rparr>),
     (''cluster.x-k8s.io/v1beta2|Cluster'', \<lparr>rt_group = ''cluster.x-k8s.io'', rt_version = ''v1beta2'',
        rt_resource = ''clusters'', rt_namespaced = True\<rparr>),
     (''cluster.x-k8s.io/v1beta2|MachineDeployment'', \<lparr>rt_group = ''cluster.x-k8s.io'', rt_version = ''v1beta2'',
        rt_resource = ''machinedeployments'', rt_namespaced = True\<rparr>),
     (''infrastructure.cluster.x-k8s.io/v1alpha1|KubevirtCluster'',
        \<lparr>rt_group = ''infrastructure.cluster.x-k8s.io'', rt_version = ''v1alpha1'',
         rt_resource = ''kubevirtclusters'', rt_namespaced = True\<rparr>),
     (''infrastructure.cluster.x-k8s.io/v1alpha1|KubevirtMachineTemplate'',
        \<lparr>rt_group = ''infrastructure.cluster.x-k8s.io'', rt_version = ''v1alpha1'',
         rt_resource = ''kubevirtmachinetemplates'', rt_namespaced = True\<rparr>),
     (''controlplane.cluster.x-k8s.io/v1alpha3|TalosControlPlane'',
        \<lparr>rt_group = ''controlplane.cluster.x-k8s.io'', rt_version = ''v1alpha3'',
         rt_resource = ''taloscontrolplanes'', rt_namespaced = True\<rparr>),
     (''bootstrap.cluster.x-k8s.io/v1alpha3|TalosConfigTemplate'',
        \<lparr>rt_group = ''bootstrap.cluster.x-k8s.io'', rt_version = ''v1alpha3'',
         rt_resource = ''talosconfigtemplates'', rt_namespaced = True\<rparr>)]"

definition route_base :: "route \<Rightarrow> string" where
  "route_base r = (if rt_group r = '''' then ''/api/'' @ rt_version r
     else ''/apis/'' @ rt_group r @ ''/'' @ rt_version r)"

definition resourcePaths :: "ResourceIdentity \<Rightarrow> (string \<times> string) result" where
  "resourcePaths i =
     (case map_of allowedRoutes (ri_APIVersion i @ ''|'' @ ri_Kind i) of
        None \<Rightarrow> Inl (Errf ''resource %s %s is not in the CreateCluster submission allow-list'' [ri_APIVersion i, ri_Kind i])
      | Some r \<Rightarrow>
          if \<not> validName (ri_Name i) 253 then Inl (New ''projection resource name is invalid'')
          else if rt_namespaced r \<and> (\<not> validName (ri_Namespace i) 63 \<or> CHR ''.'' \<in> set (ri_Namespace i)) then
            Inl (New ''namespaced projection resource has an invalid namespace'')
          else if \<not> rt_namespaced r \<and> ri_Namespace i \<noteq> '''' then
            Inl (New ''cluster-scoped projection resource must not declare a namespace'')
          else let collection = route_base r
                 @ (if rt_namespaced r then ''/namespaces/'' @ ri_Namespace i else '''') @ ''/'' @ rt_resource r
            in Inr (collection, collection @ ''/'' @ ri_Name i))"

section \<open>Objects\<close>

fun map_fields :: "yaml_value \<Rightarrow> (string \<times> yaml_value) list" where
  "map_fields (YMap kvs) = kvs"
| "map_fields _ = []"

definition member :: "(string \<times> yaml_value) list \<Rightarrow> string \<Rightarrow> yaml_value" where
  "member kvs k = (case map_of kvs k of Some v \<Rightarrow> v | None \<Rightarrow> YNil)"

fun yaml_text :: "yaml_value \<Rightarrow> string" where
  "yaml_text (YString s) = s"
| "yaml_text _ = []"

definition forbidden_metadata :: "string list" where
  "forbidden_metadata = [''generateName'', ''uid'', ''resourceVersion'', ''generation'', ''creationTimestamp'',
     ''deletionTimestamp'', ''deletionGracePeriodSeconds'', ''managedFields'', ''ownerReferences'', ''finalizers'']"

definition validateObject :: "(string \<times> yaml_value) list \<Rightarrow> Identity \<Rightarrow> string \<Rightarrow> SubmissionObject result" where
  "validateObject value identity revision =
     (if ''status'' \<in> fst ` set value then Inl (New ''projection object must not contain status'')
      else let metadata = map_fields (member value ''metadata'');
               ri = \<lparr>ri_APIVersion = yaml_text (member value ''apiVersion''), ri_Kind = yaml_text (member value ''kind''),
                 ri_Name = yaml_text (member metadata ''name''), ri_Namespace = yaml_text (member metadata ''namespace'')\<rparr>;
               annotations = map_fields (member metadata ''annotations'')
        in if ri_APIVersion ri = '''' \<or> ri_Kind ri = '''' \<or> ri_Name ri = '''' then
             Inl (New ''projection object identity is incomplete'')
           else (case find (\<lambda>k. k \<in> fst ` set metadata) forbidden_metadata of
               Some k \<Rightarrow> Inl (Errf ''projection metadata.%s is not accepted'' [k])
             | None \<Rightarrow>
                 if member annotations ''openkubes.io/contract-name'' \<noteq> YString (i_Name identity)
                   \<or> member annotations ''openkubes.io/contract-namespace'' \<noteq> YString (i_Namespace identity)
                   \<or> member annotations ''openkubes.io/intent-revision'' \<noteq> YString revision then
                   Inl (New ''projection object lacks exact contract and intent annotations'')
                 else bindE (resourcePaths ri) (\<lambda>(collection, path).
                   bindE (canonicalJSON (YMap value)) (\<lambda>raw.
                   Inr \<lparr>ob_Identity = ri, ob_Digest = SHA256 raw, ob_CollectionPath = collection,
                     ob_ObjectPath = path, ob_Raw = raw\<rparr>))))"

fun decode_documents ::
  "yaml_document list \<Rightarrow> Identity \<Rightarrow> string \<Rightarrow> nat \<Rightarrow> SubmissionObject list result" where
  "decode_documents [] identity revision n = Inr []"
| "decode_documents (YamlFails # ds) identity revision n = Inl (New ''decode projection YAML'')"
| "decode_documents (YamlEmpty # ds) identity revision n = decode_documents ds identity revision n"
| "decode_documents (YamlContent node value # ds) identity revision n =
     bindE (rejectAliases node) (\<lambda>_.
     bindE (of_option (New ''decode projection object'') value) (\<lambda>decoded.
     bindE (jsonValue decoded) (\<lambda>v. (case v of
         YMap kvs \<Rightarrow> bindE (wrapE (''projection document '' @ show_nat (Suc n)) (validateObject kvs identity revision)) (\<lambda>object.
           bindE (decode_documents ds identity revision (Suc n)) (\<lambda>rest. Inr (object # rest)))
       | _ \<Rightarrow> Inl (New ''projection document is not a Kubernetes object'')))))"

definition decodeObjects ::
  "(string \<Rightarrow> yaml_document list) \<Rightarrow> string \<Rightarrow> ResourceIdentity list \<Rightarrow> Identity \<Rightarrow> string \<Rightarrow> SubmissionObject list result" where
  "decodeObjects yaml raw expected identity revision =
     bindE (decode_documents (yaml raw) identity revision 0) (\<lambda>objects.
       if length objects \<noteq> length expected then
         Inl (Errf ''projection contains %d objects, authority map requires %d''
           [show_nat (length objects), show_nat (length expected)])
       else if map ob_Identity objects \<noteq> expected then
         Inl (New ''projection object identity differs from authority map'')
       else Inr objects)"

section \<open>Planes\<close>

definition artifactDigest :: "Artifact list \<Rightarrow> string \<Rightarrow> string option" where
  "artifactDigest as name = map_option ar_Digest (find (\<lambda>a. ar_Name a = name) as)"

text \<open>\<open>opens path\<close>: nothing when the file does not open, else what \<open>Stat\<close> and reading give.\<close>

definition readBoundedArtifact :: "(string \<Rightarrow> (file_info option \<times> string option) option) \<Rightarrow> string \<Rightarrow> string result" where
  "readBoundedArtifact opens path =
     (case opens path of
        None \<Rightarrow> Inl (New ''read projection artifact'')
      | Some (info, content) \<Rightarrow> (case info of
          None \<Rightarrow> Inl (New ''inspect projection artifact'')
        | Some i \<Rightarrow>
            if \<not> f_regular i \<or> f_size i \<le> 0 \<or> f_size i > int maximumProjectionArtifactBytes then
              Inl (New ''projection artifact metadata is invalid'')
            else (case content of
                None \<Rightarrow> Inl (New ''read bounded projection artifact'')
              | Some raw \<Rightarrow>
                  if length (take (maximumProjectionArtifactBytes + 1) raw) > maximumProjectionArtifactBytes then
                    Inl (New ''read bounded projection artifact'')
                  else Inr raw)))"

definition loadPlane ::
  "(string \<Rightarrow> yaml_document list) \<Rightarrow> (string \<Rightarrow> (file_info option \<times> string option) option) \<Rightarrow> string \<Rightarrow> string
    \<Rightarrow> Plane \<Rightarrow> ProjectionBinding \<Rightarrow> string \<Rightarrow> SubmissionPlane result" where
  "loadPlane yaml opens root artifactName expected binding revision =
     (if pn_ResourceCount expected \<le> 0 \<or> pn_ResourceCount expected \<noteq> int (length (pn_Resources expected)) then
        Inl (New ''verified projection plane has no complete resource identities'')
      else bindE (of_option (Errf ''verified projection does not bind %s'' [artifactName])
          (artifactDigest (elems (pb_Artifacts binding)) artifactName)) (\<lambda>expectedDigest.
        bindE (readBoundedArtifact opens (path_join [root, artifactName])) (\<lambda>raw.
        if SHA256 raw \<noteq> expectedDigest then
          Inl (Errf ''projection artifact %s changed after verification'' [artifactName])
        else bindE (decodeObjects yaml raw (pn_Resources expected) (pb_ContractIdentity binding) revision) (\<lambda>objects.
          Inr \<lparr>pe_Identity = pn_Identity expected, pe_Role = pn_Role expected, pe_Objects = objects\<rparr>))))"

definition submission_Load ::
  "(string \<Rightarrow> yaml_document list) \<Rightarrow> (string \<Rightarrow> (file_info option \<times> string option) option)
    \<Rightarrow> ((string \<times> string) list \<Rightarrow> (string \<times> string) list) \<Rightarrow> (string \<Rightarrow> string option) \<Rightarrow> string option
    \<Rightarrow> string \<Rightarrow> ProjectionBinding \<Rightarrow> SubmissionPlan result" where
  "submission_Load yaml opens arrange files cwd root b =
     (if pb_Format b \<noteq> ProjectionBindingFormat then
        Inl (Errf ''projection binding format %q is not supported'' [pb_Format b])
      else if root = '''' then Inl (New ''projection root is required'')
      else bindE (of_option (New ''resolve projection root'') (path_abs cwd root)) (\<lambda>abs_root.
        if pn_Identity (pb_InfrastructurePlane b) = pn_Identity (pb_ManagementPlane b) then
          Inl (New ''submission authority identities must differ'')
        else bindE (wrapE ''reverify projection at use'' (ReverifyAtUse arrange files cwd abs_root b)) (\<lambda>binding.
        bindE (wrapE ''infrastructure submission plane'' (loadPlane yaml opens abs_root ''ok-infra-prerequisites.yaml''
            (pb_InfrastructurePlane binding) binding (pb_IntentRevision binding))) (\<lambda>infrastructure.
        bindE (wrapE ''management submission plane'' (loadPlane yaml opens abs_root ''ok-mgmt-lifecycle.yaml''
            (pb_ManagementPlane binding) binding (pb_IntentRevision binding))) (\<lambda>management.
        Inr \<lparr>su_Format = SubmissionPlanFormat, su_IntentRevision = pb_IntentRevision binding,
          su_AuthorityMapDigest = pb_AuthorityMapDigest binding, su_Infrastructure = infrastructure,
          su_Management = management\<rparr>)))))"


section \<open>What a loaded plan holds\<close>

text \<open>An object whose digest and routes are those of its own bytes and identity.\<close>

definition sound_object :: "SubmissionObject \<Rightarrow> bool" where
  "sound_object ob \<longleftrightarrow> ob_Digest ob = SHA256 (ob_Raw ob)
     \<and> resourcePaths (ob_Identity ob) = Inr (ob_CollectionPath ob, ob_ObjectPath ob)
     \<and> ri_APIVersion (ob_Identity ob) @ ''|'' @ ri_Kind (ob_Identity ob) \<in> fst ` set allowedRoutes"

lemma resourcePaths_allowed:
  "resourcePaths i = Inr p \<Longrightarrow> ri_APIVersion i @ ''|'' @ ri_Kind i \<in> fst ` set allowedRoutes"
  unfolding resourcePaths_def
  by (cases "map_of allowedRoutes (ri_APIVersion i @ ''|'' @ ri_Kind i)") (auto dest!: map_of_SomeD intro: rev_image_eqI)

lemma validateObject_sound:
  assumes "validateObject value identity revision = Inr ob"
  shows "sound_object ob" "''status'' \<notin> fst ` set value"
    "\<forall>k \<in> set forbidden_metadata. k \<notin> fst ` set (map_fields (member value ''metadata''))"
    "canonicalJSON (YMap value) = Inr (ob_Raw ob)"
proof -
  from assms obtain ri collection path raw where
    o: "ob = \<lparr>ob_Identity = ri, ob_Digest = SHA256 raw, ob_CollectionPath = collection, ob_ObjectPath = path, ob_Raw = raw\<rparr>"
    and p: "resourcePaths ri = Inr (collection, path)" and c: "canonicalJSON (YMap value) = Inr raw"
    and s: "''status'' \<notin> fst ` set value"
    and f: "find (\<lambda>k. k \<in> fst ` set (map_fields (member value ''metadata''))) forbidden_metadata = None"
    by (auto simp: validateObject_def Let_def bindE_eq_Inr split: if_splits option.splits)
  show "sound_object ob" using p resourcePaths_allowed [OF p] by (simp add: sound_object_def o)
  show "''status'' \<notin> fst ` set value" by (rule s)
  show "\<forall>k \<in> set forbidden_metadata. k \<notin> fst ` set (map_fields (member value ''metadata''))"
    using f by (auto simp: find_None_iff)
  show "canonicalJSON (YMap value) = Inr (ob_Raw ob)" using c by (simp add: o)
qed

lemma yaml_map_eq_Inr:
  "(case v of YNil \<Rightarrow> Inl e | YBool b \<Rightarrow> Inl e | YString s \<Rightarrow> Inl e | YInteger i \<Rightarrow> Inl e | YFloat t \<Rightarrow> Inl e
      | YList vs \<Rightarrow> Inl e | YMap kvs \<Rightarrow> f kvs | YAnyMap m \<Rightarrow> Inl e | YOther t \<Rightarrow> Inl e) = Inr x
    \<longleftrightarrow> (\<exists>kvs. v = YMap kvs \<and> f kvs = Inr x)"
  by (cases v) simp_all

lemma decode_documents_sound:
  "decode_documents ds identity revision n = Inr obs \<Longrightarrow> list_all sound_object obs"
proof (induction ds identity revision n arbitrary: obs rule: decode_documents.induct)
  case (4 node val ds identity revision n)
  from "4.prems" obtain decoded kvs ob rest where "rejectAliases node = Inr ()" "val = Some decoded"
    "jsonValue decoded = Inr (YMap kvs)" "validateObject kvs identity revision = Inr ob"
    "decode_documents ds identity revision (Suc n) = Inr rest" "obs = ob # rest"
    by (auto simp: bindE_eq_Inr yaml_map_eq_Inr)
  with "4.IH" validateObject_sound(1) show ?case by auto
qed auto

lemma loadPlane_sound:
  assumes "loadPlane yaml opens root name expected b revision = Inr plane"
  shows "list_all sound_object (pe_Objects plane)" "map ob_Identity (pe_Objects plane) = pn_Resources expected"
    "pe_Identity plane = pn_Identity expected" "pe_Role plane = pn_Role expected" "pe_Objects plane \<noteq> []"
    "\<exists>raw. artifactDigest (elems (pb_Artifacts b)) name = Some (SHA256 raw)
       \<and> decodeObjects yaml raw (pn_Resources expected) (pb_ContractIdentity b) revision = Inr (pe_Objects plane)"
proof -
  from assms obtain raw objects where a: "artifactDigest (elems (pb_Artifacts b)) name = Some (SHA256 raw)"
    "decodeObjects yaml raw (pn_Resources expected) (pb_ContractIdentity b) revision = Inr objects"
    "plane = \<lparr>pe_Identity = pn_Identity expected, pe_Role = pn_Role expected, pe_Objects = objects\<rparr>"
    "0 < pn_ResourceCount expected" "pn_ResourceCount expected = int (length (pn_Resources expected))"
    by (auto simp: loadPlane_def bindE_eq_Inr split: if_splits)
  then show "\<exists>raw. artifactDigest (elems (pb_Artifacts b)) name = Some (SHA256 raw)
       \<and> decodeObjects yaml raw (pn_Resources expected) (pb_ContractIdentity b) revision = Inr (pe_Objects plane)"
    by auto
  from a(2) have d: "decode_documents (yaml raw) (pb_ContractIdentity b) revision 0 = Inr objects"
    "map ob_Identity objects = pn_Resources expected"
    by (auto simp: decodeObjects_def bindE_eq_Inr split: if_splits)
  then show "list_all sound_object (pe_Objects plane)" "map ob_Identity (pe_Objects plane) = pn_Resources expected"
    "pe_Identity plane = pn_Identity expected" "pe_Role plane = pn_Role expected"
    using a(3) decode_documents_sound by simp_all
  show "pe_Objects plane \<noteq> []" using d(2) a(3-5) by auto
qed

lemma ReverifyAtUse_identities:
  "ReverifyAtUse arrange files cwd root b = Inr b' \<Longrightarrow>
     pn_Identity (pb_InfrastructurePlane b') = pn_Identity (pb_InfrastructurePlane b)
     \<and> pn_Identity (pb_ManagementPlane b') = pn_Identity (pb_ManagementPlane b)
     \<and> pb_IntentRevision b' = pb_IntentRevision b \<and> pb_AuthorityMapDigest b' = pb_AuthorityMapDigest b"
  by (auto simp: ReverifyAtUse_def Let_def bindE_eq_Inr split: if_splits)

text \<open>
  C25: a loaded plan creates what the projection allows and nothing else. Each plane belongs to its own
  authority, its objects are the resources that the re-verified authority map lists, in that order;
  every object is of an allow-listed kind, is sent to the routes of its own identity, and its digest is
  the digest of the bytes that are sent.
\<close>

theorem loaded_plan_sound:
  assumes "submission_Load yaml opens arrange files cwd root b = Inr plan"
  shows "pe_Identity (su_Infrastructure plan) \<noteq> pe_Identity (su_Management plan)
    \<and> list_all sound_object (pe_Objects (su_Infrastructure plan) @ pe_Objects (su_Management plan))
    \<and> su_IntentRevision plan = pb_IntentRevision b \<and> su_AuthorityMapDigest plan = pb_AuthorityMapDigest b
    \<and> (\<exists>abs_root b'. path_abs cwd root = Some abs_root \<and> ReverifyAtUse arrange files cwd abs_root b = Inr b'
       \<and> map ob_Identity (pe_Objects (su_Infrastructure plan)) = pn_Resources (pb_InfrastructurePlane b')
       \<and> map ob_Identity (pe_Objects (su_Management plan)) = pn_Resources (pb_ManagementPlane b'))"
proof -
  from assms obtain r b' infra mgmt where
    l: "path_abs cwd root = Some r" "pn_Identity (pb_InfrastructurePlane b) \<noteq> pn_Identity (pb_ManagementPlane b)"
      "ReverifyAtUse arrange files cwd r b = Inr b'"
      "loadPlane yaml opens r ''ok-infra-prerequisites.yaml'' (pb_InfrastructurePlane b') b' (pb_IntentRevision b') = Inr infra"
      "loadPlane yaml opens r ''ok-mgmt-lifecycle.yaml'' (pb_ManagementPlane b') b' (pb_IntentRevision b') = Inr mgmt"
    and p: "plan = \<lparr>su_Format = SubmissionPlanFormat, su_IntentRevision = pb_IntentRevision b',
          su_AuthorityMapDigest = pb_AuthorityMapDigest b', su_Infrastructure = infra, su_Management = mgmt\<rparr>"
    by (auto simp: submission_Load_def bindE_eq_Inr split: if_splits)
  from loadPlane_sound [OF l(4)] loadPlane_sound [OF l(5)] ReverifyAtUse_identities [OF l(3)] l(1-3) p
  show ?thesis by auto
qed


section \<open>A concrete plan\<close>

definition sample_document :: "string \<Rightarrow> (string \<times> yaml_value) list" where
  "sample_document name = [(''apiVersion'', YString ''v1''), (''kind'', YString ''Namespace''),
     (''metadata'', YMap [(''name'', YString name), (''annotations'', YMap [
        (''openkubes.io/contract-name'', YString ''c''), (''openkubes.io/contract-namespace'', YString ''n''),
        (''openkubes.io/intent-revision'', YString ''r'')])])]"

definition sample_yaml :: "string \<Rightarrow> yaml_document list" where
  "sample_yaml raw = [YamlContent (YamlNode False '''' []) (Some (YMap (sample_document
     (if raw = ''infra'' then ''a'' else ''b''))))]"

definition sample_opens :: "string \<Rightarrow> (file_info option \<times> string option) option" where
  "sample_opens path = map_option (\<lambda>c. (Some \<lparr>f_regular = True, f_symlink = False, f_size = 5\<rparr>, Some c)) (sample_files path)"

abbreviation sample_json :: "string \<Rightarrow> json" where
  "sample_json name \<equiv> JObj [(''apiVersion'', JStr ''v1''), (''kind'', JStr ''Namespace''),
     (''metadata'', JObj [(''name'', JStr name), (''annotations'', JObj [
        (''openkubes.io/contract-name'', JStr ''c''), (''openkubes.io/contract-namespace'', JStr ''n''),
        (''openkubes.io/intent-revision'', JStr ''r'')])])]"

definition sample_planned :: "string \<Rightarrow> SubmissionObject" where
  "sample_planned name = \<lparr>ob_Identity = \<lparr>ri_APIVersion = ''v1'', ri_Kind = ''Namespace'', ri_Name = name, ri_Namespace = ''''\<rparr>,
     ob_Digest = SHA256 (canonical_text (sample_json name)), ob_CollectionPath = ''/api/v1/namespaces'',
     ob_ObjectPath = ''/api/v1/namespaces/'' @ name, ob_Raw = canonical_text (sample_json name)\<rparr>"

lemma sample_marshal: "marshal (YMap (sample_document name)) = Some (sample_json name)"
  by (simp add: sample_document_def)

lemma sample_canonical:
  assumes "name = ''a'' \<or> name = ''b''"
  shows "canonicalJSON (YMap (sample_document name)) = Inr (canonical_text (sample_json name))"
proof -
  have "record_json (sample_json ''a'')" "record_json (sample_json ''b'')" by code_simp+
  with assms have "record_json (sample_json name)" by blast
  from canonical_record_eq [OF this] show ?thesis
    unfolding canonicalJSON_def sample_marshal by (simp del: marshal.simps)
qed

lemma sample_validates:
  assumes "name = ''a'' \<or> name = ''b''"
  shows "validateObject (sample_document name) \<lparr>i_Namespace = ''n'', i_Name = ''c''\<rparr> ''r'' = Inr (sample_planned name)"
proof -
  have "resourcePaths \<lparr>ri_APIVersion = ''v1'', ri_Kind = ''Namespace'', ri_Name = ''a'', ri_Namespace = ''''\<rparr>
      = Inr (''/api/v1/namespaces'', ''/api/v1/namespaces/a'')"
    "resourcePaths \<lparr>ri_APIVersion = ''v1'', ri_Kind = ''Namespace'', ri_Name = ''b'', ri_Namespace = ''''\<rparr>
      = Inr (''/api/v1/namespaces'', ''/api/v1/namespaces/b'')"
    by code_simp+
  with assms have r: "resourcePaths \<lparr>ri_APIVersion = ''v1'', ri_Kind = ''Namespace'', ri_Name = name, ri_Namespace = ''''\<rparr>
      = Inr (''/api/v1/namespaces'', ''/api/v1/namespaces/'' @ name)" "name \<noteq> ''''" by auto
  have m: "member (sample_document name) ''apiVersion'' = YString ''v1''" "member (sample_document name) ''kind'' = YString ''Namespace''"
    "member (sample_document name) ''metadata'' = YMap [(''name'', YString name), (''annotations'', YMap [
        (''openkubes.io/contract-name'', YString ''c''), (''openkubes.io/contract-namespace'', YString ''n''),
        (''openkubes.io/intent-revision'', YString ''r'')])]" "''status'' \<notin> fst ` set (sample_document name)"
    by (simp_all add: sample_document_def member_def)
  show ?thesis
    unfolding validateObject_def m sample_canonical [OF assms]
    using r m(4) sample_canonical [OF assms] by (simp add: forbidden_metadata_def member_def sample_planned_def)
qed

lemma sample_plane_loads:
  assumes "name = ''a'' \<and> raw = ''infra'' \<and> artifact = ''ok-infra-prerequisites.yaml''
    \<or> name = ''b'' \<and> raw = ''mgmt'' \<and> artifact = ''ok-mgmt-lifecycle.yaml''"
    and "pn_Resources expected = [ob_Identity (sample_planned name)]" "pn_ResourceCount expected = 1"
  shows "loadPlane sample_yaml sample_opens ''/p'' artifact expected sample_projection ''r''
    = Inr \<lparr>pe_Identity = pn_Identity expected, pe_Role = pn_Role expected, pe_Objects = [sample_planned name]\<rparr>"
proof -
  from assms(1) have n: "name = ''a'' \<or> name = ''b''" "raw = ''infra'' \<longleftrightarrow> name = ''a''" by auto
  have t: "rejectAliases (YamlNode False '''' []) = Inr ()" by simp
  have j: "jsonValue (YMap (sample_document name)) = Inr (YMap (sample_document name))"
    by (simp add: sample_document_def)
  have d: "decodeObjects sample_yaml raw [ob_Identity (sample_planned name)] \<lparr>i_Namespace = ''n'', i_Name = ''c''\<rparr> ''r''
      = Inr [sample_planned name]"
    using assms(1) sample_validates [OF n(1)] j by (auto simp: decodeObjects_def sample_yaml_def)
  have a: "artifactDigest (elems (pb_Artifacts sample_projection)) artifact = Some (SHA256 raw)"
    using assms(1) by (auto simp: sample_projection_def sample_manifest_def artifactDigest_def sort_key_def)
  have f: "readBoundedArtifact sample_opens (path_join [''/p'', artifact]) = Inr raw"
    using assms(1) by (auto simp: sample_paths readBoundedArtifact_def sample_opens_def sample_files_def
        maximumProjectionArtifactBytes_def)
  show ?thesis using a f d assms(2,3) by (simp add: loadPlane_def sample_projection_def)
qed

definition sample_submission_plan :: SubmissionPlan where
  "sample_submission_plan = \<lparr>su_Format = SubmissionPlanFormat, su_IntentRevision = ''r'',
     su_AuthorityMapDigest = SHA256 sample_authority_raw,
     su_Infrastructure = \<lparr>pe_Identity = ''infra'', pe_Role = infrastructureRole, pe_Objects = [sample_planned ''a'']\<rparr>,
     su_Management = \<lparr>pe_Identity = ''mgmt'', pe_Role = managementRole, pe_Objects = [sample_planned ''b'']\<rparr>\<rparr>"

lemma sample_plan_loads:
  "submission_Load sample_yaml sample_opens rev sample_files None ''/p'' sample_projection = Inr sample_submission_plan"
proof -
  have b: "pb_Format sample_projection = ProjectionBindingFormat" "pb_IntentRevision sample_projection = ''r''"
    "pb_AuthorityMapDigest sample_projection = SHA256 sample_authority_raw"
    "pb_InfrastructurePlane sample_projection = bound_plane (am_InfrastructurePlane sample_authority)"
    "pb_ManagementPlane sample_projection = bound_plane (am_ManagementPlane sample_authority)"
    by (simp_all add: sample_projection_def)
  have r: "pn_Resources (bound_plane (am_InfrastructurePlane sample_authority)) = [ob_Identity (sample_planned ''a'')]"
    "pn_ResourceCount (bound_plane (am_InfrastructurePlane sample_authority)) = 1"
    "pn_Identity (bound_plane (am_InfrastructurePlane sample_authority)) = ''infra''"
    "pn_Role (bound_plane (am_InfrastructurePlane sample_authority)) = infrastructureRole"
    "pn_Resources (bound_plane (am_ManagementPlane sample_authority)) = [ob_Identity (sample_planned ''b'')]"
    "pn_ResourceCount (bound_plane (am_ManagementPlane sample_authority)) = 1"
    "pn_Identity (bound_plane (am_ManagementPlane sample_authority)) = ''mgmt''"
    "pn_Role (bound_plane (am_ManagementPlane sample_authority)) = managementRole"
    by (simp_all add: sample_authority_def sample_planned_def bound_plane_def exportResources_def)
  have i: "loadPlane sample_yaml sample_opens ''/p'' ''ok-infra-prerequisites.yaml''
      (bound_plane (am_InfrastructurePlane sample_authority)) sample_projection ''r''
      = Inr \<lparr>pe_Identity = ''infra'', pe_Role = infrastructureRole, pe_Objects = [sample_planned ''a'']\<rparr>"
    by (subst sample_plane_loads [of "''a''" "''infra''"]) (simp_all add: r)
  have m: "loadPlane sample_yaml sample_opens ''/p'' ''ok-mgmt-lifecycle.yaml''
      (bound_plane (am_ManagementPlane sample_authority)) sample_projection ''r''
      = Inr \<lparr>pe_Identity = ''mgmt'', pe_Role = managementRole, pe_Objects = [sample_planned ''b'']\<rparr>"
    by (subst sample_plane_loads [of "''b''" "''mgmt''"]) (simp_all add: r)
  show ?thesis
    using sample_reverified i m by (simp add: submission_Load_def sample_paths(1) b r sample_submission_plan_def)
qed

lemma loaded_plan_sound_witness:
  "pe_Identity (su_Infrastructure sample_submission_plan) \<noteq> pe_Identity (su_Management sample_submission_plan)"
  using loaded_plan_sound [OF sample_plan_loads] by blast

end
