(* ===== verification/Enablement.thy ===== *)
theory Enablement
  imports SubmissionPlan
begin

text \<open>
  The enablement plan (\<open>src/internal/submission/enablement.go\<close>): one externally rendered HelmChartProxy,
  read from a bounded file whose digest the staged plan binds. The YAML reader and the file system are
  parameters, as in \<open>SubmissionPlan\<close>.
\<close>

definition EnablementPlanFormat :: string where "EnablementPlanFormat = ''ok147-bounded-enablement-plan/v1''"

record EnablementExpected =
  ee_ArtifactDigest :: string
  ee_ContractIdentity :: Identity
  ee_IntentRevision :: string
  ee_EnablementRevision :: string
  ee_ExecutionFixture :: string
  ee_ManagementAuthority :: string
  ee_ObjectIdentity :: ResourceIdentity

record EnablementPlan =
  ep_Format :: string
  ep_IntentRevision :: string
  ep_EnablementRevision :: string
  ep_ExecutionFixture :: string
  ep_ArtifactDigest :: string
  ep_MutationAllowed :: bool
  ep_Management :: SubmissionPlane

section \<open>What is expected\<close>

definition validateEnablementExpected :: "EnablementExpected \<Rightarrow> unit result" where
  "validateEnablementExpected e =
     (if \<not> list_all digest_pattern [ee_ArtifactDigest e, ee_IntentRevision e, ee_EnablementRevision e, ee_ExecutionFixture e] then
        Inl (New ''enablement expected digest identity is invalid'')
      else if \<not> validName (i_Namespace (ee_ContractIdentity e)) 63 \<or> CHR ''.'' \<in> set (i_Namespace (ee_ContractIdentity e))
          \<or> \<not> validName (i_Name (ee_ContractIdentity e)) 253 then
        Inl (New ''enablement Contract identity is invalid'')
      else if \<not> validName (ee_ManagementAuthority e) 63 \<or> CHR ''.'' \<in> set (ee_ManagementAuthority e) then
        Inl (New ''enablement management authority is invalid'')
      else if ri_APIVersion (ee_ObjectIdentity e) \<noteq> ''addons.cluster.x-k8s.io/v1alpha1''
          \<or> ri_Kind (ee_ObjectIdentity e) \<noteq> ''HelmChartProxy''
          \<or> ri_Namespace (ee_ObjectIdentity e) \<noteq> i_Namespace (ee_ContractIdentity e)
          \<or> \<not> validName (ri_Name (ee_ObjectIdentity e)) 253 then
        Inl (New ''enablement object identity is invalid'')
      else Inr ())"

section \<open>The chart proxy\<close>

text \<open>
  \<open>strings.EqualFold\<close> against a lower-case ASCII word: simple case folding maps to its letters the capital
  letters, the long s and the Kelvin sign.
\<close>

definition lower_rune :: "nat \<Rightarrow> nat" where
  "lower_rune r = (if 65 \<le> r \<and> r \<le> 90 then r + 32 else if r = 0x17F then 115 else if r = 0x212A then 107 else r)"

definition equal_fold :: "string \<Rightarrow> string \<Rightarrow> bool" where
  "equal_fold s word \<longleftrightarrow> map (lower_rune \<circ> fst) (rune_chunks s) = map of_char word"

fun is_map :: "yaml_value \<Rightarrow> bool" where
  "is_map (YMap kvs) = True"
| "is_map _ = False"

text \<open>The guards in their order; a \<open>None\<close> is a guard that holds.\<close>

definition first_failure :: "goerror option list \<Rightarrow> unit result" where
  "first_failure checks = (case find (\<lambda>c. c \<noteq> None) checks of Some (Some e) \<Rightarrow> Inl e | _ \<Rightarrow> Inr ())"

abbreviation unless :: "bool \<Rightarrow> goerror \<Rightarrow> goerror option" where
  "unless b e \<equiv> (if b then None else Some e)"

definition validateHelmChartProxySpec :: "yaml_value \<Rightarrow> unit result" where
  "validateHelmChartProxySpec raw =
     (if \<not> is_map raw then Inl (New ''enablement HelmChartProxy spec is missing'')
      else let spec = map_fields raw;
               selector = map_fields (member spec ''clusterSelector'');
               labels = map_fields (member selector ''matchLabels'');
               repo = yaml_text (member spec ''repoURL'');
               options = map_fields (member spec ''options'')
        in first_failure
          ([unless (labels \<noteq> [] \<and> length selector = 1)
              (New ''enablement cluster selector must use non-empty matchLabels only''),
            unless (list_all (\<lambda>(k, v). k \<noteq> '''' \<and> yaml_text v \<noteq> '''') labels)
              (New ''enablement cluster selector label is invalid'')]
           @ map (\<lambda>k. unless (trim_space (yaml_text (member spec k)) \<noteq> '''')
                (Errf ''enablement HelmChartProxy spec.%s is required'' [k]))
               [''chartName'', ''releaseName'', ''namespace'', ''version'', ''valuesTemplate'']
           @ [unless (6 < length repo \<and> has_prefix repo ''oci://''
                \<and> \<not> list_ex (\<lambda>c. c \<in> {CHR '' '', CHR 0x09, CHR 0x0D, CHR 0x0A}) repo)
              (New ''enablement chart repository must be an explicit OCI source''),
            unless (\<not> equal_fold (yaml_text (member spec ''version'')) ''latest'')
              (New ''enablement chart version must be immutable''),
            unless (yaml_text (member spec ''reconcileStrategy'') = ''Continuous'')
              (New ''enablement reconcile strategy must be Continuous'')]
           @ map (\<lambda>k. unless (member options k = YBool True)
                (Errf ''enablement Helm option %s must be true'' [k])) [''atomic'', ''wait'', ''waitForJobs'']))"

definition required_carriers :: "EnablementExpected \<Rightarrow> (string \<times> string) list" where
  "required_carriers e = [
     (''openkubes.io/contract-name'', i_Name (ee_ContractIdentity e)),
     (''openkubes.io/contract-namespace'', i_Namespace (ee_ContractIdentity e)),
     (''openkubes.io/intent-revision'', ee_IntentRevision e),
     (''openkubes.io/enablement-revision'', ee_EnablementRevision e),
     (''openkubes.io/execution-fixture'', ee_ExecutionFixture e),
     (''openkubes.io/digest-enforcement'', ''external-evidence-required'')]"

text \<open>The order in which the required carriers are looked at (a map) only picks the message.\<close>

definition validateEnablementObject :: "(string \<times> yaml_value) list \<Rightarrow> EnablementExpected \<Rightarrow> SubmissionObject result" where
  "validateEnablementObject value e =
     (let metadata = map_fields (member value ''metadata'');
          annotations = map_fields (member metadata ''annotations'');
          identity = \<lparr>ri_APIVersion = yaml_text (member value ''apiVersion''), ri_Kind = yaml_text (member value ''kind''),
            ri_Name = yaml_text (member metadata ''name''), ri_Namespace = yaml_text (member metadata ''namespace'')\<rparr>;
          collection = ''/apis/addons.cluster.x-k8s.io/v1alpha1/namespaces/'' @ ri_Namespace identity @ ''/helmchartproxies''
      in bindE (first_failure
           ([unless (''status'' \<notin> fst ` set value) (New ''enablement object must not contain status''),
             unless (identity = ee_ObjectIdentity e) (New ''enablement object identity differs from the staged input'')]
            @ map (\<lambda>k. unless (k \<notin> fst ` set metadata) (Errf ''enablement metadata.%s is not accepted'' [k])) forbidden_metadata
            @ map (\<lambda>(k, want). unless (yaml_text (member annotations k) = want)
                 (Errf ''enablement object lacks exact %s carrier'' [k])) (required_carriers e)
            @ map (\<lambda>k. unless (digest_pattern (yaml_text (member annotations k)))
                 (Errf ''enablement object lacks immutable %s'' [k]))
                [''openkubes.io/oci-manifest-digest'', ''openkubes.io/chart-artifact-digest'', ''openkubes.io/values-digest'']))
         (\<lambda>_. bindE (validateHelmChartProxySpec (member value ''spec''))
         (\<lambda>_. bindE (canonicalJSON (YMap value)) (\<lambda>canonical.
           Inr \<lparr>ob_Identity = identity, ob_Digest = SHA256 canonical, ob_CollectionPath = collection,
             ob_ObjectPath = collection @ ''/'' @ ri_Name identity, ob_Raw = canonical\<rparr>))))"

text \<open>
  The first document must be there, and the next one may only be absent or empty; documents behind an
  empty second one are not looked at.
\<close>

definition decodeEnablementObject ::
  "(string \<Rightarrow> yaml_document list) \<Rightarrow> string \<Rightarrow> EnablementExpected \<Rightarrow> SubmissionObject result" where
  "decodeEnablementObject yaml raw e =
     (case yaml raw of
        [] \<Rightarrow> Inl (New ''decode enablement YAML'')
      | YamlFails # _ \<Rightarrow> Inl (New ''decode enablement YAML'')
      | YamlEmpty # _ \<Rightarrow> Inl (New ''enablement artifact is empty'')
      | YamlContent node decoded # trailing \<Rightarrow>
          bindE (rejectAliases node) (\<lambda>_.
          bindE (of_option (New ''decode enablement object'') decoded) (\<lambda>d.
          bindE (jsonValue d) (\<lambda>v.
            if \<not> is_map v then Inl (New ''enablement document is not a Kubernetes object'')
            else (case trailing of
                YamlFails # _ \<Rightarrow> Inl (New ''decode trailing enablement YAML'')
              | YamlContent _ _ # _ \<Rightarrow> Inl (New ''enablement artifact must contain exactly one object'')
              | _ \<Rightarrow> validateEnablementObject (map_fields v) e)))))"

text \<open>\<open>info\<close> is what \<open>Lstat\<close> sees, \<open>content\<close> what opening and reading give.\<close>

definition LoadEnablement ::
  "(string \<Rightarrow> yaml_document list) \<Rightarrow> file_info option \<Rightarrow> string option \<Rightarrow> EnablementExpected \<Rightarrow> EnablementPlan result" where
  "LoadEnablement yaml info content e =
     bindE (validateEnablementExpected e) (\<lambda>_.
     bindE (of_option (New ''inspect enablement artifact'') info) (\<lambda>i.
     if \<not> f_regular i \<or> f_symlink i \<or> f_size i \<le> 0 \<or> f_size i > int maximumProjectionArtifactBytes then
       Inl (New ''enablement artifact metadata is invalid'')
     else bindE (of_option (New ''open enablement artifact'') content) (\<lambda>raw.
     if length (take (maximumProjectionArtifactBytes + 1) raw) > maximumProjectionArtifactBytes then
       Inl (New ''read bounded enablement artifact'')
     else if SHA256 raw \<noteq> ee_ArtifactDigest e then
       Inl (New ''enablement artifact digest differs from staged input'')
     else bindE (decodeEnablementObject yaml raw e) (\<lambda>object.
       Inr \<lparr>ep_Format = EnablementPlanFormat, ep_IntentRevision = ee_IntentRevision e,
         ep_EnablementRevision = ee_EnablementRevision e, ep_ExecutionFixture = ee_ExecutionFixture e,
         ep_ArtifactDigest = ee_ArtifactDigest e, ep_MutationAllowed = False,
         ep_Management = \<lparr>pe_Identity = ee_ManagementAuthority e, pe_Role = ''enablement-desired-state-writer'',
           pe_Objects = [object]\<rparr>\<rparr>))))"

end
