(* ===== verification/StagedExecution.thy ===== *)
theory StagedExecution
  imports Submission StageCursor Ledger
begin

text \<open>
  The staged operation (\<open>src/internal/execution/staged.go\<close>): one mutating stage of a verified plan,
  from the cursor's decision and the stage grant through the durable claim, at most one call of the
  mutator, the durable outcome and the stage receipt. The world \<open>'w\<close> is everything the ledger, the
  mutator and the clock act on; the ledger is a store over it, the mutator a state transformer of it.
\<close>

section \<open>Data\<close>

record StageMutationBinding =
  mb_PlanDigest :: string
  mb_StageID :: string
  mb_StageDigest :: string
  mb_Operation :: string
  mb_Authority :: string
  mb_ContractRevision :: string

record StageMutationRequest =
  mq_Binding :: StageMutationBinding
  mq_ContractIdentity :: Identity
  mq_EnablementRevision :: string
  mq_PlatformRevision :: string
  mq_ExecutionFixture :: string
  mq_StageOrder :: int
  mq_ExecutionAttemptDigest :: string
  mq_AuthorizationDigest :: string
  mq_AuthorizationKeyID :: string
  mq_AuthorizationEnvelope :: string
  mq_GrantID :: string
  mq_PredecessorDigest :: string
  mq_StageClaim :: StageClaimReceipt
  mq_verifiedStageGrant :: bool

record StageMutationResult =
  ms_Outcome :: string
  ms_MutationState :: string
  ms_EvidenceDigest :: string
  ms_TargetClusterUIDDigest :: string
  ms_FailureCategory :: string
  ms_MismatchEvidence :: "SubmissionMismatchEvidence option"

record 'w StageMutator =
  mu_Binding :: StageMutationBinding
  mu_Mutate :: "StageMutationRequest \<Rightarrow> 'w \<Rightarrow> (StageMutationResult \<times> goerror option) \<times> 'w"

record 'w StagedOperation =
  op_Ledger :: "'w RecordStore option"
  op_Mutator :: "'w StageMutator option"
  op_Clock :: "('w \<Rightarrow> time) option"

record StagedOperationReceipt =
  sor_Format :: string
  sor_State :: string
  sor_PlanDigest :: string
  sor_StageID :: string
  sor_Claim :: "StageClaimReceipt option"
  sor_Outcome :: "StageOutcomeReceipt option"
  sor_StageReceiptDigest :: string
  sor_FailureCategory :: string
  sor_MismatchEvidence :: "SubmissionMismatchEvidence option"

text \<open>What \<open>Run\<close> returns beside the receipt: an error of a call, or a durable result other than success.\<close>

datatype staged_error =
    RunError goerror
  | StageResultError string string "SubmissionMismatchEvidence option"

definition StagedReceiptFormat :: string where
  "StagedReceiptFormat = ''ok147-staged-operation-run-receipt/v1''"

definition MaximumSubmissionMismatchEvidenceObservations :: int where
  "MaximumSubmissionMismatchEvidenceObservations = int objectMismatchMaximumAttempts"

section \<open>Redacted categories\<close>

text \<open>
  The languages of the three regular expressions: finitely many words, two of them followed by the
  two-digit position of an object.
\<close>

definition object_mismatch_words :: "string list" where
  "object_mismatch_words = [''MISMATCH'', ''IDENTITY_MISMATCH'', ''METADATA_MISMATCH'', ''SPEC_MISMATCH'',
     ''CONTENT_MISMATCH'', ''CONTENT_DATA_MISMATCH'', ''CONTENT_STRING_DATA_MISMATCH'', ''CONTENT_RULES_MISMATCH'',
     ''CONTENT_SUBJECTS_MISMATCH'', ''CONTENT_ROLE_REF_MISMATCH'', ''CONTENT_TYPE_MISMATCH'',
     ''CONTENT_OTHER_MISMATCH'']"

definition object_stop_words :: "string list" where
  "object_stop_words =
     map ((@) ''SUBMISSION_OBJECT_'')
       (object_mismatch_words @ map (\<lambda>m. m @ ''_CONVERGENCE_EXHAUSTED'') object_mismatch_words
        @ [''COMPARATOR_INCONSISTENT'', ''RESPONSE_INVALID'', ''PROJECTION_INVALID'', ''RUNTIME_IDENTITY_INVALID'',
           ''TERMINATING''])
     @ map ((@) ''SUBMISSION_CREATE_RESPONSE_'')
       ([''INVALID'', ''RESPONSE_INVALID'', ''PROJECTION_INVALID''] @ tl object_mismatch_words
        @ [''COMPARATOR_INCONSISTENT'', ''RUNTIME_IDENTITY_INVALID''])"

text \<open>\<open>w_AT_[0-9]{2}\<close> with \<open>w\<close> one of the given words.\<close>

definition at_position :: "string list \<Rightarrow> string \<Rightarrow> bool" where
  "at_position ws s = (let n = length s - 6; suffix = drop n s in
     length suffix = 6 \<and> take 4 suffix = ''_AT_'' \<and> list_all is_digit (drop 4 suffix) \<and> take n s \<in> set ws)"

definition submissionObjectStopCategoryPattern :: "string \<Rightarrow> bool" where
  "submissionObjectStopCategoryPattern = at_position object_stop_words"

definition submissionMismatchEvidenceCategoryPattern :: "string \<Rightarrow> bool" where
  "submissionMismatchEvidenceCategoryPattern s \<longleftrightarrow> s \<in> set (map ((@) ''SUBMISSION_OBJECT_'') object_mismatch_words)"

definition submissionMismatchEvidenceStopCategoryPattern :: "string \<Rightarrow> bool" where
  "submissionMismatchEvidenceStopCategoryPattern =
     at_position (map (\<lambda>m. ''SUBMISSION_OBJECT_'' @ m @ ''_CONVERGENCE_EXHAUSTED'') object_mismatch_words)"

definition submissionMismatchEvidenceRequired :: "string \<Rightarrow> bool" where
  "submissionMismatchEvidenceRequired category = submissionMismatchEvidenceStopCategoryPattern category"

definition plain_stop_categories :: "string list" where
  "plain_stop_categories = [''SUBMISSION_DNS_STOPPED'', ''SUBMISSION_CONNECT_STOPPED'', ''SUBMISSION_TLS_STOPPED'',
     ''SUBMISSION_TIMEOUT_STOPPED'', ''SUBMISSION_TRANSPORT_STOPPED'', ''SUBMISSION_HTTP_REJECTED'',
     ''SUBMISSION_HTTP_UNAUTHORIZED'', ''SUBMISSION_HTTP_FORBIDDEN'', ''SUBMISSION_HTTP_RATE_LIMITED'',
     ''SUBMISSION_HTTP_SERVER_ERROR'', ''SUBMISSION_RESPONSE_INVALID'', ''SUBMISSION_OBJECT_MISMATCH'',
     ''SUBMISSION_OBJECT_RESPONSE_INVALID'', ''SUBMISSION_OBJECT_PROJECTION_INVALID'',
     ''SUBMISSION_OBJECT_IDENTITY_MISMATCH'', ''SUBMISSION_OBJECT_METADATA_MISMATCH'',
     ''SUBMISSION_OBJECT_SPEC_MISMATCH'', ''SUBMISSION_OBJECT_CONTENT_MISMATCH'',
     ''SUBMISSION_OBJECT_RUNTIME_IDENTITY_INVALID'', ''SUBMISSION_CONFLICT_STOPPED'']"

definition validStageFailureCategory :: "string \<Rightarrow> bool" where
  "validStageFailureCategory category \<longleftrightarrow>
     submissionObjectStopCategoryPattern category \<or> category \<in> set plain_stop_categories"

definition validSubmissionMismatchEvidence :: "SubmissionMismatchEvidence option \<Rightarrow> bool" where
  "validSubmissionMismatchEvidence evidence = (case evidence of None \<Rightarrow> True | Some e \<Rightarrow>
     submissionMismatchEvidenceCategoryPattern (me_FirstCategory e)
     \<and> submissionMismatchEvidenceCategoryPattern (me_LastCategory e)
     \<and> 0 \<le> me_ObservationCount e \<and> me_ObservationCount e \<le> MaximumSubmissionMismatchEvidenceObservations
     \<and> digestPattern (me_ExpectedDigest e) \<and> digestPattern (me_LastObservedDigest e)
     \<and> me_RuntimeIdentityStable e)"

definition oneOf :: "string \<Rightarrow> string list \<Rightarrow> bool" where
  "oneOf v candidates \<longleftrightarrow> v \<in> set candidates"

definition validateStageMutationResult :: "string \<Rightarrow> StageMutationResult \<Rightarrow> goerror option \<Rightarrow> unit result" where
  "validateStageMutationResult stageID result mutationErr =
     (if \<not> oneOf (ms_Outcome result) [''SUCCEEDED'', ''FAILED'', ''STOPPED'']
         \<or> \<not> oneOf (ms_MutationState result) [''NOT_ATTEMPTED'', ''ATTEMPTED'', ''UNKNOWN'']
         \<or> \<not> digestPattern (ms_EvidenceDigest result) then
        Inl (New ''stage mutator returned an invalid redaction-safe result'')
      else if ms_Outcome result = ''SUCCEEDED'' \<and> (mutationErr \<noteq> None
         \<or> ms_MutationState result \<noteq> ''ATTEMPTED''
           \<and> \<not> (stageID = ''provider-prerequisites'' \<and> ms_MutationState result = ''NOT_ATTEMPTED'')) then
        Inl (New ''stage mutator reported an inconsistent successful result'')
      else if ms_FailureCategory result \<noteq> '''' \<and> (ms_Outcome result = ''SUCCEEDED''
         \<or> \<not> validStageFailureCategory (ms_FailureCategory result)) then
        Inl (New ''stage mutator returned an invalid redacted failure category'')
      else if \<not> validSubmissionMismatchEvidence (ms_MismatchEvidence result)
         \<or> ms_MismatchEvidence result \<noteq> None \<and> ms_Outcome result = ''SUCCEEDED'' then
        Inl (New ''stage mutator returned invalid redacted mismatch evidence'')
      else if (ms_MismatchEvidence result \<noteq> None) \<noteq> submissionMismatchEvidenceRequired (ms_FailureCategory result) then
        Inl (New ''stage mutator mismatch evidence differs from its stop category'')
      else if stageID = ''cluster-lifecycle'' \<and> ms_Outcome result = ''SUCCEEDED'' then
        (if \<not> digestPattern (ms_TargetClusterUIDDigest result) then
           Inl (New ''successful Cluster lifecycle mutation lacks a runtime identity digest'') else Inr ())
      else if ms_TargetClusterUIDDigest result \<noteq> '''' then
        Inl (New ''stage mutation returned runtime identity outside successful Cluster lifecycle'')
      else Inr ())"

section \<open>Run\<close>

type_synonym 'w run = "'w \<Rightarrow> (StagedOperationReceipt \<times> staged_error option) \<times> 'w"

text \<open>\<open>return receipt, err\<close>, and a call whose error is returned with the receipt as it stands.\<close>

definition give_up :: "StagedOperationReceipt \<Rightarrow> goerror \<Rightarrow> 'w run" where
  "give_up receipt e w = ((receipt, Some (RunError e)), w)"

definition or_return :: "StagedOperationReceipt \<Rightarrow> ('w, 'a) op \<Rightarrow> ('a \<Rightarrow> 'w run) \<Rightarrow> 'w run" where
  "or_return receipt m f w = (case m w of (Inl e, w') \<Rightarrow> give_up receipt e w' | (Inr x, w') \<Rightarrow> f x w')"

definition StagedOperation_finalize ::
  "'w RecordStore \<Rightarrow> StagedOperationReceipt \<Rightarrow> Binding \<Rightarrow> VerifiedStageGrant \<Rightarrow> Verified slice
    \<Rightarrow> StageOutcomeReceipt option \<Rightarrow> string \<Rightarrow> SubmissionMismatchEvidence option \<Rightarrow> 'w run" where
  "StagedOperation_finalize ledger receipt plan grant predecessors outcome failureCategory evidence =
     (case outcome of
        None \<Rightarrow> give_up receipt (New ''completed stage inspection has no durable outcome'')
      | Some v \<Rightarrow>
          or_return receipt (FinalizeStageReceipt ledger plan grant predecessors) (\<lambda>verified.
          or_return receipt (liftE (Verified_Digest verified)) (\<lambda>receiptDigest w.
            let final = receipt\<lparr>sor_Outcome := Some v, sor_StageReceiptDigest := receiptDigest,
                  sor_State := ''COMPLETED_'' @ so_Outcome v, sor_MismatchEvidence := evidence\<rparr>
            in ((final, if so_Outcome v \<noteq> ''SUCCEEDED''
                 then Some (StageResultError (sor_State final) failureCategory evidence) else None), w))))"

definition mutation_binding :: "StageConsumptionBinding \<Rightarrow> StageMutationBinding" where
  "mutation_binding b = \<lparr>mb_PlanDigest = sc_PlanDigest b, mb_StageID = sc_StageID b, mb_StageDigest = sc_StageDigest b,
     mb_Operation = sc_Operation b, mb_Authority = sc_Authority b, mb_ContractRevision = sc_ContractRevision b\<rparr>"

definition mutation_request ::
  "Binding \<Rightarrow> Decision \<Rightarrow> VerifiedStageGrant \<Rightarrow> StageConsumptionBinding \<Rightarrow> StageClaimReceipt \<Rightarrow> StageMutationRequest" where
  "mutation_request plan decision grant b claim = \<lparr>
     mq_Binding = mutation_binding b, mq_ContractIdentity = b_ContractIdentity plan,
     mq_EnablementRevision = b_EnablementRevision plan, mq_PlatformRevision = b_PlatformRevision plan,
     mq_ExecutionFixture = b_ExecutionFixture plan, mq_StageOrder = cd_StageOrder decision,
     mq_ExecutionAttemptDigest = b_ExecutionAttempt plan,
     mq_AuthorizationDigest = gr_AuthorizationDigest (vg_receipt grant),
     mq_AuthorizationKeyID = gr_KeyID (vg_receipt grant), mq_AuthorizationEnvelope = SignedEnvelope grant,
     mq_GrantID = sc_GrantID b, mq_PredecessorDigest = sc_PredecessorDigest b, mq_StageClaim = claim,
     mq_verifiedStageGrant = True\<rparr>"

text \<open>After the call of the mutator: check its answer, record the outcome, finalise.\<close>

definition record_result ::
  "'w RecordStore \<Rightarrow> ('w \<Rightarrow> time) \<Rightarrow> StagedOperationReceipt \<Rightarrow> Binding \<Rightarrow> string \<Rightarrow> VerifiedStageGrant
    \<Rightarrow> Verified slice \<Rightarrow> StageClaimReceipt \<Rightarrow> StageMutationResult \<Rightarrow> goerror option \<Rightarrow> 'w run" where
  "record_result ledger clock claimed plan stageID grant predecessors claim result mutationErr =
     or_return claimed (liftE (validateStageMutationResult stageID result mutationErr)) (\<lambda>_.
     let judged = claimed\<lparr>sor_FailureCategory := ms_FailureCategory result,
           sor_MismatchEvidence := ms_MismatchEvidence result\<rparr>
     in or_return judged (\<lambda>w. CompleteStageWithTarget ledger claim (ms_Outcome result) (ms_MutationState result)
          (ms_EvidenceDigest result) (ms_TargetClusterUIDDigest result) (clock w) w) (\<lambda>outcome.
        StagedOperation_finalize ledger (judged\<lparr>sor_Outcome := Some outcome\<rparr>) plan grant predecessors
          (Some outcome) (ms_FailureCategory result) (ms_MismatchEvidence result)))"

text \<open>From the claim on: claim, mutate once, record.\<close>

definition claim_and_mutate ::
  "'w RecordStore \<Rightarrow> 'w StageMutator \<Rightarrow> ('w \<Rightarrow> time) \<Rightarrow> StagedOperationReceipt \<Rightarrow> Binding \<Rightarrow> Decision
    \<Rightarrow> VerifiedStageGrant \<Rightarrow> Verified slice \<Rightarrow> StageConsumptionBinding \<Rightarrow> 'w run" where
  "claim_and_mutate ledger mutator clock receipt plan decision grant predecessors b =
     or_return receipt (\<lambda>w. ClaimStage ledger grant (clock w) w) (\<lambda>claim w1.
     let claimed = receipt\<lparr>sor_Claim := Some claim, sor_State := ''CLAIMED_INDETERMINATE_STOP''\<rparr>
     in (case mu_Mutate mutator (mutation_request plan decision grant b claim) w1 of
       ((result, mutationErr), w2) \<Rightarrow>
         record_result ledger clock claimed plan (cd_StageID decision) grant predecessors claim result mutationErr w2))"

text \<open>The switch over what the ledger says about the stage.\<close>

definition run_inspected ::
  "'w RecordStore \<Rightarrow> 'w StageMutator \<Rightarrow> ('w \<Rightarrow> time) \<Rightarrow> StagedOperationReceipt \<Rightarrow> Binding \<Rightarrow> Decision
    \<Rightarrow> VerifiedStageGrant \<Rightarrow> Verified slice \<Rightarrow> StageConsumptionBinding \<Rightarrow> StageInspection \<Rightarrow> 'w run" where
  "run_inspected ledger mutator clock bound plan decision grant predecessors b inspection =
     (if si_State inspection = ''COMPLETED'' then
        StagedOperation_finalize ledger bound plan grant predecessors (si_Outcome inspection) '''' None
      else if si_State inspection = ''AVAILABLE'' then
        (if \<not> si_ClaimAllowed inspection then give_up bound (New ''available stage grant is not claimable'')
         else claim_and_mutate ledger mutator clock bound plan decision grant predecessors b)
      else if si_State inspection = ''CLAIMED_INDETERMINATE_STOP'' then
        give_up (bound\<lparr>sor_State := ''CLAIMED_INDETERMINATE_STOP''\<rparr>)
          (New ''mutating stage was claimed without a durable outcome'')
      else give_up bound (New ''stage ledger returned an unsupported inspection state''))"

definition StagedOperation_Run ::
  "'w StagedOperation \<Rightarrow> Binding \<Rightarrow> Cursor \<Rightarrow> VerifiedStageGrant \<Rightarrow> 'w run" where
  "StagedOperation_Run operation plan cursor grant =
     (let receipt = \<lparr>sor_Format = StagedReceiptFormat, sor_State = ''PRECLAIM'', sor_PlanDigest = '''', sor_StageID = '''',
        sor_Claim = None, sor_Outcome = None, sor_StageReceiptDigest = '''', sor_FailureCategory = '''',
        sor_MismatchEvidence = None\<rparr>
      in or_return receipt (liftE (RequireExecutionEnabled plan)) (\<lambda>_.
      (case (op_Ledger operation, op_Mutator operation, op_Clock operation) of
         (Some ledger, Some mutator, Some clock) \<Rightarrow>
           or_return receipt (liftE (Cursor_Decision cursor)) (\<lambda>decision.
           if cd_State decision \<noteq> ''NEXT'' \<or> \<not> cd_RequiresAuthorization decision \<or> cd_Operation decision = '''' then
             give_up receipt (New ''stage cursor does not select an authorized mutating stage'')
           else or_return receipt (liftE (Cursor_Predecessors cursor)) (\<lambda>predecessors.
           or_return receipt (liftE (BindStageGrant grant plan (cd_StageID decision) predecessors)) (\<lambda>b.
           let bound = receipt\<lparr>sor_PlanDigest := sc_PlanDigest b, sor_StageID := sc_StageID b\<rparr> in
           if mu_Binding mutator \<noteq> mutation_binding b then
             give_up bound (New ''preconstructed mutator differs from the selected authorized stage'')
           else or_return bound (InspectStage ledger grant)
             (run_inspected ledger mutator clock bound plan decision grant predecessors b))))
       | _ \<Rightarrow> give_up receipt (New ''staged operation ledger, mutator, and clock are required''))))"

end
