(* ===== verification/SubmissionStage.thy ===== *)
theory SubmissionStage
  imports Enablement StagedExecution SubmissionFacts
begin

text \<open>
  The mutators of the stages that submit objects: the two projection planes
  (\<open>src/internal/execution/staged_submission.go\<close>) and the enablement object
  (\<open>src/internal/execution/enablement_stage.go\<close>), and the digest of a submission receipt
  (\<open>canonicalDigest\<close> in \<open>src/internal/execution/execution.go\<close>). The plane submitter is a parameter; the
  submission client is one.
\<close>

section \<open>Receipts as JSON\<close>

definition enc_object_identity :: "ObjectIdentity \<Rightarrow> json" where
  "enc_object_identity x = struct [key ''apiVersion'' (JStr (oi_APIVersion x)), key ''kind'' (JStr (oi_Kind x)),
     key ''name'' (JStr (oi_Name x)), optkey ''namespace'' (JStr (oi_Namespace x))]"

definition enc_object_result :: "ObjectResult \<Rightarrow> json" where
  "enc_object_result x = struct [key ''identity'' (enc_object_identity (or_Identity x)), key ''digest'' (JStr (or_Digest x)),
     key ''uid'' (JStr (or_UID x)), key ''state'' (JStr (or_State x))]"

definition enc_mismatch_evidence :: "SubmissionMismatchEvidence \<Rightarrow> json" where
  "enc_mismatch_evidence x = struct [key ''firstCategory'' (JStr (me_FirstCategory x)),
     key ''lastCategory'' (JStr (me_LastCategory x)), key ''observationCount'' (JInt (me_ObservationCount x)),
     key ''expectedDigest'' (JStr (me_ExpectedDigest x)), key ''lastObservedDigest'' (JStr (me_LastObservedDigest x)),
     key ''runtimeIdentityStable'' (JBool (me_RuntimeIdentityStable x))]"

definition enc_plane_receipt :: "PlaneReceipt \<Rightarrow> json" where
  "enc_plane_receipt x = struct [key ''format'' (JStr (pr_Format x)), key ''authority'' (JStr (pr_Authority x)),
     key ''role'' (JStr (pr_Role x)), key ''state'' (JStr (pr_State x)), key ''mutationState'' (JStr (pr_MutationState x)),
     key ''results'' (JSlice enc_object_result (pr_Results x)),
     optkey ''mismatchEvidence'' (case pr_MismatchEvidence x of None \<Rightarrow> JNull | Some e \<Rightarrow> enc_mismatch_evidence e)]"

definition execution_canonicalDigest :: "json \<Rightarrow> string result" where
  "execution_canonicalDigest j = canonical_digest j"

section \<open>The mutator of a projection plane\<close>

text \<open>A submitter answers with a receipt and perhaps an error.\<close>

type_synonym 'w PlaneSubmitter = "SubmissionPlane \<Rightarrow> 'w \<Rightarrow> (PlaneReceipt \<times> SubmissionError option) \<times> 'w"

record 'w SubmissionPlaneMutator =
  sm_binding :: StageMutationBinding
  sm_identity :: Identity
  sm_plane :: SubmissionPlane
  sm_submitter :: "'w PlaneSubmitter"

definition stage_binding :: "Binding \<Rightarrow> Stage \<Rightarrow> string \<Rightarrow> StageMutationBinding" where
  "stage_binding plan stage stageDigest = \<lparr>mb_PlanDigest = b_PlanDigest plan, mb_StageID = s_ID stage,
     mb_StageDigest = stageDigest, mb_Operation = s_GrantOperation stage, mb_Authority = s_Authority stage,
     mb_ContractRevision = b_IntentRevision plan\<rparr>"

definition NewSubmissionPlaneMutator ::
  "Binding \<Rightarrow> string \<Rightarrow> SubmissionPlan \<Rightarrow> 'w PlaneSubmitter option \<Rightarrow> 'w SubmissionPlaneMutator result" where
  "NewSubmissionPlaneMutator plan stageID projected submitter =
     bindE (of_option (New ''submission stage requires a bounded plane submitter'') submitter) (\<lambda>submit.
     bindE (Binding_Stage plan stageID) (\<lambda>(stage, stageDigest).
     if su_Format projected \<noteq> SubmissionPlanFormat \<or> su_IntentRevision projected \<noteq> b_IntentRevision plan then
       Inl (New ''submission plan differs from the verified staged plan'')
     else bindE
       (if s_ID stage = ''provider-prerequisites'' then Inr (su_Infrastructure projected, a_Infrastructure (b_Authorities plan))
        else if s_ID stage = ''cluster-lifecycle'' then Inr (su_Management projected, a_Management (b_Authorities plan))
        else Inl (New ''stage has no Contract-to-CAPI submission-plane adapter'')) (\<lambda>(plane, expectedAuthority).
     if pe_Identity plane \<noteq> expectedAuthority \<or> pe_Role plane = '''' \<or> pe_Objects plane = [] then
       Inl (New ''submission plane authority or content differs from the selected stage'')
     else Inr \<lparr>sm_binding = stage_binding plan stage stageDigest, sm_identity = b_ContractIdentity plan,
       sm_plane = plane, sm_submitter = submit\<rparr>)))"

text \<open>The loop over the results of a receipt, against the objects of the plane.\<close>

fun validate_results :: "ObjectResult list \<Rightarrow> SubmissionObject list \<Rightarrow> string \<Rightarrow> string result" where
  "validate_results [] objects wantMutation = Inr wantMutation"
| "validate_results (r # rs) [] wantMutation = Inl (New ''submission receipt differs from the preconstructed plane'')"
| "validate_results (r # rs) (ob # obs) wantMutation =
     (if or_Identity r \<noteq> or_Identity (object_result ob [] []) \<or> or_Digest r \<noteq> ob_Digest ob \<or> or_UID r = ''''
         \<or> length (or_UID r) > 128 then
        Inl (New ''submission receipt object differs from the preconstructed plane'')
      else if or_State r = ''CREATED'' then validate_results rs obs ''ATTEMPTED''
      else if or_State r = ''UNCHANGED'' then validate_results rs obs wantMutation
      else Inl (New ''submission receipt object state is invalid''))"

definition validateSubmissionPlaneOutcome :: "PlaneReceipt \<Rightarrow> SubmissionPlane \<Rightarrow> bool \<Rightarrow> string result" where
  "validateSubmissionPlaneOutcome receipt plane is_stopped =
     (let wantState = (if is_stopped then ''STOPPED_PARTIAL_OR_UNKNOWN'' else ''SUBMITTED'');
          results = elems (pr_Results receipt)
      in if pr_Format receipt \<noteq> PlaneReceiptFormat \<or> pr_Authority receipt \<noteq> pe_Identity plane
            \<or> pr_Role receipt \<noteq> pe_Role plane \<or> pr_State receipt \<noteq> wantState
            \<or> length results > length (pe_Objects plane)
            \<or> (\<not> is_stopped \<and> length results \<noteq> length (pe_Objects plane)) then
           Inl (New ''submission receipt differs from the preconstructed plane'')
         else if \<not> validSubmissionMismatchEvidence (pr_MismatchEvidence receipt)
            \<or> (\<not> is_stopped \<and> pr_MismatchEvidence receipt \<noteq> None) then
           Inl (New ''submission receipt mismatch evidence is invalid'')
         else bindE (validate_results results (pe_Objects plane) ''NOT_ATTEMPTED'') (\<lambda>wantMutation.
           if is_stopped then
             (if pr_MutationState receipt \<noteq> ''NOT_ATTEMPTED'' \<and> pr_MutationState receipt \<noteq> ''ATTEMPTED'' then
                Inl (New ''submission receipt mutation state is invalid'')
              else if wantMutation = ''ATTEMPTED'' \<and> pr_MutationState receipt \<noteq> ''ATTEMPTED'' then
                Inl (New ''submission receipt mutation state loses a completed create'')
              else Inr (pr_MutationState receipt))
           else if pr_MutationState receipt \<noteq> wantMutation then
             Inl (New ''submission receipt mutation state is inconsistent'')
           else Inr wantMutation))"

text \<open>The object of the plane that is the contract's Cluster, and the runtime identity it was given.\<close>

definition is_contract_cluster :: "Identity \<Rightarrow> SubmissionObject \<Rightarrow> bool" where
  "is_contract_cluster identity ob \<longleftrightarrow> ob_Identity ob = \<lparr>ri_APIVersion = ''cluster.x-k8s.io/v1beta2'', ri_Kind = ''Cluster'',
     ri_Name = i_Name identity, ri_Namespace = i_Namespace identity\<rparr>"

fun lifecycle_uid :: "Identity \<Rightarrow> SubmissionObject list \<Rightarrow> ObjectResult list \<Rightarrow> string \<Rightarrow> string result" where
  "lifecycle_uid identity [] results uid =
     (if uid = '''' then Inl (New ''Cluster lifecycle submission lacks exact runtime identity'') else Inr uid)"
| "lifecycle_uid identity (ob # obs) results uid =
     (if \<not> is_contract_cluster identity ob then lifecycle_uid identity obs (tl results) uid
      else if uid \<noteq> '''' \<or> results = [] \<or> or_UID (hd results) = '''' then
        Inl (New ''Cluster lifecycle submission has ambiguous runtime identity'')
      else lifecycle_uid identity obs (tl results) (or_UID (hd results)))"

definition submittedLifecycleClusterUID :: "PlaneReceipt \<Rightarrow> SubmissionPlane \<Rightarrow> Identity \<Rightarrow> string result" where
  "submittedLifecycleClusterUID receipt plane identity =
     lifecycle_uid identity (pe_Objects plane) (elems (pr_Results receipt)) ''''"

definition zero_mutation_result :: StageMutationResult where
  "zero_mutation_result = \<lparr>ms_Outcome = '''', ms_MutationState = '''', ms_EvidenceDigest = '''', ms_TargetClusterUIDDigest = '''',
     ms_FailureCategory = '''', ms_MismatchEvidence = None\<rparr>"

text \<open>The guard on the request, shared by both mutators.\<close>

definition request_differs :: "StageMutationRequest \<Rightarrow> StageMutationBinding \<Rightarrow> Identity \<Rightarrow> bool" where
  "request_differs req b identity \<longleftrightarrow> mq_Binding req \<noteq> b \<or> mq_ContractIdentity req \<noteq> identity \<or> mq_GrantID req = ''''
     \<or> \<not> digestPattern (mq_PredecessorDigest req)"

text \<open>The answer that a receipt of the submitter leads to.\<close>

definition plane_mutation_result ::
  "'w SubmissionPlaneMutator \<Rightarrow> PlaneReceipt \<Rightarrow> SubmissionError option \<Rightarrow> StageMutationResult \<times> goerror option" where
  "plane_mutation_result m receipt submitErr =
     (case validateSubmissionPlaneOutcome receipt (sm_plane m) (submitErr \<noteq> None) of
        Inl e \<Rightarrow> (zero_mutation_result, Some e)
      | Inr mutationState \<Rightarrow>
     (case execution_canonicalDigest (enc_plane_receipt receipt) of
        Inl _ \<Rightarrow> (zero_mutation_result, Some (New ''derive bounded submission evidence''))
      | Inr evidenceDigest \<Rightarrow>
     (let answer = (\<lambda>outcome. zero_mutation_result\<lparr>ms_Outcome := outcome, ms_MutationState := mutationState,
            ms_EvidenceDigest := evidenceDigest\<rparr>)
      in case submitErr of
        Some e \<Rightarrow>
          (let category = (if validStageFailureCategory (se_Category e) then se_Category e else ''SUBMISSION_RESPONSE_INVALID'')
           in if (pr_MismatchEvidence receipt \<noteq> None) \<noteq> submissionMismatchEvidenceRequired category then
                (zero_mutation_result, Some (New ''submission receipt mismatch evidence differs from its stop category''))
              else ((answer ''STOPPED'')\<lparr>ms_FailureCategory := category, ms_MismatchEvidence := pr_MismatchEvidence receipt\<rparr>,
                Some (New ''bounded submission stopped'')))
      | None \<Rightarrow>
          if mutationState \<noteq> ''ATTEMPTED'' then
            (if mb_StageID (sm_binding m) = ''provider-prerequisites'' \<and> mutationState = ''NOT_ATTEMPTED''
             then (answer ''SUCCEEDED'', None) else (answer ''STOPPED'', None))
          else if mb_StageID (sm_binding m) = ''cluster-lifecycle'' then
            (case submittedLifecycleClusterUID receipt (sm_plane m) (sm_identity m) of
               Inl e \<Rightarrow> (zero_mutation_result, Some e)
             | Inr uid \<Rightarrow> ((answer ''SUCCEEDED'')\<lparr>ms_TargetClusterUIDDigest := SHA256 uid\<rparr>, None))
          else (answer ''SUCCEEDED'', None))))"

definition SubmissionPlane_Mutate ::
  "'w SubmissionPlaneMutator \<Rightarrow> StageMutationRequest \<Rightarrow> 'w \<Rightarrow> (StageMutationResult \<times> goerror option) \<times> 'w" where
  "SubmissionPlane_Mutate m req w =
     (if request_differs req (sm_binding m) (sm_identity m) then
        ((zero_mutation_result, Some (New ''submission mutation request differs from the preconstructed stage'')), w)
      else (case sm_submitter m (sm_plane m) w of ((receipt, submitErr), w1) \<Rightarrow>
        (plane_mutation_result m receipt submitErr, w1)))"

definition plane_mutator :: "'w SubmissionPlaneMutator \<Rightarrow> 'w StageMutator" where
  "plane_mutator m = \<lparr>mu_Binding = sm_binding m, mu_Mutate = SubmissionPlane_Mutate m\<rparr>"

section \<open>The enablement mutator\<close>

record 'w EnablementMutator =
  em_binding :: StageMutationBinding
  em_identity :: Identity
  em_plane :: SubmissionPlane
  em_submitter :: "'w PlaneSubmitter"

definition NewEnablementMutator ::
  "Binding \<Rightarrow> EnablementPlan \<Rightarrow> 'w PlaneSubmitter option \<Rightarrow> 'w EnablementMutator result" where
  "NewEnablementMutator plan projected submitter =
     bindE (of_option (New ''enablement stage requires a bounded plane submitter'') submitter) (\<lambda>submit.
     bindE (Binding_Stage plan ''enablement'') (\<lambda>(stage, stageDigest).
     if ep_Format projected \<noteq> EnablementPlanFormat \<or> ep_MutationAllowed projected
        \<or> ep_IntentRevision projected \<noteq> b_IntentRevision plan
        \<or> ep_EnablementRevision projected \<noteq> b_EnablementRevision plan
        \<or> ep_ExecutionFixture projected \<noteq> b_ExecutionFixture plan then
       Inl (New ''enablement projection differs from the verified staged plan'')
     else bindE (RequireInput plan (s_ID stage) ''stage.enablement'' (ep_ArtifactDigest projected)) (\<lambda>_.
     let plane = ep_Management projected in
     if pe_Identity plane \<noteq> a_Management (b_Authorities plan) \<or> pe_Role plane \<noteq> ''enablement-desired-state-writer'' then
       Inl (New ''enablement projection authority or content differs from the selected stage'')
     else (case pe_Objects plane of
         [object] \<Rightarrow>
           if ri_APIVersion (ob_Identity object) \<noteq> ''addons.cluster.x-k8s.io/v1alpha1''
              \<or> ri_Kind (ob_Identity object) \<noteq> ''HelmChartProxy''
              \<or> ri_Namespace (ob_Identity object) \<noteq> i_Namespace (b_ContractIdentity plan) \<or> ob_Raw object = [] then
             Inl (New ''enablement projection lacks the exact HelmChartProxy'')
           else Inr \<lparr>em_binding = stage_binding plan stage stageDigest, em_identity = b_ContractIdentity plan,
             em_plane = plane, em_submitter = submit\<rparr>
       | _ \<Rightarrow> Inl (New ''enablement projection authority or content differs from the selected stage'')))))"

definition Enablement_Mutate ::
  "'w EnablementMutator \<Rightarrow> StageMutationRequest \<Rightarrow> 'w \<Rightarrow> (StageMutationResult \<times> goerror option) \<times> 'w" where
  "Enablement_Mutate m req w =
     (if request_differs req (em_binding m) (em_identity m) then
        ((zero_mutation_result, Some (New ''enablement mutation request differs from the preconstructed stage'')), w)
      else (case em_submitter m (em_plane m) w of ((receipt, submitErr), w1) \<Rightarrow>
        ((case validateSubmissionPlaneOutcome receipt (em_plane m) (submitErr \<noteq> None) of
            Inl e \<Rightarrow> (zero_mutation_result, Some e)
          | Inr mutationState \<Rightarrow>
         (case execution_canonicalDigest (enc_plane_receipt receipt) of
            Inl _ \<Rightarrow> (zero_mutation_result, Some (New ''derive bounded enablement evidence''))
          | Inr evidenceDigest \<Rightarrow>
         (let answer = (\<lambda>outcome. zero_mutation_result\<lparr>ms_Outcome := outcome, ms_MutationState := mutationState,
                ms_EvidenceDigest := evidenceDigest\<rparr>)
          in if submitErr \<noteq> None then (answer ''STOPPED'', Some (New ''bounded enablement submission stopped''))
             else if mutationState \<noteq> ''ATTEMPTED'' then (answer ''STOPPED'', None)
             else (answer ''SUCCEEDED'', None)))), w1)))"

definition enablement_mutator :: "'w EnablementMutator \<Rightarrow> 'w StageMutator" where
  "enablement_mutator m = \<lparr>mu_Binding = em_binding m, mu_Mutate = Enablement_Mutate m\<rparr>"

end
