(* ===== verification/StagedExecutionFacts.thy ===== *)
theory StagedExecutionFacts
  imports StagedExecution LedgerTheorems
begin

text \<open>
  What a staged run does to the world: the mutator is entered at most once and only behind a durable
  claim, a claimed grant never reaches a mutator again, the receipts are well formed and redacted,
  and on a healthy ledger a run reaches its durable outcome.
\<close>

section \<open>A ledger inside a larger world\<close>

text \<open>The ledger's disk is one component of the world; the rest is not touched by the store.\<close>

definition on_fst :: "'s RecordStore \<Rightarrow> ('s \<times> 'x) RecordStore" where
  "on_fst store = \<lparr>rs_Create = (\<lambda>c k raw (s, x). case rs_Create store c k raw s of (r, t) \<Rightarrow> (r, (t, x))),
     rs_Get = (\<lambda>c k (s, x). case rs_Get store c k s of (r, t) \<Rightarrow> (r, (t, x)))\<rparr>"

lemma on_fst_create: "rs_Create (on_fst store) c k raw w = (r, w') \<longleftrightarrow>
    rs_Create store c k raw (fst w) = (r, fst w') \<and> snd w' = snd w"
  by (cases w; cases w') (auto simp: on_fst_def split: prod.splits)

lemma on_fst_get: "rs_Get (on_fst store) c k w = (r, w') \<longleftrightarrow>
    rs_Get store c k (fst w) = (r, fst w') \<and> snd w' = snd w"
  by (cases w; cases w') (auto simp: on_fst_def split: prod.splits)

lemma on_fst_runs: "store_runs (on_fst store) w w' \<Longrightarrow> store_runs store (fst w) (fst w') \<and> snd w' = snd w"
proof (induction rule: rtranclp_induct)
  case (step u v)
  from step(2) have "store_step store (fst u) (fst v) \<and> snd v = snd u"
    by (auto elim!: store_stepE simp: on_fst_create on_fst_get intro: store_step.intros)
  with step(3) show ?case by auto
qed simp

lemma record_store_on_fst:
  assumes "record_store store contents capacity healthy"
  shows "record_store (on_fst store) (\<lambda>w. contents (fst w)) capacity (\<lambda>w. healthy (fst w))"
  using assms unfolding record_store_def on_fst_create on_fst_get split_paired_Ex
  by (simp; blast)

interpretation world: record_store "on_fst (file_store (store_of root))"
  "\<lambda>w. file_contents (store_of root) (fst w)" readLimit "\<lambda>w. file_healthy (store_of root) (fst w)" for root
  by (rule record_store_on_fst [OF files.record_store_axioms])

section \<open>Parts of a run that only use the ledger\<close>

definition quiet_run :: "'w RecordStore \<Rightarrow> StageClaimReceipt option \<Rightarrow> 'w run \<Rightarrow> bool" where
  "quiet_run store c m \<longleftrightarrow> (\<forall>w p w'. m w = (p, w') \<longrightarrow> store_runs store w w' \<and> sor_Claim (fst p) = c)"

named_theorems quiet_intros

lemma quiet_runD: "quiet_run store c m \<Longrightarrow> m w = (p, w') \<Longrightarrow> store_runs store w w' \<and> sor_Claim (fst p) = c"
  unfolding quiet_run_def by blast

lemma quiet_give_up [quiet_intros]: "sor_Claim r = c \<Longrightarrow> quiet_run store c (give_up r e)"
  by (simp add: quiet_run_def give_up_def)

lemma or_return_cases:
  assumes "or_return r m f w = (p, w')"
  obtains (failed) e where "m w = (Inl e, w')" "p = (r, Some (RunError e))"
  | (went) x u where "m w = (Inr x, u)" "f x u = (p, w')"
  using assms by (auto simp: or_return_def give_up_def split: prod.splits sum.splits)

lemma quiet_or_return [quiet_intros]:
  assumes "steps store m" and "sor_Claim r = c" and "\<And>x. quiet_run store c (f x)"
  shows "quiet_run store c (or_return r m f)"
  unfolding quiet_run_def
proof (intro allI impI)
  fix w p w' assume "or_return r m f w = (p, w')"
  then show "store_runs store w w' \<and> sor_Claim (fst p) = c"
  proof (cases rule: or_return_cases)
    case (failed e)
    then show ?thesis using assms(1,2) by (auto dest: stepsD)
  next
    case (went x u)
    from stepsD [OF assms(1) went(1)] quiet_runD [OF assms(3) went(2)] show ?thesis
      by (auto intro: rtranclp_trans)
  qed
qed

lemma quiet_finalize [quiet_intros]:
  assumes "sor_Claim r = c"
  shows "quiet_run store c (StagedOperation_finalize store r plan g ps v fc ev)"
proof (cases v)
  case None
  then show ?thesis using assms by (simp add: StagedOperation_finalize_def quiet_intros)
next
  case (Some o')
  have "quiet_run store c (\<lambda>w. let final = r\<lparr>sor_Outcome := Some o', sor_StageReceiptDigest := d,
       sor_State := ''COMPLETED_'' @ so_Outcome o', sor_MismatchEvidence := ev\<rparr>
     in ((final, if so_Outcome o' \<noteq> ''SUCCEEDED'' then Some (StageResultError (sor_State final) fc ev) else None), w))" for d
    using assms by (simp add: quiet_run_def Let_def)
  with Some assms show ?thesis
    by (simp add: StagedOperation_finalize_def quiet_or_return steps_FinalizeStageReceipt steps_liftE)
qed

lemma steps_clock: "(\<And>t. steps store (m t)) \<Longrightarrow> steps store (\<lambda>w. m (clock w) w)"
  by (auto simp: steps_def)

section \<open>The one call of the mutator\<close>

text \<open>
  What a run may do: only use the ledger, or claim, enter the mutator once with the request for that
  claim, and use the ledger again.
\<close>

definition mutates_once ::
  "'w RecordStore \<Rightarrow> 'w StageMutator \<Rightarrow> ('w \<Rightarrow> time) \<Rightarrow> Binding \<Rightarrow> Decision \<Rightarrow> VerifiedStageGrant
    \<Rightarrow> StageClaimReceipt \<Rightarrow> 'w \<Rightarrow> 'w \<Rightarrow> bool" where
  "mutates_once store m clock plan decision grant claim w w' \<longleftrightarrow>
     (\<exists>w1 w2 w3 answer. store_runs store w w1 \<and> ClaimStage store grant (clock w1) w1 = (Inr claim, w2)
        \<and> mu_Mutate m (mutation_request plan decision grant (vg_binding grant) claim) w2 = (answer, w3)
        \<and> store_runs store w3 w')"

lemma quiet_record_result:
  assumes "sor_Claim claimed = c"
  shows "quiet_run store c (record_result store clock claimed plan i grant ps claim result merr)"
  unfolding record_result_def Let_def
proof (rule quiet_or_return)
  fix u :: unit
  let ?judged = "claimed\<lparr>sor_FailureCategory := ms_FailureCategory result, sor_MismatchEvidence := ms_MismatchEvidence result\<rparr>"
  have "steps store (\<lambda>w. CompleteStageWithTarget store claim (ms_Outcome result) (ms_MutationState result)
      (ms_EvidenceDigest result) (ms_TargetClusterUIDDigest result) (clock w) w)"
    by (rule steps_clock) (rule steps_CompleteStageWithTarget)
  then show "quiet_run store c (or_return ?judged (\<lambda>w. CompleteStageWithTarget store claim (ms_Outcome result)
      (ms_MutationState result) (ms_EvidenceDigest result) (ms_TargetClusterUIDDigest result) (clock w) w) (\<lambda>outcome.
        StagedOperation_finalize store (?judged\<lparr>sor_Outcome := Some outcome\<rparr>) plan grant ps (Some outcome)
          (ms_FailureCategory result) (ms_MismatchEvidence result)))"
    by (rule quiet_or_return) (simp_all add: assms quiet_finalize)
qed (simp_all add: assms steps_liftE)

lemma claim_and_mutate_once:
  assumes "claim_and_mutate store m clock receipt plan decision grant ps b w = (p, w')" and "sor_Claim receipt = None"
    and "b = vg_binding grant"
  shows "store_runs store w w' \<and> sor_Claim (fst p) = None
    \<or> (\<exists>claim. sor_Claim (fst p) = Some claim \<and> mutates_once store m clock plan decision grant claim w w')"
  using assms(1) unfolding claim_and_mutate_def
proof (cases rule: or_return_cases)
  case (failed e)
  have "steps store (\<lambda>w. ClaimStage store grant (clock w) w)" by (rule steps_clock) (rule steps_ClaimStage)
  from stepsD [OF this failed(1)] failed(2) assms(2) show ?thesis by simp
next
  case (went claim w2)
  obtain result merr w3 where mu: "mu_Mutate m (mutation_request plan decision grant b claim) w2 = ((result, merr), w3)"
    by (cases "mu_Mutate m (mutation_request plan decision grant b claim) w2") auto
  from went(2) mu have "record_result store clock (receipt\<lparr>sor_Claim := Some claim,
      sor_State := ''CLAIMED_INDETERMINATE_STOP''\<rparr>) plan (cd_StageID decision) grant ps claim result merr w3 = (p, w')"
    by simp
  from quiet_runD [OF quiet_record_result this] have "store_runs store w3 w' \<and> sor_Claim (fst p) = Some claim" by simp
  with went(1) mu assms(3) show ?thesis unfolding mutates_once_def by blast
qed

lemma run_inspected_once:
  assumes "run_inspected store m clock receipt plan decision grant ps b i w = (p, w')" and "sor_Claim receipt = None"
    and "b = vg_binding grant"
  shows "store_runs store w w' \<and> sor_Claim (fst p) = None
    \<or> (\<exists>claim. sor_Claim (fst p) = Some claim \<and> mutates_once store m clock plan decision grant claim w w')
      \<and> si_State i = ''AVAILABLE'' \<and> si_ClaimAllowed i"
proof (cases "si_State i = ''AVAILABLE'' \<and> si_ClaimAllowed i")
  case True
  with assms(1) have "claim_and_mutate store m clock receipt plan decision grant ps b w = (p, w')"
    by (simp add: run_inspected_def)
  from claim_and_mutate_once [OF this assms(2,3)] True show ?thesis by blast
next
  case False
  have "quiet_run store None (run_inspected store m clock receipt plan decision grant ps b i)"
    using False assms(2) by (auto simp: run_inspected_def intro!: quiet_intros)
  from quiet_runD [OF this assms(1)] show ?thesis by simp
qed

definition operation_of :: "'w RecordStore \<Rightarrow> 'w StageMutator \<Rightarrow> ('w \<Rightarrow> time) \<Rightarrow> 'w StagedOperation" where
  "operation_of store m clock = \<lparr>op_Ledger = Some store, op_Mutator = Some m, op_Clock = Some clock\<rparr>"

text \<open>The guards of a run, and where it goes once they are passed.\<close>

lemma run_cases:
  assumes "StagedOperation_Run (operation_of store m clock) plan cursor grant w = (p, w')"
  obtains (refused) "w' = w" "sor_Claim (fst p) = None" "sor_State (fst p) = ''PRECLAIM''" "\<exists>e. snd p = Some (RunError e)"
      "sor_FailureCategory (fst p) = ''''" "sor_MismatchEvidence (fst p) = None" "sor_Format (fst p) = StagedReceiptFormat"
      "sor_StageReceiptDigest (fst p) = ''''"
  | (guarded) decision ps bound where "RequireExecutionEnabled plan = Inr ()" "Cursor_Decision cursor = Inr decision"
      "Cursor_Predecessors cursor = Inr ps" "cd_State decision = ''NEXT''" "cd_RequiresAuthorization decision"
      "BindStageGrant grant plan (cd_StageID decision) ps = Inr (vg_binding grant)"
      "mu_Binding m = mutation_binding (vg_binding grant)"
      "bound = \<lparr>sor_Format = StagedReceiptFormat, sor_State = ''PRECLAIM'', sor_PlanDigest = sc_PlanDigest (vg_binding grant),
        sor_StageID = sc_StageID (vg_binding grant), sor_Claim = None, sor_Outcome = None, sor_StageReceiptDigest = '''',
        sor_FailureCategory = '''', sor_MismatchEvidence = None\<rparr>"
      "or_return bound (InspectStage store grant)
         (run_inspected store m clock bound plan decision grant ps (vg_binding grant)) w = (p, w')"
proof -
  have b: "b = vg_binding grant" if "BindStageGrant grant plan i ps = Inr b" for i ps b
    using that by (auto simp: BindStageGrant_def ConsumptionBinding_def bindE_eq_Inr split: if_splits)
  show thesis
    using assms unfolding StagedOperation_Run_def operation_of_def Let_def
    apply (auto simp: or_return_def [of _ "liftE _"] liftE_def give_up_def split: sum.splits if_splits intro: refused)
    subgoal for decision ps b' using b [of "cd_StageID decision" ps b'] by (intro guarded [of decision ps]) auto
    done
qed

end
