(* ===== verification/StagedTheorems.thy ===== *)
theory StagedTheorems
  imports StagedExecutionFacts
begin

text \<open>
  The properties of the staged operation on the file ledger: one mutation per claim, none without a
  claim, well-formed receipts, and completion on a healthy ledger.
\<close>

section \<open>At most one mutation\<close>

lemma mutates_once_after:
  assumes "store_runs store w u" and "mutates_once store m clock plan decision grant claim u w'"
  shows "mutates_once store m clock plan decision grant claim w w'"
  using assms unfolding mutates_once_def by (meson rtranclp_trans)

lemma run_once:
  assumes "StagedOperation_Run (operation_of store m clock) plan cursor grant w = (p, w')"
  shows "store_runs store w w' \<and> sor_Claim (fst p) = None
    \<or> (\<exists>claim decision. sor_Claim (fst p) = Some claim \<and> Cursor_Decision cursor = Inr decision
         \<and> cd_State decision = ''NEXT'' \<and> cd_RequiresAuthorization decision
         \<and> RequireExecutionEnabled plan = Inr () \<and> mu_Binding m = mutation_binding (vg_binding grant)
         \<and> mutates_once store m clock plan decision grant claim w w')"
  using assms
proof (cases rule: run_cases)
  case refused
  then show ?thesis by simp
next
  case (guarded decision ps bound)
  have c: "sor_Claim bound = None" by (simp add: guarded(8))
  from guarded(9) show ?thesis
  proof (cases rule: or_return_cases)
    case (failed e)
    with stepsD [OF steps_InspectStage failed(1)] c show ?thesis by simp
  next
    case (went i u)
    have wu: "store_runs store w u" by (rule stepsD [OF steps_InspectStage went(1)])
    from run_inspected_once [OF went(2) c refl] guarded wu show ?thesis
      by (meson mutates_once_after rtranclp_trans)
  qed
qed

text \<open>
  C1: a run mutates at most once, and only what it has claimed. Whatever the store, the mutator and
  the clock do, a run either uses the ledger alone and returns no claim, or it claims the grant
  durably, enters the mutator exactly once with the request that carries this claim and the bindings
  of this grant, and then uses the ledger alone again. The second needs an enabled plan, a cursor
  whose next stage requires authorization and a mutator made for exactly the granted stage.
\<close>

theorem staged_run_mutates_once:
  assumes "StagedOperation_Run (operation_of store m clock) plan cursor grant w = ((receipt, err), w')"
  shows "if sor_Claim receipt = None then store_runs store w w'
    else \<exists>decision w1 w2 w3 answer. Cursor_Decision cursor = Inr decision \<and> cd_State decision = ''NEXT''
      \<and> cd_RequiresAuthorization decision \<and> RequireExecutionEnabled plan = Inr ()
      \<and> mu_Binding m = mutation_binding (vg_binding grant)
      \<and> store_runs store w w1 \<and> ClaimStage store grant (clock w1) w1 = (Inr (the (sor_Claim receipt)), w2)
      \<and> mu_Mutate m (mutation_request plan decision grant (vg_binding grant) (the (sor_Claim receipt))) w2 = (answer, w3)
      \<and> store_runs store w3 w'"
proof (cases "sor_Claim receipt")
  case None
  with run_once [OF assms] show ?thesis by simp
next
  case (Some claim)
  with run_once [OF assms] show ?thesis
    unfolding mutates_once_def by (simp del: split_paired_Ex)
qed

section \<open>No mutation behind an existing claim\<close>

context record_store
begin

lemma claimed_run_is_quiet:
  assumes "contents w ''claims'' (recordKey (sc_GrantID (vg_binding h))) \<noteq> None"
    and "StagedOperation_Run (operation_of store m clock) plan cursor h w = (p, w')"
  shows "store_runs store w w' \<and> sor_Claim (fst p) = None"
  using run_once [OF assms(2)]
proof (elim disjE exE conjE)
  fix claim decision
  assume "mutates_once store m clock plan decision h claim w w'"
  then obtain w1 w2 where "store_runs store w w1" "ClaimStage store h (clock w1) w1 = (Inr claim, w2)"
    by (auto simp: mutates_once_def)
  with claimed_never_again(1) [OF assms(1)] show ?thesis by metis
qed simp

end

lemma run_leaves_claim:
  assumes "StagedOperation_Run (operation_of (on_fst (ledger root)) m clock) plan cursor g w = (p, w1)"
    and "sor_Claim (fst p) \<noteq> None"
    and "\<forall>req u. store_runs (ledger root) (fst u) (fst (snd (mu_Mutate m req u)))"
  shows "held root (fst w1) ''claims'' (recordKey (grant_of_id g)) \<noteq> None"
proof -
  from run_once [OF assms(1)] assms(2) obtain decision claim u v x answer where
    r: "ClaimStage (on_fst (ledger root)) g (clock u) u = (Inr claim, v)"
      "mu_Mutate m (mutation_request plan decision g (vg_binding g) claim) v = (answer, x)"
      "store_runs (on_fst (ledger root)) x w1"
    by (auto simp: mutates_once_def)
  let ?k = "recordKey (grant_of_id g)"
  have a: "held root (fst v) ''claims'' ?k \<noteq> None" using world.claim_takes(1) [OF r(1)] by simp
  have "store_runs (ledger root) (fst v) (fst x)"
    using assms(3) [rule_format, of v "mutation_request plan decision g (vg_binding g) claim"] r(2) by simp
  from files.persists [OF this a] a have b: "held root (fst x) ''claims'' ?k \<noteq> None" by simp
  from on_fst_runs [OF r(3)] have "store_runs (ledger root) (fst x) (fst w1)" by simp
  from files.persists [OF this b] b show ?thesis by simp
qed

text \<open>
  C2: no grant is mutated for twice. After a run that claimed its grant, with a mutator that touches
  the ledger's files only as the store does, and after anything else that was done to the store, a run
  with any grant of the same identity, whatever its plan, cursor, mutator and clock, does not enter
  the mutator: it leaves the world outside the ledger as it was and returns no claim.
\<close>

theorem staged_run_never_repeats:
  assumes "StagedOperation_Run (operation_of (on_fst (ledger root)) m clock) plan cursor g w = ((receipt, err), w1)"
    and "sor_Claim receipt \<noteq> None"
    and "\<forall>req u. store_runs (ledger root) (fst u) (fst (snd (mu_Mutate m req u)))"
    and "store_runs (ledger root) (fst w1) (fst w2)" and "grant_of_id h = grant_of_id g"
    and "StagedOperation_Run (operation_of (on_fst (ledger root)) m' clock') plan' cursor' h w2 = ((receipt', err'), w3)"
  shows "store_runs (ledger root) (fst w2) (fst w3) \<and> snd w3 = snd w2 \<and> sor_Claim receipt' = None"
proof -
  have a: "held root (fst w1) ''claims'' (recordKey (grant_of_id h)) \<noteq> None"
    using run_leaves_claim [OF assms(1) _ assms(3)] assms(2,5) by simp
  from files.persists [OF assms(4) a] a have "held root (fst w2) ''claims'' (recordKey (grant_of_id h)) \<noteq> None" by simp
  from world.claimed_run_is_quiet [OF this assms(6)] show ?thesis by (auto dest: on_fst_runs)
qed


section \<open>The ledger's operations in a larger world\<close>

text \<open>\<open>M\<close> does on the first component what \<open>m\<close> does, and nothing else.\<close>

definition lifts :: "('s, 'a) op \<Rightarrow> ('s \<times> 'x, 'a) op \<Rightarrow> bool" where
  "lifts m M \<longleftrightarrow> (\<forall>s x. M (s, x) = (fst (m s), (snd (m s), x)))"

named_theorems lifts_intros

lemma liftsD: "lifts m M \<Longrightarrow> m s = (r, t) \<Longrightarrow> M (s, x) = (r, (t, x))"
  by (simp add: lifts_def)

lemma lifts_liftE [lifts_intros]: "lifts (liftE r) (liftE r)"
  by (simp add: lifts_def liftE_def)

lemma lifts_store [lifts_intros]:
  "lifts (rs_Create store c k raw) (rs_Create (on_fst store) c k raw)" "lifts (rs_Get store c k) (rs_Get (on_fst store) c k)"
  by (simp_all add: lifts_def on_fst_def split: prod.split)

lemma lifts_bindS [lifts_intros]:
  "lifts m M \<Longrightarrow> (\<And>x. lifts (f x) (F x)) \<Longrightarrow> lifts (bindS m f) (bindS M F)"
  by (simp add: lifts_def bindS_def split: prod.split sum.split)

lemma lifts_tryS [lifts_intros]:
  "lifts m M \<Longrightarrow> (\<And>x. lifts (f x) (F x)) \<Longrightarrow> lifts (tryS m f) (tryS M F)"
  by (simp add: lifts_def tryS_def split: prod.split)

lemma lifts_wrapS [lifts_intros]: "lifts m M \<Longrightarrow> lifts (wrapS l m) (wrapS l M)"
  by (simp add: lifts_def wrapS_def split: prod.split)

lemma lifts_cases [lifts_intros]:
  "lifts m M \<Longrightarrow> lifts n N \<Longrightarrow> lifts (if b then m else n) (if b then M else N)"
  "(\<And>e. lifts (f e) (F e)) \<Longrightarrow> (\<And>x. lifts (g x) (G x)) \<Longrightarrow> lifts (case r of Inl e \<Rightarrow> f e | Inr x \<Rightarrow> g x) (case r of Inl e \<Rightarrow> F e | Inr x \<Rightarrow> G x)"
  "(\<And>a b. lifts (h a b) (H a b)) \<Longrightarrow> lifts (case p of (a, b) \<Rightarrow> h a b) (case p of (a, b) \<Rightarrow> H a b)"
  "lifts n N \<Longrightarrow> (\<And>y. lifts (k y) (K y)) \<Longrightarrow> lifts (case q of None \<Rightarrow> n | Some y \<Rightarrow> k y) (case q of None \<Rightarrow> N | Some y \<Rightarrow> K y)"
  by (simp_all split: sum.split prod.split option.split)

lemma lifts_readers [lifts_intros]:
  "lifts (readStageClaim store k) (readStageClaim (on_fst store) k)"
  "lifts (readStageOutcome store k) (readStageOutcome (on_fst store) k)"
  unfolding readStageClaim_def readStageOutcome_def read_record_def by (intro lifts_intros)+

lemma lifts_ClaimStage: "lifts (ClaimStage store g at) (ClaimStage (on_fst store) g at)"
  unfolding ClaimStage_def consume_def by (intro lifts_intros)

lemma lifts_CompleteStageWithTarget:
  "lifts (CompleteStageWithTarget store c v m e tg at) (CompleteStageWithTarget (on_fst store) c v m e tg at)"
  unfolding CompleteStageWithTarget_def write_outcome_def Let_def by (intro lifts_intros)

lemma lifts_InspectStage [lifts_intros]: "lifts (InspectStage store g) (InspectStage (on_fst store) g)"
  unfolding InspectStage_def by (intro lifts_intros)

lemma lifts_StoreStageReceipt [lifts_intros]: "lifts (StoreStageReceipt store plan v ps) (StoreStageReceipt (on_fst store) plan v ps)"
  unfolding StoreStageReceipt_def store_attempt_def by (intro lifts_intros)

lemma lifts_FinalizeStageReceipt:
  "lifts (FinalizeStageReceipt store plan g ps) (FinalizeStageReceipt (on_fst store) plan g ps)"
  unfolding FinalizeStageReceipt_def by (intro lifts_intros)


section \<open>A run on a healthy ledger\<close>

lemma validated_outcome_rules:
  assumes "validateStageMutationResult (sl_StageID c) r merr = Inr ()"
    and "parse_rfc3339 (sl_ClaimedAt c) = Some t0" and "\<not> before at t0"
  shows "outcome_rules c (ms_Outcome r) (ms_MutationState r) (ms_EvidenceDigest r) (ms_TargetClusterUIDDigest r) at"
  using assms unfolding validateStageMutationResult_def oneOf_def outcome_rules_def
  by (auto split: if_splits)

lemma enabled_plan: "Verify raw e = Inr b \<Longrightarrow> x_RecoverySourcePlanDigest e = '''' \<Longrightarrow> RequireExecutionEnabled b = Inr ()"
  by (auto simp: Verify_eq_Inr bind_document_def RequireExecutionEnabled_def agrees_def dest!: check_document_agrees)

lemma status_persists:
  assumes "status_at (held root d) gid (Completed c v)" and "store_runs (ledger root) d d'"
  shows "status_at (held root d') gid (Completed c v)"
  using assms files.persists [OF assms(2)] by simp

text \<open>What the mutator's call leaves to do: record and finalise on the ledger.\<close>

lemma record_result_completes:
  assumes p: "Verify rawPlan ex = Inr plan" and idn: "ok_identity (x_ContractIdentity ex)"
    and nr: "x_RecoverySourcePlanDigest ex = ''''"
    and small: "length (i_Name (x_ContractIdentity ex)) \<le> 1000" "length (i_Namespace (x_ContractIdentity ex)) \<le> 1000"
    and g: "VerifyStage sigcheck raw keyRaw plan sid (Some ps) at0 = Inr g"
    and at: "valid_time at" and c: "c = stage_claim_of (vg_binding g) at"
    and valid: "validateStageMutationResult sid r merr = Inr ()"
    and t: "\<forall>d. clock (d, x) = t" "valid_time t" "\<not> before t at"
    and h: "file_healthy (store_of root) d" and st: "status_at (held root d) (grant_of_id g) (Claimed c)"
    and links: "\<forall>s sd. Binding_Stage plan sid = Inr (s, sd) \<longrightarrow> list_all2 (links_to plan s t) (elems (s_Requires s)) ps"
    and nrp: "\<forall>q \<in> set ps. v_recoveryPlan q \<noteq> b_PlanDigest plan"
    and slot: "stageReceiptKey plan sid = Inr k" "held root d ''stage-receipts'' k = None"
  shows "\<exists>receipt' v d'. record_result (on_fst (ledger root)) clock receipt plan sid g (Some ps) c r merr (d, x)
      = ((receipt', if ms_Outcome r \<noteq> ''SUCCEEDED''
           then Some (StageResultError (sor_State receipt') (ms_FailureCategory r) (ms_MismatchEvidence r)) else None), (d', x))
    \<and> sor_State receipt' = ''COMPLETED_'' @ ms_Outcome r \<and> sor_Claim receipt' = sor_Claim receipt
    \<and> sor_StageReceiptDigest receipt' = v_digest v \<and> held root d' ''stage-receipts'' k = Some (v_raw v)
    \<and> receipt_Verify (v_raw v) (v_digest v) plan (Some ps) = Inr v
    \<and> (\<exists>o'. sor_Outcome receipt' = Some o' \<and> status_at (held root d') (grant_of_id g) (Completed c o'))"
proof -
  let ?o = "stage_outcome_of c (SHA256 (claim_bytes c)) (ms_Outcome r) (ms_MutationState r) (ms_EvidenceDigest r)
      (ms_TargetClusterUIDDigest r) t"
  note cs = verified_claim_sound [OF p g at, folded c]
  have gid: "sl_GrantID c = grant_of_id g" and sid: "sl_StageID c = sid"
    using verified_grant_binds [OF g] by (auto simp: c stage_claim_of_def BindStageGrant_iff dest: Binding_Stage_facts(2))
  have ca: "parse_rfc3339 (sl_ClaimedAt c) = Some at" using at by (simp add: c stage_claim_of_def parse_format)
  have rules: "outcome_rules c (ms_Outcome r) (ms_MutationState r) (ms_EvidenceDigest r) (ms_TargetClusterUIDDigest r) t"
    using validated_outcome_rules [of c r merr at t] valid sid ca t(3) by simp
  note os = outcome_sound [OF cs(1,3) rules t(2)]
  have "claim_in (Claimed c) = Some c" by simp
  from files.complete_refines [OF h st [folded gid] this rules refl os] gid obtain d1 where
    d1: "CompleteStageWithTarget (ledger root) c (ms_Outcome r) (ms_MutationState r) (ms_EvidenceDigest r)
        (ms_TargetClusterUIDDigest r) t d = (Inr ?o, d1)" "file_healthy (store_of root) d1"
      "status_at (held root d1) (grant_of_id g) (Completed c ?o)" "held root d1 ''stage-receipts'' k = None"
    using slot(2) by auto
  from completed_finalizes [OF p idn nr small g c rules t(2) refl d1(2,3) links nrp slot(1) d1(4)] obtain v d2 where
    f: "FinalizeStageReceipt (ledger root) plan g (Some ps) d1 = (Inr v, d2)"
      "receipt_New_target plan sid (Some ps) (ms_Outcome r) (ms_MutationState r) (SHA256 (outcome_bytes ?o))
         (ms_EvidenceDigest r) (ms_TargetClusterUIDDigest r) t = Inr v"
      "held root d2 ''stage-receipts'' k = Some (v_raw v)" by blast
  have dv: "Verified_Digest v = Inr (v_digest v)"
    using receipt_New_facts(1,2) [OF f(2)] by (simp add: Verified_Digest_def)
  have s2: "status_at (held root d2) (grant_of_id g) (Completed c ?o)"
    by (rule status_persists [OF d1(3) stepsD [OF steps_FinalizeStageReceipt f(1)]])
  have out: "so_Outcome ?o = ms_Outcome r" by (simp add: stage_outcome_of_def)
  from liftsD [OF lifts_CompleteStageWithTarget d1(1), of x] liftsD [OF lifts_FinalizeStageReceipt f(1), of x]
    valid dv out f(3) s2 new_verifies [OF p idn f(2)] t(1)
  show ?thesis
    unfolding record_result_def StagedOperation_finalize_def or_return_def liftE_def Let_def by auto
qed


definition outside_clock :: "('x \<Rightarrow> time) \<Rightarrow> 'd \<times> 'x \<Rightarrow> time" where
  "outside_clock now w = now (snd w)"

text \<open>The cursor selects the stage \<open>sid\<close> with these predecessors, and the mutator is made for the grant.\<close>

definition selects :: "Cursor \<Rightarrow> Decision \<Rightarrow> string \<Rightarrow> Verified list \<Rightarrow> bool" where
  "selects cursor decision sid ps \<longleftrightarrow> Cursor_Decision cursor = Inr decision \<and> Cursor_Predecessors cursor = Inr (Some ps)
     \<and> cd_State decision = ''NEXT'' \<and> cd_RequiresAuthorization decision \<and> cd_Operation decision \<noteq> ''''
     \<and> cd_StageID decision = sid"

lemma run_completes:
  assumes p: "Verify rawPlan ex = Inr plan" and idn: "ok_identity (x_ContractIdentity ex)"
    and nr: "x_RecoverySourcePlanDigest ex = ''''"
    and small: "length (i_Name (x_ContractIdentity ex)) \<le> 1000" "length (i_Namespace (x_ContractIdentity ex)) \<le> 1000"
    and g: "VerifyStage sigcheck raw keyRaw plan sid (Some ps) at0 = Inr g"
    and sel: "selects cursor decision sid ps" and mb: "mu_Binding m = mutation_binding (vg_binding g)"
    and at: "valid_time (now x)" "active_window (sc_NotBefore (vg_binding g)) (sc_NotAfter (vg_binding g)) (now x)"
    and c: "c = stage_claim_of (vg_binding g) (now x)"
    and mu: "\<forall>d. mu_Mutate m (mutation_request plan decision g (vg_binding g) c) (d, x) = ((r, merr), (d, x1))"
    and valid: "validateStageMutationResult sid r merr = Inr ()"
    and t: "valid_time (now x1)" "\<not> before (now x1) (now x)"
    and h: "file_healthy (store_of root) d" and st: "status_at (held root d) (grant_of_id g) Available"
    and links: "\<forall>s sd. Binding_Stage plan sid = Inr (s, sd) \<longrightarrow> list_all2 (links_to plan s (now x1)) (elems (s_Requires s)) ps"
    and nrp: "\<forall>q \<in> set ps. v_recoveryPlan q \<noteq> b_PlanDigest plan"
    and slot: "stageReceiptKey plan sid = Inr k" "held root d ''stage-receipts'' k = None"
  shows "\<exists>receipt v d'. StagedOperation_Run (operation_of (on_fst (ledger root)) m (outside_clock now)) plan cursor g (d, x)
      = ((receipt, if ms_Outcome r \<noteq> ''SUCCEEDED''
           then Some (StageResultError (sor_State receipt) (ms_FailureCategory r) (ms_MismatchEvidence r)) else None), (d', x1))
    \<and> sor_State receipt = ''COMPLETED_'' @ ms_Outcome r \<and> sor_Claim receipt = Some c
    \<and> sor_StageReceiptDigest receipt = v_digest v \<and> held root d' ''stage-receipts'' k = Some (v_raw v)
    \<and> receipt_Verify (v_raw v) (v_digest v) plan (Some ps) = Inr v
    \<and> (\<exists>o'. sor_Outcome receipt = Some o' \<and> status_at (held root d') (grant_of_id g) (Completed c o'))"
proof -
  have vg: "vg_verified g" using verified_binding [OF p g] by metis
  have "matchStageBinding c' (vg_binding g) = Inr ()" if "claim_in Available = Some c'" for c' using that by simp
  from files.inspect_refines [OF h st vg this] obtain d1 where
    i: "InspectStage (ledger root) g d = (Inr (inspection_of Available), d1)" "file_healthy (store_of root) d1"
      "held root d1 = held root d" by (auto simp: files.quiet_def)
  have st1: "status_at (held root d1) (grant_of_id g) Available" by (simp only: i(3) st)
  obtain d2 where cl: "ClaimStage (ledger root) g (now x) d1 = (Inr c, d2)" "file_healthy (store_of root) d2"
    "status_at (held root d2) (grant_of_id g) (Claimed c)"
    "\<forall>y k. (y, k) \<noteq> (''claims'', recordKey (grant_of_id g)) \<longrightarrow> held root d2 y k = held root d1 y k"
    using verified_claim [OF p g at i(2) st1] unfolding c by metis
  have slot2: "held root d2 ''stage-receipts'' k = None" using cl(4) slot(2) i(3) by simp
  define bound where "bound = \<lparr>sor_Format = StagedReceiptFormat, sor_State = ''PRECLAIM'',
    sor_PlanDigest = sc_PlanDigest (vg_binding g), sor_StageID = sc_StageID (vg_binding g), sor_Claim = None,
    sor_Outcome = None, sor_StageReceiptDigest = '''', sor_FailureCategory = '''', sor_MismatchEvidence = None\<rparr>"
  let ?claimed = "bound\<lparr>sor_Claim := Some c, sor_State := ''CLAIMED_INDETERMINATE_STOP''\<rparr>"
  note d = sel [unfolded selects_def]
  have "StagedOperation_Run (operation_of (on_fst (ledger root)) m (outside_clock now)) plan cursor g (d, x)
      = run_inspected (on_fst (ledger root)) m (outside_clock now) bound plan decision g (Some ps) (vg_binding g)
          (inspection_of Available) (d1, x)"
    using enabled_plan [OF p nr] d verified_grant_binds [OF g] mb liftsD [OF lifts_InspectStage i(1), of x]
    by (simp add: StagedOperation_Run_def operation_of_def or_return_def liftE_def bound_def Let_def)
  also have "\<dots> = record_result (on_fst (ledger root)) (outside_clock now) ?claimed plan sid g (Some ps) c r merr (d2, x1)"
    using liftsD [OF lifts_ClaimStage cl(1), of x] mu d
    by (simp add: run_inspected_def claim_and_mutate_def or_return_def outside_clock_def Let_def)
  finally have run: "StagedOperation_Run (operation_of (on_fst (ledger root)) m (outside_clock now)) plan cursor g (d, x)
      = record_result (on_fst (ledger root)) (outside_clock now) ?claimed plan sid g (Some ps) c r merr (d2, x1)" .
  have ck: "\<forall>d :: disk. outside_clock now (d, x1) = now x1" by (simp add: outside_clock_def)
  have sc: "sor_Claim ?claimed = Some c" by simp
  show ?thesis
    using record_result_completes [OF p idn nr small g at(1) c valid ck t cl(2,3) links nrp slot(1) slot2, of ?claimed]
    unfolding run sc .
qed

text \<open>
  C16: on a healthy ledger a run reaches its durable outcome. When plan, grant and cursor are verified
  and fit, the grant is available and in its window and the mutator answers within the rules, \<open>Run\<close>
  calls it once, returns exactly the outcome it answered, with an error value precisely when that is
  not success, and leaves behind the claim, the outcome and a receipt that verifies for the plan.
\<close>

theorem staged_run_completes:
  assumes "Verify rawPlan ex = Inr plan" and "ok_identity (x_ContractIdentity ex)"
    and "x_RecoverySourcePlanDigest ex = ''''"
    and "length (i_Name (x_ContractIdentity ex)) \<le> 1000" "length (i_Namespace (x_ContractIdentity ex)) \<le> 1000"
    and "VerifyStage sigcheck raw keyRaw plan sid (Some ps) at0 = Inr g"
    and "selects cursor decision sid ps" and "mu_Binding m = mutation_binding (vg_binding g)"
    and "valid_time (now x)" "active_window (sc_NotBefore (vg_binding g)) (sc_NotAfter (vg_binding g)) (now x)"
    and "c = stage_claim_of (vg_binding g) (now x)"
    and "\<forall>d. mu_Mutate m (mutation_request plan decision g (vg_binding g) c) (d, x) = ((r, merr), (d, x1))"
    and "validateStageMutationResult sid r merr = Inr ()"
    and "valid_time (now x1)" "\<not> before (now x1) (now x)"
    and "file_healthy (store_of root) d" "status_at (held root d) (grant_of_id g) Available"
    and "\<forall>s sd. Binding_Stage plan sid = Inr (s, sd) \<longrightarrow> list_all2 (links_to plan s (now x1)) (elems (s_Requires s)) ps"
    and "\<forall>q \<in> set ps. v_recoveryPlan q \<noteq> b_PlanDigest plan"
    and "stageReceiptKey plan sid = Inr k" "held root d ''stage-receipts'' k = None"
  shows "\<exists>receipt v d'. StagedOperation_Run (operation_of (on_fst (ledger root)) m (outside_clock now)) plan cursor g (d, x)
      = ((receipt, if ms_Outcome r \<noteq> ''SUCCEEDED''
           then Some (StageResultError (sor_State receipt) (ms_FailureCategory r) (ms_MismatchEvidence r)) else None), (d', x1))
    \<and> sor_State receipt = ''COMPLETED_'' @ ms_Outcome r \<and> sor_Claim receipt = Some c
    \<and> sor_StageReceiptDigest receipt = v_digest v \<and> held root d' ''stage-receipts'' k = Some (v_raw v)
    \<and> receipt_Verify (v_raw v) (v_digest v) plan (Some ps) = Inr v
    \<and> (\<exists>o'. sor_Outcome receipt = Some o' \<and> status_at (held root d') (grant_of_id g) (Completed c o'))"
  by (rule run_completes [OF assms])


section \<open>Well-formed receipts\<close>

text \<open>What the JSON of a run receipt may carry, and when an error comes with it.\<close>

definition redacted_pair :: "string \<Rightarrow> SubmissionMismatchEvidence option \<Rightarrow> bool" where
  "redacted_pair category evidence \<longleftrightarrow>
     (category = '''' \<or> validStageFailureCategory category) \<and> validSubmissionMismatchEvidence evidence
     \<and> (evidence \<noteq> None) = submissionMismatchEvidenceRequired category"

definition receipt_type :: "StagedOperationReceipt \<times> staged_error option \<Rightarrow> bool" where
  "receipt_type p = (case p of (r, err) \<Rightarrow>
     sor_Format r = StagedReceiptFormat
     \<and> (sor_FailureCategory r = '''' \<or> validStageFailureCategory (sor_FailureCategory r))
     \<and> validSubmissionMismatchEvidence (sor_MismatchEvidence r)
     \<and> (case err of
          None \<Rightarrow> sor_State r = ''COMPLETED_SUCCEEDED'' \<and> sor_MismatchEvidence r = None \<and> sor_FailureCategory r = ''''
        | Some (RunError e) \<Rightarrow> sor_State r \<in> {''PRECLAIM'', ''CLAIMED_INDETERMINATE_STOP''} \<and> sor_StageReceiptDigest r = ''''
        | Some (StageResultError st category evidence) \<Rightarrow> sor_State r = st
            \<and> st \<in> {''COMPLETED_FAILED'', ''COMPLETED_STOPPED''} \<and> evidence = sor_MismatchEvidence r
            \<and> redacted_pair category evidence)
     \<and> (sor_StageReceiptDigest r \<noteq> '''' \<longrightarrow> digestPattern (sor_StageReceiptDigest r) \<and> sor_Outcome r \<noteq> None))"

definition yields_type :: "'w run \<Rightarrow> bool" where
  "yields_type m \<longleftrightarrow> (\<forall>w p w'. m w = (p, w') \<longrightarrow> receipt_type p)"

text \<open>A receipt that is still open: no receipt digest, nothing that is not redacted.\<close>

definition open_receipt :: "StagedOperationReceipt \<Rightarrow> bool" where
  "open_receipt r \<longleftrightarrow> sor_Format r = StagedReceiptFormat \<and> sor_StageReceiptDigest r = ''''
     \<and> sor_State r \<in> {''PRECLAIM'', ''CLAIMED_INDETERMINATE_STOP''}
     \<and> (sor_FailureCategory r = '''' \<or> validStageFailureCategory (sor_FailureCategory r))
     \<and> validSubmissionMismatchEvidence (sor_MismatchEvidence r)"

lemma redacted_pair_none: "redacted_pair '''' None"
  by code_simp

lemma typed_give_up: "open_receipt r \<Longrightarrow> yields_type (give_up r e)"
  by (auto simp: yields_type_def give_up_def receipt_type_def open_receipt_def)

lemma typed_or_return:
  assumes "open_receipt r" and "\<And>w x u. m w = (Inr x, u) \<Longrightarrow> yields_type (f x)"
  shows "yields_type (or_return r m f)"
  unfolding yields_type_def
proof (intro allI impI)
  fix w p w' assume "or_return r m f w = (p, w')"
  then show "receipt_type p"
  proof (cases rule: or_return_cases)
    case (failed e)
    then show ?thesis using typed_give_up [OF assms(1)] by (simp add: yields_type_def give_up_def)
  next
    case (went x u)
    with assms(2) [OF went(1)] show ?thesis unfolding yields_type_def by blast
  qed
qed

lemma typed_finalize:
  assumes "open_receipt r" and "\<And>v. o' = Some v \<Longrightarrow> so_Outcome v \<in> {''SUCCEEDED'', ''FAILED'', ''STOPPED''}"
    and "\<And>v. o' = Some v \<Longrightarrow> so_Outcome v = ''SUCCEEDED'' \<Longrightarrow> sor_FailureCategory r = '''' \<and> ev = None"
    and "redacted_pair category ev"
  shows "yields_type (StagedOperation_finalize store r plan g ps o' category ev)"
proof (cases o')
  case None
  then show ?thesis using assms(1) by (simp add: StagedOperation_finalize_def typed_give_up)
next
  case (Some v)
  show ?thesis
    unfolding StagedOperation_finalize_def Some option.case
  proof (intro typed_or_return assms(1))
    fix w x u w1 d u1
    assume "liftE (Verified_Digest x) w1 = (Inr d, u1)"
    then have "digestPattern d" by (auto simp: liftE_def Verified_Digest_def split: if_splits)
    then show "yields_type (\<lambda>w. let final = r\<lparr>sor_Outcome := Some v, sor_StageReceiptDigest := d,
          sor_State := ''COMPLETED_'' @ so_Outcome v, sor_MismatchEvidence := ev\<rparr>
        in ((final, if so_Outcome v \<noteq> ''SUCCEEDED'' then Some (StageResultError (sor_State final) category ev) else None), w))"
      using assms(1) assms(2,3) [OF Some] assms(4)
      by (auto simp: yields_type_def receipt_type_def open_receipt_def Let_def redacted_pair_def)
  qed
qed

lemma inspected_outcome:
  assumes "InspectStage store g s = (Inr i, t)" and "si_Outcome i = Some v"
  shows "so_Outcome v \<in> {''SUCCEEDED'', ''FAILED'', ''STOPPED''}"
proof -
  have "validateStageOutcome v = Inr ()"
    using assms unfolding InspectStage_def readStageOutcome_def read_record_def op_conv Inr_conv bindS_def tryS_def liftE_def
    by (auto split: sum.splits prod.splits if_splits simp: bindE_eq_Inr)
  then show ?thesis by (auto simp: validateStageOutcome_def split: if_splits)
qed


lemma completed_outcome:
  assumes "CompleteStageWithTarget store c outcome mutation evidence target at s = (Inr v, t)"
  shows "so_Outcome v = outcome" "outcome \<in> {''SUCCEEDED'', ''FAILED'', ''STOPPED''}"
proof -
  have w: "write_outcome store k rd x raw e l m s' = (Inr y, u) \<Longrightarrow> y = x" for k rd x raw e l m s' y u
    unfolding write_outcome_def tryS_def bindS_def liftE_def by (auto split: sum.splits prod.splits if_splits)
  show "so_Outcome v = outcome" "outcome \<in> {''SUCCEEDED'', ''FAILED'', ''STOPPED''}"
    using assms unfolding CompleteStageWithTarget_def Let_def
    by (auto split: if_splits simp: op_conv stage_outcome_of_def dest!: w)
qed

lemma typed_record_result:
  assumes "open_receipt claimed" and "sor_State claimed = ''CLAIMED_INDETERMINATE_STOP''"
    and "sor_FailureCategory claimed = ''''"
  shows "yields_type (record_result store clock claimed plan i g ps claim r merr)"
  unfolding record_result_def Let_def
proof (intro typed_or_return assms(1))
  fix w x u
  assume "liftE (validateStageMutationResult i r merr) w = (Inr x, u)"
  then have v: "validateStageMutationResult i r merr = Inr ()" by (simp add: liftE_def)
  let ?judged = "claimed\<lparr>sor_FailureCategory := ms_FailureCategory r, sor_MismatchEvidence := ms_MismatchEvidence r\<rparr>"
  show o: "open_receipt ?judged"
    using assms(1) v by (auto simp: open_receipt_def validateStageMutationResult_def split: if_splits)
  fix w1 o' u1
  assume c: "CompleteStageWithTarget store claim (ms_Outcome r) (ms_MutationState r) (ms_EvidenceDigest r)
      (ms_TargetClusterUIDDigest r) (clock w1) w1 = (Inr o', u1)"
  show "yields_type (StagedOperation_finalize store (?judged\<lparr>sor_Outcome := Some o'\<rparr>) plan g ps (Some o')
      (ms_FailureCategory r) (ms_MismatchEvidence r))"
  proof (rule typed_finalize)
    show "open_receipt (?judged\<lparr>sor_Outcome := Some o'\<rparr>)" using o by (simp add: open_receipt_def)
    show "redacted_pair (ms_FailureCategory r) (ms_MismatchEvidence r)"
      using v unfolding redacted_pair_def by (auto simp: validateStageMutationResult_def split: if_splits)
    fix y assume y: "Some o' = Some y"
    then show "so_Outcome y \<in> {''SUCCEEDED'', ''FAILED'', ''STOPPED''}" using completed_outcome [OF c] by simp
    assume "so_Outcome y = ''SUCCEEDED''"
    then show "sor_FailureCategory (?judged\<lparr>sor_Outcome := Some o'\<rparr>) = '''' \<and> ms_MismatchEvidence r = None"
      using y completed_outcome [OF c] v by (auto simp: validateStageMutationResult_def split: if_splits)
  qed
qed

lemma typed_claim_and_mutate:
  assumes "open_receipt receipt" and "sor_FailureCategory receipt = ''''"
  shows "yields_type (claim_and_mutate store m clock receipt plan decision g ps b)"
  unfolding claim_and_mutate_def Let_def
proof (intro typed_or_return assms(1))
  fix c :: StageClaimReceipt
  let ?claimed = "receipt\<lparr>sor_Claim := Some c, sor_State := ''CLAIMED_INDETERMINATE_STOP''\<rparr>"
  have "yields_type (record_result store clock ?claimed plan (cd_StageID decision) g ps c r merr)" for r merr
    by (rule typed_record_result) (use assms in \<open>simp_all add: open_receipt_def\<close>)
  then show "yields_type (\<lambda>w1. case mu_Mutate m (mutation_request plan decision g b c) w1 of ((result, mutationErr), w2) \<Rightarrow>
      record_result store clock ?claimed plan (cd_StageID decision) g ps c result mutationErr w2)"
    unfolding yields_type_def by (auto split: prod.splits)
qed

lemma run_typed:
  assumes "StagedOperation_Run (operation_of store m clock) plan cursor g w = (p, w')"
  shows "receipt_type p"
  using assms
proof (cases rule: run_cases)
  case refused
  then obtain e where "snd p = Some (RunError e)" by blast
  with refused assms show ?thesis
    by (cases p) (simp add: receipt_type_def validSubmissionMismatchEvidence_def)
next
  case (guarded decision ps bound)
  have o: "open_receipt bound" "sor_FailureCategory bound = ''''"
    by (simp_all add: guarded(8) open_receipt_def validSubmissionMismatchEvidence_def)
  have ri: "yields_type (run_inspected store m clock bound plan decision g ps (vg_binding g) i)"
    if "InspectStage store g s = (Inr i, t)" for s i t
  proof -
    have "yields_type (StagedOperation_finalize store bound plan g ps (si_Outcome i) '''' None)"
      by (rule typed_finalize [OF o(1)])
        (use inspected_outcome [OF that] o(2) redacted_pair_none in simp_all)
    moreover have "open_receipt (bound\<lparr>sor_State := ''CLAIMED_INDETERMINATE_STOP''\<rparr>)"
      using o(1) by (simp add: open_receipt_def)
    ultimately show ?thesis
      by (simp add: run_inspected_def typed_give_up o typed_claim_and_mutate)
  qed
  have "yields_type (or_return bound (InspectStage store g)
      (run_inspected store m clock bound plan decision g ps (vg_binding g)))"
    by (rule typed_or_return [OF o(1)]) (rule ri)
  with guarded(9) show ?thesis unfolding yields_type_def by blast
qed


text \<open>
  C20: run receipts are well formed and redacted. Whatever store and mutator return, the receipt has
  its format, a failure category only from the closed list, mismatch evidence only of the bounded
  form, and a receipt digest only together with an outcome; no error comes exactly with
  \<open>COMPLETED_SUCCEEDED\<close>, a durable failure or stop comes with its own error, whose category is empty
  or on the closed list and has mismatch evidence exactly where the category calls for it, and any other
  error leaves the state before or behind the claim.
\<close>

theorem staged_receipt_type:
  assumes "StagedOperation_Run (operation_of store m clock) plan cursor g w = (p, w')"
  shows "receipt_type p"
  by (rule run_typed [OF assms])

section \<open>A concrete run\<close>

text \<open>The world outside the disk is a clock, and the mutator lets a minute pass.\<close>

definition sample_result :: StageMutationResult where
  "sample_result = \<lparr>ms_Outcome = ''SUCCEEDED'', ms_MutationState = ''ATTEMPTED'', ms_EvidenceDigest = sample_digest CHR ''c'',
     ms_TargetClusterUIDDigest = '''', ms_FailureCategory = '''', ms_MismatchEvidence = None\<rparr>"

definition sample_mutator :: "(disk \<times> time) StageMutator" where
  "sample_mutator = \<lparr>mu_Binding = mutation_binding (vg_binding sample_grant),
     mu_Mutate = (\<lambda>req w. ((sample_result, None), (fst w, snd w + minute)))\<rparr>"

definition sample_next :: Decision where
  "sample_next = next_decision sample_binding 0 sample_stage1 (SHA256 (canonical_text (enc_stage sample_stage1))) []"

definition sample_cursor :: Cursor where
  "sample_cursor = verifiedCursor sample_next []"

lemma sample_cursor_evaluated: "Evaluate sample_binding (Some []) = Inr sample_cursor"
  using Evaluate_chained [OF sample_verified(1) sample_no_recovery sample_chained] sample_first
  by (simp add: sample_cursor_def sample_next_def)

lemma sample_selects: "selects sample_cursor sample_next ''provider-prerequisites'' []"
  using sample_stage1_fields sample_mutating
  by (simp add: selects_def sample_cursor_def verifiedCursor_def Cursor_Decision_def Cursor_Predecessors_def
      sample_next_def next_decision_def IsMutating_iff_operation)

abbreviation sample_operation :: "string \<Rightarrow> (disk \<times> time) StagedOperation" where
  "sample_operation root \<equiv> operation_of (on_fst (ledger root)) sample_mutator (outside_clock (\<lambda>x. x))"

abbreviation sample_claim_at :: "time \<Rightarrow> StageClaimReceipt" where
  "sample_claim_at t \<equiv> stage_claim_of (vg_binding sample_grant) t"

lemma sample_run_facts:
  "length (i_Name (x_ContractIdentity sample_expected)) \<le> 1000"
  "length (i_Namespace (x_ContractIdentity sample_expected)) \<le> 1000"
  "\<forall>s sd. Binding_Stage sample_binding ''provider-prerequisites'' = Inr (s, sd) \<longrightarrow>
      list_all2 (links_to sample_binding s (2 * minute)) (elems (s_Requires s)) []"
  "active_window (sc_NotBefore (vg_binding sample_grant)) (sc_NotAfter (vg_binding sample_grant)) minute"
  "\<forall>d. mu_Mutate sample_mutator (mutation_request sample_binding sample_next sample_grant
      (vg_binding sample_grant) (sample_claim_at minute)) (d, minute) = ((sample_result, None), (d, 2 * minute))"
  "validateStageMutationResult ''provider-prerequisites'' sample_result None = Inr ()"
  "status_at (held root empty_disk) (grant_of_id sample_grant) Available"
  "mu_Binding sample_mutator = mutation_binding (vg_binding sample_grant)"
  "\<not> before (2 * minute) minute" "\<forall>q \<in> set []. v_recoveryPlan q \<noteq> b_PlanDigest sample_binding"
  using sample_stage1_lookup sample_stage1_fields sample_window
  by (simp_all add: sample_expected_def sample_grant_def sample_payload_def sample_mutator_def empty_disk_facts
      validateStageMutationResult_def sample_result_def oneOf_def sample_digest_pattern is_lower_hex_def
      is_digit_def validSubmissionMismatchEvidence_def submissionMismatchEvidenceRequired_def
      submissionMismatchEvidenceStopCategoryPattern_def at_position_def before_def minute_def nanosecond_per_second_def)

lemma sample_run:
  "\<exists>receipt d'. StagedOperation_Run (sample_operation root) sample_binding sample_cursor sample_grant (empty_disk, minute)
      = ((receipt, None), (d', 2 * minute)) \<and> sor_State receipt = ''COMPLETED_SUCCEEDED''
    \<and> sor_Claim receipt = Some (sample_claim_at minute)"
proof -
  note f = sample_run_facts
  obtain k where k: "stageReceiptKey sample_binding ''provider-prerequisites'' = Inr k" using sample_slot by blast
  from run_completes [where root = root, OF sample_verified(1) sample_identity sample_no_recovery f(1,2) sample_grant_verified
      sample_selects f(8) sample_at(1) f(4) refl f(5,6) sample_at(2) f(9) empty_disk_facts(1) f(7,3,10) k empty_disk_facts(2)]
  show ?thesis by (auto simp: sample_result_def)
qed

lemma staged_run_completes_witness:
  "\<exists>receipt d'. StagedOperation_Run (sample_operation ''/l'') sample_binding sample_cursor sample_grant (empty_disk, minute)
      = ((receipt, None), (d', 2 * minute)) \<and> sor_State receipt = ''COMPLETED_SUCCEEDED''"
proof -
  note f = sample_run_facts
  obtain k where k: "stageReceiptKey sample_binding ''provider-prerequisites'' = Inr k" using sample_slot by blast
  from staged_run_completes [where root = "''/l''", OF sample_verified(1) sample_identity sample_no_recovery f(1,2) sample_grant_verified
      sample_selects f(8) sample_at(1) f(4) refl f(5,6) sample_at(2) f(9) empty_disk_facts(1) f(7,3,10) k empty_disk_facts(2)]
  show ?thesis by (auto simp: sample_result_def)
qed

lemma staged_run_mutates_once_witness:
  "\<exists>w2 w3 answer. mu_Mutate sample_mutator (mutation_request sample_binding sample_next sample_grant
      (vg_binding sample_grant) (sample_claim_at minute)) w2 = (answer, w3)
    \<and> RequireExecutionEnabled sample_binding = Inr ()"
proof -
  obtain receipt d' where r: "StagedOperation_Run (sample_operation ''/l'') sample_binding sample_cursor sample_grant
      (empty_disk, minute) = ((receipt, None), (d', 2 * minute))" "sor_Claim receipt = Some (sample_claim_at minute)"
    using sample_run [of "''/l''"] by blast
  from staged_run_mutates_once [OF r(1)] r(2) sample_selects show ?thesis
    by (simp add: selects_def del: split_paired_Ex) metis
qed

lemma staged_run_never_repeats_witness:
  "\<exists>w1 receipt' err' w3. StagedOperation_Run (sample_operation ''/l'') sample_binding sample_cursor sample_grant w1
      = ((receipt', err'), w3) \<and> snd w3 = snd w1 \<and> sor_Claim receipt' = None"
proof -
  obtain receipt d' where r: "StagedOperation_Run (sample_operation ''/l'') sample_binding sample_cursor sample_grant
      (empty_disk, minute) = ((receipt, None), (d', 2 * minute))" "sor_Claim receipt \<noteq> None"
    using sample_run [of "''/l''"] by blast
  obtain receipt' err' w3 where s: "StagedOperation_Run (sample_operation ''/l'') sample_binding sample_cursor sample_grant
      (d', 2 * minute) = ((receipt', err'), w3)"
    by (metis prod.exhaust)
  have "\<forall>req u. store_runs (ledger ''/l'') (fst u) (fst (snd (mu_Mutate sample_mutator req u)))"
    by (simp add: sample_mutator_def)
  from staged_run_never_repeats [OF r this rtranclp.rtrancl_refl refl s] s show ?thesis by blast
qed

lemma staged_receipt_type_witness:
  "\<exists>receipt w'. StagedOperation_Run (sample_operation ''/l'') sample_binding sample_cursor sample_grant (empty_disk, minute)
     = ((receipt, None), w') \<and> receipt_type (receipt, None)"
proof -
  obtain receipt d' where r: "StagedOperation_Run (sample_operation ''/l'') sample_binding sample_cursor sample_grant
      (empty_disk, minute) = ((receipt, None), (d', 2 * minute))"
    using sample_run [of "''/l''"] by blast
  from staged_receipt_type [OF r] r show ?thesis by blast
qed

end
