(* ===== verification/SubmissionStageFacts.thy ===== *)
theory SubmissionStageFacts
  imports SubmissionStage StagedTheorems
begin

text \<open>
  The submission client behind a stage: every stop of the client carries a category that the staged
  operation accepts, and mismatch evidence exactly when the category asks for it.
\<close>

section \<open>Faults that become accepted categories\<close>

definition exhausted_words :: "string list" where
  "exhausted_words = map (\<lambda>m. ''SUBMISSION_OBJECT_'' @ m @ ''_CONVERGENCE_EXHAUSTED'') object_mismatch_words"

abbreviation positioned :: "string \<Rightarrow> bool" where
  "positioned c \<equiv> has_prefix c ''SUBMISSION_OBJECT_'' \<or> has_prefix c ''SUBMISSION_CREATE_RESPONSE_''"

definition accepted :: "string \<Rightarrow> bool \<Rightarrow> bool" where
  "accepted c evidence \<longleftrightarrow> (if positioned c
     then c \<in> set object_stop_words \<and> evidence = (c \<in> set exhausted_words)
     else c \<in> set plain_stop_categories \<and> \<not> evidence)"

fun stop_fault :: "submission_fault \<Rightarrow> bool" where
  "stop_fault (PlainFault m) = True"
| "stop_fault (Panics m) = False"
| "stop_fault (Categorized c m ev) = accepted c (ev \<noteq> None)"


lemma accepted_plain: "list_all (\<lambda>c. accepted c False) ([''SUBMISSION_RESPONSE_INVALID'', ''SUBMISSION_HTTP_UNAUTHORIZED'', ''SUBMISSION_HTTP_FORBIDDEN'',
     ''SUBMISSION_HTTP_RATE_LIMITED'', ''SUBMISSION_HTTP_SERVER_ERROR'', ''SUBMISSION_HTTP_REJECTED'',
     ''SUBMISSION_TIMEOUT_STOPPED'', ''SUBMISSION_DNS_STOPPED'', ''SUBMISSION_TLS_STOPPED'', ''SUBMISSION_CONNECT_STOPPED'',
     ''SUBMISSION_TRANSPORT_STOPPED'', ''SUBMISSION_CONFLICT_STOPPED'', ''SUBMISSION_OBJECT_RUNTIME_IDENTITY_INVALID'',
     ''SUBMISSION_OBJECT_TERMINATING'', ''SUBMISSION_OBJECT_RESPONSE_INVALID''])"
  by code_simp




lemma accepted_literals [simp]:
  "accepted ''SUBMISSION_RESPONSE_INVALID'' False" "accepted ''SUBMISSION_HTTP_UNAUTHORIZED'' False"
  "accepted ''SUBMISSION_HTTP_FORBIDDEN'' False" "accepted ''SUBMISSION_HTTP_RATE_LIMITED'' False"
  "accepted ''SUBMISSION_HTTP_SERVER_ERROR'' False" "accepted ''SUBMISSION_HTTP_REJECTED'' False"
  "accepted ''SUBMISSION_TIMEOUT_STOPPED'' False" "accepted ''SUBMISSION_DNS_STOPPED'' False"
  "accepted ''SUBMISSION_TLS_STOPPED'' False" "accepted ''SUBMISSION_CONNECT_STOPPED'' False"
  "accepted ''SUBMISSION_TRANSPORT_STOPPED'' False" "accepted ''SUBMISSION_CONFLICT_STOPPED'' False"
  "accepted ''SUBMISSION_OBJECT_RUNTIME_IDENTITY_INVALID'' False" "accepted ''SUBMISSION_OBJECT_TERMINATING'' False"
  "accepted ''SUBMISSION_OBJECT_RESPONSE_INVALID'' False"
  using accepted_plain by simp_all

lemma stop_constants [simp]: "stop_fault response_invalid" "stop_fault (apiStatusError n)" "stop_fault identity_changed"
  "stop_fault terminating_object" "stop_fault interrupted_confirmation"
  by (simp_all add: response_invalid_def identity_changed_def terminating_object_def interrupted_confirmation_def
      apiStatusError_def)











section \<open>The stop of a plane\<close>













section \<open>The answers of the mutators\<close>

lemma validate_results_state:
  "validate_results rs obs st = Inr u \<Longrightarrow> st \<in> {''NOT_ATTEMPTED'', ''ATTEMPTED''} \<Longrightarrow> u \<in> {''NOT_ATTEMPTED'', ''ATTEMPTED''}"
  by (induction rs obs st rule: validate_results.induct) (auto split: if_splits)

lemma plane_outcome_facts:
  assumes "validateSubmissionPlaneOutcome receipt plane is_stopped = Inr st"
  shows "st \<in> {''NOT_ATTEMPTED'', ''ATTEMPTED''}" "validSubmissionMismatchEvidence (pr_MismatchEvidence receipt)"
    "\<not> is_stopped \<Longrightarrow> pr_MismatchEvidence receipt = None"
  using assms unfolding validateSubmissionPlaneOutcome_def Let_def
  by (auto simp: bindE_eq_Inr split: if_splits dest: validate_results_state)

lemma no_evidence_required: "\<not> submissionMismatchEvidenceRequired ''''"
  by code_simp

lemma response_invalid_accepted: "validStageFailureCategory ''SUBMISSION_RESPONSE_INVALID''"
  "\<not> submissionMismatchEvidenceRequired ''SUBMISSION_RESPONSE_INVALID''"
  by code_simp+

lemma valid_stop:
  assumes "ms_Outcome r = ''STOPPED''" and "oneOf (ms_MutationState r) [''NOT_ATTEMPTED'', ''ATTEMPTED'', ''UNKNOWN'']"
    and "digestPattern (ms_EvidenceDigest r)" and "validSubmissionMismatchEvidence (ms_MismatchEvidence r)"
    and "ms_FailureCategory r = '''' \<or> validStageFailureCategory (ms_FailureCategory r)"
    and "(ms_MismatchEvidence r \<noteq> None) = submissionMismatchEvidenceRequired (ms_FailureCategory r)"
    and "ms_TargetClusterUIDDigest r = ''''"
  shows "validateStageMutationResult i r merr = Inr ()"
  using assms(2-) unfolding validateStageMutationResult_def assms(1) by (auto simp: oneOf_def)

lemma valid_success:
  assumes "ms_Outcome r = ''SUCCEEDED''" and "ms_FailureCategory r = ''''" and "ms_MismatchEvidence r = None"
    and "digestPattern (ms_EvidenceDigest r)"
    and "ms_MutationState r = ''ATTEMPTED'' \<or> i = ''provider-prerequisites'' \<and> ms_MutationState r = ''NOT_ATTEMPTED''"
    and "if i = ''cluster-lifecycle'' then digestPattern (ms_TargetClusterUIDDigest r) else ms_TargetClusterUIDDigest r = ''''"
  shows "validateStageMutationResult i r None = Inr ()"
proof -
  have "oneOf (ms_MutationState r) [''NOT_ATTEMPTED'', ''ATTEMPTED'', ''UNKNOWN'']"
    using assms(5) by (auto simp: oneOf_def)
  moreover have "oneOf ''SUCCEEDED'' [''SUCCEEDED'', ''FAILED'', ''STOPPED'']" by (simp add: oneOf_def)
  ultimately show ?thesis using assms(4-) no_evidence_required
    unfolding validateStageMutationResult_def assms(1-3)
    by (simp only: not_True_eq_False simp_thms if_False if_True validSubmissionMismatchEvidence_def option.case split: if_splits)
      auto
qed

lemma state_listed: "st \<in> {''NOT_ATTEMPTED'', ''ATTEMPTED''} \<Longrightarrow> oneOf st [''NOT_ATTEMPTED'', ''ATTEMPTED'', ''UNKNOWN'']"
  by (auto simp: oneOf_def)

lemma zero_mutation_fields [simp]:
  "ms_Outcome zero_mutation_result = ''''" "ms_MutationState zero_mutation_result = ''''"
  "ms_EvidenceDigest zero_mutation_result = ''''" "ms_TargetClusterUIDDigest zero_mutation_result = ''''"
  "ms_FailureCategory zero_mutation_result = ''''" "ms_MismatchEvidence zero_mutation_result = None"
  by (simp_all add: zero_mutation_result_def)

text \<open>What a plane mutator answers: a refusal, a stop, or a success.\<close>

lemma plane_answer_cases:
  assumes "plane_mutation_result m receipt submitErr = (result, merr)"
  obtains (refused) "result = zero_mutation_result" "merr \<noteq> None"
  | (stopped) st d c ev where "validateSubmissionPlaneOutcome receipt (sm_plane m) (submitErr \<noteq> None) = Inr st"
      "execution_canonicalDigest (enc_plane_receipt receipt) = Inr d"
      "result = zero_mutation_result\<lparr>ms_Outcome := ''STOPPED'', ms_MutationState := st, ms_EvidenceDigest := d,
         ms_FailureCategory := c, ms_MismatchEvidence := ev\<rparr>"
      "c = '''' \<or> validStageFailureCategory c" "ev = None \<or> ev = pr_MismatchEvidence receipt"
      "(ev \<noteq> None) = submissionMismatchEvidenceRequired c"
  | (succeeded) st d tg where "validateSubmissionPlaneOutcome receipt (sm_plane m) False = Inr st"
      "execution_canonicalDigest (enc_plane_receipt receipt) = Inr d" "merr = None"
      "result = zero_mutation_result\<lparr>ms_Outcome := ''SUCCEEDED'', ms_MutationState := st, ms_EvidenceDigest := d,
         ms_TargetClusterUIDDigest := tg\<rparr>"
      "st = ''ATTEMPTED'' \<or> mb_StageID (sm_binding m) = ''provider-prerequisites'' \<and> st = ''NOT_ATTEMPTED''"
      "if mb_StageID (sm_binding m) = ''cluster-lifecycle''
       then \<exists>uid. submittedLifecycleClusterUID receipt (sm_plane m) (sm_identity m) = Inr uid \<and> tg = SHA256 uid
       else tg = ''''"
proof (cases "validateSubmissionPlaneOutcome receipt (sm_plane m) (submitErr \<noteq> None)")
  case (Inl e)
  with assms show thesis by (intro refused) (auto simp: plane_mutation_result_def)
next
  case v: (Inr st)
  show thesis
  proof (cases "execution_canonicalDigest (enc_plane_receipt receipt)")
    case (Inl e)
    with v assms show thesis by (intro refused) (auto simp: plane_mutation_result_def)
  next
    case d: (Inr d)
    show thesis
    proof (cases submitErr)
      case (Some e)
      define c where "c = (if validStageFailureCategory (se_Category e) then se_Category e else ''SUBMISSION_RESPONSE_INVALID'')"
      have c: "validStageFailureCategory c" using response_invalid_accepted(1) by (simp add: c_def)
      show thesis
      proof (cases "(pr_MismatchEvidence receipt \<noteq> None) = submissionMismatchEvidenceRequired c")
        case True
        with assms v d Some c show thesis
          by (intro stopped [OF v d, where c = c and ev = "pr_MismatchEvidence receipt"])
            (simp_all add: plane_mutation_result_def Let_def c_def [symmetric])
      next
        case False
        with assms v d Some show thesis
          by (intro refused) (auto simp: plane_mutation_result_def Let_def c_def [symmetric] split: if_splits)
      qed
    next
      case None
      have v': "validateSubmissionPlaneOutcome receipt (sm_plane m) False = Inr st" using v None by simp
      have run: "plane_mutation_result m receipt None = (result, merr)" using assms None by simp
      note answer = plane_mutation_result_def v' d Let_def
      consider (other) "st \<noteq> ''ATTEMPTED''" "\<not> (mb_StageID (sm_binding m) = ''provider-prerequisites'' \<and> st = ''NOT_ATTEMPTED'')"
        | (empty) "st \<noteq> ''ATTEMPTED''" "mb_StageID (sm_binding m) = ''provider-prerequisites''" "st = ''NOT_ATTEMPTED''"
        | (cluster) "st = ''ATTEMPTED''" "mb_StageID (sm_binding m) = ''cluster-lifecycle''"
        | (created) "st = ''ATTEMPTED''" "mb_StageID (sm_binding m) \<noteq> ''cluster-lifecycle''" by blast
      then show thesis
      proof cases
        case other
        then show thesis using run no_evidence_required
          by (intro stopped [OF v d, where c = "''''" and ev = None]) (auto simp: answer zero_mutation_result_def)
      next
        case empty
        then show thesis using run
          by (intro succeeded [OF v' d, where tg = "''''"]) (auto simp: answer zero_mutation_result_def)
      next
        case cluster
        show thesis
        proof (cases "submittedLifecycleClusterUID receipt (sm_plane m) (sm_identity m)")
          case (Inl e)
          with cluster run show thesis by (intro refused) (auto simp: answer)
        next
          case (Inr uid)
          with cluster run show thesis
            by (intro succeeded [OF v' d, where tg = "SHA256 uid"]) (auto simp: answer zero_mutation_result_def)
        qed
      next
        case created
        then show thesis using run
          by (intro succeeded [OF v' d, where tg = "''''"]) (auto simp: answer zero_mutation_result_def)
      qed
    qed
  qed
qed

text \<open>
  C23: a plane mutator answers within the rules. Whatever receipt and error the submitter returns, the
  mutator either refuses it with an error and the empty result, which the staged operation rejects
  before any outcome is recorded, or gives a result that the operation accepts for its stage; a
  successful lifecycle result carries the digest of the one runtime identity that the submission
  reported for the contract's own Cluster object.
\<close>

theorem plane_answers_within_rules:
  assumes "plane_mutation_result m receipt submitErr = (result, merr)"
  shows "if result = zero_mutation_result then merr \<noteq> None
    else validateStageMutationResult (mb_StageID (sm_binding m)) result merr = Inr ()
      \<and> execution_canonicalDigest (enc_plane_receipt receipt) = Inr (ms_EvidenceDigest result)
      \<and> (if mb_StageID (sm_binding m) = ''cluster-lifecycle'' \<and> ms_Outcome result = ''SUCCEEDED''
         then \<exists>uid. submittedLifecycleClusterUID receipt (sm_plane m) (sm_identity m) = Inr uid
           \<and> ms_TargetClusterUIDDigest result = SHA256 uid
         else ms_TargetClusterUIDDigest result = '''')"
  using assms
proof (cases rule: plane_answer_cases)
  case refused
  then show ?thesis by simp
next
  case (stopped st d c ev)
  note f = plane_outcome_facts [OF stopped(1)]
    and dp = canonical_digest_pattern [OF stopped(2) [unfolded execution_canonicalDigest_def]]
  from stopped(3) have "result \<noteq> zero_mutation_result" by (auto dest: arg_cong [where f = ms_Outcome])
  moreover have "validSubmissionMismatchEvidence ev"
    using stopped(5) f(2) by (auto simp: validSubmissionMismatchEvidence_def)
  then have "validateStageMutationResult (mb_StageID (sm_binding m)) result merr = Inr ()"
    using stopped state_listed [OF f(1)] dp by (intro valid_stop) simp_all
  ultimately show ?thesis using stopped(2,3) by simp
next
  case (succeeded st d tg)
  note dp = canonical_digest_pattern [OF succeeded(2) [unfolded execution_canonicalDigest_def]]
  from succeeded(4) have "result \<noteq> zero_mutation_result" by (auto dest: arg_cong [where f = ms_Outcome])
  moreover have "validateStageMutationResult (mb_StageID (sm_binding m)) result merr = Inr ()"
    unfolding succeeded(3) using succeeded(4-) dp SHA256_pattern by (intro valid_success) (auto split: if_splits)
  ultimately show ?thesis using succeeded(2,4,6) by simp
qed


text \<open>The receipt of the sample submission, answered by the mutator of the provider stage.\<close>

definition submitted_receipt :: PlaneReceipt where
  "submitted_receipt = \<lparr>pr_Format = PlaneReceiptFormat, pr_Authority = ''infra'', pr_Role = ''r'', pr_State = ''SUBMITTED'',
     pr_MutationState = ''ATTEMPTED'', pr_Results = Some [object_result SubmissionFacts.sample_object ''u'' ''CREATED''],
     pr_MismatchEvidence = None\<rparr>"

definition sample_plane_mutator :: "unit SubmissionPlaneMutator" where
  "sample_plane_mutator = \<lparr>sm_binding = \<lparr>mb_PlanDigest = '''', mb_StageID = ''provider-prerequisites'', mb_StageDigest = '''',
       mb_Operation = '''', mb_Authority = ''infra'', mb_ContractRevision = ''''\<rparr>,
     sm_identity = \<lparr>i_Namespace = ''n'', i_Name = ''c''\<rparr>, sm_plane = sample_plane,
     sm_submitter = (\<lambda>p w. ((submitted_receipt, None), w))\<rparr>"

lemma sample_answers: "\<exists>d. plane_mutation_result sample_plane_mutator submitted_receipt None =
  (zero_mutation_result\<lparr>ms_Outcome := ''SUCCEEDED'', ms_MutationState := ''ATTEMPTED'', ms_EvidenceDigest := d\<rparr>, None)"
proof -
  have v: "validateSubmissionPlaneOutcome submitted_receipt sample_plane False = Inr ''ATTEMPTED''" by code_simp
  have "record_json (enc_plane_receipt submitted_receipt)" by code_simp
  then have "\<exists>d. execution_canonicalDigest (enc_plane_receipt submitted_receipt) = Inr d"
    by (auto simp: execution_canonicalDigest_def canonical_digest_eq)
  with v show ?thesis by (auto simp: plane_mutation_result_def sample_plane_mutator_def)
qed

lemma plane_answers_within_rules_witness:
  "\<exists>result. plane_mutation_result sample_plane_mutator submitted_receipt None = (result, None)
     \<and> validateStageMutationResult ''provider-prerequisites'' result None = Inr ()"
proof -
  obtain d where a: "plane_mutation_result sample_plane_mutator submitted_receipt None =
    (zero_mutation_result\<lparr>ms_Outcome := ''SUCCEEDED'', ms_MutationState := ''ATTEMPTED'', ms_EvidenceDigest := d\<rparr>, None)"
    using sample_answers by blast
  from plane_answers_within_rules [OF a] a show ?thesis
    by (auto simp: sample_plane_mutator_def zero_mutation_result_def)
qed

end
