(* ===== verification/ReadOnlyStages.thy ===== *)
theory ReadOnlyStages
  imports StagedExecution
begin

text \<open>
  The stages that change nothing: observation (\<open>src/internal/execution/staged_observation.go\<close>), local
  binding (\<open>staged_binding.go\<close>) and evaluation (\<open>staged_evaluation.go\<close>). The three files have the same
  course and differ in their constants, in the kind of stage they accept and in what a retry and a
  result may be; the differences are the fields of a \<open>read_kind\<close>, the course is \<open>stage_read\<close>, and
  every operation of the code is an instance. The observer, binder or evaluator is a parameter over an
  abstract world.
\<close>

section \<open>Data\<close>

text \<open>\<open>StageObservationBinding\<close>, \<open>StageBinderBinding\<close> and \<open>StageEvaluationBinding\<close> have the same fields.\<close>

record StageObservationBinding =
  rb_PlanDigest :: string
  rb_StageID :: string
  rb_StageDigest :: string
  rb_Authority :: string
  rb_ContractRevision :: string

type_synonym StageBinderBinding = StageObservationBinding
type_synonym StageEvaluationBinding = StageObservationBinding

record StageObservationResult =
  rr_Outcome :: string
  rr_EvidenceDigest :: string
  rr_CompletedAt :: time

type_synonym StageEvaluationResult = StageObservationResult

record StageBindingResult = StageObservationResult +
  rr_FailureCategory :: string

text \<open>A reader is made for one stage; \<open>'r\<close> is its result and \<open>'w\<close> the world it looks at.\<close>

record ('w, 'r) StageReader =
  rd_Binding :: StageObservationBinding
  rd_Read :: "('w, 'r) op"

type_synonym 'w StageObserver = "('w, StageObservationResult) StageReader"
type_synonym 'w StageBinder = "('w, StageBindingResult) StageReader"
type_synonym 'w StageEvaluator = "('w, StageEvaluationResult) StageReader"

record ('w, 'r) ReadOperation =
  ro_Ledger :: "'w RecordStore option"
  ro_Reader :: "('w, 'r) StageReader option"

type_synonym 'w ObservationStageOperation = "('w, StageObservationResult) ReadOperation"
type_synonym 'w BindingStageOperation = "('w, StageBindingResult) ReadOperation"
type_synonym 'w EvaluationStageOperation = "('w, StageEvaluationResult) ReadOperation"

record ObservationStageRunReceipt =
  rn_Format :: string
  rn_State :: string
  rn_PlanDigest :: string
  rn_StageID :: string
  rn_StageReceiptDigest :: string

type_synonym BindingStageRunReceipt = ObservationStageRunReceipt
type_synonym EvaluationStageRunReceipt = ObservationStageRunReceipt

text \<open>
  The errors: a plain one, the failure of an observer with its hidden cause, and the report of a
  durable outcome other than success, with the category that only the binding stage gives.
\<close>

datatype read_error = ReadError goerror
  | StageObservationFailure goerror
  | ReadResultError string string

fun RedactedStopCategory :: "read_error \<Rightarrow> string" where
  "RedactedStopCategory (ReadResultError state category) = category"
| "RedactedStopCategory _ = ''''"

type_synonym 'w read_run = "'w \<Rightarrow> (ObservationStageRunReceipt \<times> read_error option) \<times> 'w"

definition read_stop :: "ObservationStageRunReceipt \<Rightarrow> read_error \<Rightarrow> 'w read_run" where
  "read_stop receipt e w = ((receipt, Some e), w)"

definition read_or_return ::
  "ObservationStageRunReceipt \<Rightarrow> (goerror \<Rightarrow> read_error) \<Rightarrow> ('w, 'a) op \<Rightarrow> ('a \<Rightarrow> 'w read_run) \<Rightarrow> 'w read_run" where
  "read_or_return receipt g m f w = (case m w of (Inl e, w') \<Rightarrow> read_stop receipt (g e) w' | (Inr x, w') \<Rightarrow> f x w')"

section \<open>What distinguishes the three\<close>

record 'r read_kind =
  rk_Format :: string
  rk_Pre :: string
  rk_Selects :: "Decision \<Rightarrow> bool"
  rk_Retryable :: "string list"
  rk_RecoveryGuard :: bool
  rk_Failure :: "goerror \<Rightarrow> read_error"
  rk_Result :: "'r \<Rightarrow> StageObservationResult"
  rk_Category :: "'r \<Rightarrow> string"
  rk_CategoryFits :: "'r \<Rightarrow> bool"
  rk_Missing :: string
  rk_Unselected :: string
  rk_Differs :: string
  rk_RetryUnbound :: string
  rk_RetryAbsent :: string
  rk_RetryDigest :: string
  rk_Invalid :: string

definition ObservationStageReceiptFormat :: string where
  "ObservationStageReceiptFormat = ''ok147-observation-stage-run-receipt/v1''"
definition BindingStageReceiptFormat :: string where
  "BindingStageReceiptFormat = ''ok147-binding-stage-run-receipt/v1''"
definition EvaluationStageReceiptFormat :: string where
  "EvaluationStageReceiptFormat = ''ok147-evaluation-stage-run-receipt/v1''"

definition validBindingFailureCategory :: "string \<Rightarrow> bool" where
  "validBindingFailureCategory category \<longleftrightarrow> category \<in> set [''RUNTIME_BINDING_SOURCE_STOPPED'',
     ''RUNTIME_BINDING_MATERIALIZATION_STOPPED'', ''RUNTIME_BINDING_MATERIAL_VERIFICATION_STOPPED'',
     ''RUNTIME_BINDING_PERSISTENCE_STOPPED'', ''RUNTIME_BINDING_WRITER_OPEN_STOPPED'']"

definition observation_kind :: "StageObservationResult read_kind" where
  "observation_kind = \<lparr>rk_Format = ObservationStageReceiptFormat, rk_Pre = ''PREOBSERVATION'',
     rk_Selects = (\<lambda>d. cd_State d = ''NEXT'' \<and> cd_Kind d = ''Observation'' \<and> \<not> cd_RequiresAuthorization d \<and> cd_Operation d = ''''),
     rk_Retryable = [''FAILED''], rk_RecoveryGuard = True, rk_Failure = StageObservationFailure,
     rk_Result = (\<lambda>r. r), rk_Category = (\<lambda>r. ''''), rk_CategoryFits = (\<lambda>r. True),
     rk_Missing = ''observation stage ledger and observer are required'',
     rk_Unselected = ''stage cursor does not select a read-only observation stage'',
     rk_Differs = ''preconstructed observer differs from the selected stage'',
     rk_RetryUnbound = ''observation retry does not bind an existing FAILED receipt'',
     rk_RetryAbsent = ''observation retry requires an existing FAILED receipt'',
     rk_RetryDigest = ''failed observation receipt digest is invalid'',
     rk_Invalid = ''stage observer returned an invalid redaction-safe result''\<rparr>"

definition binding_kind :: "StageBindingResult read_kind" where
  "binding_kind = \<lparr>rk_Format = BindingStageReceiptFormat, rk_Pre = ''PREBINDING'',
     rk_Selects = (\<lambda>d. cd_State d = ''NEXT'' \<and> cd_Kind d = ''Binding'' \<and> cd_Authority d = ''runner''
       \<and> \<not> cd_RequiresAuthorization d \<and> cd_Operation d = ''''),
     rk_Retryable = [''FAILED'', ''STOPPED''], rk_RecoveryGuard = True,
     rk_Failure = (\<lambda>_. ReadError (New ''bounded runtime binding failed'')),
     rk_Result = StageObservationResult.truncate, rk_Category = rr_FailureCategory,
     rk_CategoryFits = (\<lambda>r. \<not> (rr_Outcome r = ''SUCCEEDED'' \<and> rr_FailureCategory r \<noteq> '''')
       \<and> (rr_FailureCategory r = '''' \<or> validBindingFailureCategory (rr_FailureCategory r))),
     rk_Missing = ''binding stage ledger and binder are required'',
     rk_Unselected = ''stage cursor does not select a local binding stage'',
     rk_Differs = ''preconstructed binder differs from the selected stage'',
     rk_RetryUnbound = ''binding retry does not bind an existing terminal receipt'',
     rk_RetryAbsent = ''binding retry requires an existing terminal receipt'',
     rk_RetryDigest = ''terminal binding receipt digest is invalid'',
     rk_Invalid = ''stage binder returned an invalid redaction-safe result''\<rparr>"

definition evaluation_kind :: "StageEvaluationResult read_kind" where
  "evaluation_kind = \<lparr>rk_Format = EvaluationStageReceiptFormat, rk_Pre = ''PREEVALUATION'',
     rk_Selects = (\<lambda>d. cd_State d = ''NEXT'' \<and> cd_Kind d = ''Evaluation'' \<and> \<not> cd_RequiresAuthorization d \<and> cd_Operation d = ''''),
     rk_Retryable = [''FAILED''], rk_RecoveryGuard = False,
     rk_Failure = (\<lambda>_. ReadError (New ''bounded stage evaluation failed'')),
     rk_Result = (\<lambda>r. r), rk_Category = (\<lambda>r. ''''), rk_CategoryFits = (\<lambda>r. True),
     rk_Missing = ''evaluation stage ledger and evaluator are required'',
     rk_Unselected = ''stage cursor does not select a read-only evaluation stage'',
     rk_Differs = ''preconstructed evaluator differs from the selected stage'',
     rk_RetryUnbound = ''evaluation retry does not bind an existing FAILED receipt'',
     rk_RetryAbsent = ''evaluation retry requires an existing FAILED receipt'',
     rk_RetryDigest = ''failed evaluation receipt digest is invalid'',
     rk_Invalid = ''stage evaluator returned an invalid redaction-safe result''\<rparr>"

section \<open>The course of a run\<close>

definition empty_run_receipt :: "'r read_kind \<Rightarrow> ObservationStageRunReceipt" where
  "empty_run_receipt k = \<lparr>rn_Format = rk_Format k, rn_State = rk_Pre k, rn_PlanDigest = '''', rn_StageID = '''',
     rn_StageReceiptDigest = ''''\<rparr>"

definition finalize_read :: "ObservationStageRunReceipt \<Rightarrow> Verified \<Rightarrow> string \<Rightarrow> 'w read_run" where
  "finalize_read receipt verified category =
     read_or_return receipt ReadError (liftE (Verified_Receipt verified)) (\<lambda>stageReceipt.
     read_or_return receipt ReadError (liftE (Verified_Digest verified)) (\<lambda>digest w.
       let final = receipt\<lparr>rn_StageReceiptDigest := digest, rn_State := ''COMPLETED_'' @ rc_State stageReceipt\<rparr>
       in ((final, if rc_State stageReceipt \<noteq> ''SUCCEEDED'' then Some (ReadResultError (rn_State final) category) else None), w)))"

text \<open>From the call of the reader on: look once, make the stage receipt, store it.\<close>

definition read_and_store ::
  "'r read_kind \<Rightarrow> 'w RecordStore \<Rightarrow> ('w, 'r) StageReader \<Rightarrow> ObservationStageRunReceipt \<Rightarrow> Binding \<Rightarrow> string
    \<Rightarrow> Verified slice \<Rightarrow> 'w read_run" where
  "read_and_store k ledger reader receipt plan stageID predecessors =
     read_or_return receipt (rk_Failure k) (rd_Read reader) (\<lambda>result.
     let core = rk_Result k result in
     if \<not> oneOf (rr_Outcome core) [''SUCCEEDED'', ''FAILED'', ''STOPPED''] \<or> \<not> digestPattern (rr_EvidenceDigest core)
        \<or> is_zero_time (rr_CompletedAt core) \<or> \<not> rk_CategoryFits k result then
       read_stop receipt (ReadError (New (rk_Invalid k)))
     else read_or_return receipt ReadError (liftE (receipt_New plan stageID predecessors (rr_Outcome core)
         ''NOT_APPLICABLE'' '''' (rr_EvidenceDigest core) (rr_CompletedAt core))) (\<lambda>verified.
     read_or_return receipt ReadError (StoreStageReceipt ledger plan verified predecessors) (\<lambda>_.
       finalize_read receipt verified (rk_Category k result))))"

text \<open>A receipt that is there: returned as it is, or, for a retry, the one that is bound must be retryable.\<close>

definition read_unless_there ::
  "'r read_kind \<Rightarrow> 'w RecordStore \<Rightarrow> ('w, 'r) StageReader \<Rightarrow> ObservationStageRunReceipt \<Rightarrow> Binding \<Rightarrow> string
    \<Rightarrow> Verified slice \<Rightarrow> string \<Rightarrow> Verified option \<Rightarrow> 'w read_run" where
  "read_unless_there k ledger reader receipt plan stageID predecessors retryDigest found =
     (case found of
        None \<Rightarrow>
          if retryDigest \<noteq> '''' then read_stop receipt (ReadError (New (rk_RetryAbsent k)))
          else read_and_store k ledger reader receipt plan stageID predecessors
      | Some existing \<Rightarrow>
          if retryDigest = '''' then finalize_read receipt existing ''''
          else read_or_return receipt (\<lambda>_. ReadError (New (rk_RetryUnbound k)))
            (LoadStageReceipt ledger plan stageID retryDigest predecessors) (\<lambda>terminal.
            case Verified_Receipt terminal of
              Inl _ \<Rightarrow> read_stop receipt (ReadError (New (rk_RetryUnbound k)))
            | Inr terminalReceipt \<Rightarrow>
                if rc_State terminalReceipt \<notin> set (rk_Retryable k) then
                  read_stop receipt (ReadError (New (rk_RetryUnbound k)))
                else read_and_store k ledger reader receipt plan stageID predecessors))"

definition read_binding :: "Binding \<Rightarrow> Decision \<Rightarrow> StageObservationBinding" where
  "read_binding plan decision = \<lparr>rb_PlanDigest = b_PlanDigest plan, rb_StageID = cd_StageID decision,
     rb_StageDigest = cd_StageDigest decision, rb_Authority = cd_Authority decision,
     rb_ContractRevision = b_IntentRevision plan\<rparr>"

definition stage_read ::
  "'r read_kind \<Rightarrow> ('w, 'r) ReadOperation \<Rightarrow> Binding \<Rightarrow> Cursor \<Rightarrow> string \<Rightarrow> 'w read_run" where
  "stage_read k operation plan cursor retryDigest =
     (let receipt = empty_run_receipt k in
      read_or_return receipt ReadError (liftE (RequireExecutionEnabled plan)) (\<lambda>_.
      (case (ro_Ledger operation, ro_Reader operation) of
         (Some ledger, Some reader) \<Rightarrow>
           read_or_return receipt ReadError (liftE (Cursor_Decision cursor)) (\<lambda>decision.
           if \<not> rk_Selects k decision then read_stop receipt (ReadError (New (rk_Unselected k)))
           else read_or_return receipt ReadError (liftE (Cursor_Predecessors cursor)) (\<lambda>predecessors.
           if rd_Binding reader \<noteq> read_binding plan decision then read_stop receipt (ReadError (New (rk_Differs k)))
           else let bound = receipt\<lparr>rn_PlanDigest := b_PlanDigest plan, rn_StageID := cd_StageID decision\<rparr>
             in read_or_return bound ReadError (InspectStageReceipt ledger plan (cd_StageID decision) predecessors)
               (read_unless_there k ledger reader bound plan (cd_StageID decision) predecessors retryDigest)))
       | _ \<Rightarrow> read_stop receipt (ReadError (New (rk_Missing k))))))"

definition stage_retry ::
  "'r read_kind \<Rightarrow> ('w, 'r) ReadOperation \<Rightarrow> Binding \<Rightarrow> Cursor \<Rightarrow> string \<Rightarrow> 'w read_run" where
  "stage_retry k operation plan cursor retryDigest =
     (if rk_RecoveryGuard k \<and> b_RecoverySourcePlanDigest plan \<noteq> '''' then
        read_stop (empty_run_receipt k)
          (ReadError (New ''recovery suffix is single-use; terminal outcomes cannot be retried''))
      else if \<not> digestPattern retryDigest then read_stop (empty_run_receipt k) (ReadError (New (rk_RetryDigest k)))
      else stage_read k operation plan cursor retryDigest)"

section \<open>The operations of the code\<close>

definition ObservationStage_Run :: "'w ObservationStageOperation \<Rightarrow> Binding \<Rightarrow> Cursor \<Rightarrow> 'w read_run" where
  "ObservationStage_Run operation plan cursor = stage_read observation_kind operation plan cursor ''''"

definition ObservationStage_Retry :: "'w ObservationStageOperation \<Rightarrow> Binding \<Rightarrow> Cursor \<Rightarrow> string \<Rightarrow> 'w read_run" where
  "ObservationStage_Retry = stage_retry observation_kind"

definition BindingStage_Run :: "'w BindingStageOperation \<Rightarrow> Binding \<Rightarrow> Cursor \<Rightarrow> 'w read_run" where
  "BindingStage_Run operation plan cursor = stage_read binding_kind operation plan cursor ''''"

definition BindingStage_Retry :: "'w BindingStageOperation \<Rightarrow> Binding \<Rightarrow> Cursor \<Rightarrow> string \<Rightarrow> 'w read_run" where
  "BindingStage_Retry = stage_retry binding_kind"

definition EvaluationStage_Run :: "'w EvaluationStageOperation \<Rightarrow> Binding \<Rightarrow> Cursor \<Rightarrow> 'w read_run" where
  "EvaluationStage_Run operation plan cursor = stage_read evaluation_kind operation plan cursor ''''"

definition EvaluationStage_Retry :: "'w EvaluationStageOperation \<Rightarrow> Binding \<Rightarrow> Cursor \<Rightarrow> string \<Rightarrow> 'w read_run" where
  "EvaluationStage_Retry = stage_retry evaluation_kind"

end
