(* ===== verification/ReadOnlyFacts.thy ===== *)
theory ReadOnlyFacts
  imports ReadOnlyStages StagedTheorems
begin

text \<open>
  What a read-only run does: it enters its reader at most once and only where no receipt stands or
  the retry is bound to a receipt that may be retried; and a run that settled a stage settles it for
  every later run, which repeats its receipt without looking again.
\<close>

section \<open>Parts that only use the ledger\<close>

definition quiet_read :: "'w RecordStore \<Rightarrow> 'w read_run \<Rightarrow> bool" where
  "quiet_read store m \<longleftrightarrow> (\<forall>w p w'. m w = (p, w') \<longrightarrow> store_runs store w w')"

named_theorems read_intros

lemma quiet_readD: "quiet_read store m \<Longrightarrow> m w = (p, w') \<Longrightarrow> store_runs store w w'"
  unfolding quiet_read_def by blast

lemma quiet_read_stop [read_intros]: "quiet_read store (read_stop r e)"
  by (simp add: quiet_read_def read_stop_def)

lemma read_or_return_cases:
  assumes "read_or_return r g m f w = (p, w')"
  obtains (failed) e where "m w = (Inl e, w')" "p = (r, Some (g e))"
  | (went) x u where "m w = (Inr x, u)" "f x u = (p, w')"
  using assms by (auto simp: read_or_return_def read_stop_def split: prod.splits sum.splits)

lemma quiet_read_or_return [read_intros]:
  assumes "steps store m" and "\<And>x. quiet_read store (f x)"
  shows "quiet_read store (read_or_return r g m f)"
  unfolding quiet_read_def
proof (intro allI impI)
  fix w p w' assume "read_or_return r g m f w = (p, w')"
  then show "store_runs store w w'"
  proof (cases rule: read_or_return_cases)
    case (failed e)
    then show ?thesis using assms(1) by (auto dest: stepsD)
  next
    case (went x u)
    from stepsD [OF assms(1) went(1)] quiet_readD [OF assms(2) went(2)] show ?thesis by (rule rtranclp_trans)
  qed
qed

lemma quiet_finalize_read [read_intros]: "quiet_read store (finalize_read r v c)"
  unfolding finalize_read_def
  by (intro read_intros steps_liftE) (simp add: quiet_read_def Let_def)

section \<open>The one look\<close>

definition looks_once :: "'w RecordStore \<Rightarrow> ('w, 'r) StageReader \<Rightarrow> 'w \<Rightarrow> 'w \<Rightarrow> bool" where
  "looks_once store reader w w' \<longleftrightarrow> (\<exists>w1 w2 answer. store_runs store w w1 \<and> rd_Read reader w1 = (answer, w2)
     \<and> store_runs store w2 w')"

lemma read_and_store_once:
  assumes "read_and_store k store reader r plan i ps w = (p, w')"
  shows "looks_once store reader w w'"
  using assms unfolding read_and_store_def
proof (cases rule: read_or_return_cases)
  case (failed e)
  then show ?thesis unfolding looks_once_def by blast
next
  case (went result u)
  let ?core = "rk_Result k result"
  have "quiet_read store (read_or_return r ReadError (liftE (receipt_New plan i ps (rr_Outcome ?core)
         ''NOT_APPLICABLE'' '''' (rr_EvidenceDigest ?core) (rr_CompletedAt ?core))) (\<lambda>verified.
     read_or_return r ReadError (StoreStageReceipt store plan verified ps) (\<lambda>_.
       finalize_read r verified (rk_Category k result))))"
    by (intro read_intros steps_liftE steps_StoreStageReceipt)
  moreover have "quiet_read store (read_stop r (ReadError (New (rk_Invalid k))))" by (rule read_intros)
  ultimately have "store_runs store u w'"
    using went(2) by (auto simp: Let_def dest: quiet_readD split: if_splits)
  with went(1) show ?thesis unfolding looks_once_def by blast
qed

definition reader_operation :: "'w RecordStore \<Rightarrow> ('w, 'r) StageReader \<Rightarrow> ('w, 'r) ReadOperation" where
  "reader_operation store reader = \<lparr>ro_Ledger = Some store, ro_Reader = Some reader\<rparr>"

text \<open>The guards of a run, and where it goes once they are passed.\<close>

lemma stage_read_cases:
  assumes "stage_read k (reader_operation store reader) plan cursor retry w = (p, w')"
  obtains (refused) "w' = w" "rn_StageReceiptDigest (fst p) = ''''" "rn_StageID (fst p) = ''''"
  | (guarded) decision ps bound where "RequireExecutionEnabled plan = Inr ()" "Cursor_Decision cursor = Inr decision"
      "Cursor_Predecessors cursor = Inr ps" "rk_Selects k decision" "rd_Binding reader = read_binding plan decision"
      "bound = \<lparr>rn_Format = rk_Format k, rn_State = rk_Pre k, rn_PlanDigest = b_PlanDigest plan,
         rn_StageID = cd_StageID decision, rn_StageReceiptDigest = ''''\<rparr>"
      "read_or_return bound ReadError (InspectStageReceipt store plan (cd_StageID decision) ps)
         (read_unless_there k store reader bound plan (cd_StageID decision) ps retry) w = (p, w')"
  using assms unfolding stage_read_def reader_operation_def Let_def
  by (auto simp: read_or_return_def [of _ _ "liftE _"] liftE_def read_stop_def empty_run_receipt_def
      split: sum.splits if_splits intro: refused)

text \<open>What allows the look: no receipt on a first run, a retryable one on a retry.\<close>

definition may_look :: "'r read_kind \<Rightarrow> 'w RecordStore \<Rightarrow> Binding \<Rightarrow> string \<Rightarrow> Verified slice \<Rightarrow> string \<Rightarrow> 'w \<Rightarrow> bool" where
  "may_look k store plan i ps retry w \<longleftrightarrow> (\<exists>found w1. InspectStageReceipt store plan i ps w = (Inr found, w1)
     \<and> (if retry = '''' then found = None
        else found \<noteq> None \<and> (\<exists>terminal w2. LoadStageReceipt store plan i retry ps w1 = (Inr terminal, w2)
          \<and> v_verified terminal \<and> rc_State (v_receipt terminal) \<in> set (rk_Retryable k))))"

lemma unless_there_once:
  assumes "read_or_return r ReadError (InspectStageReceipt store plan i ps)
      (read_unless_there k store reader r plan i ps retry) w = (p, w')"
  shows "store_runs store w w' \<or> looks_once store reader w w' \<and> may_look k store plan i ps retry w"
  using assms
proof (cases rule: read_or_return_cases)
  case (failed e)
  then show ?thesis using stepsD [OF steps_InspectStageReceipt failed(1)] by blast
next
  case (went found u)
  have wu: "store_runs store w u" by (rule stepsD [OF steps_InspectStageReceipt went(1)])
  have look: "looks_once store reader w w'" if "store_runs store u v" "looks_once store reader v w'" for v
    using that wu unfolding looks_once_def by (meson rtranclp_trans)
  show ?thesis
  proof (cases found)
    case None
    show ?thesis
    proof (cases "retry = ''''")
      case True
      with went None have "read_and_store k store reader r plan i ps u = (p, w')" by (simp add: read_unless_there_def)
      from look [OF rtranclp.rtrancl_refl read_and_store_once [OF this]] went(1) None True show ?thesis
        by (auto simp: may_look_def)
    next
      case False
      with went None wu show ?thesis by (simp add: read_unless_there_def read_stop_def)
    qed
  next
    case (Some existing)
    show ?thesis
    proof (cases "retry = ''''")
      case True
      with went Some have "finalize_read r existing '''' u = (p, w')" by (simp add: read_unless_there_def)
      from quiet_readD [OF quiet_finalize_read this] wu show ?thesis by (blast intro: rtranclp_trans)
    next
      case False
      with went(2) Some have "read_or_return r (\<lambda>_. ReadError (New (rk_RetryUnbound k)))
          (LoadStageReceipt store plan i retry ps) (\<lambda>terminal.
            case Verified_Receipt terminal of
              Inl _ \<Rightarrow> read_stop r (ReadError (New (rk_RetryUnbound k)))
            | Inr terminalReceipt \<Rightarrow>
                if rc_State terminalReceipt \<notin> set (rk_Retryable k) then
                  read_stop r (ReadError (New (rk_RetryUnbound k)))
                else read_and_store k store reader r plan i ps) u = (p, w')"
        by (simp add: read_unless_there_def)
      then show ?thesis
      proof (cases rule: read_or_return_cases)
        case (failed e)
        from stepsD [OF steps_LoadStageReceipt failed(1)] wu show ?thesis by (blast intro: rtranclp_trans)
      next
        case load: (went terminal v)
        have uv: "store_runs store u v" by (rule stepsD [OF steps_LoadStageReceipt load(1)])
        with wu have wv: "store_runs store w v" by (rule rtranclp_trans)
        show ?thesis
        proof (cases "\<exists>rc. Verified_Receipt terminal = Inr rc \<and> rc_State rc \<in> set (rk_Retryable k)")
          case True
          then obtain rc where rc: "Verified_Receipt terminal = Inr rc" "rc_State rc \<in> set (rk_Retryable k)" by blast
          with load(2) have "read_and_store k store reader r plan i ps v = (p, w')" by simp
          from look [OF uv read_and_store_once [OF this]] went(1) load(1) rc Some False show ?thesis
            by (auto simp: may_look_def Verified_Receipt_def split: if_splits)
        next
          case False
          with load(2) wv show ?thesis
            by (auto simp: read_stop_def split: sum.splits if_splits)
        qed
      qed
    qed
  qed
qed

text \<open>
  C22: a read-only run looks at most once, and not without leave. For every kind of read-only stage,
  store and reader: a run either uses the ledger only, or enters its reader exactly once between two
  phases that only use the ledger; then the cursor selects a stage of the kind for which the reader
  was made, and either this is a first run and the slot of the stage was found empty, or it is a retry
  and its digest loads a verified receipt whose outcome may be retried.
\<close>

theorem read_stage_looks_once:
  assumes "stage_read k (reader_operation store reader) plan cursor retry w = ((receipt, err), w')"
  shows "store_runs store w w' \<or> looks_once store reader w w'
    \<and> (\<exists>decision ps. Cursor_Decision cursor = Inr decision \<and> Cursor_Predecessors cursor = Inr ps
        \<and> rk_Selects k decision \<and> rd_Binding reader = read_binding plan decision
        \<and> may_look k store plan (cd_StageID decision) ps retry w)"
  using assms
proof (cases rule: stage_read_cases)
  case refused
  then show ?thesis by simp
next
  case (guarded decision ps bound)
  from unless_there_once [OF guarded(7)] guarded(2-5) show ?thesis by blast
qed


section \<open>A settled stage\<close>

text \<open>The receipt of a run that ended with the stage receipt \<open>v\<close>.\<close>

definition settled_receipt :: "'r read_kind \<Rightarrow> Binding \<Rightarrow> string \<Rightarrow> Verified \<Rightarrow> ObservationStageRunReceipt" where
  "settled_receipt k plan i v = \<lparr>rn_Format = rk_Format k, rn_State = ''COMPLETED_'' @ rc_State (v_receipt v),
     rn_PlanDigest = b_PlanDigest plan, rn_StageID = i, rn_StageReceiptDigest = v_digest v\<rparr>"

definition settled_error :: "Verified \<Rightarrow> string \<Rightarrow> read_error option" where
  "settled_error v category = (if rc_State (v_receipt v) = ''SUCCEEDED'' then None
     else Some (ReadResultError (''COMPLETED_'' @ rc_State (v_receipt v)) category))"

abbreviation bound_receipt :: "'r read_kind \<Rightarrow> Binding \<Rightarrow> string \<Rightarrow> ObservationStageRunReceipt" where
  "bound_receipt k plan i \<equiv> \<lparr>rn_Format = rk_Format k, rn_State = rk_Pre k, rn_PlanDigest = b_PlanDigest plan,
     rn_StageID = i, rn_StageReceiptDigest = ''''\<rparr>"

lemma finalize_read_verified:
  assumes "v_verified v" and "digestPattern (v_digest v)"
  shows "finalize_read (bound_receipt k plan i) v c w = ((settled_receipt k plan i v, settled_error v c), w)"
  using assms by (simp add: finalize_read_def read_or_return_def liftE_def Verified_Digest_def Let_def
      settled_receipt_def settled_error_def)

text \<open>A cursor that selects the stage \<open>i\<close> for this kind, and a reader made for it.\<close>

definition read_selected ::
  "'r read_kind \<Rightarrow> ('w, 'r) StageReader \<Rightarrow> Binding \<Rightarrow> Cursor \<Rightarrow> string \<Rightarrow> Verified list \<Rightarrow> bool" where
  "read_selected k reader plan cursor i ps \<longleftrightarrow> (\<exists>decision. Cursor_Decision cursor = Inr decision
     \<and> Cursor_Predecessors cursor = Inr (Some ps) \<and> rk_Selects k decision \<and> cd_StageID decision = i
     \<and> rd_Binding reader = read_binding plan decision)"

lemma selected_run:
  assumes "RequireExecutionEnabled plan = Inr ()" and "read_selected k reader plan cursor i ps"
  shows "stage_read k (reader_operation store reader) plan cursor retry w =
    read_or_return (bound_receipt k plan i) ReadError (InspectStageReceipt store plan i (Some ps))
      (read_unless_there k store reader (bound_receipt k plan i) plan i (Some ps) retry) w"
  using assms by (auto simp: read_selected_def stage_read_def reader_operation_def empty_run_receipt_def Let_def
      read_or_return_def [of _ _ "liftE _"] liftE_def)

lemma lifts_InspectStageReceipt: "lifts (InspectStageReceipt store plan i ps) (InspectStageReceipt (on_fst store) plan i ps)"
  unfolding InspectStageReceipt_def by (intro lifts_intros)

context record_store
begin

lemma inspect_empty_slot:
  assumes "healthy s" and "stageReceiptKey plan i = Inr sk" and "contents s ''stage-receipts'' sk = None"
  shows "\<exists>t. InspectStageReceipt store plan i ps s = (Inr None, t) \<and> quiet s t"
  using get_quiet [OF assms(1) receipt_slot [OF assms(2)]] assms(2,3)
  by (auto simp: InspectStageReceipt_def bindS_def tryS_def liftE_def of_option_def ErrRecordNotFound_def)

lemma inspect_held_receipt:
  assumes "healthy s" and "stageReceiptKey plan i = Inr sk" and "contents s ''stage-receipts'' sk = Some (v_raw v)"
    and "receipt_Verify (v_raw v) (SHA256 (v_raw v)) plan ps = Inr v" and "rc_StageID (v_receipt v) = i"
  shows "\<exists>t. InspectStageReceipt store plan i ps s = (Inr (Some v), t) \<and> quiet s t"
  using get_quiet [OF assms(1) receipt_slot [OF assms(2)]] assms(2-5) receipt_Verify_facts(1) [OF assms(4)]
  by (auto simp: InspectStageReceipt_def bindS_def tryS_def liftE_def Verified_Receipt_def wrapE_def)

end

text \<open>A run that finds a receipt repeats it and leaves the world beside the disk alone.\<close>

lemma held_receipt_is_repeated:
  assumes "RequireExecutionEnabled plan = Inr ()" and "read_selected k reader plan cursor i ps"
    and "file_healthy (store_of root) d" and "stageReceiptKey plan i = Inr sk"
    and "held root d ''stage-receipts'' sk = Some (v_raw v)"
    and "receipt_Verify (v_raw v) (SHA256 (v_raw v)) plan (Some ps) = Inr v" and "rc_StageID (v_receipt v) = i"
  shows "\<exists>d'. stage_read k (reader_operation (on_fst (ledger root)) reader) plan cursor '''' (d, x)
    = ((settled_receipt k plan i v, settled_error v ''''), (d', x)) \<and> files.quiet root d d'"
proof -
  from files.inspect_held_receipt [OF assms(3-7)] obtain d' where
    d': "InspectStageReceipt (ledger root) plan i (Some ps) d = (Inr (Some v), d')" "files.quiet root d d'" by blast
  note f = receipt_Verify_facts [OF assms(6)]
  show ?thesis
    using d'(2) liftsD [OF lifts_InspectStageReceipt d'(1), of x]
    by (simp add: selected_run [OF assms(1,2)] read_or_return_def [of _ _ "InspectStageReceipt _ _ _ _"]
        read_unless_there_def finalize_read_verified [OF f(1,4)])
qed

text \<open>What a result of a reader has to be.\<close>

definition result_fits :: "'r read_kind \<Rightarrow> 'r \<Rightarrow> bool" where
  "result_fits k result \<longleftrightarrow> oneOf (rr_Outcome (rk_Result k result)) [''SUCCEEDED'', ''FAILED'', ''STOPPED'']
     \<and> digestPattern (rr_EvidenceDigest (rk_Result k result)) \<and> \<not> is_zero_time (rr_CompletedAt (rk_Result k result))
     \<and> rk_CategoryFits k result"

lemma read_outcome_allowed:
  "\<not> IsMutating s \<Longrightarrow> result_fits k result \<Longrightarrow>
    outcome_allowed (outcome_receipt (rr_Outcome (rk_Result k result)) ''NOT_APPLICABLE'' ''''
      (rr_EvidenceDigest (rk_Result k result)) '''') s"
  by (auto simp: outcome_allowed_def outcome_receipt_def result_fits_def oneOf_def)


lemma fresh_run_settles:
  assumes p: "Verify rawPlan ex = Inr plan" and idn: "ok_identity (x_ContractIdentity ex)"
    and nr: "x_RecoverySourcePlanDigest ex = ''''"
    and small: "length (i_Name (x_ContractIdentity ex)) \<le> 1000" "length (i_Namespace (x_ContractIdentity ex)) \<le> 1000"
    and sel: "read_selected k reader plan cursor (s_ID s) ps"
    and s: "s \<in> set (elems (b_Stages plan))" "\<not> IsMutating s"
    and links: "list_all2 (links_to plan s (rr_CompletedAt (rk_Result k result))) (elems (s_Requires s)) ps"
    and nrp: "\<forall>q \<in> set ps. v_recoveryPlan q \<noteq> b_PlanDigest plan"
    and fits: "result_fits k result" "valid_time (rr_CompletedAt (rk_Result k result))"
    and look: "\<forall>d. rd_Read reader (d, x) = (Inr result, (d, x'))"
    and h: "file_healthy (store_of root) d"
    and slot: "stageReceiptKey plan (s_ID s) = Inr sk" "held root d ''stage-receipts'' sk = None"
  shows "\<exists>v d'. stage_read k (reader_operation (on_fst (ledger root)) reader) plan cursor '''' (d, x)
      = ((settled_receipt k plan (s_ID s) v, settled_error v (rk_Category k result)), (d', x'))
    \<and> rc_State (v_receipt v) = rr_Outcome (rk_Result k result) \<and> rc_StageID (v_receipt v) = s_ID s
    \<and> receipt_Verify (v_raw v) (v_digest v) plan (Some ps) = Inr v
    \<and> held root d' ''stage-receipts'' sk = Some (v_raw v)"
proof -
  let ?core = "rk_Result k result"
  from new_receipt_succeeds [OF p idn nr s(1) fits(2) nrp] links read_outcome_allowed [OF s(2) fits(1)]
  obtain v where v: "receipt_New_target plan (s_ID s) (Some ps) (rr_Outcome ?core) ''NOT_APPLICABLE'' ''''
      (rr_EvidenceDigest ?core) '''' (rr_CompletedAt ?core) = Inr v" by blast
  note f = receipt_New_facts [OF v] and ver = new_verifies [OF p idn v]
  have len: "length (v_raw v) \<le> readLimit" using receipt_small [OF p idn v fits(2) small] by (simp add: readLimit_def)
  from files.inspect_empty_slot [OF h slot] obtain d1 where
    d1: "InspectStageReceipt (ledger root) plan (s_ID s) (Some ps) d = (Inr None, d1)" "files.quiet root d d1" by blast
  have h1: "file_healthy (store_of root) d1" and e1: "held root d1 ''stage-receipts'' sk = None"
    using files.quietD [OF d1(2)] slot(2) by simp_all
  obtain d2 where d2: "StoreStageReceipt (ledger root) plan v (Some ps) d1 = (Inr (v_digest v), d2)"
    "held root d2 ''stage-receipts'' sk = Some (v_raw v)"
    using store_works [OF ver len _ h1 e1] slot(1) f(5) by metis
  from liftsD [OF lifts_InspectStageReceipt d1(1), of x] liftsD [OF lifts_StoreStageReceipt d2(1), of x'] look fits(1) v f
  have "stage_read k (reader_operation (on_fst (ledger root)) reader) plan cursor '''' (d, x)
      = ((settled_receipt k plan (s_ID s) v, settled_error v (rk_Category k result)), (d2, x'))"
    by (simp add: selected_run [OF enabled_plan [OF p nr] sel] read_or_return_def [of _ _ "InspectStageReceipt _ _ _ _"]
        read_unless_there_def read_and_store_def read_or_return_def [of _ _ "rd_Read _"]
        read_or_return_def [of _ _ "liftE _"] liftE_def receipt_New_def
        read_or_return_def [of _ _ "StoreStageReceipt _ _ _ _"] finalize_read_verified [OF f(1,2)]
        result_fits_def Let_def)
  with d2(2) f(4,5) ver show ?thesis by blast
qed

text \<open>
  C21: a settled stage stays settled. For an ordinary verified plan and a healthy ledger in which the
  slot of a read-only stage is empty, a run whose reader answers with a fitting result ends with the
  outcome of that result and the digest of a stage receipt that verifies; and whatever the store is
  used for afterwards, every later run for the stage, with any reader made for it, repeats this
  outcome and this digest and leaves the world beside the disk as it is: it does not look again.
\<close>

theorem settled_stage_is_repeated:
  assumes "Verify rawPlan ex = Inr plan" and "ok_identity (x_ContractIdentity ex)"
    and "x_RecoverySourcePlanDigest ex = ''''"
    and "length (i_Name (x_ContractIdentity ex)) \<le> 1000" "length (i_Namespace (x_ContractIdentity ex)) \<le> 1000"
    and "read_selected k reader plan cursor (s_ID s) ps"
    and "s \<in> set (elems (b_Stages plan))" "\<not> IsMutating s"
    and "list_all2 (links_to plan s (rr_CompletedAt (rk_Result k result))) (elems (s_Requires s)) ps"
    and "\<forall>q \<in> set ps. v_recoveryPlan q \<noteq> b_PlanDigest plan"
    and "result_fits k result" "valid_time (rr_CompletedAt (rk_Result k result))"
    and "\<forall>d. rd_Read reader (d, x) = (Inr result, (d, x'))"
    and "file_healthy (store_of root) d"
    and "stageReceiptKey plan (s_ID s) = Inr sk" "held root d ''stage-receipts'' sk = None"
  shows "\<exists>receipt err d'. stage_read k (reader_operation (on_fst (ledger root)) reader) plan cursor '''' (d, x)
      = ((receipt, err), (d', x'))
    \<and> rn_State receipt = ''COMPLETED_'' @ rr_Outcome (rk_Result k result)
    \<and> err = (if rr_Outcome (rk_Result k result) = ''SUCCEEDED'' then None
         else Some (ReadResultError (rn_State receipt) (rk_Category k result)))
    \<and> (\<exists>v. receipt_Verify (v_raw v) (rn_StageReceiptDigest receipt) plan (Some ps) = Inr v
         \<and> held root d' ''stage-receipts'' sk = Some (v_raw v))
    \<and> (\<forall>e y reader' cursor'. store_runs (ledger root) d' e \<longrightarrow> file_healthy (store_of root) e \<longrightarrow>
         read_selected k reader' plan cursor' (s_ID s) ps \<longrightarrow>
         (\<exists>err' e'. stage_read k (reader_operation (on_fst (ledger root)) reader') plan cursor' '''' (e, y)
            = ((receipt, err'), (e', y)) \<and> (err' = None \<longleftrightarrow> err = None) \<and> held root e' = held root e))"
proof -
  from fresh_run_settles [OF assms] obtain v d' where v:
    "stage_read k (reader_operation (on_fst (ledger root)) reader) plan cursor '''' (d, x)
      = ((settled_receipt k plan (s_ID s) v, settled_error v (rk_Category k result)), (d', x'))"
    "rc_State (v_receipt v) = rr_Outcome (rk_Result k result)" "rc_StageID (v_receipt v) = s_ID s"
    "receipt_Verify (v_raw v) (v_digest v) plan (Some ps) = Inr v"
    "held root d' ''stage-receipts'' sk = Some (v_raw v)" by blast
  have dg: "receipt_Verify (v_raw v) (SHA256 (v_raw v)) plan (Some ps) = Inr v"
    using v(4) by (auto simp: receipt_Verify_eq_Inr verifyReceipt_eq_Inr)
  have again: "\<exists>err' e'. stage_read k (reader_operation (on_fst (ledger root)) reader') plan cursor' '''' (e, y)
      = ((settled_receipt k plan (s_ID s) v, err'), (e', y)) \<and> (err' = None \<longleftrightarrow> settled_error v (rk_Category k result) = None)
      \<and> held root e' = held root e"
    if e: "store_runs (ledger root) d' e" "file_healthy (store_of root) e" "read_selected k reader' plan cursor' (s_ID s) ps"
    for e y reader' cursor'
  proof -
    have "held root e ''stage-receipts'' sk = Some (v_raw v)" using files.persists [OF e(1)] v(5) by simp
    from held_receipt_is_repeated [OF enabled_plan [OF assms(1,3)] e(3,2) assms(15) this dg v(3), of y]
    show ?thesis by (auto simp: settled_error_def dest: files.quietD(2))
  qed
  let ?r = "settled_receipt k plan (s_ID s) v" and ?e = "settled_error v (rk_Category k result)"
  have f: "rn_State ?r = ''COMPLETED_'' @ rr_Outcome (rk_Result k result)"
    "?e = (if rr_Outcome (rk_Result k result) = ''SUCCEEDED'' then None
       else Some (ReadResultError (rn_State ?r) (rk_Category k result)))"
    and r: "receipt_Verify (v_raw v) (rn_StageReceiptDigest ?r) plan (Some ps) = Inr v"
    using v(2,4) by (simp_all add: settled_receipt_def settled_error_def)
  have stays: "\<exists>v. receipt_Verify (v_raw v) (rn_StageReceiptDigest ?r) plan (Some ps) = Inr v
      \<and> held root d' ''stage-receipts'' sk = Some (v_raw v)" using r v(5) by blast
  show ?thesis
    by (rule exI [of _ ?r], rule exI [of _ ?e], rule exI [of _ d'], intro conjI allI impI)
      (rule v(1) f stays again; assumption)+
qed


section \<open>The observation of the sample plan\<close>

lemma links_later: "links_to plan s t i p \<Longrightarrow> t \<le> t' \<Longrightarrow> links_to plan s t' i p"
  by (auto simp: links_to_def before_def split: option.splits)

definition sample_observation :: StageObservationResult where
  "sample_observation = \<lparr>rr_Outcome = ''SUCCEEDED'', rr_EvidenceDigest = sample_digest CHR ''c'', rr_CompletedAt = minute\<rparr>"

text \<open>The observer counts how often it looks.\<close>

definition sample_observer :: "Decision \<Rightarrow> (disk \<times> nat) StageObserver" where
  "sample_observer d = \<lparr>rd_Binding = read_binding sample_binding d,
     rd_Read = (\<lambda>(disk, n). (Inr sample_observation, (disk, Suc n)))\<rparr>"

text \<open>Two receipts bring the sample plan to its third stage, the observation of the lifecycle.\<close>

lemma sample_third_stage:
  obtains s vs out decision cursor where "Evaluate sample_binding (Some vs) = Inr cursor"
    "s \<in> set (elems (b_Stages sample_binding))" "s_ID s = ''lifecycle-observation''" "\<not> IsMutating s"
    "read_selected observation_kind (sample_observer decision) sample_binding cursor (s_ID s) out"
    "list_all2 (links_to sample_binding s minute) (elems (s_Requires s)) out"
    "\<forall>q \<in> set out. v_recoveryPlan q \<noteq> b_PlanDigest sample_binding"
proof -
  let ?ss = "elems (b_Stages sample_binding)"
  obtain vs out where v: "length vs = 2" "chained sample_binding [] ?ss vs out"
    "\<forall>p \<in> set out. v_recoveryPlan p \<noteq> b_PlanDigest sample_binding"
    "list_all2 (links_to sample_binding (?ss ! 2) 0) (elems (s_Requires (?ss ! 2))) out"
    using plan_prefix_exists [OF sample_verified(1) sample_identity sample_no_recovery, of 2] sample_first(2) by auto
  let ?s = "?ss ! 2"
  let ?d = "next_decision sample_binding 2 ?s (SHA256 (canonical_text (enc_stage ?s))) (map cursor_link_of out)"
  have m: "?s \<in> set ?ss" using sample_first(2) by simp
  have r: "rule_matches 2 (requiredSequence ! 2) ?s"
    using plan_sequence [OF sample_verified(1)] sample_first(2) by (auto simp: Let_def)
  then have f: "s_ID ?s = ''lifecycle-observation''" "s_Kind ?s = ''Observation''" "s_GrantOperation ?s = ''''"
    by (simp_all add: rule_matches_def requiredSequence_def rule_def)
  have nm: "\<not> IsMutating ?s" using IsMutating_iff_operation [of ?s] f(3) by simp
  have c: "Evaluate sample_binding (Some vs) = Inr (verifiedCursor ?d out)"
    using Evaluate_chained [OF sample_verified(1) sample_no_recovery v(2)] v(1) sample_first(2) by (simp add: Let_def)
  have sel: "read_selected observation_kind (sample_observer (?d\<lparr>cd_Predecessors := Some (elems (cd_Predecessors ?d))\<rparr>))
      sample_binding (verifiedCursor ?d out) (s_ID ?s) out"
    using f nm by (simp add: read_selected_def verifiedCursor_def Cursor_Decision_def Cursor_Predecessors_def
        observation_kind_def next_decision_def sample_observer_def)
  have l: "list_all2 (links_to sample_binding ?s minute) (elems (s_Requires ?s)) out"
    using v(4) by (rule list_all2_mono) (simp add: links_later minute_def nanosecond_per_second_def)
  show thesis by (rule that [OF c m f(1) nm sel l v(3)])
qed

lemma read_stage_looks_once_witness:
  "\<exists>receipt err w'. stage_read observation_kind (reader_operation (on_fst (ledger ''/l'')) (sample_observer sample_next))
       sample_binding sample_cursor '''' (empty_disk, 0 :: nat) = ((receipt, err), w')
     \<and> (store_runs (on_fst (ledger ''/l'')) (empty_disk, 0) w'
        \<or> looks_once (on_fst (ledger ''/l'')) (sample_observer sample_next) (empty_disk, 0) w')"
proof -
  obtain receipt err w' where r: "stage_read observation_kind
       (reader_operation (on_fst (ledger ''/l'')) (sample_observer sample_next))
       sample_binding sample_cursor '''' (empty_disk, 0 :: nat) = ((receipt, err), w')" by (metis prod.exhaust)
  from read_stage_looks_once [OF r] r show ?thesis by blast
qed

lemma settled_stage_is_repeated_witness:
  "\<exists>decision cursor receipt d'. stage_read observation_kind
       (reader_operation (on_fst (ledger ''/l'')) (sample_observer decision)) sample_binding cursor '''' (empty_disk, 0)
     = ((receipt, None), (d', 1)) \<and> rn_State receipt = ''COMPLETED_SUCCEEDED''"
proof -
  obtain s vs out decision cursor where s: "Evaluate sample_binding (Some vs) = Inr cursor"
    "s \<in> set (elems (b_Stages sample_binding))" "s_ID s = ''lifecycle-observation''" "\<not> IsMutating s"
    "read_selected observation_kind (sample_observer decision) sample_binding cursor (s_ID s) out"
    "list_all2 (links_to sample_binding s minute) (elems (s_Requires s)) out"
    "\<forall>q \<in> set out. v_recoveryPlan q \<noteq> b_PlanDigest sample_binding"
    by (rule sample_third_stage)
  have "Binding_Stage sample_binding (s_ID s) = Inr (s, SHA256 (canonical_text (enc_stage s)))"
    using stage_lookup [OF sample_verified(1)] s(2) by blast
  from slot_exists [OF this] s(3) obtain sk where sk: "stageReceiptKey sample_binding (s_ID s) = Inr sk"
    by (auto simp: valid_utf8_ascii is_ascii_def)
  have fit: "result_fits observation_kind sample_observation" "rk_Result observation_kind sample_observation = sample_observation"
    "rr_CompletedAt sample_observation = minute" "rr_Outcome sample_observation = ''SUCCEEDED''"
    by (simp_all add: result_fits_def observation_kind_def sample_observation_def oneOf_def sample_digest_pattern
        is_lower_hex_def is_digit_def is_zero_time_def minute_def nanosecond_per_second_def)
  have look: "\<forall>d. rd_Read (sample_observer decision) (d, 0) = (Inr sample_observation, (d, 1))"
    by (simp add: sample_observer_def)
  from settled_stage_is_repeated [where root = "''/l''", OF sample_verified(1) sample_identity sample_no_recovery
      sample_run_facts(1,2) s(5,2,4) _ s(7) fit(1) _ look empty_disk_facts(1) sk empty_disk_facts(2)] s(6) fit sample_at(1)
  show ?thesis by auto
qed

end
