(* ===== verification/Observation.thy ===== *)
theory Observation
  imports CreateAuthorization
begin

text \<open>
  The bounded aggregate evaluator of \<open>src/internal/observation/evaluator.go\<close>: the policy that follows
  from a normalized contract, the statements of the source-specific observers, and their aggregation
  into one receipt. Normalized contract values are \<open>json\<close>, as in \<open>ContractResult\<close>.
\<close>

definition PolicyFormat :: string where "PolicyFormat = ''ok147-required-condition-policy/v1''"
definition BundleFormat :: string where "BundleFormat = ''ok147-observation-bundle/v1''"
definition ResultFormat :: string where "ResultFormat = ''ok147-aggregate-observation/v1''"

definition supportedConditions :: "string list" where
  "supportedConditions = [''InfrastructureReady'', ''ControlPlaneAvailable'', ''NetworkReady'', ''PlatformReady'']"

record Policy =
  po_Format :: string
  po_IntentRevision :: string
  po_EnablementRevision :: string
  po_PlatformRevision :: string
  po_TargetClusterUID :: string
  po_Required :: "string slice"
  po_NetworkObservationMode :: string

record Evidence =
  ei_Type :: string
  ei_Source :: string
  ei_SourceUID :: string
  ei_TargetClusterUID :: string
  ei_Status :: string
  ei_Reason :: string
  ei_DesiredRevision :: string
  ei_ObservedRevision :: string
  ei_Generation :: int
  ei_ObservedGeneration :: int
  ei_EvidenceDigest :: string

record Bundle =
  bu_Format :: string
  bu_IntentRevision :: string
  bu_EvaluatedAt :: string
  bu_Evidence :: "Evidence slice"

record Condition =
  cn_Type :: string
  cn_Status :: string
  cn_Reason :: string
  cn_Source :: string

record ObservationReceipt =
  ox_Format :: string
  ox_IntentRevision :: string
  ox_PolicyDigest :: string
  ox_InputDigest :: string
  ox_Ready :: string
  ox_Reason :: string
  ox_Conditions :: "Condition slice"
  ox_EvaluatedAt :: string

record VerifiedResult =
  vr_receipt :: ObservationReceipt
  vr_digest :: string
  vr_verified :: bool

definition VerifiedResult_Receipt :: "VerifiedResult \<Rightarrow> ObservationReceipt result" where
  "VerifiedResult_Receipt r =
     (if \<not> vr_verified r then Inl (New ''observation result was not produced by evaluation'') else Inr (vr_receipt r))"

definition EvidenceDigest :: "VerifiedResult \<Rightarrow> string result" where
  "EvidenceDigest r =
     (if \<not> vr_verified r then Inl (New ''observation result was not produced by evaluation'') else Inr (vr_digest r))"

section \<open>JSON\<close>

definition enc_policy :: "Policy \<Rightarrow> json" where
  "enc_policy p = struct [key ''format'' (JStr (po_Format p)), key ''intentRevision'' (JStr (po_IntentRevision p)),
     key ''enablementRevision'' (JStr (po_EnablementRevision p)), key ''platformRevision'' (JStr (po_PlatformRevision p)),
     key ''targetClusterUid'' (JStr (po_TargetClusterUID p)), key ''required'' (JSlice JStr (po_Required p)),
     optkey ''networkObservationMode'' (JStr (po_NetworkObservationMode p))]"

definition enc_evidence :: "Evidence \<Rightarrow> json" where
  "enc_evidence e = struct [key ''type'' (JStr (ei_Type e)), key ''source'' (JStr (ei_Source e)),
     key ''sourceUid'' (JStr (ei_SourceUID e)), key ''targetClusterUid'' (JStr (ei_TargetClusterUID e)),
     key ''status'' (JStr (ei_Status e)), key ''reason'' (JStr (ei_Reason e)),
     key ''desiredRevision'' (JStr (ei_DesiredRevision e)), key ''observedRevision'' (JStr (ei_ObservedRevision e)),
     optkey ''generation'' (JInt (ei_Generation e)), optkey ''observedGeneration'' (JInt (ei_ObservedGeneration e)),
     key ''evidenceDigest'' (JStr (ei_EvidenceDigest e))]"

definition enc_bundle :: "Bundle \<Rightarrow> json" where
  "enc_bundle b = struct [key ''format'' (JStr (bu_Format b)), key ''intentRevision'' (JStr (bu_IntentRevision b)),
     key ''evaluatedAt'' (JStr (bu_EvaluatedAt b)), key ''evidence'' (JSlice enc_evidence (bu_Evidence b))]"

definition enc_condition :: "Condition \<Rightarrow> json" where
  "enc_condition c = struct [key ''type'' (JStr (cn_Type c)), key ''status'' (JStr (cn_Status c)),
     key ''reason'' (JStr (cn_Reason c)), optkey ''source'' (JStr (cn_Source c))]"

definition enc_observation :: "ObservationReceipt \<Rightarrow> json" where
  "enc_observation r = struct [key ''format'' (JStr (ox_Format r)), key ''intentRevision'' (JStr (ox_IntentRevision r)),
     key ''policyDigest'' (JStr (ox_PolicyDigest r)), key ''inputDigest'' (JStr (ox_InputDigest r)),
     key ''ready'' (JStr (ox_Ready r)), key ''reason'' (JStr (ox_Reason r)),
     key ''conditions'' (JSlice enc_condition (ox_Conditions r)), key ''evaluatedAt'' (JStr (ox_EvaluatedAt r))]"

definition observation_canonicalDigest :: "json \<Rightarrow> string result" where
  "observation_canonicalDigest j = canonical_digest j"

section \<open>Patterns\<close>

definition validDigest :: "string \<Rightarrow> bool" where "validDigest s \<longleftrightarrow> digest_pattern s"

text \<open>\<open>^[A-Za-z0-9][A-Za-z0-9._:-]{0,127}$\<close>\<close>

definition validUID :: "string \<Rightarrow> bool" where
  "validUID s \<longleftrightarrow> s \<noteq> '''' \<and> length s \<le> 128 \<and> is_alnum (hd s)
     \<and> list_all (\<lambda>c. is_alnum c \<or> c \<in> set ''._:-'') (tl s)"

text \<open>\<open>^[A-Za-z][A-Za-z0-9]{0,127}$\<close>\<close>

definition valid_reason :: "string \<Rightarrow> bool" where
  "valid_reason s \<longleftrightarrow> s \<noteq> '''' \<and> length s \<le> 128 \<and> is_alnum (hd s) \<and> \<not> is_digit (hd s) \<and> list_all is_alnum (tl s)"

definition sourceFor :: "string \<Rightarrow> string" where
  "sourceFor condition =
     (if condition = ''InfrastructureReady'' \<or> condition = ''ControlPlaneAvailable'' then ''CAPICluster''
      else if condition = ''NetworkReady'' then ''BoundedNetworkEvaluator''
      else if condition = ''PlatformReady'' then ''BoundedPlatformEvaluator'' else '''')"

definition isCAPISource :: "string \<Rightarrow> bool" where
  "isCAPISource condition \<longleftrightarrow> condition = ''InfrastructureReady'' \<or> condition = ''ControlPlaneAvailable''"

section \<open>The policy\<close>

text \<open>Walks over the names, refusing an unsupported one or one that was seen.\<close>

fun check_names :: "string \<Rightarrow> string \<Rightarrow> string list \<Rightarrow> string list \<Rightarrow> unit result" where
  "check_names unsupported duplicated seen [] = Inr ()"
| "check_names unsupported duplicated seen (n # ns) =
     (if n \<notin> set supportedConditions then Inl (Errf unsupported [n])
      else if n \<in> set seen then Inl (Errf duplicated [n])
      else check_names unsupported duplicated (n # seen) ns)"

definition validatePolicy :: "Policy \<Rightarrow> bool \<Rightarrow> unit result" where
  "validatePolicy p requireTarget =
     (if po_Format p \<noteq> PolicyFormat \<or> \<not> validDigest (po_IntentRevision p) \<or> \<not> validDigest (po_EnablementRevision p)
         \<or> \<not> validDigest (po_PlatformRevision p) \<or> elems (po_Required p) = [] then
        Inl (New ''observation policy is invalid'')
      else if requireTarget \<and> \<not> validUID (po_TargetClusterUID p) then
        Inl (New ''observation policy has no valid target Cluster UID'')
      else if po_NetworkObservationMode p \<noteq> '''' \<and> po_NetworkObservationMode p \<noteq> ''deferred-mvp/v1'' then
        Inl (New ''observation policy network mode is unsupported'')
      else if po_NetworkObservationMode p \<noteq> '''' \<and> elems (po_Required p) \<noteq> [''NetworkReady''] then
        Inl (New ''observation policy network mode requires only NetworkReady'')
      else check_names ''observation policy condition %q is unsupported'' ''observation policy condition %q is duplicated''
        [] (elems (po_Required p)))"

definition BindTarget :: "Policy \<Rightarrow> string \<Rightarrow> Policy result" where
  "BindTarget p clusterUID =
     bindE (validatePolicy p False) (\<lambda>_.
     if \<not> validUID clusterUID then Inl (New ''target Cluster UID is invalid'')
     else Inr (p\<lparr>po_TargetClusterUID := clusterUID\<rparr>))"

definition PolicyDigest :: "Policy \<Rightarrow> string result" where
  "PolicyDigest p = bindE (validatePolicy p True) (\<lambda>_. observation_canonicalDigest (enc_policy p))"

text \<open>The comma-ok forms: a field of an object that is a map, a string or a list, and the zero value otherwise.\<close>

definition object_field :: "(string \<times> json) list \<Rightarrow> string \<Rightarrow> (string \<times> json) list" where
  "object_field kvs k = (case map_of kvs k of Some (JObj v) \<Rightarrow> v | _ \<Rightarrow> [])"

definition string_field :: "(string \<times> json) list \<Rightarrow> string \<Rightarrow> string" where
  "string_field kvs k = (case map_of kvs k of Some (JStr s) \<Rightarrow> s | _ \<Rightarrow> '''')"

definition list_field :: "(string \<times> json) list \<Rightarrow> string \<Rightarrow> json list" where
  "list_field kvs k = (case map_of kvs k of Some (JArr vs) \<Rightarrow> vs | _ \<Rightarrow> [])"

fun required_names :: "string list \<Rightarrow> json list \<Rightarrow> string list result" where
  "required_names seen [] = Inr []"
| "required_names seen (v # vs) = (case v of
     JStr n \<Rightarrow>
       (if n \<notin> set supportedConditions then Inl (Errf ''required condition %q is unsupported'' [n])
        else if n \<in> set seen then Inl (Errf ''required condition %q is duplicated'' [n])
        else bindE (required_names (n # seen) vs) (\<lambda>ns. Inr (n # ns)))
   | _ \<Rightarrow> Inl (New ''required condition name is invalid''))"

definition PolicyFromContract :: "ContractResult \<Rightarrow> Policy result" where
  "PolicyFromContract res =
     (if \<not> validDigest (cr_NormalizedDigest res) then Inl (New ''normalized Contract revision is invalid'')
      else (case cr_Normalized res of
        JObj root \<Rightarrow> (case map_of root ''spec'' of
          Some (JObj spec) \<Rightarrow>
            (let eRevision = string_field (object_field spec ''enablement'') ''revision'';
                 pRevision = string_field (object_field spec ''platform'') ''revision'';
                 rawRequired = list_field (object_field spec ''conditions'') ''required''
             in if \<not> validDigest eRevision \<or> \<not> validDigest pRevision \<or> rawRequired = [] then
                  Inl (New ''normalized Contract lacks condition revision inputs'')
                else bindE (required_names [] rawRequired) (\<lambda>required.
                  Inr \<lparr>po_Format = PolicyFormat, po_IntentRevision = cr_NormalizedDigest res,
                    po_EnablementRevision = eRevision, po_PlatformRevision = pRevision,
                    po_TargetClusterUID = '''', po_Required = Some required, po_NetworkObservationMode = ''''\<rparr>))
        | _ \<Rightarrow> Inl (New ''normalized Contract spec is not an object''))
      | _ \<Rightarrow> Inl (New ''normalized Contract is not an object'')))"

section \<open>Statements\<close>

definition validateEvidenceShape :: "Evidence \<Rightarrow> unit result" where
  "validateEvidenceShape e =
     (if \<not> validUID (ei_SourceUID e) \<or> \<not> validUID (ei_TargetClusterUID e) \<or> \<not> valid_reason (ei_Reason e)
         \<or> \<not> validDigest (ei_DesiredRevision e)
         \<or> (ei_ObservedRevision e \<noteq> '''' \<and> \<not> validDigest (ei_ObservedRevision e)) \<or> \<not> validDigest (ei_EvidenceDigest e) then
        Inl (New ''identity, revision, reason, or evidence digest is invalid'')
      else if ei_Status e \<noteq> ''True'' \<and> ei_Status e \<noteq> ''False'' \<and> ei_Status e \<noteq> ''Unknown'' then Inl (New ''status is invalid'')
      else if ei_Source e \<noteq> sourceFor (ei_Type e) then
        Inl (Errf ''source %q differs from required %q'' [ei_Source e, sourceFor (ei_Type e)])
      else if isCAPISource (ei_Type e) then
        (if ei_Generation e \<le> 0 \<or> ei_ObservedGeneration e < 0 then Inl (New ''CAPI generation fields are invalid'') else Inr ())
      else if ei_Generation e \<noteq> 0 \<or> ei_ObservedGeneration e \<noteq> 0 then
        Inl (New ''non-CAPI evidence must not invent generation fields'')
      else Inr ())"

definition expected_revision :: "Policy \<Rightarrow> string \<Rightarrow> string" where
  "expected_revision p condition =
     (if condition = ''NetworkReady'' then po_EnablementRevision p
      else if condition = ''PlatformReady'' then po_PlatformRevision p else po_IntentRevision p)"

definition evaluateEvidence :: "Policy \<Rightarrow> Evidence \<Rightarrow> Condition" where
  "evaluateEvidence p e =
     (let condition = (\<lambda>status reason. \<lparr>cn_Type = ei_Type e, cn_Status = status, cn_Reason = reason, cn_Source = ei_Source e\<rparr>)
      in if ei_TargetClusterUID e \<noteq> po_TargetClusterUID p
            \<or> isCAPISource (ei_Type e) \<and> ei_SourceUID e \<noteq> po_TargetClusterUID p then
           condition ''Unknown'' ''RevisionCorrelationUnproven''
         else if ei_DesiredRevision e \<noteq> expected_revision p (ei_Type e)
            \<or> ei_ObservedRevision e \<noteq> expected_revision p (ei_Type e) then
           condition ''Unknown'' ''RevisionCorrelationUnproven''
         else if isCAPISource (ei_Type e) \<and> ei_ObservedGeneration e \<noteq> ei_Generation e then
           condition ''Unknown'' ''SourceObservationStale''
         else condition (ei_Status e) (ei_Reason e))"

section \<open>Aggregation\<close>

fun check_evidence :: "string list \<Rightarrow> Evidence list \<Rightarrow> unit result" where
  "check_evidence required [] = Inr ()"
| "check_evidence required (e # es) =
     (if ei_Type e \<notin> set supportedConditions then Inl (Errf ''observation condition %q is unsupported'' [ei_Type e])
      else if ei_Type e \<notin> set required then
        Inl (Errf ''observation condition %q is not in the required profile'' [ei_Type e])
      else bindE (wrapE (''observation condition '' @ ei_Type e) (validateEvidenceShape e)) (\<lambda>_. check_evidence required es))"

definition condition_for :: "Policy \<Rightarrow> Evidence list \<Rightarrow> string \<Rightarrow> Condition" where
  "condition_for p es name =
     (case filter (\<lambda>e. ei_Type e = name) es of
        [] \<Rightarrow> \<lparr>cn_Type = name, cn_Status = ''Unknown'', cn_Reason = ''RequiredEvidenceMissing'', cn_Source = ''''\<rparr>
      | [e] \<Rightarrow> evaluateEvidence p e
      | _ \<Rightarrow> \<lparr>cn_Type = name, cn_Status = ''Unknown'', cn_Reason = ''ConflictingAuthority'', cn_Source = ''''\<rparr>)"

definition aggregateUnknownReason :: "Condition list \<Rightarrow> string" where
  "aggregateUnknownReason conditions =
     (case filter (\<lambda>preferred. list_ex (\<lambda>c. cn_Status c = ''Unknown'' \<and> cn_Reason c = preferred) conditions)
        [''ConflictingAuthority'', ''RevisionCorrelationUnproven'', ''SourceObservationStale'', ''RequiredEvidenceMissing''] of
        [] \<Rightarrow> ''ObserverUnavailable''
      | preferred # _ \<Rightarrow> preferred)"

definition aggregate :: "Condition list \<Rightarrow> string \<times> string" where
  "aggregate conditions =
     (if list_ex (\<lambda>c. cn_Status c = ''False'') conditions then (''False'', ''RequiredConditionFailed'')
      else if list_ex (\<lambda>c. cn_Status c = ''Unknown'') conditions then (''Unknown'', aggregateUnknownReason conditions)
      else (''True'', ''AllRequiredConditionsSatisfied''))"

definition observation_Evaluate :: "Policy \<Rightarrow> Bundle \<Rightarrow> VerifiedResult result" where
  "observation_Evaluate p b =
     bindE (validatePolicy p True) (\<lambda>_.
     if bu_Format b \<noteq> BundleFormat \<or> bu_IntentRevision b \<noteq> po_IntentRevision p then
       Inl (New ''observation bundle format or intent revision differs from policy'')
     else if parse_rfc3339 (bu_EvaluatedAt b) = None then Inl (New ''observation evaluation time is invalid'')
     else if length (elems (bu_Evidence b)) > length (elems (po_Required p)) + 4 then
       Inl (New ''observation bundle contains too many source statements'')
     else bindE (check_evidence (elems (po_Required p)) (elems (bu_Evidence b))) (\<lambda>_.
     let conditions = map (condition_for p (elems (bu_Evidence b))) (elems (po_Required p))
     in bindE (PolicyDigest p) (\<lambda>policyDigest.
        bindE (observation_canonicalDigest (enc_bundle b)) (\<lambda>inputDigest.
        let receipt = \<lparr>ox_Format = ResultFormat, ox_IntentRevision = po_IntentRevision p, ox_PolicyDigest = policyDigest,
              ox_InputDigest = inputDigest, ox_Ready = fst (aggregate conditions), ox_Reason = snd (aggregate conditions),
              ox_Conditions = Some conditions, ox_EvaluatedAt = bu_EvaluatedAt b\<rparr>
        in bindE (observation_canonicalDigest (enc_observation receipt)) (\<lambda>receiptDigest.
           Inr \<lparr>vr_receipt = receipt, vr_digest = receiptDigest, vr_verified = True\<rparr>)))))"

end
