(* ===== verification/Execution.thy ===== *)
theory Execution
  imports Observation SubmissionStage
begin

text \<open>
  The bounded create operation of \<open>src/internal/execution/execution.go\<close>: everything that can be checked
  is checked before the grant is claimed; then claim, submit, correlate the cluster, observe, and
  record the outcome. Submitter, observer and clock are parameters over an abstract world, the
  projection files and the YAML reader those of \<open>submission_Load\<close>.
\<close>

definition ExecutionReceiptFormat :: string where "ExecutionReceiptFormat = ''ok147-bounded-execution-receipt/v1''"

type_synonym 'w Submitter = "SubmissionPlan \<Rightarrow> 'w \<Rightarrow> (SubmissionReceipt \<times> goerror option) \<times> 'w"
type_synonym 'w Observer = "Policy \<Rightarrow> ('w, VerifiedResult) op"

record 'w Operation =
  eo_Ledger :: "'w RecordStore option"
  eo_Submitter :: "'w Submitter option"
  eo_Observer :: "'w Observer option"
  eo_Clock :: "('w \<Rightarrow> time) option"

record ExecutionReceipt =
  er_Format :: string
  er_State :: string
  er_RequestDigest :: string
  er_Claim :: "ClaimReceipt option"
  er_Submission :: "SubmissionReceipt option"
  er_Observation :: "ObservationReceipt option"
  er_EvidenceDigest :: string
  er_Outcome :: "OutcomeReceipt option"

datatype execution_error = ExecutionError goerror | ResultError string

type_synonym 'w execution = "'w \<Rightarrow> (ExecutionReceipt \<times> execution_error option) \<times> 'w"

definition end_with :: "ExecutionReceipt \<Rightarrow> execution_error \<Rightarrow> 'w execution" where
  "end_with receipt e w = ((receipt, Some e), w)"

definition or_end :: "ExecutionReceipt \<Rightarrow> ('w, 'a) op \<Rightarrow> ('a \<Rightarrow> 'w execution) \<Rightarrow> 'w execution" where
  "or_end receipt m f w = (case m w of (Inl e, w') \<Rightarrow> end_with receipt (ExecutionError e) w' | (Inr x, w') \<Rightarrow> f x w')"

section \<open>Before the claim\<close>

record ProjectionReader =
  pj_yaml :: "string \<Rightarrow> yaml_document list"
  pj_opens :: "string \<Rightarrow> (file_info option \<times> string option) option"
  pj_arrange :: "(string \<times> string) list \<Rightarrow> (string \<times> string) list"
  pj_files :: "string \<Rightarrow> string option"
  pj_cwd :: "string option"

definition read_plan :: "ProjectionReader \<Rightarrow> string \<Rightarrow> ProjectionBinding \<Rightarrow> SubmissionPlan result" where
  "read_plan pj = submission_Load (pj_yaml pj) (pj_opens pj) (pj_arrange pj) (pj_files pj) (pj_cwd pj)"

definition preclaim ::
  "ProjectionReader \<Rightarrow> ContractResult \<Rightarrow> CreateRequest \<Rightarrow> VerifiedGrant \<Rightarrow> string
    \<Rightarrow> (string \<times> Policy \<times> SubmissionPlan) result" where
  "preclaim pj res request grant projectionRoot =
     (if rq_Format request \<noteq> RequestFormat \<or> rq_Operation request \<noteq> ''CreateCluster''
         \<or> rq_ContractRevision request \<noteq> cr_NormalizedDigest res
         \<or> pb_IntentRevision (rq_Projection request) \<noteq> cr_NormalizedDigest res
         \<or> pb_ContractIdentity (rq_Projection request) \<noteq> rq_ContractIdentity request then
        Inl (New ''Contract result and CreateRequest do not describe one operation'')
      else bindE (request_Digest request) (\<lambda>requestDigest.
      bindE (CreateConsumption grant) (\<lambda>binding.
      if cb_Operation binding \<noteq> rq_Operation request \<or> cb_RequestDigest binding \<noteq> requestDigest
         \<or> cb_ContractRevision binding \<noteq> rq_ContractRevision request
         \<or> cb_ProjectionManifestDigest binding \<noteq> pb_ManifestDigest (rq_Projection request) then
        Inl (New ''verified grant does not bind the CreateRequest'')
      else bindE (PolicyFromContract res) (\<lambda>policy.
      bindE (read_plan pj projectionRoot (rq_Projection request)) (\<lambda>plan.
      if su_IntentRevision plan \<noteq> rq_ContractRevision request
         \<or> su_AuthorityMapDigest plan \<noteq> pb_AuthorityMapDigest (rq_Projection request) then
        Inl (New ''submission plan differs from CreateRequest'')
      else Inr (requestDigest, policy, plan))))))"

section \<open>Judging the submission\<close>

fun check_results :: "ObjectResult list \<Rightarrow> SubmissionObject list \<Rightarrow> nat \<Rightarrow> string \<Rightarrow> string result" where
  "check_results (r # rs) (ob # obs) index expected =
     (if or_Identity r \<noteq> or_Identity (object_result ob [] []) \<or> or_Digest r \<noteq> ob_Digest ob \<or> or_UID r = ''''
         \<or> length (or_UID r) > 128 then
        Inl (Errf ''object result %d differs from submission plan'' [show_nat (Suc index)])
      else if or_State r = ''CREATED'' then check_results rs obs (Suc index) ''ATTEMPTED''
      else if or_State r = ''UNCHANGED'' then check_results rs obs (Suc index) expected
      else Inl (Errf ''object result %d has invalid state'' [show_nat (Suc index)]))"
| "check_results _ _ index expected = Inr expected"

definition validatePlaneReceipt :: "PlaneReceipt \<Rightarrow> SubmissionPlane \<Rightarrow> string result" where
  "validatePlaneReceipt receipt plane =
     (if pr_Format receipt \<noteq> PlaneReceiptFormat \<or> pr_Authority receipt \<noteq> pe_Identity plane
         \<or> pr_Role receipt \<noteq> pe_Role plane \<or> pr_State receipt \<noteq> ''SUBMITTED''
         \<or> length (elems (pr_Results receipt)) \<noteq> length (pe_Objects plane) then
        Inl (New ''identity, state, or result count differs from submission plan'')
      else bindE (check_results (elems (pr_Results receipt)) (pe_Objects plane) 0 ''NOT_ATTEMPTED'') (\<lambda>expected.
        if pr_MutationState receipt \<noteq> expected then Inl (New ''plane mutation state is inconsistent'')
        else Inr expected))"

definition is_cluster_result :: "Identity \<Rightarrow> ObjectResult \<Rightarrow> bool" where
  "is_cluster_result identity r \<longleftrightarrow> or_Identity r = \<lparr>oi_APIVersion = ''cluster.x-k8s.io/v1beta2'', oi_Kind = ''Cluster'',
     oi_Name = i_Name identity, oi_Namespace = i_Namespace identity\<rparr>"

fun cluster_uid :: "Identity \<Rightarrow> ObjectResult list \<Rightarrow> string \<Rightarrow> string result" where
  "cluster_uid identity [] uid =
     (if uid = '''' then Inl (New ''submission has no exact Cluster runtime identity'') else Inr uid)"
| "cluster_uid identity (r # rs) uid =
     (if \<not> is_cluster_result identity r then cluster_uid identity rs uid
      else if uid \<noteq> '''' \<or> or_UID r = '''' then Inl (New ''submission has ambiguous Cluster runtime identity'')
      else cluster_uid identity rs (or_UID r))"

definition submittedClusterUID :: "SubmissionReceipt \<Rightarrow> SubmissionPlan \<Rightarrow> Identity \<Rightarrow> string \<Rightarrow> string result" where
  "submittedClusterUID receipt plan identity revision =
     (case (sr_Infrastructure receipt, sr_Management receipt) of
        (Some infra, Some mgmt) \<Rightarrow>
          if sr_Format receipt \<noteq> RunReceiptFormat \<or> sr_IntentRevision receipt \<noteq> revision
             \<or> sr_State receipt \<noteq> ''SUBMITTED_OBSERVATION_PENDING'' then
            Inl (New ''submission did not reach observation boundary'')
          else bindE (wrapE ''infrastructure submission receipt'' (validatePlaneReceipt infra (su_Infrastructure plan))) (\<lambda>im.
               bindE (wrapE ''management submission receipt'' (validatePlaneReceipt mgmt (su_Management plan))) (\<lambda>mm.
               if sr_MutationState receipt \<noteq> (if im = ''ATTEMPTED'' \<or> mm = ''ATTEMPTED'' then ''ATTEMPTED'' else ''NOT_ATTEMPTED'') then
                 Inl (New ''submission mutation state is inconsistent'')
               else cluster_uid identity (elems (pr_Results mgmt)) ''''))
      | _ \<Rightarrow> Inl (New ''submission did not reach observation boundary''))"

section \<open>Recording the outcome\<close>

definition enc_submission_receipt :: "SubmissionReceipt \<Rightarrow> json" where
  "enc_submission_receipt x = struct [key ''format'' (JStr (sr_Format x)), key ''intentRevision'' (JStr (sr_IntentRevision x)),
     key ''state'' (JStr (sr_State x)), key ''mutationState'' (JStr (sr_MutationState x)),
     optkey ''infrastructure'' (case sr_Infrastructure x of None \<Rightarrow> JNull | Some p \<Rightarrow> enc_plane_receipt p),
     optkey ''management'' (case sr_Management x of None \<Rightarrow> JNull | Some p \<Rightarrow> enc_plane_receipt p)]"

definition enc_execution_evidence :: "ExecutionReceipt \<Rightarrow> string \<Rightarrow> string \<Rightarrow> json" where
  "enc_execution_evidence receipt outcome mutationState = struct [
     key ''format'' (JStr ''ok147-bounded-execution-evidence/v1''), key ''requestDigest'' (JStr (er_RequestDigest receipt)),
     key ''claim'' (case er_Claim receipt of None \<Rightarrow> JNull | Some c \<Rightarrow> enc_claim c),
     key ''submission'' (case er_Submission receipt of None \<Rightarrow> JNull | Some s \<Rightarrow> enc_submission_receipt s),
     optkey ''observation'' (case er_Observation receipt of None \<Rightarrow> JNull | Some o' \<Rightarrow> enc_observation o'),
     key ''outcome'' (JStr outcome), key ''mutationState'' (JStr mutationState)]"

definition operation_complete ::
  "'w RecordStore \<Rightarrow> ExecutionReceipt \<Rightarrow> ClaimReceipt \<Rightarrow> string \<Rightarrow> string \<Rightarrow> time \<Rightarrow> 'w execution" where
  "operation_complete ledger receipt claim outcome mutationState completedAt w =
     (case execution_canonicalDigest (enc_execution_evidence receipt outcome mutationState) of
        Inl e \<Rightarrow> end_with (receipt\<lparr>er_State := ''CLAIMED_INDETERMINATE_STOP''\<rparr>) (ExecutionError e) w
      | Inr evidenceDigest \<Rightarrow>
          let evidenced = receipt\<lparr>er_EvidenceDigest := evidenceDigest\<rparr> in
          or_end (evidenced\<lparr>er_State := ''CLAIMED_INDETERMINATE_STOP''\<rparr>)
            (wrapS ''persist bounded execution outcome'' (Complete ledger claim outcome mutationState evidenceDigest completedAt))
            (\<lambda>completed w. let final = evidenced\<lparr>er_Outcome := Some completed, er_State := ''COMPLETED_'' @ outcome\<rparr>
              in ((final, if outcome \<noteq> ''SUCCEEDED'' then Some (ResultError (er_State final)) else None), w)) w)"

section \<open>Run\<close>

text \<open>What the observation, its age and the submission make of the outcome.\<close>

definition observed_outcome :: "ClaimReceipt \<Rightarrow> SubmissionReceipt \<Rightarrow> ObservationReceipt \<Rightarrow> time \<Rightarrow> string" where
  "observed_outcome claim submission observation completedAt =
     (let currentObservation = (case (parse_rfc3339 (cl_ClaimedAt claim), parse_rfc3339 (ox_EvaluatedAt observation)) of
           (Some claimTime, Some observationTime) \<Rightarrow> \<not> before observationTime claimTime \<and> \<not> after observationTime completedAt
         | _ \<Rightarrow> False)
      in if ox_Ready observation = ''False'' then ''FAILED''
         else if ox_Ready observation = ''True'' \<and> currentObservation \<and> sr_MutationState submission = ''ATTEMPTED'' then ''SUCCEEDED''
         else ''STOPPED'')"

text \<open>After a complete submission: correlate the cluster, observe it, judge.\<close>

definition observe_submitted ::
  "'w RecordStore \<Rightarrow> 'w Observer \<Rightarrow> ('w \<Rightarrow> time) \<Rightarrow> ExecutionReceipt \<Rightarrow> CreateRequest \<Rightarrow> Policy \<Rightarrow> SubmissionPlan
    \<Rightarrow> ClaimReceipt \<Rightarrow> SubmissionReceipt \<Rightarrow> 'w execution" where
  "observe_submitted ledger observer clock receipt request policy plan claim submission =
     or_end receipt (liftE (wrapE ''correlate submitted Cluster identity''
         (submittedClusterUID submission plan (rq_ContractIdentity request) (rq_ContractRevision request)))) (\<lambda>clusterUID.
     or_end receipt (liftE (BindTarget policy clusterUID)) (\<lambda>bound.
     or_end receipt (wrapS ''bounded observation failed after claim'' (observer bound)) (\<lambda>verified.
     or_end receipt (liftE (VerifiedResult_Receipt verified)) (\<lambda>observation w.
     let observed = receipt\<lparr>er_Observation := Some observation\<rparr>
     in if PolicyDigest bound \<noteq> Inr (ox_PolicyDigest observation) \<or> ox_IntentRevision observation \<noteq> rq_ContractRevision request then
          end_with observed (ExecutionError (New ''verified observation does not bind the execution policy'')) w
        else operation_complete ledger observed claim (observed_outcome claim submission observation (clock w))
          (sr_MutationState submission) (clock w) w))))"

definition Operation_Run ::
  "ProjectionReader \<Rightarrow> 'w Operation \<Rightarrow> ContractResult \<Rightarrow> CreateRequest \<Rightarrow> VerifiedGrant \<Rightarrow> string \<Rightarrow> 'w execution" where
  "Operation_Run pj operation res request grant projectionRoot =
     (let receipt = \<lparr>er_Format = ExecutionReceiptFormat, er_State = ''PRECLAIM'', er_RequestDigest = '''', er_Claim = None,
        er_Submission = None, er_Observation = None, er_EvidenceDigest = '''', er_Outcome = None\<rparr>
      in (case (eo_Ledger operation, eo_Submitter operation, eo_Observer operation, eo_Clock operation) of
         (Some ledger, Some submitter, Some observer, Some clock) \<Rightarrow>
           or_end receipt (liftE (preclaim pj res request grant projectionRoot)) (\<lambda>(requestDigest, policy, plan).
           let requested = receipt\<lparr>er_RequestDigest := requestDigest\<rparr>
           in or_end requested (\<lambda>w. Claim ledger grant (clock w) w) (\<lambda>claim w1.
              case submitter plan w1 of ((submission, submissionErr), w2) \<Rightarrow>
              let submitted = requested\<lparr>er_Claim := Some claim, er_State := ''CLAIMED_INDETERMINATE_STOP'',
                    er_Submission := Some submission\<rparr>
              in if submissionErr \<noteq> None then
                   operation_complete ledger submitted claim ''STOPPED'' (sr_MutationState submission) (clock w2) w2
                 else observe_submitted ledger observer clock submitted request policy plan claim submission w2))
       | _ \<Rightarrow> end_with receipt (ExecutionError (New ''execution ledger, submitter, observer, and clock are required''))))"

end
