(* ===== verification/ObservationFacts.thy ===== *)
theory ObservationFacts
  imports Observation
begin

text \<open>
  The aggregation is a three-valued conjunction that fails closed, accepts exactly the well-formed
  bundles, and does not depend on the order of the statements.
\<close>


section \<open>Which bundles are accepted\<close>

text \<open>What a Go value of these types always is: integers of 64 bits; and a text that came out of JSON.\<close>

definition machine_bundle :: "Bundle \<Rightarrow> bool" where
  "machine_bundle b \<longleftrightarrow> valid_utf8 (bu_EvaluatedAt b)
     \<and> (\<forall>e \<in> set (elems (bu_Evidence b)). in_int64 (ei_Generation e) \<and> in_int64 (ei_ObservedGeneration e))"

lemma check_evidence_iff:
  "check_evidence required es = Inr () \<longleftrightarrow> (\<forall>e \<in> set es. ei_Type e \<in> set supportedConditions \<and> ei_Type e \<in> set required
     \<and> validateEvidenceShape e = Inr ())"
  by (induction required es rule: check_evidence.induct) (auto simp: wrapE_eq_Inr Inr_conv)

lemma check_names_iff:
  "check_names u d seen ns = Inr () \<longleftrightarrow> set ns \<subseteq> set supportedConditions \<and> distinct ns \<and> set ns \<inter> set seen = {}"
  by (induction u d seen ns rule: check_names.induct) auto

lemma is_alnum_ascii: "is_alnum c \<Longrightarrow> is_ascii c"
  by (auto simp: is_alnum_def is_lower_alnum_def is_digit_def is_ascii_def less_char_def less_eq_char_def)

lemma validUID_utf8: "validUID s \<Longrightarrow> valid_utf8 s"
proof (rule valid_utf8_ascii)
  assume "validUID s"
  then obtain c cs where "s = c # cs" "is_alnum c" "list_all (\<lambda>c. is_alnum c \<or> c \<in> set ''._:-'') cs"
    by (cases s) (auto simp: validUID_def)
  moreover have "list_all is_ascii ''._:-''" by (simp add: is_ascii_def less_char_def)
  ultimately show "list_all is_ascii s" using is_alnum_ascii by (auto simp: list_all_iff)
qed

lemma valid_reason_utf8: "valid_reason s \<Longrightarrow> valid_utf8 s"
  by (rule valid_utf8_ascii, cases s) (auto simp: valid_reason_def list_all_iff intro: is_alnum_ascii)

lemma supported_utf8: "n \<in> set supportedConditions \<Longrightarrow> valid_utf8 n"
  by (rule valid_utf8_ascii) (auto simp: supportedConditions_def is_ascii_def less_char_def)

lemma validatePolicy_facts:
  assumes "validatePolicy p t = Inr ()"
  shows "po_Format p = PolicyFormat" "validDigest (po_IntentRevision p)" "validDigest (po_EnablementRevision p)"
    "validDigest (po_PlatformRevision p)" "elems (po_Required p) \<noteq> []" "t \<Longrightarrow> validUID (po_TargetClusterUID p)"
    "po_NetworkObservationMode p \<in> {'''', ''deferred-mvp/v1''}"
    "set (elems (po_Required p)) \<subseteq> set supportedConditions" "distinct (elems (po_Required p))"
  using assms by (auto simp: validatePolicy_def check_names_iff split: if_splits)

lemma literal_utf8: "valid_utf8 PolicyFormat" "valid_utf8 BundleFormat" "valid_utf8 ResultFormat" "valid_utf8 ''deferred-mvp/v1''"
  by (simp_all add: valid_utf8_ascii is_ascii_def PolicyFormat_def BundleFormat_def ResultFormat_def)

lemma policy_record:
  assumes "validatePolicy p True = Inr ()"
  shows "record_json (enc_policy p)"
proof -
  note f = validatePolicy_facts [OF assms]
  have "list_all (\<lambda>n. valid_utf8 n) (elems (po_Required p))" using f(8) supported_utf8 by (auto simp: list_all_iff)
  with f show ?thesis
    by (auto simp: enc_policy_def fits_codec max_nesting_depth_def literal_utf8 validDigest_def
        intro: valid_utf8_digest validUID_utf8)
qed


lemma shape_facts:
  assumes "validateEvidenceShape e = Inr ()"
  shows "validUID (ei_SourceUID e)" "validUID (ei_TargetClusterUID e)" "valid_reason (ei_Reason e)"
    "validDigest (ei_DesiredRevision e)" "ei_ObservedRevision e = '''' \<or> validDigest (ei_ObservedRevision e)"
    "validDigest (ei_EvidenceDigest e)" "ei_Status e \<in> {''True'', ''False'', ''Unknown''}" "ei_Source e = sourceFor (ei_Type e)"
  using assms by (auto simp: validateEvidenceShape_def split: if_splits)

lemma source_utf8 [simp]: "valid_utf8 (sourceFor c)"
  by (simp add: sourceFor_def valid_utf8_ascii is_ascii_def)

lemma status_utf8: "s \<in> {''True'', ''False'', ''Unknown''} \<Longrightarrow> valid_utf8 s"
  by (auto simp: valid_utf8_ascii is_ascii_def)

lemma evidence_fits:
  assumes "validateEvidenceShape e = Inr ()" "ei_Type e \<in> set supportedConditions"
    and "in_int64 (ei_Generation e)" "in_int64 (ei_ObservedGeneration e)" and "0 < d"
  shows "fits (Suc d) (enc_evidence e)"
proof -
  note f = shape_facts [OF assms(1)]
  have "valid_utf8 (ei_ObservedRevision e)" using f(5) by (auto simp: validDigest_def intro: valid_utf8_digest)
  with f assms(2-) show ?thesis
    by (simp add: enc_evidence_def fits_codec validDigest_def valid_utf8_digest validUID_utf8 valid_reason_utf8
        supported_utf8 status_utf8)
qed

lemma bundle_record:
  assumes "check_evidence required (elems (bu_Evidence b)) = Inr ()" and "machine_bundle b"
    and "bu_Format b = BundleFormat" and "validDigest (bu_IntentRevision b)"
  shows "record_json (enc_bundle b)"
proof -
  have "fits 9998 (enc_evidence e)" if "e \<in> set (elems (bu_Evidence b))" for e
    using evidence_fits [of e 9997] assms(1,2) that by (simp add: check_evidence_iff machine_bundle_def)
  with assms(2-) show ?thesis
    by (simp add: enc_bundle_def fits_codec max_nesting_depth_def machine_bundle_def literal_utf8 validDigest_def
        valid_utf8_digest list_all_iff)
qed

lemma condition_cases:
  obtains (missing) "filter (\<lambda>e. ei_Type e = n) es = []" "condition_for p es n =
      \<lparr>cn_Type = n, cn_Status = ''Unknown'', cn_Reason = ''RequiredEvidenceMissing'', cn_Source = ''''\<rparr>"
  | (single) e where "filter (\<lambda>e. ei_Type e = n) es = [e]" "e \<in> set es" "ei_Type e = n" "condition_for p es n = evaluateEvidence p e"
  | (conflicting) "length (filter (\<lambda>e. ei_Type e = n) es) > 1" "condition_for p es n =
      \<lparr>cn_Type = n, cn_Status = ''Unknown'', cn_Reason = ''ConflictingAuthority'', cn_Source = ''''\<rparr>"
proof (cases "filter (\<lambda>e. ei_Type e = n) es" rule: remdups_adj.cases)
  case 1
  then show thesis by (intro missing) (simp_all add: condition_for_def)
next
  case (2 e)
  then have "e \<in> {e \<in> set es. ei_Type e = n}" by (metis list.set_intros(1) set_filter)
  with 2 show thesis by (intro single [of e]) (simp_all add: condition_for_def)
next
  case (3 e e' es')
  then show thesis by (intro conflicting) (simp_all add: condition_for_def)
qed

lemma condition_type:
  assumes "check_evidence required es = Inr ()" and "n \<in> set supportedConditions"
  shows "cn_Type (condition_for p es n) = n" "cn_Status (condition_for p es n) \<in> {''True'', ''False'', ''Unknown''}"
    "fits (Suc (Suc d)) (enc_condition (condition_for p es n))"
proof -
  let ?c = "condition_for p es n"
  have "cn_Type ?c = n \<and> cn_Status ?c \<in> {''True'', ''False'', ''Unknown''} \<and> valid_utf8 (cn_Reason ?c) \<and> valid_utf8 (cn_Source ?c)"
  proof (cases rule: condition_cases [of n es p])
    case (single e)
    with assms(1) have s: "validateEvidenceShape e = Inr ()" by (simp add: check_evidence_iff)
    note f = shape_facts [OF s]
    show ?thesis using f(7,8) valid_reason_utf8 [OF f(3)] single(3)
      unfolding single(4) evaluateEvidence_def Let_def
      by (auto simp: valid_utf8_ascii is_ascii_def)
  qed (simp_all add: valid_utf8_ascii is_ascii_def)
  with assms(2) show "cn_Type ?c = n" "cn_Status ?c \<in> {''True'', ''False'', ''Unknown''}"
    "fits (Suc (Suc d)) (enc_condition ?c)"
    by (simp_all add: enc_condition_def fits_codec status_utf8 supported_utf8)
qed

lemma aggregate_utf8: "valid_utf8 (fst (aggregate cs))" "valid_utf8 (snd (aggregate cs))"
proof -
  have "set (filter P ws) \<subseteq> set ws" for P :: "string \<Rightarrow> bool" and ws by auto
  then have "aggregateUnknownReason cs \<in> set [''ObserverUnavailable'', ''ConflictingAuthority'', ''RevisionCorrelationUnproven'',
      ''SourceObservationStale'', ''RequiredEvidenceMissing'']"
    unfolding aggregateUnknownReason_def by (auto split: list.splits)
  then have "valid_utf8 (aggregateUnknownReason cs)" by (auto simp: valid_utf8_ascii is_ascii_def)
  then show "valid_utf8 (fst (aggregate cs))" "valid_utf8 (snd (aggregate cs))"
    by (simp_all add: aggregate_def valid_utf8_ascii is_ascii_def)
qed

lemma observation_record:
  assumes "validatePolicy p True = Inr ()" and "check_evidence (elems (po_Required p)) (elems (bu_Evidence b)) = Inr ()"
    and "machine_bundle b" and "digest_pattern pd" "digest_pattern bd"
  shows "record_json (enc_observation \<lparr>ox_Format = ResultFormat, ox_IntentRevision = po_IntentRevision p, ox_PolicyDigest = pd,
     ox_InputDigest = bd, ox_Ready = fst (aggregate (map (condition_for p (elems (bu_Evidence b))) (elems (po_Required p)))),
     ox_Reason = snd (aggregate (map (condition_for p (elems (bu_Evidence b))) (elems (po_Required p)))),
     ox_Conditions = Some (map (condition_for p (elems (bu_Evidence b))) (elems (po_Required p))),
     ox_EvaluatedAt = bu_EvaluatedAt b\<rparr>)"
proof -
  note f = validatePolicy_facts [OF assms(1)]
  have "fits 9998 (enc_condition (condition_for p (elems (bu_Evidence b)) n))" if "n \<in> set (elems (po_Required p))" for n
    using condition_type(3) [OF assms(2), of n 9996 p] f(8) that by (auto simp: numeral_eq_Suc)
  with f(2) assms(3-) show ?thesis
    by (simp add: enc_observation_def fits_codec max_nesting_depth_def literal_utf8 validDigest_def valid_utf8_digest
        list_all_iff aggregate_utf8 machine_bundle_def)
qed


section \<open>The meaning of a verdict\<close>

text \<open>A statement is about the target, in the expected revision and generation.\<close>

definition correlated :: "Policy \<Rightarrow> Evidence \<Rightarrow> bool" where
  "correlated p e \<longleftrightarrow> ei_TargetClusterUID e = po_TargetClusterUID p
     \<and> (isCAPISource (ei_Type e) \<longrightarrow> ei_SourceUID e = po_TargetClusterUID p \<and> ei_ObservedGeneration e = ei_Generation e)
     \<and> ei_DesiredRevision e = expected_revision p (ei_Type e) \<and> ei_ObservedRevision e = expected_revision p (ei_Type e)"

text \<open>The one statement about a condition says \<open>st\<close> and counts.\<close>

definition stated :: "Policy \<Rightarrow> Evidence list \<Rightarrow> string \<Rightarrow> string \<Rightarrow> bool" where
  "stated p es n st \<longleftrightarrow> (\<exists>e. filter (\<lambda>e. ei_Type e = n) es = [e] \<and> correlated p e \<and> ei_Status e = st)"

lemma evaluateEvidence_status:
  "cn_Status (evaluateEvidence p e) = (if correlated p e then ei_Status e else ''Unknown'')"
  by (auto simp: evaluateEvidence_def correlated_def Let_def)

lemma condition_status:
  assumes "check_evidence required es = Inr ()"
  shows "cn_Status (condition_for p es n) = (if stated p es n ''True'' then ''True''
    else if stated p es n ''False'' then ''False'' else ''Unknown'')"
proof (cases rule: condition_cases [of n es p])
  case (single e)
  with assms have "validateEvidenceShape e = Inr ()" by (simp add: check_evidence_iff)
  from shape_facts(7) [OF this] single(1,4) show ?thesis by (auto simp: stated_def evaluateEvidence_status)
next
  case conflicting
  then have "\<not> stated p es n st" for st by (auto simp: stated_def)
  with conflicting show ?thesis by simp
qed (simp_all add: stated_def)

lemma stated_once: "stated p es n st \<Longrightarrow> stated p es n st' \<Longrightarrow> st = st'"
  by (auto simp: stated_def)

lemma aggregate_status:
  assumes "check_evidence required es = Inr ()"
  shows "fst (aggregate (map (condition_for p es) ns)) =
    (if \<exists>n \<in> set ns. stated p es n ''False'' then ''False''
     else if \<forall>n \<in> set ns. stated p es n ''True'' then ''True'' else ''Unknown'')"
proof -
  have f: "cn_Status (condition_for p es n) = ''False'' \<longleftrightarrow> stated p es n ''False''" for n
    using stated_once [of p es n "''True''" "''False''"] by (auto simp: condition_status [OF assms])
  have u: "cn_Status (condition_for p es n) = ''Unknown'' \<longleftrightarrow> \<not> stated p es n ''True'' \<and> \<not> stated p es n ''False''" for n
    by (simp add: condition_status [OF assms])
  show ?thesis by (auto simp: aggregate_def list_ex_iff f u)
qed

lemma Evaluate_parts:
  assumes "observation_Evaluate p b = Inr v"
  shows "validatePolicy p True = Inr ()" "bu_Format b = BundleFormat" "bu_IntentRevision b = po_IntentRevision p"
    "parse_rfc3339 (bu_EvaluatedAt b) \<noteq> None" "length (elems (bu_Evidence b)) \<le> length (elems (po_Required p)) + 4"
    "check_evidence (elems (po_Required p)) (elems (bu_Evidence b)) = Inr ()"
    "PolicyDigest p = Inr (ox_PolicyDigest (vr_receipt v))" "canonical_digest (enc_bundle b) = Inr (ox_InputDigest (vr_receipt v))"
    "canonical_digest (enc_observation (vr_receipt v)) = Inr (vr_digest v)" "vr_verified v"
    "ox_Conditions (vr_receipt v) = Some (map (condition_for p (elems (bu_Evidence b))) (elems (po_Required p)))"
    "(ox_Ready (vr_receipt v), ox_Reason (vr_receipt v)) =
       aggregate (map (condition_for p (elems (bu_Evidence b))) (elems (po_Required p)))"
    "ox_IntentRevision (vr_receipt v) = po_IntentRevision p" "ox_EvaluatedAt (vr_receipt v) = bu_EvaluatedAt b"
  using assms unfolding observation_Evaluate_def observation_canonicalDigest_def Let_def
  by (auto simp: Inr_conv split: if_splits)

text \<open>
  C11: the aggregate fails closed. A verified result is Ready=True exactly when every required
  condition has one statement, this statement is about the target in the expected revision and
  generation, and says True; it is Ready=False exactly when such a statement says False, whatever else
  is unknown; otherwise it is Unknown. Its digests are those of the policy, of the bundle and of itself.
\<close>

theorem aggregate_fails_closed:
  assumes "observation_Evaluate p b = Inr v"
  shows "ox_Ready (vr_receipt v) =
      (if \<exists>n \<in> set (elems (po_Required p)). stated p (elems (bu_Evidence b)) n ''False'' then ''False''
       else if \<forall>n \<in> set (elems (po_Required p)). stated p (elems (bu_Evidence b)) n ''True'' then ''True'' else ''Unknown'')
    \<and> VerifiedResult_Receipt v = Inr (vr_receipt v) \<and> PolicyDigest p = Inr (ox_PolicyDigest (vr_receipt v))
    \<and> observation_canonicalDigest (enc_bundle b) = Inr (ox_InputDigest (vr_receipt v))
    \<and> observation_canonicalDigest (enc_observation (vr_receipt v)) = Inr (vr_digest v)
    \<and> map cn_Type (elems (ox_Conditions (vr_receipt v))) = elems (po_Required p)"
proof -
  note e = Evaluate_parts [OF assms]
  have "ox_Ready (vr_receipt v) = fst (aggregate (map (condition_for p (elems (bu_Evidence b))) (elems (po_Required p))))"
    using e(12) by (metis fst_conv)
  moreover have "map cn_Type (map (condition_for p (elems (bu_Evidence b))) (elems (po_Required p))) = elems (po_Required p)"
    using condition_type(1) [OF e(6)] validatePolicy_facts(8) [OF e(1)] by (auto intro!: map_idI)
  ultimately show ?thesis using e(7-11) aggregate_status [OF e(6)]
    by (simp add: VerifiedResult_Receipt_def observation_canonicalDigest_def)
qed

section \<open>Acceptance\<close>

lemma Evaluate_accepts:
  assumes "machine_bundle b"
  shows "(\<exists>v. observation_Evaluate p b = Inr v) \<longleftrightarrow> validatePolicy p True = Inr () \<and> bu_Format b = BundleFormat
    \<and> bu_IntentRevision b = po_IntentRevision p \<and> parse_rfc3339 (bu_EvaluatedAt b) \<noteq> None
    \<and> length (elems (bu_Evidence b)) \<le> length (elems (po_Required p)) + 4
    \<and> check_evidence (elems (po_Required p)) (elems (bu_Evidence b)) = Inr ()" (is "?l \<longleftrightarrow> ?r")
proof
  assume ?l
  then show ?r by (blast dest: Evaluate_parts(1-6))
next
  assume r: ?r
  then have "validatePolicy p True = Inr ()" by blast
  note pf = validatePolicy_facts [OF this] and pr = canonical_digest_eq [OF policy_record [OF this]]
  have br: "canonical_digest (enc_bundle b) = Inr (SHA256 (canonical_text (enc_bundle b)))"
    by (rule canonical_digest_eq, rule bundle_record) (use r pf assms in auto)
  have "\<exists>d. canonical_digest (enc_observation \<lparr>ox_Format = ResultFormat, ox_IntentRevision = po_IntentRevision p,
     ox_PolicyDigest = SHA256 (canonical_text (enc_policy p)), ox_InputDigest = SHA256 (canonical_text (enc_bundle b)),
     ox_Ready = fst (aggregate (map (condition_for p (elems (bu_Evidence b))) (elems (po_Required p)))),
     ox_Reason = snd (aggregate (map (condition_for p (elems (bu_Evidence b))) (elems (po_Required p)))),
     ox_Conditions = Some (map (condition_for p (elems (bu_Evidence b))) (elems (po_Required p))),
     ox_EvaluatedAt = bu_EvaluatedAt b\<rparr>) = Inr d"
    using canonical_digest_eq [OF observation_record] r assms SHA256_pattern by blast
  with r pr br show ?l
    by (auto simp: observation_Evaluate_def PolicyDigest_def observation_canonicalDigest_def Let_def bindE_def)
qed

lemma bundle_fields: "elems (bu_Evidence (b\<lparr>bu_Evidence := Some es\<rparr>)) = es" by simp

lemma singleton_permuted: "mset es = mset es' \<Longrightarrow> filter P es = [e] \<Longrightarrow> filter P es' = [e]"
  by (metis mset_filter mset_single_iff_right mset_single_iff)

lemma condition_permuted:
  assumes "mset es = mset es'"
  shows "condition_for p es n = condition_for p es' n"
proof -
  have l: "length (filter (\<lambda>e. ei_Type e = n) es) = length (filter (\<lambda>e. ei_Type e = n) es')"
    using assms by (metis mset_filter size_mset)
  show ?thesis
  proof (cases rule: condition_cases [of n es p])
    case missing
    with l show ?thesis by (simp add: condition_for_def)
  next
    case (single e)
    with singleton_permuted [OF assms single(1)] show ?thesis by (simp add: condition_for_def)
  next
    case conflicting
    with l show ?thesis by (cases rule: condition_cases [of n es' p]) simp_all
  qed
qed

text \<open>
  The order of the statements does not matter. Two bundles that differ only in the order of their
  statements are accepted together and get the same verdict, reason, conditions and policy digest.
\<close>

theorem statements_in_any_order:
  assumes "mset es = mset es'" and "machine_bundle (b\<lparr>bu_Evidence := Some es\<rparr>)"
    and "observation_Evaluate p (b\<lparr>bu_Evidence := Some es\<rparr>) = Inr v"
  shows "\<exists>v'. observation_Evaluate p (b\<lparr>bu_Evidence := Some es'\<rparr>) = Inr v'
    \<and> (vr_receipt v')\<lparr>ox_InputDigest := ''''\<rparr> = (vr_receipt v)\<lparr>ox_InputDigest := ''''\<rparr>"
proof -
  let ?b = "b\<lparr>bu_Evidence := Some es\<rparr>" and ?b' = "b\<lparr>bu_Evidence := Some es'\<rparr>"
  have s: "set es' = set es" "length es' = length es" using assms(1) by (metis set_mset_mset, metis size_mset)
  have m: "machine_bundle ?b'" using assms(2) s(1) by (simp add: machine_bundle_def)
  note e = Evaluate_parts [OF assms(3)]
  have "\<exists>v'. observation_Evaluate p ?b' = Inr v'"
    using e(1-6) s by (simp add: Evaluate_accepts [OF m] check_evidence_iff)
  then obtain v' where v': "observation_Evaluate p ?b' = Inr v'" by blast
  note e' = Evaluate_parts [OF this]
  have c: "map (condition_for p es) ns = map (condition_for p es') ns" for ns
    using condition_permuted [OF assms(1)] by simp
  have "ox_Format (vr_receipt v') = ox_Format (vr_receipt v)"
    using v' assms(3) unfolding observation_Evaluate_def observation_canonicalDigest_def Let_def
    by (auto simp: Inr_conv split: if_splits)
  moreover have "ox_Ready (vr_receipt v') = ox_Ready (vr_receipt v) \<and> ox_Reason (vr_receipt v') = ox_Reason (vr_receipt v)"
    using e(12) e'(12) unfolding bundle_fields c by (metis Pair_inject)
  ultimately show ?thesis using e(7,11,13,14) e'(7,11,13,14) v' c
    by (intro exI [of _ v']) (cases "vr_receipt v"; cases "vr_receipt v'"; simp)
qed

section \<open>A concrete evaluation\<close>

definition sample_policy :: Policy where
  "sample_policy = \<lparr>po_Format = PolicyFormat, po_IntentRevision = ''sha256:'' @ replicate 64 CHR ''a'',
     po_EnablementRevision = ''sha256:'' @ replicate 64 CHR ''b'', po_PlatformRevision = ''sha256:'' @ replicate 64 CHR ''c'',
     po_TargetClusterUID = ''uid-1'', po_Required = Some [''InfrastructureReady'', ''NetworkReady''], po_NetworkObservationMode = ''''\<rparr>"

definition sample_statement :: "string \<Rightarrow> string \<Rightarrow> int \<Rightarrow> Evidence" where
  "sample_statement n revision g = \<lparr>ei_Type = n, ei_Source = sourceFor n, ei_SourceUID = ''uid-1'', ei_TargetClusterUID = ''uid-1'',
     ei_Status = ''True'', ei_Reason = ''Observed'', ei_DesiredRevision = revision, ei_ObservedRevision = revision,
     ei_Generation = g, ei_ObservedGeneration = g, ei_EvidenceDigest = ''sha256:'' @ replicate 64 CHR ''d''\<rparr>"

definition sample_statements :: "Evidence list" where
  "sample_statements = [sample_statement ''InfrastructureReady'' (''sha256:'' @ replicate 64 CHR ''a'') 3,
     sample_statement ''NetworkReady'' (''sha256:'' @ replicate 64 CHR ''b'') 0]"

definition sample_bundle :: "Evidence list \<Rightarrow> Bundle" where
  "sample_bundle es = \<lparr>bu_Format = BundleFormat, bu_IntentRevision = ''sha256:'' @ replicate 64 CHR ''a'',
     bu_EvaluatedAt = ''2026-01-02T03:04:05Z'', bu_Evidence = Some es\<rparr>"

lemma sample_machine: "machine_bundle (sample_bundle sample_statements)"
  by (simp add: machine_bundle_def sample_bundle_def sample_statements_def sample_statement_def valid_utf8_ascii is_ascii_def
      in_int64_def)

lemma sample_accepted: "\<exists>v. observation_Evaluate sample_policy (sample_bundle sample_statements) = Inr v"
proof -
  have "validatePolicy sample_policy True = Inr ()" by code_simp
  moreover have "check_evidence (elems (po_Required sample_policy)) (elems (bu_Evidence (sample_bundle sample_statements))) = Inr ()"
    by code_simp
  moreover have "parse_rfc3339 (bu_EvaluatedAt (sample_bundle sample_statements)) \<noteq> None" by code_simp
  ultimately show ?thesis
    by (simp add: Evaluate_accepts [OF sample_machine]) (simp add: sample_bundle_def sample_policy_def sample_statements_def)
qed

lemma sample_stated:
  "stated sample_policy sample_statements ''InfrastructureReady'' ''True''" "stated sample_policy sample_statements ''NetworkReady'' ''True''"
  by (simp_all add: stated_def sample_statements_def sample_statement_def correlated_def sample_policy_def expected_revision_def
      isCAPISource_def)

lemma aggregate_fails_closed_witness:
  "\<exists>v. observation_Evaluate sample_policy (sample_bundle sample_statements) = Inr v \<and> ox_Ready (vr_receipt v) = ''True''"
proof -
  obtain v where v: "observation_Evaluate sample_policy (sample_bundle sample_statements) = Inr v" using sample_accepted by blast
  have r: "elems (po_Required sample_policy) = [''InfrastructureReady'', ''NetworkReady'']"
    "elems (bu_Evidence (sample_bundle sample_statements)) = sample_statements"
    by (simp_all add: sample_policy_def sample_bundle_def)
  have "\<not> stated sample_policy sample_statements n ''False''" if "n \<in> {''InfrastructureReady'', ''NetworkReady''}" for n
    using that by (auto dest: stated_once [OF sample_stated(1)] stated_once [OF sample_stated(2)])
  with aggregate_fails_closed [OF v] sample_stated v show ?thesis unfolding r by auto
qed

lemma statements_in_any_order_witness:
  "\<exists>v'. observation_Evaluate sample_policy (sample_bundle (rev sample_statements)) = Inr v'"
proof -
  obtain v where v: "observation_Evaluate sample_policy (sample_bundle sample_statements) = Inr v" using sample_accepted by blast
  have b: "sample_bundle es = (sample_bundle [])\<lparr>bu_Evidence := Some es\<rparr>" for es by (simp add: sample_bundle_def)
  from statements_in_any_order [OF _ sample_machine [unfolded b [of sample_statements]] v [unfolded b [of sample_statements]],
      of "rev sample_statements"]
  show ?thesis unfolding b [of "rev sample_statements"] by auto
qed

end
