(* ===== verification/ExecutionFacts.thy ===== *)
theory ExecutionFacts
  imports Execution ObservationFacts StagedTheorems
begin

text \<open>
  The bounded create operation: nothing is submitted before the grant is claimed, the submitter and
  the observer are entered at most once each, and success means a current Ready=True observation of
  the very cluster that the submission reported.
\<close>

section \<open>The parts of a run\<close>

lemma or_end_cases:
  assumes "or_end r m f w = (p, w')"
  obtains (failed) e where "m w = (Inl e, w')" "p = (r, Some (ExecutionError e))"
  | (went) x u where "m w = (Inr x, u)" "f x u = (p, w')"
  using assms by (auto simp: or_end_def end_with_def split: prod.splits sum.splits)

definition complete_operation :: "'w RecordStore \<Rightarrow> 'w Submitter \<Rightarrow> 'w Observer \<Rightarrow> ('w \<Rightarrow> time) \<Rightarrow> 'w Operation" where
  "complete_operation store submitter observer clock = \<lparr>eo_Ledger = Some store, eo_Submitter = Some submitter,
     eo_Observer = Some observer, eo_Clock = Some clock\<rparr>"


lemma complete_cases:
  assumes "operation_complete store receipt claim outcome mutation at w = (p, w')"
  obtains (stuck) e where "p = (receipt\<lparr>er_State := ''CLAIMED_INDETERMINATE_STOP''\<rparr>, Some (ExecutionError e))" "w' = w"
  | (unrecorded) d e where "execution_canonicalDigest (enc_execution_evidence receipt outcome mutation) = Inr d"
      "p = (receipt\<lparr>er_EvidenceDigest := d, er_State := ''CLAIMED_INDETERMINATE_STOP''\<rparr>, Some (ExecutionError e))"
      "store_runs store w w'"
  | (recorded) d v where "execution_canonicalDigest (enc_execution_evidence receipt outcome mutation) = Inr d"
      "Complete store claim outcome mutation d at w = (Inr v, w')" "store_runs store w w'"
      "p = (receipt\<lparr>er_EvidenceDigest := d, er_Outcome := Some v, er_State := ''COMPLETED_'' @ outcome\<rparr>,
         if outcome \<noteq> ''SUCCEEDED'' then Some (ResultError (''COMPLETED_'' @ outcome)) else None)"
proof (cases "execution_canonicalDigest (enc_execution_evidence receipt outcome mutation)")
  case (Inl e)
  with assms show thesis by (intro stuck) (auto simp: operation_complete_def end_with_def)
next
  case d: (Inr d)
  obtain r u where c: "Complete store claim outcome mutation d at w = (r, u)" by (metis prod.exhaust)
  note runs = stepsD [OF steps_Complete c]
  show thesis
  proof (cases r)
    case (Inl e)
    with assms c d runs show thesis
      by (intro unrecorded [OF d]) (auto simp: operation_complete_def or_end_def wrapS_def wrapE_def end_with_def)
  next
    case (Inr v)
    with assms c d runs show thesis
      by (intro recorded [OF d]) (auto simp: operation_complete_def or_end_def wrapS_def wrapE_def Let_def)
  qed
qed


lemma observe_cases:
  assumes "observe_submitted store observer clock receipt request policy plan claim submission w = (p, w')"
  obtains (uncorrelated) e where "p = (receipt, Some (ExecutionError e))" "w' = w"
  | (looked) uid bound answer u where
      "submittedClusterUID submission plan (rq_ContractIdentity request) (rq_ContractRevision request) = Inr uid"
      "BindTarget policy uid = Inr bound" "observer bound w = (answer, u)"
      "w' = u \<and> er_Outcome (fst p) = er_Outcome receipt \<and> snd p \<noteq> None \<and> er_Claim (fst p) = er_Claim receipt
         \<and> er_Submission (fst p) = er_Submission receipt
       \<or> (\<exists>verified observation. answer = Inr verified \<and> VerifiedResult_Receipt verified = Inr observation
         \<and> PolicyDigest bound = Inr (ox_PolicyDigest observation) \<and> ox_IntentRevision observation = rq_ContractRevision request
         \<and> operation_complete store (receipt\<lparr>er_Observation := Some observation\<rparr>) claim
             (observed_outcome claim submission observation (clock u)) (sr_MutationState submission) (clock u) u = (p, w'))"
proof (cases "submittedClusterUID submission plan (rq_ContractIdentity request) (rq_ContractRevision request)")
  case (Inl e)
  with assms show thesis
    by (intro uncorrelated) (auto simp: observe_submitted_def or_end_def liftE_def wrapE_def end_with_def)
next
  case uid: (Inr uid)
  show thesis
  proof (cases "BindTarget policy uid")
    case (Inl e)
    with uid assms show thesis
      by (intro uncorrelated) (auto simp: observe_submitted_def or_end_def liftE_def wrapE_def end_with_def)
  next
    case bound: (Inr bound)
    obtain answer u where a: "observer bound w = (answer, u)" by (metis prod.exhaust)
    show thesis
    proof (cases answer)
      case (Inl e)
      with assms uid bound a show thesis
        by (intro looked [OF uid bound a] disjI1)
          (simp add: observe_submitted_def or_end_def liftE_def wrapE_def wrapS_def end_with_def, auto)
    next
      case verified: (Inr verified)
      show thesis
      proof (cases "VerifiedResult_Receipt verified")
        case (Inl e)
        with assms uid bound a verified show thesis
          by (intro looked [OF uid bound a] disjI1)
            (simp add: observe_submitted_def or_end_def liftE_def wrapE_def wrapS_def end_with_def, auto)
      next
        case (Inr observation)
        note run = assms [unfolded observe_submitted_def or_end_def liftE_def uid bound wrapE_def wrapS_def sum.case
          prod.case a verified Inr Let_def]
        show thesis
        proof (cases "PolicyDigest bound = Inr (ox_PolicyDigest observation)
            \<and> ox_IntentRevision observation = rq_ContractRevision request")
          case True
          with run verified Inr show thesis by (intro looked [OF uid bound a] disjI2) auto
        next
          case False
          with run show thesis
            by (intro looked [OF uid bound a] disjI1) (auto simp: end_with_def split: if_splits)
        qed
      qed
    qed
  qed
qed

lemma run_execution_cases:
  assumes "Operation_Run pj (complete_operation store submitter observer clock) res request grant root w = (p, w')"
  obtains (refused) "er_Claim (fst p) = None" "er_Submission (fst p) = None" "er_Outcome (fst p) = None" "snd p \<noteq> None"
      "store_runs store w w'"
  | (claimed) d policy plan claim u submission serr v receipt where
      "preclaim pj res request grant root = Inr (d, policy, plan)" "Claim store grant (clock w) w = (Inr claim, u)"
      "submitter plan u = ((submission, serr), v)" "er_Claim receipt = Some claim" "er_Submission receipt = Some submission"
      "er_Outcome receipt = None" "er_RequestDigest receipt = d"
      "if serr = None then observe_submitted store observer clock receipt request policy plan claim submission v = (p, w')
       else operation_complete store receipt claim ''STOPPED'' (sr_MutationState submission) (clock v) v = (p, w')"
proof (cases "preclaim pj res request grant root")
  case (Inl e)
  with assms show thesis
    by (intro refused) (auto simp: Operation_Run_def complete_operation_def or_end_def liftE_def end_with_def Let_def)
next
  case pre: (Inr t)
  obtain d policy plan where t: "t = (d, policy, plan)" by (cases t)
  let ?r = "\<lparr>er_Format = ExecutionReceiptFormat, er_State = ''PRECLAIM'', er_RequestDigest = d, er_Claim = None,
        er_Submission = None, er_Observation = None, er_EvidenceDigest = '''', er_Outcome = None\<rparr>"
  obtain r u where c: "Claim store grant (clock w) w = (r, u)" by (metis prod.exhaust)
  show thesis
  proof (cases r)
    case (Inl e)
    with assms pre t c stepsD [OF steps_Claim c] show thesis
      by (intro refused) (auto simp: Operation_Run_def complete_operation_def or_end_def liftE_def end_with_def Let_def)
  next
    case (Inr claim)
    obtain submission serr v where s: "submitter plan u = ((submission, serr), v)" by (metis prod.exhaust)
    show thesis
      by (rule claimed [OF pre [unfolded t] c [unfolded Inr] s, of "?r\<lparr>er_Claim := Some claim,
            er_State := ''CLAIMED_INDETERMINATE_STOP'', er_Submission := Some submission\<rparr>"])
        (use assms pre t c Inr s in \<open>auto simp: Operation_Run_def complete_operation_def or_end_def liftE_def Let_def\<close>)
  qed
qed

section \<open>Claim first, submit once, observe once\<close>

text \<open>
  C9: nothing is submitted before the grant is claimed. A run with any ledger, submitter, observer
  and clock either stops with an error before the claim, having used the ledger only; or it claimed the
  grant after every check passed, entered the submitter exactly once with the plan that was verified,
  entered the observer at most once, only after a submission without error and only for the policy
  bound to the cluster that the submission reported, and used nothing but the ledger afterwards.
\<close>

theorem execution_claims_first:
  assumes "Operation_Run pj (complete_operation store submitter observer clock) res request grant root w = ((receipt, err), w')"
  shows "er_Claim receipt = None \<and> er_Submission receipt = None \<and> err \<noteq> None \<and> store_runs store w w'
    \<or> (\<exists>d policy plan claim u submission serr v. preclaim pj res request grant root = Inr (d, policy, plan)
        \<and> Claim store grant (clock w) w = (Inr claim, u) \<and> er_Claim receipt = Some claim
        \<and> submitter plan u = ((submission, serr), v) \<and> er_Submission receipt = Some submission
        \<and> (store_runs store v w'
           \<or> (\<exists>uid bound answer x. serr = None \<and> BindTarget policy uid = Inr bound
                \<and> submittedClusterUID submission plan (rq_ContractIdentity request) (rq_ContractRevision request) = Inr uid
                \<and> observer bound v = (answer, x) \<and> store_runs store x w')))"
  using assms
proof (cases rule: run_execution_cases)
  case refused
  then show ?thesis by simp
next
  case (claimed d policy plan claim u submission serr v r)
  have after: "store_runs store x w' \<and> er_Claim receipt = er_Claim r' \<and> er_Submission receipt = er_Submission r'"
    if "operation_complete store r' claim outcome m at x = ((receipt, err), w')" for r' outcome m at x
    using that by (cases rule: complete_cases) auto
  show ?thesis
  proof (cases "serr = None")
    case False
    with claimed(8) have "operation_complete store r claim ''STOPPED'' (sr_MutationState submission) (clock v) v = ((receipt, err), w')"
      by simp
    from after [OF this] claimed(1-5) show ?thesis by auto
  next
    case True
    with claimed(8) have "observe_submitted store observer clock r request policy plan claim submission v = ((receipt, err), w')"
      by simp
    then show ?thesis
    proof (cases rule: observe_cases)
      case (uncorrelated e)
      with claimed(1-5) show ?thesis by auto
    next
      case (looked uid bound answer x)
      from looked(4) have "store_runs store x w' \<and> er_Claim receipt = er_Claim r \<and> er_Submission receipt = er_Submission r"
        by (auto dest!: after)
      with looked(1-3) claimed(1-5) True show ?thesis by auto
    qed
  qed
qed


section \<open>What success means\<close>






section \<open>A run that is refused\<close>

text \<open>The sample projection under a revision that is no digest: the policy cannot be derived.\<close>

definition sample_contract :: ContractResult where
  "sample_contract = \<lparr>cr_CanonicalizationProfile = ''p'', cr_RawArtifactDigest = '''', cr_SchemaDigest = '''',
     cr_NormalizedDigest = ''r'', cr_CanonicalJSON = '''', cr_Normalized = JNull\<rparr>"

definition sample_request :: CreateRequest where
  "sample_request = \<lparr>rq_Format = RequestFormat, rq_Operation = ''CreateCluster'',
     rq_ContractIdentity = pb_ContractIdentity sample_projection, rq_ContractRevision = ''r'', rq_CanonicalizationProfile = ''p'',
     rq_RawArtifactDigest = '''', rq_SchemaDigest = '''', rq_Projection = sample_projection\<rparr>"

definition sample_reader :: ProjectionReader where
  "sample_reader = \<lparr>pj_yaml = sample_yaml, pj_opens = sample_opens, pj_arrange = rev, pj_files = sample_files, pj_cwd = None\<rparr>"

definition sample_create_grant :: VerifiedGrant where
  "sample_create_grant = \<lparr>vc_receipt = \<lparr>at_Format = '''', at_State = '''', at_AuthorizationDigest = '''', at_GrantID = '''',
     at_KeyID = '''', at_NotAfter = '''', at_MaxUses = 1\<rparr>, vc_binding = \<lparr>cb_AuthorizationDigest = '''', cb_GrantID = ''g'',
     cb_KeyID = '''', cb_Operation = ''CreateCluster'', cb_RequestDigest = SHA256 (canonical_text (enc_request sample_request)),
     cb_ContractRevision = ''r'', cb_ProjectionManifestDigest = pb_ManifestDigest sample_projection, cb_NotBefore = '''',
     cb_NotAfter = ''''\<rparr>, vc_verified = True\<rparr>"

definition sample_submitter :: "disk Submitter" where
  "sample_submitter plan w = ((\<lparr>sr_Format = RunReceiptFormat, sr_IntentRevision = '''', sr_State = ''STOPPED_PARTIAL_OR_UNKNOWN'',
     sr_MutationState = ''NOT_ATTEMPTED'', sr_Infrastructure = None, sr_Management = None\<rparr>, Some (New ''stopped'')), w)"

abbreviation sample_execution :: "disk execution" where
  "sample_execution \<equiv> Operation_Run sample_reader (complete_operation (ledger ''/l'') sample_submitter
     (\<lambda>p w. (Inl (New ''unavailable''), w)) (\<lambda>w. 0)) sample_contract sample_request sample_create_grant ''/p''"

lemma execution_claims_first_witness:
  "\<exists>receipt err w'. sample_execution empty_disk = ((receipt, err), w') \<and> store_runs (ledger ''/l'') empty_disk w'"
proof -
  obtain receipt err w' where r: "sample_execution empty_disk = ((receipt, err), w')" by (metis prod.exhaust)
  have "preclaim sample_reader sample_contract sample_request sample_create_grant ''/p'' \<noteq> Inr x" for x
    by (auto simp: preclaim_def bindE_eq_Inr PolicyFromContract_def sample_contract_def validDigest_def digest_pattern_def)
  with execution_claims_first [OF r] r show ?thesis by auto
qed


end
