(* ===== verification/StopCategory.thy ===== *)
theory StopCategory
  imports ReadOnlyStages
begin

text \<open>
  How a run reports why it stopped without repeating what an error says
  (\<open>src/internal/runner/pre_runtime_orchestrator.go\<close>, the second half, and the evidence checks of
  \<open>full_run_orchestrator.go\<close>): the chain of a Go error, the first error in it that names a category,
  and the closed lists of categories that a public receipt may carry.
\<close>

section \<open>Errors of a stage\<close>

text \<open>
  The error types of the stages, by what \<open>errors.As\<close> finds in them. \<open>Categorized\<close> is an error with a
  category and a message (\<open>stageAuthorizationStopError\<close>, \<open>redactedObservationError\<close> and
  \<open>submission.SubmissionError\<close>), \<open>Wrapped m e\<close> is \<open>fmt.Errorf("m: %w", e)\<close>.
\<close>

datatype stage_error =
    Plain goerror
  | Staged staged_error
  | ObservationStageResultError string
  | BindingStageResultError string string
  | Categorized string string
  | CategorizedSubmissionError string string "SubmissionMismatchEvidence option"
  | FixedRedactedStopError string "stage_error option"
  | Wrapped string stage_error

text \<open>\<open>errors.As\<close> with a \<open>redactedStopCategorizer\<close>, an evidence source and an observation result.\<close>

fun as_categorizer :: "stage_error \<Rightarrow> string option" where
  "as_categorizer (Plain e) = None"
| "as_categorizer (Staged (RunError e)) = None"
| "as_categorizer (Staged (StageResultError state category evidence)) = Some category"
| "as_categorizer (ObservationStageResultError state) = None"
| "as_categorizer (BindingStageResultError state category) = Some category"
| "as_categorizer (Categorized category message) = Some category"
| "as_categorizer (CategorizedSubmissionError category message evidence) = Some category"
| "as_categorizer (FixedRedactedStopError category cause) = Some category"
| "as_categorizer (Wrapped m e) = as_categorizer e"

fun as_evidence_source :: "stage_error \<Rightarrow> SubmissionMismatchEvidence option option" where
  "as_evidence_source (Staged (StageResultError state category evidence)) = Some evidence"
| "as_evidence_source (CategorizedSubmissionError category message evidence) = Some evidence"
| "as_evidence_source (FixedRedactedStopError category cause) = (case cause of None \<Rightarrow> None | Some e \<Rightarrow> as_evidence_source e)"
| "as_evidence_source (Wrapped m e) = as_evidence_source e"
| "as_evidence_source _ = None"

fun as_observation_result :: "stage_error \<Rightarrow> string option" where
  "as_observation_result (ObservationStageResultError state) = Some state"
| "as_observation_result (FixedRedactedStopError category cause) = (case cause of None \<Rightarrow> None | Some e \<Rightarrow> as_observation_result e)"
| "as_observation_result (Wrapped m e) = as_observation_result e"
| "as_observation_result _ = None"

definition newFixedRedactedStop :: "string \<Rightarrow> stage_error option \<Rightarrow> stage_error" where
  "newFixedRedactedStop category cause = FixedRedactedStopError category cause"

section \<open>The closed lists\<close>

definition post_runtime_bind_categories :: "string list" where
  "post_runtime_bind_categories = [''POST_RUNTIME_PREFIX_UNAVAILABLE'', ''POST_RUNTIME_PREFIX_MISMATCH'',
     ''POST_RUNTIME_TARGET_IDENTITY_UNAVAILABLE'', ''POST_RUNTIME_WORKLOAD_AUTHORITY_UNAVAILABLE'',
     ''POST_RUNTIME_WORKLOAD_AUTHORITY_BIND_STOPPED'',
     ''POST_RUNTIME_EVIDENCE_IDENTITY_BIND_STOPPED'', ''POST_RUNTIME_ACTIVATION_STOPPED'',
     ''POST_RUNTIME_EXECUTION_OPEN_STOPPED'']"

definition post_prefix_activation_categories :: "string list" where
  "post_prefix_activation_categories = [''POST_PREFIX_BINDING_INVALID'', ''POST_PREFIX_WORKLOAD_AUTHORITY_INVALID'',
     ''POST_PREFIX_RUNTIME_AUTHORITY_BUILD_STOPPED'',
     ''POST_PREFIX_RUNTIME_AUTHORITY_INSTALL_STOPPED'',
     ''POST_PREFIX_OBSERVER_CREDENTIAL_STOPPED'',
     ''POST_PREFIX_OBSERVER_CREDENTIAL_TRANSPORT_STOPPED'',
     ''POST_PREFIX_OBSERVER_CREDENTIAL_CONVERGENCE_EXHAUSTED'',
     ''POST_PREFIX_OBSERVER_CREDENTIAL_RESPONSE_INVALID'',
     ''POST_PREFIX_OBSERVER_AUTHORITY_CONVERGENCE_EXHAUSTED'',
     ''POST_PREFIX_OBSERVER_AUTHORITY_INVALID'', ''POST_PREFIX_OBSERVER_CREDENTIAL_HTTP_REJECTED'',
     ''POST_PREFIX_OBSERVER_CREDENTIAL_RESPONSE_ENVELOPE_INVALID'',
     ''POST_PREFIX_OBSERVER_CREDENTIAL_CLAIMS_MISMATCH'',
     ''POST_PREFIX_OBSERVER_CREDENTIAL_MATERIALIZATION_STOPPED'',
     ''POST_PREFIX_PACKAGE_BUILD_STOPPED'', ''POST_PREFIX_PACKAGE_CONSTRUCTION_STOPPED'',
     ''POST_PREFIX_PACKAGE_RECEIPT_INVALID'', ''POST_PREFIX_PACKAGE_PREFIX_MISMATCH'',
     ''POST_PREFIX_PACKAGE_CONFIG_INVALID'', ''POST_PREFIX_ACTIVATION_PACKAGE_BUILD_STOPPED'',
     ''POST_PREFIX_JOB_ENVELOPE_BUILD_STOPPED'', ''POST_PREFIX_PACKAGE_VERIFICATION_STOPPED'',
     ''POST_PREFIX_ACTIVATION_IDENTITY_INVALID'',
     ''POST_PREFIX_ACTIVATION_MANIFEST_BINDING_INVALID'',
     ''POST_PREFIX_ACTIVATION_RUNTIME_BINDING_INVALID'',
     ''POST_PREFIX_ACTIVATION_OBSERVER_CREDENTIAL_INVALID'',
     ''POST_PREFIX_ACTIVATION_WORKLOAD_CA_INVALID'',
     ''POST_PREFIX_ACTIVATION_AUTHORITIES_INVALID'',
     ''POST_PREFIX_ACTIVATION_TLS_NETWORK_INVALID'',
     ''POST_PREFIX_ACTIVATION_POLICY_OR_SIZE_INVALID'',
     ''POST_PREFIX_INSTALLER_CREDENTIAL_STOPPED'',
     ''POST_PREFIX_INSTALLER_CREDENTIAL_ISSUANCE_STOPPED'',
     ''POST_PREFIX_INSTALLER_CREDENTIAL_TRANSPORT_STOPPED'',
     ''POST_PREFIX_INSTALLER_CREDENTIAL_CONVERGENCE_EXHAUSTED'',
     ''POST_PREFIX_INSTALLER_CREDENTIAL_RESPONSE_INVALID'',
     ''POST_PREFIX_INSTALLER_CREDENTIAL_CLAIMS_MISMATCH'',
     ''POST_PREFIX_INSTALLER_CREDENTIAL_RECEIPT_INVALID'',
     ''POST_PREFIX_INSTALLER_CREDENTIAL_RECEIPT_ENCODING_STOPPED'',
     ''POST_PREFIX_INSTALLER_CREDENTIAL_MATERIALIZATION_STOPPED'', ''POST_PREFIX_LAUNCH_STOPPED'']"

definition post_prefix_observer_categories :: "string list" where
  "post_prefix_observer_categories = [''POST_PREFIX_OBSERVER_CREDENTIAL_TRANSPORT_STOPPED'',
     ''POST_PREFIX_OBSERVER_CREDENTIAL_CONVERGENCE_EXHAUSTED'',
     ''POST_PREFIX_OBSERVER_CREDENTIAL_RESPONSE_INVALID'',
     ''POST_PREFIX_OBSERVER_AUTHORITY_CONVERGENCE_EXHAUSTED'',
     ''POST_PREFIX_OBSERVER_AUTHORITY_INVALID'', ''POST_PREFIX_OBSERVER_CREDENTIAL_HTTP_REJECTED'',
     ''POST_PREFIX_OBSERVER_CREDENTIAL_RESPONSE_ENVELOPE_INVALID'',
     ''POST_PREFIX_OBSERVER_CREDENTIAL_CLAIMS_MISMATCH'',
     ''POST_PREFIX_OBSERVER_CREDENTIAL_MATERIALIZATION_STOPPED'']"

definition cluster_lifecycle_open_categories :: "string list" where
  "cluster_lifecycle_open_categories = [''CLUSTER_LIFECYCLE_BUNDLE_VALIDATION_STOPPED'',
     ''CLUSTER_LIFECYCLE_PROVIDER_ACCESS_BINDING_STOPPED'',
     ''CLUSTER_LIFECYCLE_RUNTIME_OPERATION_OPEN_STOPPED'',
     ''CLUSTER_LIFECYCLE_INVOCATION_INVALID'', ''CLUSTER_LIFECYCLE_STAGE_OPEN_STOPPED'']"

definition passed_on_categories :: "string list" where
  "passed_on_categories = [''OBSERVATION_SOURCE_ERROR'', ''OBSERVATION_RESULT_INVALID'', ''OBSERVATION_INTERRUPTED'',
     ''PROVIDER_PREREQUISITES_RECEIPT_PERSISTENCE_STOPPED'',
     ''CLUSTER_LIFECYCLE_BUNDLE_VALIDATION_STOPPED'',
     ''CLUSTER_LIFECYCLE_PROVIDER_ACCESS_BINDING_STOPPED'',
     ''CLUSTER_LIFECYCLE_RUNTIME_OPERATION_OPEN_STOPPED'',
     ''CLUSTER_LIFECYCLE_INVOCATION_INVALID'', ''CLUSTER_LIFECYCLE_STAGE_OPEN_STOPPED'',
     ''SUBMISSION_DNS_STOPPED'', ''SUBMISSION_CONNECT_STOPPED'', ''SUBMISSION_TLS_STOPPED'',
     ''SUBMISSION_TIMEOUT_STOPPED'', ''SUBMISSION_TRANSPORT_STOPPED'',
     ''SUBMISSION_HTTP_REJECTED'', ''SUBMISSION_HTTP_UNAUTHORIZED'', ''SUBMISSION_HTTP_FORBIDDEN'',
     ''SUBMISSION_HTTP_RATE_LIMITED'', ''SUBMISSION_HTTP_SERVER_ERROR'',
     ''SUBMISSION_RESPONSE_INVALID'', ''SUBMISSION_OBJECT_MISMATCH'',
     ''SUBMISSION_OBJECT_RESPONSE_INVALID'', ''SUBMISSION_OBJECT_PROJECTION_INVALID'',
     ''SUBMISSION_OBJECT_IDENTITY_MISMATCH'', ''SUBMISSION_OBJECT_METADATA_MISMATCH'',
     ''SUBMISSION_OBJECT_SPEC_MISMATCH'', ''SUBMISSION_OBJECT_CONTENT_MISMATCH'',
     ''SUBMISSION_OBJECT_RUNTIME_IDENTITY_INVALID'', ''SUBMISSION_CONFLICT_STOPPED'',
     ''RUNTIME_BINDING_SOURCE_STOPPED'', ''RUNTIME_BINDING_MATERIALIZATION_STOPPED'',
     ''RUNTIME_BINDING_MATERIAL_VERIFICATION_STOPPED'', ''RUNTIME_BINDING_PERSISTENCE_STOPPED'',
     ''RUNTIME_BINDING_WRITER_OPEN_STOPPED'', ''AUTHORIZATION_DNS_STOPPED'',
     ''AUTHORIZATION_CONNECT_STOPPED'', ''AUTHORIZATION_TLS_STOPPED'',
     ''AUTHORIZATION_TIMEOUT_STOPPED'', ''AUTHORIZATION_TRANSPORT_STOPPED'',
     ''AUTHORIZATION_HTTP_REJECTED'', ''AUTHORIZATION_RESPONSE_INVALID'',
     ''AUTHORIZATION_PERSISTENCE_STOPPED'', ''AUTHORIZATION_INTERRUPTED'',
     ''POST_RUNTIME_BIND_STOPPED'', ''POST_RUNTIME_PREFIX_UNAVAILABLE'',
     ''POST_RUNTIME_PREFIX_MISMATCH'', ''POST_RUNTIME_TARGET_IDENTITY_UNAVAILABLE'',
     ''POST_RUNTIME_WORKLOAD_AUTHORITY_UNAVAILABLE'',
     ''POST_RUNTIME_WORKLOAD_AUTHORITY_BIND_STOPPED'',
     ''POST_RUNTIME_EVIDENCE_IDENTITY_BIND_STOPPED'', ''POST_RUNTIME_ACTIVATION_STOPPED'',
     ''POST_RUNTIME_EXECUTION_OPEN_STOPPED'', ''OBSERVABILITY_CREDENTIAL_INSTALLATION_STOPPED'',
     ''OBSERVABILITY_CREDENTIAL_INSTALLATION_MISMATCH'',
     ''OBSERVABILITY_CREDENTIAL_INSTALLATION_RESPONSE_INVALID'', ''POST_PREFIX_BINDING_INVALID'',
     ''POST_PREFIX_WORKLOAD_AUTHORITY_INVALID'', ''POST_PREFIX_RUNTIME_AUTHORITY_BUILD_STOPPED'',
     ''POST_PREFIX_RUNTIME_AUTHORITY_INSTALL_STOPPED'',
     ''POST_PREFIX_OBSERVER_CREDENTIAL_STOPPED'',
     ''POST_PREFIX_OBSERVER_CREDENTIAL_TRANSPORT_STOPPED'',
     ''POST_PREFIX_OBSERVER_CREDENTIAL_CONVERGENCE_EXHAUSTED'',
     ''POST_PREFIX_OBSERVER_CREDENTIAL_RESPONSE_INVALID'',
     ''POST_PREFIX_OBSERVER_AUTHORITY_CONVERGENCE_EXHAUSTED'',
     ''POST_PREFIX_OBSERVER_AUTHORITY_INVALID'', ''POST_PREFIX_OBSERVER_CREDENTIAL_HTTP_REJECTED'',
     ''POST_PREFIX_OBSERVER_CREDENTIAL_RESPONSE_ENVELOPE_INVALID'',
     ''POST_PREFIX_OBSERVER_CREDENTIAL_CLAIMS_MISMATCH'',
     ''POST_PREFIX_OBSERVER_CREDENTIAL_MATERIALIZATION_STOPPED'',
     ''POST_PREFIX_PACKAGE_BUILD_STOPPED'', ''POST_PREFIX_PACKAGE_CONSTRUCTION_STOPPED'',
     ''POST_PREFIX_PACKAGE_RECEIPT_INVALID'', ''POST_PREFIX_PACKAGE_PREFIX_MISMATCH'',
     ''POST_PREFIX_PACKAGE_CONFIG_INVALID'', ''POST_PREFIX_ACTIVATION_PACKAGE_BUILD_STOPPED'',
     ''POST_PREFIX_JOB_ENVELOPE_BUILD_STOPPED'', ''POST_PREFIX_PACKAGE_VERIFICATION_STOPPED'',
     ''POST_PREFIX_ACTIVATION_IDENTITY_INVALID'',
     ''POST_PREFIX_ACTIVATION_MANIFEST_BINDING_INVALID'',
     ''POST_PREFIX_ACTIVATION_RUNTIME_BINDING_INVALID'',
     ''POST_PREFIX_ACTIVATION_OBSERVER_CREDENTIAL_INVALID'',
     ''POST_PREFIX_ACTIVATION_WORKLOAD_CA_INVALID'',
     ''POST_PREFIX_ACTIVATION_AUTHORITIES_INVALID'',
     ''POST_PREFIX_ACTIVATION_TLS_NETWORK_INVALID'',
     ''POST_PREFIX_ACTIVATION_POLICY_OR_SIZE_INVALID'',
     ''POST_PREFIX_INSTALLER_CREDENTIAL_STOPPED'',
     ''POST_PREFIX_INSTALLER_CREDENTIAL_ISSUANCE_STOPPED'',
     ''POST_PREFIX_INSTALLER_CREDENTIAL_TRANSPORT_STOPPED'',
     ''POST_PREFIX_INSTALLER_CREDENTIAL_CONVERGENCE_EXHAUSTED'',
     ''POST_PREFIX_INSTALLER_CREDENTIAL_RESPONSE_INVALID'',
     ''POST_PREFIX_INSTALLER_CREDENTIAL_CLAIMS_MISMATCH'',
     ''POST_PREFIX_INSTALLER_CREDENTIAL_RECEIPT_INVALID'',
     ''POST_PREFIX_INSTALLER_CREDENTIAL_RECEIPT_ENCODING_STOPPED'',
     ''POST_PREFIX_INSTALLER_CREDENTIAL_MATERIALIZATION_STOPPED'', ''POST_PREFIX_LAUNCH_STOPPED'',
     ''CONTINUATION_BINDING_UNAVAILABLE'', ''CONTINUATION_BINDING_INVALID'',
     ''TARGET_CREDENTIAL_HANDOFF_MISSING'']"

definition valid_stop_categories :: "string list" where
  "valid_stop_categories = [''ORCHESTRATION_STOPPED'', ''STAGE_EXECUTION_ERROR'', ''OBSERVATION_SOURCE_ERROR'',
     ''PROVIDER_PREREQUISITES_RECEIPT_PERSISTENCE_STOPPED'',
     ''CLUSTER_LIFECYCLE_BUNDLE_VALIDATION_STOPPED'',
     ''CLUSTER_LIFECYCLE_PROVIDER_ACCESS_BINDING_STOPPED'',
     ''CLUSTER_LIFECYCLE_RUNTIME_OPERATION_OPEN_STOPPED'',
     ''CLUSTER_LIFECYCLE_INVOCATION_INVALID'', ''CLUSTER_LIFECYCLE_STAGE_OPEN_STOPPED'',
     ''SUBMISSION_DNS_STOPPED'', ''SUBMISSION_CONNECT_STOPPED'', ''SUBMISSION_TLS_STOPPED'',
     ''SUBMISSION_TIMEOUT_STOPPED'', ''SUBMISSION_TRANSPORT_STOPPED'',
     ''SUBMISSION_HTTP_REJECTED'', ''SUBMISSION_HTTP_UNAUTHORIZED'', ''SUBMISSION_HTTP_FORBIDDEN'',
     ''SUBMISSION_HTTP_RATE_LIMITED'', ''SUBMISSION_HTTP_SERVER_ERROR'',
     ''SUBMISSION_RESPONSE_INVALID'', ''SUBMISSION_OBJECT_MISMATCH'',
     ''SUBMISSION_OBJECT_RESPONSE_INVALID'', ''SUBMISSION_OBJECT_PROJECTION_INVALID'',
     ''SUBMISSION_OBJECT_IDENTITY_MISMATCH'', ''SUBMISSION_OBJECT_METADATA_MISMATCH'',
     ''SUBMISSION_OBJECT_SPEC_MISMATCH'', ''SUBMISSION_OBJECT_CONTENT_MISMATCH'',
     ''SUBMISSION_OBJECT_RUNTIME_IDENTITY_INVALID'', ''SUBMISSION_CONFLICT_STOPPED'',
     ''OBSERVATION_RESULT_INVALID'', ''OBSERVATION_INTERRUPTED'', ''OBSERVATION_COMPLETED_FAILED'',
     ''OBSERVATION_COMPLETED_STOPPED'', ''RUNTIME_BINDING_SOURCE_STOPPED'',
     ''RUNTIME_BINDING_MATERIALIZATION_STOPPED'',
     ''RUNTIME_BINDING_MATERIAL_VERIFICATION_STOPPED'', ''RUNTIME_BINDING_PERSISTENCE_STOPPED'',
     ''RUNTIME_BINDING_WRITER_OPEN_STOPPED'', ''AUTHORIZATION_DNS_STOPPED'',
     ''AUTHORIZATION_CONNECT_STOPPED'', ''AUTHORIZATION_TLS_STOPPED'',
     ''AUTHORIZATION_TIMEOUT_STOPPED'', ''AUTHORIZATION_TRANSPORT_STOPPED'',
     ''AUTHORIZATION_HTTP_REJECTED'', ''AUTHORIZATION_RESPONSE_INVALID'',
     ''AUTHORIZATION_PERSISTENCE_STOPPED'', ''AUTHORIZATION_INTERRUPTED'',
     ''POST_RUNTIME_BIND_STOPPED'', ''POST_RUNTIME_PREFIX_UNAVAILABLE'',
     ''POST_RUNTIME_PREFIX_MISMATCH'', ''POST_RUNTIME_TARGET_IDENTITY_UNAVAILABLE'',
     ''POST_RUNTIME_WORKLOAD_AUTHORITY_UNAVAILABLE'',
     ''POST_RUNTIME_WORKLOAD_AUTHORITY_BIND_STOPPED'',
     ''POST_RUNTIME_EVIDENCE_IDENTITY_BIND_STOPPED'', ''POST_RUNTIME_ACTIVATION_STOPPED'',
     ''POST_RUNTIME_EXECUTION_OPEN_STOPPED'', ''OBSERVABILITY_CREDENTIAL_INSTALLATION_STOPPED'',
     ''OBSERVABILITY_CREDENTIAL_INSTALLATION_MISMATCH'',
     ''OBSERVABILITY_CREDENTIAL_INSTALLATION_RESPONSE_INVALID'', ''POST_PREFIX_BINDING_INVALID'',
     ''POST_PREFIX_WORKLOAD_AUTHORITY_INVALID'', ''POST_PREFIX_RUNTIME_AUTHORITY_BUILD_STOPPED'',
     ''POST_PREFIX_RUNTIME_AUTHORITY_INSTALL_STOPPED'',
     ''POST_PREFIX_OBSERVER_CREDENTIAL_STOPPED'',
     ''POST_PREFIX_OBSERVER_CREDENTIAL_TRANSPORT_STOPPED'',
     ''POST_PREFIX_OBSERVER_CREDENTIAL_CONVERGENCE_EXHAUSTED'',
     ''POST_PREFIX_OBSERVER_CREDENTIAL_RESPONSE_INVALID'',
     ''POST_PREFIX_OBSERVER_AUTHORITY_CONVERGENCE_EXHAUSTED'',
     ''POST_PREFIX_OBSERVER_AUTHORITY_INVALID'', ''POST_PREFIX_OBSERVER_CREDENTIAL_HTTP_REJECTED'',
     ''POST_PREFIX_OBSERVER_CREDENTIAL_RESPONSE_ENVELOPE_INVALID'',
     ''POST_PREFIX_OBSERVER_CREDENTIAL_CLAIMS_MISMATCH'',
     ''POST_PREFIX_OBSERVER_CREDENTIAL_MATERIALIZATION_STOPPED'',
     ''POST_PREFIX_PACKAGE_BUILD_STOPPED'', ''POST_PREFIX_PACKAGE_CONSTRUCTION_STOPPED'',
     ''POST_PREFIX_PACKAGE_RECEIPT_INVALID'', ''POST_PREFIX_PACKAGE_PREFIX_MISMATCH'',
     ''POST_PREFIX_PACKAGE_CONFIG_INVALID'', ''POST_PREFIX_ACTIVATION_PACKAGE_BUILD_STOPPED'',
     ''POST_PREFIX_JOB_ENVELOPE_BUILD_STOPPED'', ''POST_PREFIX_PACKAGE_VERIFICATION_STOPPED'',
     ''POST_PREFIX_ACTIVATION_IDENTITY_INVALID'',
     ''POST_PREFIX_ACTIVATION_MANIFEST_BINDING_INVALID'',
     ''POST_PREFIX_ACTIVATION_RUNTIME_BINDING_INVALID'',
     ''POST_PREFIX_ACTIVATION_OBSERVER_CREDENTIAL_INVALID'',
     ''POST_PREFIX_ACTIVATION_WORKLOAD_CA_INVALID'',
     ''POST_PREFIX_ACTIVATION_AUTHORITIES_INVALID'',
     ''POST_PREFIX_ACTIVATION_TLS_NETWORK_INVALID'',
     ''POST_PREFIX_ACTIVATION_POLICY_OR_SIZE_INVALID'',
     ''POST_PREFIX_INSTALLER_CREDENTIAL_STOPPED'',
     ''POST_PREFIX_INSTALLER_CREDENTIAL_ISSUANCE_STOPPED'',
     ''POST_PREFIX_INSTALLER_CREDENTIAL_TRANSPORT_STOPPED'',
     ''POST_PREFIX_INSTALLER_CREDENTIAL_CONVERGENCE_EXHAUSTED'',
     ''POST_PREFIX_INSTALLER_CREDENTIAL_RESPONSE_INVALID'',
     ''POST_PREFIX_INSTALLER_CREDENTIAL_CLAIMS_MISMATCH'',
     ''POST_PREFIX_INSTALLER_CREDENTIAL_RECEIPT_INVALID'',
     ''POST_PREFIX_INSTALLER_CREDENTIAL_RECEIPT_ENCODING_STOPPED'',
     ''POST_PREFIX_INSTALLER_CREDENTIAL_MATERIALIZATION_STOPPED'', ''POST_PREFIX_LAUNCH_STOPPED'',
     ''CONTINUATION_BINDING_UNAVAILABLE'', ''CONTINUATION_BINDING_INVALID'',
     ''TARGET_CREDENTIAL_HANDOFF_MISSING'']"

text \<open>The regular expression for an object at a two-digit position is the one of the staged operation.\<close>

definition submissionObjectOrdinalStopCategoryPattern :: "string \<Rightarrow> bool" where
  "submissionObjectOrdinalStopCategoryPattern = at_position object_stop_words"

definition orchestrationMismatchEvidenceCategoryPattern :: "string \<Rightarrow> bool" where
  "orchestrationMismatchEvidenceCategoryPattern s \<longleftrightarrow> s \<in> set (map ((@) ''SUBMISSION_OBJECT_'') object_mismatch_words)"

definition validPostRuntimeBindStopCategory :: "string \<Rightarrow> bool" where
  "validPostRuntimeBindStopCategory category \<longleftrightarrow> category \<in> set post_runtime_bind_categories"

definition validPostPrefixActivationStopCategory :: "string \<Rightarrow> bool" where
  "validPostPrefixActivationStopCategory category \<longleftrightarrow> category \<in> set post_prefix_activation_categories"

definition validPostPrefixObserverCredentialStopCategory :: "string \<Rightarrow> bool" where
  "validPostPrefixObserverCredentialStopCategory category \<longleftrightarrow> category \<in> set post_prefix_observer_categories"

definition validClusterLifecycleOpenStopCategory :: "string \<Rightarrow> bool" where
  "validClusterLifecycleOpenStopCategory category \<longleftrightarrow> category \<in> set cluster_lifecycle_open_categories"

definition validRedactedStopCategory :: "string \<Rightarrow> bool" where
  "validRedactedStopCategory category \<longleftrightarrow>
     submissionObjectOrdinalStopCategoryPattern category \<or> category \<in> set valid_stop_categories"

section \<open>From an error to its category\<close>

definition redactedStopCategory :: "stage_error option \<Rightarrow> string" where
  "redactedStopCategory cause = (case cause of None \<Rightarrow> ''ORCHESTRATION_STOPPED'' | Some e \<Rightarrow>
     (let observed = (case as_observation_result e of Some state \<Rightarrow> ''OBSERVATION_'' @ state
                       | None \<Rightarrow> ''STAGE_EXECUTION_ERROR'') in
      case as_categorizer e of None \<Rightarrow> observed
      | Some category \<Rightarrow>
          if submissionObjectOrdinalStopCategoryPattern category then category
          else if category \<in> set passed_on_categories then category
          else observed))"

definition redactedStopOrFallback :: "string \<Rightarrow> stage_error option \<Rightarrow> stage_error" where
  "redactedStopOrFallback fallback cause =
     (case cause of None \<Rightarrow> newFixedRedactedStop fallback None | Some e \<Rightarrow>
       (case as_categorizer e of None \<Rightarrow> newFixedRedactedStop fallback cause
        | Some category \<Rightarrow>
            if validPostRuntimeBindStopCategory category \<or> validPostPrefixActivationStopCategory category then e
            else newFixedRedactedStop fallback cause))"

definition postPrefixActivationStopOrFallback :: "stage_error \<Rightarrow> stage_error" where
  "postPrefixActivationStopOrFallback cause =
     (case as_categorizer cause of
        Some category \<Rightarrow> if validPostPrefixActivationStopCategory category then cause
          else newFixedRedactedStop ''POST_RUNTIME_ACTIVATION_STOPPED'' (Some cause)
      | None \<Rightarrow> newFixedRedactedStop ''POST_RUNTIME_ACTIVATION_STOPPED'' (Some cause))"

definition postPrefixInstallerCredentialStopOrFallback :: "stage_error \<Rightarrow> stage_error" where
  "postPrefixInstallerCredentialStopOrFallback cause =
     (let otherwise = newFixedRedactedStop ''POST_PREFIX_INSTALLER_CREDENTIAL_ISSUANCE_STOPPED'' (Some cause) in
      case as_categorizer cause of None \<Rightarrow> otherwise
      | Some category \<Rightarrow>
          if category \<in> set [''POST_PREFIX_INSTALLER_CREDENTIAL_TRANSPORT_STOPPED'',
               ''POST_PREFIX_INSTALLER_CREDENTIAL_CONVERGENCE_EXHAUSTED'',
               ''POST_PREFIX_INSTALLER_CREDENTIAL_RESPONSE_INVALID'',
               ''POST_PREFIX_INSTALLER_CREDENTIAL_CLAIMS_MISMATCH'',
               ''POST_PREFIX_INSTALLER_CREDENTIAL_MATERIALIZATION_STOPPED''] then cause
          else if category = ''POST_PREFIX_OBSERVER_CREDENTIAL_TRANSPORT_STOPPED'' then
            newFixedRedactedStop ''POST_PREFIX_INSTALLER_CREDENTIAL_TRANSPORT_STOPPED'' (Some cause)
          else if category = ''POST_PREFIX_OBSERVER_CREDENTIAL_CONVERGENCE_EXHAUSTED'' then
            newFixedRedactedStop ''POST_PREFIX_INSTALLER_CREDENTIAL_CONVERGENCE_EXHAUSTED'' (Some cause)
          else if category = ''POST_PREFIX_OBSERVER_CREDENTIAL_RESPONSE_INVALID'' then
            newFixedRedactedStop ''POST_PREFIX_INSTALLER_CREDENTIAL_RESPONSE_INVALID'' (Some cause)
          else otherwise)"

definition postPrefixObserverCredentialStopOrFallback :: "stage_error \<Rightarrow> stage_error" where
  "postPrefixObserverCredentialStopOrFallback cause =
     (case as_categorizer cause of
        Some category \<Rightarrow> if validPostPrefixObserverCredentialStopCategory category then cause
          else newFixedRedactedStop ''POST_PREFIX_OBSERVER_CREDENTIAL_STOPPED'' (Some cause)
      | None \<Rightarrow> newFixedRedactedStop ''POST_PREFIX_OBSERVER_CREDENTIAL_STOPPED'' (Some cause))"

section \<open>Mismatch evidence\<close>

definition cloneOrchestrationMismatchEvidence ::
  "SubmissionMismatchEvidence option \<Rightarrow> SubmissionMismatchEvidence option" where
  "cloneOrchestrationMismatchEvidence source = source"

definition validOrchestrationMismatchEvidence :: "SubmissionMismatchEvidence option \<Rightarrow> bool" where
  "validOrchestrationMismatchEvidence evidence = (case evidence of None \<Rightarrow> True | Some e \<Rightarrow>
     me_ObservationCount e \<ge> 0 \<and> me_ObservationCount e \<le> MaximumSubmissionMismatchEvidenceObservations
     \<and> digestPattern (me_ExpectedDigest e) \<and> digestPattern (me_LastObservedDigest e)
     \<and> me_RuntimeIdentityStable e
     \<and> orchestrationMismatchEvidenceCategoryPattern (me_FirstCategory e)
     \<and> orchestrationMismatchEvidenceCategoryPattern (me_LastCategory e))"

text \<open>\<open>strings.Contains\<close>.\<close>

fun contains :: "string \<Rightarrow> string \<Rightarrow> bool" where
  "contains [] p = (p = [])"
| "contains (c # s) p = (take (length p) (c # s) = p \<or> contains s p)"

definition validOrchestrationMismatchEvidenceForCategory ::
  "string \<Rightarrow> SubmissionMismatchEvidence option \<Rightarrow> bool" where
  "validOrchestrationMismatchEvidenceForCategory category evidence =
     (let required = submissionObjectOrdinalStopCategoryPattern category
         \<and> contains category ''_CONVERGENCE_EXHAUSTED_AT_'' in
      (evidence \<noteq> None) = required \<and> validOrchestrationMismatchEvidence evidence)"

end
