(* ===== verification/Orchestration.thy ===== *)
theory Orchestration
  imports StopCategory
begin

text \<open>
  The order of a run (\<open>src/internal/runner/pre_runtime_orchestrator.go\<close>, \<open>post_runtime_orchestrator.go\<close>,
  \<open>full_run_orchestrator.go\<close>): stages 1 to 7 and stages 8 to 12 as two chains of calls, each call given
  the receipt of its predecessor, and the full run that joins them by a binding of the seven receipts.
  A stage call is a transformer of the world; whether the context is cancelled is read off the world,
  so that it may become cancelled during any call.
\<close>

section \<open>Stages and their receipts\<close>

definition preRuntimeStageOrder :: "string list" where
  "preRuntimeStageOrder = [''provider-prerequisites'', ''cluster-lifecycle'', ''lifecycle-observation'',
     ''enablement'', ''network-observation'', ''runtime-binding'', ''target-access'']"

definition postRuntimeStageOrder :: "string list" where
  "postRuntimeStageOrder = [''target-credential'', ''target-registration'', ''platform-applications'',
     ''platform-observation'', ''aggregate-evidence'']"

definition PreRuntimeOrchestrationReceiptFormat :: string where
  "PreRuntimeOrchestrationReceiptFormat = ''ok147-pre-runtime-orchestration-receipt/v1''"
definition PostRuntimeOrchestrationReceiptFormat :: string where
  "PostRuntimeOrchestrationReceiptFormat = ''ok147-post-runtime-orchestration-receipt/v1''"
definition PostRuntimeExecutionReceiptFormat :: string where
  "PostRuntimeExecutionReceiptFormat = ''ok147-post-runtime-execution-receipt/v1''"
definition FullRunOrchestrationReceiptFormat :: string where
  "FullRunOrchestrationReceiptFormat = ''ok147-full-run-orchestration-receipt/v1''"
definition PostRuntimeContinuationBindingFormat :: string where
  "PostRuntimeContinuationBindingFormat = ''ok147-post-runtime-continuation-binding/v1''"

text \<open>\<open>PreRuntimeStageCheckpoint\<close>, \<open>PostRuntimeStageCheckpoint\<close> and \<open>FullRunStageCheckpoint\<close> have the same fields.\<close>

record PreRuntimeStageCheckpoint =
  ck_StageID :: string
  ck_State :: string
  ck_StageReceiptDigest :: string

record PreRuntimeOrchestrationReceipt =
  px_Format :: string
  px_State :: string
  px_PlanDigest :: string
  px_StoppedAt :: string
  px_StopCategory :: string
  px_MismatchEvidence :: "SubmissionMismatchEvidence option"
  px_Checkpoints :: "PreRuntimeStageCheckpoint list"

record PostRuntimeOrchestrationReceipt =
  pn_Format :: string
  pn_State :: string
  pn_PlanDigest :: string
  pn_StoppedAt :: string
  pn_StopCategory :: string
  pn_Checkpoints :: "PreRuntimeStageCheckpoint list"

record FullRunOrchestrationReceipt =
  fr_Format :: string
  fr_State :: string
  fr_PlanDigest :: string
  fr_CompletionMode :: string
  fr_StoppedAt :: string
  fr_StopCategory :: string
  fr_MismatchEvidence :: "SubmissionMismatchEvidence option"
  fr_Checkpoints :: "PreRuntimeStageCheckpoint list"

text \<open>What a chain reads of the receipt that a stage returns: format, state, plan, stage and digest.\<close>

record StageRun =
  sg_Format :: string
  sg_State :: string
  sg_PlanDigest :: string
  sg_StageID :: string
  sg_StageReceiptDigest :: string

definition staged_run :: "StagedOperationReceipt \<Rightarrow> StageRun" where
  "staged_run r = \<lparr>sg_Format = sor_Format r, sg_State = sor_State r, sg_PlanDigest = sor_PlanDigest r,
     sg_StageID = sor_StageID r, sg_StageReceiptDigest = sor_StageReceiptDigest r\<rparr>"

definition read_stage_run :: "ObservationStageRunReceipt \<Rightarrow> StageRun" where
  "read_stage_run r = \<lparr>sg_Format = rn_Format r, sg_State = rn_State r, sg_PlanDigest = rn_PlanDigest r,
     sg_StageID = rn_StageID r, sg_StageReceiptDigest = rn_StageReceiptDigest r\<rparr>"

text \<open>A call: the result and the error it returns, and the world it leaves.\<close>

type_synonym ('w, 'a) call = "'w \<Rightarrow> ('a \<times> stage_error option) \<times> 'w"

section \<open>One stage of a chain\<close>

text \<open>
  The shape of every stage in both chains: call it, append its checkpoint whatever error it returned,
  stop when there was an error of the call or of the checkpoint, and otherwise go on with its receipt.
\<close>

definition chain_stage :: "('c \<Rightarrow> string \<Rightarrow> string \<Rightarrow> StageRun \<Rightarrow> 'c \<times> stage_error option)
    \<Rightarrow> ('c \<Rightarrow> string \<Rightarrow> stage_error option \<Rightarrow> 'c \<times> stage_error option)
    \<Rightarrow> string \<Rightarrow> string \<Rightarrow> ('r \<Rightarrow> StageRun) \<Rightarrow> ('w, 'r) call \<Rightarrow> ('r \<Rightarrow> 'c \<Rightarrow> ('w, 'c) call) \<Rightarrow> 'c \<Rightarrow> ('w, 'c) call" where
  "chain_stage attach halt stage format view run next receipt w =
     (case run w of ((r, runErr), w1) \<Rightarrow>
      (case attach receipt stage format (view r) of (receipt1, appendErr) \<Rightarrow>
       (if runErr = None \<and> appendErr = None then next r receipt1 w1
        else (halt receipt1 stage (if runErr \<noteq> None then runErr else appendErr), w1))))"

text \<open>
  \<open>if err := ctx.Err(); err != nil\<close> before the next stage. Of the two errors of a context one stands for both:
  neither has a category, and the chains use nothing else of them.
\<close>

definition context_canceled :: stage_error where
  "context_canceled = Plain (Sentinel ''context canceled'')"

definition chain_check :: "('w \<Rightarrow> bool) \<Rightarrow> ('c \<Rightarrow> string \<Rightarrow> stage_error option \<Rightarrow> 'c \<times> stage_error option)
    \<Rightarrow> string \<Rightarrow> ('c \<Rightarrow> ('w, 'c) call) \<Rightarrow> 'c \<Rightarrow> ('w, 'c) call" where
  "chain_check cancelled halt stage next receipt w =
     (if cancelled w then (halt receipt stage (Some context_canceled), w) else next receipt w)"

section \<open>Stages 1 to 7\<close>

record 'w PreRuntimeOrchestration =
  RunProviderPrerequisites :: "('w, StagedOperationReceipt) call option"
  RunClusterLifecycle :: "(StagedOperationReceipt \<Rightarrow> ('w, StagedOperationReceipt) call) option"
  RunLifecycleObservation :: "(StagedOperationReceipt \<Rightarrow> ('w, ObservationStageRunReceipt) call) option"
  RunEnablement :: "(ObservationStageRunReceipt \<Rightarrow> ('w, StagedOperationReceipt) call) option"
  RunNetworkObservation :: "(StagedOperationReceipt \<Rightarrow> ('w, ObservationStageRunReceipt) call) option"
  RunRuntimeBinding :: "(ObservationStageRunReceipt \<Rightarrow> ('w, BindingStageRunReceipt) call) option"
  RunTargetAccess :: "(BindingStageRunReceipt \<Rightarrow> ('w, StagedOperationReceipt) call) option"

definition appendPreRuntimeCheckpoint :: "PreRuntimeOrchestrationReceipt \<Rightarrow> string \<Rightarrow> string \<Rightarrow> StageRun
    \<Rightarrow> PreRuntimeOrchestrationReceipt \<times> stage_error option" where
  "appendPreRuntimeCheckpoint receipt expectedStage expectedFormat run =
     (if sg_Format run \<noteq> expectedFormat \<or> sg_State run \<noteq> ''COMPLETED_SUCCEEDED'' \<or> sg_StageID run \<noteq> expectedStage
         \<or> \<not> digestPattern (sg_PlanDigest run) \<or> \<not> digestPattern (sg_StageReceiptDigest run) then
        (receipt, Some (Plain (New ''pre-runtime stage receipt is invalid'')))
      else if px_PlanDigest receipt \<noteq> '''' \<and> px_PlanDigest receipt \<noteq> sg_PlanDigest run then
        (receipt, Some (Plain (New ''pre-runtime stage plan identity changed'')))
      else (receipt\<lparr>px_PlanDigest := sg_PlanDigest run,
              px_Checkpoints := px_Checkpoints receipt @ [\<lparr>ck_StageID = sg_StageID run, ck_State = sg_State run,
                ck_StageReceiptDigest = sg_StageReceiptDigest run\<rparr>]\<rparr>, None))"

definition stopPreRuntimeOrchestration :: "PreRuntimeOrchestrationReceipt \<Rightarrow> string
    \<Rightarrow> PreRuntimeOrchestrationReceipt \<times> stage_error option" where
  "stopPreRuntimeOrchestration receipt stageID =
     (receipt\<lparr>px_State := ''STOPPED'', px_StoppedAt := stageID, px_StopCategory := ''ORCHESTRATION_STOPPED''\<rparr>,
      Some (Plain (Errf ''pre-runtime orchestration stopped at '' [stageID])))"

definition stopPreRuntimeOrchestrationWithCause :: "PreRuntimeOrchestrationReceipt \<Rightarrow> string \<Rightarrow> stage_error option
    \<Rightarrow> PreRuntimeOrchestrationReceipt \<times> stage_error option" where
  "stopPreRuntimeOrchestrationWithCause receipt stageID cause =
     (let evidence = (case cause of None \<Rightarrow> px_MismatchEvidence receipt
            | Some e \<Rightarrow> (case as_evidence_source e of None \<Rightarrow> px_MismatchEvidence receipt | Some found \<Rightarrow> found));
          stopped = receipt\<lparr>px_State := ''STOPPED'', px_StoppedAt := stageID,
            px_StopCategory := redactedStopCategory cause, px_MismatchEvidence := evidence\<rparr> in
      if \<not> validOrchestrationMismatchEvidenceForCategory (px_StopCategory stopped) (px_MismatchEvidence stopped) then
        (stopped\<lparr>px_StopCategory := ''ORCHESTRATION_STOPPED'', px_MismatchEvidence := None\<rparr>,
         Some (Plain (New ''pre-runtime orchestration received invalid mismatch evidence'')))
      else (stopped, Some (case cause of
          None \<Rightarrow> Plain (Errf ''pre-runtime orchestration stopped at '' [stageID])
        | Some e \<Rightarrow> Wrapped (''pre-runtime orchestration stopped at '' @ stageID) e)))"

text \<open>Stages 1, 2, 5 and 6 report the cause of a stop, the other stages and the context checks do not.\<close>

definition pre_stop :: "bool \<Rightarrow> PreRuntimeOrchestrationReceipt \<Rightarrow> string \<Rightarrow> stage_error option
    \<Rightarrow> PreRuntimeOrchestrationReceipt \<times> stage_error option" where
  "pre_stop with_cause receipt stageID cause =
     (if with_cause then stopPreRuntimeOrchestrationWithCause receipt stageID cause
      else stopPreRuntimeOrchestration receipt stageID)"

definition pre_stage :: "bool \<Rightarrow> string \<Rightarrow> string \<Rightarrow> ('r \<Rightarrow> StageRun) \<Rightarrow> ('w, 'r) call
    \<Rightarrow> ('r \<Rightarrow> PreRuntimeOrchestrationReceipt \<Rightarrow> ('w, PreRuntimeOrchestrationReceipt) call)
    \<Rightarrow> PreRuntimeOrchestrationReceipt \<Rightarrow> ('w, PreRuntimeOrchestrationReceipt) call" where
  "pre_stage with_cause = chain_stage appendPreRuntimeCheckpoint (pre_stop with_cause)"

definition pre_check :: "('w \<Rightarrow> bool) \<Rightarrow> string
    \<Rightarrow> (PreRuntimeOrchestrationReceipt \<Rightarrow> ('w, PreRuntimeOrchestrationReceipt) call)
    \<Rightarrow> PreRuntimeOrchestrationReceipt \<Rightarrow> ('w, PreRuntimeOrchestrationReceipt) call" where
  "pre_check cancelled = chain_check cancelled (pre_stop False)"

definition pre_start :: PreRuntimeOrchestrationReceipt where
  "pre_start = \<lparr>px_Format = PreRuntimeOrchestrationReceiptFormat, px_State = ''RUNNING'', px_PlanDigest = '''',
     px_StoppedAt = '''', px_StopCategory = '''', px_MismatchEvidence = None, px_Checkpoints = []\<rparr>"

definition pre_refuse :: "string \<Rightarrow> PreRuntimeOrchestrationReceipt \<times> stage_error option" where
  "pre_refuse m = (pre_start\<lparr>px_State := ''STOPPED'', px_StoppedAt := preRuntimeStageOrder ! 0\<rparr>, Some (Plain (New m)))"

definition PreRuntimeOrchestration_Run :: "('w \<Rightarrow> bool) \<Rightarrow> 'w PreRuntimeOrchestration
    \<Rightarrow> ('w, PreRuntimeOrchestrationReceipt) call" where
  "PreRuntimeOrchestration_Run cancelled orchestration w =
     (case (RunProviderPrerequisites orchestration, RunClusterLifecycle orchestration,
            RunLifecycleObservation orchestration, RunEnablement orchestration,
            RunNetworkObservation orchestration, RunRuntimeBinding orchestration, RunTargetAccess orchestration) of
        (Some provider, Some lifecycle, Some lifecycleObservation, Some enablement, Some networkObservation,
         Some runtimeBinding, Some targetAccess) \<Rightarrow>
          if cancelled w then (pre_refuse ''pre-runtime orchestration context is unavailable'', w)
          else
            pre_stage True (preRuntimeStageOrder ! 0) StagedReceiptFormat staged_run provider (\<lambda>r1.
            pre_check cancelled (preRuntimeStageOrder ! 1) (
            pre_stage True (preRuntimeStageOrder ! 1) StagedReceiptFormat staged_run (lifecycle r1) (\<lambda>r2.
            pre_check cancelled (preRuntimeStageOrder ! 2) (
            pre_stage False (preRuntimeStageOrder ! 2) ObservationStageReceiptFormat read_stage_run (lifecycleObservation r2) (\<lambda>r3.
            pre_check cancelled (preRuntimeStageOrder ! 3) (
            pre_stage False (preRuntimeStageOrder ! 3) StagedReceiptFormat staged_run (enablement r3) (\<lambda>r4.
            pre_check cancelled (preRuntimeStageOrder ! 4) (
            pre_stage True (preRuntimeStageOrder ! 4) ObservationStageReceiptFormat read_stage_run (networkObservation r4) (\<lambda>r5.
            pre_check cancelled (preRuntimeStageOrder ! 5) (
            pre_stage True (preRuntimeStageOrder ! 5) BindingStageReceiptFormat read_stage_run (runtimeBinding r5) (\<lambda>r6.
            pre_check cancelled (preRuntimeStageOrder ! 6) (
            pre_stage False (preRuntimeStageOrder ! 6) StagedReceiptFormat staged_run (targetAccess r6) (\<lambda>r7 receipt w.
              ((receipt\<lparr>px_State := ''SUCCEEDED''\<rparr>, None), w)))))))))))))) pre_start w
      | _ \<Rightarrow> (pre_refuse ''pre-runtime orchestration is incomplete'', w))"

section \<open>Stages 8 to 12\<close>

text \<open>
  The credential of stage 8 is handed over in memory: \<open>VerifiedTargetCredentialStageHandoff\<close> is an object
  with the credential (\<open>None\<close> once it is cleared) and the mark that it was consumed, and the calls pass
  its address. The world of the suffix is this heap and everything outside it.
\<close>

record 'c TargetCredentialHandoff =
  ho_Credential :: "'c option"
  ho_Consumed :: bool

type_synonym ('c, 'u) runner_world = "(nat \<Rightarrow> 'c TargetCredentialHandoff) \<times> 'u"

definition discardTargetCredentialHandoff :: "nat option \<Rightarrow> ('c, 'u) runner_world \<Rightarrow> ('c, 'u) runner_world" where
  "discardTargetCredentialHandoff handoff w = (case handoff of None \<Rightarrow> w | Some h \<Rightarrow>
     (if ho_Consumed (fst w h) then w
      else ((fst w)(h := (fst w h)\<lparr>ho_Consumed := True, ho_Credential := None\<rparr>), snd w)))"

record 'w PostRuntimeOrchestration =
  RunTargetCredential :: "('w, StagedOperationReceipt \<times> nat option) call option"
  RunTargetRegistration :: "(nat \<Rightarrow> StagedOperationReceipt \<Rightarrow> ('w, StagedOperationReceipt) call) option"
  RunPlatformApplications :: "(StagedOperationReceipt \<Rightarrow> ('w, StagedOperationReceipt) call) option"
  RunPlatformObservation :: "(StagedOperationReceipt \<Rightarrow> ('w, ObservationStageRunReceipt) call) option"
  RunAggregateEvidence :: "(ObservationStageRunReceipt \<Rightarrow> ('w, EvaluationStageRunReceipt) call) option"

definition appendPostRuntimeCheckpoint :: "PostRuntimeOrchestrationReceipt \<Rightarrow> string \<Rightarrow> string \<Rightarrow> StageRun
    \<Rightarrow> PostRuntimeOrchestrationReceipt \<times> stage_error option" where
  "appendPostRuntimeCheckpoint receipt expectedStage expectedFormat run =
     (if sg_Format run \<noteq> expectedFormat \<or> sg_State run \<noteq> ''COMPLETED_SUCCEEDED'' \<or> sg_StageID run \<noteq> expectedStage
         \<or> \<not> digestPattern (sg_PlanDigest run) \<or> \<not> digestPattern (sg_StageReceiptDigest run) then
        (receipt, Some (Plain (New ''post-runtime stage receipt is invalid'')))
      else if pn_PlanDigest receipt \<noteq> '''' \<and> pn_PlanDigest receipt \<noteq> sg_PlanDigest run then
        (receipt, Some (Plain (New ''post-runtime stage plan identity changed'')))
      else (receipt\<lparr>pn_PlanDigest := sg_PlanDigest run,
              pn_Checkpoints := pn_Checkpoints receipt @ [\<lparr>ck_StageID = sg_StageID run, ck_State = sg_State run,
                ck_StageReceiptDigest = sg_StageReceiptDigest run\<rparr>]\<rparr>, None))"

definition stopPostRuntimeOrchestrationWithCause :: "PostRuntimeOrchestrationReceipt \<Rightarrow> string \<Rightarrow> stage_error option
    \<Rightarrow> PostRuntimeOrchestrationReceipt \<times> stage_error option" where
  "stopPostRuntimeOrchestrationWithCause receipt stageID cause =
     (receipt\<lparr>pn_State := ''STOPPED'', pn_StoppedAt := stageID, pn_StopCategory := redactedStopCategory cause\<rparr>,
      Some (case cause of
          None \<Rightarrow> Plain (Errf ''post-runtime orchestration stopped at '' [stageID])
        | Some e \<Rightarrow> Wrapped (''post-runtime orchestration stopped at '' @ stageID) e))"

definition post_stage :: "string \<Rightarrow> string \<Rightarrow> ('r \<Rightarrow> StageRun) \<Rightarrow> ('w, 'r) call
    \<Rightarrow> ('r \<Rightarrow> PostRuntimeOrchestrationReceipt \<Rightarrow> ('w, PostRuntimeOrchestrationReceipt) call)
    \<Rightarrow> PostRuntimeOrchestrationReceipt \<Rightarrow> ('w, PostRuntimeOrchestrationReceipt) call" where
  "post_stage = chain_stage appendPostRuntimeCheckpoint stopPostRuntimeOrchestrationWithCause"

definition post_check :: "('w \<Rightarrow> bool) \<Rightarrow> string
    \<Rightarrow> (PostRuntimeOrchestrationReceipt \<Rightarrow> ('w, PostRuntimeOrchestrationReceipt) call)
    \<Rightarrow> PostRuntimeOrchestrationReceipt \<Rightarrow> ('w, PostRuntimeOrchestrationReceipt) call" where
  "post_check cancelled = chain_check cancelled stopPostRuntimeOrchestrationWithCause"

definition post_start :: PostRuntimeOrchestrationReceipt where
  "post_start = \<lparr>pn_Format = PostRuntimeOrchestrationReceiptFormat, pn_State = ''RUNNING'', pn_PlanDigest = '''',
     pn_StoppedAt = '''', pn_StopCategory = '''', pn_Checkpoints = []\<rparr>"

definition post_refuse :: "string \<Rightarrow> PostRuntimeOrchestrationReceipt \<times> stage_error option" where
  "post_refuse m = (post_start\<lparr>pn_State := ''STOPPED'', pn_StoppedAt := postRuntimeStageOrder ! 0\<rparr>, Some (Plain (New m)))"

text \<open>Stages 9 to 12, run while the discard of the handoff is deferred.\<close>

definition post_suffix :: "(('c, 'u) runner_world \<Rightarrow> bool)
    \<Rightarrow> (nat \<Rightarrow> StagedOperationReceipt \<Rightarrow> (('c, 'u) runner_world, StagedOperationReceipt) call)
    \<Rightarrow> (StagedOperationReceipt \<Rightarrow> (('c, 'u) runner_world, StagedOperationReceipt) call)
    \<Rightarrow> (StagedOperationReceipt \<Rightarrow> (('c, 'u) runner_world, ObservationStageRunReceipt) call)
    \<Rightarrow> (ObservationStageRunReceipt \<Rightarrow> (('c, 'u) runner_world, EvaluationStageRunReceipt) call)
    \<Rightarrow> nat \<Rightarrow> StagedOperationReceipt \<Rightarrow> PostRuntimeOrchestrationReceipt
    \<Rightarrow> (('c, 'u) runner_world, PostRuntimeOrchestrationReceipt) call" where
  "post_suffix cancelled registration applications observation evidence h r1 =
     post_check cancelled (postRuntimeStageOrder ! 1) (
     post_stage (postRuntimeStageOrder ! 1) StagedReceiptFormat staged_run (registration h r1) (\<lambda>r2.
     post_check cancelled (postRuntimeStageOrder ! 2) (
     post_stage (postRuntimeStageOrder ! 2) StagedReceiptFormat staged_run (applications r2) (\<lambda>r3.
     post_check cancelled (postRuntimeStageOrder ! 3) (
     post_stage (postRuntimeStageOrder ! 3) ObservationStageReceiptFormat read_stage_run (observation r3) (\<lambda>r4.
     post_check cancelled (postRuntimeStageOrder ! 4) (
     post_stage (postRuntimeStageOrder ! 4) EvaluationStageReceiptFormat read_stage_run (evidence r4) (\<lambda>r5 receipt w.
       ((receipt\<lparr>pn_State := ''SUCCEEDED''\<rparr>, None), w)))))))))"

definition PostRuntimeOrchestration_Run :: "(('c, 'u) runner_world \<Rightarrow> bool)
    \<Rightarrow> (('c, 'u) runner_world) PostRuntimeOrchestration
    \<Rightarrow> (('c, 'u) runner_world, PostRuntimeOrchestrationReceipt) call" where
  "PostRuntimeOrchestration_Run cancelled orchestration w =
     (case (RunTargetCredential orchestration, RunTargetRegistration orchestration,
            RunPlatformApplications orchestration, RunPlatformObservation orchestration,
            RunAggregateEvidence orchestration) of
        (Some credential, Some registration, Some applications, Some observation, Some evidence) \<Rightarrow>
          if cancelled w then (post_refuse ''post-runtime orchestration context is unavailable'', w)
          else (case credential w of (((r1, handoff), runErr), w1) \<Rightarrow>
            (case appendPostRuntimeCheckpoint post_start (postRuntimeStageOrder ! 0) StagedReceiptFormat (staged_run r1) of
              (receipt, appendErr) \<Rightarrow>
               (if appendErr \<noteq> None \<or> runErr \<noteq> None then
                  (stopPostRuntimeOrchestrationWithCause receipt (postRuntimeStageOrder ! 0)
                     (if runErr \<noteq> None then runErr else appendErr), discardTargetCredentialHandoff handoff w1)
                else (case handoff of
                    None \<Rightarrow> (stopPostRuntimeOrchestrationWithCause receipt (postRuntimeStageOrder ! 0)
                      (Some (newFixedRedactedStop ''TARGET_CREDENTIAL_HANDOFF_MISSING'' None)), w1)
                  | Some h \<Rightarrow> (case post_suffix cancelled registration applications observation evidence h r1 receipt w1 of
                      (result, w2) \<Rightarrow> (result, discardTargetCredentialHandoff (Some h) w2))))))
      | _ \<Rightarrow> (post_refuse ''post-runtime orchestration is incomplete'', w))"

section \<open>The full run\<close>

text \<open>
  The receipt of the concrete suffix has the fields of the orchestration's and, beside them, reports of
  resolved authorizations that the full run does not read.
\<close>

type_synonym PostRuntimeExecutionReceipt = PostRuntimeOrchestrationReceipt

record PostRuntimeContinuationBinding =
  cn_Format :: string
  cn_State :: string
  cn_PlanDigest :: string
  cn_Predecessors :: "PreRuntimeStageCheckpoint list"

record 'w PostRuntimeContinuation =
  ContinuationBinding :: "('w, PostRuntimeContinuationBinding) call"
  ContinuationRun :: "('w, PostRuntimeExecutionReceipt) call"

record 'w FullRunOrchestration =
  fo_PreRuntime :: "('w, PreRuntimeOrchestrationReceipt) call option"
  fo_BindPostRuntime :: "(PreRuntimeOrchestrationReceipt \<Rightarrow> ('w, 'w PostRuntimeContinuation option) call) option"
  fo_CompletionMode :: string
  fo_used :: bool

definition nextFullRunStage :: "PreRuntimeStageCheckpoint list \<Rightarrow> string" where
  "nextFullRunStage checkpoints =
     (let index = length checkpoints in
      if index < length preRuntimeStageOrder then preRuntimeStageOrder ! index
      else (let index = index - length preRuntimeStageOrder in
        if index < length postRuntimeStageOrder then postRuntimeStageOrder ! index
        else postRuntimeStageOrder ! (length postRuntimeStageOrder - 1)))"

definition validStoppedStage :: "string list \<Rightarrow> nat \<Rightarrow> string \<Rightarrow> bool" where
  "validStoppedStage order completed stoppedAt =
     (if completed < length order \<and> stoppedAt = order ! completed then True
      else completed > 0 \<and> completed \<le> length order \<and> stoppedAt = order ! (completed - 1))"

definition stopFullRunOrchestration :: "FullRunOrchestrationReceipt \<Rightarrow> string
    \<Rightarrow> FullRunOrchestrationReceipt \<times> stage_error option" where
  "stopFullRunOrchestration receipt stageID =
     (let stageID = (if stageID = '''' then nextFullRunStage (fr_Checkpoints receipt) else stageID) in
      (receipt\<lparr>fr_State := ''STOPPED'', fr_StoppedAt := stageID, fr_StopCategory := ''ORCHESTRATION_STOPPED''\<rparr>,
       Some (Plain (Errf ''full-run orchestration stopped at '' [stageID]))))"

definition stopFullRunOrchestrationWithCategory :: "FullRunOrchestrationReceipt \<Rightarrow> string \<Rightarrow> string \<Rightarrow> stage_error option
    \<Rightarrow> FullRunOrchestrationReceipt \<times> stage_error option" where
  "stopFullRunOrchestrationWithCategory receipt stageID category cause =
     (let stageID = (if stageID = '''' then nextFullRunStage (fr_Checkpoints receipt) else stageID) in
      (receipt\<lparr>fr_State := ''STOPPED'', fr_StoppedAt := stageID,
         fr_StopCategory := if category = '''' then redactedStopCategory cause else category\<rparr>,
       Some (case cause of
           None \<Rightarrow> Plain (Errf ''full-run orchestration stopped at '' [stageID])
         | Some e \<Rightarrow> Wrapped (''full-run orchestration stopped at '' @ stageID) e)))"

definition stopFullRunOrchestrationWithCause :: "FullRunOrchestrationReceipt \<Rightarrow> string \<Rightarrow> stage_error option
    \<Rightarrow> FullRunOrchestrationReceipt \<times> stage_error option" where
  "stopFullRunOrchestrationWithCause receipt stageID cause =
     stopFullRunOrchestrationWithCategory receipt stageID '''' cause"

text \<open>
  The loop over checkpoints: each is appended as it is accepted, so that a rejected one leaves those
  before it in the receipt.
\<close>

fun append_checkpoints :: "string list \<Rightarrow> string \<Rightarrow> PreRuntimeStageCheckpoint list \<Rightarrow> FullRunOrchestrationReceipt
    \<Rightarrow> FullRunOrchestrationReceipt \<times> stage_error option" where
  "append_checkpoints order m [] receipt = (receipt, None)"
| "append_checkpoints [] m (c # cs) receipt = (receipt, Some (Plain (New m)))"
| "append_checkpoints (stage # order) m (c # cs) receipt =
     (if ck_StageID c \<noteq> stage \<or> ck_State c \<noteq> ''COMPLETED_SUCCEEDED'' \<or> \<not> digestPattern (ck_StageReceiptDigest c)
      then (receipt, Some (Plain (New m)))
      else append_checkpoints order m cs (receipt\<lparr>fr_Checkpoints := fr_Checkpoints receipt @ [c]\<rparr>))"

definition appendFullRunPrefix :: "FullRunOrchestrationReceipt \<Rightarrow> PreRuntimeOrchestrationReceipt
    \<Rightarrow> FullRunOrchestrationReceipt \<times> stage_error option" where
  "appendFullRunPrefix receipt prefix =
     (if px_Format prefix \<noteq> PreRuntimeOrchestrationReceiptFormat
         \<or> \<not> oneOf (px_State prefix) [''SUCCEEDED'', ''STOPPED''] \<or> \<not> digestPattern (px_PlanDigest prefix)
         \<or> length (px_Checkpoints prefix) > length preRuntimeStageOrder then
        (receipt, Some (Plain (New ''full-run pre-runtime receipt is invalid'')))
      else if px_State prefix = ''SUCCEEDED''
         \<and> (length (px_Checkpoints prefix) \<noteq> length preRuntimeStageOrder \<or> px_StoppedAt prefix \<noteq> '''') then
        (receipt, Some (Plain (New ''successful full-run prefix is incomplete'')))
      else if px_State prefix = ''STOPPED''
         \<and> \<not> validStoppedStage preRuntimeStageOrder (length (px_Checkpoints prefix)) (px_StoppedAt prefix) then
        (receipt, Some (Plain (New ''stopped full-run prefix is inconsistent'')))
      else if px_State prefix = ''STOPPED''
         \<and> px_StopCategory prefix \<noteq> '''' \<and> \<not> validRedactedStopCategory (px_StopCategory prefix) then
        (receipt, Some (Plain (New ''stopped full-run prefix category is invalid'')))
      else if px_State prefix = ''STOPPED''
         \<and> \<not> validOrchestrationMismatchEvidenceForCategory (px_StopCategory prefix) (px_MismatchEvidence prefix) then
        (receipt, Some (Plain (New ''stopped full-run prefix mismatch evidence is invalid'')))
      else if px_State prefix \<noteq> ''STOPPED'' \<and> px_MismatchEvidence prefix \<noteq> None then
        (receipt, Some (Plain (New ''successful full-run prefix contains mismatch evidence'')))
      else append_checkpoints preRuntimeStageOrder ''full-run pre-runtime checkpoint is invalid'' (px_Checkpoints prefix)
        (receipt\<lparr>fr_PlanDigest := px_PlanDigest prefix,
           fr_MismatchEvidence := cloneOrchestrationMismatchEvidence (px_MismatchEvidence prefix)\<rparr>))"

definition appendFullRunSuffix :: "FullRunOrchestrationReceipt \<Rightarrow> PostRuntimeExecutionReceipt
    \<Rightarrow> FullRunOrchestrationReceipt \<times> stage_error option" where
  "appendFullRunSuffix receipt suffix =
     (if pn_Format suffix \<noteq> PostRuntimeExecutionReceiptFormat
         \<or> \<not> oneOf (pn_State suffix) [''SUCCEEDED'', ''STOPPED''] \<or> pn_PlanDigest suffix \<noteq> fr_PlanDigest receipt
         \<or> length (fr_Checkpoints receipt) \<noteq> length preRuntimeStageOrder
         \<or> length (pn_Checkpoints suffix) > length postRuntimeStageOrder then
        (receipt, Some (Plain (New ''full-run post-runtime receipt is invalid'')))
      else if pn_State suffix = ''SUCCEEDED''
         \<and> (length (pn_Checkpoints suffix) \<noteq> length postRuntimeStageOrder \<or> pn_StoppedAt suffix \<noteq> '''') then
        (receipt, Some (Plain (New ''successful full-run suffix is incomplete'')))
      else if pn_State suffix = ''STOPPED''
         \<and> \<not> validStoppedStage postRuntimeStageOrder (length (pn_Checkpoints suffix)) (pn_StoppedAt suffix) then
        (receipt, Some (Plain (New ''stopped full-run suffix is inconsistent'')))
      else if pn_State suffix = ''STOPPED''
         \<and> pn_StopCategory suffix \<noteq> '''' \<and> \<not> validRedactedStopCategory (pn_StopCategory suffix) then
        (receipt, Some (Plain (New ''stopped full-run suffix category is invalid'')))
      else append_checkpoints postRuntimeStageOrder ''full-run post-runtime checkpoint is invalid'' (pn_Checkpoints suffix)
        receipt)"

definition binding_invalid :: "string \<Rightarrow> stage_error" where
  "binding_invalid what = Plain (New (''post-runtime continuation '' @ what @ '' is invalid''))"

fun continuation_predecessors :: "string list \<Rightarrow> Verified list \<Rightarrow> stage_error + PreRuntimeStageCheckpoint list" where
  "continuation_predecessors (stage # order) (verified # prefix) =
     (case Verified_Receipt verified of Inl _ \<Rightarrow> Inl (binding_invalid ''stage'') | Inr r \<Rightarrow>
      (if rc_StageID r \<noteq> stage \<or> rc_State r \<noteq> ''SUCCEEDED'' then Inl (binding_invalid ''stage'')
       else (case Verified_Digest verified of Inl _ \<Rightarrow> Inl (binding_invalid ''digest'') | Inr d \<Rightarrow>
        (if \<not> digestPattern d then Inl (binding_invalid ''digest'')
         else bindE (continuation_predecessors order prefix) (\<lambda>cs.
           Inr (\<lparr>ck_StageID = rc_StageID r, ck_State = ''COMPLETED_SUCCEEDED'', ck_StageReceiptDigest = d\<rparr> # cs))))))"
| "continuation_predecessors _ _ = Inr []"

definition newPostRuntimeContinuationBinding :: "string \<Rightarrow> Verified list
    \<Rightarrow> stage_error + PostRuntimeContinuationBinding" where
  "newPostRuntimeContinuationBinding planDigest prefix =
     (if \<not> digestPattern planDigest \<or> length prefix \<noteq> length preRuntimeStageOrder then Inl (binding_invalid ''prefix'')
      else bindE (continuation_predecessors preRuntimeStageOrder prefix) (\<lambda>cs.
        Inr \<lparr>cn_Format = PostRuntimeContinuationBindingFormat, cn_State = ''VERIFIED'', cn_PlanDigest = planDigest,
          cn_Predecessors = cs\<rparr>))"

definition validatePostRuntimeContinuationBinding ::
  "PreRuntimeOrchestrationReceipt \<Rightarrow> PostRuntimeContinuationBinding \<Rightarrow> stage_error option" where
  "validatePostRuntimeContinuationBinding prefix binding =
     (if cn_Format binding \<noteq> PostRuntimeContinuationBindingFormat \<or> cn_State binding \<noteq> ''VERIFIED''
         \<or> cn_PlanDigest binding \<noteq> px_PlanDigest prefix
         \<or> length (cn_Predecessors binding) \<noteq> length (px_Checkpoints prefix) then
        Some (Plain (New ''post-runtime continuation binding differs from completed prefix''))
      else if list_ex (\<lambda>i. cn_Predecessors binding ! i \<noteq> px_Checkpoints prefix ! i) [0..<length (px_Checkpoints prefix)] then
        Some (Plain (New ''post-runtime continuation predecessor differs from completed prefix''))
      else None)"

definition full_start :: "string \<Rightarrow> FullRunOrchestrationReceipt" where
  "full_start mode = \<lparr>fr_Format = FullRunOrchestrationReceiptFormat, fr_State = ''RUNNING'', fr_PlanDigest = '''',
     fr_CompletionMode = mode, fr_StoppedAt = '''', fr_StopCategory = '''', fr_MismatchEvidence = None,
     fr_Checkpoints = []\<rparr>"

definition full_succeed :: "FullRunOrchestrationReceipt \<Rightarrow> FullRunOrchestrationReceipt \<times> stage_error option" where
  "full_succeed receipt = (receipt\<lparr>fr_State := ''SUCCEEDED''\<rparr>, None)"

text \<open>The last part of \<open>Run\<close>: the continuation, once its binding has been accepted.\<close>

definition full_suffix :: "'w PostRuntimeContinuation \<Rightarrow> FullRunOrchestrationReceipt
    \<Rightarrow> ('w, FullRunOrchestrationReceipt) call" where
  "full_suffix continuation receipt w =
     (case ContinuationRun continuation w of ((suffix, suffixErr), w1) \<Rightarrow>
      (case appendFullRunSuffix receipt suffix of (receipt1, appendErr) \<Rightarrow>
       (if appendErr \<noteq> None then (stopFullRunOrchestration receipt1 (nextFullRunStage (fr_Checkpoints receipt1)), w1)
        else if suffixErr \<noteq> None \<or> pn_State suffix \<noteq> ''SUCCEEDED'' then
          (stopFullRunOrchestrationWithCategory receipt1 (pn_StoppedAt suffix) (pn_StopCategory suffix) suffixErr, w1)
        else (full_succeed receipt1, w1))))"

text \<open>Opening the continuation and comparing its binding with the completed prefix.\<close>

definition full_bind :: "('w \<Rightarrow> bool) \<Rightarrow> (PreRuntimeOrchestrationReceipt \<Rightarrow> ('w, 'w PostRuntimeContinuation option) call)
    \<Rightarrow> PreRuntimeOrchestrationReceipt \<Rightarrow> FullRunOrchestrationReceipt \<Rightarrow> ('w, FullRunOrchestrationReceipt) call" where
  "full_bind cancelled opening prefix receipt w =
     (case opening prefix w of ((opened, err), w1) \<Rightarrow>
      (case (err, opened) of
        (None, Some continuation) \<Rightarrow>
         (case ContinuationBinding continuation w1 of ((binding, bindErr), w2) \<Rightarrow>
           (if bindErr \<noteq> None then
              (stopFullRunOrchestrationWithCause receipt (postRuntimeStageOrder ! 0)
                 (Some (newFixedRedactedStop ''CONTINUATION_BINDING_UNAVAILABLE'' bindErr)), w2)
            else (case validatePostRuntimeContinuationBinding prefix binding of
              Some e \<Rightarrow> (stopFullRunOrchestrationWithCause receipt (postRuntimeStageOrder ! 0)
                 (Some (newFixedRedactedStop ''CONTINUATION_BINDING_INVALID'' (Some e))), w2)
            | None \<Rightarrow>
                (if cancelled w2 then (stopFullRunOrchestration receipt (postRuntimeStageOrder ! 0), w2)
                 else full_suffix continuation receipt w2))))
      | _ \<Rightarrow> (stopFullRunOrchestrationWithCause receipt (postRuntimeStageOrder ! 0)
                (Some (redactedStopOrFallback ''POST_RUNTIME_BIND_STOPPED'' err)), w1)))"

text \<open>The prefix, and what its receipt and error lead to.\<close>

definition full_run :: "('w \<Rightarrow> bool) \<Rightarrow> 'w FullRunOrchestration \<Rightarrow> ('w, PreRuntimeOrchestrationReceipt) call
    \<Rightarrow> FullRunOrchestrationReceipt \<Rightarrow> ('w, FullRunOrchestrationReceipt) call" where
  "full_run cancelled orchestration preRuntime receipt w =
     (case preRuntime w of ((prefix, prefixErr), w1) \<Rightarrow>
      (if prefixErr \<noteq> None \<and> px_State prefix = ''STOPPED'' \<and> px_StoppedAt prefix = preRuntimeStageOrder ! 0
          \<and> px_PlanDigest prefix = '''' \<and> length (px_Checkpoints prefix) = 0 then
         (if \<not> validOrchestrationMismatchEvidenceForCategory (px_StopCategory prefix) (px_MismatchEvidence prefix) then
            (stopFullRunOrchestration receipt ''provider-prerequisites'', w1)
          else (stopFullRunOrchestrationWithCategory
              (receipt\<lparr>fr_MismatchEvidence := cloneOrchestrationMismatchEvidence (px_MismatchEvidence prefix)\<rparr>)
              (px_StoppedAt prefix) (px_StopCategory prefix) prefixErr, w1))
       else (case appendFullRunPrefix receipt prefix of (receipt1, appendErr) \<Rightarrow>
        (if appendErr \<noteq> None then (stopFullRunOrchestration receipt1 (nextFullRunStage (fr_Checkpoints receipt1)), w1)
         else if prefixErr \<noteq> None \<or> px_State prefix \<noteq> ''SUCCEEDED'' then
           (stopFullRunOrchestrationWithCategory receipt1 (px_StoppedAt prefix) (px_StopCategory prefix) prefixErr, w1)
         else if cancelled w1 then (stopFullRunOrchestration receipt1 (postRuntimeStageOrder ! 0), w1)
         else if fo_CompletionMode orchestration = CompletionModeBareClusterMVP then (full_succeed receipt1, w1)
         else (case fo_BindPostRuntime orchestration of
             None \<Rightarrow> (stopFullRunOrchestration receipt1 ''provider-prerequisites'', w1)
           | Some opening \<Rightarrow> full_bind cancelled opening prefix receipt1 w1)))))"

text \<open>
  \<open>Run\<close> of the full orchestration (of a nil one, \<open>None\<close>): the orchestration it is called on is marked
  used, which the result carries. The nil case of \<open>BindPostRuntime\<close> in \<open>full_run\<close> is excluded here first.
\<close>

definition FullRunOrchestration_Run :: "('w \<Rightarrow> bool) \<Rightarrow> 'w FullRunOrchestration option
    \<Rightarrow> 'w \<Rightarrow> (FullRunOrchestrationReceipt \<times> stage_error option) \<times> 'w FullRunOrchestration option \<times> 'w" where
  "FullRunOrchestration_Run cancelled orchestration w =
     (case orchestration of
        None \<Rightarrow> (stopFullRunOrchestration (full_start '''') ''provider-prerequisites'', None, w)
      | Some o1 \<Rightarrow>
         (let refuse = stopFullRunOrchestration (full_start (fo_CompletionMode o1)) ''provider-prerequisites'';
              o2 = o1\<lparr>fo_used := True\<rparr> in
          if fo_used o1 then (refuse, Some o1, w)
          else if fo_CompletionMode o1 \<noteq> '''' \<and> fo_CompletionMode o1 \<noteq> CompletionModeBareClusterMVP then (refuse, Some o2, w)
          else (case fo_PreRuntime o1 of None \<Rightarrow> (refuse, Some o2, w)
            | Some preRuntime \<Rightarrow>
               (if fo_CompletionMode o1 = '''' \<and> fo_BindPostRuntime o1 = None then (refuse, Some o2, w)
                else if cancelled w then (refuse, Some o2, w)
                else (case full_run cancelled o1 preRuntime (full_start (fo_CompletionMode o1)) w of
                  (result, w1) \<Rightarrow> (result, Some o2, w1))))))"

end
