(* ===== verification/StopCategoryFacts.thy ===== *)
theory StopCategoryFacts
  imports StopCategory StagedTheorems ReadOnlyFacts "HOL-Library.Sublist"
begin

text \<open>
  What a public receipt may say about a stop: the category computed from any error of a stage is on the
  closed list, and the category and evidence that the staged operation reports pass through unchanged.
\<close>

section \<open>Words at a position\<close>

lemma two_elements:
  assumes "length xs = 2" obtains a b where "xs = [a, b]"
  using assms by (cases xs; cases "tl xs") auto

lemma at_position_iff:
  "at_position ws s \<longleftrightarrow> (\<exists>w\<in>set ws. \<exists>a b. is_digit a \<and> is_digit b \<and> s = w @ ''_AT_'' @ [a, b])"
proof
  assume a: "at_position ws s"
  let ?n = "length s - 6"
  from a have n: "length s = ?n + 6" and w: "take ?n s \<in> set ws" and t: "take 4 (drop ?n s) = ''_AT_''"
    and d: "list_all is_digit (drop 4 (drop ?n s))"
    by (auto simp: at_position_def Let_def)
  have "length (drop 4 (drop ?n s)) = 2" using n by simp
  then obtain a b where ab: "drop 4 (drop ?n s) = [a, b]"
    by (rule two_elements)
  have "s = take ?n s @ take 4 (drop ?n s) @ drop 4 (drop ?n s)"
    by (metis append_take_drop_id)
  then have "s = take ?n s @ ''_AT_'' @ [a, b]" unfolding t ab .
  with w d ab show "\<exists>w\<in>set ws. \<exists>a b. is_digit a \<and> is_digit b \<and> s = w @ ''_AT_'' @ [a, b]" by auto
qed (auto simp: at_position_def)

lemma at_position_mono: "at_position ws s \<Longrightarrow> set ws \<subseteq> set vs \<Longrightarrow> at_position vs s"
  unfolding at_position_iff by blast

lemma contains_iff: "contains s p \<longleftrightarrow> sublist p s"
proof (induction s)
  case (Cons c s)
  have "take (length p) (c # s) = p \<longleftrightarrow> prefix p (c # s)" 
    by (metis append_eq_conv_conj append_take_drop_id prefix_def)
  with Cons show ?case by (simp add: sublist_Cons_right)
qed simp

lemma sublist_snoc_other:
  assumes "sublist p (s @ [a])" and "p \<noteq> []" and "last p \<noteq> a"
  shows "sublist p s"
proof (rule ccontr)
  assume "\<not> sublist p s"
  with assms(1,2) obtain zs where "p = zs @ [a]" by (auto simp: sublist_snoc)
  with assms(3) show False by simp
qed

text \<open>The stop words that do not report an exhausted convergence; the letter X occurs in none of them.\<close>

definition other_stop_words :: "string list" where
  "other_stop_words =
     map ((@) ''SUBMISSION_OBJECT_'')
       (object_mismatch_words @ [''COMPARATOR_INCONSISTENT'', ''RESPONSE_INVALID'', ''PROJECTION_INVALID'',
          ''RUNTIME_IDENTITY_INVALID'', ''TERMINATING''])
     @ map ((@) ''SUBMISSION_CREATE_RESPONSE_'')
       ([''INVALID'', ''RESPONSE_INVALID'', ''PROJECTION_INVALID''] @ tl object_mismatch_words
        @ [''COMPARATOR_INCONSISTENT'', ''RUNTIME_IDENTITY_INVALID''])"

lemma object_stop_words_split:
  "set object_stop_words = set other_stop_words
     \<union> set (map (\<lambda>m. ''SUBMISSION_OBJECT_'' @ m @ ''_CONVERGENCE_EXHAUSTED'') object_mismatch_words)"
  unfolding object_stop_words_def other_stop_words_def by (auto simp only: set_append set_map image_Un image_image)

lemma exhausted_word:
  assumes "w \<in> set object_stop_words" and "is_digit a" "is_digit b"
  shows "contains (w @ ''_AT_'' @ [a, b]) ''_CONVERGENCE_EXHAUSTED_AT_'' \<longleftrightarrow>
    w \<in> set (map (\<lambda>m. ''SUBMISSION_OBJECT_'' @ m @ ''_CONVERGENCE_EXHAUSTED'') object_mismatch_words)"
proof -
  let ?p = "''_CONVERGENCE_EXHAUSTED_AT_''"
  have "CHR ''_'' \<noteq> a" "CHR ''_'' \<noteq> b" using assms(2,3) by (auto simp: is_digit_def)
  then have "sublist ?p (w @ ''_AT_'' @ [a, b]) \<longleftrightarrow> sublist ?p (w @ ''_AT_'')"
    using sublist_snoc_other [of ?p "w @ ''_AT_'' @ [a]" b] sublist_snoc_other [of ?p "w @ ''_AT_''" a]
    by (auto intro: sublist_order.order_trans)
  moreover have "sublist ?p (w @ ''_AT_'')" if "w \<in> set (map (\<lambda>m. ''SUBMISSION_OBJECT_'' @ m @ ''_CONVERGENCE_EXHAUSTED'') object_mismatch_words)"
  proof -
    from that obtain m where "w @ ''_AT_'' = (''SUBMISSION_OBJECT_'' @ m) @ ?p" by auto
    then show ?thesis by (metis sublist_append_leftI sublist_order.order_refl)
  qed
  moreover have "w \<in> set (map (\<lambda>m. ''SUBMISSION_OBJECT_'' @ m @ ''_CONVERGENCE_EXHAUSTED'') object_mismatch_words)"
    if "sublist ?p (w @ ''_AT_'')"
  proof -
    have "CHR ''X'' \<in> set ?p" by simp
    with that have "CHR ''X'' \<in> set (w @ ''_AT_'')" using set_mono_sublist by blast
    then have "CHR ''X'' \<in> set w" by simp
    moreover have "list_all (\<lambda>w. CHR ''X'' \<notin> set w) other_stop_words" by code_simp
    ultimately have "w \<notin> set other_stop_words" unfolding list_all_iff by blast
    moreover from assms(1) have "w \<in> set other_stop_words
      \<or> w \<in> set (map (\<lambda>m. ''SUBMISSION_OBJECT_'' @ m @ ''_CONVERGENCE_EXHAUSTED'') object_mismatch_words)"
      by (simp only: object_stop_words_split Un_iff)
    ultimately show ?thesis by (simp only: simp_thms)
  qed
  ultimately show ?thesis unfolding contains_iff by blast
qed

lemma evidence_required_agrees:
  "submissionObjectOrdinalStopCategoryPattern c \<and> contains c ''_CONVERGENCE_EXHAUSTED_AT_''
   \<longleftrightarrow> submissionMismatchEvidenceRequired c"
proof -
  have sub: "set (map (\<lambda>m. ''SUBMISSION_OBJECT_'' @ m @ ''_CONVERGENCE_EXHAUSTED'') object_mismatch_words)
      \<subseteq> set object_stop_words"
    unfolding object_stop_words_split by (rule Un_upper2)
  show ?thesis
    unfolding submissionObjectOrdinalStopCategoryPattern_def submissionMismatchEvidenceRequired_def
      submissionMismatchEvidenceStopCategoryPattern_def at_position_iff
    using exhausted_word sub by blast
qed

lemma evidence_valid_agrees: "validOrchestrationMismatchEvidence e \<longleftrightarrow> validSubmissionMismatchEvidence e"
  by (auto simp: validOrchestrationMismatchEvidence_def validSubmissionMismatchEvidence_def
      orchestrationMismatchEvidenceCategoryPattern_def submissionMismatchEvidenceCategoryPattern_def split: option.splits)

lemma evidence_for_category:
  "validOrchestrationMismatchEvidenceForCategory c e \<longleftrightarrow>
     (e \<noteq> None) = submissionMismatchEvidenceRequired c \<and> validSubmissionMismatchEvidence e"
  by (simp add: validOrchestrationMismatchEvidenceForCategory_def evidence_required_agrees evidence_valid_agrees)

section \<open>Categories\<close>

text \<open>The states with which an observation stage reports an outcome other than success.\<close>

definition terminal_observation :: "stage_error \<Rightarrow> bool" where
  "terminal_observation e \<longleftrightarrow> as_observation_result e \<in> {None, Some ''COMPLETED_FAILED'', Some ''COMPLETED_STOPPED''}"

lemma literal_categories_valid:
  "validRedactedStopCategory ''ORCHESTRATION_STOPPED''" "validRedactedStopCategory ''STAGE_EXECUTION_ERROR''"
  "validRedactedStopCategory ''OBSERVATION_COMPLETED_FAILED''" "validRedactedStopCategory ''OBSERVATION_COMPLETED_STOPPED''"
  "set passed_on_categories \<subseteq> set valid_stop_categories"
  "set plain_stop_categories \<subseteq> set passed_on_categories"
  by (simp_all only: validRedactedStopCategory_def valid_stop_categories_def passed_on_categories_def
      plain_stop_categories_def list.set insert_subset empty_subsetI insert_iff simp_thms)

lemma redacted_category_valid:
  assumes "\<And>e. cause = Some e \<Longrightarrow> terminal_observation e"
  shows "validRedactedStopCategory (redactedStopCategory cause)"
proof (cases cause)
  case None
  then show ?thesis using literal_categories_valid by (simp add: redactedStopCategory_def)
next
  case (Some e)
  with assms have t: "as_observation_result e \<in> {None, Some ''COMPLETED_FAILED'', Some ''COMPLETED_STOPPED''}"
    by (simp add: terminal_observation_def)
  let ?observed = "case as_observation_result e of Some state \<Rightarrow> ''OBSERVATION_'' @ state | None \<Rightarrow> ''STAGE_EXECUTION_ERROR''"
  have o: "validRedactedStopCategory ?observed" using t literal_categories_valid by auto
  have p: "validRedactedStopCategory c" if "submissionObjectOrdinalStopCategoryPattern c \<or> c \<in> set passed_on_categories" for c
    using that literal_categories_valid(5) by (auto simp: validRedactedStopCategory_def)
  show ?thesis
    unfolding Some redactedStopCategory_def option.case Let_def
    using o p by (cases "as_categorizer e") auto
qed

lemma categories_not_empty: "\<not> validRedactedStopCategory ''''"
  by code_simp

text \<open>A result that the staged operation reports is named by its own category, with its own evidence.\<close>

lemma staged_pair_passes:
  assumes "redacted_pair category evidence"
  shows "redactedStopCategory (Some (Staged (StageResultError st category evidence))) =
      (if category = '''' then ''STAGE_EXECUTION_ERROR'' else category)"
    and "validOrchestrationMismatchEvidenceForCategory
      (if category = '''' then ''STAGE_EXECUTION_ERROR'' else category) evidence"
proof -
  have "\<not> submissionObjectOrdinalStopCategoryPattern ''''" "'''' \<notin> set passed_on_categories"
    "\<not> submissionMismatchEvidenceRequired ''''" "\<not> submissionMismatchEvidenceRequired ''STAGE_EXECUTION_ERROR''"
    by code_simp+
  with assms literal_categories_valid(6) show
    "redactedStopCategory (Some (Staged (StageResultError st category evidence))) =
      (if category = '''' then ''STAGE_EXECUTION_ERROR'' else category)"
    "validOrchestrationMismatchEvidenceForCategory
      (if category = '''' then ''STAGE_EXECUTION_ERROR'' else category) evidence"
    by (auto simp: redactedStopCategory_def redacted_pair_def validStageFailureCategory_def evidence_for_category
        submissionObjectOrdinalStopCategoryPattern_def submissionObjectStopCategoryPattern_def Let_def)
qed

section \<open>The fallbacks\<close>

text \<open>Whatever the cause, each fallback is an error whose category is on its own list.\<close>

lemma fallback_categories:
  "\<exists>c. as_categorizer (postPrefixActivationStopOrFallback e) = Some c
     \<and> (validPostPrefixActivationStopCategory c \<or> c = ''POST_RUNTIME_ACTIVATION_STOPPED'')"
  "\<exists>c. as_categorizer (postPrefixObserverCredentialStopOrFallback e) = Some c
     \<and> (validPostPrefixObserverCredentialStopCategory c \<or> c = ''POST_PREFIX_OBSERVER_CREDENTIAL_STOPPED'')"
  "\<exists>c. as_categorizer (redactedStopOrFallback fallback cause) = Some c
     \<and> (validPostRuntimeBindStopCategory c \<or> validPostPrefixActivationStopCategory c \<or> c = fallback)"
  by (auto simp: postPrefixActivationStopOrFallback_def postPrefixObserverCredentialStopOrFallback_def
      redactedStopOrFallback_def newFixedRedactedStop_def split: option.splits)

lemma literal_fallbacks:
  "set post_prefix_activation_categories \<subseteq> set passed_on_categories"
  "set post_prefix_observer_categories \<subseteq> set post_prefix_activation_categories"
  "set post_runtime_bind_categories \<subseteq> set passed_on_categories"
  "set cluster_lifecycle_open_categories \<subseteq> set passed_on_categories"
  by (simp_all only: post_prefix_activation_categories_def post_prefix_observer_categories_def
      post_runtime_bind_categories_def cluster_lifecycle_open_categories_def passed_on_categories_def
      list.set insert_subset empty_subsetI insert_iff simp_thms)

lemma installer_fallback:
  obtains c where "as_categorizer (postPrefixInstallerCredentialStopOrFallback e) = Some c"
    and "validPostPrefixActivationStopCategory c"
proof -
  have "set [''POST_PREFIX_INSTALLER_CREDENTIAL_ISSUANCE_STOPPED'', ''POST_PREFIX_INSTALLER_CREDENTIAL_TRANSPORT_STOPPED'',
      ''POST_PREFIX_INSTALLER_CREDENTIAL_CONVERGENCE_EXHAUSTED'', ''POST_PREFIX_INSTALLER_CREDENTIAL_RESPONSE_INVALID'',
      ''POST_PREFIX_INSTALLER_CREDENTIAL_CLAIMS_MISMATCH'', ''POST_PREFIX_INSTALLER_CREDENTIAL_MATERIALIZATION_STOPPED'']
      \<subseteq> set post_prefix_activation_categories" (is "?s \<subseteq> _")
    by (simp only: post_prefix_activation_categories_def list.set insert_subset empty_subsetI insert_iff simp_thms)
  moreover obtain c where "as_categorizer (postPrefixInstallerCredentialStopOrFallback e) = Some c" "c \<in> ?s"
  proof (cases "as_categorizer e")
    case None
    with that show thesis by (simp add: postPrefixInstallerCredentialStopOrFallback_def newFixedRedactedStop_def Let_def)
  next
    case (Some a)
    have "\<exists>c. as_categorizer (postPrefixInstallerCredentialStopOrFallback e) = Some c \<and> c \<in> ?s"
      unfolding postPrefixInstallerCredentialStopOrFallback_def newFixedRedactedStop_def Let_def Some option.case
      by (simp only: Some as_categorizer.simps option.inject list.set insert_iff simp_thms split: if_split, blast)
    with that show thesis by blast
  qed
  ultimately show thesis using that by (auto simp: validPostPrefixActivationStopCategory_def)
qed

end
