(* ===== verification/OrchestrationFacts.thy ===== *)
theory OrchestrationFacts
  imports Orchestration StopCategoryFacts
begin

text \<open>
  What holds of every run of the two chains and of the full run, whatever the stages do: the stages are
  called in their order and at most once each, the checkpoints of the receipt are a prefix of that order,
  and the suffix is only entered with exactly the receipts of the completed prefix.
\<close>

section \<open>Chains of stages\<close>

text \<open>
  A journal is read off the world; a call records a name when it appends exactly this name and its own
  error to it. \<open>logged\<close> makes any call record its name, in a journal beside the world.
\<close>

type_synonym journal = "(string \<times> stage_error option) list"

definition records :: "('w \<Rightarrow> journal) \<Rightarrow> string \<Rightarrow> ('w, 'a) call \<Rightarrow> bool" where
  "records journal name run \<longleftrightarrow> (\<forall>w r e w1. run w = ((r, e), w1) \<longrightarrow> journal w1 = journal w @ [(name, e)])"

definition logged :: "string \<Rightarrow> ('w, 'a) call \<Rightarrow> ('w \<times> journal, 'a) call" where
  "logged s run = (\<lambda>(w, l). case run w of ((r, e), w1) \<Rightarrow> ((r, e), w1, l @ [(s, e)]))"

lemma logged_records: "records snd s (logged s run)"
  by (auto simp: records_def logged_def split: prod.splits)

text \<open>The journal after the first \<open>n\<close> stages were called and none of them returned an error.\<close>

definition clean :: "string list \<Rightarrow> nat \<Rightarrow> journal" where
  "clean order n = map (\<lambda>s. (s, None)) (take n order)"

lemma clean_0 [simp]: "clean order 0 = []"
  by (simp add: clean_def)

lemma clean_Suc: "n < length order \<Longrightarrow> clean order (Suc n) = clean order n @ [(order ! n, None)]"
  by (simp add: clean_def take_Suc_conv_app_nth)

text \<open>
  A chain: the receipt that \<open>n\<close> stages have been checkpointed in, and the results that a stop with
  \<open>n\<close> checkpoints and a success may give.
\<close>

locale stage_chain =
  fixes order :: "string list"
    and attach :: "'c \<Rightarrow> string \<Rightarrow> string \<Rightarrow> StageRun \<Rightarrow> 'c \<times> stage_error option"
    and open_at :: "nat \<Rightarrow> 'c \<Rightarrow> bool"
    and stops_as :: "('c \<Rightarrow> string \<Rightarrow> stage_error option \<Rightarrow> 'c \<times> stage_error option) \<Rightarrow> bool"
    and stopped :: "nat \<Rightarrow> 'c \<times> stage_error option \<Rightarrow> bool"
    and succeeded :: "'c \<times> stage_error option \<Rightarrow> bool"
  assumes attached: "open_at n c \<Longrightarrow> n < length order \<Longrightarrow> attach c (order ! n) format run = (c', None) \<Longrightarrow> open_at (Suc n) c'"
    and rejected: "attach c stage format run = (c', Some e) \<Longrightarrow> c' = c"
    and stop_fits: "stops_as halt \<Longrightarrow> open_at n c \<Longrightarrow> validStoppedStage order n stage \<Longrightarrow> stopped n (halt c stage cause)"
begin

definition ends :: "('w \<Rightarrow> journal) \<Rightarrow> ('c \<times> stage_error option) \<times> 'w \<Rightarrow> bool" where
  "ends journal out = (case out of (result, w) \<Rightarrow>
     (\<exists>n. stopped n result \<and> n \<le> length order \<and> journal w = clean order n)
     \<or> (\<exists>n m e. stopped n result \<and> m < length order \<and> (n = m \<or> n = Suc m) \<and> journal w = clean order m @ [(order ! m, e)])
     \<or> succeeded result \<and> journal w = clean order (length order))"

lemma stage_ends:
  assumes "open_at n c" "n < length order" "stops_as halt" "stage = order ! n" "records journal stage run"
    and "journal w = clean order n"
    and "\<And>r c' w'. open_at (Suc n) c' \<Longrightarrow> journal w' = clean order (Suc n) \<Longrightarrow> ends journal (next r c' w')"
  shows "ends journal (chain_stage attach halt stage format view run next c w)"
proof -
  obtain r err w1 where r: "run w = ((r, err), w1)" by (metis prod.exhaust)
  obtain c1 e1 where c: "attach c stage format (view r) = (c1, e1)" by (metis prod.exhaust)
  have j: "journal w1 = clean order n @ [(order ! n, err)]"
    using assms(4,5,6) r by (simp add: records_def)
  have halted: "ends journal (p, w1)" if "stopped k p" "k = n \<or> k = Suc n" for p k
    using that assms(2) j unfolding ends_def by blast
  show ?thesis
  proof (cases e1)
    case None
    with attached [OF assms(1,2)] c assms(4) have o: "open_at (Suc n) c1" by simp
    show ?thesis
    proof (cases err)
      case None
      with \<open>e1 = None\<close> show ?thesis using assms(7) [OF o] j assms(2) by (simp add: chain_stage_def r c clean_Suc)
    next
      case (Some e)
      have "stopped (Suc n) (halt c1 stage (Some e))"
        by (rule stop_fits [OF assms(3) o]) (use assms(2,4) in \<open>auto simp: validStoppedStage_def\<close>)
      then show ?thesis using Some by (simp add: chain_stage_def r c halted)
    qed
  next
    case (Some e)
    with rejected c have "c1 = c" by blast
    moreover have "stopped n (halt c stage cause)" for cause
      by (rule stop_fits [OF assms(3,1)]) (use assms(2,4) in \<open>auto simp: validStoppedStage_def\<close>)
    ultimately have "ends journal (halt c1 stage cause, w1)" for cause by (intro halted [of n]) simp_all
    then show ?thesis using Some by (simp add: chain_stage_def r c)
  qed
qed

lemma check_ends:
  assumes "open_at n c" "n < length order" "stops_as halt" "stage = order ! n" "journal w = clean order n"
    and "ends journal (next c w)"
  shows "ends journal (chain_check cancelled halt stage next c w)"
proof -
  have "stopped n (halt c stage (Some context_canceled))"
    by (rule stop_fits [OF assms(3,1)]) (use assms(2,4) in \<open>auto simp: validStoppedStage_def\<close>)
  with assms(2,5,6) show ?thesis by (cases "cancelled w") (auto simp: chain_check_def ends_def)
qed

lemma ends_journal:
  assumes "ends journal (result, w)"
  shows "map fst (journal w) = take (length (journal w)) order" "length (journal w) \<le> length order"
    "list_all (\<lambda>c. snd c = None) (butlast (journal w))"
    "(\<exists>n. stopped n result \<and> n \<le> length (journal w) \<and> length (journal w) \<le> Suc n)
       \<or> succeeded result \<and> journal w = clean order (length order)"
  using assms unfolding ends_def clean_def
  by (auto simp: comp_def list_all_iff take_Suc_conv_app_nth dest: in_set_butlastD)

lemma ends_halted:
  "stopped k result \<Longrightarrow> k = m \<or> k = Suc m \<Longrightarrow> m < length order \<Longrightarrow> journal w = clean order m @ [(order ! m, e)]
     \<Longrightarrow> ends journal (result, w)"
  unfolding ends_def by blast

lemma ends_refused: "stopped 0 result \<Longrightarrow> journal w = [] \<Longrightarrow> ends journal (result, w)"
  unfolding ends_def by (auto intro!: exI [of _ 0])

end

section \<open>Checkpoints\<close>

definition checkpoints_in :: "string list \<Rightarrow> PreRuntimeStageCheckpoint list \<Rightarrow> bool" where
  "checkpoints_in order cs \<longleftrightarrow> length cs \<le> length order \<and> map ck_StageID cs = take (length cs) order
     \<and> list_all (\<lambda>c. ck_State c = ''COMPLETED_SUCCEEDED'' \<and> digestPattern (ck_StageReceiptDigest c)) cs"

lemma checkpoints_in_Nil [simp]: "checkpoints_in order []"
  by (simp add: checkpoints_in_def)

lemma checkpoints_in_snoc:
  assumes "checkpoints_in order cs" "length cs < length order" "ck_StageID c = order ! length cs"
    and "ck_State c = ''COMPLETED_SUCCEEDED''" "digestPattern (ck_StageReceiptDigest c)"
  shows "checkpoints_in order (cs @ [c])"
  using assms by (simp add: checkpoints_in_def take_Suc_conv_app_nth)

lemma checkpoints_in_single [simp]:
  "checkpoints_in order [c] \<longleftrightarrow> order \<noteq> [] \<and> ck_StageID c = order ! 0
     \<and> ck_State c = ''COMPLETED_SUCCEEDED'' \<and> digestPattern (ck_StageReceiptDigest c)"
  by (cases order) (auto simp: checkpoints_in_def)

text \<open>A plan digest and the checkpoints made under it: no digest before the first checkpoint.\<close>

definition plan_of :: "string \<Rightarrow> PreRuntimeStageCheckpoint list \<Rightarrow> bool" where
  "plan_of d cs \<longleftrightarrow> (if cs = [] then d = '''' else digestPattern d)"

lemma digest_not_empty: "digestPattern d \<Longrightarrow> d \<noteq> ''''"
  by (auto simp: digest_pattern_def)

text \<open>What an error says about the category of the receipt it comes with.\<close>

definition category_fits :: "string \<Rightarrow> stage_error option \<Rightarrow> bool" where
  "category_fits category err \<longleftrightarrow>
     (\<forall>e. err = Some e \<and> terminal_observation e \<longrightarrow> category = '''' \<or> validRedactedStopCategory category)"

lemma terminal_wrapped [simp]: "terminal_observation (Wrapped m e) = terminal_observation e"
  by (simp add: terminal_observation_def)

lemma terminal_plain [simp]: "terminal_observation (Plain e)"
  by (simp add: terminal_observation_def)


section \<open>Stages 1 to 7\<close>

definition pre_open :: "nat \<Rightarrow> PreRuntimeOrchestrationReceipt \<Rightarrow> bool" where
  "pre_open n c \<longleftrightarrow> px_Format c = PreRuntimeOrchestrationReceiptFormat \<and> px_State c = ''RUNNING'' \<and> px_StoppedAt c = ''''
     \<and> px_StopCategory c = '''' \<and> px_MismatchEvidence c = None \<and> checkpoints_in preRuntimeStageOrder (px_Checkpoints c)
     \<and> length (px_Checkpoints c) = n \<and> plan_of (px_PlanDigest c) (px_Checkpoints c)"

definition pre_stopped :: "nat \<Rightarrow> PreRuntimeOrchestrationReceipt \<times> stage_error option \<Rightarrow> bool" where
  "pre_stopped n p \<longleftrightarrow> (case p of (c, err) \<Rightarrow> px_Format c = PreRuntimeOrchestrationReceiptFormat \<and> px_State c = ''STOPPED''
     \<and> err \<noteq> None \<and> validStoppedStage preRuntimeStageOrder n (px_StoppedAt c)
     \<and> validOrchestrationMismatchEvidenceForCategory (px_StopCategory c) (px_MismatchEvidence c)
     \<and> category_fits (px_StopCategory c) err \<and> checkpoints_in preRuntimeStageOrder (px_Checkpoints c)
     \<and> length (px_Checkpoints c) = n \<and> plan_of (px_PlanDigest c) (px_Checkpoints c))"

definition pre_succeeded :: "PreRuntimeOrchestrationReceipt \<times> stage_error option \<Rightarrow> bool" where
  "pre_succeeded p \<longleftrightarrow> (case p of (c, err) \<Rightarrow> px_Format c = PreRuntimeOrchestrationReceiptFormat \<and> px_State c = ''SUCCEEDED''
     \<and> err = None \<and> px_StoppedAt c = '''' \<and> px_StopCategory c = '''' \<and> px_MismatchEvidence c = None
     \<and> checkpoints_in preRuntimeStageOrder (px_Checkpoints c)
     \<and> length (px_Checkpoints c) = length preRuntimeStageOrder \<and> plan_of (px_PlanDigest c) (px_Checkpoints c))"

lemma orders: "length preRuntimeStageOrder = 7" "length postRuntimeStageOrder = 5"
  by (simp_all add: preRuntimeStageOrder_def postRuntimeStageOrder_def)

lemma no_evidence_categories:
  "validOrchestrationMismatchEvidenceForCategory '''' None"
  "validOrchestrationMismatchEvidenceForCategory ''ORCHESTRATION_STOPPED'' None"
  by code_simp+

lemma category_fits_cause:
  "category_fits (redactedStopCategory (Some e)) (Some (Wrapped m e))"
  "category_fits (redactedStopCategory None) err" "category_fits ''ORCHESTRATION_STOPPED'' err"
  using redacted_category_valid [of "Some e"] redacted_category_valid [of None] literal_categories_valid(1)
  by (simp_all add: category_fits_def)

lemma pre_stop_fits:
  assumes "pre_open n c" "validStoppedStage preRuntimeStageOrder n stage"
  shows "pre_stopped n (stopPreRuntimeOrchestration c stage)" (is ?plain)
    and "pre_stopped n (stopPreRuntimeOrchestrationWithCause c stage cause)" (is ?with_cause)
proof -
  show ?plain using assms no_evidence_categories
    by (simp add: pre_open_def pre_stopped_def stopPreRuntimeOrchestration_def category_fits_cause)
  show ?with_cause
  proof (cases cause)
    case None
    then show ?thesis using assms
      by (auto simp: pre_open_def pre_stopped_def stopPreRuntimeOrchestrationWithCause_def category_fits_cause
          no_evidence_categories Let_def)
  next
    case (Some e)
    then show ?thesis using assms
      by (auto simp: pre_open_def pre_stopped_def stopPreRuntimeOrchestrationWithCause_def category_fits_cause
          no_evidence_categories Let_def)
  qed
qed

lemma pre_attached:
  assumes "pre_open n c" "n < length preRuntimeStageOrder"
    and "appendPreRuntimeCheckpoint c (preRuntimeStageOrder ! n) format run = (c', None)"
  shows "pre_open (Suc n) c'"
  using assms unfolding appendPreRuntimeCheckpoint_def
  by (auto simp: pre_open_def plan_of_def intro!: checkpoints_in_snoc split: if_splits)

interpretation pre_chain: stage_chain preRuntimeStageOrder appendPreRuntimeCheckpoint pre_open
  "\<lambda>halt. \<exists>with_cause. halt = pre_stop with_cause" pre_stopped pre_succeeded
proof
  show "pre_open (Suc n) c'" if "pre_open n c" "n < length preRuntimeStageOrder"
    "appendPreRuntimeCheckpoint c (preRuntimeStageOrder ! n) format run = (c', None)" for n c c' format run
    using pre_attached [OF that] .
  show "c' = c" if "appendPreRuntimeCheckpoint c stage format run = (c', Some e)" for c c' stage format run e
    using that by (auto simp: appendPreRuntimeCheckpoint_def split: if_splits)
  show "pre_stopped n (halt c stage cause)" if "\<exists>with_cause. halt = pre_stop with_cause" "pre_open n c"
    "validStoppedStage preRuntimeStageOrder n stage" for halt n c stage cause
    using that pre_stop_fits by (auto simp: pre_stop_def)
qed

text \<open>The orchestration with a journal of its calls.\<close>

definition logged_pre :: "'w PreRuntimeOrchestration \<Rightarrow> ('w \<times> journal) PreRuntimeOrchestration" where
  "logged_pre orchestration =
     \<lparr>RunProviderPrerequisites = map_option (logged ''provider-prerequisites'') (RunProviderPrerequisites orchestration),
      RunClusterLifecycle = map_option ((\<circ>) (logged ''cluster-lifecycle'')) (RunClusterLifecycle orchestration),
      RunLifecycleObservation = map_option ((\<circ>) (logged ''lifecycle-observation'')) (RunLifecycleObservation orchestration),
      RunEnablement = map_option ((\<circ>) (logged ''enablement'')) (RunEnablement orchestration),
      RunNetworkObservation = map_option ((\<circ>) (logged ''network-observation'')) (RunNetworkObservation orchestration),
      RunRuntimeBinding = map_option ((\<circ>) (logged ''runtime-binding'')) (RunRuntimeBinding orchestration),
      RunTargetAccess = map_option ((\<circ>) (logged ''target-access'')) (RunTargetAccess orchestration)\<rparr>"

lemma pre_names: "preRuntimeStageOrder ! 0 = ''provider-prerequisites''" "preRuntimeStageOrder ! 1 = ''cluster-lifecycle''"
  "preRuntimeStageOrder ! 2 = ''lifecycle-observation''" "preRuntimeStageOrder ! 3 = ''enablement''"
  "preRuntimeStageOrder ! 4 = ''network-observation''" "preRuntimeStageOrder ! 5 = ''runtime-binding''"
  "preRuntimeStageOrder ! 6 = ''target-access''"
  by (simp_all add: preRuntimeStageOrder_def)

lemma logged_pre_fields:
  "RunProviderPrerequisites p = Some g1 \<Longrightarrow> RunProviderPrerequisites (logged_pre p) = Some (logged (preRuntimeStageOrder ! 0) g1)"
  "RunClusterLifecycle p = Some g2 \<Longrightarrow> RunClusterLifecycle (logged_pre p) = Some (logged (preRuntimeStageOrder ! 1) \<circ> g2)"
  "RunLifecycleObservation p = Some g3 \<Longrightarrow>
     RunLifecycleObservation (logged_pre p) = Some (logged (preRuntimeStageOrder ! 2) \<circ> g3)"
  "RunEnablement p = Some g4 \<Longrightarrow> RunEnablement (logged_pre p) = Some (logged (preRuntimeStageOrder ! 3) \<circ> g4)"
  "RunNetworkObservation p = Some g5 \<Longrightarrow> RunNetworkObservation (logged_pre p) = Some (logged (preRuntimeStageOrder ! 4) \<circ> g5)"
  "RunRuntimeBinding p = Some g6 \<Longrightarrow> RunRuntimeBinding (logged_pre p) = Some (logged (preRuntimeStageOrder ! 5) \<circ> g6)"
  "RunTargetAccess p = Some g7 \<Longrightarrow> RunTargetAccess (logged_pre p) = Some (logged (preRuntimeStageOrder ! 6) \<circ> g7)"
  by (simp_all add: logged_pre_def pre_names pre_names(2) [unfolded One_nat_def])

lemma pre_refuse_stopped: "pre_stopped 0 (pre_refuse m)"
  by (simp add: pre_refuse_def pre_stopped_def pre_start_def no_evidence_categories category_fits_def plan_of_def
      validStoppedStage_def orders)

definition pre_chained where
  "pre_chained cancelled provider lifecycle lifecycleObservation enablement networkObservation runtimeBinding targetAccess =
     pre_stage True (preRuntimeStageOrder ! 0) StagedReceiptFormat staged_run provider (\<lambda>r1.
     pre_check cancelled (preRuntimeStageOrder ! 1) (
     pre_stage True (preRuntimeStageOrder ! 1) StagedReceiptFormat staged_run (lifecycle r1) (\<lambda>r2.
     pre_check cancelled (preRuntimeStageOrder ! 2) (
     pre_stage False (preRuntimeStageOrder ! 2) ObservationStageReceiptFormat read_stage_run (lifecycleObservation r2) (\<lambda>r3.
     pre_check cancelled (preRuntimeStageOrder ! 3) (
     pre_stage False (preRuntimeStageOrder ! 3) StagedReceiptFormat staged_run (enablement r3) (\<lambda>r4.
     pre_check cancelled (preRuntimeStageOrder ! 4) (
     pre_stage True (preRuntimeStageOrder ! 4) ObservationStageReceiptFormat read_stage_run (networkObservation r4) (\<lambda>r5.
     pre_check cancelled (preRuntimeStageOrder ! 5) (
     pre_stage True (preRuntimeStageOrder ! 5) BindingStageReceiptFormat read_stage_run (runtimeBinding r5) (\<lambda>r6.
     pre_check cancelled (preRuntimeStageOrder ! 6) (
     pre_stage False (preRuntimeStageOrder ! 6) StagedReceiptFormat staged_run (targetAccess r6) (\<lambda>r7 receipt w.
       ((receipt\<lparr>px_State := ''SUCCEEDED''\<rparr>, None), w)))))))))))))) pre_start"

definition pre_missing :: "'w PreRuntimeOrchestration \<Rightarrow> bool" where
  "pre_missing p \<longleftrightarrow> RunProviderPrerequisites p = None \<or> RunClusterLifecycle p = None \<or> RunLifecycleObservation p = None
     \<or> RunEnablement p = None \<or> RunNetworkObservation p = None \<or> RunRuntimeBinding p = None \<or> RunTargetAccess p = None"

lemma pre_run_missing:
  "pre_missing p \<Longrightarrow> PreRuntimeOrchestration_Run cancelled p w = (pre_refuse ''pre-runtime orchestration is incomplete'', w)"
  unfolding PreRuntimeOrchestration_Run_def pre_missing_def by (auto split: option.split)

lemma pre_run_chained:
  assumes "RunProviderPrerequisites p = Some f1" "RunClusterLifecycle p = Some f2" "RunLifecycleObservation p = Some f3"
    "RunEnablement p = Some f4" "RunNetworkObservation p = Some f5" "RunRuntimeBinding p = Some f6" "RunTargetAccess p = Some f7"
  shows "PreRuntimeOrchestration_Run cancelled p w =
    (if cancelled w then (pre_refuse ''pre-runtime orchestration context is unavailable'', w)
     else pre_chained cancelled f1 f2 f3 f4 f5 f6 f7 w)"
  by (simp add: PreRuntimeOrchestration_Run_def pre_chained_def assms)

lemma pre_present:
  assumes "\<not> pre_missing p"
  obtains f1 f2 f3 f4 f5 f6 f7 where "RunProviderPrerequisites p = Some f1" "RunClusterLifecycle p = Some f2"
    "RunLifecycleObservation p = Some f3" "RunEnablement p = Some f4" "RunNetworkObservation p = Some f5"
    "RunRuntimeBinding p = Some f6" "RunTargetAccess p = Some f7"
  using assms unfolding pre_missing_def by auto

lemma logged_run_chained:
  assumes "RunProviderPrerequisites p = Some g1" "RunClusterLifecycle p = Some g2" "RunLifecycleObservation p = Some g3"
    "RunEnablement p = Some g4" "RunNetworkObservation p = Some g5" "RunRuntimeBinding p = Some g6" "RunTargetAccess p = Some g7"
  shows "PreRuntimeOrchestration_Run cancelled (logged_pre p) u =
    (if cancelled u then (pre_refuse ''pre-runtime orchestration context is unavailable'', u)
     else pre_chained cancelled (logged (preRuntimeStageOrder ! 0) g1)
        (logged (preRuntimeStageOrder ! 1) \<circ> g2) (logged (preRuntimeStageOrder ! 2) \<circ> g3)
        (logged (preRuntimeStageOrder ! 3) \<circ> g4) (logged (preRuntimeStageOrder ! 4) \<circ> g5)
        (logged (preRuntimeStageOrder ! 5) \<circ> g6) (logged (preRuntimeStageOrder ! 6) \<circ> g7) u)"
  by (rule pre_run_chained)
    (rule logged_pre_fields, rule assms)+

lemma logged_pre_missing: "pre_missing (logged_pre p) = pre_missing p"
  by (simp add: pre_missing_def logged_pre_def)

lemma pre_run_ends: "pre_chain.ends snd (PreRuntimeOrchestration_Run cancelled (logged_pre orchestration) (w, []))"
proof -
  have start: "pre_open 0 pre_start" by (simp add: pre_open_def pre_start_def plan_of_def)
  have refuse: "pre_chain.ends snd (pre_refuse m, w, [])" for m
    by (rule pre_chain.ends_refused [OF pre_refuse_stopped]) simp
  have stage: "pre_chain.ends snd (pre_stage b (preRuntimeStageOrder ! i) format view
      (logged (preRuntimeStageOrder ! i) run) next c u)"
    if "pre_open n c" "n < 7" "i = n" "snd u = clean preRuntimeStageOrder n"
      "\<And>r c' w'. pre_open (Suc n) c' \<Longrightarrow> snd w' = clean preRuntimeStageOrder (Suc n) \<Longrightarrow> pre_chain.ends snd (next r c' w')"
    for b format view and run :: "('w, 'r) call" and "next" c u n i
    unfolding pre_stage_def that(3)
    by (rule pre_chain.stage_ends [OF that(1)]) (use that orders logged_records in auto)
  have check: "pre_chain.ends snd (pre_check cancelled (preRuntimeStageOrder ! i) next c u)"
    if "pre_open n c" "n < 7" "i = n" "snd u = clean preRuntimeStageOrder n"
      "pre_chain.ends snd (next c u)" for "next" c u n i
    unfolding pre_check_def that(3)
    by (rule pre_chain.check_ends [OF that(1)]) (use that orders in auto)
  have succeed: "pre_chain.ends snd ((c\<lparr>px_State := ''SUCCEEDED''\<rparr>, None), u)"
    if "pre_open n c" "n = 7" "snd u = clean preRuntimeStageOrder n" for c u n
    using that by (auto simp: pre_chain.ends_def pre_succeeded_def pre_open_def orders)
  show ?thesis
  proof (cases "pre_missing orchestration")
    case True
    then show ?thesis using refuse by (simp add: pre_run_missing logged_pre_missing)
  next
    case False
    then obtain g1 g2 g3 g4 g5 g6 g7 where g: "RunProviderPrerequisites orchestration = Some g1"
      "RunClusterLifecycle orchestration = Some g2" "RunLifecycleObservation orchestration = Some g3"
      "RunEnablement orchestration = Some g4" "RunNetworkObservation orchestration = Some g5"
      "RunRuntimeBinding orchestration = Some g6" "RunTargetAccess orchestration = Some g7"
      by (rule pre_present)
    have "pre_chain.ends snd (pre_chained cancelled (logged (preRuntimeStageOrder ! 0) g1)
        (logged (preRuntimeStageOrder ! 1) \<circ> g2) (logged (preRuntimeStageOrder ! 2) \<circ> g3)
        (logged (preRuntimeStageOrder ! 3) \<circ> g4) (logged (preRuntimeStageOrder ! 4) \<circ> g5)
        (logged (preRuntimeStageOrder ! 5) \<circ> g6) (logged (preRuntimeStageOrder ! 6) \<circ> g7) (w, []))"
      unfolding pre_chained_def o_apply
      by (rule stage [OF start], simp, simp, simp)
        ((rule check stage, assumption, simp, simp, assumption)+, rule succeed, assumption, simp, assumption)
    then show ?thesis
      using refuse by (simp only: logged_run_chained [OF g] if_split_eq1 split: if_split) simp
  qed
qed

text \<open>The journal is a ghost: the run with it returns what the run without it returns.\<close>

definition same_run :: "('a \<times> 'w \<times> journal) \<Rightarrow> 'a \<times> 'w \<Rightarrow> bool" where
  "same_run out out' \<longleftrightarrow> fst out = fst out' \<and> fst (snd out) = snd out'"

lemma same_stage:
  assumes "\<And>r c w l. same_run (next r c (w, l)) (next' r c w)"
  shows "same_run (chain_stage attach halt stage format view (logged s run) next c (w, l))
    (chain_stage attach halt stage format view run next' c w)"
  using assms by (auto simp: chain_stage_def logged_def same_run_def split: prod.splits)

lemma same_check:
  assumes "same_run (next c (w, l)) (next' c w)"
  shows "same_run (chain_check (\<lambda>u. cancelled (fst u)) halt stage next c (w, l)) (chain_check cancelled halt stage next' c w)"
  using assms by (simp add: chain_check_def same_run_def)

lemma logged_pre_same:
  "same_run (PreRuntimeOrchestration_Run (\<lambda>u. cancelled (fst u)) (logged_pre orchestration) (w, l))
     (PreRuntimeOrchestration_Run cancelled orchestration w)"
proof (cases "pre_missing orchestration")
  case True
  then show ?thesis by (simp add: pre_run_missing logged_pre_missing same_run_def)
next
  case False
  then obtain g1 g2 g3 g4 g5 g6 g7 where g: "RunProviderPrerequisites orchestration = Some g1"
    "RunClusterLifecycle orchestration = Some g2" "RunLifecycleObservation orchestration = Some g3"
    "RunEnablement orchestration = Some g4" "RunNetworkObservation orchestration = Some g5"
    "RunRuntimeBinding orchestration = Some g6" "RunTargetAccess orchestration = Some g7"
    by (rule pre_present)
  have "same_run (pre_chained (\<lambda>u. cancelled (fst u)) (logged (preRuntimeStageOrder ! 0) g1)
      (logged (preRuntimeStageOrder ! 1) \<circ> g2) (logged (preRuntimeStageOrder ! 2) \<circ> g3)
      (logged (preRuntimeStageOrder ! 3) \<circ> g4) (logged (preRuntimeStageOrder ! 4) \<circ> g5)
      (logged (preRuntimeStageOrder ! 5) \<circ> g6) (logged (preRuntimeStageOrder ! 6) \<circ> g7) (w, l))
    (pre_chained cancelled g1 g2 g3 g4 g5 g6 g7 w)"
    unfolding pre_chained_def pre_stage_def pre_check_def o_apply
    by (rule same_stage same_check)+ (simp add: same_run_def)
  then show ?thesis
    by (cases "cancelled w") (simp_all add: logged_run_chained [OF g] pre_run_chained [OF g] same_run_def)
qed

lemma pre_run_result:
  "(\<exists>n. pre_stopped n (fst (PreRuntimeOrchestration_Run cancelled orchestration w)))
   \<or> pre_succeeded (fst (PreRuntimeOrchestration_Run cancelled orchestration w))"
  using pre_run_ends [of "\<lambda>u. cancelled (fst u)" orchestration w] logged_pre_same [of cancelled orchestration w "[]"]
  by (auto simp: pre_chain.ends_def same_run_def split: prod.splits)

section \<open>The properties of the prefix\<close>

text \<open>
  C6: the seven stages before the runtime are called in their order and at most once each, and the
  first error is the last call. Whatever the stages do and whenever the context ends, the calls are an
  initial part of the fixed order and none but the last returned an error; the receipt holds a checkpoint
  for every called stage but possibly the last, in the same order and each with a canonical digest; the run
  reports success exactly without an error, after seven calls without one, and any other run is stopped at
  the stage after its checkpoints or at the last one of them.
\<close>

theorem pre_runtime_in_order:
  "case PreRuntimeOrchestration_Run cancelled (logged_pre orchestration) (w, []) of ((receipt, err), _, calls) \<Rightarrow>
     map fst calls = take (length calls) preRuntimeStageOrder \<and> length calls \<le> 7
     \<and> list_all (\<lambda>c. snd c = None) (butlast calls)
     \<and> checkpoints_in preRuntimeStageOrder (px_Checkpoints receipt)
     \<and> length (px_Checkpoints receipt) \<le> length calls \<and> length calls \<le> Suc (length (px_Checkpoints receipt))
     \<and> plan_of (px_PlanDigest receipt) (px_Checkpoints receipt)
     \<and> (if err = None then px_State receipt = ''SUCCEEDED'' \<and> length (px_Checkpoints receipt) = 7
          \<and> list_all (\<lambda>c. snd c = None) calls
        else px_State receipt = ''STOPPED''
          \<and> validStoppedStage preRuntimeStageOrder (length (px_Checkpoints receipt)) (px_StoppedAt receipt))"
proof (cases "PreRuntimeOrchestration_Run cancelled (logged_pre orchestration) (w, [])")
  case (fields result w' calls)
  have "pre_chain.ends snd (result, w', calls)" using pre_run_ends [of cancelled orchestration w] fields by simp
  note j = pre_chain.ends_journal [OF this, unfolded snd_conv orders]
  from j(4) show ?thesis
    using j(1-3) by (cases result) (auto simp: fields pre_stopped_def pre_succeeded_def clean_def orders list_all_iff)
qed

text \<open>
  What the staged operation reports reaches the public receipt unchanged. When a staged run ended in
  a durable result other than success, stopping the orchestration with its error keeps the category of the
  result (or says \<open>STAGE_EXECUTION_ERROR\<close> when it has none) and its mismatch evidence, and never takes the
  branch for invalid evidence.
\<close>

theorem staged_stop_passes:
  assumes "StagedOperation_Run (operation_of store m clock) plan cursor g w = ((r, Some e), w')"
    and "e = StageResultError st category evidence"
  shows "\<exists>stopped. stopPreRuntimeOrchestrationWithCause receipt stage (Some (Staged e))
      = (stopped, Some (Wrapped (''pre-runtime orchestration stopped at '' @ stage) (Staged e)))
    \<and> px_State stopped = ''STOPPED'' \<and> px_StoppedAt stopped = stage
    \<and> px_StopCategory stopped = (if category = '''' then ''STAGE_EXECUTION_ERROR'' else category)
    \<and> px_MismatchEvidence stopped = evidence"
proof -
  have "redacted_pair category evidence"
    using run_typed [OF assms(1)] assms(2) by (auto simp: receipt_type_def)
  from staged_pair_passes [OF this] show ?thesis
    by (simp add: stopPreRuntimeOrchestrationWithCause_def assms(2) Let_def)
qed

text \<open>A run whose mutator gives up on an object that never matched, with the evidence of five looks.\<close>

definition exhausted_evidence :: SubmissionMismatchEvidence where
  "exhausted_evidence = \<lparr>me_FirstCategory = ''SUBMISSION_OBJECT_MISMATCH'', me_LastCategory = ''SUBMISSION_OBJECT_SPEC_MISMATCH'',
     me_ObservationCount = 5, me_ExpectedDigest = sample_digest CHR ''c'', me_LastObservedDigest = sample_digest CHR ''d'',
     me_RuntimeIdentityStable = True\<rparr>"

definition exhausted_result :: StageMutationResult where
  "exhausted_result = sample_result\<lparr>ms_Outcome := ''STOPPED'',
     ms_FailureCategory := ''SUBMISSION_OBJECT_SPEC_MISMATCH_CONVERGENCE_EXHAUSTED_AT_03'',
     ms_MismatchEvidence := Some exhausted_evidence\<rparr>"

definition exhausted_mutator :: "(disk \<times> time) StageMutator" where
  "exhausted_mutator = \<lparr>mu_Binding = mutation_binding (vg_binding sample_grant),
     mu_Mutate = (\<lambda>req w. ((exhausted_result, None), (fst w, snd w + minute)))\<rparr>"

lemma exhausted_valid: "validateStageMutationResult ''provider-prerequisites'' exhausted_result None = Inr ()"
  by code_simp

lemma exhausted_run:
  "\<exists>receipt w'. StagedOperation_Run (operation_of (on_fst (ledger ''/l'')) exhausted_mutator (outside_clock (\<lambda>x. x)))
      sample_binding sample_cursor sample_grant (empty_disk, minute)
    = ((receipt, Some (StageResultError ''COMPLETED_STOPPED'' (ms_FailureCategory exhausted_result) (Some exhausted_evidence))), w')"
proof -
  note f = sample_run_facts
  have m: "mu_Binding exhausted_mutator = mutation_binding (vg_binding sample_grant)"
    "\<forall>d. mu_Mutate exhausted_mutator (mutation_request sample_binding sample_next sample_grant
      (vg_binding sample_grant) (sample_claim_at minute)) (d, minute) = ((exhausted_result, None), (d, 2 * minute))"
    by (simp_all add: exhausted_mutator_def)
  obtain k where k: "stageReceiptKey sample_binding ''provider-prerequisites'' = Inr k" using sample_slot by blast
  from run_completes [where root = "''/l''", OF sample_verified(1) sample_identity sample_no_recovery f(1,2) sample_grant_verified
      sample_selects m(1) sample_at(1) f(4) refl m(2) exhausted_valid sample_at(2) f(9) empty_disk_facts(1) f(7,3,10) k
      empty_disk_facts(2)]
  show ?thesis by (auto simp: exhausted_result_def)
qed

lemma staged_stop_passes_witness:
  "\<exists>stopped. stopPreRuntimeOrchestrationWithCause pre_start ''provider-prerequisites''
      (Some (Staged (StageResultError ''COMPLETED_STOPPED'' (ms_FailureCategory exhausted_result) (Some exhausted_evidence))))
      = (stopped, Some (Wrapped (''pre-runtime orchestration stopped at '' @ ''provider-prerequisites'')
          (Staged (StageResultError ''COMPLETED_STOPPED'' (ms_FailureCategory exhausted_result) (Some exhausted_evidence)))))
    \<and> px_StopCategory stopped = ''SUBMISSION_OBJECT_SPEC_MISMATCH_CONVERGENCE_EXHAUSTED_AT_03''
    \<and> px_MismatchEvidence stopped = Some exhausted_evidence"
proof -
  have c: "ms_FailureCategory exhausted_result = ''SUBMISSION_OBJECT_SPEC_MISMATCH_CONVERGENCE_EXHAUSTED_AT_03''"
    by (simp add: exhausted_result_def)
  obtain receipt w' where r: "StagedOperation_Run (operation_of (on_fst (ledger ''/l'')) exhausted_mutator (outside_clock (\<lambda>x. x)))
      sample_binding sample_cursor sample_grant (empty_disk, minute)
    = ((receipt, Some (StageResultError ''COMPLETED_STOPPED'' (ms_FailureCategory exhausted_result) (Some exhausted_evidence))), w')"
    using exhausted_run by blast
  from staged_stop_passes [OF r refl, of pre_start "''provider-prerequisites''"] c show ?thesis by auto
qed

end
