(* ===== verification/FullRunFacts.thy ===== *)
theory FullRunFacts
  imports OrchestrationFacts
begin

text \<open>
  The full run: which receipts of a prefix it accepts, what its own receipt may say, when it enters the
  suffix, and that it runs once.
\<close>

section \<open>Appending checkpoints\<close>

lemma checkpoints_in_Cons:
  "checkpoints_in (s # order) (c # cs) \<longleftrightarrow> ck_StageID c = s \<and> ck_State c = ''COMPLETED_SUCCEEDED''
     \<and> digestPattern (ck_StageReceiptDigest c) \<and> checkpoints_in order cs"
  by (auto simp: checkpoints_in_def)

lemma checkpoints_in_append:
  assumes "checkpoints_in order cs" "length cs = length order" "checkpoints_in order' cs'"
  shows "checkpoints_in (order @ order') (cs @ cs')"
  using assms by (simp add: checkpoints_in_def)

lemma checkpoints_in_longer: "checkpoints_in order cs \<Longrightarrow> checkpoints_in (order @ order') cs"
  by (simp add: checkpoints_in_def)

lemma append_checkpoints_cases:
  assumes "append_checkpoints order m cs r = (r', e)"
  obtains k where "r' = r\<lparr>fr_Checkpoints := fr_Checkpoints r @ take k cs\<rparr>" "k \<le> length cs" "checkpoints_in order (take k cs)"
    "e = None \<longleftrightarrow> checkpoints_in order cs" "e = None \<Longrightarrow> k = length cs" "e = None \<or> e = Some (Plain (New m))"
proof -
  from assms have "\<exists>k. r' = r\<lparr>fr_Checkpoints := fr_Checkpoints r @ take k cs\<rparr> \<and> k \<le> length cs \<and> checkpoints_in order (take k cs)
    \<and> (e = None \<longleftrightarrow> checkpoints_in order cs) \<and> (e = None \<longrightarrow> k = length cs) \<and> (e = None \<or> e = Some (Plain (New m)))"
  proof (induction order m cs r rule: append_checkpoints.induct)
    case (1 order m receipt)
    then show ?case by (intro exI [of _ 0]) auto
  next
    case (2 m c cs receipt)
    then show ?case by (intro exI [of _ 0]) (auto simp: checkpoints_in_def)
  next
    case (3 stage order m c cs receipt)
    show ?case
    proof (cases "ck_StageID c \<noteq> stage \<or> ck_State c \<noteq> ''COMPLETED_SUCCEEDED'' \<or> \<not> digestPattern (ck_StageReceiptDigest c)")
      case True
      with "3.prems" have "r' = receipt" "e = Some (Plain (New m))" by auto
      with True show ?thesis by (intro exI [of _ 0]) (auto simp: checkpoints_in_Cons)
    next
      case False
      with "3.prems" have "append_checkpoints order m cs (receipt\<lparr>fr_Checkpoints := fr_Checkpoints receipt @ [c]\<rparr>) = (r', e)"
        by simp
      from "3.IH" [OF False this] obtain k where
        "r' = receipt\<lparr>fr_Checkpoints := fr_Checkpoints receipt @ take (Suc k) (c # cs)\<rparr>" "k \<le> length cs"
        "checkpoints_in order (take k cs)" "e = None \<longleftrightarrow> checkpoints_in order cs" "e = None \<longrightarrow> k = length cs"
        "e = None \<or> e = Some (Plain (New m))" by auto
      with False show ?thesis by (intro exI [of _ "Suc k"]) (auto simp: checkpoints_in_Cons)
    qed
  qed
  with that show thesis by blast
qed

lemma append_checkpoints_all:
  "checkpoints_in order cs \<Longrightarrow>
     append_checkpoints order m cs r = (r\<lparr>fr_Checkpoints := fr_Checkpoints r @ cs\<rparr>, None)"
  by (cases "append_checkpoints order m cs r") (auto elim!: append_checkpoints_cases)

lemma prefix_appended_cases:
  assumes "appendFullRunPrefix receipt pfx = (receipt1, e)"
  obtains (rejected) "receipt1 = receipt" "e \<noteq> None"
  | (taken) k where "receipt1 = receipt\<lparr>fr_PlanDigest := px_PlanDigest pfx,
        fr_MismatchEvidence := px_MismatchEvidence pfx,
        fr_Checkpoints := fr_Checkpoints receipt @ take k (px_Checkpoints pfx)\<rparr>"
      "digestPattern (px_PlanDigest pfx)" "checkpoints_in preRuntimeStageOrder (take k (px_Checkpoints pfx))"
      "e = None \<Longrightarrow> k = length (px_Checkpoints pfx)"
      "px_State pfx \<in> {''SUCCEEDED'', ''STOPPED''}"
      "px_State pfx = ''SUCCEEDED'' \<Longrightarrow> length (px_Checkpoints pfx) = 7 \<and> px_StoppedAt pfx = ''''
         \<and> px_MismatchEvidence pfx = None"
      "px_State pfx = ''STOPPED'' \<Longrightarrow> validStoppedStage preRuntimeStageOrder (length (px_Checkpoints pfx)) (px_StoppedAt pfx)
         \<and> (px_StopCategory pfx = '''' \<or> validRedactedStopCategory (px_StopCategory pfx))
         \<and> validOrchestrationMismatchEvidenceForCategory (px_StopCategory pfx) (px_MismatchEvidence pfx)"
proof -
  note a = assms [unfolded appendFullRunPrefix_def oneOf_def cloneOrchestrationMismatchEvidence_def orders]
  show thesis
  proof (cases "append_checkpoints preRuntimeStageOrder ''full-run pre-runtime checkpoint is invalid'' (px_Checkpoints pfx)
      (receipt\<lparr>fr_PlanDigest := px_PlanDigest pfx, fr_MismatchEvidence := px_MismatchEvidence pfx\<rparr>) = (receipt1, e)
    \<and> digestPattern (px_PlanDigest pfx) \<and> px_State pfx \<in> {''SUCCEEDED'', ''STOPPED''}
    \<and> (px_State pfx = ''SUCCEEDED'' \<longrightarrow> length (px_Checkpoints pfx) = 7 \<and> px_StoppedAt pfx = ''''
         \<and> px_MismatchEvidence pfx = None)
    \<and> (px_State pfx = ''STOPPED'' \<longrightarrow> validStoppedStage preRuntimeStageOrder (length (px_Checkpoints pfx)) (px_StoppedAt pfx)
         \<and> (px_StopCategory pfx = '''' \<or> validRedactedStopCategory (px_StopCategory pfx))
         \<and> validOrchestrationMismatchEvidenceForCategory (px_StopCategory pfx) (px_MismatchEvidence pfx))")
    case True
    then show thesis
      by (elim conjE append_checkpoints_cases) (rule taken, simp_all)
  next
    case False
    with a show thesis by (intro rejected) (auto split: if_splits)
  qed
qed

section \<open>The receipts of the prefix\<close>

text \<open>The early stop: nothing was checkpointed, and the full run takes category and evidence over as they are.\<close>

definition early_stop :: "PreRuntimeOrchestrationReceipt \<Rightarrow> stage_error option \<Rightarrow> bool" where
  "early_stop pfx err \<longleftrightarrow> err \<noteq> None \<and> px_State pfx = ''STOPPED'' \<and> px_StoppedAt pfx = preRuntimeStageOrder ! 0
     \<and> px_PlanDigest pfx = '''' \<and> length (px_Checkpoints pfx) = 0"

lemma stopped_prefix_taken:
  assumes "pre_stopped n (pfx, err)" and "\<And>e. err = Some e \<Longrightarrow> terminal_observation e" and "\<not> early_stop pfx err"
  shows "appendFullRunPrefix receipt pfx = (receipt\<lparr>fr_PlanDigest := px_PlanDigest pfx,
    fr_MismatchEvidence := px_MismatchEvidence pfx, fr_Checkpoints := fr_Checkpoints receipt @ px_Checkpoints pfx\<rparr>, None)"
proof -
  have s: "px_Format pfx = PreRuntimeOrchestrationReceiptFormat" "px_State pfx = ''STOPPED''" "err \<noteq> None"
    "validStoppedStage preRuntimeStageOrder (length (px_Checkpoints pfx)) (px_StoppedAt pfx)"
    "validOrchestrationMismatchEvidenceForCategory (px_StopCategory pfx) (px_MismatchEvidence pfx)"
    "category_fits (px_StopCategory pfx) err" "checkpoints_in preRuntimeStageOrder (px_Checkpoints pfx)"
    "plan_of (px_PlanDigest pfx) (px_Checkpoints pfx)"
    using assms(1) by (auto simp: pre_stopped_def)
  have "px_Checkpoints pfx \<noteq> []"
  proof
    assume n: "px_Checkpoints pfx = []"
    with s(4) have "px_StoppedAt pfx = preRuntimeStageOrder ! 0" by (simp add: validStoppedStage_def split: if_splits)
    with s(2,3,8) n assms(3) show False by (simp add: early_stop_def plan_of_def)
  qed
  moreover have "px_StopCategory pfx = '''' \<or> validRedactedStopCategory (px_StopCategory pfx)"
    using s(3,6) assms(2) by (auto simp: category_fits_def)
  moreover have "length (px_Checkpoints pfx) \<le> length preRuntimeStageOrder" using s(7) by (simp add: checkpoints_in_def)
  ultimately show ?thesis
    using s by (simp add: appendFullRunPrefix_def oneOf_def plan_of_def append_checkpoints_all
        cloneOrchestrationMismatchEvidence_def)
qed

lemma succeeded_prefix_taken:
  assumes "pre_succeeded (pfx, err)"
  shows "appendFullRunPrefix receipt pfx = (receipt\<lparr>fr_PlanDigest := px_PlanDigest pfx,
    fr_MismatchEvidence := px_MismatchEvidence pfx, fr_Checkpoints := fr_Checkpoints receipt @ px_Checkpoints pfx\<rparr>, None)"
proof -
  have "px_Checkpoints pfx \<noteq> []" using assms by (auto simp: pre_succeeded_def orders)
  with assms show ?thesis
    by (auto simp: pre_succeeded_def appendFullRunPrefix_def oneOf_def plan_of_def append_checkpoints_all
        cloneOrchestrationMismatchEvidence_def orders)
qed

section \<open>The receipt of the full run\<close>

definition full_order :: "string list" where
  "full_order = preRuntimeStageOrder @ postRuntimeStageOrder"

definition full_fits :: "string \<Rightarrow> FullRunOrchestrationReceipt \<times> stage_error option \<Rightarrow> bool" where
  "full_fits mode p \<longleftrightarrow> (case p of (r, err) \<Rightarrow>
     fr_Format r = FullRunOrchestrationReceiptFormat \<and> fr_CompletionMode r = mode
     \<and> checkpoints_in full_order (fr_Checkpoints r)
     \<and> (if err = None then fr_State r = ''SUCCEEDED''
          \<and> length (fr_Checkpoints r) = (if mode = CompletionModeBareClusterMVP then 7 else 12)
        else fr_State r = ''STOPPED''))"

text \<open>A receipt that is still running.\<close>

definition full_running :: "string \<Rightarrow> FullRunOrchestrationReceipt \<Rightarrow> bool" where
  "full_running mode r \<longleftrightarrow> fr_Format r = FullRunOrchestrationReceiptFormat \<and> fr_CompletionMode r = mode
     \<and> checkpoints_in full_order (fr_Checkpoints r)"

lemma full_stop_fits:
  assumes "full_running mode r"
  shows "full_fits mode (stopFullRunOrchestration r stage)"
    and "full_fits mode (stopFullRunOrchestrationWithCategory r stage category cause)"
    and "full_fits mode (stopFullRunOrchestrationWithCause r stage cause)"
  using assms
  by (simp_all add: full_running_def full_fits_def stopFullRunOrchestration_def Let_def
      stopFullRunOrchestrationWithCategory_def stopFullRunOrchestrationWithCause_def)

lemma full_start_running: "full_running mode (full_start mode)"
  by (simp add: full_running_def full_start_def)

lemma prefix_keeps_running:
  assumes "appendFullRunPrefix (full_start mode) pfx = (r, e)"
  shows "full_running mode r"
  using assms
proof (cases rule: prefix_appended_cases)
  case rejected
  then show ?thesis using full_start_running by simp
next
  case (taken k)
  then show ?thesis
    by (simp add: full_running_def full_start_def full_order_def checkpoints_in_longer)
qed

lemma suffix_appended:
  assumes "appendFullRunSuffix r sfx = (r', e)" and "full_running mode r"
  shows "full_running mode r'"
    and "e = None \<Longrightarrow> pn_State sfx = ''SUCCEEDED'' \<Longrightarrow> length (fr_Checkpoints r') = 12"
proof -
  note a = assms(1) [unfolded appendFullRunSuffix_def oneOf_def orders]
  consider (rejected) "r' = r" "e \<noteq> None"
    | (taken) "append_checkpoints postRuntimeStageOrder ''full-run post-runtime checkpoint is invalid'' (pn_Checkpoints sfx) r = (r', e)"
      "length (fr_Checkpoints r) = 7" "pn_State sfx = ''SUCCEEDED'' \<Longrightarrow> length (pn_Checkpoints sfx) = 5"
    using a by (auto split: if_splits)
  then have "full_running mode r' \<and> (e = None \<longrightarrow> pn_State sfx = ''SUCCEEDED'' \<longrightarrow> length (fr_Checkpoints r') = 12)"
  proof cases
    case rejected
    then show ?thesis using assms(2) by auto
  next
    case taken
    from taken(1) obtain k where k: "r' = r\<lparr>fr_Checkpoints := fr_Checkpoints r @ take k (pn_Checkpoints sfx)\<rparr>"
      "checkpoints_in postRuntimeStageOrder (take k (pn_Checkpoints sfx))" "e = None \<Longrightarrow> k = length (pn_Checkpoints sfx)"
      by (rule append_checkpoints_cases) blast
    have "checkpoints_in preRuntimeStageOrder (fr_Checkpoints r)"
      using assms(2) taken(2) by (simp add: full_running_def checkpoints_in_def full_order_def orders)
    then have "checkpoints_in full_order (fr_Checkpoints r @ take k (pn_Checkpoints sfx))"
      unfolding full_order_def by (rule checkpoints_in_append) (simp_all add: taken(2) orders k(2))
    then show ?thesis using assms(2) taken(2,3) k(1,3) by (auto simp: full_running_def)
  qed
  then show "full_running mode r'"
    and "e = None \<Longrightarrow> pn_State sfx = ''SUCCEEDED'' \<Longrightarrow> length (fr_Checkpoints r') = 12"
    by blast+
qed

lemma full_suffix_fits:
  assumes "full_running mode r" "mode \<noteq> CompletionModeBareClusterMVP"
  shows "full_fits mode (fst (full_suffix continuation r w))"
proof -
  obtain sfx serr w1 where c: "ContinuationRun continuation w = ((sfx, serr), w1)" by (metis prod.exhaust)
  obtain r1 e where a: "appendFullRunSuffix r sfx = (r1, e)" by (metis prod.exhaust)
  note s = suffix_appended [OF a assms(1)]
  show ?thesis
    using s assms(2) full_stop_fits [OF s(1)]
    by (auto simp: full_suffix_def c a full_succeed_def full_fits_def full_running_def)
qed

lemma full_bind_fits:
  assumes "full_running mode r" "mode \<noteq> CompletionModeBareClusterMVP"
  shows "full_fits mode (fst (full_bind cancelled opening pfx r w))"
  unfolding full_bind_def
  using full_suffix_fits [OF assms] full_stop_fits [OF assms(1)]
  by (auto split: prod.split option.split)

lemma full_run_fits:
  assumes "mode = fo_CompletionMode orchestration"
  shows "full_fits mode (fst (full_run cancelled orchestration preRuntime (full_start mode) w))"
proof -
  obtain pfx perr w1 where p: "preRuntime w = ((pfx, perr), w1)" by (metis prod.exhaust)
  obtain r e where a: "appendFullRunPrefix (full_start mode) pfx = (r, e)" by (metis prod.exhaust)
  note running = prefix_keeps_running [OF a]
  have early: "full_running mode ((full_start mode)\<lparr>fr_MismatchEvidence := x\<rparr>)" for x
    by (simp add: full_running_def full_start_def)
  have bare: "full_fits mode (full_succeed r)"
    if "e = None" "px_State pfx = ''SUCCEEDED''" "mode = CompletionModeBareClusterMVP"
    using a
  proof (cases rule: prefix_appended_cases)
    case rejected
    with that show ?thesis by simp
  next
    case (taken k)
    with that running show ?thesis
      by (simp add: full_fits_def full_succeed_def full_running_def full_start_def)
  qed
  show ?thesis
    unfolding full_run_def p a prod.case cloneOrchestrationMismatchEvidence_def assms [symmetric]
    by (simp only: if_distrib [of fst] fst_conv split: if_split option.split)
      (intro conjI impI allI full_stop_fits full_start_running early running; (rule bare full_bind_fits [OF running]; simp))
qed

section \<open>When the suffix runs\<close>

text \<open>
  The events of a full run: what the prefix returned, what binding the continuation showed, and that the
  continuation ran. \<open>noted\<close> makes a call write its event into a journal beside the world.
\<close>

datatype run_event =
    PrefixRan PreRuntimeOrchestrationReceipt "stage_error option"
  | BindingShown PostRuntimeContinuationBinding "stage_error option"
  | SuffixRan

definition noted :: "('a \<Rightarrow> stage_error option \<Rightarrow> run_event) \<Rightarrow> ('w, 'a) call \<Rightarrow> ('w \<times> run_event list, 'a) call" where
  "noted event run = (\<lambda>(w, l). case run w of ((a, e), w1) \<Rightarrow> ((a, e), w1, l @ [event a e]))"

definition noted_continuation :: "'w PostRuntimeContinuation \<Rightarrow> ('w \<times> run_event list) PostRuntimeContinuation" where
  "noted_continuation c = \<lparr>ContinuationBinding = noted BindingShown (ContinuationBinding c),
     ContinuationRun = noted (\<lambda>_ _. SuffixRan) (ContinuationRun c)\<rparr>"

definition noted_opening :: "('w, 'w PostRuntimeContinuation option) call
    \<Rightarrow> ('w \<times> run_event list, ('w \<times> run_event list) PostRuntimeContinuation option) call" where
  "noted_opening run = (\<lambda>(w, l). case run w of ((c, e), w1) \<Rightarrow> ((map_option noted_continuation c, e), w1, l))"

definition noted_full :: "'w FullRunOrchestration \<Rightarrow> ('w \<times> run_event list) FullRunOrchestration" where
  "noted_full o1 = \<lparr>fo_PreRuntime = map_option (noted PrefixRan) (fo_PreRuntime o1),
     fo_BindPostRuntime = map_option (\<lambda>opening pfx. noted_opening (opening pfx)) (fo_BindPostRuntime o1),
     fo_CompletionMode = fo_CompletionMode o1, fo_used = fo_used o1\<rparr>"

lemma suffix_events: "snd (snd (full_suffix (noted_continuation c) r (w, l))) = l @ [SuffixRan]"
  by (auto simp: full_suffix_def noted_continuation_def noted_def split: prod.split)

definition bind_events :: "PreRuntimeOrchestrationReceipt \<Rightarrow> run_event list \<Rightarrow> run_event list \<Rightarrow> bool" where
  "bind_events pfx l l' \<longleftrightarrow> l' = l \<or> (\<exists>binding e. l' = l @ [BindingShown binding e])
     \<or> (\<exists>binding. l' = l @ [BindingShown binding None, SuffixRan]
          \<and> validatePostRuntimeContinuationBinding pfx binding = None)"

lemma full_bind_events:
  "bind_events pfx l (snd (snd (full_bind cancelled (\<lambda>p. noted_opening (opening p)) pfx r (w, l))))"
proof -
  obtain c e w1 where o: "opening pfx w = ((c, e), w1)" by (metis prod.exhaust)
  show ?thesis
  proof (cases "e = None \<and> c \<noteq> None")
    case False
    then show ?thesis
      by (cases e; cases c) (simp_all add: full_bind_def noted_opening_def o bind_events_def)
  next
    case True
    then obtain d where d: "c = Some d" "e = None" by blast
    obtain b be w2 where b: "ContinuationBinding d w1 = ((b, be), w2)" by (metis prod.exhaust)
    have s: "ContinuationBinding (noted_continuation d) (w1, l) = ((b, be), w2, l @ [BindingShown b be])"
      by (simp add: noted_continuation_def noted_def b)
    show ?thesis
      using suffix_events [of d r w2 "l @ [BindingShown b None]"]
      by (auto simp: full_bind_def noted_opening_def o d s bind_events_def split: option.split)
  qed
qed

lemma full_run_events:
  assumes "snd (snd (full_run cancelled (noted_full o1) (noted PrefixRan preRuntime) (full_start mode) (w, []))) = events"
    and "mode = fo_CompletionMode o1" and "mode \<noteq> '''' \<Longrightarrow> mode = CompletionModeBareClusterMVP"
  obtains pfx e where "events = [PrefixRan pfx e]"
  | pfx r where "bind_events pfx [PrefixRan pfx None] events" "px_State pfx = ''SUCCEEDED''" "mode = ''''"
      "appendFullRunPrefix (full_start mode) pfx = (r, None)"
proof -
  obtain pfx perr w1 where p: "preRuntime w = ((pfx, perr), w1)" by (metis prod.exhaust)
  obtain r e where a: "appendFullRunPrefix (full_start mode) pfx = (r, e)" by (metis prod.exhaust)
  have n: "noted PrefixRan preRuntime (w, []) = ((pfx, perr), w1, [PrefixRan pfx perr])"
    by (simp add: noted_def p)
  show thesis
  proof (cases "events = [PrefixRan pfx perr]")
    case True
    then show thesis by (rule that(1))
  next
    case False
    have split: "snd (snd (if b then x else y)) = (if b then snd (snd x) else snd (snd y))" for b and x y :: "'x \<times> 'y \<times> 'z"
      by simp
    note run = assms(1) [unfolded full_run_def n prod.case a split snd_conv]
    with False have g: "\<not> early_stop pfx perr" "e = None" "perr = None" "px_State pfx = ''SUCCEEDED''"
      "mode \<noteq> CompletionModeBareClusterMVP"
      using assms(2) by (auto simp: early_stop_def noted_full_def split: if_splits)
    with assms(3) have m: "mode = ''''" by blast
    from run False g obtain q where o: "fo_BindPostRuntime o1 = Some q"
      "snd (snd (full_bind cancelled (\<lambda>p. noted_opening (q p)) pfx r (w1, [PrefixRan pfx None]))) = events"
      using assms(2) by (cases "fo_BindPostRuntime o1") (auto simp: early_stop_def noted_full_def split: if_splits)
    show thesis
      by (rule that(2) [OF _ g(4) m]) (use full_bind_events o(2) a g(2) in auto)
  qed
qed

lemma binding_validated:
  assumes "validatePostRuntimeContinuationBinding pfx binding = None"
  shows "cn_PlanDigest binding = px_PlanDigest pfx" "cn_Predecessors binding = px_Checkpoints pfx"
proof -
  show "cn_PlanDigest binding = px_PlanDigest pfx"
    using assms by (simp add: validatePostRuntimeContinuationBinding_def split: if_splits)
  show "cn_Predecessors binding = px_Checkpoints pfx"
    by (rule nth_equalityI)
      (use assms in \<open>auto simp: validatePostRuntimeContinuationBinding_def list_ex_iff split: if_splits\<close>)
qed

lemma succeeded_prefix_complete:
  assumes "appendFullRunPrefix r0 pfx = (r, None)" "px_State pfx = ''SUCCEEDED''"
  shows "checkpoints_in preRuntimeStageOrder (px_Checkpoints pfx)" "length (px_Checkpoints pfx) = 7"
  using assms by (auto elim!: prefix_appended_cases)

lemma FullRun_cases:
  obtains (refused) p where "FullRunOrchestration_Run cancelled (Some o1) w = (p, Some (o1\<lparr>fo_used := True\<rparr>), w)"
      "p = stopFullRunOrchestration (full_start (fo_CompletionMode o1)) ''provider-prerequisites''"
  | (ran) preRuntime p w1 where "FullRunOrchestration_Run cancelled (Some o1) w = (p, Some (o1\<lparr>fo_used := True\<rparr>), w1)"
      "full_run cancelled o1 preRuntime (full_start (fo_CompletionMode o1)) w = (p, w1)"
      "fo_PreRuntime o1 = Some preRuntime"
      "fo_CompletionMode o1 \<noteq> '''' \<Longrightarrow> fo_CompletionMode o1 = CompletionModeBareClusterMVP"
proof -
  let ?refuse = "stopFullRunOrchestration (full_start (fo_CompletionMode o1)) ''provider-prerequisites''"
  have used: "o1\<lparr>fo_used := True\<rparr> = o1" if "fo_used o1" using that by simp
  show thesis
  proof (cases "FullRunOrchestration_Run cancelled (Some o1) w = (?refuse, Some (o1\<lparr>fo_used := True\<rparr>), w)")
    case True
    then show thesis by (rule refused) simp
  next
    case False
    then obtain preRuntime where g: "\<not> fo_used o1" "fo_PreRuntime o1 = Some preRuntime" "\<not> cancelled w"
      "fo_CompletionMode o1 = '''' \<or> fo_CompletionMode o1 = CompletionModeBareClusterMVP"
      "\<not> (fo_CompletionMode o1 = '''' \<and> fo_BindPostRuntime o1 = None)"
      using used by (cases "fo_PreRuntime o1") (auto simp: FullRunOrchestration_Run_def Let_def split: if_splits)
    obtain p w1 where r: "full_run cancelled o1 preRuntime (full_start (fo_CompletionMode o1)) w = (p, w1)"
      by (metis prod.exhaust)
    show thesis
      by (rule ran [OF _ r g(2)]) (use g r in \<open>auto simp: FullRunOrchestration_Run_def Let_def\<close>)
  qed
qed

section \<open>The properties of a full run\<close>

text \<open>
  The checkpoints of a full run are an initial part of the twelve stages. Whatever prefix and
  continuation return, the receipt lists stages of the fixed order, none skipped or repeated, each completed
  with a canonical digest; the run reports success exactly without an error, and then with all twelve
  stages, or with all seven of the bare cluster mode.
\<close>

theorem full_run_receipt_sound:
  "case FullRunOrchestration_Run cancelled (Some o1) w of ((receipt, err), _, _) \<Rightarrow>
     checkpoints_in (preRuntimeStageOrder @ postRuntimeStageOrder) (fr_Checkpoints receipt)
     \<and> (if err = None then fr_State receipt = ''SUCCEEDED''
          \<and> length (fr_Checkpoints receipt) = (if fo_CompletionMode o1 = CompletionModeBareClusterMVP then 7 else 12)
        else fr_State receipt = ''STOPPED'')"
proof -
  have "full_fits (fo_CompletionMode o1) (fst (FullRunOrchestration_Run cancelled (Some o1) w))"
  proof (cases rule: FullRun_cases [of cancelled o1 w])
    case (refused p)
    then show ?thesis using full_stop_fits [OF full_start_running] by simp
  next
    case (ran preRuntime p w1)
    then show ?thesis using full_run_fits [OF refl, of o1 cancelled preRuntime w] by simp
  qed
  then show ?thesis by (auto simp: full_fits_def full_order_def split: prod.split)
qed

text \<open>
  C5: the suffix is only entered with the receipts of the completed prefix. The events of a full run
  are nothing, or the prefix once, then at most one binding, then at most one run of the continuation; and
  it runs only after a prefix that succeeded without error with all seven checkpoints, in a full
  completion mode, and after showing a binding with the same plan digest and exactly these checkpoints.
\<close>

theorem suffix_needs_exact_prefix:
  "case FullRunOrchestration_Run cancelled (Some (noted_full o1)) (w, []) of (_, _, _, events) \<Rightarrow>
     events = [] \<or> (\<exists>pfx e. events = [PrefixRan pfx e])
     \<or> (\<exists>pfx binding e. events = [PrefixRan pfx None, BindingShown binding e])
     \<or> (\<exists>pfx binding. events = [PrefixRan pfx None, BindingShown binding None, SuffixRan]
          \<and> px_State pfx = ''SUCCEEDED'' \<and> checkpoints_in preRuntimeStageOrder (px_Checkpoints pfx)
          \<and> length (px_Checkpoints pfx) = 7 \<and> fo_CompletionMode o1 = ''''
          \<and> cn_PlanDigest binding = px_PlanDigest pfx \<and> cn_Predecessors binding = px_Checkpoints pfx)"
proof (cases rule: FullRun_cases [of cancelled "noted_full o1" "(w, [])"])
  case (refused p)
  then show ?thesis by simp
next
  case (ran preRuntime p w1)
  then obtain pre where pre: "preRuntime = noted PrefixRan pre" by (auto simp: noted_full_def)
  have m: "fo_CompletionMode (noted_full o1) = fo_CompletionMode o1" by (simp add: noted_full_def)
  have e: "snd (snd (full_run cancelled (noted_full o1) (noted PrefixRan pre) (full_start (fo_CompletionMode o1)) (w, []))) = snd w1"
    using ran(2) by (simp add: pre m)
  show ?thesis
  proof (rule full_run_events [OF e refl])
    show "fo_CompletionMode o1 \<noteq> '''' \<Longrightarrow> fo_CompletionMode o1 = CompletionModeBareClusterMVP"
      using ran(4) by (simp add: m)
  next
    fix pfx err assume "snd w1 = [PrefixRan pfx err]"
    then show ?thesis by (auto simp: ran(1) split: prod.split)
  next
    fix pfx r assume t: "bind_events pfx [PrefixRan pfx None] (snd w1)" "px_State pfx = ''SUCCEEDED''"
      "fo_CompletionMode o1 = ''''" "appendFullRunPrefix (full_start (fo_CompletionMode o1)) pfx = (r, None)"
    note c = succeeded_prefix_complete [OF t(4,2)]
    from t(1) show ?thesis
      unfolding bind_events_def
      by (elim disjE exE conjE) (use t(2,3) c binding_validated in \<open>auto simp: ran(1) split: prod.split\<close>)
  qed
qed

text \<open>
  C8: a full run happens once. The orchestration that a run leaves behind refuses every later run, in any
  world and under any context: with an error and no checkpoint, and without calling anything.
\<close>

theorem full_run_single_use:
  "case FullRunOrchestration_Run cancelled o1 w of (_, o2, _) \<Rightarrow>
     \<exists>receipt err. FullRunOrchestration_Run cancelled' o2 w' = ((receipt, Some err), o2, w')
       \<and> fr_State receipt = ''STOPPED'' \<and> fr_Checkpoints receipt = []"
proof (cases o1)
  case None
  then show ?thesis by (simp add: FullRunOrchestration_Run_def stopFullRunOrchestration_def full_start_def Let_def)
next
  case (Some orchestration)
  have "\<exists>receipt err. FullRunOrchestration_Run cancelled' (Some (orchestration\<lparr>fo_used := True\<rparr>)) w'
      = ((receipt, Some err), Some (orchestration\<lparr>fo_used := True\<rparr>), w')
       \<and> fr_State receipt = ''STOPPED'' \<and> fr_Checkpoints receipt = []"
    by (simp add: FullRunOrchestration_Run_def stopFullRunOrchestration_def full_start_def Let_def)
  then show ?thesis
    unfolding Some by (cases rule: FullRun_cases [of cancelled orchestration w]) simp_all
qed

text \<open>
  The full run understands every receipt of the prefix. When the error of a prefix, if it has one,
  reports an observation only in a terminal state, its receipt is either the early stop, whose evidence
  agrees with its category, or it is taken over whole: plan digest, evidence and all checkpoints.
\<close>

theorem prefix_receipt_accepted:
  assumes "PreRuntimeOrchestration_Run cancelled orchestration w = ((pfx, err), w1)"
    and "\<And>e. err = Some e \<Longrightarrow> terminal_observation e"
  shows "early_stop pfx err \<and> validOrchestrationMismatchEvidenceForCategory (px_StopCategory pfx) (px_MismatchEvidence pfx)
    \<or> (\<exists>receipt. appendFullRunPrefix (full_start mode) pfx = (receipt, None)
        \<and> fr_PlanDigest receipt = px_PlanDigest pfx \<and> fr_MismatchEvidence receipt = px_MismatchEvidence pfx
        \<and> fr_Checkpoints receipt = px_Checkpoints pfx)"
proof -
  from pre_run_result [of cancelled orchestration w] consider n where "pre_stopped n (pfx, err)" | "pre_succeeded (pfx, err)"
    by (auto simp: assms(1))
  then show ?thesis
  proof cases
    case 1
    then show ?thesis
      using stopped_prefix_taken [OF 1 assms(2)] by (auto simp: pre_stopped_def full_start_def)
  next
    case 2
    then show ?thesis using succeeded_prefix_taken [OF 2] by (auto simp: full_start_def)
  qed
qed

text \<open>A prefix whose stages all succeed.\<close>

definition staged_success :: "string \<Rightarrow> StagedOperationReceipt" where
  "staged_success stage = \<lparr>sor_Format = StagedReceiptFormat, sor_State = ''COMPLETED_SUCCEEDED'',
     sor_PlanDigest = sample_digest CHR ''a'', sor_StageID = stage, sor_Claim = None, sor_Outcome = None,
     sor_StageReceiptDigest = sample_digest CHR ''b'', sor_FailureCategory = '''', sor_MismatchEvidence = None\<rparr>"

definition read_success :: "string \<Rightarrow> string \<Rightarrow> ObservationStageRunReceipt" where
  "read_success format stage = \<lparr>rn_Format = format, rn_State = ''COMPLETED_SUCCEEDED'',
     rn_PlanDigest = sample_digest CHR ''a'', rn_StageID = stage, rn_StageReceiptDigest = sample_digest CHR ''b''\<rparr>"

definition sample_prefix :: "unit PreRuntimeOrchestration" where
  "sample_prefix = \<lparr>RunProviderPrerequisites = Some (\<lambda>w. ((staged_success ''provider-prerequisites'', None), w)),
     RunClusterLifecycle = Some (\<lambda>_ w. ((staged_success ''cluster-lifecycle'', None), w)),
     RunLifecycleObservation = Some (\<lambda>_ w. ((read_success ObservationStageReceiptFormat ''lifecycle-observation'', None), w)),
     RunEnablement = Some (\<lambda>_ w. ((staged_success ''enablement'', None), w)),
     RunNetworkObservation = Some (\<lambda>_ w. ((read_success ObservationStageReceiptFormat ''network-observation'', None), w)),
     RunRuntimeBinding = Some (\<lambda>_ w. ((read_success BindingStageReceiptFormat ''runtime-binding'', None), w)),
     RunTargetAccess = Some (\<lambda>_ w. ((staged_success ''target-access'', None), w))\<rparr>"

lemma sample_prefix_runs:
  "snd (fst (PreRuntimeOrchestration_Run (\<lambda>_. False) sample_prefix ())) = None"
  by code_simp

lemma prefix_receipt_accepted_witness:
  "\<exists>receipt. appendFullRunPrefix (full_start '''') (fst (fst (PreRuntimeOrchestration_Run (\<lambda>_. False) sample_prefix ()))) = (receipt, None)
     \<and> fr_PlanDigest receipt = px_PlanDigest (fst (fst (PreRuntimeOrchestration_Run (\<lambda>_. False) sample_prefix ())))"
proof -
  obtain pfx w1 where r: "PreRuntimeOrchestration_Run (\<lambda>_. False) sample_prefix () = ((pfx, None), w1)"
    using sample_prefix_runs by (metis prod.collapse)
  from prefix_receipt_accepted [OF r, of "''''"] show ?thesis by (auto simp: early_stop_def r)
qed

section \<open>The binding of a verified prefix\<close>

lemma continuation_predecessors_sound:
  "continuation_predecessors order vs = Inr cs \<Longrightarrow> length vs = length order \<Longrightarrow>
     checkpoints_in order cs \<and> length cs = length vs \<and> map ck_StageReceiptDigest cs = map v_digest vs"
proof (induction order vs arbitrary: cs rule: continuation_predecessors.induct)
  case (1 stage order verified pfx)
  from "1.prems" obtain r d ds where r: "Verified_Receipt verified = Inr r" "rc_StageID r = stage" "rc_State r = ''SUCCEEDED''"
      "Verified_Digest verified = Inr d" "digestPattern d" "continuation_predecessors order pfx = Inr ds"
      "cs = \<lparr>ck_StageID = stage, ck_State = ''COMPLETED_SUCCEEDED'', ck_StageReceiptDigest = d\<rparr> # ds"
    by (auto simp: bindE_eq_Inr split: sum.splits if_splits)
  from r(4) have "d = v_digest verified" by (auto simp: Verified_Digest_def split: if_splits)
  moreover have "checkpoints_in order ds \<and> length ds = length pfx \<and> map ck_StageReceiptDigest ds = map v_digest pfx"
    using "1.IH" [OF r(1) _ r(4) _ r(6)] r(2,3,5) "1.prems"(2) by simp
  ultimately show ?case using r by (simp add: checkpoints_in_Cons)
qed simp_all

lemma continuation_binding_sound:
  assumes "newPostRuntimeContinuationBinding planDigest vs = Inr binding"
  shows "cn_PlanDigest binding = planDigest" "checkpoints_in preRuntimeStageOrder (cn_Predecessors binding)"
    "length (cn_Predecessors binding) = 7" "map ck_StageReceiptDigest (cn_Predecessors binding) = map v_digest vs"
proof -
  from assms obtain cs where c: "continuation_predecessors preRuntimeStageOrder vs = Inr cs"
    "length vs = length preRuntimeStageOrder" "cn_PlanDigest binding = planDigest" "cn_Predecessors binding = cs"
    by (auto simp: newPostRuntimeContinuationBinding_def bindE_eq_Inr split: if_splits)
  with continuation_predecessors_sound [OF c(1,2)] show "cn_PlanDigest binding = planDigest"
    "checkpoints_in preRuntimeStageOrder (cn_Predecessors binding)"
    "length (cn_Predecessors binding) = 7" "map ck_StageReceiptDigest (cn_Predecessors binding) = map v_digest vs"
    by (simp_all add: orders)
qed

end
