(* ===== verification/PostRuntimeFacts.thy ===== *)
theory PostRuntimeFacts
  imports OrchestrationFacts
begin

text \<open>
  What holds of every run of stages 8 to 12: the order of the calls, the checkpoints of the receipt, and
  that the credential which stage 8 hands over in memory does not outlive the run.
\<close>

section \<open>The chain\<close>

definition post_open :: "nat \<Rightarrow> PostRuntimeOrchestrationReceipt \<Rightarrow> bool" where
  "post_open n c \<longleftrightarrow> pn_Format c = PostRuntimeOrchestrationReceiptFormat \<and> pn_StoppedAt c = '''' \<and> pn_StopCategory c = ''''
     \<and> checkpoints_in postRuntimeStageOrder (pn_Checkpoints c)
     \<and> length (pn_Checkpoints c) = n \<and> plan_of (pn_PlanDigest c) (pn_Checkpoints c)"

definition post_stopped :: "nat \<Rightarrow> PostRuntimeOrchestrationReceipt \<times> stage_error option \<Rightarrow> bool" where
  "post_stopped n p \<longleftrightarrow> (case p of (c, err) \<Rightarrow> pn_Format c = PostRuntimeOrchestrationReceiptFormat \<and> pn_State c = ''STOPPED''
     \<and> err \<noteq> None \<and> validStoppedStage postRuntimeStageOrder n (pn_StoppedAt c) \<and> category_fits (pn_StopCategory c) err
     \<and> checkpoints_in postRuntimeStageOrder (pn_Checkpoints c)
     \<and> length (pn_Checkpoints c) = n \<and> plan_of (pn_PlanDigest c) (pn_Checkpoints c))"

definition post_succeeded :: "PostRuntimeOrchestrationReceipt \<times> stage_error option \<Rightarrow> bool" where
  "post_succeeded p \<longleftrightarrow> (case p of (c, err) \<Rightarrow> pn_Format c = PostRuntimeOrchestrationReceiptFormat \<and> pn_State c = ''SUCCEEDED''
     \<and> err = None \<and> pn_StoppedAt c = '''' \<and> pn_StopCategory c = '''' \<and> checkpoints_in postRuntimeStageOrder (pn_Checkpoints c)
     \<and> length (pn_Checkpoints c) = length postRuntimeStageOrder \<and> plan_of (pn_PlanDigest c) (pn_Checkpoints c))"

lemma post_stop_fits:
  assumes "post_open n c" "validStoppedStage postRuntimeStageOrder n stage"
  shows "post_stopped n (stopPostRuntimeOrchestrationWithCause c stage cause)"
  using assms
  by (cases cause) (simp_all add: post_open_def post_stopped_def stopPostRuntimeOrchestrationWithCause_def category_fits_cause)

lemma post_attached:
  assumes "post_open n c" "n < length postRuntimeStageOrder"
    and "appendPostRuntimeCheckpoint c (postRuntimeStageOrder ! n) format run = (c', None)"
  shows "post_open (Suc n) c'"
  using assms unfolding appendPostRuntimeCheckpoint_def
  by (auto simp: post_open_def plan_of_def intro!: checkpoints_in_snoc split: if_splits)

lemma post_rejected: "appendPostRuntimeCheckpoint c stage format run = (c', Some e) \<Longrightarrow> c' = c"
  by (auto simp: appendPostRuntimeCheckpoint_def split: if_splits)

interpretation post_chain: stage_chain postRuntimeStageOrder appendPostRuntimeCheckpoint post_open
  "\<lambda>halt. halt = stopPostRuntimeOrchestrationWithCause" post_stopped post_succeeded
proof
  show "post_open (Suc n) c'" if "post_open n c" "n < length postRuntimeStageOrder"
    "appendPostRuntimeCheckpoint c (postRuntimeStageOrder ! n) format run = (c', None)" for n c c' format run
    using post_attached [OF that] .
  show "c' = c" if "appendPostRuntimeCheckpoint c stage format run = (c', Some e)" for c c' stage format run e
    using post_rejected [OF that] .
  show "post_stopped n (halt c stage cause)" if "halt = stopPostRuntimeOrchestrationWithCause" "post_open n c"
    "validStoppedStage postRuntimeStageOrder n stage" for halt n c stage cause
    using post_stop_fits [OF that(2,3)] that(1) by simp
qed

section \<open>The journal\<close>

text \<open>The journal of the suffix lies outside the heap of handoffs.\<close>

definition logged_outside :: "string \<Rightarrow> (('c, 'u) runner_world, 'a) call \<Rightarrow> (('c, 'u \<times> journal) runner_world, 'a) call" where
  "logged_outside s run = (\<lambda>(h, u, l). case run (h, u) of ((r, e), h1, u1) \<Rightarrow> ((r, e), h1, u1, l @ [(s, e)]))"

abbreviation calls_of :: "('c, 'u \<times> journal) runner_world \<Rightarrow> journal" where
  "calls_of w \<equiv> snd (snd w)"

lemma logged_outside_records: "records calls_of s (logged_outside s run)"
  by (auto simp: records_def logged_outside_def split: prod.splits)

definition logged_post :: "(('c, 'u) runner_world) PostRuntimeOrchestration
    \<Rightarrow> (('c, 'u \<times> journal) runner_world) PostRuntimeOrchestration" where
  "logged_post p =
     \<lparr>RunTargetCredential = map_option (logged_outside ''target-credential'') (RunTargetCredential p),
      RunTargetRegistration = map_option (\<lambda>f h r. logged_outside ''target-registration'' (f h r)) (RunTargetRegistration p),
      RunPlatformApplications = map_option (\<lambda>f r. logged_outside ''platform-applications'' (f r)) (RunPlatformApplications p),
      RunPlatformObservation = map_option (\<lambda>f r. logged_outside ''platform-observation'' (f r)) (RunPlatformObservation p),
      RunAggregateEvidence = map_option (\<lambda>f r. logged_outside ''aggregate-evidence'' (f r)) (RunAggregateEvidence p)\<rparr>"

lemma discard_facts:
  "calls_of (discardTargetCredentialHandoff handoff w) = calls_of w"
  "ho_Consumed (fst (discardTargetCredentialHandoff (Some h) v) h)"
  by (simp_all add: discardTargetCredentialHandoff_def split: option.split)

lemma ends_discard:
  "post_chain.ends calls_of (p, discardTargetCredentialHandoff handoff w) = post_chain.ends calls_of (p, w)"
  by (simp add: post_chain.ends_def discard_facts)

lemma post_names: "postRuntimeStageOrder ! 0 = ''target-credential''" "postRuntimeStageOrder ! 1 = ''target-registration''"
  "postRuntimeStageOrder ! 2 = ''platform-applications''" "postRuntimeStageOrder ! 3 = ''platform-observation''"
  "postRuntimeStageOrder ! 4 = ''aggregate-evidence''"
  by (simp_all add: postRuntimeStageOrder_def)

lemma post_suffix_ends:
  assumes "post_open 1 c" "calls_of u = clean postRuntimeStageOrder 1"
  shows "post_chain.ends calls_of (post_suffix cancelled
    (\<lambda>h r. logged_outside (postRuntimeStageOrder ! 1) (g2 h r)) (\<lambda>r. logged_outside (postRuntimeStageOrder ! 2) (g3 r))
    (\<lambda>r. logged_outside (postRuntimeStageOrder ! 3) (g4 r)) (\<lambda>r. logged_outside (postRuntimeStageOrder ! 4) (g5 r)) h r1 c u)"
proof -
  have stage: "post_chain.ends calls_of (post_stage (postRuntimeStageOrder ! i) format view
      (logged_outside (postRuntimeStageOrder ! i) run) next c u)"
    if "post_open n c" "n < 5" "i = n" "calls_of u = clean postRuntimeStageOrder n"
      "\<And>r c' w'. post_open (Suc n) c' \<Longrightarrow> calls_of w' = clean postRuntimeStageOrder (Suc n) \<Longrightarrow> post_chain.ends calls_of (next r c' w')"
    for format view and run :: "(('c, 'u) runner_world, 'r) call" and "next" c u n i
    unfolding post_stage_def that(3)
    by (rule post_chain.stage_ends [OF that(1)]) (use that orders logged_outside_records in auto)
  have check: "post_chain.ends calls_of (post_check cancelled (postRuntimeStageOrder ! i) next c u)"
    if "post_open n c" "n < 5" "i = n" "calls_of u = clean postRuntimeStageOrder n"
      "post_chain.ends calls_of (next c u)" for "next" c u n i
    unfolding post_check_def that(3)
    by (rule post_chain.check_ends [OF that(1)]) (use that orders in auto)
  have succeed: "post_chain.ends calls_of ((c\<lparr>pn_State := ''SUCCEEDED''\<rparr>, None), u)"
    if "post_open n c" "n = 5" "calls_of u = clean postRuntimeStageOrder n" for c u n
    using that by (auto simp: post_chain.ends_def post_succeeded_def post_open_def orders)
  show ?thesis
    unfolding post_suffix_def
    by (rule check [OF assms(1)], simp, simp, rule assms(2), rule stage [OF assms(1)], simp, simp, rule assms(2))
      ((rule check stage, assumption, simp, simp, assumption)+, rule succeed, assumption, simp, assumption)
qed

section \<open>The run\<close>

definition post_missing :: "'w PostRuntimeOrchestration \<Rightarrow> bool" where
  "post_missing p \<longleftrightarrow> RunTargetCredential p = None \<or> RunTargetRegistration p = None \<or> RunPlatformApplications p = None
     \<or> RunPlatformObservation p = None \<or> RunAggregateEvidence p = None"

lemma post_run_missing:
  "post_missing p \<Longrightarrow> PostRuntimeOrchestration_Run cancelled p w = (post_refuse ''post-runtime orchestration is incomplete'', w)"
  unfolding PostRuntimeOrchestration_Run_def post_missing_def by (auto split: option.split)

lemma post_refuse_stopped: "post_stopped 0 (post_refuse m)"
  by (simp add: post_refuse_def post_stopped_def post_start_def category_fits_def plan_of_def validStoppedStage_def orders)

text \<open>A complete orchestration under a live context: what follows the call of stage 8.\<close>

lemma post_run_cases:
  assumes "RunTargetCredential p = Some f1" "RunTargetRegistration p = Some f2" "RunPlatformApplications p = Some f3"
    "RunPlatformObservation p = Some f4" "RunAggregateEvidence p = Some f5" "\<not> cancelled w"
    and "f1 w = (((r1, handoff), runErr), w1)"
    and "appendPostRuntimeCheckpoint post_start (postRuntimeStageOrder ! 0) StagedReceiptFormat (staged_run r1) = (c, appendErr)"
  obtains (halted) cause where "PostRuntimeOrchestration_Run cancelled p w =
      (stopPostRuntimeOrchestrationWithCause c (postRuntimeStageOrder ! 0) cause, discardTargetCredentialHandoff handoff w1)"
  | (entered) h where "handoff = Some h" "appendErr = None" "runErr = None" "PostRuntimeOrchestration_Run cancelled p w =
      (fst (post_suffix cancelled f2 f3 f4 f5 h r1 c w1),
       discardTargetCredentialHandoff (Some h) (snd (post_suffix cancelled f2 f3 f4 f5 h r1 c w1)))"
proof (cases "appendErr = None \<and> runErr = None \<and> handoff \<noteq> None")
  case True
  then obtain h where h: "handoff = Some h" by blast
  show thesis
    by (rule entered [OF h]) (use True h in \<open>simp_all add: PostRuntimeOrchestration_Run_def assms case_prod_unfold\<close>)
next
  case False
  show thesis
    by (rule halted [of "if appendErr \<noteq> None \<or> runErr \<noteq> None then if runErr \<noteq> None then runErr else appendErr
        else Some (newFixedRedactedStop ''TARGET_CREDENTIAL_HANDOFF_MISSING'' None)"])
      (use False in \<open>cases handoff; auto simp: PostRuntimeOrchestration_Run_def assms discardTargetCredentialHandoff_def\<close>)
qed

lemma logged_post_missing: "post_missing (logged_post p) = post_missing p"
  by (simp add: post_missing_def logged_post_def)

lemma post_run_ends: "post_chain.ends calls_of (PostRuntimeOrchestration_Run cancelled (logged_post p) (hs, u, []))"
proof -
  have refuse: "post_chain.ends calls_of (post_refuse m, hs, u, [])" for m
    by (rule post_chain.ends_refused [OF post_refuse_stopped]) simp
  show ?thesis
  proof (cases "post_missing p \<or> cancelled (hs, u, [])")
    case True
    then show ?thesis
    proof (cases "post_missing p")
      case False
      with True show ?thesis using refuse
        by (auto simp: PostRuntimeOrchestration_Run_def split: option.split)
    qed (use refuse in \<open>simp add: post_run_missing logged_post_missing\<close>)
  next
    case False
    then obtain g1 g2 g3 g4 g5 where g: "RunTargetCredential p = Some g1" "RunTargetRegistration p = Some g2"
      "RunPlatformApplications p = Some g3" "RunPlatformObservation p = Some g4" "RunAggregateEvidence p = Some g5"
      by (auto simp: post_missing_def)
    let ?f1 = "logged_outside (postRuntimeStageOrder ! 0) g1"
    have l: "RunTargetCredential (logged_post p) = Some ?f1"
      "RunTargetRegistration (logged_post p) = Some (\<lambda>h r. logged_outside (postRuntimeStageOrder ! 1) (g2 h r))"
      "RunPlatformApplications (logged_post p) = Some (\<lambda>r. logged_outside (postRuntimeStageOrder ! 2) (g3 r))"
      "RunPlatformObservation (logged_post p) = Some (\<lambda>r. logged_outside (postRuntimeStageOrder ! 3) (g4 r))"
      "RunAggregateEvidence (logged_post p) = Some (\<lambda>r. logged_outside (postRuntimeStageOrder ! 4) (g5 r))"
      by (simp_all add: logged_post_def g post_names post_names(2) [unfolded One_nat_def])
    obtain r1 handoff runErr w1 where r: "?f1 (hs, u, []) = (((r1, handoff), runErr), w1)" by (metis prod.exhaust)
    obtain c e where c: "appendPostRuntimeCheckpoint post_start (postRuntimeStageOrder ! 0) StagedReceiptFormat (staged_run r1) = (c, e)"
      by (metis prod.exhaust)
    have j: "calls_of w1 = [(postRuntimeStageOrder ! 0, runErr)]"
      using logged_outside_records [of "postRuntimeStageOrder ! 0" g1, unfolded records_def, rule_format, OF r] by simp
    have start: "post_open 0 post_start" by (simp add: post_open_def post_start_def plan_of_def)
    from False have nc: "\<not> cancelled (hs, u, [])" by simp
    from l nc r c show ?thesis
    proof (cases rule: post_run_cases)
      case (halted cause)
      have "post_stopped (if e = None then 1 else 0) (stopPostRuntimeOrchestrationWithCause c (postRuntimeStageOrder ! 0) cause)"
      proof (cases e)
        case None
        with post_attached [OF start] c have "post_open 1 c" by (simp add: orders)
        then show ?thesis using None by (simp add: post_stop_fits validStoppedStage_def orders)
      next
        case (Some x)
        with post_rejected c have "c = post_start" by blast
        then show ?thesis using Some start by (simp add: post_stop_fits validStoppedStage_def orders)
      qed
      then have "post_chain.ends calls_of (stopPostRuntimeOrchestrationWithCause c (postRuntimeStageOrder ! 0) cause, w1)"
        by (rule post_chain.ends_halted [where m = 0 and e = runErr]) (use j in \<open>simp_all add: orders\<close>)
      then show ?thesis by (simp add: halted ends_discard)
    next
      case (entered h)
      with post_attached [OF start] c have o: "post_open 1 c" by (simp add: orders)
      show ?thesis
        unfolding entered(4) ends_discard prod.collapse
        by (rule post_suffix_ends [OF o]) (use j entered(3) in \<open>simp add: clean_def postRuntimeStageOrder_def\<close>)
    qed
  qed
qed

section \<open>The properties of the suffix\<close>

text \<open>
  The five stages from the credential on are called in their order and at most once each, and the first
  error is the last call; the receipt holds a checkpoint for every called stage but possibly the last, and
  the run reports success exactly without an error and then with all five.
\<close>

theorem post_runtime_in_order:
  "case PostRuntimeOrchestration_Run cancelled (logged_post orchestration) (handoffs, outside, []) of ((receipt, err), _, _, calls) \<Rightarrow>
     map fst calls = take (length calls) postRuntimeStageOrder \<and> length calls \<le> 5
     \<and> list_all (\<lambda>c. snd c = None) (butlast calls)
     \<and> checkpoints_in postRuntimeStageOrder (pn_Checkpoints receipt)
     \<and> length (pn_Checkpoints receipt) \<le> length calls \<and> length calls \<le> Suc (length (pn_Checkpoints receipt))
     \<and> (if err = None then pn_State receipt = ''SUCCEEDED'' \<and> length (pn_Checkpoints receipt) = 5
          \<and> list_all (\<lambda>c. snd c = None) calls
        else pn_State receipt = ''STOPPED''
          \<and> validStoppedStage postRuntimeStageOrder (length (pn_Checkpoints receipt)) (pn_StoppedAt receipt))"
proof (cases "PostRuntimeOrchestration_Run cancelled (logged_post orchestration) (handoffs, outside, [])")
  case (fields result hs' u' calls)
  have "post_chain.ends calls_of (result, hs', u', calls)" using post_run_ends [of cancelled orchestration handoffs outside] fields by simp
  note j = post_chain.ends_journal [OF this, unfolded snd_conv orders]
  from j(4) show ?thesis
    using j(1-3) by (cases result) (auto simp: fields post_stopped_def post_succeeded_def clean_def orders list_all_iff)
qed

text \<open>
  C7: a credential that stage 8 hands over does not outlive the run. Once stage 8 of a complete
  orchestration returned a handoff, the handoff is consumed when the run returns, on every path: after an
  error of stage 8 itself, a rejected receipt, a stop at any later stage, the end of the context and success.
\<close>

theorem handoff_consumed:
  assumes "RunTargetCredential p = Some credential" "\<not> post_missing p" "\<not> cancelled w"
    and "credential w = (((r1, Some h), runErr), w1)"
    and "PostRuntimeOrchestration_Run cancelled p w = (result, w2)"
  shows "ho_Consumed (fst w2 h)"
proof -
  obtain f2 f3 f4 f5 where f: "RunTargetRegistration p = Some f2" "RunPlatformApplications p = Some f3"
    "RunPlatformObservation p = Some f4" "RunAggregateEvidence p = Some f5"
    using assms(2) by (auto simp: post_missing_def)
  obtain c e where c: "appendPostRuntimeCheckpoint post_start (postRuntimeStageOrder ! 0) StagedReceiptFormat (staged_run r1) = (c, e)"
    by (metis prod.exhaust)
  from assms(1) f assms(3,4) c show ?thesis
    by (cases rule: post_run_cases)
      (use assms(5) discard_facts(2) [of h w1] discard_facts(2) [of h "snd (post_suffix cancelled f2 f3 f4 f5 h r1 c w1)"] in auto)
qed

text \<open>Stage 8 hands a credential over, and stage 9 answers with the receipt of another stage.\<close>

definition staged_zero :: "string \<Rightarrow> StagedOperationReceipt" where
  "staged_zero stage = \<lparr>sor_Format = StagedReceiptFormat, sor_State = ''COMPLETED_SUCCEEDED'',
     sor_PlanDigest = sample_digest CHR ''a'', sor_StageID = stage, sor_Claim = None, sor_Outcome = None,
     sor_StageReceiptDigest = sample_digest CHR ''b'', sor_FailureCategory = [], sor_MismatchEvidence = None\<rparr>"

definition read_zero :: ObservationStageRunReceipt where
  "read_zero = \<lparr>rn_Format = [], rn_State = [], rn_PlanDigest = [], rn_StageID = [], rn_StageReceiptDigest = []\<rparr>"

definition sample_credential :: "((string, unit) runner_world, StagedOperationReceipt \<times> nat option) call" where
  "sample_credential w = (((staged_zero ''target-credential'', Some 4), None),
     (fst w)(4 := \<lparr>ho_Credential = Some ''t'', ho_Consumed = False\<rparr>), snd w)"

definition sample_suffix :: "((string, unit) runner_world) PostRuntimeOrchestration" where
  "sample_suffix = \<lparr>
     RunTargetCredential = Some sample_credential,
     RunTargetRegistration = Some (\<lambda>h r w. ((staged_zero ''target-access'', None), w)),
     RunPlatformApplications = Some (\<lambda>r w. ((staged_zero ''target-access'', None), w)),
     RunPlatformObservation = Some (\<lambda>r w. ((read_zero, None), w)),
     RunAggregateEvidence = Some (\<lambda>r w. ((read_zero, None), w))\<rparr>"

lemma handoff_consumed_witness:
  "ho_Consumed (fst (snd (PostRuntimeOrchestration_Run (\<lambda>_. False) sample_suffix
     (\<lambda>_. \<lparr>ho_Credential = None, ho_Consumed = True\<rparr>, ()))) 4)"
proof -
  let ?hs = "\<lambda>_. \<lparr>ho_Credential = None, ho_Consumed = True\<rparr> :: string TargetCredentialHandoff"
  obtain result w2 where r: "PostRuntimeOrchestration_Run (\<lambda>_. False) sample_suffix (?hs, ()) = (result, w2)"
    by (metis prod.exhaust)
  have "ho_Consumed (fst w2 4)"
    by (rule handoff_consumed [OF _ _ _ sample_credential_def r]) (simp_all add: sample_suffix_def post_missing_def)
  then show ?thesis by (simp add: r)
qed

end
