(* ===== verification/PlatformEvaluator.thy ===== *)
theory PlatformEvaluator
  imports Observation
begin

text \<open>
  The bounded evaluator of the platform (\<open>src/internal/observation/platform_evaluator.go\<close>): a profile of
  the Argo Applications that have to be there and of the capability proof, a snapshot of what was seen,
  and the one \<open>PlatformReady\<close> statement that follows. An absent status is not an error: what has not
  converged is Unknown, what contradicts the profile is False.
\<close>

definition PlatformProfileFormat :: string where "PlatformProfileFormat = ''ok147-platform-profile/v1''"
definition PlatformApplicationSnapshotFormat :: string where "PlatformApplicationSnapshotFormat = ''ok147-platform-application-snapshot/v1''"
definition PlatformSnapshotFormat :: string where "PlatformSnapshotFormat = ''ok147-platform-snapshot/v1''"
definition PlatformCapabilityFormat :: string where "PlatformCapabilityFormat = ''ok147-platform-capability/v1''"

section \<open>Data\<close>

record PlatformApplicationExpectation =
  ae_Name :: string
  ae_SpecDigest :: string

record PlatformProfile =
  pp_Format :: string
  pp_IntentRevision :: string
  pp_PlatformRevision :: string
  pp_ExecutionFixture :: string
  pp_TargetIdentityScheme :: string
  pp_ArgoNamespace :: string
  pp_RegistrationName :: string
  pp_RequiredApplications :: "PlatformApplicationExpectation slice"
  pp_CapabilityContractDigest :: string
  pp_CapabilityExecutableDigest :: string
  pp_MaximumCapabilityAgeSeconds :: int

record PlatformApplicationState =
  as_Name :: string
  as_UID :: string
  as_ResourceVersion :: string
  as_IntentRevision :: string
  as_PlatformRevision :: string
  as_ExecutionFixture :: string
  as_SpecDigest :: string
  as_DesiredSourceRevision :: string
  as_AppliedSourceRevision :: string
  as_SyncStatus :: string
  as_HealthStatus :: string

record PlatformApplicationSnapshot =
  aps_Format :: string
  aps_ObservedAt :: string
  aps_TargetClusterUID :: string
  aps_Applications :: "PlatformApplicationState slice"

record PlatformCapabilityState =
  pc_Format :: string
  pc_ObservedAt :: string
  pc_TargetClusterUID :: string
  pc_IntentRevision :: string
  pc_PlatformRevision :: string
  pc_ExecutionFixture :: string
  pc_ContractDigest :: string
  pc_ExecutableDigest :: string
  pc_Passed :: bool
  pc_EvidenceDigest :: string

record PlatformSnapshot =
  ps_Format :: string
  ps_ObservedAt :: string
  ps_TargetClusterUID :: string
  ps_Applications :: "PlatformApplicationState slice"
  ps_Capability :: PlatformCapabilityState

section \<open>JSON\<close>

definition enc_application_expectation :: "PlatformApplicationExpectation \<Rightarrow> json" where
  "enc_application_expectation a = struct [key ''name'' (JStr (ae_Name a)), key ''specDigest'' (JStr (ae_SpecDigest a))]"

definition enc_platform_profile :: "PlatformProfile \<Rightarrow> json" where
  "enc_platform_profile p = struct [key ''format'' (JStr (pp_Format p)), key ''intentRevision'' (JStr (pp_IntentRevision p)),
     key ''platformRevision'' (JStr (pp_PlatformRevision p)), key ''executionFixture'' (JStr (pp_ExecutionFixture p)),
     key ''targetIdentityScheme'' (JStr (pp_TargetIdentityScheme p)), key ''argoNamespace'' (JStr (pp_ArgoNamespace p)),
     key ''registrationName'' (JStr (pp_RegistrationName p)),
     key ''requiredApplications'' (JSlice enc_application_expectation (pp_RequiredApplications p)),
     key ''capabilityContractDigest'' (JStr (pp_CapabilityContractDigest p)),
     key ''capabilityExecutableDigest'' (JStr (pp_CapabilityExecutableDigest p)),
     key ''maximumCapabilityAgeSeconds'' (JInt (pp_MaximumCapabilityAgeSeconds p))]"

definition enc_application_state :: "PlatformApplicationState \<Rightarrow> json" where
  "enc_application_state a = struct [key ''name'' (JStr (as_Name a)), key ''uid'' (JStr (as_UID a)),
     key ''resourceVersion'' (JStr (as_ResourceVersion a)), key ''intentRevision'' (JStr (as_IntentRevision a)),
     key ''platformRevision'' (JStr (as_PlatformRevision a)), key ''executionFixture'' (JStr (as_ExecutionFixture a)),
     key ''specDigest'' (JStr (as_SpecDigest a)), key ''desiredSourceRevision'' (JStr (as_DesiredSourceRevision a)),
     key ''appliedSourceRevision'' (JStr (as_AppliedSourceRevision a)), key ''syncStatus'' (JStr (as_SyncStatus a)),
     key ''healthStatus'' (JStr (as_HealthStatus a))]"

definition enc_application_snapshot :: "PlatformApplicationSnapshot \<Rightarrow> json" where
  "enc_application_snapshot s = struct [key ''format'' (JStr (aps_Format s)), key ''observedAt'' (JStr (aps_ObservedAt s)),
     key ''targetClusterUid'' (JStr (aps_TargetClusterUID s)),
     key ''applications'' (JSlice enc_application_state (aps_Applications s))]"

definition enc_capability :: "PlatformCapabilityState \<Rightarrow> json" where
  "enc_capability c = struct [key ''format'' (JStr (pc_Format c)), key ''observedAt'' (JStr (pc_ObservedAt c)),
     key ''targetClusterUid'' (JStr (pc_TargetClusterUID c)), key ''intentRevision'' (JStr (pc_IntentRevision c)),
     key ''platformRevision'' (JStr (pc_PlatformRevision c)), key ''executionFixture'' (JStr (pc_ExecutionFixture c)),
     key ''contractDigest'' (JStr (pc_ContractDigest c)), key ''executableDigest'' (JStr (pc_ExecutableDigest c)),
     key ''passed'' (JBool (pc_Passed c)), key ''evidenceDigest'' (JStr (pc_EvidenceDigest c))]"

definition enc_platform_snapshot :: "PlatformSnapshot \<Rightarrow> json" where
  "enc_platform_snapshot s = struct [key ''format'' (JStr (ps_Format s)), key ''observedAt'' (JStr (ps_ObservedAt s)),
     key ''targetClusterUid'' (JStr (ps_TargetClusterUID s)),
     key ''applications'' (JSlice enc_application_state (ps_Applications s)),
     key ''capability'' (enc_capability (ps_Capability s))]"

text \<open>The anonymous struct that binds a profile and a snapshot.\<close>

definition enc_evidence_binding :: "string \<Rightarrow> string \<Rightarrow> string \<Rightarrow> json" where
  "enc_evidence_binding f profileDigest snapshotDigest = struct [key ''format'' (JStr f),
     key ''profileDigest'' (JStr profileDigest), key ''snapshotDigest'' (JStr snapshotDigest)]"

section \<open>The profile\<close>

text \<open>\<open>^[a-z0-9](?:[-a-z0-9]*[a-z0-9])?$\<close>, at most 63 bytes.\<close>

definition validDNSLabel :: "string \<Rightarrow> bool" where
  "validDNSLabel s \<longleftrightarrow> s \<noteq> '''' \<and> length s \<le> 63 \<and> is_lower_alnum (hd s) \<and> is_lower_alnum (last s)
     \<and> list_all (\<lambda>c. is_lower_alnum c \<or> c = CHR ''-'') s"

fun check_expectations :: "string list \<Rightarrow> PlatformApplicationExpectation list \<Rightarrow> unit result" where
  "check_expectations seen [] = Inr ()"
| "check_expectations seen (a # as) =
     (if \<not> validDNSLabel (ae_Name a) \<or> \<not> validDigest (ae_SpecDigest a) then
        Inl (New ''platform profile Application identity is invalid'')
      else if ae_Name a \<in> set seen then Inl (New ''platform profile contains a duplicate Application'')
      else check_expectations (ae_Name a # seen) as)"

definition ValidatePlatformProfile :: "PlatformProfile \<Rightarrow> unit result" where
  "ValidatePlatformProfile p =
     (if pp_Format p \<noteq> PlatformProfileFormat \<or> \<not> validDigest (pp_IntentRevision p) \<or> \<not> validDigest (pp_PlatformRevision p)
         \<or> \<not> validDigest (pp_ExecutionFixture p) \<or> pp_TargetIdentityScheme p \<noteq> ''capi-cluster-uid/v1'' then
        Inl (New ''platform profile format or revision identity is invalid'')
      else if \<not> validDNSLabel (pp_ArgoNamespace p) \<or> \<not> validDNSLabel (pp_RegistrationName p)
         \<or> elems (pp_RequiredApplications p) = [] \<or> length (elems (pp_RequiredApplications p)) > 20 then
        Inl (New ''platform profile target or Application set is invalid'')
      else bindE (check_expectations [] (elems (pp_RequiredApplications p))) (\<lambda>_.
      if \<not> validDigest (pp_CapabilityContractDigest p) \<or> \<not> validDigest (pp_CapabilityExecutableDigest p)
         \<or> pp_MaximumCapabilityAgeSeconds p < 60 \<or> pp_MaximumCapabilityAgeSeconds p > 86400 then
        Inl (New ''platform profile capability boundary is invalid'')
      else Inr ()))"

text \<open>\<open>append([]T(nil), xs...)\<close> followed by sorting: an empty list would become nil, but it was refused.\<close>

definition PlatformProfileDigest :: "PlatformProfile \<Rightarrow> string result" where
  "PlatformProfileDigest p =
     bindE (ValidatePlatformProfile p) (\<lambda>_.
     observation_canonicalDigest (enc_platform_profile
       (p\<lparr>pp_RequiredApplications := Some (sort_key ae_Name (elems (pp_RequiredApplications p)))\<rparr>)))"

definition validatePlatformProfile :: "Policy \<Rightarrow> PlatformProfile \<Rightarrow> unit result" where
  "validatePlatformProfile po p =
     bindE (ValidatePlatformProfile p) (\<lambda>_.
     if pp_IntentRevision p \<noteq> po_IntentRevision po \<or> pp_PlatformRevision p \<noteq> po_PlatformRevision po then
       Inl (New ''platform profile identity differs from observation policy'')
     else Inr ())"

section \<open>The shape of a snapshot\<close>

fun validatePlatformApplications :: "PlatformApplicationState list \<Rightarrow> unit result" where
  "validatePlatformApplications [] = Inr ()"
| "validatePlatformApplications (a # as) =
     (if \<not> validDNSLabel (as_Name a) \<or> \<not> validUID (as_UID a) \<or> as_ResourceVersion a = '''' \<or> \<not> validDigest (as_SpecDigest a) then
        Inl (New ''platform snapshot Application identity is invalid'')
      else if list_ex (\<lambda>r. r \<noteq> '''' \<and> \<not> validDigest r) [as_IntentRevision a, as_PlatformRevision a, as_ExecutionFixture a] then
        Inl (New ''platform snapshot Application revision is malformed'')
      else if length (as_DesiredSourceRevision a) > 128 \<or> length (as_AppliedSourceRevision a) > 128
         \<or> length (as_SyncStatus a) > 64 \<or> length (as_HealthStatus a) > 64 then
        Inl (New ''platform snapshot Application state is oversized'')
      else validatePlatformApplications as)"

definition PlatformCapabilityDigest :: "PlatformCapabilityState \<Rightarrow> string result" where
  "PlatformCapabilityDigest c = observation_canonicalDigest (enc_capability (c\<lparr>pc_EvidenceDigest := ''''\<rparr>))"

definition ValidatePlatformCapabilityState :: "PlatformCapabilityState \<Rightarrow> unit result" where
  "ValidatePlatformCapabilityState c =
     (if pc_Format c \<noteq> PlatformCapabilityFormat \<or> pc_ObservedAt c = '''' \<or> \<not> validUID (pc_TargetClusterUID c) then
        Inl (New ''platform capability identity is invalid'')
      else if parse_rfc3339 (pc_ObservedAt c) = None then Inl (New ''platform capability observation time is invalid'')
      else if list_ex (\<lambda>r. \<not> validDigest r) [pc_IntentRevision c, pc_PlatformRevision c, pc_ExecutionFixture c,
         pc_ContractDigest c, pc_ExecutableDigest c, pc_EvidenceDigest c] then
        Inl (New ''platform capability revision or evidence identity is invalid'')
      else if PlatformCapabilityDigest c \<noteq> Inr (pc_EvidenceDigest c) then
        Inl (New ''platform capability evidence digest is invalid'')
      else Inr ())"

definition validatePlatformSnapshotShape :: "PlatformSnapshot \<Rightarrow> unit result" where
  "validatePlatformSnapshotShape s =
     (if ps_Format s \<noteq> PlatformSnapshotFormat \<or> ps_ObservedAt s = '''' \<or> \<not> validUID (ps_TargetClusterUID s)
         \<or> length (elems (ps_Applications s)) > 20 then
        Inl (New ''platform snapshot identity or size is invalid'')
      else if parse_rfc3339 (ps_ObservedAt s) = None then Inl (New ''platform snapshot observation time is invalid'')
      else bindE (validatePlatformApplications (elems (ps_Applications s))) (\<lambda>_.
        ValidatePlatformCapabilityState (ps_Capability s)))"

definition validatePlatformApplicationSnapshotShape :: "PlatformApplicationSnapshot \<Rightarrow> unit result" where
  "validatePlatformApplicationSnapshotShape s =
     (if aps_Format s \<noteq> PlatformApplicationSnapshotFormat \<or> aps_ObservedAt s = '''' \<or> \<not> validUID (aps_TargetClusterUID s)
         \<or> length (elems (aps_Applications s)) > 20 then
        Inl (New ''platform Application snapshot identity or size is invalid'')
      else if parse_rfc3339 (aps_ObservedAt s) = None then
        Inl (New ''platform Application snapshot observation time is invalid'')
      else validatePlatformApplications (elems (aps_Applications s)))"
section \<open>Deciding\<close>

text \<open>
  The loop over the applications that were seen. \<open>expected\<close> is the map from required names to spec
  digests (a later entry of the profile would replace an earlier one), \<open>seen\<close> the names so far. A
  verdict is a status, a reason and the revision that was observed.
\<close>

fun check_applications ::
  "Policy \<Rightarrow> PlatformProfile \<Rightarrow> (string \<times> string) list \<Rightarrow> string list \<Rightarrow> PlatformApplicationState list \<Rightarrow> string \<times> string \<times> string" where
  "check_applications po p expected seen [] =
     (if length seen \<noteq> length (remdups (map fst expected)) then (''Unknown'', ''PlatformApplicationMissing'', '''')
      else (''True'', ''PlatformApplicationsReady'', po_PlatformRevision po))"
| "check_applications po p expected seen (a # as) =
     (if map_of (rev expected) (as_Name a) \<noteq> Some (as_SpecDigest a) then (''False'', ''PlatformApplicationIdentityMismatch'', '''')
      else if as_Name a \<in> set seen then (''False'', ''PlatformApplicationIdentityMismatch'', '''')
      else if as_IntentRevision a \<noteq> po_IntentRevision po \<or> as_PlatformRevision a \<noteq> po_PlatformRevision po
         \<or> as_ExecutionFixture a \<noteq> pp_ExecutionFixture p then (''Unknown'', ''RevisionCorrelationUnproven'', '''')
      else if as_DesiredSourceRevision a = '''' \<or> as_AppliedSourceRevision a \<noteq> as_DesiredSourceRevision a then
        (''Unknown'', ''PlatformConvergencePending'', po_PlatformRevision po)
      else if as_SyncStatus a \<noteq> ''Synced'' then (''Unknown'', ''PlatformConvergencePending'', po_PlatformRevision po)
      else if as_HealthStatus a = ''Healthy'' then check_applications po p expected (as_Name a # seen) as
      else if as_HealthStatus a = ''Progressing'' then (''Unknown'', ''PlatformConvergencePending'', po_PlatformRevision po)
      else (''False'', ''PlatformHealthFailed'', po_PlatformRevision po))"

definition evaluatePlatformApplications ::
  "Policy \<Rightarrow> PlatformProfile \<Rightarrow> string \<Rightarrow> PlatformApplicationState list \<Rightarrow> string \<times> string \<times> string" where
  "evaluatePlatformApplications po p target applications =
     (if target \<noteq> po_TargetClusterUID po then (''Unknown'', ''RevisionCorrelationUnproven'', '''')
      else check_applications po p (map (\<lambda>a. (ae_Name a, ae_SpecDigest a)) (elems (pp_RequiredApplications p))) [] applications)"

text \<open>
  \<open>t, _ := time.Parse(...)\<close> gives the zero time when the text is no instant. The product of the maximal
  age with a second stays far below \<open>2 ^ 63\<close>, as the profile was validated.
\<close>

definition parsed_time :: "string \<Rightarrow> time" where
  "parsed_time s = (case parse_rfc3339 s of None \<Rightarrow> 0 | Some t \<Rightarrow> t)"

definition evaluatePlatformState :: "Policy \<Rightarrow> PlatformProfile \<Rightarrow> PlatformSnapshot \<Rightarrow> string \<times> string \<times> string" where
  "evaluatePlatformState po p s =
     (let verdict = evaluatePlatformApplications po p (ps_TargetClusterUID s) (elems (ps_Applications s));
          c = ps_Capability s;
          age = sub_time (parsed_time (ps_ObservedAt s)) (parsed_time (pc_ObservedAt c))
      in if fst verdict \<noteq> ''True'' then verdict
         else if pc_TargetClusterUID c \<noteq> po_TargetClusterUID po \<or> pc_IntentRevision c \<noteq> po_IntentRevision po
            \<or> pc_PlatformRevision c \<noteq> po_PlatformRevision po \<or> pc_ExecutionFixture c \<noteq> pp_ExecutionFixture p
            \<or> pc_ContractDigest c \<noteq> pp_CapabilityContractDigest p \<or> pc_ExecutableDigest c \<noteq> pp_CapabilityExecutableDigest p then
           (''Unknown'', ''RevisionCorrelationUnproven'', '''')
         else if age < 0 \<or> age > pp_MaximumCapabilityAgeSeconds p * nanosecond_per_second then
           (''Unknown'', ''PlatformCapabilityStale'', po_PlatformRevision po)
         else if \<not> pc_Passed c then (''False'', ''PlatformCapabilityFailed'', po_PlatformRevision po)
         else (''True'', ''PlatformReady'', po_PlatformRevision po))"

section \<open>The statement\<close>

definition evidence_uid :: "string \<Rightarrow> string \<Rightarrow> string" where
  "evidence_uid name evidenceDigest = name @ take 32 (drop 7 evidenceDigest)"

definition normalized_evidence :: "string \<Rightarrow> Evidence \<Rightarrow> Evidence result" where
  "normalized_evidence label e = bindE (wrapE label (validateEvidenceShape e)) (\<lambda>_. Inr e)"

definition platform_evidence :: "Policy \<Rightarrow> string \<Rightarrow> string \<Rightarrow> string \<times> string \<times> string \<Rightarrow> Evidence" where
  "platform_evidence po name evidenceDigest verdict =
     \<lparr>ei_Type = ''PlatformReady'', ei_Source = ''BoundedPlatformEvaluator'', ei_SourceUID = evidence_uid name evidenceDigest,
      ei_TargetClusterUID = po_TargetClusterUID po, ei_Status = fst verdict, ei_Reason = fst (snd verdict),
      ei_DesiredRevision = po_PlatformRevision po, ei_ObservedRevision = snd (snd verdict),
      ei_Generation = 0, ei_ObservedGeneration = 0, ei_EvidenceDigest = evidenceDigest\<rparr>"

definition EvaluatePlatformSnapshot :: "Policy \<Rightarrow> PlatformProfile \<Rightarrow> PlatformSnapshot \<Rightarrow> Evidence result" where
  "EvaluatePlatformSnapshot po p s =
     bindE (validatePolicy po True) (\<lambda>_.
     bindE (validatePlatformProfile po p) (\<lambda>_.
     bindE (validatePlatformSnapshotShape s) (\<lambda>_.
     bindE (PlatformProfileDigest p) (\<lambda>profileDigest.
     bindE (observation_canonicalDigest (enc_platform_snapshot s)) (\<lambda>snapshotDigest.
     bindE (observation_canonicalDigest
       (enc_evidence_binding ''ok147-platform-evidence-binding/v1'' profileDigest snapshotDigest)) (\<lambda>evidenceDigest.
     normalized_evidence ''normalize PlatformReady evidence''
       (platform_evidence po ''platform-evidence-'' evidenceDigest (evaluatePlatformState po p s))))))))"

definition EvaluatePlatformApplications :: "Policy \<Rightarrow> PlatformProfile \<Rightarrow> PlatformApplicationSnapshot \<Rightarrow> Evidence result" where
  "EvaluatePlatformApplications po p s =
     bindE (validatePolicy po True) (\<lambda>_.
     bindE (validatePlatformProfile po p) (\<lambda>_.
     bindE (validatePlatformApplicationSnapshotShape s) (\<lambda>_.
     bindE (PlatformProfileDigest p) (\<lambda>profileDigest.
     bindE (observation_canonicalDigest (enc_application_snapshot s)) (\<lambda>snapshotDigest.
     bindE (observation_canonicalDigest
       (enc_evidence_binding ''ok147-platform-application-gate-binding/v1'' profileDigest snapshotDigest)) (\<lambda>evidenceDigest.
     normalized_evidence ''normalize platform Application gate evidence''
       (platform_evidence po ''platform-gate-'' evidenceDigest
         (evaluatePlatformApplications po p (aps_TargetClusterUID s) (elems (aps_Applications s))))))))))"

end
