(* ===== verification/Float64.thy ===== *)
theory Float64
  imports Complex_Main GoTime
begin

text \<open>
  The part of \<open>float64\<close> arithmetic that the network evaluator relies on: rounding of a rational to 53
  significant bits, ties to even, and \<open>Duration.Seconds\<close>. A finite float is the rational it stands
  for. Numbers from \<open>2 ^ -47\<close> to \<open>2 ^ 53\<close> are covered, which is everything an \<open>int64\<close> of nanoseconds
  or a bounded number of milliseconds becomes; in that range no float is subnormal and none overflows.
\<close>

section \<open>Rounding\<close>

definition round_even :: "rat \<Rightarrow> int" where
  "round_even x =
     (let f = floor x; d = x - of_int f
      in if d < 1 / 2 \<or> d = 1 / 2 \<and> even f then f else f + 1)"

text \<open>The power of two that brings a number into the 53 bits of the significand.\<close>

definition significand_shift :: "rat \<Rightarrow> nat option" where
  "significand_shift x = find (\<lambda>k. 2 ^ 52 \<le> \<bar>x\<bar> * 2 ^ k \<and> \<bar>x\<bar> * 2 ^ k < 2 ^ 53) [0..<100]"

definition float64 :: "rat \<Rightarrow> rat" where
  "float64 x = (case significand_shift x of None \<Rightarrow> x | Some k \<Rightarrow> of_int (round_even (x * 2 ^ k)) / 2 ^ k)"

text \<open>\<open>float64(i)\<close>, and the operators: the exact result, rounded.\<close>

definition float_of :: "int \<Rightarrow> rat" where
  "float_of i = float64 (of_int i)"

definition float_add :: "rat \<Rightarrow> rat \<Rightarrow> rat" where
  "float_add x y = float64 (x + y)"

definition float_div :: "rat \<Rightarrow> rat \<Rightarrow> rat" where
  "float_div x y = float64 (x / y)"

text \<open>Go's \<open>/\<close> and \<open>%\<close> on integers truncate towards zero.\<close>

definition go_div :: "int \<Rightarrow> int \<Rightarrow> int" where
  "go_div a b = sgn a * sgn b * (\<bar>a\<bar> div \<bar>b\<bar>)"

definition go_mod :: "int \<Rightarrow> int \<Rightarrow> int" where
  "go_mod a b = a - go_div a b * b"

text \<open>\<open>func (d Duration) Seconds() float64\<close>: whole seconds and the rest, converted one by one.\<close>

definition seconds :: "int \<Rightarrow> rat" where
  "seconds d = float_add (float_of (go_div d nanosecond_per_second))
     (float_div (float_of (go_mod d nanosecond_per_second)) 1000000000)"

section \<open>The rounding error\<close>

lemma round_even_near: "\<bar>of_int (round_even x) - x\<bar> \<le> 1 / 2"
proof -
  have "of_int (floor x) \<le> x" "x < of_int (floor x) + 1" by linarith+
  then show ?thesis by (auto simp: round_even_def Let_def)
qed

lemma round_even_int [simp]: "round_even (of_int i) = i"
  by (simp add: round_even_def)

lemma float64_error: "\<bar>float64 x - x\<bar> \<le> \<bar>x\<bar> / 2 ^ 53"
proof (cases "significand_shift x")
  case (Some k)
  then have "2 ^ 52 \<le> \<bar>x\<bar> * 2 ^ k" by (auto simp: significand_shift_def find_Some_iff)
  then have "1 / 2 \<le> \<bar>x\<bar> * 2 ^ k / 2 ^ 53" by simp
  moreover have "\<bar>of_int (round_even (x * 2 ^ k)) - x * 2 ^ k\<bar> \<le> 1 / 2" by (rule round_even_near)
  ultimately have "\<bar>of_int (round_even (x * 2 ^ k)) - x * 2 ^ k\<bar> \<le> \<bar>x\<bar> * 2 ^ k / 2 ^ 53" by linarith
  moreover have "of_int (round_even (x * 2 ^ k)) - x * 2 ^ k = (float64 x - x) * 2 ^ k"
    using Some by (simp add: float64_def algebra_simps)
  ultimately have "\<bar>float64 x - x\<bar> * 2 ^ k \<le> \<bar>x\<bar> / 2 ^ 53 * 2 ^ k" by (simp add: abs_mult)
  then show ?thesis by (rule mult_right_le_imp_le) simp
qed (simp add: float64_def)

lemma float64_int [simp]: "float64 (of_int i) = of_int i"
proof (cases "significand_shift (of_int i :: rat)")
  case (Some k)
  have "(of_int i * 2 ^ k :: rat) = of_int (i * 2 ^ k)" by simp
  then have "round_even (of_int i * 2 ^ k) = i * 2 ^ k" by (simp only: round_even_int)
  then show ?thesis using Some by (simp add: float64_def)
qed (simp add: float64_def)

lemma float_of_eq [simp]: "float_of i = of_int i"
  by (simp add: float_of_def)

lemma go_div_mod: "go_div a b * b + go_mod a b = a"
  by (simp add: go_mod_def)

lemma go_mod_bound: "0 < b \<Longrightarrow> \<bar>go_mod a b\<bar> < b"
proof -
  assume b: "0 < b"
  have "\<bar>a\<bar> - \<bar>a\<bar> div b * b = \<bar>a\<bar> mod b" by (metis minus_div_mult_eq_mod)
  moreover have "go_mod a b = sgn a * (\<bar>a\<bar> - \<bar>a\<bar> div b * b)"
    using b by (cases "a = 0") (simp_all add: go_mod_def go_div_def algebra_simps sgn_if)
  ultimately show ?thesis using b by (simp add: abs_mult sgn_if)
qed

lemma seconds_error: "\<bar>seconds d - of_int d / 1000000000\<bar> \<le> (\<bar>of_int d\<bar> / 1000000000 + 3) / 2 ^ 52"
proof -
  let ?q = "go_div d nanosecond_per_second" and ?m = "go_mod d nanosecond_per_second"
  define y :: rat where "y = of_int ?m / 1000000000"
  define x :: rat where "x = of_int ?q + y"
  have "of_int d = (of_int (?q * nanosecond_per_second + ?m) :: rat)" by (simp only: go_div_mod)
  then have x: "of_int d / 1000000000 = x" by (simp add: x_def y_def nanosecond_per_second_def field_simps)
  have "\<bar>?m\<bar> < nanosecond_per_second" by (rule go_mod_bound) (simp add: nanosecond_per_second_def)
  then have "\<bar>of_int ?m :: rat\<bar> < 1000000000" by (simp add: nanosecond_per_second_def)
  then have y: "\<bar>y\<bar> < 1" by (simp add: y_def)
  have s: "seconds d = float64 (of_int ?q + float64 y)"
    by (simp add: seconds_def float_add_def float_div_def y_def)
  have 1: "\<bar>float64 y - y\<bar> \<le> 1 / 2 ^ 53" using float64_error [of y] y by (simp add: divide_right_mono order_trans)
  have 2: "\<bar>float64 (of_int ?q + float64 y) - (of_int ?q + float64 y)\<bar> \<le> \<bar>of_int ?q + float64 y\<bar> / 2 ^ 53"
    by (rule float64_error)
  have "(1 :: rat) / 2 ^ 53 \<le> 1" by simp
  then have "\<bar>of_int ?q + float64 y\<bar> \<le> \<bar>x\<bar> + 1" using 1 unfolding x_def by linarith
  then have "\<bar>of_int ?q + float64 y\<bar> / 2 ^ 53 \<le> (\<bar>x\<bar> + 1) / 2 ^ 53" by (rule divide_right_mono) simp
  with 1 2 have "\<bar>seconds d - x\<bar> \<le> (\<bar>x\<bar> + 1) / 2 ^ 53 + 1 / 2 ^ 53" unfolding s x_def by linarith
  also have "\<dots> \<le> (\<bar>x\<bar> + 3) / 2 ^ 52" by (simp add: field_simps)
  also have "\<bar>x\<bar> = \<bar>of_int d\<bar> / 1000000000" unfolding x [symmetric] by simp
  finally show ?thesis unfolding x .
qed

end
