(* ===== verification/NetworkEvaluator.thy ===== *)
theory NetworkEvaluator
  imports PlatformEvaluator Float64
begin

text \<open>
  The bounded evaluator of the network (\<open>src/internal/observation/network_evaluator.go\<close>): a profile of
  what the enablement has to bring up, a redaction-safe snapshot of the two add-on objects, the nodes,
  the Cilium components, their pods and the probe results, and the one \<open>NetworkReady\<close> statement that
  follows. Ages are compared as \<open>float64\<close> seconds, as the code does.
\<close>

definition NetworkProfileFormat :: string where "NetworkProfileFormat = ''ok147-network-profile/v1''"
definition NetworkSnapshotFormat :: string where "NetworkSnapshotFormat = ''ok147-network-snapshot/v1''"
definition maximumAdvertisedProbeIntervalSeconds :: int where "maximumAdvertisedProbeIntervalSeconds = 300"
definition probePublicationAllowanceSeconds :: int where "probePublicationAllowanceSeconds = 60"
definition probeSchedulingClockToleranceSeconds :: int where "probeSchedulingClockToleranceSeconds = 10"

section \<open>Data\<close>

record NetworkImages =
  im_CiliumAgent :: string
  im_CiliumEnvoy :: string
  im_CiliumOperator :: string

record NetworkProfile =
  np_Format :: string
  np_IntentRevision :: string
  np_EnablementRevision :: string
  np_ExpectedNodeCount :: int
  np_ExpectedHCPSpecDigest :: string
  np_ExpectedHRPSpecDigest :: string
  np_ExpectedImages :: NetworkImages
  np_MinimumProbeFreshnessSeconds :: int
  np_MaximumProbeIntervalSeconds :: int
  np_CacheExposureSeconds :: int

record NetworkSourceCondition =
  nc_Type :: string
  nc_Status :: string
  nc_ObservedGeneration :: int

record NetworkAddonSource =
  na_UID :: string
  na_Generation :: int
  na_StatusObservedGeneration :: int
  na_SpecDigest :: string
  na_IntentRevision :: string
  na_EnablementRevision :: string
  na_OwnerUID :: string
  na_TargetClusterUID :: string
  na_TargetSelected :: bool
  na_ReleaseStatus :: string
  na_ReleaseRevision :: int
  na_Conditions :: "NetworkSourceCondition slice"

record NetworkNode =
  nn_UID :: string
  nn_ProviderID :: string
  nn_Ready :: string
  nn_NetworkUnavailable :: string
  nn_NetworkUnavailableReason :: string

record NetworkComponent =
  nw_ID :: string
  nw_UID :: string
  nw_Generation :: int
  nw_ObservedGeneration :: int
  nw_Desired :: int
  nw_Updated :: int
  nw_Available :: int
  nw_Ready :: int
  nw_Image :: string

record NetworkAgentPod =
  ap_UID :: string
  ap_NodeUID :: string
  ap_Phase :: string
  ap_Ready :: bool

record NetworkProbePath =
  pt_NodeUID :: string
  pt_Scope :: string
  pt_Protocol :: string
  pt_StatusPresent :: bool
  pt_Status :: string
  pt_LastProbed :: string

record NetworkProbe =
  nb_ResponseTimestamp :: string
  nb_ProbeIntervalMilliseconds :: int
  nb_Paths :: "NetworkProbePath slice"

record NetworkSnapshot =
  ns_Format :: string
  ns_ObservedAt :: string
  ns_TargetClusterUID :: string
  ns_IntentRevision :: string
  ns_EnablementRevision :: string
  ns_HCP :: NetworkAddonSource
  ns_HRPCount :: int
  ns_HRP :: NetworkAddonSource
  ns_Nodes :: "NetworkNode slice"
  ns_Components :: "NetworkComponent slice"
  ns_AgentPods :: "NetworkAgentPod slice"
  ns_Probe :: NetworkProbe

section \<open>JSON\<close>

definition enc_images :: "NetworkImages \<Rightarrow> json" where
  "enc_images i = struct [key ''ciliumAgent'' (JStr (im_CiliumAgent i)), key ''ciliumEnvoy'' (JStr (im_CiliumEnvoy i)),
     key ''ciliumOperator'' (JStr (im_CiliumOperator i))]"

definition enc_network_profile :: "NetworkProfile \<Rightarrow> json" where
  "enc_network_profile p = struct [key ''format'' (JStr (np_Format p)), key ''intentRevision'' (JStr (np_IntentRevision p)),
     key ''enablementRevision'' (JStr (np_EnablementRevision p)), key ''expectedNodeCount'' (JInt (np_ExpectedNodeCount p)),
     key ''expectedHcpSpecDigest'' (JStr (np_ExpectedHCPSpecDigest p)),
     key ''expectedHrpSpecDigest'' (JStr (np_ExpectedHRPSpecDigest p)), key ''expectedImages'' (enc_images (np_ExpectedImages p)),
     key ''minimumProbeFreshnessSeconds'' (JInt (np_MinimumProbeFreshnessSeconds p)),
     key ''maximumProbeIntervalSeconds'' (JInt (np_MaximumProbeIntervalSeconds p)),
     key ''cacheExposureSeconds'' (JInt (np_CacheExposureSeconds p))]"

definition enc_source_condition :: "NetworkSourceCondition \<Rightarrow> json" where
  "enc_source_condition c = struct [key ''type'' (JStr (nc_Type c)), key ''status'' (JStr (nc_Status c)),
     key ''observedGeneration'' (JInt (nc_ObservedGeneration c))]"

definition enc_addon_source :: "NetworkAddonSource \<Rightarrow> json" where
  "enc_addon_source a = struct [key ''uid'' (JStr (na_UID a)), key ''generation'' (JInt (na_Generation a)),
     key ''statusObservedGeneration'' (JInt (na_StatusObservedGeneration a)), key ''specDigest'' (JStr (na_SpecDigest a)),
     key ''intentRevision'' (JStr (na_IntentRevision a)), key ''enablementRevision'' (JStr (na_EnablementRevision a)),
     optkey ''ownerUid'' (JStr (na_OwnerUID a)), key ''targetClusterUid'' (JStr (na_TargetClusterUID a)),
     key ''targetSelected'' (JBool (na_TargetSelected a)), optkey ''releaseStatus'' (JStr (na_ReleaseStatus a)),
     optkey ''releaseRevision'' (JInt (na_ReleaseRevision a)), key ''conditions'' (JSlice enc_source_condition (na_Conditions a))]"

definition enc_node :: "NetworkNode \<Rightarrow> json" where
  "enc_node n = struct [key ''uid'' (JStr (nn_UID n)), key ''providerId'' (JStr (nn_ProviderID n)),
     key ''ready'' (JStr (nn_Ready n)), key ''networkUnavailable'' (JStr (nn_NetworkUnavailable n)),
     key ''networkUnavailableReason'' (JStr (nn_NetworkUnavailableReason n))]"

definition enc_component :: "NetworkComponent \<Rightarrow> json" where
  "enc_component c = struct [key ''id'' (JStr (nw_ID c)), key ''uid'' (JStr (nw_UID c)), key ''generation'' (JInt (nw_Generation c)),
     key ''observedGeneration'' (JInt (nw_ObservedGeneration c)), key ''desired'' (JInt (nw_Desired c)),
     key ''updated'' (JInt (nw_Updated c)), key ''available'' (JInt (nw_Available c)), key ''ready'' (JInt (nw_Ready c)),
     key ''image'' (JStr (nw_Image c))]"

definition enc_agent_pod :: "NetworkAgentPod \<Rightarrow> json" where
  "enc_agent_pod p = struct [key ''uid'' (JStr (ap_UID p)), key ''nodeUid'' (JStr (ap_NodeUID p)),
     key ''phase'' (JStr (ap_Phase p)), key ''ready'' (JBool (ap_Ready p))]"

definition enc_probe_path :: "NetworkProbePath \<Rightarrow> json" where
  "enc_probe_path p = struct [key ''nodeUid'' (JStr (pt_NodeUID p)), key ''scope'' (JStr (pt_Scope p)),
     key ''protocol'' (JStr (pt_Protocol p)), key ''statusPresent'' (JBool (pt_StatusPresent p)),
     optkey ''status'' (JStr (pt_Status p)), key ''lastProbed'' (JStr (pt_LastProbed p))]"

definition enc_probe :: "NetworkProbe \<Rightarrow> json" where
  "enc_probe p = struct [key ''responseTimestamp'' (JStr (nb_ResponseTimestamp p)),
     key ''probeIntervalMilliseconds'' (JInt (nb_ProbeIntervalMilliseconds p)),
     key ''paths'' (JSlice enc_probe_path (nb_Paths p))]"

definition enc_network_snapshot :: "NetworkSnapshot \<Rightarrow> json" where
  "enc_network_snapshot s = struct [key ''format'' (JStr (ns_Format s)), key ''observedAt'' (JStr (ns_ObservedAt s)),
     key ''targetClusterUid'' (JStr (ns_TargetClusterUID s)), key ''intentRevision'' (JStr (ns_IntentRevision s)),
     key ''enablementRevision'' (JStr (ns_EnablementRevision s)), key ''hcp'' (enc_addon_source (ns_HCP s)),
     key ''hrpCount'' (JInt (ns_HRPCount s)), key ''hrp'' (enc_addon_source (ns_HRP s)),
     key ''nodes'' (JSlice enc_node (ns_Nodes s)), key ''components'' (JSlice enc_component (ns_Components s)),
     key ''agentPods'' (JSlice enc_agent_pod (ns_AgentPods s)), key ''probe'' (enc_probe (ns_Probe s))]"

section \<open>The profile\<close>

definition validPinnedImage :: "string \<Rightarrow> bool" where
  "validPinnedImage value \<longleftrightarrow>
     (let i = length value - 72
      in length value > 72 \<and> take 8 (drop i value) = ''@sha256:'' \<and> validDigest (''sha256:'' @ drop (i + 8) value))"

definition ValidateNetworkProfile :: "NetworkProfile \<Rightarrow> unit result" where
  "ValidateNetworkProfile p =
     (if np_Format p \<noteq> NetworkProfileFormat \<or> \<not> validDigest (np_IntentRevision p) \<or> \<not> validDigest (np_EnablementRevision p) then
        Inl (New ''network profile format or revision identity is invalid'')
      else if np_ExpectedNodeCount p < 1 \<or> np_ExpectedNodeCount p > 100 \<or> \<not> validDigest (np_ExpectedHCPSpecDigest p)
         \<or> \<not> validDigest (np_ExpectedHRPSpecDigest p) then
        Inl (New ''network profile object expectations are invalid'')
      else if list_ex (\<lambda>image. \<not> validPinnedImage image) [im_CiliumAgent (np_ExpectedImages p),
         im_CiliumEnvoy (np_ExpectedImages p), im_CiliumOperator (np_ExpectedImages p)] then
        Inl (New ''network profile contains a mutable or invalid image'')
      else if np_MinimumProbeFreshnessSeconds p < 30 \<or> np_MinimumProbeFreshnessSeconds p > 600
         \<or> np_MaximumProbeIntervalSeconds p < 30 \<or> np_MaximumProbeIntervalSeconds p > 600
         \<or> np_CacheExposureSeconds p < 0 \<or> np_CacheExposureSeconds p > 300 then
        Inl (New ''network profile probe freshness boundary is invalid'')
      else Inr ())"

definition validateNetworkProfile :: "Policy \<Rightarrow> NetworkProfile \<Rightarrow> unit result" where
  "validateNetworkProfile po p =
     (if np_Format p \<noteq> NetworkProfileFormat \<or> np_IntentRevision p \<noteq> po_IntentRevision po
         \<or> np_EnablementRevision p \<noteq> po_EnablementRevision po then
        Inl (New ''network profile identity differs from observation policy'')
      else ValidateNetworkProfile p)"

definition NetworkProfileDigest :: "NetworkProfile \<Rightarrow> string result" where
  "NetworkProfileDigest p =
     bindE (ValidateNetworkProfile p) (\<lambda>_. observation_canonicalDigest (enc_network_profile p))"

definition validateNetworkSnapshotShape :: "NetworkSnapshot \<Rightarrow> unit result" where
  "validateNetworkSnapshotShape s =
     (if ns_Format s \<noteq> NetworkSnapshotFormat \<or> \<not> validUID (ns_TargetClusterUID s) \<or> ns_ObservedAt s = '''' then
        Inl (New ''network snapshot identity is invalid'')
      else if parse_rfc3339 (ns_ObservedAt s) = None then Inl (New ''network snapshot observation time is invalid'')
      else if ns_IntentRevision s \<noteq> '''' \<and> \<not> validDigest (ns_IntentRevision s)
         \<or> ns_EnablementRevision s \<noteq> '''' \<and> \<not> validDigest (ns_EnablementRevision s) then
        Inl (New ''network snapshot revision is malformed'')
      else if ns_HRPCount s < 0 \<or> ns_HRPCount s > 10 \<or> length (elems (ns_Nodes s)) > 100
         \<or> length (elems (ns_Components s)) > 10 \<or> length (elems (ns_AgentPods s)) > 100
         \<or> length (elems (nb_Paths (ns_Probe s))) > 400 then
        Inl (New ''network snapshot exceeds bounded collection limits'')
      else if length (elems (na_Conditions (ns_HCP s))) > 16 \<or> length (elems (na_Conditions (ns_HRP s))) > 16 then
        Inl (New ''network snapshot exceeds bounded Condition limits'')
      else if list_ex (\<lambda>n. length (nn_ProviderID n) > 512) (elems (ns_Nodes s)) then
        Inl (New ''network snapshot contains an oversized provider identity'')
      else if list_ex (\<lambda>c. length (nw_ID c) > 64 \<or> length (nw_Image c) > 1024) (elems (ns_Components s)) then
        Inl (New ''network snapshot contains oversized component identity'')
      else Inr ())"
section \<open>Deciding\<close>

text \<open>
  A verdict is a status and a reason. The first verdict other than True ends the evaluation, so the
  parts are composed like fallible steps whose error is the verdict.
\<close>

type_synonym verdict = "string \<times> string"

definition unless_true :: "verdict \<Rightarrow> verdict + unit" where
  "unless_true v = (if fst v \<noteq> ''True'' then Inl v else Inr ())"

definition final_verdict :: "verdict + verdict \<Rightarrow> verdict" where
  "final_verdict r = (case r of Inl v \<Rightarrow> v | Inr v \<Rightarrow> v)"

definition evaluateAddonSource ::
  "NetworkAddonSource \<Rightarrow> string \<Rightarrow> string \<Rightarrow> string \<Rightarrow> Policy \<Rightarrow> string list \<Rightarrow> string \<Rightarrow> verdict" where
  "evaluateAddonSource a targetUID ownerUID specDigest po required reasonPrefix =
     (if \<not> validUID (na_UID a) \<or> na_SpecDigest a \<noteq> specDigest \<or> na_IntentRevision a \<noteq> po_IntentRevision po
         \<or> na_EnablementRevision a \<noteq> po_EnablementRevision po \<or> na_TargetClusterUID a \<noteq> targetUID \<or> na_OwnerUID a \<noteq> ownerUID then
        (''False'', reasonPrefix @ ''IdentityMismatch'')
      else if na_Generation a \<le> 0 \<or> na_StatusObservedGeneration a \<noteq> na_Generation a then
        (''Unknown'', reasonPrefix @ ''NotReady'')
      else if \<not> na_TargetSelected a then (''False'', reasonPrefix @ ''IdentityMismatch'')
      else if \<not> distinct (map nc_Type (elems (na_Conditions a))) then (''False'', reasonPrefix @ ''IdentityMismatch'')
      else if list_ex (\<lambda>name. case map_of (map (\<lambda>c. (nc_Type c, c)) (elems (na_Conditions a))) name of
             None \<Rightarrow> True
           | Some c \<Rightarrow> nc_Status c \<noteq> ''True'' \<or> nc_ObservedGeneration c \<noteq> na_Generation a) required then
        (''Unknown'', reasonPrefix @ ''NotReady'')
      else (''True'', reasonPrefix @ ''Ready''))"

text \<open>The loop over the nodes; \<open>uids\<close> and \<open>providers\<close> are the two sets, the result is the set of UIDs.\<close>

fun check_nodes :: "string list \<Rightarrow> string list \<Rightarrow> NetworkNode list \<Rightarrow> verdict + string list" where
  "check_nodes uids providers [] = Inr uids"
| "check_nodes uids providers (n # ns) =
     (if \<not> validUID (nn_UID n) \<or> nn_ProviderID n = '''' then Inl (''False'', ''NodeIdentityInvalid'')
      else if nn_UID n \<in> set uids then Inl (''False'', ''NodeIdentityInvalid'')
      else if nn_ProviderID n \<in> set providers then Inl (''False'', ''NodeIdentityInvalid'')
      else if nn_Ready n \<noteq> ''True'' \<or> nn_NetworkUnavailable n \<noteq> ''False'' \<or> nn_NetworkUnavailableReason n \<noteq> ''CiliumIsUp'' then
        Inl (''Unknown'', ''NodeNetworkNotReady'')
      else check_nodes (nn_UID n # uids) (nn_ProviderID n # providers) ns)"

definition expected_components :: "NetworkProfile \<Rightarrow> (string \<times> int \<times> string) list" where
  "expected_components p =
     [(''cilium-agent'', np_ExpectedNodeCount p, im_CiliumAgent (np_ExpectedImages p)),
      (''cilium-envoy'', np_ExpectedNodeCount p, im_CiliumEnvoy (np_ExpectedImages p)),
      (''cilium-operator'', 1, im_CiliumOperator (np_ExpectedImages p))]"

fun check_components :: "NetworkProfile \<Rightarrow> string list \<Rightarrow> NetworkComponent list \<Rightarrow> verdict" where
  "check_components p seen [] = (''True'', ''CiliumRolloutReady'')"
| "check_components p seen (c # cs) =
     (case map_of (expected_components p) (nw_ID c) of
        None \<Rightarrow> (''False'', ''CiliumComponentIdentityInvalid'')
      | Some (desired, wanted) \<Rightarrow>
          if nw_ID c \<in> set seen then (''False'', ''CiliumComponentIdentityInvalid'')
          else if \<not> validUID (nw_UID c) \<or> nw_Generation c \<le> 0 \<or> nw_ObservedGeneration c \<noteq> nw_Generation c
             \<or> nw_Desired c \<noteq> desired \<or> nw_Updated c \<noteq> desired \<or> nw_Available c \<noteq> desired \<or> nw_Ready c \<noteq> desired then
            (''Unknown'', ''CiliumRolloutNotReady'')
          else if nw_Image c \<noteq> wanted then (''False'', ''CiliumImageMismatch'')
          else check_components p (nw_ID c # seen) cs)"

definition evaluateNetworkComponents :: "NetworkProfile \<Rightarrow> NetworkComponent list \<Rightarrow> verdict" where
  "evaluateNetworkComponents p components =
     (if length components \<noteq> length (expected_components p) then (''Unknown'', ''CiliumRolloutNotReady'')
      else check_components p [] components)"

fun check_pods :: "string list \<Rightarrow> string list \<Rightarrow> NetworkAgentPod list \<Rightarrow> verdict + string list" where
  "check_pods nodeUIDs podNodes [] = Inr podNodes"
| "check_pods nodeUIDs podNodes (p # ps) =
     (if \<not> validUID (ap_UID p) \<or> ap_Phase p \<noteq> ''Running'' \<or> \<not> ap_Ready p then Inl (''Unknown'', ''CiliumAgentPodsNotReady'')
      else if ap_NodeUID p \<notin> set nodeUIDs then Inl (''False'', ''CiliumNodeCoverageInvalid'')
      else if ap_NodeUID p \<in> set podNodes then Inl (''False'', ''CiliumNodeCoverageInvalid'')
      else check_pods nodeUIDs (ap_NodeUID p # podNodes) ps)"

section \<open>Probes\<close>

text \<open>\<open>probeIntervalSeconds + allowance + tolerance\<close>, one operator after the other.\<close>

definition maximum_age :: "int \<Rightarrow> rat" where
  "maximum_age milliseconds =
     float_add (float_add (float_div (float_of milliseconds) 1000) (of_int probePublicationAllowanceSeconds))
       (of_int probeSchedulingClockToleranceSeconds)"

definition probe_stale :: "int \<Rightarrow> int \<Rightarrow> bool" where
  "probe_stale milliseconds age \<longleftrightarrow>
     seconds age < - of_int probeSchedulingClockToleranceSeconds \<or> seconds age > maximum_age milliseconds"

definition path_key :: "NetworkProbePath \<Rightarrow> string" where
  "path_key p = pt_NodeUID p @ ''/'' @ pt_Scope p @ ''/'' @ pt_Protocol p"

fun check_paths :: "string list \<Rightarrow> time \<Rightarrow> int \<Rightarrow> NetworkProbePath list \<Rightarrow> verdict + unit" where
  "check_paths nodeUIDs observedAt milliseconds [] = Inr ()"
| "check_paths nodeUIDs observedAt milliseconds (p # ps) =
     (if pt_NodeUID p \<notin> set nodeUIDs \<or> pt_Scope p \<noteq> ''host'' \<and> pt_Scope p \<noteq> ''health-endpoint''
         \<or> pt_Protocol p \<noteq> ''http'' \<and> pt_Protocol p \<noteq> ''icmp'' then
        Inl (''False'', ''FunctionalProbeCoverageInvalid'')
      else if \<not> pt_StatusPresent p \<and> pt_Status p \<noteq> '''' then Inl (''False'', ''FunctionalProbeInvalid'')
      else if pt_StatusPresent p \<and> pt_Status p \<noteq> '''' then Inl (''False'', ''FunctionalProbeFailed'')
      else (case parse_rfc3339 (pt_LastProbed p) of
          None \<Rightarrow> Inl (''False'', ''FunctionalProbeInvalid'')
        | Some lastProbed \<Rightarrow>
            if probe_stale milliseconds (sub_time observedAt lastProbed) then Inl (''False'', ''FunctionalProbeStale'')
            else check_paths nodeUIDs observedAt milliseconds ps))"

definition evaluateNetworkProbe :: "NetworkSnapshot \<Rightarrow> string list \<Rightarrow> verdict" where
  "evaluateNetworkProbe s nodeUIDs =
     (let probe = ns_Probe s; paths = elems (nb_Paths probe); milliseconds = nb_ProbeIntervalMilliseconds probe;
          observedAt = parsed_time (ns_ObservedAt s)
      in if nb_ResponseTimestamp probe = '''' \<and> milliseconds = 0 \<and> paths = [] then (''Unknown'', ''FunctionalProbePending'')
         else (case parse_rfc3339 (nb_ResponseTimestamp probe) of
             None \<Rightarrow> (''False'', ''FunctionalProbeInvalid'')
           | Some responseAt \<Rightarrow>
               if milliseconds \<le> 0 \<or> milliseconds > maximumAdvertisedProbeIntervalSeconds * 1000 then
                 (''False'', ''FunctionalProbeInvalid'')
               else if probe_stale milliseconds (sub_time observedAt responseAt) then (''False'', ''FunctionalProbeStale'')
               else if length paths \<noteq> length nodeUIDs * 4 then (''False'', ''FunctionalProbeCoverageInvalid'')
               else final_verdict (bindE (check_paths nodeUIDs observedAt milliseconds paths) (\<lambda>_.
                 let seen = sort (map path_key paths)
                 in Inr (if list_ex (\<lambda>i. seen ! i = seen ! (i - 1)) [1..<length seen] then
                      (''False'', ''FunctionalProbeCoverageInvalid'')
                    else (''True'', ''NetworkReady''))))))"

definition evaluateNetworkState :: "Policy \<Rightarrow> NetworkProfile \<Rightarrow> NetworkSnapshot \<Rightarrow> verdict" where
  "evaluateNetworkState po p s =
     (if ns_TargetClusterUID s \<noteq> po_TargetClusterUID po \<or> ns_IntentRevision s \<noteq> po_IntentRevision po
         \<or> ns_EnablementRevision s \<noteq> po_EnablementRevision po then
        (''Unknown'', ''RevisionCorrelationUnproven'')
      else final_verdict (
        bindE (unless_true (evaluateAddonSource (ns_HCP s) (ns_TargetClusterUID s) '''' (np_ExpectedHCPSpecDigest p) po
          [''Ready'', ''HelmReleaseProxySpecsUpToDate'', ''HelmReleaseProxiesReady''] ''EnablementOwner'')) (\<lambda>_.
        if ns_HRPCount s \<noteq> 1 then Inl (''Unknown'', ''EnablementReleaseNotReady'')
        else bindE (unless_true (evaluateAddonSource (ns_HRP s) (ns_TargetClusterUID s) (na_UID (ns_HCP s))
          (np_ExpectedHRPSpecDigest p) po [''Ready'', ''HelmReleaseReady''] ''EnablementRelease'')) (\<lambda>_.
        if na_ReleaseStatus (ns_HRP s) \<noteq> ''deployed'' \<or> na_ReleaseRevision (ns_HRP s) < 1 then
          Inl (''Unknown'', ''EnablementReleaseNotReady'')
        else if int (length (elems (ns_Nodes s))) \<noteq> np_ExpectedNodeCount p then Inl (''Unknown'', ''NodeInventoryNotReady'')
        else bindE (check_nodes [] [] (elems (ns_Nodes s))) (\<lambda>nodeUIDs.
        bindE (unless_true (evaluateNetworkComponents p (elems (ns_Components s)))) (\<lambda>_.
        if int (length (elems (ns_AgentPods s))) \<noteq> np_ExpectedNodeCount p then Inl (''Unknown'', ''CiliumAgentPodsNotReady'')
        else bindE (check_pods nodeUIDs [] (elems (ns_AgentPods s))) (\<lambda>podNodes.
        if length podNodes \<noteq> length nodeUIDs then Inl (''False'', ''CiliumNodeCoverageInvalid'')
        else Inr (evaluateNetworkProbe s nodeUIDs))))))))"

section \<open>The statement\<close>

definition network_evidence :: "Policy \<Rightarrow> string \<Rightarrow> string \<Rightarrow> verdict \<Rightarrow> Evidence" where
  "network_evidence po evidenceDigest observedRevision verdict =
     \<lparr>ei_Type = ''NetworkReady'', ei_Source = ''BoundedNetworkEvaluator'',
      ei_SourceUID = evidence_uid ''network-evidence-'' evidenceDigest,
      ei_TargetClusterUID = po_TargetClusterUID po, ei_Status = fst verdict, ei_Reason = snd verdict,
      ei_DesiredRevision = po_EnablementRevision po, ei_ObservedRevision = observedRevision,
      ei_Generation = 0, ei_ObservedGeneration = 0, ei_EvidenceDigest = evidenceDigest\<rparr>"

definition EvaluateNetworkSnapshot :: "Policy \<Rightarrow> NetworkProfile \<Rightarrow> NetworkSnapshot \<Rightarrow> Evidence result" where
  "EvaluateNetworkSnapshot po p s =
     bindE (validatePolicy po True) (\<lambda>_.
     bindE (validateNetworkProfile po p) (\<lambda>_.
     bindE (validateNetworkSnapshotShape s) (\<lambda>_.
     bindE (observation_canonicalDigest (enc_network_snapshot s)) (\<lambda>snapshotDigest.
     bindE (NetworkProfileDigest p) (\<lambda>profileDigest.
     bindE (observation_canonicalDigest
       (enc_evidence_binding ''ok147-network-evidence-binding/v1'' profileDigest snapshotDigest)) (\<lambda>evidenceDigest.
     let observedRevision = (if \<not> validDigest (ns_EnablementRevision s) then '''' else ns_EnablementRevision s)
     in normalized_evidence ''normalize NetworkReady evidence''
          (network_evidence po evidenceDigest observedRevision (evaluateNetworkState po p s))))))))"

end
