(* ===== verification/Collectors.thy ===== *)
theory Collectors
  imports NetworkEvaluator Submission
begin

text \<open>
  The sources of the aggregate observer: the CAPI Cluster turned into its two lifecycle statements
  (\<open>src/internal/observation/capi_kubernetes.go\<close>), the platform collector that reads the profiled Argo
  Applications and asks for the capability proof only behind a True gate
  (\<open>platform_collector.go\<close>), and the entry point of the network collector (\<open>network_collector.go\<close>). What
  comes over HTTP is a parameter that acts on a world: the decoded Cluster, the bytes of an
  Application, the capability statement, the network snapshot.
\<close>

definition capiClusterAPIVersion :: string where "capiClusterAPIVersion = ''cluster.x-k8s.io/v1beta2''"
definition capiClusterKind :: string where "capiClusterKind = ''Cluster''"
definition intentRevisionKey :: string where "intentRevisionKey = ''openkubes.io/intent-revision''"
definition maximumPlatformSourceBytes :: nat where "maximumPlatformSourceBytes = 4 * 1024 * 1024"

section \<open>The CAPI Cluster\<close>

record capiCondition =
  cc_Type :: string
  cc_Status :: string
  cc_Reason :: string
  cc_ObservedGeneration :: int

text \<open>The nested structs \<open>metadata\<close> and \<open>status\<close> are flattened.\<close>

record capiCluster =
  cl_APIVersion :: string
  cl_Kind :: string
  cl_Name :: string
  cl_Namespace :: string
  cl_UID :: string
  cl_ResourceVersion :: string
  cl_Generation :: int
  cl_Annotations :: "(string \<times> string) list"
  cl_Conditions :: "capiCondition list"

record 'w CAPILifecycleObserver =
  cb_namespace :: string
  cb_name :: string
  cb_request :: "'w \<Rightarrow> capiCluster result \<times> 'w"

definition readCluster :: "'w CAPILifecycleObserver \<Rightarrow> 'w \<Rightarrow> capiCluster result \<times> 'w" where
  "readCluster observer w = (case cb_request observer w of
       (Inl e, w1) \<Rightarrow> (Inl e, w1)
     | (Inr cluster, w1) \<Rightarrow>
         (if cl_APIVersion cluster \<noteq> capiClusterAPIVersion \<or> cl_Kind cluster \<noteq> capiClusterKind
             \<or> cl_Namespace cluster \<noteq> cb_namespace observer \<or> cl_Name cluster \<noteq> cb_name observer then
            Inl (New ''CAPI observation object identity differs from the exact target'')
          else if \<not> validUID (cl_UID cluster) \<or> cl_ResourceVersion cluster = '''' \<or> cl_Generation cluster \<le> 0 then
            Inl (New ''CAPI observation object lacks runtime identity'')
          else Inr cluster, w1))"

definition enc_capi_evidence :: "capiCluster \<Rightarrow> string \<Rightarrow> capiCondition \<Rightarrow> string \<Rightarrow> json" where
  "enc_capi_evidence cluster observedRevision item reason = struct [key ''apiVersion'' (JStr (cl_APIVersion cluster)),
     key ''kind'' (JStr (cl_Kind cluster)), key ''namespace'' (JStr (cl_Namespace cluster)), key ''name'' (JStr (cl_Name cluster)),
     key ''uid'' (JStr (cl_UID cluster)), key ''resourceVersion'' (JStr (cl_ResourceVersion cluster)),
     key ''generation'' (JInt (cl_Generation cluster)), optkey ''intentRevision'' (JStr observedRevision),
     key ''type'' (JStr (cc_Type item)), key ''status'' (JStr (cc_Status item)), key ''reason'' (JStr reason),
     key ''observedGeneration'' (JInt (cc_ObservedGeneration item))]"

text \<open>The two conditions of the lifecycle, each at most once; a second one is an error.\<close>

fun lifecycle_conditions :: "(string \<times> capiCondition) list \<Rightarrow> capiCondition list \<Rightarrow> (string \<times> capiCondition) list result" where
  "lifecycle_conditions conditions [] = Inr conditions"
| "lifecycle_conditions conditions (item # items) =
     (if cc_Type item \<noteq> ''InfrastructureReady'' \<and> cc_Type item \<noteq> ''ControlPlaneAvailable'' then lifecycle_conditions conditions items
      else if map_of conditions (cc_Type item) \<noteq> None then
        Inl (Errf ''CAPI Cluster contains duplicate %s Conditions'' [cc_Type item])
      else lifecycle_conditions ((cc_Type item, item) # conditions) items)"

definition capi_statement :: "capiCluster \<Rightarrow> Policy \<Rightarrow> string \<Rightarrow> capiCondition \<Rightarrow> Evidence result" where
  "capi_statement cluster po observedRevision item =
     (let reason = (if \<not> valid_reason (cc_Reason item) then ''SourceReasonUnavailable'' else cc_Reason item)
      in if cc_Status item \<noteq> ''True'' \<and> cc_Status item \<noteq> ''False'' \<and> cc_Status item \<noteq> ''Unknown'' then
           Inl (Errf ''CAPI %s status is invalid'' [cc_Type item])
         else bindE (wrapE (''digest CAPI '' @ cc_Type item @ '' evidence'')
             (observation_canonicalDigest (enc_capi_evidence cluster observedRevision item reason))) (\<lambda>evidenceDigest.
           normalized_evidence (''normalize CAPI '' @ cc_Type item @ '' evidence'')
             \<lparr>ei_Type = cc_Type item, ei_Source = ''CAPICluster'', ei_SourceUID = cl_UID cluster,
              ei_TargetClusterUID = po_TargetClusterUID po, ei_Status = cc_Status item, ei_Reason = reason,
              ei_DesiredRevision = po_IntentRevision po, ei_ObservedRevision = observedRevision,
              ei_Generation = cl_Generation cluster, ei_ObservedGeneration = cc_ObservedGeneration item,
              ei_EvidenceDigest = evidenceDigest\<rparr>))"

definition normalizeCAPICluster :: "capiCluster \<Rightarrow> Policy \<Rightarrow> Evidence list result" where
  "normalizeCAPICluster cluster po =
     (let annotation = (case map_of (cl_Annotations cluster) intentRevisionKey of None \<Rightarrow> '''' | Some r \<Rightarrow> r);
          observedRevision = (if \<not> validDigest annotation then '''' else annotation)
      in bindE (lifecycle_conditions [] (cl_Conditions cluster)) (\<lambda>conditions.
         mapE (capi_statement cluster po observedRevision)
           (List.map_filter (map_of conditions) [''InfrastructureReady'', ''ControlPlaneAvailable''])))"

definition CAPILifecycleObserver_Collect :: "'w CAPILifecycleObserver \<Rightarrow> Policy \<Rightarrow> 'w \<Rightarrow> Evidence list result \<times> 'w" where
  "CAPILifecycleObserver_Collect observer po w =
     (case validatePolicy po True of
        Inl e \<Rightarrow> (Inl e, w)
      | Inr _ \<Rightarrow> (case readCluster observer w of
            (Inl e, w1) \<Rightarrow> (Inl e, w1)
          | (Inr cluster, w1) \<Rightarrow> (normalizeCAPICluster cluster po, w1)))"

text \<open>The policy is bound to the UID that the Cluster reports, if its digest is the durable one.\<close>

definition CAPILifecycleObserver_CollectBound ::
  "'w CAPILifecycleObserver \<Rightarrow> Policy \<Rightarrow> string \<Rightarrow> 'w \<Rightarrow> (Policy \<times> Evidence list) result \<times> 'w" where
  "CAPILifecycleObserver_CollectBound observer po expectedTargetUIDDigest w =
     (if validatePolicy po False \<noteq> Inr () \<or> po_TargetClusterUID po \<noteq> '''' \<or> \<not> validDigest expectedTargetUIDDigest then
        (Inl (New ''unbound CAPI observation policy or target identity digest is invalid''), w)
      else (case readCluster observer w of
          (Inl e, w1) \<Rightarrow> (Inl e, w1)
        | (Inr cluster, w1) \<Rightarrow>
            (if SHA256 (cl_UID cluster) \<noteq> expectedTargetUIDDigest then
               Inl (New ''CAPI Cluster runtime identity differs from durable lifecycle binding'')
             else bindE (BindTarget po (cl_UID cluster)) (\<lambda>bound.
               bindE (normalizeCAPICluster cluster bound) (\<lambda>evidence. Inr (bound, evidence))), w1)))"

section \<open>The network source\<close>

text \<open>\<open>collect\<close> stands for \<open>Collect\<close>: the bounded reads and the probe.\<close>

definition NetworkSourceCollector_Observe ::
  "(Policy \<Rightarrow> 'w \<Rightarrow> NetworkSnapshot result \<times> 'w) \<Rightarrow> Policy \<Rightarrow> NetworkProfile \<Rightarrow> 'w \<Rightarrow> Evidence result \<times> 'w" where
  "NetworkSourceCollector_Observe collect po p w = (case collect po w of
       (Inl e, w1) \<Rightarrow> (Inl e, w1)
     | (Inr snapshot, w1) \<Rightarrow> (EvaluateNetworkSnapshot po p snapshot, w1))"
section \<open>The platform collector\<close>

record 'w PlatformSourceCollector =
  pl_argo :: "string \<Rightarrow> 'w \<Rightarrow> string result \<times> 'w"
  pl_capability :: "'w \<Rightarrow> PlatformCapabilityState result \<times> 'w"
  pl_Profile :: PlatformProfile
  pl_TargetClusterUID :: string
  pl_Clock :: "'w \<Rightarrow> time \<times> 'w"

definition platformApplicationPath :: "string \<Rightarrow> string \<Rightarrow> string" where
  "platformApplicationPath ns name = ''/apis/argoproj.io/v1alpha1/namespaces/'' @ ns @ ''/applications/'' @ name"

definition getPlatformObject :: "(string \<Rightarrow> 'w \<Rightarrow> string result \<times> 'w) \<Rightarrow> string \<Rightarrow> 'w \<Rightarrow> json result \<times> 'w" where
  "getPlatformObject source path w = (case source path w of
       (Inl e, w1) \<Rightarrow> (Inl (New ''bounded platform source GET failed''), w1)
     | (Inr raw, w1) \<Rightarrow>
         (if raw = [] \<or> length raw > maximumPlatformSourceBytes then Inl (New ''platform source response size is invalid'')
          else of_option (New ''platform source returned invalid JSON object'') (decodeJSONObject raw), w1))"

text \<open>\<open>objectMap\<close>: the members of a field that is an object.\<close>

definition objectMap :: "json \<Rightarrow> string \<Rightarrow> json option" where
  "objectMap parent k = (case field parent k of JObj kvs \<Rightarrow> Some (JObj kvs) | _ \<Rightarrow> None)"

text \<open>The empty map that \<open>objectMap\<close> returns beside an error that the caller ignores.\<close>

definition objectMap_or_empty :: "json \<Rightarrow> string \<Rightarrow> json" where
  "objectMap_or_empty parent k = (case objectMap parent k of None \<Rightarrow> JObj [] | Some j \<Rightarrow> j)"

definition validGitCommit :: "string \<Rightarrow> bool" where
  "validGitCommit s \<longleftrightarrow> length s = 40 \<and> list_all is_lower_hex s"

definition has_field :: "json \<Rightarrow> string \<Rightarrow> bool" where
  "has_field j k \<longleftrightarrow> map_of (fields_of j) k \<noteq> None"

definition set_field :: "json \<Rightarrow> string \<Rightarrow> json \<Rightarrow> json" where
  "set_field j k v = JObj (filter (\<lambda>kv. fst kv \<noteq> k) (fields_of j) @ [(k, v)])"

text \<open>\<open>directory.recurse\<close> is spelled out when it is absent.\<close>

definition normalized_source :: "json \<Rightarrow> json" where
  "normalized_source source = (case objectMap source ''directory'' of
       None \<Rightarrow> source
     | Some directory \<Rightarrow>
         if has_field directory ''recurse'' then source
         else set_field source ''directory'' (set_field directory ''recurse'' (JBool False)))"

definition normalizedPlatformApplicationSpec :: "json \<Rightarrow> (json \<times> string) result" where
  "normalizedPlatformApplicationSpec spec =
     bindE (of_option (New ''Argo Application source is missing'') (objectMap spec ''source'')) (\<lambda>source.
     bindE (of_option (New ''Argo Application destination is missing'') (objectMap spec ''destination'')) (\<lambda>destination.
     let revision = text_of (field source ''targetRevision'')
     in if \<not> validGitCommit revision \<or> text_of (field source ''repoURL'') = '''' \<or> text_of (field source ''path'') = ''''
           \<or> text_of (field spec ''project'') = '''' \<or> text_of (field destination ''name'') = ''''
           \<or> text_of (field destination ''namespace'') = '''' then
          Inl (New ''Argo Application semantic identity is incomplete or mutable'')
        else Inr (JObj ([(''project'', field spec ''project''), (''source'', normalized_source source),
             (''destination'', JObj [(''name'', field destination ''name''), (''namespace'', field destination ''namespace'')])]
           @ (if has_field spec ''syncPolicy'' then [(''syncPolicy'', field spec ''syncPolicy'')] else [])
           @ (if has_field spec ''ignoreDifferences'' then [(''ignoreDifferences'', field spec ''ignoreDifferences'')] else [])),
          revision)))"

definition PlatformApplicationSpecIdentity :: "json \<Rightarrow> (string \<times> string) result" where
  "PlatformApplicationSpecIdentity spec =
     bindE (normalizedPlatformApplicationSpec spec) (\<lambda>(normalized, revision).
     bindE (orE (New ''digest normalized Argo Application spec'') (observation_canonicalDigest normalized)) (\<lambda>specDigest.
     Inr (specDigest, revision)))"

definition normalizePlatformApplication ::
  "json \<Rightarrow> PlatformProfile \<Rightarrow> PlatformApplicationExpectation \<Rightarrow> PlatformApplicationState result" where
  "normalizePlatformApplication obj p expected =
     (if text_of (field obj ''apiVersion'') \<noteq> ''argoproj.io/v1alpha1'' \<or> text_of (field obj ''kind'') \<noteq> ''Application'' then
        Inl (New ''Argo Application API identity is invalid'')
      else (case objectMap obj ''metadata'' of
        None \<Rightarrow> Inl (New ''Argo Application object identity differs from exact target'')
      | Some metadata \<Rightarrow>
          if text_of (field metadata ''namespace'') \<noteq> pp_ArgoNamespace p \<or> text_of (field metadata ''name'') \<noteq> ae_Name expected then
            Inl (New ''Argo Application object identity differs from exact target'')
          else if \<not> validUID (text_of (field metadata ''uid'')) \<or> text_of (field metadata ''resourceVersion'') = '''' then
            Inl (New ''Argo Application runtime identity is invalid'')
          else bindE (of_option (New ''Argo Application spec is missing'') (objectMap obj ''spec'')) (\<lambda>spec.
          bindE (normalizedPlatformApplicationSpec spec) (\<lambda>(normalizedSpec, _).
          if text_of (field (objectMap_or_empty normalizedSpec ''destination'') ''name'') \<noteq> pp_RegistrationName p then
            Inl (New ''Argo Application destination differs from the bound registration'')
          else bindE (PlatformApplicationSpecIdentity spec) (\<lambda>(specDigest, desiredRevision).
          let annotations = objectMap_or_empty metadata ''annotations'';
              status = objectMap_or_empty obj ''status'';
              sync = objectMap_or_empty status ''sync'';
              health = objectMap_or_empty status ''health''
          in Inr \<lparr>as_Name = ae_Name expected, as_UID = text_of (field metadata ''uid''),
               as_ResourceVersion = text_of (field metadata ''resourceVersion''),
               as_IntentRevision = text_of (field annotations ''openkubes.io/intent-revision''),
               as_PlatformRevision = text_of (field annotations ''openkubes.io/platform-revision''),
               as_ExecutionFixture = text_of (field annotations ''openkubes.io/execution-fixture''),
               as_SpecDigest = specDigest, as_DesiredSourceRevision = desiredRevision,
               as_AppliedSourceRevision = text_of (field sync ''revision''), as_SyncStatus = text_of (field sync ''status''),
               as_HealthStatus = text_of (field health ''status'')\<rparr>)))))"

fun collect_each ::
  "'w PlatformSourceCollector \<Rightarrow> PlatformApplicationExpectation list \<Rightarrow> 'w \<Rightarrow> PlatformApplicationState list result \<times> 'w" where
  "collect_each collector [] w = (Inr [], w)"
| "collect_each collector (expected # rest) w =
     (case getPlatformObject (pl_argo collector)
         (platformApplicationPath (pp_ArgoNamespace (pl_Profile collector)) (ae_Name expected)) w of
        (Inl e, w1) \<Rightarrow> (Inl (Wrap ''collect exact Argo Application'' e), w1)
      | (Inr obj, w1) \<Rightarrow> (case normalizePlatformApplication obj (pl_Profile collector) expected of
            Inl e \<Rightarrow> (Inl e, w1)
          | Inr application \<Rightarrow> (case collect_each collector rest w1 of
                (Inl e, w2) \<Rightarrow> (Inl e, w2)
              | (Inr applications, w2) \<Rightarrow> (Inr (application # applications), w2))))"

text \<open>\<open>sort.Slice\<close> by name: the names are those of a valid profile and differ, so stability does not matter.\<close>

definition sortPlatformApplications :: "PlatformApplicationState list \<Rightarrow> PlatformApplicationState list" where
  "sortPlatformApplications = sort_key as_Name"

definition collectApplications :: "'w PlatformSourceCollector \<Rightarrow> Policy \<Rightarrow> 'w \<Rightarrow> PlatformApplicationSnapshot result \<times> 'w" where
  "collectApplications collector po w =
     (case bindE (validatePolicy po True) (\<lambda>_. bindE (validatePlatformProfile po (pl_Profile collector)) (\<lambda>_.
         if pl_TargetClusterUID collector \<noteq> po_TargetClusterUID po then
           Inl (New ''platform collector target differs from the runtime-bound Cluster'')
         else Inr ())) of
        Inl e \<Rightarrow> (Inl e, w)
      | Inr _ \<Rightarrow> (case collect_each collector (elems (pp_RequiredApplications (pl_Profile collector))) w of
            (Inl e, w1) \<Rightarrow> (Inl e, w1)
          | (Inr applications, w1) \<Rightarrow> (case pl_Clock collector w1 of (now, w2) \<Rightarrow>
              (Inr \<lparr>aps_Format = PlatformApplicationSnapshotFormat, aps_ObservedAt = format_rfc3339nano now,
                 aps_TargetClusterUID = pl_TargetClusterUID collector,
                 aps_Applications = Some (sortPlatformApplications applications)\<rparr>, w2))))"

definition collectCapability :: "'w PlatformSourceCollector \<Rightarrow> PlatformApplicationSnapshot \<Rightarrow> 'w \<Rightarrow> PlatformSnapshot result \<times> 'w" where
  "collectCapability collector s w = (case pl_capability collector w of
       (Inl e, w1) \<Rightarrow> (Inl (New ''collect bounded platform capability evidence''), w1)
     | (Inr capability, w1) \<Rightarrow> (case pl_Clock collector w1 of (now, w2) \<Rightarrow>
         (Inr \<lparr>ps_Format = PlatformSnapshotFormat, ps_ObservedAt = format_rfc3339nano now,
            ps_TargetClusterUID = aps_TargetClusterUID s, ps_Applications = aps_Applications s,
            ps_Capability = capability\<rparr>, w2)))"

definition PlatformSourceCollector_Observe :: "'w PlatformSourceCollector \<Rightarrow> Policy \<Rightarrow> 'w \<Rightarrow> Evidence result \<times> 'w" where
  "PlatformSourceCollector_Observe collector po w =
     (case collectApplications collector po w of
        (Inl e, w1) \<Rightarrow> (Inl e, w1)
      | (Inr applicationSnapshot, w1) \<Rightarrow> (case EvaluatePlatformApplications po (pl_Profile collector) applicationSnapshot of
            Inl e \<Rightarrow> (Inl e, w1)
          | Inr gate \<Rightarrow>
              if ei_Status gate \<noteq> ''True'' then (Inr gate, w1)
              else (case collectCapability collector applicationSnapshot w1 of
                  (Inl e, w2) \<Rightarrow> (Inl e, w2)
                | (Inr snapshot, w2) \<Rightarrow> (EvaluatePlatformSnapshot po (pl_Profile collector) snapshot, w2))))"

definition PlatformSourceCollector_Collect :: "'w PlatformSourceCollector \<Rightarrow> Policy \<Rightarrow> 'w \<Rightarrow> PlatformSnapshot result \<times> 'w" where
  "PlatformSourceCollector_Collect collector po w =
     (case collectApplications collector po w of
        (Inl e, w1) \<Rightarrow> (Inl e, w1)
      | (Inr applicationSnapshot, w1) \<Rightarrow> (case EvaluatePlatformApplications po (pl_Profile collector) applicationSnapshot of
            Inl e \<Rightarrow> (Inl e, w1)
          | Inr gate \<Rightarrow>
              if ei_Status gate \<noteq> ''True'' then
                (Inl (New ''platform Applications are not current; capability execution is closed''), w1)
              else collectCapability collector applicationSnapshot w1))"

end
