(* ===== verification/AggregateObserver.thy ===== *)
theory AggregateObserver
  imports Collectors
begin

text \<open>
  The aggregate observer (\<open>src/internal/observation/aggregate_observer.go\<close>): one pass over the sources in
  the order CAPI, network, platform, where each source is asked only when the conditions before it are
  True, and one evaluation of the statements that were collected. A source acts on a world.
\<close>

record 'w AggregateObserver =
  ob_CAPI :: "Policy \<Rightarrow> 'w \<Rightarrow> Evidence list result \<times> 'w"
  ob_Network :: "Policy \<Rightarrow> NetworkProfile \<Rightarrow> 'w \<Rightarrow> Evidence result \<times> 'w"
  ob_Platform :: "Policy \<Rightarrow> 'w \<Rightarrow> Evidence result \<times> 'w"
  ob_NetworkProfile :: NetworkProfile
  ob_Clock :: "'w \<Rightarrow> time \<times> 'w"

text \<open>The configuration may lack a source or the clock; an observer has them all.\<close>

definition NewAggregateObserver ::
  "(Policy \<Rightarrow> 'w \<Rightarrow> Evidence list result \<times> 'w) option \<Rightarrow> (Policy \<Rightarrow> NetworkProfile \<Rightarrow> 'w \<Rightarrow> Evidence result \<times> 'w) option
    \<Rightarrow> (Policy \<Rightarrow> 'w \<Rightarrow> Evidence result \<times> 'w) option \<Rightarrow> NetworkProfile \<Rightarrow> ('w \<Rightarrow> time \<times> 'w) option \<Rightarrow> 'w AggregateObserver result" where
  "NewAggregateObserver capi network platform networkProfile clock = (case (capi, network, platform, clock) of
       (Some c, Some n, Some p, Some t) \<Rightarrow>
         Inr \<lparr>ob_CAPI = c, ob_Network = n, ob_Platform = p, ob_NetworkProfile = networkProfile, ob_Clock = t\<rparr>
     | _ \<Rightarrow> Inl (New ''aggregate observer sources and clock are required''))"

definition requiresAny :: "string list \<Rightarrow> string list \<Rightarrow> bool" where
  "requiresAny required conditions \<longleftrightarrow> list_ex (\<lambda>c. c \<in> set required) conditions"

text \<open>\<open>evidenceByType\<close> is a map from conditions to statements, \<open>append\<close> on one of its entries.\<close>

definition add_statement :: "Evidence \<Rightarrow> (string \<Rightarrow> Evidence list) \<Rightarrow> string \<Rightarrow> Evidence list" where
  "add_statement e m = m(ei_Type e := m (ei_Type e) @ [e])"

fun stageConditionsTrue :: "Policy \<Rightarrow> string list \<Rightarrow> (string \<Rightarrow> Evidence list) \<Rightarrow> string list \<Rightarrow> bool result" where
  "stageConditionsTrue po required m [] = Inr True"
| "stageConditionsTrue po required m (c # cs) =
     (if c \<notin> set required then stageConditionsTrue po required m cs
      else (case m c of
          [e] \<Rightarrow> bindE (validateEvidenceShape e) (\<lambda>_.
            if cn_Status (evaluateEvidence po e) \<noteq> ''True'' then Inr False else stageConditionsTrue po required m cs)
        | _ \<Rightarrow> Inr False))"

definition observer_evaluate :: "'w AggregateObserver \<Rightarrow> Policy \<Rightarrow> (string \<Rightarrow> Evidence list) \<Rightarrow> 'w \<Rightarrow> VerifiedResult result \<times> 'w" where
  "observer_evaluate observer po m w = (case ob_Clock observer w of (now, w1) \<Rightarrow>
     (observation_Evaluate po \<lparr>bu_Format = BundleFormat, bu_IntentRevision = po_IntentRevision po,
        bu_EvaluatedAt = format_rfc3339nano now, bu_Evidence = Some (concat (map m (elems (po_Required po))))\<rparr>, w1))"

text \<open>The loop over the statements of the CAPI source.\<close>

fun take_lifecycle :: "string list \<Rightarrow> (string \<Rightarrow> Evidence list) \<Rightarrow> Evidence list \<Rightarrow> (string \<Rightarrow> Evidence list) result" where
  "take_lifecycle required m [] = Inr m"
| "take_lifecycle required m (item # items) =
     (if ei_Type item \<noteq> ''InfrastructureReady'' \<and> ei_Type item \<noteq> ''ControlPlaneAvailable'' then
        Inl (New ''CAPI source returned evidence outside its ownership domain'')
      else take_lifecycle required (if ei_Type item \<in> set required then add_statement item m else m) items)"

definition observe_platform :: "'w AggregateObserver \<Rightarrow> Policy \<Rightarrow> (string \<Rightarrow> Evidence list) \<Rightarrow> 'w \<Rightarrow> VerifiedResult result \<times> 'w" where
  "observe_platform observer po m w =
     (if ''PlatformReady'' \<in> set (elems (po_Required po)) then
        (case ob_Platform observer po w of
           (Inl e, w1) \<Rightarrow> (Inl (New ''collect bounded PlatformReady evidence''), w1)
         | (Inr item, w1) \<Rightarrow>
             if ei_Type item \<noteq> ''PlatformReady'' then
               (Inl (New ''Platform source returned evidence outside its ownership domain''), w1)
             else observer_evaluate observer po (add_statement item m) w1)
      else observer_evaluate observer po m w)"

definition observe_network :: "'w AggregateObserver \<Rightarrow> Policy \<Rightarrow> (string \<Rightarrow> Evidence list) \<Rightarrow> 'w \<Rightarrow> VerifiedResult result \<times> 'w" where
  "observe_network observer po m w =
     (if ''NetworkReady'' \<in> set (elems (po_Required po)) then
        (case ob_Network observer po (ob_NetworkProfile observer) w of
           (Inl e, w1) \<Rightarrow> (Inl (New ''collect bounded NetworkReady evidence''), w1)
         | (Inr item, w1) \<Rightarrow>
             if ei_Type item \<noteq> ''NetworkReady'' then
               (Inl (New ''Network source returned evidence outside its ownership domain''), w1)
             else (case stageConditionsTrue po (elems (po_Required po)) (add_statement item m) [''NetworkReady''] of
                 Inl e \<Rightarrow> (Inl (New ''validate bounded NetworkReady evidence''), w1)
               | Inr ready \<Rightarrow>
                   if \<not> ready then observer_evaluate observer po (add_statement item m) w1
                   else observe_platform observer po (add_statement item m) w1))
      else observe_platform observer po m w)"

definition AggregateObserver_Observe :: "'w AggregateObserver \<Rightarrow> Policy \<Rightarrow> 'w \<Rightarrow> VerifiedResult result \<times> 'w" where
  "AggregateObserver_Observe observer po w =
     (case validatePolicy po True of
        Inl e \<Rightarrow> (Inl e, w)
      | Inr _ \<Rightarrow>
          if requiresAny (elems (po_Required po)) [''InfrastructureReady'', ''ControlPlaneAvailable''] then
            (case ob_CAPI observer po w of
               (Inl e, w1) \<Rightarrow> (Inl (New ''collect bounded CAPI evidence''), w1)
             | (Inr items, w1) \<Rightarrow>
                 if length items > 2 then (Inl (New ''CAPI source exceeded its evidence boundary''), w1)
                 else (case take_lifecycle (elems (po_Required po)) (\<lambda>_. []) items of
                     Inl e \<Rightarrow> (Inl e, w1)
                   | Inr m \<Rightarrow> (case stageConditionsTrue po (elems (po_Required po)) m
                         [''InfrastructureReady'', ''ControlPlaneAvailable''] of
                         Inl e \<Rightarrow> (Inl (New ''validate bounded CAPI evidence''), w1)
                       | Inr ready \<Rightarrow>
                           if \<not> ready then observer_evaluate observer po m w1
                           else observe_network observer po m w1)))
          else observe_network observer po (\<lambda>_. []) w)"

end
