(* ===== verification/PlatformFacts.thy ===== *)
theory PlatformFacts
  imports PlatformEvaluator ObservationFacts
begin

text \<open>
  The platform evaluator decides exactly one thing: a statement that the aggregate counts as True means
  that every profiled Application and the capability proof are there, current and correlated, and
  nothing else is.
\<close>

section \<open>What True means\<close>

definition application_current :: "Policy \<Rightarrow> PlatformProfile \<Rightarrow> PlatformApplicationState \<Rightarrow> bool" where
  "application_current po p a \<longleftrightarrow> as_IntentRevision a = po_IntentRevision po \<and> as_PlatformRevision a = po_PlatformRevision po
     \<and> as_ExecutionFixture a = pp_ExecutionFixture p \<and> as_DesiredSourceRevision a \<noteq> ''''
     \<and> as_AppliedSourceRevision a = as_DesiredSourceRevision a \<and> as_SyncStatus a = ''Synced'' \<and> as_HealthStatus a = ''Healthy''"

text \<open>Every required application was seen once, with the profiled spec, and nothing else was.\<close>

definition applications_ready :: "Policy \<Rightarrow> PlatformProfile \<Rightarrow> PlatformApplicationState list \<Rightarrow> bool" where
  "applications_ready po p as \<longleftrightarrow> distinct (map as_Name as)
     \<and> set (map (\<lambda>a. (as_Name a, as_SpecDigest a)) as)
       = set (map (\<lambda>a. (ae_Name a, ae_SpecDigest a)) (elems (pp_RequiredApplications p)))
     \<and> (\<forall>a \<in> set as. application_current po p a)"

definition capability_current :: "Policy \<Rightarrow> PlatformProfile \<Rightarrow> time \<Rightarrow> PlatformCapabilityState \<Rightarrow> bool" where
  "capability_current po p at c \<longleftrightarrow> pc_TargetClusterUID c = po_TargetClusterUID po \<and> pc_IntentRevision c = po_IntentRevision po
     \<and> pc_PlatformRevision c = po_PlatformRevision po \<and> pc_ExecutionFixture c = pp_ExecutionFixture p
     \<and> pc_ContractDigest c = pp_CapabilityContractDigest p \<and> pc_ExecutableDigest c = pp_CapabilityExecutableDigest p
     \<and> pc_Passed c \<and> 0 \<le> at - parsed_time (pc_ObservedAt c)
     \<and> at - parsed_time (pc_ObservedAt c) \<le> pp_MaximumCapabilityAgeSeconds p * nanosecond_per_second"

definition platform_ready :: "Policy \<Rightarrow> PlatformProfile \<Rightarrow> PlatformSnapshot \<Rightarrow> bool" where
  "platform_ready po p s \<longleftrightarrow> ps_TargetClusterUID s = po_TargetClusterUID po
     \<and> applications_ready po p (elems (ps_Applications s))
     \<and> capability_current po p (parsed_time (ps_ObservedAt s)) (ps_Capability s)"

section \<open>The applications\<close>

lemma check_expectations_iff:
  "check_expectations seen as = Inr () \<longleftrightarrow> (\<forall>a \<in> set as. validDNSLabel (ae_Name a) \<and> validDigest (ae_SpecDigest a))
     \<and> distinct (map ae_Name as) \<and> set (map ae_Name as) \<inter> set seen = {}"
  by (induction seen as rule: check_expectations.induct) auto

lemma ValidatePlatformProfile_facts:
  assumes "ValidatePlatformProfile p = Inr ()"
  shows "pp_Format p = PlatformProfileFormat" "validDigest (pp_IntentRevision p)" "validDigest (pp_PlatformRevision p)"
    "validDigest (pp_ExecutionFixture p)" "pp_TargetIdentityScheme p = ''capi-cluster-uid/v1''"
    "validDNSLabel (pp_ArgoNamespace p)" "validDNSLabel (pp_RegistrationName p)"
    "\<forall>a \<in> set (elems (pp_RequiredApplications p)). validDNSLabel (ae_Name a) \<and> validDigest (ae_SpecDigest a)"
    "distinct (map ae_Name (elems (pp_RequiredApplications p)))"
    "validDigest (pp_CapabilityContractDigest p)" "validDigest (pp_CapabilityExecutableDigest p)"
    "60 \<le> pp_MaximumCapabilityAgeSeconds p" "pp_MaximumCapabilityAgeSeconds p \<le> 86400"
  using assms by (auto simp: ValidatePlatformProfile_def Inr_conv check_expectations_iff split: if_splits)

lemma seen_all:
  assumes "distinct seen" "distinct names" "set seen \<subseteq> set names"
  shows "length seen = length names \<longleftrightarrow> set seen = set names"
  using assms by (metis List.finite_set card_subset_eq distinct_card)

lemma check_applications_true:
  assumes "distinct (map fst expected)" and "distinct seen" and "set seen \<subseteq> set (map fst expected)"
  shows "fst (check_applications po p expected seen as) = ''True'' \<longleftrightarrow>
    distinct (map as_Name as) \<and> set (map as_Name as) \<inter> set seen = {}
    \<and> set (map as_Name as) \<union> set seen = set (map fst expected)
    \<and> (\<forall>a \<in> set as. (as_Name a, as_SpecDigest a) \<in> set expected \<and> application_current po p a)"
  using assms
proof (induction po p expected seen as rule: check_applications.induct)
  case (1 po p expected seen)
  then show ?case using seen_all [of seen "map fst expected"] by (simp add: distinct_remdups_id)
next
  case (2 po p expected seen a as)
  have "distinct (map fst (rev expected))" using "2.prems"(1) by (simp flip: rev_map)
  then have m: "map_of (rev expected) n = Some d \<longleftrightarrow> (n, d) \<in> set expected" for n d
    by (simp add: map_of_eq_Some_iff)
  show ?case
  proof (cases "(as_Name a, as_SpecDigest a) \<in> set expected \<and> as_Name a \<notin> set seen \<and> application_current po p a")
    case True
    then have e: "check_applications po p expected seen (a # as) = check_applications po p expected (as_Name a # seen) as"
      by (simp add: m application_current_def)
    from True have "as_Name a \<in> set (map fst expected)" by force
    then have "fst (check_applications po p expected (as_Name a # seen) as) = ''True'' \<longleftrightarrow>
        distinct (map as_Name as) \<and> set (map as_Name as) \<inter> set (as_Name a # seen) = {}
        \<and> set (map as_Name as) \<union> set (as_Name a # seen) = set (map fst expected)
        \<and> (\<forall>a \<in> set as. (as_Name a, as_SpecDigest a) \<in> set expected \<and> application_current po p a)"
      using True "2.prems" by (intro "2.IH") (auto simp: m application_current_def)
    with True show ?thesis unfolding e by auto
  next
    case False
    then have "fst (check_applications po p expected seen (a # as)) \<noteq> ''True''" by (auto simp: m application_current_def)
    with False show ?thesis by auto
  qed
qed

lemma applications_status:
  assumes "distinct (map ae_Name (elems (pp_RequiredApplications p)))"
  shows "fst (evaluatePlatformApplications po p target as) = ''True''
    \<longleftrightarrow> target = po_TargetClusterUID po \<and> applications_ready po p as"
proof -
  define x where "x = map (\<lambda>a. (ae_Name a, ae_SpecDigest a)) (elems (pp_RequiredApplications p))"
  define sp where "sp = (\<lambda>a. (as_Name a, as_SpecDigest a)) ` set as"
  have d: "distinct (map fst x)" using assms by (simp add: x_def comp_def)
  have n: "set (map as_Name as) = fst ` sp" by (simp add: sp_def image_image)
  have m: "(\<forall>a \<in> set as. (as_Name a, as_SpecDigest a) \<in> set x) \<longleftrightarrow> sp \<subseteq> set x" by (auto simp: sp_def)
  have "inj_on fst (set x)" using d distinct_map [of fst x] by simp
  then have e: "sp \<subseteq> set x \<Longrightarrow> fst ` sp = fst ` set x \<Longrightarrow> sp = set x"
    using inj_on_image_eq_iff [of fst "set x" sp "set x"] by simp
  have "fst (check_applications po p x [] as) = ''True'' \<longleftrightarrow> distinct (map as_Name as) \<and> fst ` sp = fst ` set x
      \<and> sp \<subseteq> set x \<and> (\<forall>a \<in> set as. application_current po p a)"
    using check_applications_true [of x "[]" po p as] d unfolding m [symmetric] n by auto
  also have "\<dots> \<longleftrightarrow> applications_ready po p as"
    using e unfolding applications_ready_def x_def [symmetric] set_map [of _ as] sp_def [symmetric] by auto
  finally show ?thesis by (simp add: evaluatePlatformApplications_def x_def)
qed

text \<open>The reasons that a verdict can have.\<close>

lemma platform_reasons: "valid_reason ''PlatformApplicationMissing''" "valid_reason ''PlatformApplicationsReady''"
  "valid_reason ''PlatformApplicationIdentityMismatch''" "valid_reason ''RevisionCorrelationUnproven''"
  "valid_reason ''PlatformConvergencePending''" "valid_reason ''PlatformHealthFailed''"
  "valid_reason ''PlatformCapabilityStale''" "valid_reason ''PlatformCapabilityFailed''" "valid_reason ''PlatformReady''"
  by (simp_all add: valid_reason_def is_alnum_def is_lower_alnum_def is_digit_def less_eq_char_def)
lemma check_applications_fit:
  assumes "check_applications po p expected seen as = (status, reason, observed)"
  shows "status \<in> {''True'', ''False'', ''Unknown''} \<and> valid_reason reason \<and> observed \<in> {'''', po_PlatformRevision po}
    \<and> (status = ''True'' \<longrightarrow> observed = po_PlatformRevision po)"
  using assms
  by (induction po p expected seen as rule: check_applications.induct)
    (auto simp: platform_reasons split: if_splits)

lemma evaluatePlatformApplications_fit:
  assumes "evaluatePlatformApplications po p target as = (status, reason, observed)"
  shows "status \<in> {''True'', ''False'', ''Unknown''} \<and> valid_reason reason \<and> observed \<in> {'''', po_PlatformRevision po}
    \<and> (status = ''True'' \<longrightarrow> observed = po_PlatformRevision po)"
  using assms check_applications_fit
  by (auto simp: evaluatePlatformApplications_def platform_reasons split: if_splits)

section \<open>The verdict\<close>

lemma evaluatePlatformState_fit:
  assumes "evaluatePlatformState po p s = (status, reason, observed)"
  shows "status \<in> {''True'', ''False'', ''Unknown''} \<and> valid_reason reason \<and> observed \<in> {'''', po_PlatformRevision po}
    \<and> (status = ''True'' \<longrightarrow> observed = po_PlatformRevision po)"
proof -
  obtain st re ob where v: "evaluatePlatformApplications po p (ps_TargetClusterUID s) (elems (ps_Applications s)) = (st, re, ob)"
    by (metis prod_cases3)
  from assms evaluatePlatformApplications_fit [OF v] show ?thesis
    unfolding evaluatePlatformState_def v Let_def by (auto simp: platform_reasons split: if_splits)
qed

lemma fresh_iff:
  assumes "0 < b" and "b < 2 ^ 62"
  shows "\<not> (sub_time t u < 0 \<or> sub_time t u > b) \<longleftrightarrow> 0 \<le> t - u \<and> t - u \<le> b"
  using assms by (auto simp: sub_time_def)

lemma platform_status:
  assumes "ValidatePlatformProfile p = Inr ()"
  shows "fst (evaluatePlatformState po p s) = ''True'' \<longleftrightarrow> platform_ready po p s"
proof -
  note f = ValidatePlatformProfile_facts [OF assms]
  have b: "0 < pp_MaximumCapabilityAgeSeconds p * nanosecond_per_second"
    "pp_MaximumCapabilityAgeSeconds p * nanosecond_per_second < 2 ^ 62"
    using f(12,13) by (simp_all add: nanosecond_per_second_def)
  show ?thesis
    using applications_status [OF f(9), of po "ps_TargetClusterUID s" "elems (ps_Applications s)"]
      fresh_iff [OF b, of "parsed_time (ps_ObservedAt s)" "parsed_time (pc_ObservedAt (ps_Capability s))"]
    unfolding evaluatePlatformState_def Let_def platform_ready_def capability_current_def by auto
qed
section \<open>The statement\<close>

lemma lower_hex_alnum: "is_lower_hex c \<Longrightarrow> is_alnum c"
  by (auto simp: is_lower_hex_def is_alnum_def is_lower_alnum_def less_eq_char_def)

lemma evidence_uid_valid:
  assumes "validUID name" and "length name \<le> 96" and "digest_pattern d"
  shows "validUID (evidence_uid name d)"
proof -
  obtain c cs where n: "name = c # cs" using assms(1) by (cases name) (auto simp: validUID_def)
  have "list_all is_lower_hex (drop 7 d)" using assms(3) by (simp add: digest_pattern_def hex64_def)
  then have "list_all is_alnum (take 32 (drop 7 d))"
    by (auto simp: list_all_iff dest!: in_set_takeD intro: lower_hex_alnum)
  then have "list_all (\<lambda>c. is_alnum c \<or> c \<in> set ''._:-'') (take 32 (drop 7 d))" by (auto simp: list_all_iff)
  then show ?thesis using assms(1,2) by (simp add: validUID_def evidence_uid_def n)
qed

lemma dns_label_utf8: "validDNSLabel s \<Longrightarrow> valid_utf8 s"
proof (rule valid_utf8_ascii)
  assume "validDNSLabel s"
  then have "list_all (\<lambda>c. is_lower_alnum c \<or> c = CHR ''-'') s" by (simp add: validDNSLabel_def)
  moreover have "is_ascii (CHR ''-'')" by (simp add: is_ascii_def less_char_def)
  ultimately show "list_all is_ascii s" by (auto simp: list_all_iff intro: lower_alnum_ascii)
qed

lemma platform_profile_record:
  assumes "ValidatePlatformProfile p = Inr ()"
  shows "record_json (enc_platform_profile
    (p\<lparr>pp_RequiredApplications := Some (sort_key ae_Name (elems (pp_RequiredApplications p)))\<rparr>))"
proof -
  note f = ValidatePlatformProfile_facts [OF assms]
  have "fits 9998 (enc_application_expectation a)" if "a \<in> set (elems (pp_RequiredApplications p))" for a
    using f(8) that by (simp add: enc_application_expectation_def fits_codec validDigest_def valid_utf8_digest dns_label_utf8)
  with f show ?thesis
    by (simp add: enc_platform_profile_def fits_codec max_nesting_depth_def validDigest_def valid_utf8_digest dns_label_utf8
        list_all_iff PlatformProfileFormat_def valid_utf8_ascii is_ascii_def in_int64_def)
qed

lemma binding_record:
  assumes "digest_pattern a" "digest_pattern b" "list_all is_ascii f"
  shows "record_json (enc_evidence_binding f a b)"
  using assms by (simp add: enc_evidence_binding_def fits_codec max_nesting_depth_def valid_utf8_digest valid_utf8_ascii)

lemma platform_profile_digest:
  assumes "ValidatePlatformProfile p = Inr ()"
  obtains d where "PlatformProfileDigest p = Inr d" "digest_pattern d"
  using that canonical_digest_eq [OF platform_profile_record [OF assms]] assms SHA256_pattern
  by (auto simp: PlatformProfileDigest_def observation_canonicalDigest_def)

lemma evidence_binding_digest:
  assumes "digest_pattern a" "digest_pattern b" "list_all is_ascii f"
  obtains d where "observation_canonicalDigest (enc_evidence_binding f a b) = Inr d" "digest_pattern d"
  using that canonical_digest_eq [OF binding_record [OF assms]] SHA256_pattern
  by (auto simp: observation_canonicalDigest_def)

lemma platform_evidence_shape:
  assumes "validatePolicy po True = Inr ()" and "digest_pattern d" and "validUID name" "length name \<le> 96"
    and "status \<in> {''True'', ''False'', ''Unknown''} \<and> valid_reason reason \<and> observed \<in> {'''', po_PlatformRevision po}
      \<and> (status = ''True'' \<longrightarrow> observed = po_PlatformRevision po)"
  shows "validateEvidenceShape (platform_evidence po name d (status, reason, observed)) = Inr ()"
    "cn_Status (evaluateEvidence po (platform_evidence po name d (status, reason, observed))) = ''True'' \<longleftrightarrow> status = ''True''"
proof -
  note f = validatePolicy_facts [OF assms(1)]
  have "validDigest d" using assms(2) by (simp add: validDigest_def)
  with evidence_uid_valid [OF assms(3,4,2)] f assms(5)
  show "validateEvidenceShape (platform_evidence po name d (status, reason, observed)) = Inr ()"
    by (auto simp: platform_evidence_def validateEvidenceShape_def sourceFor_def isCAPISource_def)
  show "cn_Status (evaluateEvidence po (platform_evidence po name d (status, reason, observed))) = ''True'' \<longleftrightarrow> status = ''True''"
    using assms(5) by (auto simp: platform_evidence_def evaluateEvidence_status correlated_def isCAPISource_def expected_revision_def)
qed

lemma platform_names: "validUID ''platform-evidence-''" "validUID ''platform-gate-''"
  by (simp_all add: validUID_def is_alnum_def is_lower_alnum_def is_digit_def less_eq_char_def)

text \<open>
  C14: the platform statement decides exactly what the profile asks for. For a policy, a profile and a
  snapshot that pass their checks a statement is always produced; it is well formed, and the aggregate
  counts it as True exactly when the snapshot is about the target, every profiled Application was seen
  once with its spec, in the current revisions, synced and healthy, nothing else was seen, and the
  capability proof is correlated, passed and no older than the profile allows.
\<close>

theorem platform_statement_decides:
  assumes "validatePolicy po True = Inr ()" and "validatePlatformProfile po p = Inr ()"
    and "validatePlatformSnapshotShape s = Inr ()" and "record_json (enc_platform_snapshot s)"
  shows "\<exists>e. EvaluatePlatformSnapshot po p s = Inr e \<and> check_evidence [''PlatformReady''] [e] = Inr ()
    \<and> (cn_Status (evaluateEvidence po e) = ''True'' \<longleftrightarrow> platform_ready po p s)"
proof -
  from assms(2) have p: "ValidatePlatformProfile p = Inr ()" by (auto simp: validatePlatformProfile_def Inr_conv)
  obtain pd where pd: "PlatformProfileDigest p = Inr pd" "digest_pattern pd" using platform_profile_digest [OF p] .
  obtain sd where sd: "observation_canonicalDigest (enc_platform_snapshot s) = Inr sd" "digest_pattern sd"
    using canonical_digest_eq [OF assms(4)] SHA256_pattern by (auto simp: observation_canonicalDigest_def)
  have "list_all is_ascii ''ok147-platform-evidence-binding/v1''" by (simp add: is_ascii_def less_char_def)
  then obtain ed where ed: "observation_canonicalDigest (enc_evidence_binding ''ok147-platform-evidence-binding/v1'' pd sd) = Inr ed"
      "digest_pattern ed" using evidence_binding_digest [OF pd(2) sd(2), of "''ok147-platform-evidence-binding/v1''"] by blast
  obtain st re ob where v: "evaluatePlatformState po p s = (st, re, ob)" by (metis prod_cases3)
  let ?e = "platform_evidence po ''platform-evidence-'' ed (st, re, ob)"
  note h = platform_evidence_shape [OF assms(1) ed(2) platform_names(1) _ evaluatePlatformState_fit [OF v], simplified]
  have "EvaluatePlatformSnapshot po p s = Inr ?e"
    using assms(1-3) pd(1) sd(1) ed(1) h(1) by (simp add: EvaluatePlatformSnapshot_def normalized_evidence_def v)
  moreover have "check_evidence [''PlatformReady''] [?e] = Inr ()"
    using h(1) by (simp add: platform_evidence_def supportedConditions_def)
  moreover have "cn_Status (evaluateEvidence po ?e) = ''True'' \<longleftrightarrow> platform_ready po p s"
    using h(2) platform_status [OF p, of po s] by (simp add: v)
  ultimately show ?thesis by blast
qed
section \<open>A concrete platform\<close>

definition sample_profile :: PlatformProfile where
  "sample_profile = \<lparr>pp_Format = PlatformProfileFormat, pp_IntentRevision = ''sha256:'' @ replicate 64 CHR ''a'',
     pp_PlatformRevision = ''sha256:'' @ replicate 64 CHR ''c'', pp_ExecutionFixture = ''sha256:'' @ replicate 64 CHR ''e'',
     pp_TargetIdentityScheme = ''capi-cluster-uid/v1'', pp_ArgoNamespace = ''argocd'', pp_RegistrationName = ''target-1'',
     pp_RequiredApplications = Some [\<lparr>ae_Name = ''gitea'', ae_SpecDigest = ''sha256:'' @ replicate 64 CHR ''1''\<rparr>,
       \<lparr>ae_Name = ''cnpg'', ae_SpecDigest = ''sha256:'' @ replicate 64 CHR ''2''\<rparr>],
     pp_CapabilityContractDigest = ''sha256:'' @ replicate 64 CHR ''3'',
     pp_CapabilityExecutableDigest = ''sha256:'' @ replicate 64 CHR ''4'', pp_MaximumCapabilityAgeSeconds = 600\<rparr>"

definition sample_application :: "string \<Rightarrow> char \<Rightarrow> PlatformApplicationState" where
  "sample_application n d = \<lparr>as_Name = n, as_UID = ''app-1'', as_ResourceVersion = ''17'',
     as_IntentRevision = ''sha256:'' @ replicate 64 CHR ''a'', as_PlatformRevision = ''sha256:'' @ replicate 64 CHR ''c'',
     as_ExecutionFixture = ''sha256:'' @ replicate 64 CHR ''e'', as_SpecDigest = ''sha256:'' @ replicate 64 d,
     as_DesiredSourceRevision = ''v1'', as_AppliedSourceRevision = ''v1'', as_SyncStatus = ''Synced'', as_HealthStatus = ''Healthy''\<rparr>"

definition unsigned_capability :: PlatformCapabilityState where
  "unsigned_capability = \<lparr>pc_Format = PlatformCapabilityFormat, pc_ObservedAt = ''2026-01-02T03:04:05Z'', pc_TargetClusterUID = ''uid-1'',
     pc_IntentRevision = ''sha256:'' @ replicate 64 CHR ''a'', pc_PlatformRevision = ''sha256:'' @ replicate 64 CHR ''c'',
     pc_ExecutionFixture = ''sha256:'' @ replicate 64 CHR ''e'', pc_ContractDigest = ''sha256:'' @ replicate 64 CHR ''3'',
     pc_ExecutableDigest = ''sha256:'' @ replicate 64 CHR ''4'', pc_Passed = True, pc_EvidenceDigest = ''''\<rparr>"

definition sample_capability :: PlatformCapabilityState where
  "sample_capability = unsigned_capability\<lparr>pc_EvidenceDigest := SHA256 (canonical_text (enc_capability unsigned_capability))\<rparr>"

definition sample_platform :: PlatformSnapshot where
  "sample_platform = \<lparr>ps_Format = PlatformSnapshotFormat, ps_ObservedAt = ''2026-01-02T03:05:05Z'', ps_TargetClusterUID = ''uid-1'',
     ps_Applications = Some [sample_application ''cnpg'' (CHR ''2''), sample_application ''gitea'' (CHR ''1'')],
     ps_Capability = sample_capability\<rparr>"

lemma list_all_replicate_iff: "list_all P (replicate n c) \<longleftrightarrow> n = 0 \<or> P c"
  by (cases n) (auto simp: list_all_iff)

lemma sample_capability_signed: "PlatformCapabilityDigest sample_capability = Inr (pc_EvidenceDigest sample_capability)"
proof -
  have "sample_capability\<lparr>pc_EvidenceDigest := ''''\<rparr> = unsigned_capability"
    by (simp add: sample_capability_def unsigned_capability_def)
  moreover have "record_json (enc_capability unsigned_capability)"
    by (simp add: enc_capability_def unsigned_capability_def fits_codec max_nesting_depth_def valid_utf8_ascii is_ascii_def
        less_char_def list_all_replicate_iff PlatformCapabilityFormat_def)
  ultimately show ?thesis
    by (simp add: PlatformCapabilityDigest_def observation_canonicalDigest_def canonical_digest_eq) (simp add: sample_capability_def)
qed

lemma sample_instants: "parse_rfc3339 ''2026-01-02T03:04:05Z'' = Some 63902919845000000000"
  "parse_rfc3339 ''2026-01-02T03:05:05Z'' = Some 63902919905000000000"
  by code_simp+

lemma sample_capability_valid: "ValidatePlatformCapabilityState sample_capability = Inr ()"
proof -
  have "validDigest (pc_EvidenceDigest sample_capability)" by (simp add: sample_capability_def validDigest_def)
  moreover have "list_all validDigest [pc_IntentRevision sample_capability, pc_PlatformRevision sample_capability,
      pc_ExecutionFixture sample_capability, pc_ContractDigest sample_capability, pc_ExecutableDigest sample_capability]"
    unfolding sample_capability_def unsigned_capability_def by simp code_simp
  moreover have "validUID ''uid-1''" by code_simp
  ultimately show ?thesis
    using sample_capability_signed sample_instants(1)
    by (simp add: ValidatePlatformCapabilityState_def) (simp add: sample_capability_def unsigned_capability_def)
qed

lemma platform_statement_decides_witness:
  "\<exists>e. EvaluatePlatformSnapshot sample_policy sample_profile sample_platform = Inr e
    \<and> cn_Status (evaluateEvidence sample_policy e) = ''True''"
proof -
  have 1: "validatePolicy sample_policy True = Inr ()" by code_simp
  have 2: "validatePlatformProfile sample_policy sample_profile = Inr ()" by code_simp
  have "validatePlatformApplications [sample_application ''cnpg'' (CHR ''2''), sample_application ''gitea'' (CHR ''1'')] = Inr ()"
    by code_simp
  moreover have "validUID ''uid-1''" by code_simp
  ultimately have 3: "validatePlatformSnapshotShape sample_platform = Inr ()"
    using sample_capability_valid sample_instants(2) by (simp add: validatePlatformSnapshotShape_def sample_platform_def)
  have 4: "record_json (enc_platform_snapshot sample_platform)"
    by (simp add: enc_platform_snapshot_def sample_platform_def enc_application_state_def sample_application_def enc_capability_def
        sample_capability_def unsigned_capability_def fits_codec max_nesting_depth_def valid_utf8_ascii valid_utf8_digest is_ascii_def
        less_char_def list_all_replicate_iff PlatformCapabilityFormat_def PlatformSnapshotFormat_def)
  have "platform_ready sample_policy sample_profile sample_platform"
    using sample_instants
    by (auto simp: platform_ready_def applications_ready_def application_current_def capability_current_def sample_platform_def
        sample_policy_def sample_profile_def sample_application_def sample_capability_def unsigned_capability_def parsed_time_def
        nanosecond_per_second_def)
  with platform_statement_decides [OF 1 2 3 4] show ?thesis by blast
qed

end
