(* ===== verification/NetworkFacts.thy ===== *)
theory NetworkFacts
  imports NetworkEvaluator PlatformFacts
begin

text \<open>
  The network evaluator never says True too early: a statement that the aggregate counts as True means
  that the add-on objects are current, every expected node is up, every Cilium component is rolled out
  on the pinned image, every node runs one agent, and every node was probed on all four paths within the
  allowed age, measured in nanoseconds although the code compares rounded seconds.
\<close>

section \<open>Ages\<close>

definition near :: "rat \<Rightarrow> rat \<Rightarrow> rat \<Rightarrow> bool" where
  "near e x y \<longleftrightarrow> x - y \<le> e \<and> y - x \<le> e"

lemma float64_near:
  assumes "near b x 0" and "b \<le> 500"
  shows "near (1 / 10 ^ 12) (float64 x) x"
proof -
  have "\<bar>x\<bar> \<le> 500" using assms by (simp add: near_def abs_le_iff)
  then have "\<bar>x\<bar> / 2 ^ 53 \<le> 500 / 2 ^ 53" by (rule divide_right_mono) simp
  also have "(500 :: rat) / 2 ^ 53 \<le> 1 / 10 ^ 12" by simp
  finally have "\<bar>float64 x - x\<bar> \<le> 1 / 10 ^ 12" using float64_error [of x] by (rule order_trans [rotated])
  then show ?thesis by (simp only: near_def abs_le_iff) simp
qed

lemma maximum_age_near:
  assumes "0 < ms" and "ms \<le> 300000"
  shows "near (3 / 10 ^ 12) (maximum_age ms) (of_int ms / 1000 + 70)"
proof -
  define x :: rat where "x = of_int ms / 1000"
  define a where "a = float64 x"
  define b where "b = float64 (a + 60)"
  define c where "c = float64 (b + 10)"
  have m: "maximum_age ms = c"
    by (simp add: maximum_age_def float_add_def float_div_def probePublicationAllowanceSeconds_def
        probeSchedulingClockToleranceSeconds_def a_def b_def c_def x_def)
  have "near 300 x 0" using assms by (simp add: x_def near_def)
  moreover from this have a: "near (1 / 10 ^ 12) a x" unfolding a_def by (rule float64_near) simp
  ultimately have "near 361 (a + 60) 0" by (simp add: near_def)
  moreover from this have b: "near (1 / 10 ^ 12) b (a + 60)" unfolding b_def by (rule float64_near) simp
  ultimately have "near 372 (b + 10) 0" by (simp add: near_def)
  then have c: "near (1 / 10 ^ 12) c (b + 10)" unfolding c_def by (rule float64_near) simp
  show ?thesis using a b c unfolding m x_def [symmetric] by (simp add: near_def)
qed

text \<open>
  Rounding cannot make an old result look fresh: the error is below a nanosecond. It can make a result
  of exactly the maximal age look old, so the converse asks for one nanosecond less.
\<close>

lemma seconds_near:
  assumes "near 400 (seconds age) 0 \<or> near 400 (of_int age / 1000000000) 0"
  shows "near (1 / 10 ^ 12) (seconds age) (of_int age / 1000000000)"
proof -
  define y :: rat where "y = of_int age / 1000000000"
  have e: "\<bar>seconds age - y\<bar> \<le> (\<bar>y\<bar> + 3) / 2 ^ 52" using seconds_error [of age] by (simp add: y_def)
  have "(\<bar>y\<bar> + 3) / 2 ^ 52 \<le> (\<bar>y\<bar> + 3) / 1000" by (rule divide_left_mono) simp_all
  with e have "\<bar>seconds age - y\<bar> \<le> (\<bar>y\<bar> + 3) / 1000" by linarith
  moreover have "\<bar>y\<bar> \<le> \<bar>seconds age\<bar> + \<bar>seconds age - y\<bar>" by linarith
  moreover have "\<bar>seconds age\<bar> \<le> 400 \<or> \<bar>y\<bar> \<le> 400" using assms by (auto simp: near_def abs_le_iff y_def)
  ultimately have "\<bar>y\<bar> \<le> 402" by (elim disjE) (simp_all add: field_simps)
  then have "(\<bar>y\<bar> + 3) / 2 ^ 52 \<le> 405 / 2 ^ 52" by (intro divide_right_mono) simp_all
  also have "(405 :: rat) / 2 ^ 52 \<le> 1 / 10 ^ 12" by simp
  finally have "\<bar>seconds age - y\<bar> \<le> 1 / 10 ^ 12" using e by linarith
  then show ?thesis unfolding y_def [symmetric] by (simp only: near_def abs_le_iff) simp
qed

lemma fresh_is_fresh:
  assumes "0 < ms" and "ms \<le> 300000" and "\<not> probe_stale ms age"
  shows "- 10 * nanosecond_per_second \<le> age" "age \<le> ms * 1000000 + 70 * nanosecond_per_second"
proof -
  define y :: rat where "y = of_int age / 1000000000"
  define x :: rat where "x = of_int ms / 1000"
  note m = maximum_age_near [OF assms(1,2), folded x_def]
  have x: "x \<le> 300" using assms by (simp add: x_def)
  have s: "- 10 \<le> seconds age" "seconds age \<le> maximum_age ms"
    using assms(3) by (simp_all add: probe_stale_def probeSchedulingClockToleranceSeconds_def)
  then have "near 400 (seconds age) 0" using m x by (simp add: near_def)
  then have e: "near (1 / 10 ^ 12) (seconds age) y" using seconds_near [of age] by (simp add: y_def)
  have "- 10 - 1 / 10 ^ 12 \<le> y" using e s by (simp add: near_def)
  then have "of_int (- 10 * nanosecond_per_second) - 1 < (of_int age :: rat)" by (simp add: y_def nanosecond_per_second_def)
  then show "- 10 * nanosecond_per_second \<le> age" by linarith
  have "y \<le> x + 70 + 4 / 10 ^ 12" using e s m by (simp add: near_def)
  then have "(of_int age :: rat) < of_int (ms * 1000000 + 70 * nanosecond_per_second) + 1"
    by (simp add: y_def x_def nanosecond_per_second_def)
  then show "age \<le> ms * 1000000 + 70 * nanosecond_per_second" by linarith
qed

lemma younger_is_fresh:
  assumes "0 < ms" and "ms \<le> 300000" and "- 10 * nanosecond_per_second < age" and "age < ms * 1000000 + 70 * nanosecond_per_second"
  shows "\<not> probe_stale ms age"
proof -
  define y :: rat where "y = of_int age / 1000000000"
  define x :: rat where "x = of_int ms / 1000"
  note m = maximum_age_near [OF assms(1,2), folded x_def]
  have x: "x \<le> 300" using assms by (simp add: x_def)
  have "of_int (- 10 * nanosecond_per_second + 1) \<le> (of_int age :: rat)" using assms(3) by linarith
  then have 1: "- 10 + 1 / 1000000000 \<le> y" by (simp add: y_def nanosecond_per_second_def)
  have "(of_int age :: rat) \<le> of_int (ms * 1000000 + 70 * nanosecond_per_second - 1)" using assms(4) by linarith
  then have 2: "y \<le> x + 70 - 1 / 1000000000" by (simp add: y_def x_def nanosecond_per_second_def)
  have "near 400 y 0" using 1 2 x by (simp add: near_def)
  then have e: "near (1 / 10 ^ 12) (seconds age) y" using seconds_near [of age] by (simp add: y_def)
  have "- 10 \<le> seconds age" using e 1 by (simp add: near_def)
  moreover have "seconds age \<le> maximum_age ms" using e m 2 by (simp add: near_def)
  ultimately show ?thesis by (simp add: probe_stale_def probeSchedulingClockToleranceSeconds_def)
qed
section \<open>What True means\<close>

definition addon_ready :: "Policy \<Rightarrow> NetworkAddonSource \<Rightarrow> string \<Rightarrow> string \<Rightarrow> string list \<Rightarrow> bool" where
  "addon_ready po a ownerUID specDigest required \<longleftrightarrow> na_SpecDigest a = specDigest \<and> na_OwnerUID a = ownerUID
     \<and> na_IntentRevision a = po_IntentRevision po \<and> na_EnablementRevision a = po_EnablementRevision po
     \<and> na_TargetClusterUID a = po_TargetClusterUID po \<and> na_TargetSelected a \<and> 0 < na_Generation a
     \<and> na_StatusObservedGeneration a = na_Generation a
     \<and> (\<forall>name \<in> set required. \<exists>c \<in> set (elems (na_Conditions a)).
          nc_Type c = name \<and> nc_Status c = ''True'' \<and> nc_ObservedGeneration c = na_Generation a)"

definition nodes_up :: "NetworkProfile \<Rightarrow> NetworkNode list \<Rightarrow> bool" where
  "nodes_up p ns \<longleftrightarrow> int (length ns) = np_ExpectedNodeCount p \<and> distinct (map nn_UID ns) \<and> distinct (map nn_ProviderID ns)
     \<and> (\<forall>n \<in> set ns. nn_Ready n = ''True'' \<and> nn_NetworkUnavailable n = ''False'' \<and> nn_NetworkUnavailableReason n = ''CiliumIsUp'')"

definition rolled_out :: "NetworkProfile \<Rightarrow> NetworkComponent list \<Rightarrow> bool" where
  "rolled_out p cs \<longleftrightarrow> (\<forall>(name, desired, image) \<in> set (expected_components p). \<exists>c \<in> set cs. nw_ID c = name \<and> nw_Image c = image
     \<and> nw_ObservedGeneration c = nw_Generation c \<and> nw_Desired c = desired \<and> nw_Updated c = desired
     \<and> nw_Available c = desired \<and> nw_Ready c = desired)"

definition one_agent_each :: "NetworkNode list \<Rightarrow> NetworkAgentPod list \<Rightarrow> bool" where
  "one_agent_each ns ps \<longleftrightarrow> distinct (map ap_NodeUID ps) \<and> set (map ap_NodeUID ps) = set (map nn_UID ns)
     \<and> (\<forall>p \<in> set ps. ap_Phase p = ''Running'' \<and> ap_Ready p)"

text \<open>At most ten seconds ahead of the observation and no older than the interval and the allowances.\<close>

definition within_age :: "time \<Rightarrow> int \<Rightarrow> string \<Rightarrow> bool" where
  "within_age now ms s \<longleftrightarrow> (\<exists>t. parse_rfc3339 s = Some t \<and> - 10 * nanosecond_per_second \<le> now - t
     \<and> now - t \<le> ms * 1000000 + 70 * nanosecond_per_second)"

definition probed :: "NetworkSnapshot \<Rightarrow> bool" where
  "probed s \<longleftrightarrow> within_age (parsed_time (ns_ObservedAt s)) (nb_ProbeIntervalMilliseconds (ns_Probe s)) (nb_ResponseTimestamp (ns_Probe s))
     \<and> (\<forall>n \<in> set (elems (ns_Nodes s)). \<forall>scope \<in> {''host'', ''health-endpoint''}. \<forall>protocol \<in> {''http'', ''icmp''}.
          \<exists>path \<in> set (elems (nb_Paths (ns_Probe s))). pt_NodeUID path = nn_UID n \<and> pt_Scope path = scope \<and> pt_Protocol path = protocol
            \<and> pt_Status path = ''''
            \<and> within_age (parsed_time (ns_ObservedAt s)) (nb_ProbeIntervalMilliseconds (ns_Probe s)) (pt_LastProbed path))"

definition network_up :: "Policy \<Rightarrow> NetworkProfile \<Rightarrow> NetworkSnapshot \<Rightarrow> bool" where
  "network_up po p s \<longleftrightarrow> ns_TargetClusterUID s = po_TargetClusterUID po \<and> ns_IntentRevision s = po_IntentRevision po
     \<and> ns_EnablementRevision s = po_EnablementRevision po
     \<and> addon_ready po (ns_HCP s) '''' (np_ExpectedHCPSpecDigest p) [''Ready'', ''HelmReleaseProxySpecsUpToDate'', ''HelmReleaseProxiesReady'']
     \<and> ns_HRPCount s = 1 \<and> addon_ready po (ns_HRP s) (na_UID (ns_HCP s)) (np_ExpectedHRPSpecDigest p) [''Ready'', ''HelmReleaseReady'']
     \<and> na_ReleaseStatus (ns_HRP s) = ''deployed'' \<and> 1 \<le> na_ReleaseRevision (ns_HRP s)
     \<and> nodes_up p (elems (ns_Nodes s)) \<and> rolled_out p (elems (ns_Components s))
     \<and> one_agent_each (elems (ns_Nodes s)) (elems (ns_AgentPods s)) \<and> probed s"

section \<open>The parts\<close>

lemma addon_true:
  assumes "fst (evaluateAddonSource a target owner digest po required prefix) = ''True''" and "target = po_TargetClusterUID po"
  shows "addon_ready po a owner digest required"
proof -
  let ?m = "map_of (map (\<lambda>c. (nc_Type c, c)) (elems (na_Conditions a)))"
  have "\<exists>c \<in> set (elems (na_Conditions a)). nc_Type c = name \<and> nc_Status c = ''True'' \<and> nc_ObservedGeneration c = na_Generation a"
    if "name \<in> set required" for name
  proof -
    from assms(1) that have "\<not> (case ?m name of None \<Rightarrow> True | Some c \<Rightarrow> nc_Status c \<noteq> ''True'' \<or> nc_ObservedGeneration c \<noteq> na_Generation a)"
      by (auto simp: evaluateAddonSource_def list_ex_iff split: if_splits)
    then obtain c where "?m name = Some c" "nc_Status c = ''True''" "nc_ObservedGeneration c = na_Generation a"
      by (auto split: option.splits)
    then show ?thesis by (auto dest!: map_of_SomeD)
  qed
  with assms show ?thesis by (auto simp: evaluateAddonSource_def addon_ready_def split: if_splits)
qed

lemma check_nodes_Inr:
  assumes "check_nodes uids providers ns = Inr us"
  shows "us = rev (map nn_UID ns) @ uids \<and> distinct (map nn_UID ns) \<and> set (map nn_UID ns) \<inter> set uids = {}
    \<and> distinct (map nn_ProviderID ns) \<and> set (map nn_ProviderID ns) \<inter> set providers = {}
    \<and> (\<forall>n \<in> set ns. nn_Ready n = ''True'' \<and> nn_NetworkUnavailable n = ''False'' \<and> nn_NetworkUnavailableReason n = ''CiliumIsUp'')"
  using assms
proof (induction uids providers ns rule: check_nodes.induct)
  case (2 uids providers n ns)
  from "2.prems" have c: "nn_UID n \<notin> set uids" "nn_ProviderID n \<notin> set providers"
    "nn_Ready n = ''True''" "nn_NetworkUnavailable n = ''False''" "nn_NetworkUnavailableReason n = ''CiliumIsUp''"
    "check_nodes (nn_UID n # uids) (nn_ProviderID n # providers) ns = Inr us"
    by (simp_all only: check_nodes.simps split: if_splits) simp_all
  have "validUID (nn_UID n) \<and> nn_ProviderID n \<noteq> ''''" using "2.prems" by (simp only: check_nodes.simps split: if_splits) simp_all
  with "2.IH" c show ?case by auto
qed simp

lemma check_components_true:
  assumes "fst (check_components p seen cs) = ''True''"
  shows "distinct (map nw_ID cs) \<and> set (map nw_ID cs) \<inter> set seen = {}"
    "\<forall>c \<in> set cs. \<exists>desired image. (nw_ID c, desired, image) \<in> set (expected_components p) \<and> nw_Image c = image
       \<and> nw_ObservedGeneration c = nw_Generation c \<and> nw_Desired c = desired \<and> nw_Updated c = desired
       \<and> nw_Available c = desired \<and> nw_Ready c = desired"
proof -
  have "(distinct (map nw_ID cs) \<and> set (map nw_ID cs) \<inter> set seen = {})
    \<and> (\<forall>c \<in> set cs. \<exists>desired image. (nw_ID c, desired, image) \<in> set (expected_components p) \<and> nw_Image c = image
       \<and> nw_ObservedGeneration c = nw_Generation c \<and> nw_Desired c = desired \<and> nw_Updated c = desired
       \<and> nw_Available c = desired \<and> nw_Ready c = desired)"
    using assms
  proof (induction p seen cs rule: check_components.induct)
    case (2 p seen c cs)
    then obtain desired image where m: "map_of (expected_components p) (nw_ID c) = Some (desired, image)"
      by (cases "map_of (expected_components p) (nw_ID c)") auto
    from "2.prems" have c: "nw_ID c \<notin> set seen" "validUID (nw_UID c)" "0 < nw_Generation c" "nw_Image c = image"
      "nw_ObservedGeneration c = nw_Generation c" "nw_Desired c = desired" "nw_Updated c = desired"
      "nw_Available c = desired" "nw_Ready c = desired" "fst (check_components p (nw_ID c # seen) cs) = ''True''"
      by (simp_all add: m split: if_splits)
    from m have "(nw_ID c, desired, image) \<in> set (expected_components p)" by (rule map_of_SomeD)
    with "2.IH" [OF m refl] c show ?case by auto
  qed simp
  then show "distinct (map nw_ID cs) \<and> set (map nw_ID cs) \<inter> set seen = {}"
    "\<forall>c \<in> set cs. \<exists>desired image. (nw_ID c, desired, image) \<in> set (expected_components p) \<and> nw_Image c = image
       \<and> nw_ObservedGeneration c = nw_Generation c \<and> nw_Desired c = desired \<and> nw_Updated c = desired
       \<and> nw_Available c = desired \<and> nw_Ready c = desired" by blast+
qed

lemma all_covered:
  assumes "distinct xs" "set xs \<subseteq> set ys" "length xs = length ys" "distinct ys"
  shows "set xs = set ys"
  using assms by (metis List.finite_set card_subset_eq distinct_card)

lemma components_true:
  assumes "fst (evaluateNetworkComponents p cs) = ''True''"
  shows "rolled_out p cs"
proof -
  from assms have l: "length cs = length (expected_components p)" and t: "fst (check_components p [] cs) = ''True''"
    by (auto simp: evaluateNetworkComponents_def split: if_splits)
  note c = check_components_true [OF t]
  have e: "distinct (map fst (expected_components p))" by (simp add: expected_components_def)
  have "set (map nw_ID cs) \<subseteq> set (map fst (expected_components p))" using c(2) by force
  with c(1) e l have s: "set (map nw_ID cs) = set (map fst (expected_components p))"
    by (intro all_covered) simp_all
  show ?thesis unfolding rolled_out_def
  proof (clarify)
    fix name desired image
    assume m: "(name, desired, image) \<in> set (expected_components p)"
    with s obtain c where c': "c \<in> set cs" "nw_ID c = name" by force
    with c(2) obtain d i where d: "(nw_ID c, d, i) \<in> set (expected_components p)" "nw_Image c = i"
      "nw_ObservedGeneration c = nw_Generation c" "nw_Desired c = d" "nw_Updated c = d" "nw_Available c = d" "nw_Ready c = d"
      by blast
    from e m d(1) c'(2) have "(d, i) = (desired, image)" by (metis eq_key_imp_eq_value)
    with c' d show "\<exists>c \<in> set cs. nw_ID c = name \<and> nw_Image c = image \<and> nw_ObservedGeneration c = nw_Generation c
        \<and> nw_Desired c = desired \<and> nw_Updated c = desired \<and> nw_Available c = desired \<and> nw_Ready c = desired" by blast
  qed
qed

lemma check_pods_Inr:
  assumes "check_pods us seen ps = Inr r"
  shows "r = rev (map ap_NodeUID ps) @ seen \<and> distinct (map ap_NodeUID ps) \<and> set (map ap_NodeUID ps) \<inter> set seen = {}
    \<and> set (map ap_NodeUID ps) \<subseteq> set us \<and> (\<forall>p \<in> set ps. ap_Phase p = ''Running'' \<and> ap_Ready p)"
  using assms
proof (induction us seen ps rule: check_pods.induct)
  case (2 us seen p ps)
  from "2.prems" have c: "validUID (ap_UID p)" "ap_Phase p = ''Running''" "ap_Ready p" "ap_NodeUID p \<in> set us" "ap_NodeUID p \<notin> set seen"
    "check_pods us (ap_NodeUID p # seen) ps = Inr r"
    by (simp_all split: if_splits)
  with "2.IH" show ?case by auto
qed simp

section \<open>The probe\<close>

lemma check_paths_Inr:
  assumes "check_paths us now ms ps = Inr ()"
  shows "\<forall>p \<in> set ps. pt_NodeUID p \<in> set us \<and> pt_Scope p \<in> {''host'', ''health-endpoint''} \<and> pt_Protocol p \<in> {''http'', ''icmp''}
    \<and> pt_Status p = '''' \<and> (\<exists>t. parse_rfc3339 (pt_LastProbed p) = Some t \<and> \<not> probe_stale ms (sub_time now t))"
  using assms
proof (induction us now ms ps rule: check_paths.induct)
  case (2 us now ms p ps)
  from "2.prems" have c: "pt_NodeUID p \<in> set us" "pt_Scope p \<in> {''host'', ''health-endpoint''}"
    "pt_Protocol p \<in> {''http'', ''icmp''}" "pt_Status p = ''''"
    by (simp_all only: check_paths.simps split: if_splits) (simp_all, blast)
  then have e: "check_paths us now ms (p # ps) = (case parse_rfc3339 (pt_LastProbed p) of
      None \<Rightarrow> Inl (''False'', ''FunctionalProbeInvalid'')
    | Some lastProbed \<Rightarrow> if probe_stale ms (sub_time now lastProbed) then Inl (''False'', ''FunctionalProbeStale'')
        else check_paths us now ms ps)" by auto
  from "2.prems" obtain t where t: "parse_rfc3339 (pt_LastProbed p) = Some t" "\<not> probe_stale ms (sub_time now t)"
    "check_paths us now ms ps = Inr ()" unfolding e by (auto split: option.splits if_splits)
  have "\<forall>p \<in> set ps. pt_NodeUID p \<in> set us \<and> pt_Scope p \<in> {''host'', ''health-endpoint''} \<and> pt_Protocol p \<in> {''http'', ''icmp''}
    \<and> pt_Status p = '''' \<and> (\<exists>t. parse_rfc3339 (pt_LastProbed p) = Some t \<and> \<not> probe_stale ms (sub_time now t))"
    using c t by (intro "2.IH") auto
  with c t show ?case by simp
qed simp

lemma no_adjacent_distinct:
  assumes "\<not> list_ex (\<lambda>i. sort xs ! i = sort xs ! (i - 1)) [1..<length (sort xs)]"
  shows "distinct xs"
proof -
  have "sort xs ! i < sort xs ! Suc i" if "Suc i < length (sort xs)" for i
  proof -
    have "sort xs ! Suc i \<noteq> sort xs ! i" using assms that by (auto simp: list_ex_iff dest!: bspec [of _ _ "Suc i"])
    moreover have "sort xs ! i \<le> sort xs ! Suc i" using that by (intro sorted_nth_mono) simp_all
    ultimately show ?thesis by simp
  qed
  then have "sorted_wrt (<) (sort xs)" by (simp add: sorted_wrt_iff_nth_Suc_transp)
  then show ?thesis by (simp add: strict_sorted_iff)
qed

lemma stale_age:
  assumes "0 < ms" and "ms \<le> 300000" and "\<not> probe_stale ms (sub_time now t)" and "parse_rfc3339 s = Some t"
  shows "within_age now ms s"
proof -
  note f = fresh_is_fresh [OF assms(1-3)]
  have "sub_time now t = now - t" using f assms(2) by (auto simp: sub_time_def nanosecond_per_second_def split: if_splits)
  with f assms(4) show ?thesis by (simp add: within_age_def)
qed
lemma check_paths_Inl: "check_paths us now ms ps = Inl v \<Longrightarrow> fst v \<noteq> ''True''"
  by (induction us now ms ps rule: check_paths.induct) (auto split: if_splits option.splits)

text \<open>
  Four different paths per node, all on known nodes: counting shows that none is missing.
\<close>

lemma every_path_there:
  assumes "length ps = length us * 4" and "distinct us" and "distinct (map path_key ps)"
    and "\<forall>p \<in> set ps. pt_NodeUID p \<in> set us \<and> pt_Scope p \<in> scopes \<and> pt_Protocol p \<in> protocols"
    and "card scopes = 2" "card protocols = 2" and "u \<in> set us" "s \<in> scopes" "r \<in> protocols"
  shows "\<exists>p \<in> set ps. pt_NodeUID p = u \<and> pt_Scope p = s \<and> pt_Protocol p = r"
proof -
  define g :: "NetworkProbePath \<Rightarrow> string \<times> string \<times> string" where "g = (\<lambda>p. (pt_NodeUID p, pt_Scope p, pt_Protocol p))"
  define whole where "whole = set us \<times> scopes \<times> protocols"
  have f: "finite scopes" "finite protocols" using assms(5,6) card.infinite by force+
  have k: "path_key = (\<lambda>(u, s, r). u @ ''/'' @ s @ ''/'' @ r) \<circ> g" by (simp add: fun_eq_iff path_key_def g_def)
  have "distinct (map g ps)" using assms(3) unfolding k map_map [symmetric] using distinct_map by blast
  then have "card (g ` set ps) = length us * 4" using assms(1) by (metis distinct_card length_map set_map)
  also have "\<dots> = card whole"
    using assms(2,5,6) by (simp add: whole_def card_cartesian_product distinct_card)
  finally have "card (g ` set ps) = card whole" .
  moreover have "g ` set ps \<subseteq> whole" using assms(4) by (auto simp: g_def whole_def)
  moreover have "finite whole" using f by (simp add: whole_def)
  ultimately have "g ` set ps = whole" by (metis card_subset_eq)
  moreover have "(u, s, r) \<in> whole" using assms(7-9) by (simp add: whole_def)
  ultimately show ?thesis by (auto simp: g_def)
qed

lemma final_verdict_simps [simp]: "final_verdict (Inl v) = v" "final_verdict (Inr v) = v"
  by (simp_all add: final_verdict_def)

lemma probe_true:
  assumes t: "fst (evaluateNetworkProbe s us) = ''True''" and us: "distinct us" "set us = set (map nn_UID (elems (ns_Nodes s)))"
  shows "probed s"
proof -
  let ?ps = "elems (nb_Paths (ns_Probe s))" and ?ms = "nb_ProbeIntervalMilliseconds (ns_Probe s)"
    and ?now = "parsed_time (ns_ObservedAt s)"
  from t obtain r where r: "parse_rfc3339 (nb_ResponseTimestamp (ns_Probe s)) = Some r" "0 < ?ms" "?ms \<le> 300000"
    "\<not> probe_stale ?ms (sub_time ?now r)" "length ?ps = length us * 4"
    "fst (final_verdict (bindE (check_paths us ?now ?ms ?ps) (\<lambda>_.
       let seen = sort (map path_key ?ps)
       in Inr (if list_ex (\<lambda>i. seen ! i = seen ! (i - 1)) [1..<length seen] then
            (''False'', ''FunctionalProbeCoverageInvalid'') else (''True'', ''NetworkReady''))))) = ''True''"
    unfolding evaluateNetworkProbe_def Let_def maximumAdvertisedProbeIntervalSeconds_def
    by (auto split: option.splits if_splits)
  have ok: "check_paths us ?now ?ms ?ps = Inr ()"
  proof (cases "check_paths us ?now ?ms ?ps")
    case (Inl v)
    with r(6) check_paths_Inl [OF Inl] show ?thesis by simp
  qed simp
  with r(6) have d: "distinct (map path_key ?ps)" by (intro no_adjacent_distinct) (simp add: Let_def split: if_splits)
  have w: "within_age ?now ?ms (nb_ResponseTimestamp (ns_Probe s))" using stale_age [OF r(2,3,4,1)] .
  note c = check_paths_Inr [OF ok]
  have "\<exists>path \<in> set ?ps. pt_NodeUID path = nn_UID n \<and> pt_Scope path = scope \<and> pt_Protocol path = protocol \<and> pt_Status path = ''''
      \<and> within_age ?now ?ms (pt_LastProbed path)"
    if "n \<in> set (elems (ns_Nodes s))" "scope \<in> {''host'', ''health-endpoint''}" "protocol \<in> {''http'', ''icmp''}" for n scope protocol
  proof -
    have "nn_UID n \<in> set us" using us(2) that(1) by simp
    from every_path_there [OF r(5) us(1) d _ _ _ this that(2,3)] c
    obtain path where p: "path \<in> set ?ps" "pt_NodeUID path = nn_UID n" "pt_Scope path = scope" "pt_Protocol path = protocol"
      by auto
    with c obtain t where "pt_Status path = ''''" "parse_rfc3339 (pt_LastProbed path) = Some t" "\<not> probe_stale ?ms (sub_time ?now t)"
      by blast
    with p stale_age [OF r(2,3)] show ?thesis by blast
  qed
  with w show ?thesis unfolding probed_def by blast
qed
section \<open>The verdict\<close>

lemma unless_true_Inr: "unless_true v = Inr () \<longleftrightarrow> fst v = ''True''"
  by (simp add: unless_true_def)

lemma verdict_source:
  assumes "fst (final_verdict (bindE (unless_true w) f)) = ''True''"
  shows "fst w = ''True''" "fst (final_verdict (f ())) = ''True''"
  using assms by (auto simp: unless_true_def split: if_splits)

lemma verdict_stop:
  assumes "fst (final_verdict (if b then Inl (s, r) else g)) = ''True''" and "s \<noteq> ''True''"
  shows "\<not> b" "fst (final_verdict g) = ''True''"
  using assms by (auto split: if_splits)

lemma check_nodes_Inl: "check_nodes uids providers ns = Inl v \<Longrightarrow> fst v \<noteq> ''True''"
  by (induction uids providers ns rule: check_nodes.induct) (auto split: if_splits)

lemma check_pods_Inl: "check_pods us seen ps = Inl v \<Longrightarrow> fst v \<noteq> ''True''"
  by (induction us seen ps rule: check_pods.induct) (auto split: if_splits)

lemma verdict_nodes:
  "fst (final_verdict (bindE (check_nodes uids providers ns) f)) = ''True'' \<Longrightarrow>
    \<exists>us. check_nodes uids providers ns = Inr us \<and> fst (final_verdict (f us)) = ''True''"
  using check_nodes_Inl by (cases "check_nodes uids providers ns") auto

lemma verdict_pods:
  "fst (final_verdict (bindE (check_pods us seen ps) f)) = ''True'' \<Longrightarrow>
    \<exists>r. check_pods us seen ps = Inr r \<and> fst (final_verdict (f r)) = ''True''"
  using check_pods_Inl by (cases "check_pods us seen ps") auto

lemma network_status:
  assumes "fst (evaluateNetworkState po p s) = ''True''"
  shows "network_up po p s"
proof -
  have n: "''Unknown'' \<noteq> ''True''" "''False'' \<noteq> ''True''" by simp_all
  note a = assms [unfolded evaluateNetworkState_def]
  have i: "ns_TargetClusterUID s = po_TargetClusterUID po" "ns_IntentRevision s = po_IntentRevision po"
    "ns_EnablementRevision s = po_EnablementRevision po" using a by (auto split: if_splits)
  note s1 = verdict_source [OF a [unfolded i, simplified]]
  note s2 = verdict_stop [OF s1(2) n(1)]
  note s3 = verdict_source [OF s2(2)]
  note s4 = verdict_stop [OF s3(2) n(1)]
  note s5 = verdict_stop [OF s4(2) n(1)]
  obtain us where us: "check_nodes [] [] (elems (ns_Nodes s)) = Inr us" and s6: "fst (final_verdict (
      bindE (unless_true (evaluateNetworkComponents p (elems (ns_Components s)))) (\<lambda>_.
        if int (length (elems (ns_AgentPods s))) \<noteq> np_ExpectedNodeCount p then Inl (''Unknown'', ''CiliumAgentPodsNotReady'')
        else bindE (check_pods us [] (elems (ns_AgentPods s))) (\<lambda>podNodes.
        if length podNodes \<noteq> length us then Inl (''False'', ''CiliumNodeCoverageInvalid'')
        else Inr (evaluateNetworkProbe s us))))) = ''True''"
    using verdict_nodes [OF s5(2)] by blast
  note s7 = verdict_source [OF s6]
  note s8 = verdict_stop [OF s7(2) n(1)]
  obtain ps where ps: "check_pods us [] (elems (ns_AgentPods s)) = Inr ps" and s9: "fst (final_verdict (
      if length ps \<noteq> length us then Inl (''False'', ''CiliumNodeCoverageInvalid'') else Inr (evaluateNetworkProbe s us))) = ''True''"
    using verdict_pods [OF s8(2)] by blast
  note s10 = verdict_stop [OF s9 n(2)]
  note un = check_nodes_Inr [OF us] and pn = check_pods_Inr [OF ps]
  have us': "distinct us" "set us = set (map nn_UID (elems (ns_Nodes s)))" using un by auto
  have "length (map ap_NodeUID (elems (ns_AgentPods s))) = length us" using pn s10(1) by auto
  then have "set (map ap_NodeUID (elems (ns_AgentPods s))) = set us" using pn us'(1) by (intro all_covered) auto
  then have "one_agent_each (elems (ns_Nodes s)) (elems (ns_AgentPods s))" using pn us'(2) by (simp add: one_agent_each_def)
  moreover have "nodes_up p (elems (ns_Nodes s))" using un s5(1) by (auto simp: nodes_up_def)
  moreover have "probed s" using probe_true [OF _ us'] s10(2) by simp
  ultimately show ?thesis
    using i addon_true [OF s1(1) refl] addon_true [OF s3(1) refl] s2(1) s4(1) components_true [OF s7(1)]
    by (simp add: network_up_def)
qed
section \<open>The statement\<close>

definition fit_verdict :: "verdict \<Rightarrow> bool" where
  "fit_verdict v \<longleftrightarrow> fst v \<in> {''True'', ''False'', ''Unknown''} \<and> valid_reason (snd v)"

lemma network_reasons: "valid_reason ''EnablementReleaseNotReady''" "valid_reason ''NodeInventoryNotReady''"
  "valid_reason ''NodeIdentityInvalid''" "valid_reason ''NodeNetworkNotReady''" "valid_reason ''CiliumAgentPodsNotReady''"
  "valid_reason ''CiliumNodeCoverageInvalid''" "valid_reason ''CiliumRolloutNotReady''" "valid_reason ''CiliumRolloutReady''"
  "valid_reason ''CiliumComponentIdentityInvalid''" "valid_reason ''CiliumImageMismatch''" "valid_reason ''FunctionalProbePending''"
  "valid_reason ''FunctionalProbeInvalid''" "valid_reason ''FunctionalProbeStale''" "valid_reason ''FunctionalProbeFailed''"
  "valid_reason ''FunctionalProbeCoverageInvalid''" "valid_reason ''NetworkReady''"
  "valid_reason ''EnablementOwnerIdentityMismatch''" "valid_reason ''EnablementOwnerNotReady''" "valid_reason ''EnablementOwnerReady''"
  "valid_reason ''EnablementReleaseIdentityMismatch''" "valid_reason ''EnablementReleaseReady''"
  by (simp_all add: valid_reason_def is_alnum_def is_lower_alnum_def is_digit_def less_eq_char_def)

lemma addon_fit:
  assumes "prefix \<in> {''EnablementOwner'', ''EnablementRelease''}"
  shows "fit_verdict (evaluateAddonSource a t ow d po required prefix)"
proof -
  have "valid_reason (prefix @ r)" if "r \<in> {''IdentityMismatch'', ''NotReady'', ''Ready''}" for r
    using assms that network_reasons by auto
  then show ?thesis by (simp add: evaluateAddonSource_def fit_verdict_def)
qed

lemma check_components_fit: "fit_verdict (check_components p seen cs)"
  by (induction p seen cs rule: check_components.induct) (auto simp: fit_verdict_def network_reasons split: option.splits)

lemma check_nodes_fit: "check_nodes uids providers ns = Inl v \<Longrightarrow> fit_verdict v"
  by (induction uids providers ns rule: check_nodes.induct) (auto simp: fit_verdict_def network_reasons split: if_splits)

lemma check_pods_fit: "check_pods us seen ps = Inl v \<Longrightarrow> fit_verdict v"
  by (induction us seen ps rule: check_pods.induct) (auto simp: fit_verdict_def network_reasons split: if_splits)

lemma check_paths_fit: "check_paths us now ms ps = Inl v \<Longrightarrow> fit_verdict v"
  by (induction us now ms ps rule: check_paths.induct) (auto simp: fit_verdict_def network_reasons split: if_splits option.splits)

lemma nodes_fit:
  "(\<And>us. fit_verdict (final_verdict (f us))) \<Longrightarrow> fit_verdict (final_verdict (bindE (check_nodes uids providers ns) f))"
  by (cases "check_nodes uids providers ns") (auto dest: check_nodes_fit)

lemma pods_fit:
  "(\<And>r. fit_verdict (final_verdict (f r))) \<Longrightarrow> fit_verdict (final_verdict (bindE (check_pods us seen ps) f))"
  by (cases "check_pods us seen ps") (auto dest: check_pods_fit)

lemma paths_fit:
  "(\<And>u. fit_verdict (final_verdict (f u))) \<Longrightarrow> fit_verdict (final_verdict (bindE (check_paths us now ms ps) f))"
  by (cases "check_paths us now ms ps") (auto dest: check_paths_fit)

lemma done_fit: "fit_verdict v \<Longrightarrow> fit_verdict (final_verdict (Inr v))"
  by simp

lemma cond_fit: "fit_verdict v \<Longrightarrow> fit_verdict w \<Longrightarrow> fit_verdict (if b then v else w)"
  by simp

lemma some_fit: "fit_verdict v \<Longrightarrow> (\<And>x. fit_verdict (f x)) \<Longrightarrow> fit_verdict (case m of None \<Rightarrow> v | Some x \<Rightarrow> f x)"
  by (cases m) simp_all

lemma source_fit:
  assumes "fit_verdict w" and "fit_verdict (final_verdict (f ()))"
  shows "fit_verdict (final_verdict (bindE (unless_true w) f))"
  using assms by (simp add: unless_true_def)

lemma stop_fit: "fit_verdict v \<Longrightarrow> fit_verdict (final_verdict g) \<Longrightarrow> fit_verdict (final_verdict (if b then Inl v else g))"
  by simp

lemma constant_fit: "s \<in> {''True'', ''False'', ''Unknown''} \<Longrightarrow> valid_reason r \<Longrightarrow> fit_verdict (s, r)"
  by (simp add: fit_verdict_def)

lemma probe_fit: "fit_verdict (evaluateNetworkProbe s us)"
  unfolding evaluateNetworkProbe_def Let_def
  by (intro cond_fit some_fit paths_fit done_fit constant_fit network_reasons) simp_all

lemma network_fit: "fit_verdict (evaluateNetworkState po p s)"
  unfolding evaluateNetworkState_def
proof (intro cond_fit source_fit stop_fit nodes_fit pods_fit done_fit)
  show "fit_verdict (evaluateNetworkComponents p (elems (ns_Components s)))"
    by (simp add: evaluateNetworkComponents_def check_components_fit constant_fit network_reasons)
qed (intro addon_fit constant_fit probe_fit network_reasons platform_reasons; simp)+

definition observed_enablement :: "NetworkSnapshot \<Rightarrow> string" where
  "observed_enablement s = (if \<not> validDigest (ns_EnablementRevision s) then '''' else ns_EnablementRevision s)"

lemma observed_enablement_fit: "observed_enablement s = '''' \<or> digest_pattern (observed_enablement s)"
  by (simp add: observed_enablement_def validDigest_def)

lemma network_statement_formed:
  assumes "validatePolicy po True = Inr ()" and "validateNetworkProfile po p = Inr ()" and "validateNetworkSnapshotShape s = Inr ()"
    and "record_json (enc_network_profile p)" and "record_json (enc_network_snapshot s)"
  shows "\<exists>ed. EvaluateNetworkSnapshot po p s = Inr (network_evidence po ed (observed_enablement s) (evaluateNetworkState po p s))
    \<and> check_evidence [''NetworkReady''] [network_evidence po ed (observed_enablement s) (evaluateNetworkState po p s)] = Inr ()"
proof -
  note f = validatePolicy_facts [OF assms(1)]
  have p: "ValidateNetworkProfile p = Inr ()" using assms(2) by (simp add: validateNetworkProfile_def split: if_splits)
  obtain pd where pd: "NetworkProfileDigest p = Inr pd" "digest_pattern pd"
    using canonical_digest_eq [OF assms(4)] SHA256_pattern p by (auto simp: NetworkProfileDigest_def observation_canonicalDigest_def)
  obtain sd where sd: "observation_canonicalDigest (enc_network_snapshot s) = Inr sd" "digest_pattern sd"
    using canonical_digest_eq [OF assms(5)] SHA256_pattern by (auto simp: observation_canonicalDigest_def)
  have "list_all is_ascii ''ok147-network-evidence-binding/v1''" by (simp add: is_ascii_def less_char_def)
  then obtain ed where ed: "observation_canonicalDigest (enc_evidence_binding ''ok147-network-evidence-binding/v1'' pd sd) = Inr ed"
      "digest_pattern ed" using evidence_binding_digest [OF pd(2) sd(2), of "''ok147-network-evidence-binding/v1''"] by blast
  have "validUID ''network-evidence-''"
    by (simp add: validUID_def is_alnum_def is_lower_alnum_def is_digit_def less_eq_char_def)
  then have u: "validUID (evidence_uid ''network-evidence-'' ed)" using ed(2) by (intro evidence_uid_valid) simp_all
  let ?o = "observed_enablement s"
  let ?e = "network_evidence po ed ?o (evaluateNetworkState po p s)"
  have h: "validateEvidenceShape ?e = Inr ()"
    using u f ed(2) network_fit [of po p s] observed_enablement_fit [of s]
    by (simp add: network_evidence_def validateEvidenceShape_def sourceFor_def isCAPISource_def validDigest_def fit_verdict_def)
  have "EvaluateNetworkSnapshot po p s = Inr ?e"
    using assms(1-3) pd(1) sd(1) ed(1) h by (simp add: EvaluateNetworkSnapshot_def normalized_evidence_def observed_enablement_def)
  moreover have "check_evidence [''NetworkReady''] [?e] = Inr ()"
    using h by (simp add: network_evidence_def supportedConditions_def)
  ultimately show ?thesis by blast
qed

text \<open>
  C15: the network statement never says True too early. For a policy, a profile and a snapshot that pass
  their checks a well-formed statement is always produced; and if the aggregate counts it as True, the
  snapshot is about the target in the expected revisions, both add-on objects are current, exactly the
  expected nodes are up, all Cilium components are rolled out on their pinned images, every node runs
  exactly one agent, and every node was probed without a failure on all four paths within the allowed age.
\<close>

theorem network_statement_sound:
  assumes "validatePolicy po True = Inr ()" and "validateNetworkProfile po p = Inr ()" and "validateNetworkSnapshotShape s = Inr ()"
    and "record_json (enc_network_profile p)" and "record_json (enc_network_snapshot s)"
  shows "\<exists>e. EvaluateNetworkSnapshot po p s = Inr e \<and> check_evidence [''NetworkReady''] [e] = Inr ()
    \<and> (cn_Status (evaluateEvidence po e) = ''True'' \<longrightarrow> network_up po p s)"
proof -
  obtain ed where e: "EvaluateNetworkSnapshot po p s = Inr (network_evidence po ed (observed_enablement s) (evaluateNetworkState po p s))"
    "check_evidence [''NetworkReady''] [network_evidence po ed (observed_enablement s) (evaluateNetworkState po p s)] = Inr ()"
    using network_statement_formed [OF assms] by blast
  have "network_up po p s"
    if "cn_Status (evaluateEvidence po (network_evidence po ed (observed_enablement s) (evaluateNetworkState po p s))) = ''True''"
    using that network_status [of po p s] by (simp add: evaluateEvidence_status network_evidence_def split: if_splits)
  with e show ?thesis by blast
qed

section \<open>A concrete network\<close>

definition sample_network_profile :: NetworkProfile where
  "sample_network_profile = \<lparr>np_Format = NetworkProfileFormat, np_IntentRevision = ''sha256:'' @ replicate 64 CHR ''a'',
     np_EnablementRevision = ''sha256:'' @ replicate 64 CHR ''b'', np_ExpectedNodeCount = 1,
     np_ExpectedHCPSpecDigest = ''sha256:'' @ replicate 64 CHR ''1'', np_ExpectedHRPSpecDigest = ''sha256:'' @ replicate 64 CHR ''2'',
     np_ExpectedImages = \<lparr>im_CiliumAgent = ''cilium@sha256:'' @ replicate 64 CHR ''3'',
       im_CiliumEnvoy = ''envoy@sha256:'' @ replicate 64 CHR ''4'', im_CiliumOperator = ''operator@sha256:'' @ replicate 64 CHR ''5''\<rparr>,
     np_MinimumProbeFreshnessSeconds = 60, np_MaximumProbeIntervalSeconds = 300, np_CacheExposureSeconds = 30\<rparr>"

definition sample_addon :: "string \<Rightarrow> string \<Rightarrow> char \<Rightarrow> string list \<Rightarrow> NetworkAddonSource" where
  "sample_addon uid owner d conditions = \<lparr>na_UID = uid, na_Generation = 2, na_StatusObservedGeneration = 2,
     na_SpecDigest = ''sha256:'' @ replicate 64 d, na_IntentRevision = ''sha256:'' @ replicate 64 CHR ''a'',
     na_EnablementRevision = ''sha256:'' @ replicate 64 CHR ''b'', na_OwnerUID = owner, na_TargetClusterUID = ''uid-1'',
     na_TargetSelected = True, na_ReleaseStatus = ''deployed'', na_ReleaseRevision = 1,
     na_Conditions = Some (map (\<lambda>n. \<lparr>nc_Type = n, nc_Status = ''True'', nc_ObservedGeneration = 2\<rparr>) conditions)\<rparr>"

definition sample_component :: "string \<Rightarrow> string \<Rightarrow> NetworkComponent" where
  "sample_component name pinned = \<lparr>nw_ID = name, nw_UID = name, nw_Generation = 1, nw_ObservedGeneration = 1, nw_Desired = 1,
     nw_Updated = 1, nw_Available = 1, nw_Ready = 1, nw_Image = pinned\<rparr>"

definition sample_path :: "string \<Rightarrow> string \<Rightarrow> NetworkProbePath" where
  "sample_path scope protocol = \<lparr>pt_NodeUID = ''node-1'', pt_Scope = scope, pt_Protocol = protocol, pt_StatusPresent = True,
     pt_Status = '''', pt_LastProbed = ''2026-01-02T03:04:05Z''\<rparr>"

definition sample_network :: NetworkSnapshot where
  "sample_network = \<lparr>ns_Format = NetworkSnapshotFormat, ns_ObservedAt = ''2026-01-02T03:05:05Z'', ns_TargetClusterUID = ''uid-1'',
     ns_IntentRevision = ''sha256:'' @ replicate 64 CHR ''a'', ns_EnablementRevision = ''sha256:'' @ replicate 64 CHR ''b'',
     ns_HCP = sample_addon ''hcp-1'' '''' (CHR ''1'') [''Ready'', ''HelmReleaseProxySpecsUpToDate'', ''HelmReleaseProxiesReady''],
     ns_HRPCount = 1, ns_HRP = sample_addon ''hrp-1'' ''hcp-1'' (CHR ''2'') [''Ready'', ''HelmReleaseReady''],
     ns_Nodes = Some [\<lparr>nn_UID = ''node-1'', nn_ProviderID = ''kubevirt://node-1'', nn_Ready = ''True'',
       nn_NetworkUnavailable = ''False'', nn_NetworkUnavailableReason = ''CiliumIsUp''\<rparr>],
     ns_Components = Some [sample_component ''cilium-agent'' (''cilium@sha256:'' @ replicate 64 CHR ''3''),
       sample_component ''cilium-envoy'' (''envoy@sha256:'' @ replicate 64 CHR ''4''),
       sample_component ''cilium-operator'' (''operator@sha256:'' @ replicate 64 CHR ''5'')],
     ns_AgentPods = Some [\<lparr>ap_UID = ''pod-1'', ap_NodeUID = ''node-1'', ap_Phase = ''Running'', ap_Ready = True\<rparr>],
     ns_Probe = \<lparr>nb_ResponseTimestamp = ''2026-01-02T03:05:00Z'', nb_ProbeIntervalMilliseconds = 60500,
       nb_Paths = Some [sample_path ''host'' ''http'', sample_path ''host'' ''icmp'', sample_path ''health-endpoint'' ''http'',
         sample_path ''health-endpoint'' ''icmp'']\<rparr>\<rparr>"

lemma sample_parts:
  "evaluateAddonSource (ns_HCP sample_network) ''uid-1'' '''' (np_ExpectedHCPSpecDigest sample_network_profile) sample_policy
     [''Ready'', ''HelmReleaseProxySpecsUpToDate'', ''HelmReleaseProxiesReady''] ''EnablementOwner'' = (''True'', ''EnablementOwnerReady'')"
  "evaluateAddonSource (ns_HRP sample_network) ''uid-1'' ''hcp-1'' (np_ExpectedHRPSpecDigest sample_network_profile) sample_policy
     [''Ready'', ''HelmReleaseReady''] ''EnablementRelease'' = (''True'', ''EnablementReleaseReady'')"
  "check_nodes [] [] (elems (ns_Nodes sample_network)) = Inr [''node-1'']"
  "evaluateNetworkComponents sample_network_profile (elems (ns_Components sample_network)) = (''True'', ''CiliumRolloutReady'')"
  "check_pods [''node-1''] [] (elems (ns_AgentPods sample_network)) = Inr [''node-1'']"
  by code_simp+

lemma sample_response: "parse_rfc3339 ''2026-01-02T03:05:00Z'' = Some 63902919900000000000"
  by code_simp

lemma sample_fresh: "\<not> probe_stale 60500 5000000000" "\<not> probe_stale 60500 60000000000"
  by (rule younger_is_fresh; simp add: nanosecond_per_second_def)+

lemma sample_probe: "evaluateNetworkProbe sample_network [''node-1''] = (''True'', ''NetworkReady'')"
proof -
  have "\<not> list_ex (\<lambda>i. sort (map path_key (elems (nb_Paths (ns_Probe sample_network)))) ! i
      = sort (map path_key (elems (nb_Paths (ns_Probe sample_network)))) ! (i - 1))
    [1..<length (sort (map path_key (elems (nb_Paths (ns_Probe sample_network)))))]"
    by code_simp
  moreover have "check_paths [''node-1''] 63902919905000000000 60500 (elems (nb_Paths (ns_Probe sample_network))) = Inr ()"
    using sample_instants sample_fresh by (simp add: sample_network_def sample_path_def sub_time_def)
  moreover have "length (elems (nb_Paths (ns_Probe sample_network))) = 4" by (simp add: sample_network_def)
  moreover have "ns_ObservedAt sample_network = ''2026-01-02T03:05:05Z''"
    "nb_ResponseTimestamp (ns_Probe sample_network) = ''2026-01-02T03:05:00Z''"
    "nb_ProbeIntervalMilliseconds (ns_Probe sample_network) = 60500" by (simp_all add: sample_network_def)
  ultimately show ?thesis
    using sample_instants sample_response sample_fresh
    by (simp add: evaluateNetworkProbe_def Let_def parsed_time_def maximumAdvertisedProbeIntervalSeconds_def sub_time_def)
qed
lemma sample_network_state: "evaluateNetworkState sample_policy sample_network_profile sample_network = (''True'', ''NetworkReady'')"
proof -
  have i: "ns_TargetClusterUID sample_network = ''uid-1''" "po_TargetClusterUID sample_policy = ''uid-1''"
    "ns_IntentRevision sample_network = po_IntentRevision sample_policy"
    "ns_EnablementRevision sample_network = po_EnablementRevision sample_policy" "ns_HRPCount sample_network = 1"
    "na_UID (ns_HCP sample_network) = ''hcp-1''" "na_ReleaseStatus (ns_HRP sample_network) = ''deployed''"
    "na_ReleaseRevision (ns_HRP sample_network) = 1" "length (elems (ns_Nodes sample_network)) = 1"
    "length (elems (ns_AgentPods sample_network)) = 1" "np_ExpectedNodeCount sample_network_profile = 1"
    by (simp_all add: sample_network_def sample_policy_def sample_addon_def sample_network_profile_def)
  show ?thesis by (simp add: evaluateNetworkState_def i sample_parts sample_probe unless_true_def)
qed

lemma sample_network_valid:
  shows "validatePolicy sample_policy True = Inr ()"
    and "validateNetworkProfile sample_policy sample_network_profile = Inr ()"
    and "validateNetworkSnapshotShape sample_network = Inr ()"
    and "record_json (enc_network_profile sample_network_profile)"
    and "record_json (enc_network_snapshot sample_network)"
proof -
  show "validatePolicy sample_policy True = Inr ()"
    by code_simp
  show "validateNetworkProfile sample_policy sample_network_profile = Inr ()"
    by code_simp
  show "validateNetworkSnapshotShape sample_network = Inr ()"
    by code_simp
  show "record_json (enc_network_profile sample_network_profile)"
    by (simp add: enc_network_profile_def enc_images_def sample_network_profile_def fits_codec max_nesting_depth_def valid_utf8_ascii
        is_ascii_def less_char_def list_all_replicate_iff NetworkProfileFormat_def in_int64_def)
  show "record_json (enc_network_snapshot sample_network)"
    by (simp add: enc_network_snapshot_def enc_addon_source_def enc_source_condition_def enc_node_def enc_component_def
        enc_agent_pod_def enc_probe_def enc_probe_path_def sample_network_def sample_addon_def sample_component_def sample_path_def
        fits_codec max_nesting_depth_def valid_utf8_ascii is_ascii_def less_char_def list_all_replicate_iff
        NetworkSnapshotFormat_def in_int64_def)
qed

lemma sample_network_statement:
  "\<exists>d. EvaluateNetworkSnapshot sample_policy sample_network_profile sample_network
      = Inr (network_evidence sample_policy d (po_EnablementRevision sample_policy) (''True'', ''NetworkReady''))
    \<and> check_evidence [''NetworkReady''] [network_evidence sample_policy d (po_EnablementRevision sample_policy) (''True'', ''NetworkReady'')] = Inr ()"
proof -
  have "ns_EnablementRevision sample_network = po_EnablementRevision sample_policy"
    by (simp add: sample_network_def sample_policy_def)
  moreover have "validDigest (po_EnablementRevision sample_policy)" by code_simp
  ultimately have "observed_enablement sample_network = po_EnablementRevision sample_policy" by (simp add: observed_enablement_def)
  with network_statement_formed [OF sample_network_valid] show ?thesis by (simp add: sample_network_state)
qed

lemma network_statement_sound_witness:
  "\<exists>e. EvaluateNetworkSnapshot sample_policy sample_network_profile sample_network = Inr e
    \<and> check_evidence [''NetworkReady''] [e] = Inr () \<and> network_up sample_policy sample_network_profile sample_network"
proof -
  obtain d where d: "EvaluateNetworkSnapshot sample_policy sample_network_profile sample_network
      = Inr (network_evidence sample_policy d (po_EnablementRevision sample_policy) (''True'', ''NetworkReady''))"
    using sample_network_statement by blast
  have "cn_Status (evaluateEvidence sample_policy
      (network_evidence sample_policy d (po_EnablementRevision sample_policy) (''True'', ''NetworkReady''))) = ''True''"
    by (simp add: evaluateEvidence_status network_evidence_def correlated_def isCAPISource_def expected_revision_def)
  with network_statement_sound [OF sample_network_valid] show ?thesis unfolding d by auto
qed

end
