(* ===== verification/AggregateFacts.thy ===== *)
theory AggregateFacts
  imports AggregateObserver NetworkFacts
begin

text \<open>
  The aggregate observer with its real evaluators: Ready=True means that each required condition holds
  of what its own source returned in this run; and a source whose conditions come later is irrelevant
  as long as an earlier condition is not True.
\<close>

section \<open>Where a statement comes from\<close>











section \<open>What a true statement of each source means\<close>












section \<open>Gates\<close>

lemma stage_true_stated:
  assumes "stageConditionsTrue po required m cs = Inr True" and "n \<in> set cs" "n \<in> set required"
  shows "\<exists>e. m n = [e] \<and> validateEvidenceShape e = Inr () \<and> cn_Status (evaluateEvidence po e) = ''True''"
  using assms
proof (induction po required m cs rule: stageConditionsTrue.induct)
  case (2 po required m c cs)
  show ?case
  proof (cases "c \<in> set required")
    case True
    with "2.prems"(1) obtain e where e: "m c = [e]" "validateEvidenceShape e = Inr ()" "cn_Status (evaluateEvidence po e) = ''True''"
      "stageConditionsTrue po required m cs = Inr True"
      by (auto simp: bindE_eq_Inr split: list.splits if_splits)
    with 2 True show ?thesis by (cases "n = c") auto
  qed (use 2 in auto)
qed simp

lemma take_lifecycle_map:
  assumes "take_lifecycle required m items = Inr m'" and "n \<in> set required"
  shows "m' n = m n @ filter (\<lambda>e. ei_Type e = n) items"
  using assms by (induction required m items rule: take_lifecycle.induct) (auto simp: add_statement_def split: if_splits)

text \<open>What the source stated about a lifecycle condition opens the gate.\<close>

definition lifecycle_open :: "Policy \<Rightarrow> Evidence list \<Rightarrow> bool" where
  "lifecycle_open po items \<longleftrightarrow> (\<forall>n \<in> {''InfrastructureReady'', ''ControlPlaneAvailable''} \<inter> set (elems (po_Required po)).
     stated po items n ''True'')"

text \<open>
  C13: the network and the platform are not looked at early. When the policy asks for a lifecycle condition
  and the CAPI source does not state every required one to be True, by exactly one correlated statement,
  the run is the same, result and world, whatever the network and the platform source would do.
\<close>

theorem closed_until_lifecycle_true:
  assumes "requiresAny (elems (po_Required po)) [''InfrastructureReady'', ''ControlPlaneAvailable'']"
    and "ob_CAPI observer po w = (Inr items, w1)" and "\<not> lifecycle_open po items"
  shows "AggregateObserver_Observe (observer\<lparr>ob_Network := anyNetwork, ob_Platform := anyPlatform\<rparr>) po w
    = AggregateObserver_Observe observer po w"
proof -
  let ?cs = "[''InfrastructureReady'', ''ControlPlaneAvailable'']"
  have closed: "stageConditionsTrue po (elems (po_Required po)) m ?cs \<noteq> Inr True"
    if tl: "take_lifecycle (elems (po_Required po)) (\<lambda>_. []) items = Inr m" for m
  proof
    assume s: "stageConditionsTrue po (elems (po_Required po)) m ?cs = Inr True"
    have "stated po items n ''True''" if n: "n \<in> set ?cs \<inter> set (elems (po_Required po))" for n
    proof -
      from n stage_true_stated [OF s, of n] obtain e where e: "m n = [e]" "cn_Status (evaluateEvidence po e) = ''True''" by auto
      moreover have "m n = filter (\<lambda>e. ei_Type e = n) items" using take_lifecycle_map [OF tl, of n] n by simp
      ultimately show ?thesis by (auto simp: stated_def evaluateEvidence_status split: if_splits)
    qed
    with assms(3) show False by (simp add: lifecycle_open_def)
  qed
  have e: "observer_evaluate (observer\<lparr>ob_Network := anyNetwork, ob_Platform := anyPlatform\<rparr>) po m w1 = observer_evaluate observer po m w1" for m
    by (simp add: observer_evaluate_def)
  have b: "r \<noteq> Inr True \<Longrightarrow> r = Inr ready \<Longrightarrow> \<not> ready" for r :: "bool result" and ready by auto
  show ?thesis
    using assms(1,2) closed
    unfolding AggregateObserver_Observe_def e
    by (auto simp: e simp del: stageConditionsTrue.simps split: sum.splits dest!: b)
qed
section \<open>A concrete run\<close>

definition sample_cluster :: "string \<Rightarrow> capiCluster" where
  "sample_cluster status = \<lparr>cl_APIVersion = capiClusterAPIVersion, cl_Kind = capiClusterKind, cl_Name = ''c1'', cl_Namespace = ''ns'',
     cl_UID = ''uid-1'', cl_ResourceVersion = ''9'', cl_Generation = 3,
     cl_Annotations = [(intentRevisionKey, ''sha256:'' @ replicate 64 CHR ''a'')],
     cl_Conditions = [\<lparr>cc_Type = ''InfrastructureReady'', cc_Status = status, cc_Reason = ''Observed'', cc_ObservedGeneration = 3\<rparr>]\<rparr>"

definition sample_capi :: "string \<Rightarrow> unit CAPILifecycleObserver" where
  "sample_capi status = \<lparr>cb_namespace = ''ns'', cb_name = ''c1'', cb_request = \<lambda>w. (Inr (sample_cluster status), w)\<rparr>"

definition sample_collector :: "unit PlatformSourceCollector" where
  "sample_collector = \<lparr>pl_argo = \<lambda>_ w. (Inl (New ''absent''), w), pl_capability = \<lambda>w. (Inl (New ''absent''), w),
     pl_Profile = sample_profile, pl_TargetClusterUID = ''uid-1'', pl_Clock = \<lambda>w. (63902919845000000000, w)\<rparr>"

definition aggregate_sample :: "string \<Rightarrow> unit AggregateObserver" where
  "aggregate_sample status = \<lparr>ob_CAPI = CAPILifecycleObserver_Collect (sample_capi status),
     ob_Network = NetworkSourceCollector_Observe (\<lambda>_ w. (Inr sample_network, w)),
     ob_Platform = PlatformSourceCollector_Observe sample_collector, ob_NetworkProfile = sample_network_profile,
     ob_Clock = \<lambda>w. (63902919845000000000, w)\<rparr>"

definition sample_lifecycle :: "string \<Rightarrow> string \<Rightarrow> Evidence" where
  "sample_lifecycle status d = \<lparr>ei_Type = ''InfrastructureReady'', ei_Source = ''CAPICluster'', ei_SourceUID = ''uid-1'',
     ei_TargetClusterUID = ''uid-1'', ei_Status = status, ei_Reason = ''Observed'',
     ei_DesiredRevision = ''sha256:'' @ replicate 64 CHR ''a'', ei_ObservedRevision = ''sha256:'' @ replicate 64 CHR ''a'',
     ei_Generation = 3, ei_ObservedGeneration = 3, ei_EvidenceDigest = d\<rparr>"

lemma sample_policy_valid: "validatePolicy sample_policy True = Inr ()"
  by code_simp

lemma sample_required: "elems (po_Required sample_policy) = [''InfrastructureReady'', ''NetworkReady'']"
  by (simp add: sample_policy_def)

lemma sample_collects:
  assumes "status \<in> {''True'', ''False''}"
  obtains d where "ob_CAPI (aggregate_sample status) sample_policy () = (Inr [sample_lifecycle status d], ())"
    "validateEvidenceShape (sample_lifecycle status d) = Inr ()"
proof -
  let ?c = "\<lparr>cc_Type = ''InfrastructureReady'', cc_Status = status, cc_Reason = ''Observed'', cc_ObservedGeneration = 3\<rparr>"
  let ?r = "''sha256:'' @ replicate 64 CHR ''a''"
  have s: "valid_utf8 status" using assms by (auto simp: valid_utf8_ascii is_ascii_def less_char_def)
  have "record_json (enc_capi_evidence (sample_cluster status) ?r ?c ''Observed'')"
    by (simp add: enc_capi_evidence_def sample_cluster_def fits_codec max_nesting_depth_def valid_utf8_ascii is_ascii_def
        less_char_def list_all_replicate_iff capiClusterAPIVersion_def capiClusterKind_def in_int64_def s)
  from canonical_digest_eq [OF this] obtain d where
    d: "observation_canonicalDigest (enc_capi_evidence (sample_cluster status) ?r ?c ''Observed'') = Inr d" "digest_pattern d"
    using SHA256_pattern by (auto simp: observation_canonicalDigest_def)
  have l: "validUID ''uid-1''" "valid_reason ''Observed''" "validDigest ?r" by code_simp+
  have shape: "validateEvidenceShape (sample_lifecycle status d) = Inr ()"
    using assms l d(2) by (auto simp: validateEvidenceShape_def sample_lifecycle_def sourceFor_def isCAPISource_def validDigest_def)
  have p: "po_TargetClusterUID sample_policy = ''uid-1''" "po_IntentRevision sample_policy = ?r" by (simp_all add: sample_policy_def)
  have "capi_statement (sample_cluster status) sample_policy ?r ?c = Inr (sample_lifecycle status d)"
  proof -
    have "capi_statement (sample_cluster status) sample_policy ?r ?c =
        normalized_evidence (''normalize CAPI '' @ ''InfrastructureReady'' @ '' evidence'') (sample_lifecycle status d)"
      using assms d(1) l by (auto simp: capi_statement_def p sample_lifecycle_def sample_cluster_def Let_def)
    with shape show ?thesis by (simp add: normalized_evidence_def)
  qed
  then have "normalizeCAPICluster (sample_cluster status) sample_policy = Inr [sample_lifecycle status d]"
    using l(3) by (simp add: normalizeCAPICluster_def sample_cluster_def List.map_filter_def)
  moreover have "readCluster (sample_capi status) () = (Inr (sample_cluster status), ())"
    using l(1) by (simp add: readCluster_def sample_capi_def) (simp add: sample_cluster_def)
  ultimately have "ob_CAPI (aggregate_sample status) sample_policy () = (Inr [sample_lifecycle status d], ())"
    by (simp add: aggregate_sample_def CAPILifecycleObserver_Collect_def sample_policy_valid)
  with that shape show thesis by blast
qed

lemma closed_until_lifecycle_true_witness:
  "AggregateObserver_Observe ((aggregate_sample ''False'')\<lparr>ob_Network := \<lambda>_ _ w. (Inl (New ''unreachable''), w),
     ob_Platform := \<lambda>_ w. (Inl (New ''unreachable''), w)\<rparr>) sample_policy ()
   = AggregateObserver_Observe (aggregate_sample ''False'') sample_policy ()"
proof -
  obtain d where c: "ob_CAPI (aggregate_sample ''False'') sample_policy () = (Inr [sample_lifecycle ''False'' d], ())"
    using sample_collects [of "''False''"] by blast
  have r: "requiresAny (elems (po_Required sample_policy)) [''InfrastructureReady'', ''ControlPlaneAvailable'']"
    by (simp add: requiresAny_def sample_required)
  have "\<not> lifecycle_open sample_policy [sample_lifecycle ''False'' d]"
    by (simp add: lifecycle_open_def sample_required stated_def sample_lifecycle_def)
  then show ?thesis by (rule closed_until_lifecycle_true [OF r c])
qed



end
